(* ===== verification/Go_Prelude.thy ===== *)
theory Go_Prelude
  imports Main
    "HOL-Library.Finite_Map"
    "HOL-Library.List_Lexorder"
    "HOL-Library.Char_ord"
    "HOL-Library.Sublist"
    "HOL-Library.Signed_Division"
begin

text \<open>
  The Go language and standard library as the wkbench sources use them.

  \<^item> A Go \<open>string\<close> is a byte string, so it is HOL's \<open>string\<close> (a list of eight-bit characters);
    \<open><\<close> on strings is the bytewise lexicographic order that \<open>sort.Strings\<close> uses.
  \<^item> A Go map with string keys is a finite map \<open>(string, 'v) fmap\<close>; a nil map is the empty map.
    Ranging over a map has no order in Go; every modelled routine that ranges over one either
    sorts the keys first (\<open>map_keys\<close>) or computes something that does not depend on the order.
  \<^item> An \<open>error\<close> is a value of \<open>goerr\<close> that keeps the format string of the \<open>fmt.Errorf\<close>
    call and its operands, a wrapped error included; the nil error is \<open>None\<close>. A function
    returning \<open>(T, error)\<close> returns \<open>goerr + 'a\<close>.
  \<^item> Time instants and durations are integers counting nanoseconds.
\<close>

named_theorems wk_simps \<open>unfolding of the small helpers shared by the components\<close>

type_synonym 'v gomap = "(string, 'v) fmap"

section \<open>Errors\<close>

datatype goerr =
    Errorf string "goarg list"
  | Joined "goerr list"
and goarg = ArgS string | ArgI int | ArgE goerr

type_synonym 'a result = "goerr + 'a"

text \<open>\<open>errors.Join\<close>: nil operands are dropped, and joining only nils is nil.\<close>

definition errors_Join :: "goerr option list \<Rightarrow> goerr option" where
  "errors_Join es =
     (case map the (filter (\<lambda>e. e \<noteq> None) es) of [] \<Rightarrow> None | ws \<Rightarrow> Some (Joined ws))"

text \<open>\<open>errors.Is\<close>: the error itself, an error wrapped by \<open>%w\<close>, or one joined.\<close>

fun errors_Is :: "goerr \<Rightarrow> goerr \<Rightarrow> bool"
and args_Is :: "goarg list \<Rightarrow> goerr \<Rightarrow> bool"
and joined_Is :: "goerr list \<Rightarrow> goerr \<Rightarrow> bool" where
  "errors_Is (Errorf f as) t = (Errorf f as = t \<or> args_Is as t)"
| "errors_Is (Joined es) t = (Joined es = t \<or> joined_Is es t)"
| "args_Is [] t = False"
| "args_Is (ArgE e # as) t = (errors_Is e t \<or> args_Is as t)"
| "args_Is (ArgS _ # as) t = args_Is as t"
| "args_Is (ArgI _ # as) t = args_Is as t"
| "joined_Is [] t = False"
| "joined_Is (e # es) t = (errors_Is e t \<or> joined_Is es t)"

lemma errors_Join_None_iff [simp]: "errors_Join es = None \<longleftrightarrow> (\<forall>e\<in>set es. e = None)"
proof -
  have "errors_Join es = None \<longleftrightarrow> filter (\<lambda>e. e \<noteq> None) es = []"
    unfolding errors_Join_def by (cases "filter (\<lambda>e. e \<noteq> None) es") auto
  then show ?thesis by (simp add: filter_empty_conv)
qed

lemma errors_Join_pair_None [simp]:
  "errors_Join [a, b] = None \<longleftrightarrow> a = None \<and> b = None"
  by auto

lemma joined_Is_mem: "e \<in> set es \<Longrightarrow> errors_Is e t \<Longrightarrow> joined_Is es t"
  by (induction es) auto

lemma errors_Is_refl [simp]: "errors_Is e e"
  by (cases e) auto

text \<open>Joining never hides an operand: the joined error answers \<open>errors.Is\<close> for each of them.\<close>

lemma errors_Join_Is:
  assumes "errors_Join es = Some j" and "Some e \<in> set es" and "errors_Is e t"
  shows "errors_Is j t"
proof -
  let ?ws = "map the (filter (\<lambda>e. e \<noteq> None) es)"
  have e: "e \<in> set ?ws" using assms(2) by force
  have "j = Joined ?ws"
    using assms(1) unfolding errors_Join_def by (cases ?ws) auto
  with joined_Is_mem [OF e assms(3)] show ?thesis by simp
qed

section \<open>Integers\<close>

text \<open>\<open>int64\<close> arithmetic wraps; \<open>wrap64\<close> is written where a product or sum may leave the range.\<close>

definition wrap64 :: "int \<Rightarrow> int" where
  "wrap64 i = (i + 2 ^ 63) mod 2 ^ 64 - 2 ^ 63"

lemma wrap64_id: "- (2 ^ 63) \<le> i \<Longrightarrow> i < 2 ^ 63 \<Longrightarrow> wrap64 i = i"
  by (simp add: wrap64_def)

definition wrap32 :: "int \<Rightarrow> int" where
  "wrap32 i = (i + 2 ^ 31) mod 2 ^ 32 - 2 ^ 31"

lemma wrap32_id: "- (2 ^ 31) \<le> i \<Longrightarrow> i < 2 ^ 31 \<Longrightarrow> wrap32 i = i"
  by (simp add: wrap32_def)

lemma wrap64_range: "- (2 ^ 63) \<le> wrap64 i \<and> wrap64 i < 2 ^ 63"
  by (simp add: wrap64_def)

text \<open>The decimal rendering of \<open>%d\<close>.\<close>

fun nat_digits :: "nat \<Rightarrow> string" where
  "nat_digits n =
     (if n < 10 then [char_of (48 + n)] else nat_digits (n div 10) @ [char_of (48 + n mod 10)])"

declare nat_digits.simps [simp del]

definition itoa :: "int \<Rightarrow> string" where
  "itoa i = (if i < 0 then CHR ''-'' # nat_digits (nat (- i)) else nat_digits (nat i))"

definition digits_val :: "string \<Rightarrow> nat" where
  "digits_val s = foldl (\<lambda>a c. 10 * a + (of_char c - 48)) 0 s"

lemma digits_val_snoc: "digits_val (s @ [c]) = 10 * digits_val s + (of_char c - 48)"
  by (simp add: digits_val_def)

lemma of_char_digit: "d < 10 \<Longrightarrow> (of_char (char_of (48 + d) :: char) :: nat) = 48 + d"
  by (simp add: of_char_of)

lemma digits_val_nat_digits [simp]: "digits_val (nat_digits n) = n"
proof (induction n rule: nat_digits.induct)
  case (1 n)
  show ?case
  proof (cases "n < 10")
    case True
    then show ?thesis
      by (subst nat_digits.simps) (simp add: digits_val_def of_char_digit)
  next
    case False
    with 1 have "digits_val (nat_digits (n div 10)) = n div 10" by simp
    with False show ?thesis
      by (subst nat_digits.simps) (simp add: digits_val_snoc of_char_digit)
  qed
qed

lemma nat_digits_inject [simp]: "nat_digits m = nat_digits n \<longleftrightarrow> m = n"
  by (metis digits_val_nat_digits)

lemma nat_digits_nonempty [simp]: "nat_digits n \<noteq> []"
  by (subst nat_digits.simps) simp

lemma nat_digits_range: "c \<in> set (nat_digits n) \<Longrightarrow> 48 \<le> (of_char c :: nat) \<and> (of_char c :: nat) \<le> 57"
proof (induction n arbitrary: c rule: nat_digits.induct)
  case (1 n)
  show ?case
  proof (cases "n < 10")
    case True
    with "1.prems" have "c = char_of (48 + n)"
      by (subst (asm) nat_digits.simps) simp
    with True show ?thesis by (simp only: of_char_digit) simp
  next
    case False
    then consider "c \<in> set (nat_digits (n div 10))" | "c = char_of (48 + n mod 10)"
      using "1.prems" by (subst (asm) nat_digits.simps) auto
    then show ?thesis
    proof cases
      case 1
      with "1.IH" False show ?thesis by simp
    next
      case 2
      have "n mod 10 < 10" by simp
      with 2 show ?thesis by (simp only: of_char_digit) simp
    qed
  qed
qed

lemma nat_digits_no_minus: "CHR ''-'' \<notin> set (nat_digits n)"
  using nat_digits_range [of "CHR ''-''" n] by auto

lemma itoa_nonneg_inject: "0 \<le> i \<Longrightarrow> 0 \<le> j \<Longrightarrow> itoa i = itoa j \<longleftrightarrow> i = j"
  by (auto simp: itoa_def)

lemma itoa_inject [simp]: "itoa i = itoa j \<longleftrightarrow> i = j"
proof -
  have neq: "CHR ''-'' # s \<noteq> nat_digits n" for s n
    using nat_digits_no_minus [of n] by (metis list.set_intros(1))
  show ?thesis
    using neq neq [symmetric] by (auto simp: itoa_def)
qed

text \<open>Identifiers of the form \<open>fmt.Sprintf("%s-%d", prefix, n)\<close> are distinct for distinct n.\<close>

definition numbered :: "string \<Rightarrow> int \<Rightarrow> string" where
  "numbered pre n = pre @ ''-'' @ itoa n"

lemma numbered_inject [simp]: "numbered p m = numbered p n \<longleftrightarrow> m = n"
  by (simp add: numbered_def)

lemma numbered_nonempty [simp]: "numbered p n \<noteq> []"
  by (simp add: numbered_def)

end
