(* ===== verification/Go_Strings.thy ===== *)
theory Go_Strings
  imports Go_Prelude
begin

text \<open>
  The functions of Go's \<open>strings\<close> package that the sources call, on byte strings.
  White space is what \<open>unicode.IsSpace\<close> accepts, given by the UTF-8 encodings of those
  runes: a lead byte is never a continuation byte, so the encoded rune stands at a rune boundary
  exactly where its bytes occur, in valid and in invalid UTF-8 alike.
\<close>

section \<open>White space\<close>

definition space_runes :: "string list" where
  "space_runes =
     [[CHR 0x09], [CHR 0x0A], [CHR 0x0B], [CHR 0x0C], [CHR 0x0D], [CHR 0x20],
      [CHR 0xC2, CHR 0x85], [CHR 0xC2, CHR 0xA0], [CHR 0xE1, CHR 0x9A, CHR 0x80],
      [CHR 0xE2, CHR 0x80, CHR 0x80], [CHR 0xE2, CHR 0x80, CHR 0x81], [CHR 0xE2, CHR 0x80, CHR 0x82],
      [CHR 0xE2, CHR 0x80, CHR 0x83], [CHR 0xE2, CHR 0x80, CHR 0x84], [CHR 0xE2, CHR 0x80, CHR 0x85],
      [CHR 0xE2, CHR 0x80, CHR 0x86], [CHR 0xE2, CHR 0x80, CHR 0x87], [CHR 0xE2, CHR 0x80, CHR 0x88],
      [CHR 0xE2, CHR 0x80, CHR 0x89], [CHR 0xE2, CHR 0x80, CHR 0x8A], [CHR 0xE2, CHR 0x80, CHR 0xA8],
      [CHR 0xE2, CHR 0x80, CHR 0xA9], [CHR 0xE2, CHR 0x80, CHR 0xAF], [CHR 0xE2, CHR 0x81, CHR 0x9F],
      [CHR 0xE3, CHR 0x80, CHR 0x80]]"

text \<open>\<open>strip ws s\<close> drops leading words of \<open>ws\<close> as long as there is one.\<close>

function strip :: "string list \<Rightarrow> string \<Rightarrow> string" where
  "strip ws s =
     (case find (\<lambda>w. w \<noteq> [] \<and> prefix w s) ws of
        None \<Rightarrow> s
      | Some w \<Rightarrow> strip ws (drop (length w) s))"
  by pat_completeness auto
termination
proof (relation "measure (\<lambda>(ws, s). length s)")
  fix ws s w
  assume "find (\<lambda>w. w \<noteq> [] \<and> prefix w s) ws = Some w"
  then have "w \<noteq> [] \<and> prefix w s" by (auto simp: find_Some_iff)
  then have "w \<noteq> []" and "length w \<le> length s" by (auto dest: prefix_length_le)
  then have "length s - length w < length s"
    by (metis diff_less length_greater_0_conv order_less_le_trans)
  then show "((ws, drop (length w) s), (ws, s)) \<in> measure (\<lambda>(ws, s). length s)"
    by simp
qed auto

declare strip.simps [simp del]

definition TrimSpace :: "string \<Rightarrow> string" where
  "TrimSpace s = rev (strip (map rev space_runes) (rev (strip space_runes s)))"

definition starts_with_any :: "string list \<Rightarrow> string \<Rightarrow> bool" where
  "starts_with_any ws s \<longleftrightarrow> (\<exists>w\<in>set ws. w \<noteq> [] \<and> prefix w s)"

lemma starts_with_any_find:
  "starts_with_any ws s \<longleftrightarrow> find (\<lambda>w. w \<noteq> [] \<and> prefix w s) ws \<noteq> None"
  by (auto simp: starts_with_any_def find_None_iff)

lemma strip_done: "\<not> starts_with_any ws s \<Longrightarrow> strip ws s = s"
  by (subst strip.simps) (simp add: starts_with_any_find)

lemma strip_starts: "\<not> starts_with_any ws (strip ws s)"
proof (induction ws s rule: strip.induct)
  case (1 ws s)
  show ?case
  proof (cases "find (\<lambda>w. w \<noteq> [] \<and> prefix w s) ws")
    case None
    then have "\<not> starts_with_any ws s" by (simp only: starts_with_any_find) simp
    then show ?thesis by (simp add: strip_done)
  next
    case (Some w)
    with 1 show ?thesis by (subst strip.simps) simp
  qed
qed

lemma strip_idem [simp]: "strip ws (strip ws s) = strip ws s"
  by (rule strip_done) (rule strip_starts)

lemma suffix_strip: "suffix (strip ws s) s"
proof (induction ws s rule: strip.induct)
  case (1 ws s)
  show ?case
  proof (cases "find (\<lambda>w. w \<noteq> [] \<and> prefix w s) ws")
    case None
    then show ?thesis by (subst strip.simps) simp
  next
    case (Some w)
    with 1 have "suffix (strip ws (drop (length w) s)) (drop (length w) s)" by simp
    moreover have "suffix (drop (length w) s) s" by (rule suffix_drop)
    ultimately show ?thesis using Some
      by (subst strip.simps) (auto intro: suffix_order.order_trans)
  qed
qed

lemma starts_with_any_prefix: "starts_with_any ws p \<Longrightarrow> prefix p s \<Longrightarrow> starts_with_any ws s"
  by (auto simp: starts_with_any_def intro: prefix_order.order_trans)

text \<open>Trimming twice is trimming once, and what is left does not start with white space.\<close>

lemma TrimSpace_starts: "\<not> starts_with_any space_runes (TrimSpace s)"
proof -
  let ?l = "strip space_runes s"
  have "prefix (TrimSpace s) ?l"
    using suffix_strip [of "map rev space_runes" "rev ?l"]
    by (simp add: TrimSpace_def suffix_to_prefix)
  with strip_starts [of space_runes s] show ?thesis
    using starts_with_any_prefix by blast
qed

lemma TrimSpace_idem [simp]: "TrimSpace (TrimSpace s) = TrimSpace s"
proof -
  have "strip space_runes (TrimSpace s) = TrimSpace s"
    by (rule strip_done) (rule TrimSpace_starts)
  then show ?thesis
    by (simp add: TrimSpace_def)
qed

lemma TrimSpace_Nil [simp]: "TrimSpace [] = []"
  by code_simp

text \<open>Trimming keeps what is not white space.\<close>

lemma strip_keeps: "c \<in> set s \<Longrightarrow> \<forall>w\<in>set ws. c \<notin> set w \<Longrightarrow> c \<in> set (strip ws s)"
proof (induction ws s rule: strip.induct)
  case (1 ws s)
  show ?case
  proof (cases "find (\<lambda>w. w \<noteq> [] \<and> prefix w s) ws")
    case None
    with 1 show ?thesis by (subst strip.simps) simp
  next
    case (Some w)
    then have "w \<in> set ws" "prefix w s" by (auto simp: find_Some_iff)
    with 1 have "c \<in> set (drop (length w) s)" by (auto simp: prefix_def)
    with 1 Some show ?thesis by (subst strip.simps) simp
  qed
qed

lemma TrimSpace_keeps: "c \<in> set s \<Longrightarrow> \<forall>w\<in>set space_runes. c \<notin> set w \<Longrightarrow> c \<in> set (TrimSpace s)"
  using strip_keeps [of c "rev (strip space_runes s)" "map rev space_runes"] strip_keeps [of c s space_runes]
  by (simp add: TrimSpace_def)

definition containsWhitespace :: "string \<Rightarrow> bool" where
  "containsWhitespace v = list_ex (\<lambda>w. sublist w v) space_runes"

section \<open>Searching and splitting\<close>

definition Contains :: "string \<Rightarrow> string \<Rightarrow> bool" where
  "Contains s sub = sublist sub s"

definition ContainsAny :: "string \<Rightarrow> string \<Rightarrow> bool" where
  "ContainsAny s chars = list_ex (\<lambda>c. c \<in> set chars) s"

fun IndexByte :: "string \<Rightarrow> char \<Rightarrow> nat option" where
  "IndexByte [] c = None"
| "IndexByte (x # xs) c = (if x = c then Some 0 else map_option Suc (IndexByte xs c))"

text \<open>\<open>strings.Cut\<close> at a one-byte separator: the part before, the part after, whether it occurs.\<close>

fun Cut :: "string \<Rightarrow> char \<Rightarrow> string \<times> string \<times> bool" where
  "Cut [] c = ([], [], False)"
| "Cut (x # xs) c =
     (if x = c then ([], xs, True) else (case Cut xs c of (b, a, f) \<Rightarrow> (x # b, a, f)))"

fun Split :: "string \<Rightarrow> char \<Rightarrow> string list" where
  "Split [] c = [[]]"
| "Split (x # xs) c =
     (if x = c then [] # Split xs c
      else (case Split xs c of [] \<Rightarrow> [[x]] | p # ps \<Rightarrow> (x # p) # ps))"

fun strings_Join :: "string list \<Rightarrow> string \<Rightarrow> string" where
  "strings_Join [] sep = []"
| "strings_Join [s] sep = s"
| "strings_Join (s # t # ss) sep = s @ sep @ strings_Join (t # ss) sep"

text \<open>\<open>strings.Fields\<close>: the maximal pieces without white space.\<close>

fun fields_from :: "string \<Rightarrow> string \<Rightarrow> nat \<Rightarrow> string list" where
  "fields_from [] acc skip = (if acc = [] then [] else [rev acc])"
| "fields_from (c # s) acc (Suc skip) = fields_from s acc skip"
| "fields_from (c # s) acc 0 =
     (case find (\<lambda>w. prefix w (c # s)) space_runes of
        Some w \<Rightarrow> (if acc = [] then [] else [rev acc]) @ fields_from s [] (length w - 1)
      | None \<Rightarrow> fields_from s (c # acc) 0)"

definition Fields :: "string \<Rightarrow> string list" where
  "Fields s = fields_from s [] 0"

definition TrimLeftByte :: "string \<Rightarrow> char \<Rightarrow> string" where
  "TrimLeftByte s c = dropWhile (\<lambda>x. x = c) s"

definition TrimRightByte :: "string \<Rightarrow> char \<Rightarrow> string" where
  "TrimRightByte s c = rev (dropWhile (\<lambda>x. x = c) (rev s))"

text \<open>The index of the last occurrence of \<open>sub\<close>.\<close>

fun LastIndex :: "string \<Rightarrow> string \<Rightarrow> nat option" where
  "LastIndex [] sub = (if sub = [] then Some 0 else None)"
| "LastIndex (x # xs) sub =
     (case LastIndex xs sub of
        Some i \<Rightarrow> Some (Suc i)
      | None \<Rightarrow> (if prefix sub (x # xs) then Some 0 else None))"

lemma Split_nonempty [simp]: "Split s c \<noteq> []"
  by (induction s) (auto split: list.splits)

lemma Split_no_sep: "c \<notin> set s \<Longrightarrow> Split s c = [s]"
  by (induction s) auto

lemma Split_append: "c \<notin> set p \<Longrightarrow> Split (p @ c # s) c = p # Split s c"
  by (induction p) (auto split: list.splits)

lemma Split_no_sep_parts: "p \<in> set (Split s c) \<Longrightarrow> c \<notin> set p"
  by (induction s arbitrary: p) (auto split: list.splits if_splits)

lemma Join_Split: "strings_Join (Split s c) [c] = s"
proof (induction s)
  case Nil
  show ?case by simp
next
  case (Cons x xs)
  obtain p ps where sp: "Split xs c = p # ps"
    using Split_nonempty [of xs c] by (cases "Split xs c") auto
  with Cons show ?case by (cases ps) auto
qed

lemma Cut_found: "Cut s c = (b, a, True) \<Longrightarrow> s = b @ c # a \<and> c \<notin> set b"
  by (induction s arbitrary: b) (auto split: if_splits prod.splits)

lemma Cut_not_found: "Cut s c = (b, a, False) \<Longrightarrow> c \<notin> set s \<and> b = s \<and> a = []"
  by (induction s arbitrary: b) (auto split: if_splits prod.splits)

lemma Cut_append: "c \<notin> set b \<Longrightarrow> Cut (b @ c # a) c = (b, a, True)"
  by (induction b) auto

section \<open>Maps with string keys\<close>

text \<open>
  The loop \<open>for key := range m\<close> followed by \<open>sort.Strings\<close>: the keys in ascending order.
\<close>

definition map_keys :: "'v gomap \<Rightarrow> string list" where
  "map_keys m = sorted_list_of_fset (fmdom m)"

lemma set_map_keys [simp]: "set (map_keys m) = fset (fmdom m)"
  by (simp add: map_keys_def)

lemma sorted_map_keys [simp]: "sorted (map_keys m)"
  by (simp add: map_keys_def sorted_list_of_fset.rep_eq)

lemma distinct_map_keys [simp]: "distinct (map_keys m)"
  by (simp add: map_keys_def sorted_list_of_fset.rep_eq)

lemma map_keys_empty [simp]: "map_keys fmempty = []"
  by (simp add: map_keys_def sorted_list_of_fset.rep_eq)

lemma map_keys_Nil_iff [simp]: "map_keys m = [] \<longleftrightarrow> m = fmempty"
proof
  assume "map_keys m = []"
  then have "fset (fmdom m) = {}" by (metis set_map_keys empty_set)
  then have "fmlookup m x = None" for x by (metis emptyE fmdomI not_None_eq)
  then show "m = fmempty" by (intro fmap_ext) simp
qed simp

lemma map_keys_unique:
  assumes "sorted ks" and "distinct ks" and "set ks = fset (fmdom m)"
  shows "map_keys m = ks"
  using assms by (intro sorted_distinct_set_unique) auto

text \<open>The number of entries.\<close>

definition map_len :: "'v gomap \<Rightarrow> nat" where
  "map_len m = length (map_keys m)"

lemma map_len_0_iff [simp]: "map_len m = 0 \<longleftrightarrow> m = fmempty"
  by (simp add: map_len_def)

lemma map_len_card: "map_len m = card (fset (fmdom m))"
  by (simp add: map_len_def flip: set_map_keys distinct_card)

lemma map_len_update:
  "map_len (fmupd k v m) = (if fmlookup m k = None then Suc (map_len m) else map_len m)"
  by (auto simp: map_len_card card_insert_if fmlookup_dom_iff)

text \<open>Building a map from a list, later entries overwriting earlier ones.\<close>

fun map_collect :: "('a \<Rightarrow> string) \<Rightarrow> ('a \<Rightarrow> 'v) \<Rightarrow> 'a list \<Rightarrow> 'v gomap \<Rightarrow> 'v gomap" where
  "map_collect k v [] m = m"
| "map_collect k v (x # xs) m = map_collect k v xs (fmupd (k x) (v x) m)"

lemma fmdom_map_collect: "fset (fmdom (map_collect k v xs m)) = fset (fmdom m) \<union> k ` set xs"
  by (induction xs arbitrary: m) auto

lemma map_collect_lookup_notin:
  "key \<notin> k ` set xs \<Longrightarrow> fmlookup (map_collect k v xs m) key = fmlookup m key"
  by (induction xs arbitrary: m) auto

lemma map_collect_lookup_distinct:
  "distinct (map k xs) \<Longrightarrow> x \<in> set xs \<Longrightarrow> fmlookup (map_collect k v xs m) (k x) = Some (v x)"
proof (induction xs arbitrary: m)
  case (Cons y ys)
  show ?case
  proof (cases "x = y")
    case True
    with Cons.prems show ?thesis by (simp add: map_collect_lookup_notin)
  next
    case False
    with Cons show ?thesis by simp
  qed
qed simp

lemma map_collect_lookup_Some:
  "fmlookup (map_collect k v xs m) key = Some w \<Longrightarrow>
   fmlookup m key = Some w \<or> (\<exists>x\<in>set xs. k x = key \<and> v x = w)"
  by (induction xs arbitrary: m) (fastforce split: if_splits)+

section \<open>Prefixes and suffixes\<close>

definition TrimPrefix :: "string \<Rightarrow> string \<Rightarrow> string" where
  "TrimPrefix s p = (if prefix p s then drop (length p) s else s)"

definition TrimSuffix :: "string \<Rightarrow> string \<Rightarrow> string" where
  "TrimSuffix s p = (if suffix p s then take (length s - length p) s else s)"

lemma TrimSuffix_append [simp]: "TrimSuffix (s @ p) p = s"
  by (simp add: TrimSuffix_def suffix_def)

lemma TrimSuffix_none: "\<not> suffix p s \<Longrightarrow> TrimSuffix s p = s"
  by (simp add: TrimSuffix_def)

end
