(* ===== verification/Go_Paths.thy ===== *)
theory Go_Paths
  imports Go_Strings
begin

text \<open>
  Two more pieces of the Go standard library: \<open>url.QueryEscape\<close>, which the metric keys use, and
  \<open>path.Clean\<close> / \<open>path.Join\<close> (\<open>filepath.Join\<close> is the same on the Unix hosts wkbench runs on),
  which the artifact paths use.
\<close>

section \<open>Query escaping\<close>

definition unreserved :: "char \<Rightarrow> bool" where
  "unreserved c \<longleftrightarrow>
     (let n = (of_char c :: nat)
      in 48 \<le> n \<and> n \<le> 57 \<or> 65 \<le> n \<and> n \<le> 90 \<or> 97 \<le> n \<and> n \<le> 122 \<or>
         c \<in> {CHR ''-'', CHR ''_'', CHR ''.'', CHR ''~''})"

definition hex_digit :: "nat \<Rightarrow> char" where
  "hex_digit n = ''0123456789ABCDEF'' ! n"

definition hex_val :: "char \<Rightarrow> nat" where
  "hex_val c = (let n = of_char c in if n \<le> 57 then n - 48 else n - 55)"

definition escape_byte :: "char \<Rightarrow> string" where
  "escape_byte c =
     (if c = CHR '' '' then ''+''
      else if unreserved c then [c]
      else [CHR ''%'', hex_digit (of_char c div 16), hex_digit (of_char c mod 16)])"

definition QueryEscape :: "string \<Rightarrow> string" where
  "QueryEscape s = concat (map escape_byte s)"

fun QueryUnescape :: "string \<Rightarrow> string" where
  "QueryUnescape [] = []"
| "QueryUnescape (c # s) =
     (if c = CHR ''+'' then CHR '' '' # QueryUnescape s
      else if c = CHR ''%'' then
        (case s of a # b # t \<Rightarrow> char_of (16 * hex_val a + hex_val b) # QueryUnescape t | _ \<Rightarrow> [])
      else c # QueryUnescape s)"

lemma hex_val_digit: "n < 16 \<Longrightarrow> hex_val (hex_digit n) = n"
proof -
  assume "n < 16"
  then have "n \<in> set [0..<16]" by simp
  moreover have "\<forall>n\<in>set [0..<16]. hex_val (hex_digit n) = n" by code_simp
  ultimately show ?thesis by blast
qed

lemma of_char_div16: "(of_char c :: nat) div 16 < 16"
proof -
  have "(of_char c :: nat) < 256" by simp
  then show ?thesis by linarith
qed

lemma unreserved_special:
  "\<not> unreserved (CHR ''%'')" "\<not> unreserved (CHR ''+'')"
  by code_simp+

lemma QueryUnescape_escape_byte:
  "QueryUnescape (escape_byte c @ s) = c # QueryUnescape s"
proof (cases "c = CHR '' '' \<or> unreserved c")
  case True
  then show ?thesis using unreserved_special by (auto simp: escape_byte_def)
next
  case False
  have "16 * hex_val (hex_digit (of_char c div 16)) + hex_val (hex_digit (of_char c mod 16)) =
      (of_char c :: nat)"
    using of_char_div16 [of c] by (simp add: hex_val_digit)
  then have "char_of (16 * hex_val (hex_digit (of_char c div 16)) +
      hex_val (hex_digit (of_char c mod 16))) = c"
    by (metis char_of_char)
  with False show ?thesis by (simp add: escape_byte_def)
qed

lemma QueryUnescape_QueryEscape [simp]: "QueryUnescape (QueryEscape s) = s"
  by (induction s) (simp_all add: QueryEscape_def QueryUnescape_escape_byte)

lemma QueryEscape_inject [simp]: "QueryEscape s = QueryEscape t \<longleftrightarrow> s = t"
  by (metis QueryUnescape_QueryEscape)

lemma hex_digit_unreserved: "n < 16 \<Longrightarrow> unreserved (hex_digit n)"
proof -
  assume "n < 16"
  then have "n \<in> set [0..<16]" by simp
  moreover have "\<forall>n\<in>set [0..<16]. unreserved (hex_digit n)" by code_simp
  ultimately show ?thesis by blast
qed

lemma QueryEscape_chars:
  assumes "x \<in> set (QueryEscape s)"
  shows "unreserved x \<or> x = CHR ''+'' \<or> x = CHR ''%''"
proof -
  obtain c where "c \<in> set s" "x \<in> set (escape_byte c)"
    using assms by (auto simp: QueryEscape_def)
  then show ?thesis
    using of_char_div16 [of c]
    by (auto simp: escape_byte_def hex_digit_unreserved split: if_splits)
qed

lemma QueryEscape_not_in:
  "CHR ''='' \<notin> set (QueryEscape s)" "CHR '','' \<notin> set (QueryEscape s)"
  "CHR ''{'' \<notin> set (QueryEscape s)" "CHR ''}'' \<notin> set (QueryEscape s)"
proof -
  have "\<not> unreserved (CHR ''='')" "\<not> unreserved (CHR '','')"
    "\<not> unreserved (CHR ''{'')" "\<not> unreserved (CHR ''}'')" by code_simp+
  then show "CHR ''='' \<notin> set (QueryEscape s)" "CHR '','' \<notin> set (QueryEscape s)"
    "CHR ''{'' \<notin> set (QueryEscape s)" "CHR ''}'' \<notin> set (QueryEscape s)"
    using QueryEscape_chars [of _ s] by auto
qed

section \<open>Slash-separated paths\<close>

definition clean_step :: "bool \<Rightarrow> string list \<Rightarrow> string \<Rightarrow> string list" where
  "clean_step rooted stack elem =
     (if elem = [] \<or> elem = ''.'' then stack
      else if elem = ''..'' then
        (if stack \<noteq> [] \<and> hd stack \<noteq> ''..'' then tl stack
         else if rooted then stack else elem # stack)
      else elem # stack)"

definition path_Clean :: "string \<Rightarrow> string" where
  "path_Clean p =
     (let rooted = prefix ''/'' p;
          elems = rev (foldl (clean_step rooted) [] (Split p (CHR ''/'')))
      in if rooted then CHR ''/'' # strings_Join elems ''/''
         else if elems = [] then ''.'' else strings_Join elems ''/'')"

definition path_Join :: "string list \<Rightarrow> string" where
  "path_Join elems =
     (let es = dropWhile (\<lambda>e. e = []) elems
      in if es = [] then [] else path_Clean (strings_Join es ''/''))"

text \<open>A path segment that names a file of its own directory.\<close>

definition simple_segment :: "string \<Rightarrow> bool" where
  "simple_segment s \<longleftrightarrow> s \<noteq> [] \<and> s \<noteq> ''.'' \<and> s \<noteq> ''..'' \<and> CHR ''/'' \<notin> set s"

lemma Split_Join_segments:
  "ss \<noteq> [] \<Longrightarrow> \<forall>s\<in>set ss. c \<notin> set s \<Longrightarrow> Split (strings_Join ss [c]) c = ss"
proof (induction ss)
  case (Cons s ss)
  then show ?case
    by (cases ss) (simp_all add: Split_no_sep Split_append)
qed simp

lemma clean_simple:
  "\<forall>s\<in>set ss. simple_segment s \<Longrightarrow> foldl (clean_step r) st ss = rev ss @ st"
  by (induction ss arbitrary: st) (auto simp: clean_step_def simple_segment_def)

lemma path_Join_simple:
  assumes "ss \<noteq> []" and "\<forall>s\<in>set ss. simple_segment s"
  shows "path_Join ss = strings_Join ss ''/''"
proof -
  have ne: "dropWhile (\<lambda>e. e = []) ss = ss"
    using assms by (cases ss) (auto simp: simple_segment_def)
  have sl: "\<forall>s\<in>set ss. CHR ''/'' \<notin> set s" using assms(2) by (auto simp: simple_segment_def)
  have split: "Split (strings_Join ss ''/'') (CHR ''/'') = ss"
    by (rule Split_Join_segments) (use assms sl in auto)
  have "\<not> prefix ''/'' (strings_Join ss ''/'')"
  proof -
    obtain s rest where "ss = s # rest" using assms(1) by (cases ss) auto
    moreover obtain c s' where "s = c # s'" "c \<noteq> CHR ''/''"
      using assms(2) calculation by (cases s) (auto simp: simple_segment_def)
    ultimately show ?thesis by (cases rest) auto
  qed
  then have "path_Clean (strings_Join ss ''/'') = strings_Join ss ''/''"
    using assms clean_simple [OF assms(2)] by (simp add: path_Clean_def split)
  with assms(1) ne show ?thesis by (simp add: path_Join_def)
qed

end
