(* ===== verification/Go_Float.thy ===== *)
theory Go_Float
  imports Complex_Main Go_Prelude
begin

text \<open>
  Go's \<open>float64\<close>: IEEE 754 binary64 with rounding to nearest, ties to even. A finite value is the
  rational it denotes; the sign of zero is not kept, since no modelled routine divides by a zero or
  prints one. Every operation computes the exact result and rounds it once. The model is that of a
  compiler that does not fuse a multiplication with an addition.
\<close>

datatype float64 = Fin rat | PosInf | NegInf | NaN

section \<open>Rounding\<close>

text \<open>The bit length of a natural number, and the binary exponent of a positive rational.\<close>

fun bitlen :: "nat \<Rightarrow> nat" where
  "bitlen n = (if n = 0 then 0 else Suc (bitlen (n div 2)))"

declare bitlen.simps [simp del]

definition pow2 :: "int \<Rightarrow> rat" where
  "pow2 e = (if 0 \<le> e then 2 ^ nat e else 1 / 2 ^ nat (- e))"

definition ilog2 :: "rat \<Rightarrow> int" where
  "ilog2 x =
     (let (p, q) = quotient_of x; e = int (bitlen (nat p)) - int (bitlen (nat q))
      in if x < pow2 e then e - 1 else e)"

definition round_half_even :: "rat \<Rightarrow> int" where
  "round_half_even x =
     (let f = \<lfloor>x\<rfloor>; d = x - of_int f
      in if d < 1 / 2 then f else if 1 / 2 < d then f + 1 else if even f then f else f + 1)"

text \<open>The spacing of the values around \<open>x\<close>: 53 significant bits, at least the subnormal spacing.\<close>

definition ulp_exp :: "rat \<Rightarrow> int" where
  "ulp_exp x = max (ilog2 \<bar>x\<bar> - 52) (- 1074)"

definition fround :: "rat \<Rightarrow> float64" where
  "fround x =
     (if x = 0 then Fin 0
      else let u = pow2 (ulp_exp x); r = of_int (round_half_even (x / u)) * u
           in if \<bar>r\<bar> < 2 ^ 1024 then Fin r else if 0 < x then PosInf else NegInf)"

section \<open>Arithmetic and comparison\<close>

instantiation float64 :: "{zero, one, plus, minus, uminus, times, inverse, ord}"
begin

definition zero_float64 :: float64 where "0 = Fin 0"

definition one_float64 :: float64 where "1 = Fin 1"

fun plus_float64 :: "float64 \<Rightarrow> float64 \<Rightarrow> float64" where
  "Fin a + Fin b = fround (a + b)"
| "NaN + y = NaN"
| "x + NaN = NaN"
| "PosInf + NegInf = NaN"
| "NegInf + PosInf = NaN"
| "PosInf + y = PosInf"
| "NegInf + y = NegInf"
| "x + PosInf = PosInf"
| "x + NegInf = NegInf"

fun uminus_float64 :: "float64 \<Rightarrow> float64" where
  "- Fin a = Fin (- a)"
| "- PosInf = NegInf"
| "- NegInf = PosInf"
| "- NaN = NaN"

definition minus_float64 :: "float64 \<Rightarrow> float64 \<Rightarrow> float64" where
  "x - y = x + (- y)" for x y :: float64

definition inf_signed :: "bool \<Rightarrow> float64" where
  "inf_signed pos = (if pos then PosInf else NegInf)"

fun times_float64 :: "float64 \<Rightarrow> float64 \<Rightarrow> float64" where
  "Fin a * Fin b = fround (a * b)"
| "NaN * y = NaN"
| "x * NaN = NaN"
| "Fin a * PosInf = (if a = 0 then NaN else inf_signed (0 < a))"
| "Fin a * NegInf = (if a = 0 then NaN else inf_signed (a < 0))"
| "PosInf * Fin b = (if b = 0 then NaN else inf_signed (0 < b))"
| "NegInf * Fin b = (if b = 0 then NaN else inf_signed (b < 0))"
| "PosInf * PosInf = PosInf"
| "PosInf * NegInf = NegInf"
| "NegInf * PosInf = NegInf"
| "NegInf * NegInf = PosInf"

text \<open>A zero divisor counts as positive zero.\<close>

fun divide_float64 :: "float64 \<Rightarrow> float64 \<Rightarrow> float64" where
  "(Fin a :: float64) div Fin b =
     (if b = 0 then (if a = 0 then NaN else inf_signed (0 < a)) else fround (a / b))"
| "NaN div y = NaN"
| "x div NaN = NaN"
| "Fin a div PosInf = Fin 0"
| "Fin a div NegInf = Fin 0"
| "PosInf div Fin b = inf_signed (0 \<le> b)"
| "NegInf div Fin b = inf_signed (b < 0)"
| "PosInf div PosInf = NaN"
| "PosInf div NegInf = NaN"
| "NegInf div PosInf = NaN"
| "NegInf div NegInf = NaN"

definition inverse_float64 :: "float64 \<Rightarrow> float64" where
  "inverse x = Fin 1 div x" for x :: float64

fun less_float64 :: "float64 \<Rightarrow> float64 \<Rightarrow> bool" where
  "(Fin a < Fin b) = (a < b)"
| "(NaN < y) = False"
| "(x < NaN) = False"
| "(PosInf < y) = False"
| "(x < NegInf) = False"
| "(NegInf < y) = True"
| "(x < PosInf) = True"

fun less_eq_float64 :: "float64 \<Rightarrow> float64 \<Rightarrow> bool" where
  "(Fin a \<le> Fin b) = (a \<le> b)"
| "(NaN \<le> y) = False"
| "(x \<le> NaN) = False"
| "(NegInf \<le> y) = True"
| "(x \<le> PosInf) = True"
| "(PosInf \<le> y) = False"
| "(x \<le> NegInf) = False"

instance ..

end

text \<open>Go's \<open>==\<close> on floats: a NaN equals nothing, itself included.\<close>

definition feq :: "float64 \<Rightarrow> float64 \<Rightarrow> bool" where
  "feq x y \<longleftrightarrow> x = y \<and> x \<noteq> NaN"

definition is_finite :: "float64 \<Rightarrow> bool" where
  "is_finite x \<longleftrightarrow> (case x of Fin _ \<Rightarrow> True | _ \<Rightarrow> False)"

section \<open>Conversions\<close>

text \<open>\<open>float64(i)\<close> of an integer.\<close>

definition float_of_int :: "int \<Rightarrow> float64" where
  "float_of_int i = fround (of_int i)"

text \<open>
  \<open>int64(x)\<close> truncates towards zero. The language leaves the result of an unrepresentable
  conversion to the implementation: it is the argument \<open>oor\<close>.
\<close>

definition int64_of_float :: "(float64 \<Rightarrow> int) \<Rightarrow> float64 \<Rightarrow> int" where
  "int64_of_float oor x =
     (case x of
        Fin a \<Rightarrow>
          (let t = (if 0 \<le> a then \<lfloor>a\<rfloor> else \<lceil>a\<rceil>)
           in if - (2 ^ 63) \<le> t \<and> t < 2 ^ 63 then t else oor x)
      | _ \<Rightarrow> oor x)"

text \<open>\<open>math.Round\<close>: to the nearest integer, halves away from zero.\<close>

definition math_Round :: "float64 \<Rightarrow> float64" where
  "math_Round x =
     (case x of
        Fin a \<Rightarrow> Fin (of_int (if 0 \<le> a then \<lfloor>a + 1 / 2\<rfloor> else \<lceil>a - 1 / 2\<rceil>))
      | _ \<Rightarrow> x)"

text \<open>\<open>time.Duration.Seconds\<close> of a duration in nanoseconds.\<close>

definition Seconds :: "int \<Rightarrow> float64" where
  "Seconds d =
     float_of_int (d sdiv 1000000000) + float_of_int (d smod 1000000000) / Fin 1000000000"

section \<open>Facts\<close>

lemma pow2_pos [simp]: "0 < pow2 e"
  by (simp add: pow2_def)

lemma fround_0 [simp]: "fround 0 = Fin 0"
  by (simp add: fround_def)

lemma round_half_even_int [simp]: "round_half_even (of_int i) = i"
  by (simp add: round_half_even_def)

lemma bitlen_bounds: "0 < n \<Longrightarrow> 2 ^ (bitlen n - 1) \<le> n \<and> n < 2 ^ bitlen n"
proof (induction n rule: bitlen.induct)
  case (1 n)
  show ?case
  proof (cases "n div 2 = 0")
    case True
    with 1 have "n = 1" by auto
    then show ?thesis by (simp add: bitlen.simps)
  next
    case False
    with 1 have IH: "2 ^ (bitlen (n div 2) - 1) \<le> n div 2" "n div 2 < 2 ^ bitlen (n div 2)"
      by auto
    from False have b: "bitlen n = Suc (bitlen (n div 2))" "0 < bitlen (n div 2)"
      by (simp_all add: bitlen.simps [of n] bitlen.simps [of "n div 2"])
    then obtain k where k: "bitlen (n div 2) = Suc k" by (cases "bitlen (n div 2)") auto
    from IH have "2 ^ k \<le> n div 2" "n div 2 < 2 * 2 ^ k" by (simp_all add: k)
    then have "2 * 2 ^ k \<le> n" and "n < 4 * 2 ^ k" by linarith+
    with b k show ?thesis by simp
  qed
qed

lemma bitlen_1 [simp]: "bitlen (Suc 0) = 1"
  by (simp add: bitlen.simps)

text \<open>Integers of at most 53 bits are represented exactly.\<close>

lemma ilog2_int:
  assumes "0 < i" and "i < 2 ^ 53"
  shows "ilog2 (of_int i) \<le> 52" and "0 \<le> ilog2 (of_int i)"
proof -
  let ?b = "bitlen (nat i)"
  have b: "2 ^ (?b - 1) \<le> nat i" "nat i < 2 ^ ?b" using bitlen_bounds [of "nat i"] assms(1) by auto
  have "0 < ?b" using assms(1) by (simp add: bitlen.simps)
  have "nat i < 2 ^ 53" using assms by (simp add: nat_less_iff)
  with b(1) have "(2::nat) ^ (?b - 1) < 2 ^ 53" by (rule le_less_trans)
  then have "?b - 1 < 53" by (simp only: power_strict_increasing_iff)
  then have le: "?b \<le> 53" by simp
  have "(of_nat (nat i) :: rat) < of_nat (2 ^ ?b)" using b(2) by (simp only: of_nat_less_iff)
  moreover have "(of_nat (nat i) :: rat) = of_int i" using assms(1) by simp
  ultimately have lt: "(of_int i :: rat) < 2 ^ ?b" by simp
  have q: "quotient_of (of_int i) = (i, 1)" by (simp add: quotient_of_int)
  have e: "ilog2 (of_int i) = (if of_int i < pow2 (int ?b - 1) then int ?b - 2 else int ?b - 1)"
    by (simp add: ilog2_def q Let_def)
  have p: "pow2 (int ?b - 1) = 2 ^ (?b - 1)" using \<open>0 < ?b\<close> by (simp add: pow2_def nat_diff_distrib)
  have "(of_nat (2 ^ (?b - 1)) :: rat) \<le> of_nat (nat i)" using b(1) by (simp only: of_nat_le_iff)
  then have "(2 :: rat) ^ (?b - 1) \<le> of_int i" using assms(1) by simp
  then have "\<not> of_int i < pow2 (int ?b - 1)" using p by simp
  then have "ilog2 (of_int i) = int ?b - 1" using e by simp
  then show "ilog2 (of_int i) \<le> 52" and "0 \<le> ilog2 (of_int i)"
    using le \<open>0 < ?b\<close> by auto
qed

lemma fround_int:
  assumes "\<bar>i\<bar> < 2 ^ 53"
  shows "fround (of_int i) = Fin (of_int i)"
proof (cases "i = 0")
  case True
  then show ?thesis by simp
next
  case False
  let ?x = "of_int i :: rat"
  define e where "e = ulp_exp ?x"
  have log: "ilog2 \<bar>?x\<bar> \<le> 52"
    using ilog2_int [of "\<bar>i\<bar>"] False assms by simp
  then have e: "e \<le> 0" by (simp add: e_def ulp_exp_def)
  have u: "pow2 e = 1 / 2 ^ nat (- e)" using e by (cases "e = 0") (auto simp: pow2_def)
  have "?x / pow2 e = of_int (i * 2 ^ nat (- e))" by (simp add: u)
  then have r: "of_int (round_half_even (?x / pow2 e)) * pow2 e = ?x"
    by (simp only: round_half_even_int) (simp add: u)
  have "(of_int \<bar>i\<bar> :: rat) < of_int (2 ^ 53)" using assms by (simp only: of_int_less_iff)
  also have "(of_int (2 ^ 53) :: rat) \<le> 2 ^ 1024" by simp
  finally have "\<bar>?x\<bar> < 2 ^ 1024" by simp
  with False r show ?thesis by (simp add: fround_def Let_def flip: e_def)
qed

lemma float_of_int_exact [simp]: "\<bar>i\<bar> < 2 ^ 53 \<Longrightarrow> float_of_int i = Fin (of_int i)"
  by (simp add: float_of_int_def fround_int)

lemma fround_numeral [simp]: "numeral w < (2 ^ 53 :: int) \<Longrightarrow> fround (numeral w) = Fin (numeral w)"
  using fround_int [of "numeral w"] by simp

lemma fround_1 [simp]: "fround 1 = Fin 1"
  using fround_int [of 1] by simp

end
