(* ===== verification/Contract.thy ===== *)
theory Contract
  imports Go_Paths Go_Float
begin

text \<open>
  \<open>benchkit/contract/types.go\<close>: the unit API shared by the kernel and the units. It holds the
  static contract of a unit (\<open>UnitDef\<close>, Go's \<open>Definition\<close>), the port metadata with its defaults,
  the rules for artifact names, the metric key, and \<open>TestRunEnv\<close>, the in-memory run environment
  that the plugin host and the unit tests use. The Go values of type \<open>any\<close> are a type parameter.
\<close>

section \<open>Static contracts\<close>

definition PortBoundaryData :: string where [wk_simps]: "PortBoundaryData = ''data''"
definition PortBoundaryStreamCapability :: string where
  [wk_simps]: "PortBoundaryStreamCapability = ''stream_capability''"
definition PortBoundaryLocalResource :: string where
  [wk_simps]: "PortBoundaryLocalResource = ''local_resource''"
definition PortTransportInline :: string where [wk_simps]: "PortTransportInline = ''inline''"
definition PortTransportPaged :: string where [wk_simps]: "PortTransportPaged = ''paged''"
definition PortTransportArtifactRef :: string where
  [wk_simps]: "PortTransportArtifactRef = ''artifact_ref''"

definition DefaultInlinePortMaxPayloadBytes :: int where
  "DefaultInlinePortMaxPayloadBytes = 2 ^ 20"
definition DefaultReportableOutputMaxBytes :: int where
  "DefaultReportableOutputMaxBytes = 64 * 2 ^ 10"

record PortMeta =
  pm_Boundary :: string
  pm_Transport :: string
  pm_Schema :: string
  pm_Encodings :: "string list"
  pm_MaxPayloadBytes :: int
  pm_Sensitive :: bool
  pm_Reportable :: bool
  pm_Operations :: "string list"

record PortDef =
  pd_Name :: string
  pd_Type :: string
  pd_Optional :: bool
  pd_Meta :: PortMeta

record MetricDef =
  md_Name :: string
  md_Type :: string

record ArtifactDef =
  ad_Name :: string
  ad_ContentType :: string

record UnitDef =
  ud_Kind :: string
  ud_Title :: string
  ud_Description :: string
  ud_Inputs :: "PortDef list"
  ud_Outputs :: "PortDef list"
  ud_Metrics :: "MetricDef list"
  ud_Artifacts :: "ArtifactDef list"

type_synonym Labels = "string gomap"

record MetricSnapshot =
  ms_Name :: string
  ms_Type :: string
  ms_Labels :: Labels
  ms_Count :: int
  ms_Sum :: float64
  ms_Min :: float64
  ms_Max :: float64

record ArtifactInfo =
  ai_Path :: string
  ai_ContentType :: string
  ai_SizeBytes :: int

definition empty_PortMeta :: PortMeta where
  "empty_PortMeta =
     \<lparr>pm_Boundary = [], pm_Transport = [], pm_Schema = [], pm_Encodings = [],
      pm_MaxPayloadBytes = 0, pm_Sensitive = False, pm_Reportable = False, pm_Operations = []\<rparr>"

text \<open>\<open>PortDef.Metadata\<close>: the metadata with its defaults filled in.\<close>

definition Metadata :: "PortDef \<Rightarrow> PortMeta" where
  "Metadata p =
     (let m = pd_Meta p;
          m = (if pm_Boundary m = [] then m\<lparr>pm_Boundary := PortBoundaryData\<rparr> else m);
          m = (if pm_Transport m = [] then m\<lparr>pm_Transport := PortTransportInline\<rparr> else m)
      in if pm_MaxPayloadBytes m = 0
         then m\<lparr>pm_MaxPayloadBytes := DefaultInlinePortMaxPayloadBytes\<rparr> else m)"

lemma Metadata_defaults:
  "pm_Boundary (Metadata p) \<noteq> []" "pm_Transport (Metadata p) \<noteq> []"
  "pm_MaxPayloadBytes (Metadata p) \<noteq> 0"
  by (simp_all add: Metadata_def Let_def wk_simps DefaultInlinePortMaxPayloadBytes_def)

text \<open>Filling in the defaults a second time changes nothing.\<close>

lemma Metadata_idem: "Metadata (p\<lparr>pd_Meta := Metadata p\<rparr>) = Metadata p"
  using Metadata_defaults [of p] by (simp add: Metadata_def [of "p\<lparr>pd_Meta := Metadata p\<rparr>"])

section \<open>Artifact names\<close>

text \<open>The shape test of \<open>validateArtifactName\<close> and \<open>validateArtifactUnitName\<close>.\<close>

definition simple_name :: "string \<Rightarrow> bool" where
  "simple_name name =
     (let trimmed = TrimSpace name
      in \<not> (trimmed = [] \<or> trimmed = ''.'' \<or> containsWhitespace name \<or> Contains name ''..''
             \<or> ContainsAny name [CHR ''/'', CHR 0x5C]))"

definition validateArtifactName :: "string \<Rightarrow> goerr option" where
  "validateArtifactName name =
     (if name = [] then Some (Errorf ''artifact name is required'' [])
      else if \<not> simple_name name
      then Some (Errorf ''artifact %q must be a simple relative file name'' [ArgS name])
      else None)"

lemma TrimSpace_plain: "\<not> containsWhitespace s \<Longrightarrow> TrimSpace s = s"
proof -
  assume ws: "\<not> containsWhitespace s"
  have l: "\<not> starts_with_any space_runes s"
    using ws by (auto simp: containsWhitespace_def starts_with_any_def list_ex_iff)
  have r: "\<not> starts_with_any (map rev space_runes) (rev s)"
    using ws by (fastforce simp: containsWhitespace_def starts_with_any_def list_ex_iff
        simp flip: suffix_to_prefix)
  from l r show ?thesis by (simp add: TrimSpace_def strip_done)
qed

lemma simple_name_segment: "simple_name s \<Longrightarrow> simple_segment s"
proof -
  assume s: "simple_name s"
  then have "TrimSpace s = s" by (auto simp: simple_name_def Let_def intro: TrimSpace_plain)
  with s show ?thesis
    by (auto simp: simple_name_def simple_segment_def Let_def Contains_def ContainsAny_def list_ex_iff)
qed

lemma validateArtifactName_None:
  "validateArtifactName s = None \<Longrightarrow> simple_name s"
  by (auto simp: validateArtifactName_def split: if_splits)

section \<open>Metric keys\<close>

definition label_part :: "Labels \<Rightarrow> string \<Rightarrow> string" where
  "label_part labels k = QueryEscape k @ ''='' @ QueryEscape (the (fmlookup labels k))"

definition metricSnapshotKey :: "string \<Rightarrow> Labels \<Rightarrow> string" where
  "metricSnapshotKey name labels =
     (if map_len labels = 0 then name
      else name @ ''{'' @ strings_Join (map (label_part labels) (map_keys labels)) '','' @ ''}'')"

lemma label_part_Cut:
  "Cut (label_part labels k) (CHR ''='') = (QueryEscape k, QueryEscape (the (fmlookup labels k)), True)"
  using Cut_append [of "CHR ''=''" "QueryEscape k"] QueryEscape_not_in by (simp add: label_part_def)

lemma label_part_no_comma: "CHR '','' \<notin> set (label_part labels k)"
  using QueryEscape_not_in by (simp add: label_part_def)

lemma label_parts_inject:
  assumes "map (label_part l) (map_keys l) = map (label_part l') (map_keys l')"
  shows "l = l'"
proof -
  have part: "k = k' \<and> the (fmlookup l k) = the (fmlookup l' k')"
    if "label_part l k = label_part l' k'" for k k'
  proof -
    have "(QueryEscape k, QueryEscape (the (fmlookup l k)), True) =
        (QueryEscape k', QueryEscape (the (fmlookup l' k')), True)"
      by (simp only: that flip: label_part_Cut)
    then show ?thesis by (simp only: prod.inject QueryEscape_inject) blast
  qed
  have len: "length (map_keys l) = length (map_keys l')"
    using assms by (metis length_map)
  have "label_part l (map_keys l ! i) = label_part l' (map_keys l' ! i)"
    if "i < length (map_keys l)" for i
    using assms that len by (metis nth_map)
  note nth = part [OF this]
  have keys: "map_keys l = map_keys l'"
    using len nth by (intro nth_equalityI) auto
  have vals: "the (fmlookup l k) = the (fmlookup l' k)" if "k \<in> set (map_keys l)" for k
    using that nth keys by (metis in_set_conv_nth)
  have dom: "fset (fmdom l) = fset (fmdom l')" using keys by (metis set_map_keys)
  show ?thesis
  proof (rule fmap_ext)
    fix k
    show "fmlookup l k = fmlookup l' k"
    proof (cases "k \<in> fset (fmdom l)")
      case True
      with vals dom show ?thesis
        by (metis fmlookup_dom_iff option.sel set_map_keys)
    next
      case False
      with dom show ?thesis by (metis fmdom_notD)
    qed
  qed
qed

text \<open>
  A metric name free of an opening brace and its labels can be read back from the key: two metrics
  share an entry only when they are the same metric with the same labels.
\<close>

lemma metricSnapshotKey_inject:
  assumes "CHR ''{'' \<notin> set n" and "CHR ''{'' \<notin> set n'"
    and "metricSnapshotKey n l = metricSnapshotKey n' l'"
  shows "n = n' \<and> l = l'"
proof -
  define parts where "parts m = map (label_part m) (map_keys m)" for m
  have key: "metricSnapshotKey m k =
      (if k = fmempty then m else m @ CHR ''{'' # strings_Join (parts k) '','' @ ''}'')" for m k
    by (simp add: metricSnapshotKey_def parts_def)
  have split: "Split (strings_Join (parts k) '','') (CHR '','') = parts k" if "k \<noteq> fmempty" for k
    by (rule Split_Join_segments) (use that label_part_no_comma in \<open>auto simp: parts_def\<close>)
  have cut: "Cut (metricSnapshotKey m k) (CHR ''{'') =
      (m, strings_Join (parts k) '','' @ ''}'', True)" if "CHR ''{'' \<notin> set m" "k \<noteq> fmempty" for m k
    using that by (simp add: key Cut_append)
  have no: "Cut m (CHR ''{'') = (m, [], False)" if "CHR ''{'' \<notin> set m" for m
    using that by (induction m) auto
  consider "l = fmempty" "l' = fmempty" | "l = fmempty" "l' \<noteq> fmempty"
    | "l \<noteq> fmempty" "l' = fmempty" | "l \<noteq> fmempty" "l' \<noteq> fmempty" by blast
  then show ?thesis
  proof cases
    case 1
    with assms(3) show ?thesis by (simp add: key)
  next
    case 2
    with assms no [of n] cut [of n' l'] show ?thesis by (auto simp: key)
  next
    case 3
    with assms no [of n'] cut [of n l] show ?thesis by (auto simp: key)
  next
    case 4
    with assms cut [of n l] cut [of n' l']
    have "n = n'" and j: "strings_Join (parts l) '','' = strings_Join (parts l') '',''" by auto
    from j have "parts l = parts l'" using split 4 by metis
    then have "l = l'" unfolding parts_def by (rule label_parts_inject)
    with \<open>n = n'\<close> show ?thesis by simp
  qed
qed

section \<open>Metric series\<close>

text \<open>
  Series do not collide. For metric names without an opening brace, two samples are kept
  under the same key exactly when their names and their label maps are equal, whatever characters
  the label names and values hold.
\<close>

theorem metric_series_separate:
  assumes "CHR ''{'' \<notin> set n" and "CHR ''{'' \<notin> set n'"
  shows "metricSnapshotKey n l = metricSnapshotKey n' l' \<longleftrightarrow> n = n' \<and> l = l'"
  using metricSnapshotKey_inject [OF assms] by auto

theorem metric_series_separate_witness:
  "metricSnapshotKey ''m'' (fmupd ''a'' ''1,b=2'' fmempty) \<noteq>
   metricSnapshotKey ''m'' (fmupd ''a'' ''1'' (fmupd ''b'' ''2'' fmempty))"
proof -
  have "fmupd ''a'' ''1,b=2'' fmempty \<noteq> fmupd ''a'' ''1'' (fmupd ''b'' ''2'' fmempty)"
  proof
    assume "fmupd ''a'' ''1,b=2'' fmempty = fmupd ''a'' ''1'' (fmupd ''b'' ''2'' fmempty)"
    then have "fmlookup (fmupd ''a'' ''1,b=2'' fmempty) ''b'' = fmlookup (fmupd ''a'' ''1'' (fmupd ''b'' ''2'' fmempty)) ''b''"
      by (rule arg_cong)
    then show False by simp
  qed
  then show ?thesis
    using metric_series_separate [of "''m''" "''m''" "fmupd ''a'' ''1,b=2'' fmempty"
        "fmupd ''a'' ''1'' (fmupd ''b'' ''2'' fmempty)"] by simp
qed

end
