(* ===== verification/Interfaces.thy ===== *)
theory Interfaces
  imports Go_Paths
begin

text \<open>
  The interfaces several components of wkbench share, as locales. Each is interpreted on the model's
  own operations in the theory of the component that provides it.

  \<^item> \<open>keyed_store\<close>: a store written by key (run outputs of a unit, the kernel's output store);
  \<^item> \<open>sample_recorder\<close>: a metric store that counts samples per key;
  \<^item> \<open>scheduler\<close>: an order of execution that respects the dependencies;
  \<^item> \<open>once_closer\<close>: a resource whose first close decides and whose later closes repeat the answer
    (artifact writers, event latches).
\<close>

section \<open>Stores written by key\<close>

locale keyed_store =
  fixes put :: "'k \<Rightarrow> 'a \<Rightarrow> 's \<Rightarrow> 's"
    and get :: "'k \<Rightarrow> 's \<Rightarrow> 'a option"
  assumes get_put: "get k (put k v s) = Some v"
    and get_put_other: "k \<noteq> k' \<Longrightarrow> get k' (put k v s) = get k' s"
begin

definition put_all :: "('k \<times> 'a) list \<Rightarrow> 's \<Rightarrow> 's" where
  "put_all kvs s = foldl (\<lambda>s (k, v). put k v s) s kvs"

lemma put_all_Nil [simp]: "put_all [] s = s"
  by (simp add: put_all_def)

lemma put_all_Cons [simp]: "put_all ((k, v) # kvs) s = put_all kvs (put k v s)"
  by (simp add: put_all_def)

lemma get_put_all_notin: "k \<notin> fst ` set kvs \<Longrightarrow> get k (put_all kvs s) = get k s"
  by (induction kvs arbitrary: s) (auto simp: get_put_other)

text \<open>The last write to a key wins; a key that is not written keeps what it had.\<close>

lemma get_put_all:
  "get k (put_all kvs s) = (case map_of (rev kvs) k of Some v \<Rightarrow> Some v | None \<Rightarrow> get k s)"
proof (induction kvs arbitrary: s)
  case (Cons kv kvs)
  obtain k0 v0 where kv: "kv = (k0, v0)" by force
  have "map_of (rev (kv # kvs)) k =
      (case map_of (rev kvs) k of Some v \<Rightarrow> Some v | None \<Rightarrow> if k = k0 then Some v0 else None)"
    by (simp add: kv map_add_def split: option.splits)
  with Cons [of "put k0 v0 s"] show ?case
    by (auto simp: kv get_put get_put_other split: option.splits)
qed simp

lemma get_put_all_distinct:
  assumes "distinct (map fst kvs)" and "(k, v) \<in> set kvs"
  shows "get k (put_all kvs s) = Some v"
proof -
  have "map_of (rev kvs) k = Some v"
    using assms by (simp add: map_of_is_SomeI rev_map [symmetric])
  then show ?thesis by (simp add: get_put_all)
qed

end

section \<open>Recorders that count samples per key\<close>

locale sample_recorder =
  fixes emit :: "'e \<Rightarrow> 's \<Rightarrow> 's"
    and key :: "'e \<Rightarrow> 'k"
    and count :: "'k \<Rightarrow> 's \<Rightarrow> int"
  assumes count_emit: "count (key e) (emit e s) = count (key e) s + 1"
    and count_emit_other: "k \<noteq> key e \<Longrightarrow> count k (emit e s) = count k s"
begin

definition emit_all :: "'e list \<Rightarrow> 's \<Rightarrow> 's" where
  "emit_all es s = foldl (\<lambda>s e. emit e s) s es"

lemma emit_all_simps [simp]:
  "emit_all [] s = s"
  "emit_all (e # es) s = emit_all es (emit e s)"
  by (simp_all add: emit_all_def)

text \<open>No sample is lost and none is counted under another key.\<close>

lemma count_emit_all:
  "count k (emit_all es s) = count k s + int (length (filter (\<lambda>e. key e = k) es))"
proof (induction es arbitrary: s)
  case (Cons e es)
  then show ?case
    by (cases "key e = k") (auto simp: count_emit count_emit_other)
qed simp

end

section \<open>Resources that are closed once\<close>

locale once_closer =
  fixes close :: "'i \<Rightarrow> 's \<Rightarrow> 'r \<times> 's"
    and closed :: "'s \<Rightarrow> bool"
  assumes closed_close: "closed (snd (close i s))"
    and close_again: "closed s \<Longrightarrow> snd (close i s) = s"
    and close_repeats: "fst (close j (snd (close i s))) = fst (close i s)"
begin

fun close_many :: "'i list \<Rightarrow> 's \<Rightarrow> 'r list \<times> 's" where
  "close_many [] s = ([], s)"
| "close_many (i # is) s =
     (case close i s of (r, s') \<Rightarrow> (case close_many is s' of (rs, s'') \<Rightarrow> (r # rs, s'')))"

lemma close_many_closed: "closed s \<Longrightarrow> snd (close_many is s) = s"
  by (induction "is" arbitrary: s) (simp_all add: split_beta close_again)

text \<open>However often a resource is closed, only the first close takes effect.\<close>

lemma close_many_state: "snd (close_many (i # is) s) = snd (close i s)"
  by (simp add: split_beta close_many_closed closed_close)

lemma close_many_results: "r \<in> set (fst (close_many (i # is) s)) \<Longrightarrow> r = fst (close i s)"
proof -
  assume r: "r \<in> set (fst (close_many (i # is) s))"
  obtain r0 s' where c: "close i s = (r0, s')" by force
  have cl: "closed s'" using closed_close [of i s] by (simp add: c)
  have same: "fst (close j s') = r0" for j using close_repeats [of j i s] by (simp add: c)
  have "\<forall>x\<in>set (fst (close_many js s')). x = r0" for js
  proof (induction js)
    case (Cons j js)
    obtain q s2 where j: "close j s' = (q, s2)" by force
    have "q = r0" "s2 = s'" using same [of j] close_again [OF cl, of j] by (simp_all add: j)
    with Cons show ?case by (auto simp: j split: prod.splits)
  qed simp
  note all = this [of "is"]
  from r have "r = r0 \<or> r \<in> set (fst (close_many is s'))" by (simp add: c split_beta)
  with all show ?thesis by (auto simp: c)
qed

end

section \<open>Schedulers\<close>

text \<open>\<open>schedule g\<close> is an execution order of the nodes of \<open>g\<close>; \<open>dep g\<close> relates a node to those it needs.\<close>

locale scheduler =
  fixes schedule :: "'g \<Rightarrow> 'n list option"
    and node_set :: "'g \<Rightarrow> 'n set"
    and dep :: "'g \<Rightarrow> ('n \<times> 'n) set"
  assumes schedule_distinct: "schedule g = Some order \<Longrightarrow> distinct order"
    and schedule_set: "schedule g = Some order \<Longrightarrow> set order = node_set g"
    and schedule_before: "schedule g = Some (done @ n # later) \<Longrightarrow> (n, d) \<in> dep g \<Longrightarrow> d \<in> set done"
begin

text \<open>When a node runs, everything it needs, directly or not, has run, and it has not.\<close>

lemma needs_done:
  assumes "schedule g = Some (done @ n # later)" and "(n, d) \<in> (dep g)\<^sup>+"
  shows "d \<in> set done"
  using assms(2)
proof (induction rule: trancl_induct)
  case (base d)
  then show ?case by (rule schedule_before [OF assms(1)])
next
  case (step c d)
  then obtain xs ys where "done": "done = xs @ c # ys" by (auto dest: split_list)
  with assms(1) have "schedule g = Some (xs @ c # (ys @ n # later))" by simp
  from schedule_before [OF this step.hyps(2)] show ?case by (simp add: "done")
qed

lemma not_yet_run: "schedule g = Some (done @ n # later) \<Longrightarrow> n \<notin> set done \<and> n \<notin> set later"
  by (auto dest: schedule_distinct)

text \<open>A graph that can be scheduled has no cycle.\<close>

lemma schedule_acyclic:
  assumes "schedule g = Some order" and "Domain (dep g) \<subseteq> node_set g"
  shows "acyclic (dep g)"
  unfolding acyclic_def
proof (intro allI notI)
  fix n assume nn: "(n, n) \<in> (dep g)\<^sup>+"
  then have "n \<in> set order" using assms schedule_set by (blast dest: tranclD)
  then obtain xs ys where "order = xs @ n # ys" by (auto dest: split_list)
  with assms(1) have sc: "schedule g = Some (xs @ n # ys)" by simp
  with needs_done [OF sc nn] not_yet_run [OF sc] show False by simp
qed

end

end
