(* ===== verification/Test_Env.thy ===== *)
theory Test_Env
  imports Contract Interfaces
begin

text \<open>
  \<open>TestRunEnv\<close> of \<open>benchkit/contract/types.go\<close>: the in-memory run environment. Each method is a
  function on the record of its fields (the mutex makes every method atomic). \<open>'v\<close> is Go's \<open>any\<close>;
  the outcomes of the file system calls are arguments (\<open>FileSys\<close>). \<open>decodeMap\<close>, a JSON round trip
  of the spec, is not modelled.
\<close>

record 'v TestRunEnv =
  te_runID :: string
  te_unitName :: string
  te_inputs :: "'v gomap"
  te_outputs :: "'v gomap"
  te_counters :: "float64 gomap"
  te_durations :: "int list gomap"
  te_metrics :: "MetricSnapshot gomap"
  te_artifactDefs :: "ArtifactDef gomap"
  te_artifacts :: "ArtifactInfo gomap"
  te_reportDir :: string
  te_runDuration :: int
  te_workerCount :: int
  te_nextID :: int

definition NewTestRunEnv :: "string \<Rightarrow> string \<Rightarrow> 'v gomap \<Rightarrow> 'v TestRunEnv" where
  "NewTestRunEnv runID unitName inputs =
     \<lparr>te_runID = runID, te_unitName = unitName, te_inputs = inputs, te_outputs = fmempty,
      te_counters = fmempty, te_durations = fmempty, te_metrics = fmempty,
      te_artifactDefs = fmempty, te_artifacts = fmempty, te_reportDir = [],
      te_runDuration = 1000000000, te_workerCount = 1, te_nextID = 0\<rparr>"

definition te_SetRunDuration :: "int \<Rightarrow> 'v TestRunEnv \<Rightarrow> 'v TestRunEnv" where
  "te_SetRunDuration d e = e\<lparr>te_runDuration := d\<rparr>"

definition te_SetWorkerCount :: "int \<Rightarrow> 'v TestRunEnv \<Rightarrow> 'v TestRunEnv" where
  "te_SetWorkerCount count e = e\<lparr>te_workerCount := (if count \<le> 0 then 1 else count)\<rparr>"

definition te_SetReportDir :: "string \<Rightarrow> 'v TestRunEnv \<Rightarrow> 'v TestRunEnv" where
  "te_SetReportDir dir e = e\<lparr>te_reportDir := dir\<rparr>"

definition te_WorkerCount :: "'v TestRunEnv \<Rightarrow> int" where
  "te_WorkerCount e = (if te_workerCount e \<le> 0 then 1 else te_workerCount e)"

section \<open>Inputs and outputs\<close>

definition te_Input :: "string \<Rightarrow> 'v TestRunEnv \<Rightarrow> 'v result" where
  "te_Input name e =
     (case fmlookup (te_inputs e) name of
        None \<Rightarrow> Inl (Errorf ''input %q not found'' [ArgS name])
      | Some value \<Rightarrow> Inr value)"

definition te_SetOutput :: "string \<Rightarrow> 'v \<Rightarrow> 'v TestRunEnv \<Rightarrow> 'v TestRunEnv" where
  "te_SetOutput name value e = e\<lparr>te_outputs := fmupd name value (te_outputs e)\<rparr>"

definition te_Output :: "string \<Rightarrow> 'v TestRunEnv \<Rightarrow> 'v option" where
  "te_Output name e = fmlookup (te_outputs e) name"

interpretation tenv_out: keyed_store te_SetOutput te_Output
  by unfold_locales (simp_all add: te_SetOutput_def te_Output_def)

section \<open>Metrics\<close>

definition zero_MetricSnapshot :: MetricSnapshot where
  "zero_MetricSnapshot =
     \<lparr>ms_Name = [], ms_Type = [], ms_Labels = fmempty, ms_Count = 0, ms_Sum = 0, ms_Min = 0,
      ms_Max = 0\<rparr>"

definition snapshot_at :: "string \<Rightarrow> MetricSnapshot gomap \<Rightarrow> MetricSnapshot" where
  "snapshot_at key m = (case fmlookup m key of Some s \<Rightarrow> s | None \<Rightarrow> zero_MetricSnapshot)"

definition float_at :: "string \<Rightarrow> float64 gomap \<Rightarrow> float64" where
  "float_at key m = (case fmlookup m key of Some x \<Rightarrow> x | None \<Rightarrow> 0)"

definition te_EmitCounter :: "string \<Rightarrow> float64 \<Rightarrow> Labels \<Rightarrow> 'v TestRunEnv \<Rightarrow> 'v TestRunEnv" where
  "te_EmitCounter name delta labels e =
     (let e = e\<lparr>te_counters := fmupd name (float_at name (te_counters e) + delta) (te_counters e)\<rparr>;
          key = metricSnapshotKey name labels;
          snapshot = snapshot_at key (te_metrics e);
          snapshot = (if ms_Type snapshot = []
            then snapshot\<lparr>ms_Name := name, ms_Type := ''counter'', ms_Labels := labels\<rparr>
            else snapshot);
          snapshot = snapshot\<lparr>ms_Count := ms_Count snapshot + 1, ms_Sum := ms_Sum snapshot + delta\<rparr>
      in e\<lparr>te_metrics := fmupd key snapshot (te_metrics e)\<rparr>)"

definition te_CounterValue :: "string \<Rightarrow> 'v TestRunEnv \<Rightarrow> float64" where
  "te_CounterValue name e = float_at name (te_counters e)"

definition durations_at :: "string \<Rightarrow> int list gomap \<Rightarrow> int list" where
  "durations_at key m = (case fmlookup m key of Some ds \<Rightarrow> ds | None \<Rightarrow> [])"

definition te_ObserveDuration :: "string \<Rightarrow> int \<Rightarrow> Labels \<Rightarrow> 'v TestRunEnv \<Rightarrow> 'v TestRunEnv" where
  "te_ObserveDuration name value labels e =
     (let e = e\<lparr>te_durations := fmupd name (durations_at name (te_durations e) @ [value]) (te_durations e)\<rparr>;
          seconds = Seconds value;
          key = metricSnapshotKey name labels;
          snapshot = snapshot_at key (te_metrics e);
          snapshot = (if ms_Type snapshot = []
            then snapshot\<lparr>ms_Name := name, ms_Type := ''duration'', ms_Labels := labels,
                          ms_Min := seconds, ms_Max := seconds\<rparr>
            else let snapshot = (if seconds < ms_Min snapshot then snapshot\<lparr>ms_Min := seconds\<rparr> else snapshot)
                 in if ms_Max snapshot < seconds then snapshot\<lparr>ms_Max := seconds\<rparr> else snapshot);
          snapshot = snapshot\<lparr>ms_Count := ms_Count snapshot + 1, ms_Sum := ms_Sum snapshot + seconds\<rparr>
      in e\<lparr>te_metrics := fmupd key snapshot (te_metrics e)\<rparr>)"

definition te_DurationValues :: "string \<Rightarrow> 'v TestRunEnv \<Rightarrow> int list" where
  "te_DurationValues name e = durations_at name (te_durations e)"

definition te_MetricSnapshots :: "'v TestRunEnv \<Rightarrow> MetricSnapshot list" where
  "te_MetricSnapshots e = map (\<lambda>key. snapshot_at key (te_metrics e)) (map_keys (te_metrics e))"

definition te_RecordMetricSnapshot :: "MetricSnapshot \<Rightarrow> 'v TestRunEnv \<Rightarrow> 'v TestRunEnv" where
  "te_RecordMetricSnapshot snapshot e =
     (if ms_Count snapshot \<le> 0 then e
      else e\<lparr>te_metrics :=
        fmupd (metricSnapshotKey (ms_Name snapshot) (ms_Labels snapshot)) snapshot (te_metrics e)\<rparr>)"

definition te_sample_count :: "string \<Rightarrow> 'v TestRunEnv \<Rightarrow> int" where
  "te_sample_count key e = ms_Count (snapshot_at key (te_metrics e))"

datatype sample =
    CounterSample string float64 Labels
  | DurationSample string int Labels

fun sample_key :: "sample \<Rightarrow> string" where
  "sample_key (CounterSample n _ l) = metricSnapshotKey n l"
| "sample_key (DurationSample n _ l) = metricSnapshotKey n l"

fun te_emit :: "sample \<Rightarrow> 'v TestRunEnv \<Rightarrow> 'v TestRunEnv" where
  "te_emit (CounterSample n d l) e = te_EmitCounter n d l e"
| "te_emit (DurationSample n d l) e = te_ObserveDuration n d l e"

interpretation tenv_metrics: sample_recorder te_emit sample_key te_sample_count
proof unfold_locales
  fix s and e :: "'v TestRunEnv"
  show "te_sample_count (sample_key s) (te_emit s e) = te_sample_count (sample_key s) e + 1"
    by (cases s) (simp_all add: te_sample_count_def te_EmitCounter_def te_ObserveDuration_def
        Let_def snapshot_at_def)
next
  fix k s and e :: "'v TestRunEnv"
  assume "k \<noteq> sample_key s"
  then show "te_sample_count k (te_emit s e) = te_sample_count k e"
    by (cases s) (simp_all add: te_sample_count_def te_EmitCounter_def te_ObserveDuration_def
        Let_def snapshot_at_def)
qed

section \<open>Artifacts\<close>

definition te_DeclareArtifacts :: "ArtifactDef list \<Rightarrow> 'v TestRunEnv \<Rightarrow> 'v TestRunEnv" where
  "te_DeclareArtifacts defs e = e\<lparr>te_artifactDefs := map_collect ad_Name id defs fmempty\<rparr>"

definition te_Artifacts :: "'v TestRunEnv \<Rightarrow> ArtifactInfo gomap" where
  "te_Artifacts e = te_artifacts e"

text \<open>The file system calls: each is the error of the call, or its result.\<close>

record FileSys =
  fs_CreateTemp :: "string \<Rightarrow> string result"
  fs_MkdirAll :: "string \<Rightarrow> goerr option"
  fs_Create :: "string \<Rightarrow> goerr option"

record ArtifactWriter =
  aw_name :: string
  aw_path :: string
  aw_contentType :: string
  aw_size :: int
  aw_closed :: bool
  aw_closeErr :: "goerr option"

definition te_OpenArtifact :: "FileSys \<Rightarrow> string \<Rightarrow> 'v TestRunEnv \<Rightarrow> ArtifactWriter result" where
  "te_OpenArtifact fs name e =
     (case fmlookup (te_artifactDefs e) name of
        None \<Rightarrow> Inl (Errorf ''artifact %q not declared'' [ArgS name])
      | Some def \<Rightarrow>
          (case validateArtifactName name of
             Some err \<Rightarrow> Inl err
           | None \<Rightarrow>
               (let reportDir = TrimSpace (te_reportDir e);
                    file = (if reportDir = [] then fs_CreateTemp fs ''wkbench-artifact-*''
                      else (let artifactDir = path_Join [reportDir, ''artifacts'', te_unitName e]
                            in case fs_MkdirAll fs artifactDir of
                                 Some err \<Rightarrow> Inl (Errorf ''create artifact directory for %q: %w'' [ArgS name, ArgE err])
                               | None \<Rightarrow>
                                   (let p = path_Join [artifactDir, name]
                                    in case fs_Create fs p of Some err \<Rightarrow> Inl err | None \<Rightarrow> Inr p)))
                in case file of
                     Inl err \<Rightarrow> Inl err
                   | Inr p \<Rightarrow> Inr \<lparr>aw_name = name, aw_path = p, aw_contentType = ad_ContentType def,
                       aw_size = 0, aw_closed = False, aw_closeErr = None\<rparr>)))"

text \<open>\<open>Write\<close>, given the number of bytes the file took; \<open>Close\<close>, given the error of the file.\<close>

definition aw_Write :: "int \<Rightarrow> ArtifactWriter \<Rightarrow> ArtifactWriter" where
  "aw_Write n w = w\<lparr>aw_size := aw_size w + n\<rparr>"

definition te_recordArtifact :: "ArtifactWriter \<Rightarrow> 'v TestRunEnv \<Rightarrow> 'v TestRunEnv" where
  "te_recordArtifact w e =
     e\<lparr>te_artifacts := fmupd (aw_name w)
        \<lparr>ai_Path = aw_path w, ai_ContentType = aw_contentType w, ai_SizeBytes = aw_size w\<rparr>
        (te_artifacts e)\<rparr>"

definition te_CloseArtifact ::
    "goerr option \<Rightarrow> ArtifactWriter \<times> 'v TestRunEnv \<Rightarrow> goerr option \<times> ArtifactWriter \<times> 'v TestRunEnv" where
  "te_CloseArtifact fileErr = (\<lambda>(w, e).
     if aw_closed w then (aw_closeErr w, w, e)
     else (fileErr, w\<lparr>aw_closed := True, aw_closeErr := fileErr\<rparr>, te_recordArtifact w e))"

interpretation tenv_close: once_closer te_CloseArtifact "\<lambda>(w, e). aw_closed w"
  by unfold_locales (auto simp: te_CloseArtifact_def split: if_splits)

section \<open>Identifiers and payloads\<close>

definition te_NextID :: "string \<Rightarrow> 'v TestRunEnv \<Rightarrow> string \<times> 'v TestRunEnv" where
  "te_NextID pre e =
     (let e = e\<lparr>te_nextID := te_nextID e + 1\<rparr>
      in (numbered (if pre = [] then ''id'' else pre) (te_nextID e), e))"

definition gen_payload :: "int \<Rightarrow> string" where
  "gen_payload sz = (if sz \<le> 0 then [] else map (\<lambda>i. char_of (97 + i mod 26)) [0..<nat sz])"

fun te_NextIDs :: "string list \<Rightarrow> 'v TestRunEnv \<Rightarrow> string list \<times> 'v TestRunEnv" where
  "te_NextIDs [] e = ([], e)"
| "te_NextIDs (p # ps) e =
     (case te_NextID p e of (i, e') \<Rightarrow> (case te_NextIDs ps e' of (is, e'') \<Rightarrow> (i # is, e'')))"

lemma itoa_no_minus: "0 \<le> i \<Longrightarrow> CHR ''-'' \<notin> set (itoa i)"
  by (simp add: itoa_def nat_digits_no_minus)

text \<open>Numbered identifiers with non-negative numbers determine prefix and number.\<close>

lemma numbered_eq_iff:
  "0 \<le> m \<Longrightarrow> 0 \<le> n \<Longrightarrow> numbered p m = numbered q n \<longleftrightarrow> p = q \<and> m = n"
proof
  assume mn: "0 \<le> m" "0 \<le> n" and eq: "numbered p m = numbered q n"
  have tw: "takeWhile (\<lambda>c. c \<noteq> CHR ''-'') (rev (numbered r k)) = rev (itoa k)" if "0 \<le> k" for r k
  proof -
    have "\<forall>c\<in>set (rev (itoa k)). c \<noteq> CHR ''-''" using itoa_no_minus [OF that] by auto
    then have "takeWhile (\<lambda>c. c \<noteq> CHR ''-'') (rev (itoa k) @ CHR ''-'' # rev r) = rev (itoa k)"
      by (subst takeWhile_append2) auto
    then show ?thesis by (simp add: numbered_def)
  qed
  from eq tw [OF mn(1), of p] tw [OF mn(2), of q] have "itoa m = itoa n" by (metis rev_rev_ident)
  then have "m = n" by simp
  with eq show "p = q \<and> m = n" by (simp add: numbered_def)
qed auto

lemma te_NextIDs_fresh:
  assumes "0 \<le> te_nextID e"
  shows "i \<in> set (fst (te_NextIDs ps e)) \<Longrightarrow> \<exists>q k. te_nextID e < k \<and> i = numbered q k"
  using assms
proof (induction ps arbitrary: e)
  case (Cons p ps)
  obtain j e' where n: "te_NextID p e = (j, e')" by force
  then have e': "te_nextID e' = te_nextID e + 1"
    and j: "j = numbered (if p = [] then ''id'' else p) (te_nextID e + 1)"
    by (auto simp: te_NextID_def Let_def)
  from Cons.prems(1) consider "i = j" | "i \<in> set (fst (te_NextIDs ps e'))"
    by (auto simp: n split_beta)
  then show ?case
  proof cases
    case 1
    with j show ?thesis by (metis zless_add1_eq)
  next
    case 2
    with Cons.IH [of e'] Cons.prems e' show ?thesis by (metis add_increasing2 zle_add1_eq_le zless_add1_eq less_trans zero_le_one)
  qed
qed simp

lemma te_NextIDs_distinct: "0 \<le> te_nextID e \<Longrightarrow> distinct (fst (te_NextIDs ps e))"
proof (induction ps arbitrary: e)
  case (Cons p ps)
  obtain j e' where n: "te_NextID p e = (j, e')" by force
  then have e': "te_nextID e' = te_nextID e + 1"
    and j: "j = numbered (if p = [] then ''id'' else p) (te_nextID e + 1)"
    by (auto simp: te_NextID_def Let_def)
  have "j \<notin> set (fst (te_NextIDs ps e'))"
  proof
    assume "j \<in> set (fst (te_NextIDs ps e'))"
    then obtain q k where "te_nextID e' < k" "j = numbered q k"
      using te_NextIDs_fresh [of e' j ps] Cons.prems e' by auto
    with j e' Cons.prems show False by (simp add: numbered_eq_iff)
  qed
  with Cons e' show ?case by (simp add: n split_beta)
qed simp

lemma gen_payload_length: "length (gen_payload sz) = nat sz"
  by (simp add: gen_payload_def)

lemma gen_payload_prefix: "m \<le> n \<Longrightarrow> prefix (gen_payload m) (gen_payload n)"
proof -
  assume mn: "m \<le> n"
  then have "[0..<nat n] = [0..<nat m] @ [nat m..<nat n]"
    by (metis nat_mono le0 upt_add_eq_append le_add_diff_inverse)
  then show ?thesis using mn by (cases "m \<le> 0") (simp_all add: gen_payload_def)
qed

section \<open>What the environment guarantees\<close>

text \<open>
  Identifiers are unique. However many identifiers \<open>NextID\<close> hands out, for whatever prefixes, no two are equal.
\<close>

theorem next_ids_distinct:
  assumes "0 \<le> te_nextID e"
  shows "distinct (fst (te_NextIDs ps e))"
  using te_NextIDs_distinct [OF assms] .

theorem next_ids_distinct_witness:
  "distinct (fst (te_NextIDs [''a'', ''a'', ''a-1''] (NewTestRunEnv ''r'' ''u'' fmempty)))"
  by (rule next_ids_distinct) (simp add: NewTestRunEnv_def)

text \<open>
  Samples are counted exactly. After any sequence of counter and duration samples the count of a
  series has grown by the number of samples emitted under its key, and of no others.
\<close>

theorem samples_counted:
  "te_sample_count k (tenv_metrics.emit_all es e) =
     te_sample_count k e + int (length (filter (\<lambda>s. sample_key s = k) es))"
  by (rule tenv_metrics.count_emit_all)

end
