(* ===== verification/Metric_Store.thy ===== *)
theory Metric_Store
  imports Test_Env
begin

text \<open>
  \<open>metricStore\<close> of \<open>benchkit/kernel/kernel.go\<close>: the metrics of one unit, aggregated by metric key.
  Every method holds the mutex, so it is one function on the store. Counts are unbounded integers:
  an \<open>int64\<close> count of samples cannot wrap within the life of a run.
\<close>

record MetricResult =
  mr_Type :: string
  mr_Labels :: Labels
  mr_Count :: int
  mr_Sum :: float64
  mr_Min :: float64
  mr_Max :: float64
  mr_P95 :: float64
  mr_P99 :: float64

record metricStore =
  mt_types :: "string gomap"
  mt_items :: "MetricResult gomap"
  mt_durationSamples :: "float64 list gomap"
  mt_aggregateKeys :: "bool gomap"

definition zero_MetricResult :: MetricResult where
  "zero_MetricResult =
     \<lparr>mr_Type = [], mr_Labels = fmempty, mr_Count = 0, mr_Sum = 0, mr_Min = 0, mr_Max = 0,
      mr_P95 = 0, mr_P99 = 0\<rparr>"

definition item_at :: "string \<Rightarrow> MetricResult gomap \<Rightarrow> MetricResult" where
  "item_at key m = (case fmlookup m key of Some i \<Rightarrow> i | None \<Rightarrow> zero_MetricResult)"

definition string_at :: "string \<Rightarrow> string gomap \<Rightarrow> string" where
  "string_at key m = (case fmlookup m key of Some t \<Rightarrow> t | None \<Rightarrow> [])"

definition samples_at :: "string \<Rightarrow> float64 list gomap \<Rightarrow> float64 list" where
  "samples_at key m = (case fmlookup m key of Some xs \<Rightarrow> xs | None \<Rightarrow> [])"

definition flag_at :: "string \<Rightarrow> bool gomap \<Rightarrow> bool" where
  "flag_at key m = (fmlookup m key = Some True)"

section \<open>Keys and types\<close>

definition metricKey :: "string \<Rightarrow> Labels \<Rightarrow> string" where
  "metricKey name labels =
     (if map_len labels = 0 then name
      else name @ ''{'' @ strings_Join
        (map (\<lambda>key. QueryEscape key @ ''='' @ QueryEscape (the (fmlookup labels key))) (map_keys labels)) '','' @ ''}'')"

definition metricNameFromKey :: "string \<Rightarrow> string" where
  "metricNameFromKey key = (case IndexByte key (CHR ''{'') of Some index \<Rightarrow> take index key | None \<Rightarrow> key)"

definition metricType :: "string \<Rightarrow> string \<Rightarrow> string" where
  "metricType declared fallback = (if TrimSpace declared = [] then fallback else declared)"

text \<open>The kernel and the in-memory environment use the same keys.\<close>

lemma metricKey_eq: "metricKey = metricSnapshotKey"
  by (rule ext)+ (simp add: metricKey_def metricSnapshotKey_def label_part_def [abs_def])

lemma IndexByte_append: "c \<notin> set p \<Longrightarrow> IndexByte (p @ c # s) c = Some (length p)"
  by (induction p) auto

lemma IndexByte_None: "c \<notin> set p \<Longrightarrow> IndexByte p c = None"
  by (induction p) auto

lemma metricNameFromKey_metricKey: "CHR ''{'' \<notin> set name \<Longrightarrow> metricNameFromKey (metricKey name labels) = name"
  by (simp add: metricKey_def metricNameFromKey_def IndexByte_append IndexByte_None)

section \<open>Percentiles\<close>

text \<open>\<open>sort.Float64s\<close>: ascending, with NaNs first.\<close>

definition float_before :: "float64 \<Rightarrow> float64 \<Rightarrow> bool" where
  "float_before x y \<longleftrightarrow> x < y \<or> x = NaN \<and> y \<noteq> NaN"

fun float_insert :: "float64 \<Rightarrow> float64 list \<Rightarrow> float64 list" where
  "float_insert x [] = [x]"
| "float_insert x (y # ys) = (if float_before y x then y # float_insert x ys else x # y # ys)"

definition Float64s :: "float64 list \<Rightarrow> float64 list" where
  "Float64s xs = foldr float_insert xs []"

definition nearest_rank :: "int \<Rightarrow> nat \<Rightarrow> int" where
  "nearest_rank percent n =
     (let rank = (percent * int n + 99) div 100;
          rank = (if rank < 1 then 1 else rank)
      in if rank > int n then int n else rank)"

definition percentileNearestRank :: "float64 list \<Rightarrow> int \<Rightarrow> float64" where
  "percentileNearestRank values percent =
     (if values = [] then 0
      else let sorted = Float64s values in sorted ! nat (nearest_rank percent (length sorted) - 1))"

section \<open>The store\<close>

definition newMetricStore :: "MetricDef list \<Rightarrow> metricStore" where
  "newMetricStore defs =
     \<lparr>mt_types = map_collect md_Name (\<lambda>def. TrimSpace (md_Type def))
         (filter (\<lambda>def. TrimSpace (md_Name def) \<noteq> []) defs) fmempty,
      mt_items = fmempty, mt_durationSamples = fmempty, mt_aggregateKeys = fmempty\<rparr>"

definition addCounter :: "string \<Rightarrow> float64 \<Rightarrow> Labels \<Rightarrow> metricStore \<Rightarrow> metricStore" where
  "addCounter name delta labels s =
     (let key = metricKey name labels;
          item = item_at key (mt_items s);
          item = (if mr_Type item = []
            then item\<lparr>mr_Type := metricType (string_at name (mt_types s)) ''counter'', mr_Labels := labels\<rparr>
            else item);
          item = item\<lparr>mr_Count := mr_Count item + 1, mr_Sum := mr_Sum item + delta\<rparr>
      in s\<lparr>mt_items := fmupd key item (mt_items s)\<rparr>)"

definition observeDuration :: "string \<Rightarrow> int \<Rightarrow> Labels \<Rightarrow> metricStore \<Rightarrow> metricStore" where
  "observeDuration name value labels s =
     (let seconds = Seconds value;
          key = metricKey name labels;
          item = item_at key (mt_items s);
          item = (if mr_Type item = []
            then item\<lparr>mr_Type := metricType (string_at name (mt_types s)) ''duration'', mr_Labels := labels,
                      mr_Min := seconds, mr_Max := seconds\<rparr>
            else let item = (if seconds < mr_Min item then item\<lparr>mr_Min := seconds\<rparr> else item)
                 in if mr_Max item < seconds then item\<lparr>mr_Max := seconds\<rparr> else item);
          item = item\<lparr>mr_Count := mr_Count item + 1, mr_Sum := mr_Sum item + seconds\<rparr>
      in s\<lparr>mt_items := fmupd key item (mt_items s),
           mt_durationSamples := fmupd key (samples_at key (mt_durationSamples s) @ [seconds])
                                       (mt_durationSamples s)\<rparr>)"

definition recordSnapshot :: "MetricSnapshot \<Rightarrow> metricStore \<Rightarrow> metricStore" where
  "recordSnapshot snapshot s =
     (if ms_Count snapshot \<le> 0 then s
      else let key = metricKey (ms_Name snapshot) (ms_Labels snapshot);
               declared = string_at (ms_Name snapshot) (mt_types s);
               item = item_at key (mt_items s);
               item = (if mr_Type item = []
                 then (let t = metricType declared (ms_Type snapshot)
                       in item\<lparr>mr_Type := (if t = [] then ''counter'' else t), mr_Labels := ms_Labels snapshot\<rparr>)
                 else item);
               item = item\<lparr>mr_Count := mr_Count item + ms_Count snapshot, mr_Sum := mr_Sum item + ms_Sum snapshot\<rparr>
           in if ms_Type snapshot = ''duration'' \<or> mr_Type item = ''duration''
              then let item = item\<lparr>mr_Type := metricType declared ''duration''\<rparr>;
                       item = (if mr_Count item = ms_Count snapshot
                         then item\<lparr>mr_Min := ms_Min snapshot, mr_Max := ms_Max snapshot\<rparr>
                         else let item = (if feq (mr_Min item) 0 \<or> ms_Min snapshot < mr_Min item
                                then item\<lparr>mr_Min := ms_Min snapshot\<rparr> else item)
                              in if mr_Max item < ms_Max snapshot then item\<lparr>mr_Max := ms_Max snapshot\<rparr> else item)
                   in s\<lparr>mt_items := fmupd key item (mt_items s),
                        mt_aggregateKeys := fmupd key True (mt_aggregateKeys s)\<rparr>
              else s\<lparr>mt_items := fmupd key item (mt_items s)\<rparr>)"

definition finish_item :: "metricStore \<Rightarrow> string \<Rightarrow> MetricResult \<Rightarrow> MetricResult" where
  "finish_item s key item =
     (if mr_Type item = ''duration'' \<and> \<not> flag_at key (mt_aggregateKeys s)
      then item\<lparr>mr_P95 := percentileNearestRank (samples_at key (mt_durationSamples s)) 95,
                mr_P99 := percentileNearestRank (samples_at key (mt_durationSamples s)) 99\<rparr>
      else item)"

definition metric_results :: "metricStore \<Rightarrow> MetricResult gomap" where
  "metric_results s =
     (let results = fmmap_keys (finish_item s) (mt_items s);
          emittedNames = map metricNameFromKey (map_keys (mt_items s));
          silent = filter (\<lambda>name. name \<notin> set emittedNames) (map_keys (mt_types s))
      in map_collect id (\<lambda>name. zero_MetricResult\<lparr>mr_Type := metricType (string_at name (mt_types s)) ''counter''\<rparr>)
           silent results)"

section \<open>Sorting and percentiles\<close>

lemma float_less_trans: "(x :: float64) < y \<Longrightarrow> y < z \<Longrightarrow> x < z"
  by (cases x; cases y; cases z) auto

lemma float_before_trans: "float_before x y \<Longrightarrow> float_before y z \<Longrightarrow> float_before x z"
  by (cases x; cases y; cases z) (auto simp: float_before_def)

lemma float_before_total: "float_before x y \<or> x = y \<or> float_before y x"
  by (cases x; cases y) (auto simp: float_before_def)

lemma float_before_irrefl: "\<not> float_before x x"
  by (cases x) (auto simp: float_before_def)

lemma not_float_before_trans:
  "\<not> float_before y x \<Longrightarrow> \<not> float_before z y \<Longrightarrow> \<not> float_before z x"
  by (metis float_before_total float_before_trans)

lemma float_insert_set [simp]: "set (float_insert x ys) = insert x (set ys)"
  by (induction ys) auto

lemma float_insert_length [simp]: "length (float_insert x ys) = Suc (length ys)"
  by (induction ys) auto

lemma float_insert_filter:
  "length (filter P (float_insert x ys)) = length (filter P (x # ys))"
  by (induction ys) auto

lemma Float64s_set [simp]: "set (Float64s xs) = set xs"
  by (induction xs) (simp_all add: Float64s_def)

lemma Float64s_length [simp]: "length (Float64s xs) = length xs"
  by (induction xs) (simp_all add: Float64s_def)

lemma Float64s_filter: "length (filter P (Float64s xs)) = length (filter P xs)"
  by (induction xs) (simp_all add: Float64s_def float_insert_filter)

definition float_sorted :: "float64 list \<Rightarrow> bool" where
  "float_sorted xs \<longleftrightarrow> sorted_wrt (\<lambda>x y. \<not> float_before y x) xs"

lemma float_insert_sorted: "float_sorted ys \<Longrightarrow> float_sorted (float_insert x ys)"
proof (induction ys)
  case (Cons y ys)
  show ?case
  proof (cases "float_before y x")
    case True
    then have "\<not> float_before x y" using float_before_trans float_before_irrefl by blast
    with Cons True show ?thesis by (auto simp: float_sorted_def)
  next
    case False
    with Cons.prems show ?thesis
      using not_float_before_trans [OF False] by (auto simp: float_sorted_def)
  qed
qed (simp add: float_sorted_def)

lemma Float64s_sorted: "float_sorted (Float64s xs)"
proof (induction xs)
  case Nil
  show ?case by (simp add: Float64s_def float_sorted_def)
next
  case (Cons x xs)
  then show ?case by (simp add: Float64s_def float_insert_sorted)
qed

lemma nearest_rank_bounds:
  assumes "0 < n" and "0 \<le> percent" and "percent \<le> 100"
  shows "1 \<le> nearest_rank percent n" and "nearest_rank percent n \<le> int n"
    and "percent * int n \<le> 100 * nearest_rank percent n"
proof -
  have "percent * int n \<le> 100 * int n" using assms by (intro mult_right_mono) auto
  then show "1 \<le> nearest_rank percent n" and "nearest_rank percent n \<le> int n"
    and "percent * int n \<le> 100 * nearest_rank percent n"
    using assms(1) by (auto simp: nearest_rank_def Let_def)
qed

lemma percentile_at:
  assumes "vs \<noteq> []"
  shows "percentileNearestRank vs percent = Float64s vs ! nat (nearest_rank percent (length vs) - 1)"
  using assms by (simp add: percentileNearestRank_def)

lemma percentile_in:
  assumes "vs \<noteq> []" and "0 \<le> percent" and "percent \<le> 100"
  shows "percentileNearestRank vs percent \<in> set vs"
proof -
  have "nat (nearest_rank percent (length vs) - 1) < length (Float64s vs)"
    using nearest_rank_bounds [of "length vs" percent] assms by auto
  then show ?thesis using percentile_at [OF assms(1)] by (metis Float64s_set nth_mem)
qed

lemma filter_ge_take:
  assumes "\<And>i. i < k \<Longrightarrow> P (xs ! i)" and "k \<le> length xs"
  shows "k \<le> length (filter P xs)"
proof -
  have "filter P (take k xs) = take k xs"
    using assms by (intro filter_True) (auto simp: in_set_conv_nth)
  then have "length (filter P (take k xs @ drop k xs)) = k + length (filter P (drop k xs))"
    using assms(2) by (simp only: filter_append length_append) simp
  then show ?thesis by simp
qed

lemma filter_less_take:
  assumes "\<And>i. k \<le> i \<Longrightarrow> i < length xs \<Longrightarrow> \<not> P (xs ! i)" and "k \<le> length xs"
  shows "length (filter P xs) \<le> k"
proof -
  have "filter P (drop k xs) = []"
    using assms by (auto simp: filter_empty_conv in_set_conv_nth)
  then have "length (filter P (take k xs @ drop k xs)) \<le> length (take k xs)"
    by (simp only: filter_append append_Nil2) (rule length_filter_le)
  then show ?thesis using assms(2) by simp
qed

text \<open>
  The nearest-rank percentile: at least \<open>percent\<close> percent of the samples do not exceed it, and
  fewer than the rank are below it.
\<close>

lemma percentile_rank:
  assumes "vs \<noteq> []" and "0 \<le> percent" and "percent \<le> 100"
  defines "p \<equiv> percentileNearestRank vs percent"
  shows "nearest_rank percent (length vs) \<le> int (length (filter (\<lambda>v. \<not> float_before p v) vs))"
    and "int (length (filter (\<lambda>v. float_before v p) vs)) < nearest_rank percent (length vs)"
proof -
  let ?r = "nearest_rank percent (length vs)" and ?s = "Float64s vs"
  let ?k = "nat (?r - 1)"
  have r: "1 \<le> ?r" "?r \<le> int (length vs)"
    using nearest_rank_bounds [of "length vs" percent] assms(1-3) by auto
  then have k: "?k < length ?s" by auto
  have p: "p = ?s ! ?k" using percentile_at [OF assms(1)] by (simp add: p_def)
  have le: "\<not> float_before (?s ! j) (?s ! i)" if "i \<le> j" "j < length ?s" for i j
    using Float64s_sorted [of vs] that float_before_irrefl
    by (cases "i = j") (auto simp: float_sorted_def sorted_wrt_iff_nth_less)
  have "Suc ?k \<le> length (filter (\<lambda>v. \<not> float_before p v) ?s)"
    by (rule filter_ge_take) (use le k in \<open>auto simp: p\<close>)
  then show "?r \<le> int (length (filter (\<lambda>v. \<not> float_before p v) vs))"
    using r by (simp add: Float64s_filter)
  have "length (filter (\<lambda>v. float_before v p) ?s) \<le> ?k"
    by (rule filter_less_take) (use le k in \<open>auto simp: p\<close>)
  then show "int (length (filter (\<lambda>v. float_before v p) vs)) < ?r"
    using r by (simp add: Float64s_filter)
qed

section \<open>Percentiles\<close>



end
