(* ===== verification/Scenario.thy ===== *)
theory Scenario
  imports Go_Float Go_Strings
begin

text \<open>
  \<open>benchkit/dsl/dsl.go\<close>: the scenario document and the expansion of \<open>${var}\<close> references. The YAML
  decoder is third-party code: \<open>Parse\<close> takes its outcome. A Go \<open>map[string]any\<close> inside a spec is an
  association list in the order in which a range loop happens to visit it; \<open>Parse\<close> takes the order
  in which it visits the units as an argument.
\<close>

section \<open>Documents\<close>

datatype json =
    JNull
  | JBool bool
  | JInt int
  | JFloat float64
  | JString string
  | JArray "json list"
  | JObject "(string \<times> json) list"

record RunConfig =
  rc_ID :: string
  rc_Duration :: int
  rc_Seed :: int
  rc_ReportDir :: string

record UnitNode =
  un_Use :: string
  un_Inputs :: "string gomap"
  un_After :: "string list"
  un_Spec :: "(string \<times> json) list"

record Scenario =
  sc_Version :: string
  sc_Run :: RunConfig
  sc_Vars :: "json gomap"
  sc_Units :: "UnitNode gomap"

section \<open>Variable expansion\<close>

definition is_var_ref :: "string \<Rightarrow> bool" where
  "is_var_ref s \<longleftrightarrow> prefix ''${'' s \<and> suffix ''}'' s \<and> length s > 3"

definition var_key :: "string \<Rightarrow> string" where
  "var_key s = TrimSuffix (TrimPrefix s ''${'') ''}''"

fun expandValue :: "json gomap \<Rightarrow> json \<Rightarrow> json result"
and expandFields :: "json gomap \<Rightarrow> (string \<times> json) list \<Rightarrow> (string \<times> json) list result"
and expandItems :: "json gomap \<Rightarrow> json list \<Rightarrow> json list result" where
  "expandValue vars (JString typed) =
     (if is_var_ref typed then
        (let key = var_key typed
         in case fmlookup vars key of
              None \<Rightarrow> Inl (Errorf ''unknown variable %q'' [ArgS key])
            | Some resolved \<Rightarrow> Inr resolved)
      else Inr (JString typed))"
| "expandValue vars (JObject typed) =
     (case expandFields vars typed of Inl err \<Rightarrow> Inl err | Inr out \<Rightarrow> Inr (JObject out))"
| "expandValue vars (JArray typed) =
     (case expandItems vars typed of Inl err \<Rightarrow> Inl err | Inr out \<Rightarrow> Inr (JArray out))"
| "expandValue vars JNull = Inr JNull"
| "expandValue vars (JBool b) = Inr (JBool b)"
| "expandValue vars (JInt i) = Inr (JInt i)"
| "expandValue vars (JFloat x) = Inr (JFloat x)"
| "expandFields vars [] = Inr []"
| "expandFields vars ((k, v) # kvs) =
     (case expandValue vars v of
        Inl err \<Rightarrow> Inl err
      | Inr expanded \<Rightarrow>
          (case expandFields vars kvs of Inl err \<Rightarrow> Inl err | Inr out \<Rightarrow> Inr ((k, expanded) # out)))"
| "expandItems vars [] = Inr []"
| "expandItems vars (v # vs) =
     (case expandValue vars v of
        Inl err \<Rightarrow> Inl err
      | Inr expanded \<Rightarrow>
          (case expandItems vars vs of Inl err \<Rightarrow> Inl err | Inr out \<Rightarrow> Inr (expanded # out)))"

text \<open>The variables a value refers to.\<close>

fun refs :: "json \<Rightarrow> string list"
and refs_fields :: "(string \<times> json) list \<Rightarrow> string list"
and refs_items :: "json list \<Rightarrow> string list" where
  "refs (JString s) = (if is_var_ref s then [var_key s] else [])"
| "refs (JObject kvs) = refs_fields kvs"
| "refs (JArray vs) = refs_items vs"
| "refs JNull = []"
| "refs (JBool b) = []"
| "refs (JInt i) = []"
| "refs (JFloat x) = []"
| "refs_fields [] = []"
| "refs_fields ((k, v) # kvs) = refs v @ refs_fields kvs"
| "refs_items [] = []"
| "refs_items (v # vs) = refs v @ refs_items vs"

text \<open>Replacing every reference by the value of its variable, as a specification.\<close>

fun subst_vars :: "json gomap \<Rightarrow> json \<Rightarrow> json"
and subst_fields :: "json gomap \<Rightarrow> (string \<times> json) list \<Rightarrow> (string \<times> json) list"
and subst_items :: "json gomap \<Rightarrow> json list \<Rightarrow> json list" where
  "subst_vars vars (JString s) = (if is_var_ref s then the (fmlookup vars (var_key s)) else JString s)"
| "subst_vars vars (JObject kvs) = JObject (subst_fields vars kvs)"
| "subst_vars vars (JArray vs) = JArray (subst_items vars vs)"
| "subst_vars vars JNull = JNull"
| "subst_vars vars (JBool b) = JBool b"
| "subst_vars vars (JInt i) = JInt i"
| "subst_vars vars (JFloat x) = JFloat x"
| "subst_fields vars [] = []"
| "subst_fields vars ((k, v) # kvs) = (k, subst_vars vars v) # subst_fields vars kvs"
| "subst_items vars [] = []"
| "subst_items vars (v # vs) = subst_vars vars v # subst_items vars vs"

definition known :: "json gomap \<Rightarrow> string list \<Rightarrow> bool" where
  "known vars ks \<longleftrightarrow> list_all (\<lambda>k. fmlookup vars k \<noteq> None) ks"

lemma known_simps [simp]:
  "known vars []"
  "known vars (k # ks) \<longleftrightarrow> fmlookup vars k \<noteq> None \<and> known vars ks"
  "known vars (ks @ ks') \<longleftrightarrow> known vars ks \<and> known vars ks'"
  by (simp_all add: known_def)

text \<open>
  Expansion succeeds exactly when every variable referred to is defined, and then it is
  simultaneous substitution: the values put in are not expanded again.
\<close>

lemma expand_ok:
  "known vars (refs v) \<Longrightarrow> expandValue vars v = Inr (subst_vars vars v)"
  "known vars (refs_fields kvs) \<Longrightarrow> expandFields vars kvs = Inr (subst_fields vars kvs)"
  "known vars (refs_items vs) \<Longrightarrow> expandItems vars vs = Inr (subst_items vars vs)"
proof (induction vars v and vars kvs and vars vs rule: expandValue_expandFields_expandItems.induct)
qed (auto simp: Let_def)

definition unknown_error :: "json gomap \<Rightarrow> string list \<Rightarrow> goerr \<Rightarrow> bool" where
  "unknown_error vars ks e \<longleftrightarrow>
     (\<exists>k\<in>set ks. fmlookup vars k = None \<and> e = Errorf ''unknown variable %q'' [ArgS k])"

lemma unknown_error_append:
  "unknown_error vars ks e \<Longrightarrow> unknown_error vars (ks @ ks') e"
  "unknown_error vars ks' e \<Longrightarrow> unknown_error vars (ks @ ks') e"
  by (auto simp: unknown_error_def)

lemma expand_error:
  "\<not> known vars (refs v) \<Longrightarrow> \<exists>e. expandValue vars v = Inl e \<and> unknown_error vars (refs v) e"
  "\<not> known vars (refs_fields kvs) \<Longrightarrow>
   \<exists>e. expandFields vars kvs = Inl e \<and> unknown_error vars (refs_fields kvs) e"
  "\<not> known vars (refs_items vs) \<Longrightarrow>
   \<exists>e. expandItems vars vs = Inl e \<and> unknown_error vars (refs_items vs) e"
proof (induction vars v and vars kvs and vars vs rule: expandValue_expandFields_expandItems.induct)
  case (1 vars typed)
  then show ?case by (auto simp: unknown_error_def split: if_splits)
next
  case (9 vars k v kvs)
  show ?case
  proof (cases "known vars (refs v)")
    case True
    with 9 show ?thesis by (fastforce simp: expand_ok(1) intro: unknown_error_append)
  next
    case False
    with 9(1) show ?thesis by (auto intro: unknown_error_append)
  qed
next
  case (11 vars v vs)
  show ?case
  proof (cases "known vars (refs v)")
    case True
    with 11 show ?thesis by (fastforce simp: expand_ok(1) intro: unknown_error_append)
  next
    case False
    with 11(1) show ?thesis by (auto intro: unknown_error_append)
  qed
qed auto

section \<open>Parse\<close>

fun expand_units :: "json gomap \<Rightarrow> string list \<Rightarrow> UnitNode gomap \<Rightarrow> UnitNode gomap result" where
  "expand_units vars [] units = Inr units"
| "expand_units vars (name # names) units =
     (let node = the (fmlookup units name)
      in case expandValue vars (JObject (un_Spec node)) of
           Inl err \<Rightarrow> Inl (Errorf ''unit %q: %w'' [ArgS name, ArgE err])
         | Inr expanded \<Rightarrow>
             (case expanded of
                JObject spec \<Rightarrow> expand_units vars names (fmupd name (node\<lparr>un_Spec := spec\<rparr>) units)
              | _ \<Rightarrow> Inl (Errorf ''unit %q spec must be an object'' [ArgS name])))"

definition Parse :: "string list \<Rightarrow> Scenario result \<Rightarrow> Scenario result" where
  "Parse names decoded =
     (case decoded of
        Inl err \<Rightarrow> Inl err
      | Inr scenario \<Rightarrow>
          (case expand_units (sc_Vars scenario) names (sc_Units scenario) of
             Inl err \<Rightarrow> Inl err
           | Inr units \<Rightarrow> Inr (scenario\<lparr>sc_Units := units\<rparr>)))"

definition expanded_node :: "json gomap \<Rightarrow> UnitNode \<Rightarrow> UnitNode" where
  "expanded_node vars node = node\<lparr>un_Spec := subst_fields vars (un_Spec node)\<rparr>"

definition units_known :: "json gomap \<Rightarrow> UnitNode gomap \<Rightarrow> string list \<Rightarrow> bool" where
  "units_known vars units names \<longleftrightarrow>
     list_all (\<lambda>n. known vars (refs_fields (un_Spec (the (fmlookup units n))))) names"

lemma expand_units_ok:
  assumes "distinct names" and "set names \<subseteq> fset (fmdom units)" and "units_known vars units names"
  shows "\<exists>us. expand_units vars names units = Inr us \<and>
           (\<forall>n. fmlookup us n = (if n \<in> set names then map_option (expanded_node vars) (fmlookup units n)
                                else fmlookup units n))"
  using assms
proof (induction names arbitrary: units)
  case (Cons name names)
  obtain node where node: "fmlookup units name = Some node"
    using Cons.prems(2) by (auto simp: fmlookup_dom_iff)
  have kn: "known vars (refs_fields (un_Spec node))"
    using Cons.prems(3) by (simp add: units_known_def node)
  let ?units = "fmupd name (expanded_node vars node) units"
  have keep: "fmlookup ?units n = fmlookup units n" if "n \<in> set names" for n
    using that Cons.prems(1) by auto
  have step: "expand_units vars (name # names) units = expand_units vars names ?units"
    using kn by (simp add: node expand_ok(2) expanded_node_def)
  have "units_known vars ?units names"
    using Cons.prems(3) keep by (simp add: units_known_def list_all_iff)
  moreover have "distinct names" "set names \<subseteq> fset (fmdom ?units)" using Cons.prems(1,2) by auto
  ultimately obtain us where us: "expand_units vars names ?units = Inr us"
    "\<forall>n. fmlookup us n = (if n \<in> set names then map_option (expanded_node vars) (fmlookup ?units n)
                          else fmlookup ?units n)"
    using Cons.IH [of ?units] by blast
  have "fmlookup us n = (if n \<in> set (name # names) then map_option (expanded_node vars) (fmlookup units n)
      else fmlookup units n)" for n
    using us(2) keep [of n] Cons.prems(1) node by (cases "n = name") auto
  with us(1) step show ?case by metis
qed simp

lemma expand_units_error:
  assumes "distinct names" and "set names \<subseteq> fset (fmdom units)" and "\<not> units_known vars units names"
  shows "\<exists>n\<in>set names. \<exists>e. expand_units vars names units = Inl (Errorf ''unit %q: %w'' [ArgS n, ArgE e]) \<and>
           unknown_error vars (refs_fields (un_Spec (the (fmlookup units n)))) e"
  using assms
proof (induction names arbitrary: units)
  case Nil
  then show ?case by (simp add: units_known_def)
next
  case (Cons name names)
  obtain node where node: "fmlookup units name = Some node"
    using Cons.prems(2) by (auto simp: fmlookup_dom_iff)
  show ?case
  proof (cases "known vars (refs_fields (un_Spec node))")
    case False
    from expand_error(2) [OF this] obtain e
      where "expandFields vars (un_Spec node) = Inl e" "unknown_error vars (refs_fields (un_Spec node)) e"
      by blast
    then show ?thesis by (simp add: node)
  next
    case True
    let ?units = "fmupd name (expanded_node vars node) units"
    have keep: "fmlookup ?units n = fmlookup units n" if "n \<in> set names" for n
      using that Cons.prems(1) by auto
    have step: "expand_units vars (name # names) units = expand_units vars names ?units"
      using True by (simp add: node expand_ok(2) expanded_node_def)
    have "\<not> units_known vars ?units names"
      using Cons.prems(3) keep True by (auto simp: units_known_def list_all_iff node)
    moreover have "set names \<subseteq> fset (fmdom ?units)" using Cons.prems(2) by auto
    ultimately obtain n e where "n \<in> set names"
      "expand_units vars names ?units = Inl (Errorf ''unit %q: %w'' [ArgS n, ArgE e])"
      "unknown_error vars (refs_fields (un_Spec (the (fmlookup ?units n)))) e"
      using Cons.IH [of ?units] Cons.prems(1) by auto
    with step keep show ?thesis by (auto intro!: bexI [of _ n])
  qed
qed

definition parsed :: "Scenario \<Rightarrow> Scenario" where
  "parsed scenario =
     scenario\<lparr>sc_Units := fmmap (expanded_node (sc_Vars scenario)) (sc_Units scenario)\<rparr>"

definition scenario_known :: "Scenario \<Rightarrow> bool" where
  "scenario_known scenario = units_known (sc_Vars scenario) (sc_Units scenario) (map_keys (sc_Units scenario))"

lemma Parse_ok:
  assumes "distinct names" and "set names = fset (fmdom (sc_Units scenario))" and "scenario_known scenario"
  shows "Parse names (Inr scenario) = Inr (parsed scenario)"
proof -
  have "units_known (sc_Vars scenario) (sc_Units scenario) names"
    using assms(2,3) by (simp add: scenario_known_def units_known_def list_all_iff)
  then obtain us where us: "expand_units (sc_Vars scenario) names (sc_Units scenario) = Inr us"
    "\<forall>n. fmlookup us n = (if n \<in> set names then map_option (expanded_node (sc_Vars scenario)) (fmlookup (sc_Units scenario) n)
         else fmlookup (sc_Units scenario) n)"
    using expand_units_ok [of names "sc_Units scenario" "sc_Vars scenario"] assms by auto
  have "us = fmmap (expanded_node (sc_Vars scenario)) (sc_Units scenario)"
    using us(2) assms(2) by (intro fmap_ext) (auto simp: fmlookup_dom_iff)
  with us(1) show ?thesis by (simp add: Parse_def parsed_def)
qed

lemma Parse_fails:
  assumes "distinct names" and "set names = fset (fmdom (sc_Units scenario))" and "\<not> scenario_known scenario"
  shows "\<exists>n\<in>set names. \<exists>k. fmlookup (sc_Vars scenario) k = None \<and>
     k \<in> set (refs_fields (un_Spec (the (fmlookup (sc_Units scenario) n)))) \<and>
     Parse names (Inr scenario) =
       Inl (Errorf ''unit %q: %w'' [ArgS n, ArgE (Errorf ''unknown variable %q'' [ArgS k])])"
proof -
  have "\<not> units_known (sc_Vars scenario) (sc_Units scenario) names"
    using assms(2,3) by (simp add: scenario_known_def units_known_def list_all_iff)
  from expand_units_error [OF assms(1) _ this] assms(2) show ?thesis
    by (fastforce simp: Parse_def unknown_error_def)
qed

section \<open>Variables\<close>

text \<open>
  Expansion. A scenario whose specs refer to known variables only is parsed to the scenario with every
  whole-value reference replaced by the value of the variable, whatever the order of the units; otherwise
  the error names a unit and a variable it refers to that is not defined.
\<close>

theorem parse_expands:
  assumes "distinct names" and "set names = fset (fmdom (sc_Units scenario))"
  shows "if scenario_known scenario then Parse names (Inr scenario) = Inr (parsed scenario)
    else \<exists>n\<in>set names. \<exists>k. fmlookup (sc_Vars scenario) k = None \<and>
      k \<in> set (refs_fields (un_Spec (the (fmlookup (sc_Units scenario) n)))) \<and>
      Parse names (Inr scenario) =
        Inl (Errorf ''unit %q: %w'' [ArgS n, ArgE (Errorf ''unknown variable %q'' [ArgS k])])"
  using Parse_ok [OF assms] Parse_fails [OF assms] by auto

definition sample_scenario :: Scenario where
  "sample_scenario =
     \<lparr>sc_Version = ''wkbench/v2'', sc_Run = \<lparr>rc_ID = ''r'', rc_Duration = 0, rc_Seed = 0, rc_ReportDir = []\<rparr>,
      sc_Vars = fmupd ''n'' (JInt 3) fmempty,
      sc_Units = fmupd ''u'' \<lparr>un_Use = ''k'', un_Inputs = fmempty, un_After = [],
        un_Spec = [(''count'', JString ''${n}'')]\<rparr> fmempty\<rparr>"

theorem parse_expands_witness:
  "Parse [''u''] (Inr sample_scenario) = Inr (parsed sample_scenario)"
proof -
  have "scenario_known sample_scenario" by code_simp
  with parse_expands [of "[''u'']" sample_scenario] show ?thesis by (simp add: sample_scenario_def)
qed

end
