(* ===== verification/Output_Store.thy ===== *)
theory Output_Store
  imports Metric_Store Scenario
begin

text \<open>
  \<open>outputStore\<close> of \<open>benchkit/kernel/kernel.go\<close>, the values the units of one run have published, the
  results reported per unit, and the cleanup pass that closes the outputs that own resources.
  A published value has the type \<open>'v\<close> (Go's \<open>any\<close>); \<open>AnyOps\<close> holds the outcome of the type
  assertions the kernel makes on it and the methods behind them. \<open>'w\<close> is the world the methods of
  user code act on.
\<close>

record ('v, 'w) AnyOps =
  any_OutputValue :: "'v \<Rightarrow> 'v option"
  any_ReportOutput :: "'v \<Rightarrow> json option"
  any_Close :: "'v \<Rightarrow> ('w \<Rightarrow> goerr option \<times> 'w) option"

datatype Status =
    StatusUnset
  | StatusCompleted
  | StatusConfigFailed
  | StatusPlanFailed
  | StatusWorkerFailed

record OutputResult =
  or_Type :: string
  or_Value :: "json option"

record ArtifactResult =
  ar_Path :: string
  ar_ContentType :: string
  ar_SizeBytes :: int

record CleanupResult =
  cr_Output :: string
  cr_Error :: goerr

record UnitResult =
  ur_Kind :: string
  ur_Status :: Status
  ur_Error :: "goerr option"
  ur_Outputs :: "OutputResult gomap"
  ur_Metrics :: "MetricResult gomap"
  ur_Artifacts :: "ArtifactResult gomap"
  ur_StartedAt :: int
  ur_EndedAt :: int
  ur_ElapsedMS :: int
  ur_Cleanup :: "CleanupResult list"

definition zero_UnitResult :: UnitResult where
  "zero_UnitResult =
     \<lparr>ur_Kind = [], ur_Status = StatusUnset, ur_Error = None, ur_Outputs = fmempty,
      ur_Metrics = fmempty, ur_Artifacts = fmempty, ur_StartedAt = 0, ur_EndedAt = 0,
      ur_ElapsedMS = 0, ur_Cleanup = []\<rparr>"

section \<open>The store\<close>

type_synonym 'v outputStore = "'v gomap gomap"

definition newOutputStore :: "'v outputStore" where
  "newOutputStore = fmempty"

definition ports_of :: "string \<Rightarrow> 'v outputStore \<Rightarrow> 'v gomap" where
  "ports_of u s = (case fmlookup s u of Some ports \<Rightarrow> ports | None \<Rightarrow> fmempty)"

definition os_set :: "string \<Rightarrow> string \<Rightarrow> 'v \<Rightarrow> 'v outputStore \<Rightarrow> 'v outputStore" where
  "os_set u port v s = fmupd u (fmupd port v (ports_of u s)) s"

definition os_get :: "string \<Rightarrow> string \<Rightarrow> 'v outputStore \<Rightarrow> 'v result" where
  "os_get u port s =
     (case fmlookup s u of
        None \<Rightarrow> Inl (Errorf ''unit %q has not produced outputs'' [ArgS u])
      | Some ports \<Rightarrow>
          (case fmlookup ports port of
             None \<Rightarrow> Inl (Errorf ''unit %q output %q not found'' [ArgS u, ArgS port])
           | Some v \<Rightarrow> Inr v))"

definition os_lookup :: "string \<times> string \<Rightarrow> 'v outputStore \<Rightarrow> 'v option" where
  "os_lookup k s = fmlookup (ports_of (fst k) s) (snd k)"

interpretation ostore: keyed_store "\<lambda>k. os_set (fst k) (snd k)" os_lookup
  by unfold_locales (auto simp: os_set_def os_lookup_def ports_of_def split: option.splits)

text \<open>\<open>get\<close> is the lookup with its two error messages.\<close>

lemma os_get_lookup: "os_get u port s = Inr v \<longleftrightarrow> os_lookup (u, port) s = Some v"
  by (auto simp: os_get_def os_lookup_def ports_of_def split: option.splits)

definition output_result :: "('v, 'w) AnyOps \<Rightarrow> PortDef \<Rightarrow> 'v \<Rightarrow> OutputResult" where
  "output_result ops def v = \<lparr>or_Type = pd_Type def, or_Value = any_ReportOutput ops v\<rparr>"

definition resultsForUnit :: "('v, 'w) AnyOps \<Rightarrow> string \<Rightarrow> PortDef list \<Rightarrow> 'v outputStore \<Rightarrow> OutputResult gomap" where
  "resultsForUnit ops u defs s =
     (let ports = ports_of u s;
          byName = map_collect pd_Name id defs fmempty;
          names = filter (\<lambda>name. fmlookup byName name \<noteq> None) (map_keys ports)
      in map_collect id (\<lambda>name. output_result ops (the (fmlookup byName name)) (the (fmlookup ports name)))
           names fmempty)"

text \<open>Only declared ports that were published are reported, each with its declared type.\<close>

lemma resultsForUnit_lookup:
  assumes "distinct (map pd_Name defs)" and "def \<in> set defs"
  shows "fmlookup (resultsForUnit ops u defs s) (pd_Name def) =
    map_option (output_result ops def) (os_lookup (u, pd_Name def) s)"
proof -
  let ?by = "map_collect pd_Name id defs fmempty"
  let ?names = "filter (\<lambda>name. fmlookup ?by name \<noteq> None) (map_keys (ports_of u s))"
  let ?f = "\<lambda>name. output_result ops (the (fmlookup ?by name)) (the (fmlookup (ports_of u s) name))"
  have by_def: "fmlookup ?by (pd_Name def) = Some def"
    using map_collect_lookup_distinct [OF assms, of id fmempty] by simp
  have d: "distinct (map id ?names)" by simp
  show ?thesis
  proof (cases "fmlookup (ports_of u s) (pd_Name def)")
    case None
    then have "pd_Name def \<notin> id ` set ?names" by (auto simp: fmlookup_dom_iff)
    from map_collect_lookup_notin [OF this, of ?f fmempty] None show ?thesis
      by (simp add: resultsForUnit_def Let_def os_lookup_def)
  next
    case (Some v)
    then have "pd_Name def \<in> set ?names" using by_def by (auto intro: fmdomI)
    from map_collect_lookup_distinct [OF d this, of ?f fmempty] Some by_def show ?thesis
      by (simp add: resultsForUnit_def Let_def os_lookup_def)
  qed
qed

section \<open>Cleanup\<close>

record ('v, 'w) cleanupTarget =
  ct_unit :: string
  ct_port :: string
  ct_close :: "'w \<Rightarrow> goerr option \<times> 'w"

definition port_targets :: "('v, 'w) AnyOps \<Rightarrow> string \<Rightarrow> 'v gomap \<Rightarrow> ('v, 'w) cleanupTarget list" where
  "port_targets ops u ports =
     List.map_filter
       (\<lambda>port. case any_Close ops (the (fmlookup ports port)) of
          None \<Rightarrow> None
        | Some cl \<Rightarrow> Some \<lparr>ct_unit = u, ct_port = port, ct_close = cl\<rparr>)
       (rev (map_keys ports))"

definition cleanupTargets :: "('v, 'w) AnyOps \<Rightarrow> string list \<Rightarrow> 'v outputStore \<Rightarrow> ('v, 'w) cleanupTarget list" where
  "cleanupTargets ops order s = concat (map (\<lambda>u. port_targets ops u (ports_of u s)) (rev order))"

definition result_at :: "string \<Rightarrow> UnitResult gomap \<Rightarrow> UnitResult" where
  "result_at u results = (case fmlookup results u of Some r \<Rightarrow> r | None \<Rightarrow> zero_UnitResult)"

fun close_targets :: "('v, 'w) cleanupTarget list \<Rightarrow> UnitResult gomap \<Rightarrow> 'w \<Rightarrow> UnitResult gomap \<times> 'w" where
  "close_targets [] results w = (results, w)"
| "close_targets (target # targets) results w =
     (case ct_close target w of
        (None, w') \<Rightarrow> close_targets targets results w'
      | (Some err, w') \<Rightarrow>
          (let unitResult = result_at (ct_unit target) results;
               unitResult = unitResult\<lparr>ur_Cleanup := ur_Cleanup unitResult @ [\<lparr>cr_Output = ct_port target, cr_Error = err\<rparr>]\<rparr>
           in close_targets targets (fmupd (ct_unit target) unitResult results) w'))"

definition os_cleanup :: "('v, 'w) AnyOps \<Rightarrow> string list \<Rightarrow> 'v outputStore \<Rightarrow> UnitResult gomap \<Rightarrow> 'w \<Rightarrow>
    UnitResult gomap \<times> 'w" where
  "os_cleanup ops order s results w = close_targets (cleanupTargets ops order s) results w"

definition target_key :: "('v, 'w) cleanupTarget \<Rightarrow> string \<times> string" where
  "target_key t = (ct_unit t, ct_port t)"

lemma map_filter_concat: "List.map_filter f xs = concat (map (\<lambda>x. case f x of None \<Rightarrow> [] | Some y \<Rightarrow> [y]) xs)"
  by (induction xs) (auto simp: List.map_filter_def split: option.splits)

lemma port_targets_keys:
  "map target_key (port_targets ops u ports) =
     map (\<lambda>port. (u, port)) (filter (\<lambda>port. any_Close ops (the (fmlookup ports port)) \<noteq> None) (rev (map_keys ports)))"
proof -
  have "map target_key (List.map_filter (\<lambda>port. case any_Close ops (the (fmlookup ports port)) of
          None \<Rightarrow> None | Some cl \<Rightarrow> Some \<lparr>ct_unit = u, ct_port = port, ct_close = cl\<rparr>) xs) =
      map (\<lambda>port. (u, port)) (filter (\<lambda>port. any_Close ops (the (fmlookup ports port)) \<noteq> None) xs)" for xs
    by (induction xs) (auto simp: List.map_filter_def target_key_def split: option.splits)
  then show ?thesis by (simp add: port_targets_def)
qed

lemma in_cleanupTargets:
  "(u, port) \<in> target_key ` set (cleanupTargets ops order s) \<longleftrightarrow>
     u \<in> set order \<and> (\<exists>v. os_lookup (u, port) s = Some v \<and> any_Close ops v \<noteq> None)"
proof -
  have "(u', port) \<in> target_key ` set (port_targets ops u ports) \<longleftrightarrow>
      u' = u \<and> (\<exists>v. fmlookup ports port = Some v \<and> any_Close ops v \<noteq> None)" for u u' ports
  proof -
    have "(u', port) \<in> set (map target_key (port_targets ops u ports)) \<longleftrightarrow>
        u' = u \<and> (\<exists>v. fmlookup ports port = Some v \<and> any_Close ops v \<noteq> None)"
      unfolding port_targets_keys by (auto simp: fmlookup_dom_iff)
    then show ?thesis by simp
  qed
  then show ?thesis
    by (auto simp: cleanupTargets_def os_lookup_def image_UN)
qed

lemma distinct_cleanupTargets:
  assumes "distinct order"
  shows "distinct (map target_key (cleanupTargets ops order s))"
proof -
  have one: "distinct (map target_key (port_targets ops u ports))" for u ports
    unfolding port_targets_keys by (simp add: distinct_map inj_on_def)
  have keys: "\<forall>t\<in>set (port_targets ops u ports). ct_unit t = u" for u ports
  proof
    fix t assume "t \<in> set (port_targets ops u ports)"
    then have "target_key t \<in> set (map target_key (port_targets ops u ports))" by simp
    then show "ct_unit t = u" unfolding port_targets_keys by (auto simp: target_key_def)
  qed
  have "distinct us \<Longrightarrow> distinct (map target_key (concat (map (\<lambda>u. port_targets ops u (ports_of u s)) us)))" for us
  proof (induction us)
    case (Cons u us)
    let ?rest = "concat (map (\<lambda>u. port_targets ops u (ports_of u s)) us)"
    have "\<forall>t\<in>set ?rest. ct_unit t \<noteq> u" using Cons.prems keys by auto
    then have "set (map target_key (port_targets ops u (ports_of u s))) \<inter> set (map target_key ?rest) = {}"
      using keys by (auto simp: target_key_def)
    with one Cons show ?case by (simp only: list.map concat.simps map_append distinct_append distinct.simps)
  qed simp
  then show ?thesis using assms by (simp add: cleanupTargets_def)
qed

text \<open>Cleanup never changes a unit's verdict; it only appends cleanup errors.\<close>

lemma close_targets_keep:
  "fmlookup results u = Some r \<Longrightarrow>
   \<exists>c. fmlookup (fst (close_targets targets results w)) u = Some (r\<lparr>ur_Cleanup := ur_Cleanup r @ c\<rparr>)"
proof (induction targets results w arbitrary: r rule: close_targets.induct)
  case (1 results w)
  then show ?case by (auto intro: exI [of _ "[]"])
next
  case (2 target targets results w)
  obtain e w' where c: "ct_close target w = (e, w')" by force
  show ?case
  proof (cases e)
    case None
    with 2 c show ?thesis by simp
  next
    case (Some err)
    let ?c = "[\<lparr>cr_Output = ct_port target, cr_Error = err\<rparr>]"
    let ?r = "if ct_unit target = u then r\<lparr>ur_Cleanup := ur_Cleanup r @ ?c\<rparr> else r"
    let ?results = "fmupd (ct_unit target) ((result_at (ct_unit target) results)
        \<lparr>ur_Cleanup := ur_Cleanup (result_at (ct_unit target) results) @ ?c\<rparr>) results"
    have look: "fmlookup ?results u = Some ?r" using 2(3) by (simp add: result_at_def)
    have "\<exists>c. fmlookup (fst (close_targets targets ?results w')) u = Some (?r\<lparr>ur_Cleanup := ur_Cleanup ?r @ c\<rparr>)"
      by (rule 2(2) [OF c [symmetric] Some refl refl look])
    then show ?thesis using c Some by (auto simp: Let_def split: if_splits)
  qed
qed

end
