(* ===== verification/Registry.thy ===== *)
theory Registry
  imports Contract
begin

text \<open>
  \<open>benchkit/registry/registry.go\<close>: the map from unit kinds to implementations. A unit
  implementation is a value of the type parameter \<open>'u\<close>; \<open>defn\<close> is its \<open>Definition\<close> method. The
  loop of \<open>Resolve\<close> over the map is followed by a sort, so it is the filter of the sorted keys.
\<close>

type_synonym 'u Registry = "'u gomap"

definition registry_New :: "'u Registry" where
  "registry_New = fmempty"

text \<open>A nil unit is \<open>None\<close>.\<close>

definition Register :: "('u \<Rightarrow> UnitDef) \<Rightarrow> 'u option \<Rightarrow> 'u Registry \<Rightarrow> 'u Registry result" where
  "Register defn unit r =
     (case unit of
        None \<Rightarrow> Inl (Errorf ''unit is nil'' [])
      | Some u \<Rightarrow>
          (let kind = TrimSpace (ud_Kind (defn u))
           in if kind = [] then Inl (Errorf ''unit kind is required'' [])
              else case fmlookup r kind of
                Some _ \<Rightarrow> Inl (Errorf ''unit kind %q is already registered'' [ArgS kind])
              | None \<Rightarrow> Inr (fmupd kind u r)))"

definition kind_matches :: "string \<Rightarrow> 'u Registry \<Rightarrow> string list" where
  "kind_matches kind r = filter (prefix (kind @ ''/'')) (map_keys r)"

definition Resolve :: "('u \<Rightarrow> UnitDef) \<Rightarrow> 'u Registry \<Rightarrow> string \<Rightarrow> ('u \<times> UnitDef) result" where
  "Resolve defn r kind =
     (let kind = TrimSpace kind
      in if kind = [] then Inl (Errorf ''unit kind is required'' [])
         else case fmlookup r kind of
           Some u \<Rightarrow> Inr (u, defn u)
         | None \<Rightarrow>
             (case kind_matches kind r of
                [] \<Rightarrow> Inl (Errorf ''unit kind %q is not registered'' [ArgS kind])
              | [m] \<Rightarrow> (let u = the (fmlookup r m) in Inr (u, defn u))
              | ms \<Rightarrow> Inl (Errorf ''unit kind %q is ambiguous: %s'' [ArgS kind, ArgS (strings_Join ms '', '')])))"

definition registry_Definitions :: "('u \<Rightarrow> UnitDef) \<Rightarrow> 'u Registry \<Rightarrow> UnitDef list" where
  "registry_Definitions defn r = map (\<lambda>kind. defn (the (fmlookup r kind))) (map_keys r)"

section \<open>The invariant: every unit is stored under its own trimmed kind\<close>

definition registry_ok :: "('u \<Rightarrow> UnitDef) \<Rightarrow> 'u Registry \<Rightarrow> bool" where
  "registry_ok defn r \<longleftrightarrow> fmpred (\<lambda>k u. k = TrimSpace (ud_Kind (defn u)) \<and> k \<noteq> []) r"

lemma registry_ok_lookup:
  "registry_ok defn r \<Longrightarrow> fmlookup r k = Some u \<Longrightarrow> k = TrimSpace (ud_Kind (defn u)) \<and> k \<noteq> []"
  unfolding registry_ok_def by (drule fmpredD)

lemma registry_ok_New: "registry_ok defn registry_New"
  by (simp add: registry_ok_def registry_New_def)

lemma registry_ok_Register:
  "registry_ok defn r \<Longrightarrow> Register defn u r = Inr r' \<Longrightarrow> registry_ok defn r'"
  by (auto simp: registry_ok_def Register_def Let_def fmpred_upd split: option.splits if_splits)

lemma Register_Inr:
  assumes "Register defn (Some u) r = Inr r'"
  shows "TrimSpace (ud_Kind (defn u)) \<noteq> []"
    and "fmlookup r (TrimSpace (ud_Kind (defn u))) = None"
    and "r' = fmupd (TrimSpace (ud_Kind (defn u))) u r"
  using assms by (auto simp: Register_def Let_def split: option.splits if_splits)

lemma kind_matches_iff:
  "m \<in> set (kind_matches kind r) \<longleftrightarrow> prefix (kind @ ''/'') m \<and> fmlookup r m \<noteq> None"
  by (auto simp: kind_matches_def fmlookup_dom_iff)

lemma kind_matches_distinct [simp]: "distinct (kind_matches kind r)"
  by (simp add: kind_matches_def)

text \<open>What \<open>Resolve\<close> promises: the exact kind wins, else the only versioned kind.\<close>

definition resolves_to :: "'u Registry \<Rightarrow> string \<Rightarrow> string \<Rightarrow> bool" where
  "resolves_to r kind m \<longleftrightarrow>
     fmlookup r m \<noteq> None \<and>
     (m = TrimSpace kind \<or>
      fmlookup r (TrimSpace kind) = None \<and> kind_matches (TrimSpace kind) r = [m])"

lemma Resolve_Inr_iff:
  "Resolve defn r kind = Inr (u, d) \<longleftrightarrow>
     TrimSpace kind \<noteq> [] \<and> (\<exists>m. resolves_to r kind m \<and> fmlookup r m = Some u) \<and> d = defn u"
proof (cases "fmlookup r (TrimSpace kind)")
  case (Some v)
  then show ?thesis by (auto simp: Resolve_def Let_def resolves_to_def)
next
  case None
  show ?thesis
  proof (cases "\<exists>m. kind_matches (TrimSpace kind) r = [m]")
    case True
    then obtain m where m: "kind_matches (TrimSpace kind) r = [m]" by blast
    then obtain v where "fmlookup r m = Some v"
      using kind_matches_iff [of m "TrimSpace kind" r] by auto
    with None m show ?thesis by (auto simp: Resolve_def Let_def resolves_to_def)
  next
    case False
    with None show ?thesis
      by (auto simp: Resolve_def Let_def resolves_to_def split: list.splits)
  qed
qed

lemma resolves_to_unique: "resolves_to r kind m \<Longrightarrow> resolves_to r kind m' \<Longrightarrow> m = m'"
  by (auto simp: resolves_to_def)

lemma Resolve_Register_same:
  assumes "Register defn (Some u) r = Inr r'"
  shows "Resolve defn r' (ud_Kind (defn u)) = Inr (u, defn u)"
  using Register_Inr [OF assms] by (simp add: Resolve_def)

text \<open>Registering another unit keeps what an exact kind resolves to.\<close>

lemma Resolve_Register_other:
  assumes "Register defn (Some u) r = Inr r'" and "fmlookup r (TrimSpace kind) = Some v"
    and "TrimSpace kind \<noteq> []"
  shows "Resolve defn r' kind = Inr (v, defn v)"
proof -
  have "TrimSpace kind \<noteq> TrimSpace (ud_Kind (defn u))" using Register_Inr(2) [OF assms(1)] assms(2) by auto
  with Register_Inr(3) [OF assms(1)] assms(2,3) show ?thesis by (simp add: Resolve_def)
qed

lemma registry_Definitions_complete:
  assumes "registry_ok defn r"
  shows "map (TrimSpace \<circ> ud_Kind) (registry_Definitions defn r) = map_keys r"
proof -
  have "TrimSpace (ud_Kind (defn (the (fmlookup r k)))) = k" if "k \<in> set (map_keys r)" for k
    using that registry_ok_lookup [OF assms, of k] by (auto simp: fmlookup_dom_iff)
  then show ?thesis by (auto simp: registry_Definitions_def intro!: map_idI)
qed

section \<open>Registering and resolving\<close>

text \<open>
  Registration. A successful \<open>Register\<close> keeps the registry well formed, adds exactly the unit
  under its trimmed kind, which then resolves to it, and leaves every exact kind that resolved before resolving to
  the same unit.
\<close>

theorem register_resolves:
  assumes "registry_ok defn r" and "Register defn (Some u) r = Inr r'"
  shows "registry_ok defn r' \<and> Resolve defn r' (ud_Kind (defn u)) = Inr (u, defn u) \<and>
    (\<forall>kind v. TrimSpace kind \<noteq> [] \<longrightarrow> fmlookup r (TrimSpace kind) = Some v \<longrightarrow> Resolve defn r' kind = Inr (v, defn v))"
  using registry_ok_Register [OF assms] Resolve_Register_same [OF assms(2)] Resolve_Register_other [OF assms(2)]
  by blast

definition pool_def :: UnitDef where
  "pool_def = \<lparr>ud_Kind = '' core/pool'', ud_Title = [], ud_Description = [], ud_Inputs = [], ud_Outputs = [],
     ud_Metrics = [], ud_Artifacts = []\<rparr>"

theorem register_resolves_witness:
  "Resolve id (fmupd ''core/pool'' pool_def fmempty) '' core/pool'' = Inr (pool_def, pool_def)"
proof -
  have "TrimSpace (ud_Kind pool_def) = ''core/pool''" by code_simp
  then have "Register id (Some pool_def) registry_New = Inr (fmupd ''core/pool'' pool_def fmempty)"
    by (simp add: Register_def registry_New_def Let_def)
  from register_resolves [OF registry_ok_New this] show ?thesis by (simp add: pool_def_def)
qed

text \<open>
  Resolution. A kind resolves exactly when it is registered itself or is the group of exactly one
  registered kind, and then to that unit.
\<close>

theorem resolve_unique:
  "Resolve defn r kind = Inr (u, d) \<longleftrightarrow>
     TrimSpace kind \<noteq> [] \<and> (\<exists>!m. resolves_to r kind m) \<and>
     (\<exists>m. resolves_to r kind m \<and> fmlookup r m = Some u) \<and> d = defn u"
  using Resolve_Inr_iff [of defn r kind u d] resolves_to_unique [of r kind] by blast

end
