(* ===== verification/Topo_Sort.thy ===== *)
theory Topo_Sort
  imports Registry Scenario Interfaces
begin

text \<open>
  The scenario graph of \<open>benchkit/kernel/kernel.go\<close> and \<open>topoSort\<close>, a depth-first search that turns
  it into the execution order. \<open>visit\<close> is the recursive closure of the source. Its \<open>temporary\<close> map
  holds the names on the current search path (every name set there is reset when its call returns
  without error, and an error abandons the search), so it is an argument of the recursive calls; its
  \<open>permanent\<close> map holds the names in \<open>order\<close>, since both are extended together. The search
  terminates because every nested call has one node more on its path.
\<close>

record resourceRef =
  rr_unit :: string
  rr_port :: string

record 'u graphNode =
  gn_name :: string
  gn_dsl :: UnitNode
  gn_unit :: 'u
  gn_def :: UnitDef
  gn_bindings :: "resourceRef gomap"
  gn_after :: "string list"

record 'u graph =
  gr_nodes :: "'u graphNode gomap"
  gr_order :: "string list"

definition node_deps :: "'u graphNode \<Rightarrow> string list" where
  "node_deps node =
     sort (map (\<lambda>k. rr_unit (the (fmlookup (gn_bindings node) k))) (map_keys (gn_bindings node))
           @ gn_after node)"

definition missing_error :: "string \<Rightarrow> goerr" where
  "missing_error name = Errorf ''unit %q does not exist'' [ArgS name]"

definition cycle_error :: "string \<Rightarrow> goerr" where
  "cycle_error name = Errorf ''unit graph has a cycle at %q'' [ArgS name]"

function visit :: "'u graphNode gomap \<Rightarrow> string list \<Rightarrow> string \<Rightarrow> string list \<Rightarrow> string list result"
and visit_all :: "'u graphNode gomap \<Rightarrow> string list \<Rightarrow> string list \<Rightarrow> string list \<Rightarrow> string list result" where
  "visit nodes temporary name order =
     (case fmlookup nodes name of
        None \<Rightarrow> Inl (missing_error name)
      | Some node \<Rightarrow>
          if name \<in> set order then Inr order
          else if name \<in> set temporary then Inl (cycle_error name)
          else (case visit_all nodes (name # temporary) (node_deps node) order of
                  Inl err \<Rightarrow> Inl err
                | Inr order' \<Rightarrow> Inr (order' @ [name])))"
| "visit_all nodes temporary [] order = Inr order"
| "visit_all nodes temporary (dep # deps) order =
     (case visit nodes temporary dep order of
        Inl err \<Rightarrow> Inl err
      | Inr order' \<Rightarrow> visit_all nodes temporary deps order')"
  by pat_completeness auto
termination
proof (relation "inv_image (less_than <*lex*> less_than)
    (case_sum (\<lambda>(nodes, temporary, name, order). (card (fset (fmdom nodes) - set temporary), 0))
              (\<lambda>(nodes, temporary, deps, order). (card (fset (fmdom nodes) - set temporary), length deps)))")
  fix nodes :: "'u graphNode gomap" and temporary name order node
  assume "fmlookup nodes name = Some node" and "name \<notin> set temporary"
  then have "name \<in> fset (fmdom nodes) - set temporary" by (auto intro: fmdomI)
  then have "card (fset (fmdom nodes) - insert name (set temporary)) < card (fset (fmdom nodes) - set temporary)"
    by (intro psubset_card_mono) auto
  then show "(Inr (nodes, name # temporary, node_deps node, order), Inl (nodes, temporary, name, order)) \<in>
      inv_image (less_than <*lex*> less_than)
        (case_sum (\<lambda>(nodes, temporary, name, order). (card (fset (fmdom nodes) - set temporary), 0))
                  (\<lambda>(nodes, temporary, deps, order). (card (fset (fmdom nodes) - set temporary), length deps)))"
    by simp
qed auto

declare visit.simps [simp del]

definition topoSort :: "'u graphNode gomap \<Rightarrow> string list result" where
  "topoSort nodes = visit_all nodes [] (map_keys nodes) []"

section \<open>The dependency relation\<close>

definition dep_rel :: "'u graphNode gomap \<Rightarrow> (string \<times> string) set" where
  "dep_rel nodes = {(n, d). \<exists>node. fmlookup nodes n = Some node \<and> d \<in> set (node_deps node)}"

definition deps_exist :: "'u graphNode gomap \<Rightarrow> bool" where
  "deps_exist nodes \<longleftrightarrow> (\<forall>(n, d)\<in>dep_rel nodes. fmlookup nodes d \<noteq> None)"

text \<open>
  An order of distinct nodes in which the dependencies of each node come before it.
\<close>

definition topo_ordered :: "'u graphNode gomap \<Rightarrow> string list \<Rightarrow> bool" where
  "topo_ordered nodes order \<longleftrightarrow>
     distinct order \<and>
     (\<forall>i<length order. \<exists>node. fmlookup nodes (order ! i) = Some node \<and>
        set (node_deps node) \<subseteq> set (take i order))"

lemma topo_ordered_Nil [simp]: "topo_ordered nodes []"
  by (simp add: topo_ordered_def)

lemma topo_ordered_snoc:
  "topo_ordered nodes (order @ [n]) \<longleftrightarrow>
     topo_ordered nodes order \<and> n \<notin> set order \<and>
     (\<exists>node. fmlookup nodes n = Some node \<and> set (node_deps node) \<subseteq> set order)"
  by (auto simp: topo_ordered_def nth_append less_Suc_eq)

lemma topo_ordered_set: "topo_ordered nodes order \<Longrightarrow> n \<in> set order \<Longrightarrow> fmlookup nodes n \<noteq> None"
  by (force simp: topo_ordered_def in_set_conv_nth)

lemma topo_ordered_before:
  assumes "topo_ordered nodes order" and "(order ! i, d) \<in> dep_rel nodes" and "i < length order"
  shows "\<exists>j<i. order ! j = d"
proof -
  from assms obtain node where "fmlookup nodes (order ! i) = Some node"
    "set (node_deps node) \<subseteq> set (take i order)" by (auto simp: topo_ordered_def)
  with assms(2) have "d \<in> set (take i order)" by (auto simp: dep_rel_def)
  then show ?thesis by (metis assms(3) in_set_conv_nth length_take min.absorb4 nth_take)
qed

lemma topo_ordered_before_trancl:
  assumes "(n, d) \<in> (dep_rel nodes)\<^sup>+" and "topo_ordered nodes order" and "order ! i = n" and "i < length order"
  shows "\<exists>j<i. order ! j = d"
  using assms
proof (induction arbitrary: rule: trancl_induct)
  case (base d)
  then show ?case using topo_ordered_before by blast
next
  case (step c d)
  then obtain j where j: "j < i" "order ! j = c" by blast
  with step topo_ordered_before [of nodes order j d] obtain k where "k < j" "order ! k = d" by auto
  with j show ?case by (metis order.strict_trans)
qed

section \<open>The search\<close>

lemma visit_sound:
  "visit nodes temporary name order = Inr order' \<Longrightarrow> topo_ordered nodes order \<Longrightarrow>
     topo_ordered nodes order' \<and> prefix order order' \<and> name \<in> set order' \<and>
     set order' \<inter> set temporary \<subseteq> set order"
  "visit_all nodes temporary deps order = Inr order' \<Longrightarrow> topo_ordered nodes order \<Longrightarrow>
     topo_ordered nodes order' \<and> prefix order order' \<and> set deps \<subseteq> set order' \<and>
     set order' \<inter> set temporary \<subseteq> set order"
proof (induction nodes temporary name order and nodes temporary deps order
    arbitrary: order' and order' rule: visit_visit_all.induct)
  case (1 nodes temporary name order)
  then obtain node where node: "fmlookup nodes name = Some node"
    by (auto simp: visit.simps split: option.splits)
  show ?case
  proof (cases "name \<in> set order")
    case True
    with 1 node show ?thesis by (auto simp: visit.simps)
  next
    case False
    with "1.prems" node have t: "name \<notin> set temporary"
      and "\<exists>o1. visit_all nodes (name # temporary) (node_deps node) order = Inr o1 \<and> order' = o1 @ [name]"
      by (auto simp: visit.simps split: if_splits sum.splits)
    then obtain o1 where o1: "visit_all nodes (name # temporary) (node_deps node) order = Inr o1"
      "order' = o1 @ [name]" by blast
    from "1.IH" [OF node False t o1(1) "1.prems"(2)]
    have ih: "topo_ordered nodes o1" "prefix order o1" "set (node_deps node) \<subseteq> set o1"
      "set o1 \<inter> set (name # temporary) \<subseteq> set order" by auto
    then have "name \<notin> set o1" using False by auto
    with ih node o1(2) t show ?thesis by (auto simp: topo_ordered_snoc)
  qed
next
  case (2 nodes temporary order)
  then show ?case by auto
next
  case (3 nodes temporary dep deps order)
  then obtain o1 where o1: "visit nodes temporary dep order = Inr o1"
    "visit_all nodes temporary deps o1 = Inr order'" by (auto split: sum.splits)
  from "3.IH"(1) [OF o1(1) "3.prems"(2)] have a: "topo_ordered nodes o1" "prefix order o1"
    "dep \<in> set o1" "set o1 \<inter> set temporary \<subseteq> set order" by auto
  from "3.IH"(2) [OF o1 a(1)] have b: "topo_ordered nodes order'" "prefix o1 order'"
    "set deps \<subseteq> set order'" "set order' \<inter> set temporary \<subseteq> set o1" by auto
  from a b show ?case by (auto dest: set_mono_prefix intro: prefix_order.order_trans)
qed

text \<open>An error of the search names a node that is missing or lies on a cycle.\<close>

definition search_error :: "'u graphNode gomap \<Rightarrow> string list \<Rightarrow> goerr \<Rightarrow> bool" where
  "search_error nodes starts err \<longleftrightarrow>
     (\<exists>x. err = cycle_error x \<and> (x, x) \<in> (dep_rel nodes)\<^sup>+) \<or>
     (\<exists>x. err = missing_error x \<and> fmlookup nodes x = None \<and> (x \<in> set starts \<or> x \<in> Range (dep_rel nodes)))"

lemma visit_error:
  "visit nodes temporary name order = Inl err \<Longrightarrow>
     \<forall>t\<in>set temporary. (t, name) \<in> (dep_rel nodes)\<^sup>+ \<Longrightarrow> search_error nodes [name] err"
  "visit_all nodes temporary deps order = Inl err \<Longrightarrow>
     \<forall>t\<in>set temporary. \<forall>d\<in>set deps. (t, d) \<in> (dep_rel nodes)\<^sup>+ \<Longrightarrow> search_error nodes deps err"
proof (induction nodes temporary name order and nodes temporary deps order
    arbitrary: err and err rule: visit_visit_all.induct)
  case (1 nodes temporary name order)
  show ?case
  proof (cases "fmlookup nodes name")
    case None
    with "1.prems"(1) have "err = missing_error name" by (simp add: visit.simps)
    with None show ?thesis by (auto simp: search_error_def)
  next
    case (Some node)
    then have nin: "name \<notin> set order" using "1.prems"(1) by (auto simp: visit.simps)
    show ?thesis
    proof (cases "name \<in> set temporary")
      case True
      with 1 Some nin show ?thesis by (auto simp: visit.simps search_error_def)
    next
      case False
      have dep: "(name, d) \<in> dep_rel nodes" if "d \<in> set (node_deps node)" for d
        using that Some by (auto simp: dep_rel_def)
      have "\<forall>t\<in>set (name # temporary). \<forall>d\<in>set (node_deps node). (t, d) \<in> (dep_rel nodes)\<^sup>+"
        using "1.prems"(2) dep by (auto intro: trancl_into_trancl)
      moreover have "visit_all nodes (name # temporary) (node_deps node) order = Inl err"
        using "1.prems"(1) Some nin False by (auto simp: visit.simps split: sum.splits)
      ultimately have "search_error nodes (node_deps node) err" using "1.IH" [OF Some nin False] by blast
      with dep show ?thesis by (fastforce simp: search_error_def)
    qed
  qed
next
  case (2 nodes temporary order)
  then show ?case by simp
next
  case (3 nodes temporary dep deps order)
  show ?case
  proof (cases "visit nodes temporary dep order")
    case (Inl e)
    with 3 show ?thesis by (fastforce simp: search_error_def)
  next
    case (Inr o1)
    with 3 show ?thesis by (fastforce simp: search_error_def)
  qed
qed

section \<open>What the order guarantees\<close>

lemma topoSort_sound:
  assumes "topoSort nodes = Inr order"
  shows "topo_ordered nodes order" and "set order = fset (fmdom nodes)"
proof -
  have v: "topo_ordered nodes order \<and> set (map_keys nodes) \<subseteq> set order"
    using visit_sound(2) [OF assms [unfolded topoSort_def]] by simp
  then show t: "topo_ordered nodes order" by simp
  have "n \<in> fset (fmdom nodes)" if "n \<in> set order" for n
    using topo_ordered_set [OF t that] by (auto intro: fmdomI)
  with v show "set order = fset (fmdom nodes)" by auto
qed

lemma topoSort_error:
  assumes "topoSort nodes = Inl err"
  shows "(\<exists>x. err = cycle_error x \<and> (x, x) \<in> (dep_rel nodes)\<^sup>+) \<or>
    (\<exists>x. err = missing_error x \<and> fmlookup nodes x = None \<and> x \<in> Range (dep_rel nodes))"
  using visit_error(2) [OF assms [unfolded topoSort_def]]
  by (fastforce simp: search_error_def fmlookup_dom_iff)

lemma topo_ordered_deps_exist:
  assumes "topo_ordered nodes order" and "set order = fset (fmdom nodes)"
  shows "deps_exist nodes" and "acyclic (dep_rel nodes)"
proof -
  have idx: "\<exists>i<length order. order ! i = n" if "(n, d) \<in> dep_rel nodes" for n d
    using that assms(2) by (auto simp: dep_rel_def in_set_conv_nth [symmetric] intro: fmdomI)
  have "fmlookup nodes d \<noteq> None" if nd: "(n, d) \<in> dep_rel nodes" for n d
  proof
    assume none: "fmlookup nodes d = None"
    obtain i where i: "i < length order" "order ! i = n" using idx [OF nd] by blast
    obtain j where "j < i" "order ! j = d" using topo_ordered_before [OF assms(1), of i d] nd i by auto
    then have "d \<in> set order" using i by (metis nth_mem order.strict_trans)
    with none assms(2) show False by (auto simp: fmlookup_dom_iff)
  qed
  then show "deps_exist nodes" by (auto simp: deps_exist_def)
  show "acyclic (dep_rel nodes)"
    unfolding acyclic_def
  proof (intro allI notI)
    fix n assume nn: "(n, n) \<in> (dep_rel nodes)\<^sup>+"
    then obtain d where "(n, d) \<in> dep_rel nodes" by (auto dest: tranclD)
    then obtain i where i: "i < length order" "order ! i = n" using idx by blast
    obtain j where "j < i" "order ! j = n" using topo_ordered_before_trancl [OF nn assms(1) i(2,1)] by blast
    with i assms(1) show False by (auto simp: topo_ordered_def nth_eq_iff_index_eq)
  qed
qed

lemma topoSort_total:
  assumes "deps_exist nodes" and "acyclic (dep_rel nodes)"
  obtains order where "topoSort nodes = Inr order"
proof (cases "topoSort nodes")
  case (Inl err)
  from topoSort_error [OF this] assms show ?thesis
    by (auto simp: acyclic_def deps_exist_def)
qed (use that in blast)

lemma topo_ordered_split:
  assumes "topo_ordered nodes (done @ n # later)" and "(n, d) \<in> dep_rel nodes"
  shows "d \<in> set done"
  using assms topo_ordered_before [of nodes "done @ n # later" "length done" d]
  by (auto simp: nth_append)

definition ok_value :: "'a result \<Rightarrow> 'a option" where
  "ok_value r = (case r of Inl _ \<Rightarrow> None | Inr x \<Rightarrow> Some x)"

lemma ok_value_Some [simp]: "ok_value r = Some x \<longleftrightarrow> r = Inr x"
  by (simp add: ok_value_def split: sum.splits)

interpretation topo: scheduler "\<lambda>nodes. ok_value (topoSort nodes)" "\<lambda>nodes. fset (fmdom nodes)" dep_rel
proof unfold_locales
  fix nodes :: "'u graphNode gomap" and order xs n ys d
  { assume "ok_value (topoSort nodes) = Some order"
    then have "topoSort nodes = Inr order" by simp
    from topoSort_sound [OF this] show "distinct order" and "set order = fset (fmdom nodes)"
      by (simp_all add: topo_ordered_def) }
  assume "ok_value (topoSort nodes) = Some (xs @ n # ys)" and "(n, d) \<in> dep_rel nodes"
  then show "d \<in> set xs" using topoSort_sound(1) topo_ordered_split by (metis ok_value_Some)
qed

section \<open>Correctness of the topological sort\<close>

text \<open>
  C28: The execution order. \<open>topoSort\<close> returns an order exactly when every dependency exists and the dependencies
  have no cycle; the order holds every node once and each after its dependencies. An error names a
  node that really lies on a cycle, or a dependency that really does not exist.
\<close>

theorem topoSort_correct:
  "case topoSort nodes of
     Inr order \<Rightarrow> topo_ordered nodes order \<and> set order = fset (fmdom nodes) \<and>
       deps_exist nodes \<and> acyclic (dep_rel nodes)
   | Inl err \<Rightarrow> \<not> (deps_exist nodes \<and> acyclic (dep_rel nodes)) \<and>
       ((\<exists>x. err = cycle_error x \<and> (x, x) \<in> (dep_rel nodes)\<^sup>+) \<or>
        (\<exists>x. err = missing_error x \<and> fmlookup nodes x = None \<and> x \<in> Range (dep_rel nodes)))"
proof (cases "topoSort nodes")
  case (Inl err)
  have "\<not> (deps_exist nodes \<and> acyclic (dep_rel nodes))" using topoSort_total [of nodes] Inl by auto
  with topoSort_error [OF Inl] Inl show ?thesis by simp
next
  case (Inr order)
  from topoSort_sound [OF Inr] topo_ordered_deps_exist [OF topoSort_sound [OF Inr]] Inr show ?thesis by simp
qed

end
