(* ===== verification/Graph.thy ===== *)
theory Graph
  imports Topo_Sort
begin

text \<open>
  \<open>Engine.buildGraph\<close> of \<open>benchkit/kernel/kernel.go\<close>: resolving the unit kinds, wiring every input
  port to an output port of the same type (explicitly or automatically), and ordering the units.
\<close>

record provider =
  pv_ref :: resourceRef
  pv_port :: PortDef

record ExplainBinding =
  eb_Unit :: string
  eb_Input :: string
  eb_SourceUnit :: string
  eb_SourceOutput :: string
  eb_Type :: string

record ExplainPort =
  ep_Name :: string
  ep_Type :: string
  ep_Optional :: bool

definition ref_String :: "resourceRef \<Rightarrow> string" where
  "ref_String r = rr_unit r @ ''.'' @ rr_port r"

definition empty_ref :: resourceRef where
  "empty_ref = \<lparr>rr_unit = [], rr_port = []\<rparr>"

section \<open>Resource references\<close>

definition parseRef :: "string \<Rightarrow> resourceRef result" where
  "parseRef raw =
     (let parts = Split (TrimSpace raw) (CHR ''.'')
      in if length parts \<noteq> 2 \<or> parts ! 0 = [] \<or> parts ! 1 = []
         then Inl (Errorf ''resource reference must be <unit>.<output>'' [])
         else Inr \<lparr>rr_unit = parts ! 0, rr_port = parts ! 1\<rparr>)"

lemma parseRef_Inr:
  assumes "parseRef raw = Inr r"
  shows "TrimSpace raw = ref_String r" "rr_unit r \<noteq> []" "rr_port r \<noteq> []"
    "CHR ''.'' \<notin> set (rr_unit r)" "CHR ''.'' \<notin> set (rr_port r)"
proof -
  let ?ps = "Split (TrimSpace raw) (CHR ''.'')"
  have len: "length ?ps = 2" and r: "r = \<lparr>rr_unit = ?ps ! 0, rr_port = ?ps ! 1\<rparr>"
    and ne: "?ps ! 0 \<noteq> []" "?ps ! 1 \<noteq> []"
    using assms by (auto simp: parseRef_def Let_def split: if_splits)
  then obtain a b where ps: "?ps = [a, b]"
    by (cases ?ps; cases "tl ?ps") (auto simp: numeral_2_eq_2)
  have "strings_Join ?ps [CHR ''.''] = TrimSpace raw" by (rule Join_Split)
  with r ps show "TrimSpace raw = ref_String r" by (simp add: ref_String_def)
  show "rr_unit r \<noteq> []" "rr_port r \<noteq> []" using r ne by simp_all
  show "CHR ''.'' \<notin> set (rr_unit r)" "CHR ''.'' \<notin> set (rr_port r)"
    using Split_no_sep_parts [of _ "TrimSpace raw" "CHR ''.''"] r ps by auto
qed

text \<open>Printing and parsing a reference without dots or outer white space is the identity.\<close>

lemma parseRef_String:
  assumes "TrimSpace (ref_String r) = ref_String r"
    and "rr_unit r \<noteq> []" "rr_port r \<noteq> []"
    and "CHR ''.'' \<notin> set (rr_unit r)" "CHR ''.'' \<notin> set (rr_port r)"
  shows "parseRef (ref_String r) = Inr r"
proof -
  have "Split (ref_String r) (CHR ''.'') = [rr_unit r, rr_port r]"
    using assms(4,5) by (simp add: ref_String_def Split_append Split_no_sep)
  with assms show ?thesis by (simp add: parseRef_def)
qed

section \<open>Input resolution\<close>

definition resolve_explicit :: "string \<Rightarrow> PortDef \<Rightarrow> string \<Rightarrow> provider list \<Rightarrow> resourceRef result" where
  "resolve_explicit unitName input raw providers =
     (case parseRef raw of
        Inl err \<Rightarrow> Inl (Errorf ''unit %q input %q: %w'' [ArgS unitName, ArgS (pd_Name input), ArgE err])
      | Inr ref \<Rightarrow>
          (case find (\<lambda>p. pv_ref p = ref) providers of
             None \<Rightarrow> Inl (Errorf ''unit %q input %q references unknown output %q''
                       [ArgS unitName, ArgS (pd_Name input), ArgS raw])
           | Some p \<Rightarrow>
               if pd_Type (pv_port p) \<noteq> pd_Type input
               then Inl (Errorf ''unit %q input %q expects %s but %s.%s provides %s''
                      [ArgS unitName, ArgS (pd_Name input), ArgS (pd_Type input), ArgS (rr_unit ref),
                       ArgS (rr_port ref), ArgS (pd_Type (pv_port p))])
               else Inr ref))"

definition auto_candidates :: "string \<Rightarrow> PortDef \<Rightarrow> provider list \<Rightarrow> provider list" where
  "auto_candidates unitName input providers =
     filter (\<lambda>p. pd_Type (pv_port p) = pd_Type input) (filter (\<lambda>p. rr_unit (pv_ref p) \<noteq> unitName) providers)"

definition resolveInput :: "string \<Rightarrow> PortDef \<Rightarrow> string gomap \<Rightarrow> provider list \<Rightarrow> resourceRef result" where
  "resolveInput unitName input explicit providers =
     (case fmlookup explicit (pd_Name input) of
        Some raw \<Rightarrow> resolve_explicit unitName input raw providers
      | None \<Rightarrow>
          (let candidates = auto_candidates unitName input providers
           in if candidates = [] then
                (if pd_Optional input then Inr empty_ref
                 else Inl (Errorf ''unit %q input %q expects %s but no provider exists''
                        [ArgS unitName, ArgS (pd_Name input), ArgS (pd_Type input)]))
              else if length candidates > 1 then
                Inl (Errorf ''unit %q input %q expects %s but auto-wire is ambiguous: %s''
                  [ArgS unitName, ArgS (pd_Name input), ArgS (pd_Type input),
                   ArgS (strings_Join (sort (map (\<lambda>c. ref_String (pv_ref c)) candidates)) '', '')])
              else Inr (pv_ref (hd candidates))))"

text \<open>What a successful resolution is.\<close>

definition wired_to :: "string \<Rightarrow> PortDef \<Rightarrow> string gomap \<Rightarrow> provider list \<Rightarrow> provider \<Rightarrow> bool" where
  "wired_to unitName input explicit providers p \<longleftrightarrow>
     p \<in> set providers \<and> pd_Type (pv_port p) = pd_Type input \<and>
     (case fmlookup explicit (pd_Name input) of
        Some raw \<Rightarrow> parseRef raw = Inr (pv_ref p)
      | None \<Rightarrow> auto_candidates unitName input providers = [p])"

lemma resolveInput_Inr:
  assumes "resolveInput unitName input explicit providers = Inr ref"
  shows "(\<exists>p. wired_to unitName input explicit providers p \<and> pv_ref p = ref) \<or>
    ref = empty_ref \<and> pd_Optional input \<and> fmlookup explicit (pd_Name input) = None \<and>
    auto_candidates unitName input providers = []"
proof (cases "fmlookup explicit (pd_Name input)")
  case (Some raw)
  with assms have "resolve_explicit unitName input raw providers = Inr ref" by (simp add: resolveInput_def)
  then obtain p where "parseRef raw = Inr ref" "find (\<lambda>p. pv_ref p = ref) providers = Some p"
    "pd_Type (pv_port p) = pd_Type input"
    by (auto simp: resolve_explicit_def split: sum.splits option.splits if_splits)
  moreover from this(2) have "p \<in> set providers \<and> pv_ref p = ref"
    by (auto simp: find_Some_iff)
  ultimately show ?thesis using Some by (auto simp: wired_to_def)
next
  case None
  let ?c = "auto_candidates unitName input providers"
  show ?thesis
  proof (cases ?c)
    case Nil
    with None assms show ?thesis by (auto simp: resolveInput_def Let_def split: if_splits)
  next
    case (Cons p ps)
    with None assms have "ps = []" "ref = pv_ref p"
      by (auto simp: resolveInput_def Let_def split: if_splits)
    moreover have "p \<in> set ?c" using Cons by simp
    ultimately show ?thesis using None Cons by (auto simp: wired_to_def auto_candidates_def)
  qed
qed

section \<open>Building the graph\<close>

fun resolve_nodes :: "('u \<Rightarrow> UnitDef) \<Rightarrow> 'u Registry \<Rightarrow> UnitNode gomap \<Rightarrow> string list \<Rightarrow>
    'u graphNode gomap \<Rightarrow> 'u graphNode gomap result" where
  "resolve_nodes defn reg units [] nodes = Inr nodes"
| "resolve_nodes defn reg units (name # names) nodes =
     (let nodeSpec = the (fmlookup units name)
      in case Resolve defn reg (un_Use nodeSpec) of
           Inl err \<Rightarrow> Inl (Errorf ''unit %q: %w'' [ArgS name, ArgE err])
         | Inr (u, def) \<Rightarrow>
             resolve_nodes defn reg units names
               (fmupd name \<lparr>gn_name = name, gn_dsl = nodeSpec, gn_unit = u, gn_def = def,
                            gn_bindings = fmempty, gn_after = []\<rparr> nodes))"

definition node_providers :: "string \<Rightarrow> 'u graphNode \<Rightarrow> provider list" where
  "node_providers name node =
     map (\<lambda>out. \<lparr>pv_ref = \<lparr>rr_unit = name, rr_port = pd_Name out\<rparr>, pv_port = out\<rparr>) (ud_Outputs (gn_def node))"

definition all_providers :: "'u graphNode gomap \<Rightarrow> string list \<Rightarrow> provider list" where
  "all_providers nodes names =
     concat (map (\<lambda>name. node_providers name (the (fmlookup nodes name))) names)"

fun bind_inputs :: "string \<Rightarrow> string gomap \<Rightarrow> provider list \<Rightarrow> PortDef list \<Rightarrow> resourceRef gomap \<Rightarrow>
    resourceRef gomap result" where
  "bind_inputs name explicit providers [] bindings = Inr bindings"
| "bind_inputs name explicit providers (input # inputs) bindings =
     (case resolveInput name input explicit providers of
        Inl err \<Rightarrow> Inl err
      | Inr ref \<Rightarrow>
          bind_inputs name explicit providers inputs
            (if rr_unit ref \<noteq> [] then fmupd (pd_Name input) ref bindings else bindings))"

fun bind_nodes :: "provider list \<Rightarrow> string list \<Rightarrow> 'u graphNode gomap \<Rightarrow> 'u graphNode gomap result" where
  "bind_nodes providers [] nodes = Inr nodes"
| "bind_nodes providers (name # names) nodes =
     (let node = the (fmlookup nodes name)
      in case bind_inputs name (un_Inputs (gn_dsl node)) providers (ud_Inputs (gn_def node)) (gn_bindings node) of
           Inl err \<Rightarrow> Inl err
         | Inr bindings \<Rightarrow>
             bind_nodes providers names
               (fmupd name (node\<lparr>gn_bindings := bindings,
                                  gn_after := gn_after node @ un_After (gn_dsl node)\<rparr>) nodes))"

definition sortedUnitNames :: "UnitNode gomap \<Rightarrow> string list" where
  "sortedUnitNames units = map_keys units"

definition buildGraph :: "('u \<Rightarrow> UnitDef) \<Rightarrow> 'u Registry \<Rightarrow> Scenario \<Rightarrow> 'u graph result" where
  "buildGraph defn reg scenario =
     (if TrimSpace (sc_Version scenario) \<noteq> ''wkbench/v2''
      then Inl (Errorf ''scenario.version must be wkbench/v2'' [])
      else if map_len (sc_Units scenario) = 0 then Inl (Errorf ''scenario.units is required'' [])
      else let names = sortedUnitNames (sc_Units scenario)
           in case resolve_nodes defn reg (sc_Units scenario) names fmempty of
                Inl err \<Rightarrow> Inl err
              | Inr nodes \<Rightarrow>
                  (case bind_nodes (all_providers nodes names) names nodes of
                     Inl err \<Rightarrow> Inl err
                   | Inr nodes \<Rightarrow>
                       (case topoSort nodes of
                          Inl err \<Rightarrow> Inl err
                        | Inr order \<Rightarrow> Inr \<lparr>gr_nodes = nodes, gr_order = order\<rparr>)))"

definition node_wiring :: "string \<Rightarrow> 'u graphNode \<Rightarrow> ExplainBinding list" where
  "node_wiring name node =
     List.map_filter
       (\<lambda>input. case fmlookup (gn_bindings node) (pd_Name input) of
          None \<Rightarrow> None
        | Some ref \<Rightarrow> Some \<lparr>eb_Unit = name, eb_Input = pd_Name input, eb_SourceUnit = rr_unit ref,
                           eb_SourceOutput = rr_port ref, eb_Type = pd_Type input\<rparr>)
       (ud_Inputs (gn_def node))"

definition graphWiring :: "'u graph \<Rightarrow> ExplainBinding list" where
  "graphWiring g = concat (map (\<lambda>name. node_wiring name (the (fmlookup (gr_nodes g) name))) (gr_order g))"

definition explainPorts :: "PortDef list \<Rightarrow> ExplainPort list" where
  "explainPorts defs =
     map (\<lambda>def. \<lparr>ep_Name = pd_Name def, ep_Type = pd_Type def, ep_Optional = pd_Optional def\<rparr>) defs"

end
