(* ===== verification/Graph_Facts.thy ===== *)
theory Graph_Facts
  imports Graph
begin

text \<open>
  What \<open>buildGraph\<close> promises: each node is a unit of the scenario with its resolved contract, every
  wired input reads an output of the same type, no required input is left unwired, and the order
  runs a unit after every unit it reads from or names in \<open>after\<close>.
\<close>

section \<open>The three loops\<close>

definition fresh_node :: "('u \<Rightarrow> UnitDef) \<Rightarrow> 'u Registry \<Rightarrow> UnitNode gomap \<Rightarrow> string \<Rightarrow> 'u graphNode \<Rightarrow> bool" where
  "fresh_node defn reg units n node \<longleftrightarrow>
     gn_name node = n \<and> gn_dsl node = the (fmlookup units n) \<and>
     Resolve defn reg (un_Use (gn_dsl node)) = Inr (gn_unit node, gn_def node) \<and>
     gn_bindings node = fmempty \<and> gn_after node = []"

lemma resolve_nodes_Inr:
  "resolve_nodes defn reg units names nodes = Inr nodes' \<Longrightarrow> n \<notin> set names \<Longrightarrow>
    fmlookup nodes' n = fmlookup nodes n"
  "resolve_nodes defn reg units names nodes = Inr nodes' \<Longrightarrow> n \<in> set names \<Longrightarrow>
    \<exists>node. fmlookup nodes' n = Some node \<and> fresh_node defn reg units n node"
proof (induction names arbitrary: nodes)
  case (Cons m names)
  { case 1
    then show ?case using Cons.IH(1) by (auto simp: Let_def split: sum.splits)
  next
    case 2
    let ?fresh = "\<lambda>u d. \<lparr>gn_name = m, gn_dsl = the (fmlookup units m), gn_unit = u, gn_def = d,
                  gn_bindings = fmempty, gn_after = []\<rparr>"
    obtain u d where r: "Resolve defn reg (un_Use (the (fmlookup units m))) = Inr (u, d)"
      and rest: "resolve_nodes defn reg units names (fmupd m (?fresh u d) nodes) = Inr nodes'"
      using 2 by (auto simp: Let_def split: sum.splits)
    show ?case
    proof (cases "n \<in> set names")
      case True
      with Cons.IH(2) [OF rest] show ?thesis by simp
    next
      case False
      with 2 have "n = m" by simp
      with Cons.IH(1) [OF rest False] r show ?thesis by (auto simp: fresh_node_def)
    qed
  }
qed auto

lemma bind_inputs_Inr:
  "bind_inputs n ex ps inputs b = Inr b' \<Longrightarrow> fmlookup b' k = Some ref \<Longrightarrow>
      fmlookup b k = Some ref \<or>
      (\<exists>input\<in>set inputs. pd_Name input = k \<and> (\<exists>p. wired_to n input ex ps p \<and> pv_ref p = ref))"
  "bind_inputs n ex ps inputs b = Inr b' \<Longrightarrow> \<forall>k. fmlookup b k \<noteq> None \<longrightarrow> fmlookup b' k \<noteq> None"
  "bind_inputs n ex ps inputs b = Inr b' \<Longrightarrow> input \<in> set inputs \<Longrightarrow>
      fmlookup b' (pd_Name input) \<noteq> None \<or>
      (\<exists>ref. resolveInput n input ex ps = Inr ref \<and> rr_unit ref = [])"
proof (induction inputs arbitrary: b)
  case (Cons i inputs)
  { case 1
    let ?b = "\<lambda>r. if rr_unit r \<noteq> [] then fmupd (pd_Name i) r b else b"
    from 1 obtain r where r: "resolveInput n i ex ps = Inr r"
      by (cases "resolveInput n i ex ps") auto
    from 1(1) have rest: "bind_inputs n ex ps inputs (?b r) = Inr b'"
      by (simp only: bind_inputs.simps r sum.case)
    have w: "\<exists>p. wired_to n i ex ps p \<and> pv_ref p = r" if "rr_unit r \<noteq> []"
      using resolveInput_Inr [OF r] that by (auto simp: empty_ref_def)
    from Cons.IH(1) [OF rest 1(2)] w show ?case by (auto split: if_splits)
  next
    case 2
    let ?b = "\<lambda>r. if rr_unit r \<noteq> [] then fmupd (pd_Name i) r b else b"
    from 2 obtain r where "resolveInput n i ex ps = Inr r"
      and rest: "bind_inputs n ex ps inputs (?b r) = Inr b'"
      by (auto split: sum.splits)
    from Cons.IH(2) [OF rest] show ?case by (auto split: if_splits)
  next
    case 3
    let ?b = "\<lambda>r. if rr_unit r \<noteq> [] then fmupd (pd_Name i) r b else b"
    from 3 obtain r where r: "resolveInput n i ex ps = Inr r"
      and rest: "bind_inputs n ex ps inputs (?b r) = Inr b'"
      by (auto split: sum.splits)
    show ?case
    proof (cases "input \<in> set inputs")
      case True
      then show ?thesis by (rule Cons.IH(3) [OF rest])
    next
      case False
      with 3 have "input = i" by simp
      with r Cons.IH(2) [OF rest] show ?thesis by (auto split: if_splits)
    qed
  }
qed auto

definition bound_node :: "provider list \<Rightarrow> string \<Rightarrow> 'u graphNode \<Rightarrow> 'u graphNode \<Rightarrow> bool" where
  "bound_node ps n node node' \<longleftrightarrow>
     (\<exists>b. bind_inputs n (un_Inputs (gn_dsl node)) ps (ud_Inputs (gn_def node)) (gn_bindings node) = Inr b \<and>
          node' = node\<lparr>gn_bindings := b, gn_after := gn_after node @ un_After (gn_dsl node)\<rparr>)"

lemma bind_nodes_Inr:
  "bind_nodes ps names nodes = Inr nodes' \<Longrightarrow> n \<notin> set names \<Longrightarrow> fmlookup nodes' n = fmlookup nodes n"
  "bind_nodes ps names nodes = Inr nodes' \<Longrightarrow> distinct names \<Longrightarrow> n \<in> set names \<Longrightarrow>
    \<exists>node'. fmlookup nodes' n = Some node' \<and> bound_node ps n (the (fmlookup nodes n)) node'"
proof (induction names arbitrary: nodes)
  case (Cons m names)
  { case 1
    then show ?case using Cons.IH(1) by (auto simp: Let_def split: sum.splits)
  next
    case 2
    let ?node = "the (fmlookup nodes m)"
    obtain b where b: "bind_inputs m (un_Inputs (gn_dsl ?node)) ps (ud_Inputs (gn_def ?node)) (gn_bindings ?node) = Inr b"
      and rest: "bind_nodes ps names
        (fmupd m (?node\<lparr>gn_bindings := b, gn_after := gn_after ?node @ un_After (gn_dsl ?node)\<rparr>) nodes) = Inr nodes'"
      using 2(1) by (auto simp: Let_def split: sum.splits)
    show ?case
    proof (cases "n \<in> set names")
      case True
      with 2 have "n \<noteq> m" by auto
      with Cons.IH(2) [OF rest _ True] 2 show ?thesis by simp
    next
      case False
      with 2 have "n = m" by simp
      with Cons.IH(1) [OF rest False] b show ?thesis by (auto simp: bound_node_def)
    qed
  }
qed auto

section \<open>The nodes of the graph\<close>

definition graph_providers :: "'u graph \<Rightarrow> provider list" where
  "graph_providers g = all_providers (gr_nodes g) (map_keys (gr_nodes g))"

definition node_ok :: "('u \<Rightarrow> UnitDef) \<Rightarrow> 'u Registry \<Rightarrow> Scenario \<Rightarrow> 'u graph \<Rightarrow> string \<Rightarrow> 'u graphNode \<Rightarrow> bool" where
  "node_ok defn reg scenario g n node \<longleftrightarrow>
     gn_name node = n \<and> fmlookup (sc_Units scenario) n = Some (gn_dsl node) \<and>
     Resolve defn reg (un_Use (gn_dsl node)) = Inr (gn_unit node, gn_def node) \<and>
     gn_after node = un_After (gn_dsl node) \<and>
     bind_inputs n (un_Inputs (gn_dsl node)) (graph_providers g) (ud_Inputs (gn_def node)) fmempty =
       Inr (gn_bindings node)"

lemma all_providers_cong:
  assumes "\<And>n. n \<in> set names \<Longrightarrow>
    ud_Outputs (gn_def (the (fmlookup nodes n))) = ud_Outputs (gn_def (the (fmlookup nodes' n)))"
  shows "all_providers nodes names = all_providers nodes' names"
  using assms by (simp add: all_providers_def node_providers_def cong: map_cong)

lemma buildGraph_nodes:
  assumes "buildGraph defn reg scenario = Inr g"
  shows "fset (fmdom (gr_nodes g)) = fset (fmdom (sc_Units scenario))"
    and "fmlookup (gr_nodes g) n = Some node \<Longrightarrow> node_ok defn reg scenario g n node"
    and "topoSort (gr_nodes g) = Inr (gr_order g)"
proof -
  let ?names = "map_keys (sc_Units scenario)"
  obtain nodes nodes' order where
    rn: "resolve_nodes defn reg (sc_Units scenario) ?names fmempty = Inr nodes"
    and bn: "bind_nodes (all_providers nodes ?names) ?names nodes = Inr nodes'"
    and ts: "topoSort nodes' = Inr order" and g: "g = \<lparr>gr_nodes = nodes', gr_order = order\<rparr>"
    using assms by (auto simp: buildGraph_def Let_def sortedUnitNames_def split: if_splits sum.splits)
  show "topoSort (gr_nodes g) = Inr (gr_order g)" using ts g by simp
  have fresh: "\<exists>node. fmlookup nodes n = Some node \<and> fresh_node defn reg (sc_Units scenario) n node"
    if "n \<in> set ?names" for n
    using resolve_nodes_Inr(2) [OF rn that] .
  have bound: "\<exists>node'. fmlookup nodes' n = Some node' \<and>
      bound_node (all_providers nodes ?names) n (the (fmlookup nodes n)) node'" if "n \<in> set ?names" for n
    using bind_nodes_Inr(2) [OF bn _ that] by simp
  have none: "fmlookup nodes' n = None" if "n \<notin> set ?names" for n
    using resolve_nodes_Inr(1) [OF rn that] bind_nodes_Inr(1) [OF bn that] by simp
  have "n \<in> fset (fmdom nodes') \<longleftrightarrow> n \<in> set ?names" for n
    using bound [of n] none [of n] by (cases "n \<in> set ?names") (auto simp: fmlookup_dom_iff)
  then have dom: "fset (fmdom nodes') = set ?names" by blast
  then show "fset (fmdom (gr_nodes g)) = fset (fmdom (sc_Units scenario))" by (simp add: g)
  have keys: "map_keys nodes' = ?names" by (rule map_keys_unique) (simp_all add: dom)
  have outs: "gn_def (the (fmlookup nodes n)) = gn_def (the (fmlookup nodes' n))" if "n \<in> set ?names" for n
    using bound [OF that] by (auto simp: bound_node_def)
  then have "all_providers nodes ?names = all_providers nodes' ?names"
    by (intro all_providers_cong) simp
  then have prov: "all_providers nodes ?names = graph_providers g"
    by (simp add: graph_providers_def g keys)
  assume n: "fmlookup (gr_nodes g) n = Some node"
  then have mem: "n \<in> set ?names" using none g by (cases "n \<in> set ?names") auto
  then obtain u where u: "fmlookup (sc_Units scenario) n = Some u" by (auto simp: fmlookup_dom_iff)
  from fresh [OF mem] bound [OF mem] n g obtain node0 where
    f: "fmlookup nodes n = Some node0" "fresh_node defn reg (sc_Units scenario) n node0"
    and b: "bound_node (graph_providers g) n node0 node"
    by (auto simp: prov)
  then show "node_ok defn reg scenario g n node"
    by (auto simp: node_ok_def fresh_node_def bound_node_def u)
qed

lemma in_graph_providers:
  assumes "p \<in> set (graph_providers g)"
  obtains m node out where "fmlookup (gr_nodes g) m = Some node" "out \<in> set (ud_Outputs (gn_def node))"
    "p = \<lparr>pv_ref = \<lparr>rr_unit = m, rr_port = pd_Name out\<rparr>, pv_port = out\<rparr>"
  using assms by (fastforce simp: graph_providers_def all_providers_def node_providers_def fmlookup_dom_iff)

text \<open>A wired input reads an existing output port of its own type.\<close>

definition reads_from :: "'u graph \<Rightarrow> PortDef \<Rightarrow> resourceRef \<Rightarrow> bool" where
  "reads_from g input ref \<longleftrightarrow>
     (\<exists>source. fmlookup (gr_nodes g) (rr_unit ref) = Some source \<and>
        list_ex (\<lambda>out. pd_Name out = rr_port ref \<and> pd_Type out = pd_Type input) (ud_Outputs (gn_def source)))"

lemma binding_typed:
  assumes "buildGraph defn reg scenario = Inr g" and "fmlookup (gr_nodes g) n = Some node"
    and "fmlookup (gn_bindings node) k = Some ref"
  shows "\<exists>input\<in>set (ud_Inputs (gn_def node)). pd_Name input = k \<and> reads_from g input ref"
proof -
  have "node_ok defn reg scenario g n node" by (rule buildGraph_nodes(2) [OF assms(1,2)])
  then have b: "bind_inputs n (un_Inputs (gn_dsl node)) (graph_providers g) (ud_Inputs (gn_def node)) fmempty =
      Inr (gn_bindings node)" by (simp add: node_ok_def)
  from bind_inputs_Inr(1) [OF b assms(3)] obtain input p where
    i: "input \<in> set (ud_Inputs (gn_def node))" "pd_Name input = k"
    and p: "wired_to n input (un_Inputs (gn_dsl node)) (graph_providers g) p" "pv_ref p = ref" by auto
  from p(1) have "p \<in> set (graph_providers g)" "pd_Type (pv_port p) = pd_Type input"
    by (auto simp: wired_to_def)
  with p(2) have "reads_from g input ref"
    by (auto elim!: in_graph_providers simp: reads_from_def list_ex_iff)
  with i show ?thesis by blast
qed

text \<open>Every required input of every unit is wired, provided no unit has the empty name.\<close>

lemma required_bound:
  assumes "buildGraph defn reg scenario = Inr g" and "fmlookup (gr_nodes g) n = Some node"
    and "input \<in> set (ud_Inputs (gn_def node))" and "\<not> pd_Optional input"
    and "fmlookup (sc_Units scenario) [] = None"
  shows "fmlookup (gn_bindings node) (pd_Name input) \<noteq> None"
proof -
  have "node_ok defn reg scenario g n node" by (rule buildGraph_nodes(2) [OF assms(1,2)])
  then have b: "bind_inputs n (un_Inputs (gn_dsl node)) (graph_providers g) (ud_Inputs (gn_def node)) fmempty =
      Inr (gn_bindings node)" by (simp add: node_ok_def)
  have no_empty: "fmlookup (gr_nodes g) [] = None"
    using buildGraph_nodes(1) [OF assms(1)] assms(5)
    by (metis fmdom_notD fmdom_notI)
  have "rr_unit ref \<noteq> []" if r: "resolveInput n input (un_Inputs (gn_dsl node)) (graph_providers g) = Inr ref" for ref
    using resolveInput_Inr [OF r] assms(4) no_empty
    by (auto simp: wired_to_def elim!: in_graph_providers)
  with bind_inputs_Inr(3) [OF b assms(3)] show ?thesis by blast
qed

text \<open>The dependency relation of a built graph: what is read and what is named in \<open>after\<close>.\<close>

lemma dep_rel_binding:
  assumes "fmlookup nodes n = Some node" and "fmlookup (gn_bindings node) k = Some ref"
  shows "(n, rr_unit ref) \<in> dep_rel nodes"
proof -
  have "k \<in> fset (fmdom (gn_bindings node))" using assms(2) by (rule fmdomI)
  moreover have "rr_unit ref = rr_unit (the (fmlookup (gn_bindings node) k))" using assms(2) by simp
  ultimately have "rr_unit ref \<in> set (node_deps node)" unfolding node_deps_def by auto
  with assms(1) show ?thesis by (auto simp: dep_rel_def)
qed

lemma dep_rel_after:
  assumes "fmlookup nodes n = Some node" and "d \<in> set (gn_after node)"
  shows "(n, d) \<in> dep_rel nodes"
  using assms by (auto simp: dep_rel_def node_deps_def)

lemma buildGraph_order:
  assumes "buildGraph defn reg scenario = Inr g"
  shows "distinct (gr_order g)" and "set (gr_order g) = fset (fmdom (sc_Units scenario))"
    and "gr_order g = xs @ n # ys \<Longrightarrow> (n, d) \<in> (dep_rel (gr_nodes g))\<^sup>+ \<Longrightarrow> d \<in> set xs"
proof -
  have o: "ok_value (topoSort (gr_nodes g)) = Some (gr_order g)"
    using buildGraph_nodes(3) [OF assms] by simp
  show "distinct (gr_order g)" by (rule topo.schedule_distinct [OF o])
  show "set (gr_order g) = fset (fmdom (sc_Units scenario))"
    using topo.schedule_set [OF o] buildGraph_nodes(1) [OF assms] by simp
  show "gr_order g = xs @ n # ys \<Longrightarrow> (n, d) \<in> (dep_rel (gr_nodes g))\<^sup>+ \<Longrightarrow> d \<in> set xs"
    using o topo.needs_done by metis
qed

end
