(* ===== verification/Metric_Facts.thy ===== *)
theory Metric_Facts
  imports Metric_Store
begin

text \<open>
  What a unit's metric store reports after any sequence of emissions: exact counts and sums per key,
  the recorded duration samples, the declared metrics that stayed silent, and the effect of an
  aggregate snapshot received from a plugin process.
\<close>

section \<open>Emissions\<close>

fun mt_emit :: "sample \<Rightarrow> metricStore \<Rightarrow> metricStore" where
  "mt_emit (CounterSample n d l) s = addCounter n d l s"
| "mt_emit (DurationSample n d l) s = observeDuration n d l s"

definition mt_count :: "string \<Rightarrow> metricStore \<Rightarrow> int" where
  "mt_count key s = mr_Count (item_at key (mt_items s))"

lemmas mt_emit_defs = addCounter_def observeDuration_def Let_def item_at_def metricKey_eq samples_at_def

interpretation mstore: sample_recorder mt_emit sample_key mt_count
proof unfold_locales
  fix e s
  show "mt_count (sample_key e) (mt_emit e s) = mt_count (sample_key e) s + 1"
    by (cases e) (simp_all add: mt_count_def mt_emit_defs)
next
  fix k e s
  assume "k \<noteq> sample_key e"
  then show "mt_count k (mt_emit e s) = mt_count k s"
    by (cases e) (simp_all add: mt_count_def mt_emit_defs)
qed

fun sample_value :: "sample \<Rightarrow> float64" where
  "sample_value (CounterSample n d l) = d"
| "sample_value (DurationSample n d l) = Seconds d"

fun is_duration :: "sample \<Rightarrow> bool" where
  "is_duration (CounterSample n d l) = False"
| "is_duration (DurationSample n d l) = True"

definition for_key :: "string \<Rightarrow> sample list \<Rightarrow> sample list" where
  "for_key k es = filter (\<lambda>e. sample_key e = k) es"

lemma for_key_simps [simp]:
  "for_key k [] = []"
  "for_key k (e # es) = (if sample_key e = k then e # for_key k es else for_key k es)"
  by (simp_all add: for_key_def)

definition mt_sum :: "string \<Rightarrow> metricStore \<Rightarrow> float64" where
  "mt_sum key s = mr_Sum (item_at key (mt_items s))"

lemma mt_sum_emit: "mt_sum k (mt_emit e s) = (if k = sample_key e then mt_sum k s + sample_value e else mt_sum k s)"
  by (cases e) (auto simp: mt_sum_def mt_emit_defs)

text \<open>The sum of a key is the floating-point sum of its samples in the order of emission.\<close>

lemma mt_sum_emit_all:
  "mt_sum k (mstore.emit_all es s) = foldl (\<lambda>a e. a + sample_value e) (mt_sum k s) (for_key k es)"
  by (induction es arbitrary: s) (auto simp: mt_sum_emit)

lemma samples_emit_all:
  "samples_at k (mt_durationSamples (mstore.emit_all es s)) =
     samples_at k (mt_durationSamples s) @ map sample_value (filter is_duration (for_key k es))"
proof (induction es arbitrary: s)
  case (Cons e es)
  have "samples_at k (mt_durationSamples (mt_emit e s)) =
      samples_at k (mt_durationSamples s) @ map sample_value (filter is_duration (for_key k [e]))"
    by (cases e) (auto simp: mt_emit_defs)
  with Cons [of "mt_emit e s"] show ?case by (auto simp: for_key_def)
qed simp

lemma types_emit [simp]: "mt_types (mt_emit e s) = mt_types s"
  by (cases e) (simp_all add: addCounter_def observeDuration_def Let_def)

lemma types_emit_all [simp]: "mt_types (mstore.emit_all es s) = mt_types s"
  by (induction es arbitrary: s) auto

lemma aggregate_emit_all [simp]: "mt_aggregateKeys (mstore.emit_all es s) = mt_aggregateKeys s"
proof (induction es arbitrary: s)
  case (Cons e es)
  then show ?case by (cases e) (simp_all add: addCounter_def observeDuration_def Let_def)
qed simp

lemma items_emit_all:
  "fmlookup (mt_items (mstore.emit_all es s)) k \<noteq> None \<longleftrightarrow> fmlookup (mt_items s) k \<noteq> None \<or> for_key k es \<noteq> []"
proof (induction es arbitrary: s)
  case (Cons e es)
  have "fmlookup (mt_items (mt_emit e s)) k \<noteq> None \<longleftrightarrow> fmlookup (mt_items s) k \<noteq> None \<or> sample_key e = k"
    by (cases e) (auto simp: mt_emit_defs)
  with Cons [of "mt_emit e s"] show ?case by auto
qed simp

section \<open>Types\<close>

definition items_typed :: "metricStore \<Rightarrow> bool" where
  "items_typed s \<longleftrightarrow> fmpred (\<lambda>k i. mr_Type i \<noteq> []) (mt_items s)"

lemma metricType_nonempty: "fallback \<noteq> [] \<Longrightarrow> metricType declared fallback \<noteq> []"
  by (auto simp: metricType_def)

lemma typed_item: "items_typed s \<Longrightarrow> fmlookup (mt_items s) k = Some i \<Longrightarrow> mr_Type i \<noteq> []"
  unfolding items_typed_def by (drule fmpredD)

lemma typed_emit: "items_typed s \<Longrightarrow> items_typed (mt_emit e s)"
  by (cases e) (auto simp: items_typed_def addCounter_def observeDuration_def Let_def fmpred_upd
      metricType_nonempty)

lemma typed_emit_all: "items_typed s \<Longrightarrow> items_typed (mstore.emit_all es s)"
  by (induction es arbitrary: s) (auto simp: typed_emit)

lemma typed_recordSnapshot: "items_typed s \<Longrightarrow> items_typed (recordSnapshot ms s)"
  by (auto simp: items_typed_def recordSnapshot_def Let_def fmpred_upd metricType_nonempty)

lemma typed_new: "items_typed (newMetricStore defs)"
  by (simp add: items_typed_def newMetricStore_def)

lemma type_emit_keep:
  assumes "items_typed s" and "fmlookup (mt_items s) k = Some i"
  shows "\<exists>i'. fmlookup (mt_items (mt_emit e s)) k = Some i' \<and> mr_Type i' = mr_Type i"
  using typed_item [OF assms] assms(2) by (cases e) (auto simp: mt_emit_defs)

lemma type_emit_all_keep:
  assumes "items_typed s" and "fmlookup (mt_items s) k = Some i"
  shows "\<exists>i'. fmlookup (mt_items (mstore.emit_all es s)) k = Some i' \<and> mr_Type i' = mr_Type i"
  using assms
proof (induction es arbitrary: s i)
  case (Cons e es)
  from type_emit_keep [OF Cons.prems] obtain i' where
    "fmlookup (mt_items (mt_emit e s)) k = Some i'" "mr_Type i' = mr_Type i" by blast
  from Cons.IH [OF typed_emit [OF Cons.prems(1)] this(1)] this(2) show ?case by simp
qed simp

text \<open>The first sample of an undeclared metric fixes its type.\<close>

lemma type_first_duration:
  assumes "items_typed s" and "fmlookup (mt_items s) k = None"
    and "for_key k es = e # rest" and "is_duration e"
    and "\<And>n d l. e = DurationSample n d l \<Longrightarrow>
      string_at n (mt_types s) = ''duration'' \<or> TrimSpace (string_at n (mt_types s)) = []"
  shows "\<exists>i. fmlookup (mt_items (mstore.emit_all es s)) k = Some i \<and> mr_Type i = ''duration''"
  using assms
proof (induction es arbitrary: s)
  case (Cons x es)
  show ?case
  proof (cases "sample_key x = k")
    case True
    with Cons.prems(3) have x: "x = e" by simp
    with Cons.prems(4) obtain n d l where e: "e = DurationSample n d l" by (cases e) auto
    have "metricType (string_at n (mt_types s)) ''duration'' = ''duration''"
      using Cons.prems(5) [OF e] by (auto simp: metricType_def)
    then obtain i where "fmlookup (mt_items (mt_emit e s)) k = Some i" "mr_Type i = ''duration''"
      using True Cons.prems(2) x e by (auto simp: mt_emit_defs zero_MetricResult_def)
    with type_emit_all_keep [OF typed_emit [OF Cons.prems(1)], of e k i es] x show ?thesis by auto
  next
    case False
    have "fmlookup (mt_items (mt_emit x s)) k = None"
      using False Cons.prems(2) by (cases x) (auto simp: mt_emit_defs)
    then show ?thesis
      using Cons.IH [OF typed_emit [OF Cons.prems(1)]] Cons.prems False by auto
  qed
qed simp

section \<open>The reported results\<close>

lemma lookup_metric_results_item:
  assumes "fmlookup (mt_items s) k = Some i" and "CHR ''{'' \<in> set k \<or> fmlookup (mt_types s) k = None \<or> CHR ''{'' \<notin> set k"
  shows "fmlookup (metric_results s) k = Some (finish_item s k i) \<or>
    (fmlookup (mt_types s) k \<noteq> None \<and> k \<notin> set (map metricNameFromKey (map_keys (mt_items s))))"
proof (cases "fmlookup (mt_types s) k \<noteq> None \<and> k \<notin> set (map metricNameFromKey (map_keys (mt_items s)))")
  case False
  then have notin: "k \<notin> id ` set (filter (\<lambda>name. name \<notin> set (map metricNameFromKey (map_keys (mt_items s)))) (map_keys (mt_types s)))"
    by (auto simp: fmlookup_dom_iff)
  show ?thesis
    unfolding metric_results_def Let_def
    by (subst map_collect_lookup_notin [OF notin]) (simp add: assms(1))
qed simp

lemma metricNameFromKey_plain: "CHR ''{'' \<notin> set k \<Longrightarrow> metricNameFromKey k = k"
  by (simp add: metricNameFromKey_def IndexByte_None)

text \<open>Every emitted metric is reported.\<close>

lemma results_emitted:
  assumes "fmlookup (mt_items s) k = Some i"
    and "\<And>n. fmlookup (mt_types s) n \<noteq> None \<Longrightarrow> CHR ''{'' \<notin> set n"
  shows "fmlookup (metric_results s) k = Some (finish_item s k i)"
proof (cases "CHR ''{'' \<in> set k")
  case True
  with assms lookup_metric_results_item [of s k i] show ?thesis by blast
next
  case False
  then have "metricNameFromKey k = k" by (rule metricNameFromKey_plain)
  moreover have "k \<in> set (map_keys (mt_items s))" using assms(1) by (auto intro: fmdomI)
  ultimately have "k \<in> set (map metricNameFromKey (map_keys (mt_items s)))" by (metis image_eqI list.set_map)
  with lookup_metric_results_item [OF assms(1)] False show ?thesis by blast
qed

text \<open>A declared metric that was never emitted is reported with count zero.\<close>

lemma results_silent:
  assumes "fmlookup (mt_types s) name = Some t"
    and "name \<notin> metricNameFromKey ` fset (fmdom (mt_items s))"
  shows "fmlookup (metric_results s) name = Some (zero_MetricResult\<lparr>mr_Type := metricType t ''counter''\<rparr>)"
proof -
  let ?silent = "filter (\<lambda>name. name \<notin> set (map metricNameFromKey (map_keys (mt_items s)))) (map_keys (mt_types s))"
  have "distinct (map id ?silent)" by simp
  moreover have "name \<in> set ?silent" using assms by (auto intro: fmdomI)
  ultimately have "fmlookup (map_collect id v ?silent m) (id name) = Some (v name)"
    for v :: "string \<Rightarrow> MetricResult" and m
    by (rule map_collect_lookup_distinct)
  from this [of "\<lambda>name. zero_MetricResult\<lparr>mr_Type := metricType (string_at name (mt_types s)) ''counter''\<rparr>"
      "fmmap_keys (finish_item s) (mt_items s)"]
  show ?thesis by (simp only: metric_results_def Let_def id_apply) (simp add: assms(1) string_at_def)
qed

lemma results_declared:
  assumes "fmlookup (mt_types s) name \<noteq> None"
  shows "\<exists>k. fmlookup (metric_results s) k \<noteq> None \<and> metricNameFromKey k = name \<or>
    fmlookup (metric_results s) name \<noteq> None"
proof (cases "name \<in> metricNameFromKey ` fset (fmdom (mt_items s))")
  case False
  then show ?thesis using results_silent [OF _ False] assms by fastforce
next
  case True
  then obtain k where k: "k \<in> fset (fmdom (mt_items s))" "metricNameFromKey k = name" by blast
  have "k \<in> fset (fmdom (metric_results s))"
    using k(1) by (auto simp: metric_results_def Let_def fmdom_map_collect)
  with k(2) show ?thesis by (auto simp: fmlookup_dom_iff)
qed

text \<open>
  A duration metric fed only by \<open>ObserveDuration\<close>: count, sum and percentiles are those of exactly
  the observed durations.
\<close>

lemma duration_reported:
  assumes "\<And>e. e \<in> set (for_key k es) \<Longrightarrow> is_duration e" and "for_key k es \<noteq> []"
    and "\<And>d. d \<in> set defs \<Longrightarrow> md_Type d = ''duration'' \<and> CHR ''{'' \<notin> set (md_Name d)"
  defines "vs \<equiv> map sample_value (for_key k es)"
  shows "\<exists>i. fmlookup (metric_results (mstore.emit_all es (newMetricStore defs))) k = Some i \<and>
    mr_Count i = int (length vs) \<and> mr_Sum i = foldl (+) 0 vs \<and>
    mr_P95 i = percentileNearestRank vs 95 \<and> mr_P99 i = percentileNearestRank vs 99"
proof -
  let ?init = "newMetricStore defs"
  let ?s = "mstore.emit_all es ?init"
  have trim: "TrimSpace ''duration'' = ''duration''" by code_simp
  have types: "fmlookup (mt_types ?init) n = Some t \<Longrightarrow> t = ''duration'' \<and> CHR ''{'' \<notin> set n" for n t
    using map_collect_lookup_Some [of md_Name "\<lambda>def. TrimSpace (md_Type def)"
        "filter (\<lambda>def. TrimSpace (md_Name def) \<noteq> []) defs" fmempty n t] assms(3) trim
    by (auto simp: newMetricStore_def)
  obtain e rest where e: "for_key k es = e # rest" using assms(2) by (cases "for_key k es") auto
  have "string_at n (mt_types ?init) = ''duration'' \<or> TrimSpace (string_at n (mt_types ?init)) = []" for n
    using types [of n] by (cases "fmlookup (mt_types ?init) n") (auto simp: string_at_def)
  moreover have "is_duration e" using assms(1) e by simp
  moreover have "fmlookup (mt_items ?init) k = None" by (simp add: newMetricStore_def)
  ultimately obtain i where i: "fmlookup (mt_items ?s) k = Some i" "mr_Type i = ''duration''"
    using type_first_duration [OF typed_new _ e] by (metis (no_types, lifting))
  have "CHR ''{'' \<notin> set n" if "fmlookup (mt_types ?s) n \<noteq> None" for n
    using types [of n] that by auto
  with results_emitted [OF i(1)] have r: "fmlookup (metric_results ?s) k = Some (finish_item ?s k i)" by blast
  have "filter is_duration (for_key k es) = for_key k es" using assms(1) by (rule filter_True [rule_format])
  then have samples: "samples_at k (mt_durationSamples ?s) = vs"
    using samples_emit_all [of k es ?init] by (simp add: vs_def newMetricStore_def samples_at_def)
  have agg: "\<not> flag_at k (mt_aggregateKeys ?s)" by (simp add: newMetricStore_def flag_at_def)
  have cnt: "mr_Count i = int (length vs)"
  proof -
    have "mt_count k ?init = 0"
      by (simp add: mt_count_def item_at_def newMetricStore_def zero_MetricResult_def)
    moreover have "mt_count k ?s = mr_Count i" by (simp add: mt_count_def item_at_def i)
    ultimately show ?thesis
      using mstore.count_emit_all [of k es ?init] by (simp add: vs_def for_key_def)
  qed
  have "mr_Sum i = foldl (+) 0 vs"
  proof -
    have "mt_sum k ?init = 0"
      by (simp add: mt_sum_def item_at_def newMetricStore_def zero_MetricResult_def)
    moreover have "mt_sum k ?s = mr_Sum i" by (simp add: mt_sum_def item_at_def i)
    ultimately show ?thesis
      using mt_sum_emit_all [of k es ?init] by (simp add: vs_def foldl_map)
  qed
  with r i(2) samples agg cnt show ?thesis by (simp add: finish_item_def)
qed

section \<open>What a metric reports\<close>

text \<open>
  Counters. A series that was emitted reports the number of its samples and their
  sum, in the order of emission, on top of what it held; no other series contributes.
\<close>

theorem series_totals:
  "mt_count k (mstore.emit_all es s) = mt_count k s + int (length (filter (\<lambda>e. sample_key e = k) es)) \<and>
   mt_sum k (mstore.emit_all es s) = foldl (\<lambda>a e. a + sample_value e) (mt_sum k s) (for_key k es)"
  using mstore.count_emit_all mt_sum_emit_all by blast



end
