(* ===== verification/Run_Env.thy ===== *)
theory Run_Env
  imports Output_Store Graph_Facts Metric_Facts
begin

text \<open>
  \<open>baseEnv\<close> and \<open>runEnv\<close> of \<open>benchkit/kernel/kernel.go\<close>: what a running unit sees of the kernel, and
  the artifact files it writes. A unit is code of its own: its body is a program of calls of the
  \<open>RunEnv\<close> methods (\<open>uprog\<close>), in which every call passes its result to the rest of the program and
  \<open>Act f k\<close> acts on the world outside the kernel by \<open>f\<close> and goes on as \<open>k\<close> says of what it saw there. \<open>exec\<close> runs such a program
  against the kernel's own implementation of the methods.
\<close>

record baseEnv =
  be_scenario :: Scenario
  be_unitName :: string
  be_spec :: "(string \<times> json) list"

definition newBaseEnv :: "Scenario \<Rightarrow> string \<Rightarrow> (string \<times> json) list \<Rightarrow> baseEnv" where
  "newBaseEnv scenario unitName spec =
     \<lparr>be_scenario = scenario, be_unitName = unitName, be_spec = spec\<rparr>"

definition be_RunID :: "baseEnv \<Rightarrow> string" where
  "be_RunID e = rc_ID (sc_Run (be_scenario e))"

definition be_RunDuration :: "baseEnv \<Rightarrow> int" where
  "be_RunDuration e = rc_Duration (sc_Run (be_scenario e))"

definition be_WorkerCount :: "baseEnv \<Rightarrow> int" where
  "be_WorkerCount e = 1"

section \<open>The run environment\<close>

record runArtifactWriter =
  rw_name :: string
  rw_file :: string
  rw_relPath :: string
  rw_contentType :: string
  rw_size :: int
  rw_closed :: bool
  rw_closeErr :: "goerr option"

record runEnv =
  re_base :: baseEnv
  re_unitName :: string
  re_metrics :: metricStore
  re_artifactDefs :: "ArtifactDef gomap"
  re_artifacts :: "ArtifactResult gomap"
  re_writers :: "runArtifactWriter list"
  re_nextID :: int

definition artifactDefsByName :: "ArtifactDef list \<Rightarrow> ArtifactDef gomap" where
  "artifactDefsByName defs = map_collect ad_Name id defs fmempty"

definition newRunEnv :: "baseEnv \<Rightarrow> string \<Rightarrow> UnitDef \<Rightarrow> runEnv" where
  "newRunEnv base name def =
     \<lparr>re_base = base, re_unitName = name, re_metrics = newMetricStore (ud_Metrics def),
      re_artifactDefs = artifactDefsByName (ud_Artifacts def), re_artifacts = fmempty,
      re_writers = [], re_nextID = 0\<rparr>"

definition run_Input :: "('v, 'w) AnyOps \<Rightarrow> 'u graph \<Rightarrow> 'v outputStore \<Rightarrow> runEnv \<Rightarrow> string \<Rightarrow> 'v result" where
  "run_Input ops g outputs e name =
     (let node = the (fmlookup (gr_nodes g) (re_unitName e))
      in case fmlookup (gn_bindings node) name of
           None \<Rightarrow> Inl (Errorf ''input %q is not wired'' [ArgS name])
         | Some ref \<Rightarrow>
             (case os_get (rr_unit ref) (rr_port ref) outputs of
                Inl err \<Rightarrow> Inl err
              | Inr value \<Rightarrow>
                  (case any_OutputValue ops value of Some wrapped \<Rightarrow> Inr wrapped | None \<Rightarrow> Inr value)))"

definition run_InputSourcePort :: "'u graph \<Rightarrow> runEnv \<Rightarrow> string \<Rightarrow> PortDef option" where
  "run_InputSourcePort g e name =
     (let node = the (fmlookup (gr_nodes g) (re_unitName e))
      in case fmlookup (gn_bindings node) name of
           None \<Rightarrow> None
         | Some ref \<Rightarrow>
             (case fmlookup (gr_nodes g) (rr_unit ref) of
                None \<Rightarrow> None
              | Some source \<Rightarrow> find (\<lambda>out. pd_Name out = rr_port ref) (ud_Outputs (gn_def source))))"

definition run_NextID :: "string \<Rightarrow> runEnv \<Rightarrow> string \<times> runEnv" where
  "run_NextID pre e =
     (let e = e\<lparr>re_nextID := re_nextID e + 1\<rparr>
      in (numbered (if pre = [] then ''id'' else pre) (re_nextID e), e))"

definition run_Payload :: "int \<Rightarrow> string" where
  "run_Payload sz = (if sz \<le> 0 then [] else map (\<lambda>i. char_of (97 + i mod 26)) [0..<nat sz])"

section \<open>Artifacts\<close>

definition run_validateArtifactName :: "string \<Rightarrow> goerr option" where
  "run_validateArtifactName name =
     (if name = [] then Some (Errorf ''artifact name is required'' [])
      else if \<not> simple_name name
      then Some (Errorf ''artifact %q must be a simple relative file name'' [ArgS name])
      else None)"

definition validateArtifactUnitName :: "string \<Rightarrow> goerr option" where
  "validateArtifactUnitName name =
     (if name = [] then Some (Errorf ''unit name is required to write artifacts'' [])
      else if \<not> simple_name name
      then Some (Errorf ''unit name %q must be a simple artifact path segment'' [ArgS name])
      else None)"

definition run_OpenArtifact :: "FileSys \<Rightarrow> string \<Rightarrow> runEnv \<Rightarrow> runArtifactWriter result" where
  "run_OpenArtifact fs name e =
     (case fmlookup (re_artifactDefs e) name of
        None \<Rightarrow> Inl (Errorf ''artifact %q not declared by unit %q'' [ArgS name, ArgS (re_unitName e)])
      | Some def \<Rightarrow>
          (case run_validateArtifactName name of
             Some err \<Rightarrow> Inl err
           | None \<Rightarrow>
               (case validateArtifactUnitName (re_unitName e) of
                  Some err \<Rightarrow> Inl err
                | None \<Rightarrow>
                    (let reportDir = TrimSpace (rc_ReportDir (sc_Run (be_scenario (re_base e))))
                     in if reportDir = []
                        then Inl (Errorf ''scenario run.report_dir is required to write artifact %q'' [ArgS name])
                        else let artifactDir = path_Join [reportDir, ''artifacts'', re_unitName e];
                                 file = path_Join [artifactDir, name]
                             in case fs_MkdirAll fs artifactDir of
                                  Some err \<Rightarrow> Inl (Errorf ''create artifact directory for %q: %w'' [ArgS name, ArgE err])
                                | None \<Rightarrow>
                                    (case fs_Create fs file of
                                       Some err \<Rightarrow> Inl (Errorf ''open artifact %q: %w'' [ArgS name, ArgE err])
                                     | None \<Rightarrow> Inr
                                         \<lparr>rw_name = name, rw_file = file,
                                          rw_relPath = path_Join [''artifacts'', re_unitName e, name],
                                          rw_contentType = ad_ContentType def, rw_size = 0,
                                          rw_closed = False, rw_closeErr = None\<rparr>)))))"

definition rw_Write :: "int \<Rightarrow> runArtifactWriter \<Rightarrow> runArtifactWriter" where
  "rw_Write n w = w\<lparr>rw_size := rw_size w + n\<rparr>"

definition rw_recordArtifact :: "runArtifactWriter \<Rightarrow> runEnv \<Rightarrow> runEnv" where
  "rw_recordArtifact w e =
     e\<lparr>re_artifacts := fmupd (rw_name w)
        \<lparr>ar_Path = rw_relPath w, ar_ContentType = rw_contentType w, ar_SizeBytes = rw_size w\<rparr>
        (re_artifacts e)\<rparr>"

definition rw_Close :: "goerr option \<Rightarrow> runArtifactWriter \<times> runEnv \<Rightarrow>
    goerr option \<times> runArtifactWriter \<times> runEnv" where
  "rw_Close fileErr = (\<lambda>(w, e).
     if rw_closed w then (rw_closeErr w, w, e)
     else (fileErr, w\<lparr>rw_closed := True, rw_closeErr := fileErr\<rparr>, rw_recordArtifact w e))"

interpretation run_close: once_closer rw_Close "\<lambda>(w, e). rw_closed w"
  by unfold_locales (auto simp: rw_Close_def split: if_splits)

definition artifactResults :: "runEnv \<Rightarrow> ArtifactResult gomap" where
  "artifactResults e = re_artifacts e"

lemma simple_name_of_validate:
  "run_validateArtifactName s = None \<Longrightarrow> simple_name s"
  "validateArtifactUnitName s = None \<Longrightarrow> simple_name s"
  by (auto simp: run_validateArtifactName_def validateArtifactUnitName_def split: if_splits)

text \<open>
  An opened artifact is declared, and its path is exactly \<open>artifacts/<unit>/<name>\<close>: neither name
  contains a separator or a step to the parent directory.
\<close>

lemma run_OpenArtifact_Inr:
  assumes "run_OpenArtifact fs name e = Inr w"
  shows "fmlookup (re_artifactDefs e) name \<noteq> None"
    and "simple_segment name" and "simple_segment (re_unitName e)"
    and "rw_relPath w = ''artifacts/'' @ re_unitName e @ ''/'' @ name"
    and "rw_name w = name" and "rw_size w = 0" and "\<not> rw_closed w"
proof -
  have seg: "simple_segment name" "simple_segment (re_unitName e)"
    using assms simple_name_segment simple_name_of_validate
    by (auto simp: run_OpenArtifact_def Let_def split: option.splits if_splits)
  then show "simple_segment name" and "simple_segment (re_unitName e)" by simp_all
  have "simple_segment ''artifacts''" by code_simp
  with seg have "path_Join [''artifacts'', re_unitName e, name] = strings_Join [''artifacts'', re_unitName e, name] ''/''"
    by (intro path_Join_simple) auto
  with assms show "rw_relPath w = ''artifacts/'' @ re_unitName e @ ''/'' @ name"
    by (auto simp: run_OpenArtifact_def Let_def split: option.splits if_splits)
  from assms show "fmlookup (re_artifactDefs e) name \<noteq> None"
    and "rw_name w = name" and "rw_size w = 0" and "\<not> rw_closed w"
    by (auto simp: run_OpenArtifact_def Let_def split: option.splits if_splits)
qed

section \<open>Unit programs\<close>

datatype ('v, 'w, 'x) uprog =
    Return 'x
  | Input string "'v result \<Rightarrow> ('v, 'w, 'x) uprog"
  | InputSourcePort string "PortDef option \<Rightarrow> ('v, 'w, 'x) uprog"
  | SetOutput string 'v "('v, 'w, 'x) uprog"
  | Emit sample "('v, 'w, 'x) uprog"
  | RecordSnapshot MetricSnapshot "('v, 'w, 'x) uprog"
  | NextID string "string \<Rightarrow> ('v, 'w, 'x) uprog"
  | OpenArtifact string "nat result \<Rightarrow> ('v, 'w, 'x) uprog"
  | WriteArtifact nat int "('v, 'w, 'x) uprog"
  | CloseArtifact nat "goerr option" "goerr option \<Rightarrow> ('v, 'w, 'x) uprog"
  | Act "'w \<Rightarrow> 'w" "'w \<Rightarrow> ('v, 'w, 'x) uprog"

record ('v, 'w) uenv =
  ue_outputs :: "'v outputStore"
  ue_env :: runEnv
  ue_world :: 'w

definition with_env :: "(runEnv \<Rightarrow> runEnv) \<Rightarrow> ('v, 'w) uenv \<Rightarrow> ('v, 'w) uenv" where
  "with_env f s = s\<lparr>ue_env := f (ue_env s)\<rparr>"

definition add_writer :: "runArtifactWriter \<Rightarrow> runEnv \<Rightarrow> runEnv" where
  "add_writer w e = e\<lparr>re_writers := re_writers e @ [w]\<rparr>"

definition write_writer :: "nat \<Rightarrow> int \<Rightarrow> runEnv \<Rightarrow> runEnv" where
  "write_writer h n e =
     (if h < length (re_writers e)
      then e\<lparr>re_writers := (re_writers e)[h := rw_Write n (re_writers e ! h)]\<rparr> else e)"

definition close_writer :: "nat \<Rightarrow> goerr option \<Rightarrow> runEnv \<Rightarrow> goerr option \<times> runEnv" where
  "close_writer h err e =
     (if h < length (re_writers e)
      then case rw_Close err (re_writers e ! h, e) of
             (r, w, e') \<Rightarrow> (r, e'\<lparr>re_writers := (re_writers e')[h := w]\<rparr>)
      else (None, e))"

primrec exec :: "('v, 'w) AnyOps \<Rightarrow> FileSys \<Rightarrow> 'u graph \<Rightarrow> ('v, 'w, 'x) uprog \<Rightarrow> ('v, 'w) uenv \<Rightarrow> 'x \<times> ('v, 'w) uenv" where
  "exec ops fs g (Return x) = (\<lambda>s. (x, s))"
| "exec ops fs g (Input name k) = (\<lambda>s. exec ops fs g (k (run_Input ops g (ue_outputs s) (ue_env s) name)) s)"
| "exec ops fs g (InputSourcePort name k) = (\<lambda>s. exec ops fs g (k (run_InputSourcePort g (ue_env s) name)) s)"
| "exec ops fs g (SetOutput name v p) =
     (\<lambda>s. exec ops fs g p (s\<lparr>ue_outputs := os_set (re_unitName (ue_env s)) name v (ue_outputs s)\<rparr>))"
| "exec ops fs g (Emit x p) = (\<lambda>s. exec ops fs g p (with_env (\<lambda>e. e\<lparr>re_metrics := mt_emit x (re_metrics e)\<rparr>) s))"
| "exec ops fs g (RecordSnapshot m p) =
     (\<lambda>s. exec ops fs g p (with_env (\<lambda>e. e\<lparr>re_metrics := recordSnapshot m (re_metrics e)\<rparr>) s))"
| "exec ops fs g (NextID pre k) =
     (\<lambda>s. exec ops fs g (k (fst (run_NextID pre (ue_env s)))) (with_env (\<lambda>e. snd (run_NextID pre e)) s))"
| "exec ops fs g (OpenArtifact name k) =
     (\<lambda>s. case run_OpenArtifact fs name (ue_env s) of
            Inl err \<Rightarrow> exec ops fs g (k (Inl err)) s
          | Inr w \<Rightarrow> exec ops fs g (k (Inr (length (re_writers (ue_env s))))) (with_env (add_writer w) s))"
| "exec ops fs g (WriteArtifact h n p) = (\<lambda>s. exec ops fs g p (with_env (write_writer h n) s))"
| "exec ops fs g (CloseArtifact h err k) =
     (\<lambda>s. exec ops fs g (k (fst (close_writer h err (ue_env s)))) (with_env (\<lambda>e. snd (close_writer h err e)) s))"
| "exec ops fs g (Act f k) = (\<lambda>s. exec ops fs g (k (ue_world s)) (s\<lparr>ue_world := f (ue_world s)\<rparr>))"

section \<open>Confinement\<close>

lemma unitName_close_writer [simp]: "re_unitName (snd (close_writer h err e)) = re_unitName e"
  by (auto simp: close_writer_def rw_Close_def rw_recordArtifact_def split: prod.splits if_splits)

lemma unitName_exec: "re_unitName (ue_env (snd (exec ops fs g p s))) = re_unitName (ue_env s)"
proof (induction p arbitrary: s)
  case (OpenArtifact name k)
  then show ?case by (simp add: with_env_def add_writer_def split: sum.splits)
qed (simp_all add: with_env_def run_NextID_def Let_def write_writer_def)

text \<open>
  Whatever a unit does, it publishes only under its own name: the outputs of the other units stay as
  they were.
\<close>

lemma exec_confined:
  "u \<noteq> re_unitName (ue_env s) \<Longrightarrow>
   os_lookup (u, port) (ue_outputs (snd (exec ops fs g p s))) = os_lookup (u, port) (ue_outputs s)"
proof (induction p arbitrary: s)
  case (OpenArtifact name k)
  then show ?case by (simp add: with_env_def add_writer_def split: sum.splits)
next
  case (SetOutput name v p)
  have "os_lookup (u, port) (os_set (re_unitName (ue_env s)) name v (ue_outputs s)) = os_lookup (u, port) (ue_outputs s)"
    using ostore.get_put_other [of "(re_unitName (ue_env s), name)" "(u, port)"] SetOutput.prems by simp
  with SetOutput show ?case by simp
qed (simp_all add: with_env_def run_NextID_def Let_def write_writer_def)

section \<open>Confinement\<close>

text \<open>
  C35: A unit writes its own outputs only. Whatever calls a unit makes while it runs, the outputs of
  every other unit are unchanged.
\<close>

theorem unit_outputs_confined:
  assumes "u \<noteq> re_unitName (ue_env s)"
  shows "os_lookup (u, port) (ue_outputs (snd (exec ops fs g p s))) = os_lookup (u, port) (ue_outputs s)"
  by (rule exec_confined [OF assms])

definition sample_ops :: "(string, nat) AnyOps" where
  "sample_ops = \<lparr>any_OutputValue = (\<lambda>_. None), any_ReportOutput = (\<lambda>_. None), any_Close = (\<lambda>_. None)\<rparr>"

definition sample_fs :: FileSys where
  "sample_fs = \<lparr>fs_CreateTemp = Inr, fs_MkdirAll = (\<lambda>_. None), fs_Create = (\<lambda>_. None)\<rparr>"

definition sample_run_env :: runEnv where
  "sample_run_env = newRunEnv
     (newBaseEnv \<lparr>sc_Version = [], sc_Run = \<lparr>rc_ID = [], rc_Duration = 0, rc_Seed = 0, rc_ReportDir = ''r''\<rparr>,
        sc_Vars = fmempty, sc_Units = fmempty\<rparr> ''a'' []) ''a''
     \<lparr>ud_Kind = [], ud_Title = [], ud_Description = [], ud_Inputs = [], ud_Outputs = [], ud_Metrics = [],
      ud_Artifacts = [\<lparr>ad_Name = ''f'', ad_ContentType = []\<rparr>]\<rparr>"

theorem unit_outputs_confined_witness:
  "os_lookup (''b'', ''x'') (ue_outputs (snd (exec sample_ops sample_fs (\<lparr>gr_nodes = fmempty, gr_order = []\<rparr> :: unit graph)
     (SetOutput ''x'' ''new'' (Return ()))
     \<lparr>ue_outputs = os_set ''b'' ''x'' ''old'' newOutputStore, ue_env = sample_run_env, ue_world = 0\<rparr>))) = Some ''old''"
  by (subst unit_outputs_confined)
    (simp_all add: sample_run_env_def newRunEnv_def ostore.get_put [of "(''b'', ''x'')", simplified])



end
