(* ===== verification/Engine.thy ===== *)
theory Engine
  imports Run_Env
begin

text \<open>
  \<open>Engine.Validate\<close>, \<open>Explain\<close>, \<open>Plan\<close> and \<open>Run\<close> of \<open>benchkit/kernel/kernel.go\<close>. A unit is a
  record of its methods; \<open>Validate\<close> and \<open>Plan\<close> act on the world, \<open>Run\<close> and \<open>Start\<close> are programs of
  \<open>RunEnv\<close> calls, and a background task is what \<open>Start\<close> returns. What the scheduler of the Go runtime
  decides is read from the world by \<open>Host\<close>: the clock, the failures the monitor goroutines have put
  into the channel when it is drained, the cancellation of the run context and how the wait for a
  monitor ends. The calls a background task makes while later units run are made when it is stopped.
  \<open>es_log\<close> is not part of the program: it records the order of the calls.
\<close>

record Plan =
  pl_UnitName :: string
  pl_Shards :: "json list"

record ('v, 'w) Task =
  tk_hasDone :: bool
  tk_Stop :: "('v, 'w, goerr option) uprog"

record ('v, 'w) Unit =
  ut_Definition :: UnitDef
  ut_Validate :: "baseEnv \<Rightarrow> 'w \<Rightarrow> goerr option \<times> 'w"
  ut_Plan :: "baseEnv \<Rightarrow> 'w \<Rightarrow> Plan result \<times> 'w"
  ut_Run :: "baseEnv \<Rightarrow> ('v, 'w, goerr option) uprog"
  ut_Start :: "(baseEnv \<Rightarrow> ('v, 'w, ('v, 'w) Task option \<times> goerr option) uprog) option"

datatype monitorEvent =
    MonitorDone
  | CtxDone bool goerr
  | TimerFired "goerr option"

record monitorProbe =
  mp_done :: bool
  mp_ctxErr :: "goerr option"
  mp_until :: "int option"
  mp_event :: monitorEvent

record 'w Host =
  h_now :: "'w \<Rightarrow> int \<times> 'w"
  h_poll :: "'w \<Rightarrow> (string \<times> goerr option) list \<times> 'w"
  h_ctxErr :: "'w \<Rightarrow> goerr option"
  h_cancel :: "'w \<Rightarrow> 'w"
  h_monitor :: "string \<Rightarrow> 'w \<Rightarrow> monitorProbe \<times> 'w"
  h_fs :: FileSys

datatype event =
    EvValidate string
  | EvPlan string
  | EvStart string
  | EvStarted string
  | EvRun string
  | EvStop string
  | EvClose "string \<times> string"

record ('v, 'w) activeBackground =
  ab_name :: string
  ab_node :: "('v, 'w) Unit graphNode"
  ab_env :: runEnv
  ab_task :: "('v, 'w) Task"
  ab_startedAt :: int

record backgroundFailures =
  bf_first :: "(string \<times> goerr) option"
  bf_err :: "goerr option"

record ('v, 'w) es =
  es_world :: 'w
  es_outputs :: "'v outputStore"
  es_results :: "UnitResult gomap"
  es_status :: Status
  es_fatal :: "goerr gomap"
  es_active :: "('v, 'w) activeBackground list"
  es_log :: "event list"

record ('v, 'w) runCfg =
  cf_host :: "'w Host"
  cf_ops :: "('v, 'w) AnyOps"
  cf_graph :: "('v, 'w) Unit graph"
  cf_scenario :: Scenario

definition log_event :: "event \<Rightarrow> ('v, 'w) es \<Rightarrow> ('v, 'w) es" where
  "log_event ev st = st\<lparr>es_log := es_log st @ [ev]\<rparr>"

section \<open>Time and background failures\<close>

definition elapsed_ms :: "int \<Rightarrow> int \<Rightarrow> int" where
  "elapsed_ms start stop =
     (let elapsed = (stop - start) sdiv 1000000
      in if elapsed < 1 \<and> start < stop then 1 else elapsed)"

definition with_timeline :: "int \<Rightarrow> int \<Rightarrow> UnitResult \<Rightarrow> UnitResult" where
  "with_timeline start stop r =
     r\<lparr>ur_StartedAt := start, ur_EndedAt := stop, ur_ElapsedMS := elapsed_ms start stop\<rparr>"

definition recordBackgroundError :: "string \<Rightarrow> goerr option \<Rightarrow> goerr gomap \<Rightarrow> goerr gomap" where
  "recordBackgroundError u err fatal =
     (case err of
        None \<Rightarrow> fatal
      | Some e \<Rightarrow> (if fmlookup fatal u = None then fmupd u e fatal else fatal))"

definition backgroundFailureError :: "string \<Rightarrow> goerr \<Rightarrow> goerr" where
  "backgroundFailureError u err = Errorf ''unit %q background: %w'' [ArgS u, ArgE err]"

fun drain_failures :: "(string \<times> goerr option) list \<Rightarrow> backgroundFailures \<Rightarrow> goerr gomap \<Rightarrow>
    backgroundFailures \<times> goerr gomap" where
  "drain_failures [] failures fatal = (failures, fatal)"
| "drain_failures ((u, err) # rest) failures fatal =
     (case err of
        None \<Rightarrow> drain_failures rest failures fatal
      | Some e \<Rightarrow>
          drain_failures rest
            \<lparr>bf_first = (if bf_first failures = None then Some (u, e) else bf_first failures),
             bf_err = errors_Join [bf_err failures, Some (backgroundFailureError u e)]\<rparr>
            (recordBackgroundError u err fatal))"

definition checkBackgroundErrors :: "('v, 'w) runCfg \<Rightarrow> ('v, 'w) es \<Rightarrow> backgroundFailures \<times> ('v, 'w) es" where
  "checkBackgroundErrors cf st =
     (case h_poll (cf_host cf) (es_world st) of
        (drained, w) \<Rightarrow>
          (case drain_failures drained \<lparr>bf_first = None, bf_err = None\<rparr> (es_fatal st) of
             (failures, fatal) \<Rightarrow> (failures, st\<lparr>es_world := w, es_fatal := fatal\<rparr>)))"

section \<open>Stopping the background units\<close>

definition backgroundDoneShutdownWait :: int where
  "backgroundDoneShutdownWait = 100 * 1000000"

definition monitor_wait :: "monitorProbe \<Rightarrow> int" where
  "monitor_wait p =
     (case (mp_ctxErr p, mp_until p) of
        (None, Some until) \<Rightarrow>
          (if 0 < until \<and> until < backgroundDoneShutdownWait then until else backgroundDoneShutdownWait)
      | _ \<Rightarrow> backgroundDoneShutdownWait)"

definition waitBackgroundMonitor :: "bool \<Rightarrow> monitorProbe \<Rightarrow> goerr option" where
  "waitBackgroundMonitor monitored p =
     (if \<not> monitored then None
      else if mp_done p then None
      else case mp_event p of
        MonitorDone \<Rightarrow> None
      | CtxDone doneNow err \<Rightarrow>
          (if doneNow then None else Some (Errorf ''done did not complete: %w'' [ArgE err]))
      | TimerFired ctxErr \<Rightarrow>
          (case ctxErr of
             Some err \<Rightarrow> Some (Errorf ''done did not complete: %w'' [ArgE err])
           | None \<Rightarrow> Some (Errorf ''done did not complete within %s'' [ArgI (monitor_wait p)])))"

definition drain :: "('v, 'w) runCfg \<Rightarrow> goerr option \<times> ('v, 'w) es \<Rightarrow> goerr option \<times> ('v, 'w) es" where
  "drain cf = (\<lambda>(shutdownErr, st).
     case checkBackgroundErrors cf st of
       (failures, st) \<Rightarrow>
         (if bf_err failures \<noteq> None then errors_Join [shutdownErr, bf_err failures] else shutdownErr, st))"

definition exec_in :: "('v, 'w) runCfg \<Rightarrow> ('v, 'w, 'x) uprog \<Rightarrow> runEnv \<Rightarrow> ('v, 'w) es \<Rightarrow> 'x \<times> runEnv \<times> ('v, 'w) es" where
  "exec_in cf p env st =
     (case exec (cf_ops cf) (h_fs (cf_host cf)) (cf_graph cf) p
             \<lparr>ue_outputs = es_outputs st, ue_env = env, ue_world = es_world st\<rparr> of
        (x, ue) \<Rightarrow> (x, ue_env ue, st\<lparr>es_outputs := ue_outputs ue, es_world := ue_world ue\<rparr>))"

definition now :: "('v, 'w) runCfg \<Rightarrow> ('v, 'w) es \<Rightarrow> int \<times> ('v, 'w) es" where
  "now cf st = (case h_now (cf_host cf) (es_world st) of (t, w) \<Rightarrow> (t, st\<lparr>es_world := w\<rparr>))"

definition wait_monitor :: "('v, 'w) runCfg \<Rightarrow> ('v, 'w) activeBackground \<Rightarrow>
    goerr option \<times> ('v, 'w) es \<Rightarrow> goerr option \<times> ('v, 'w) es" where
  "wait_monitor cf bg = (\<lambda>(shutdownErr, st).
     case h_monitor (cf_host cf) (ab_name bg) (es_world st) of
       (probe, w) \<Rightarrow>
         (case waitBackgroundMonitor (tk_hasDone (ab_task bg)) probe of
            None \<Rightarrow> (shutdownErr, st\<lparr>es_world := w\<rparr>)
          | Some waitErr \<Rightarrow>
              (errors_Join [shutdownErr, Some (backgroundFailureError (ab_name bg) waitErr)],
               st\<lparr>es_world := w,
                  es_fatal := recordBackgroundError (ab_name bg) (Some waitErr) (es_fatal st)\<rparr>)))"

definition stop_status :: "goerr option \<Rightarrow> goerr option \<Rightarrow> Status \<times> goerr option" where
  "stop_status fatalErr err =
     (case err of
        None \<Rightarrow> (if fatalErr \<noteq> None then StatusWorkerFailed else StatusCompleted, fatalErr)
      | Some e \<Rightarrow>
          (StatusWorkerFailed, if fatalErr \<noteq> None then errors_Join [fatalErr, Some e] else Some e))"

definition stop_result :: "('v, 'w) runCfg \<Rightarrow> ('v, 'w) activeBackground \<Rightarrow> runEnv \<Rightarrow> Status \<times> goerr option \<Rightarrow>
    int \<Rightarrow> 'v outputStore \<Rightarrow> UnitResult" where
  "stop_result cf bg env verdict stop outputs =
     with_timeline (ab_startedAt bg) stop
       (zero_UnitResult\<lparr>ur_Kind := ud_Kind (gn_def (ab_node bg)), ur_Status := fst verdict, ur_Error := snd verdict,
          ur_Outputs := resultsForUnit (cf_ops cf) (ab_name bg) (ud_Outputs (gn_def (ab_node bg))) outputs,
          ur_Metrics := metric_results (re_metrics env),
          ur_Artifacts := artifactResults env\<rparr>)"

definition stop_one :: "('v, 'w) runCfg \<Rightarrow> ('v, 'w) activeBackground \<Rightarrow>
    goerr option \<times> ('v, 'w) es \<Rightarrow> goerr option \<times> ('v, 'w) es" where
  "stop_one cf bg s =
     (case drain cf s of
        (shutdownErr, st) \<Rightarrow>
          (case exec_in cf (tk_Stop (ab_task bg)) (ab_env bg) (log_event (EvStop (ab_name bg)) st) of
             (err, env, st) \<Rightarrow>
               (case drain cf (wait_monitor cf bg (shutdownErr, st)) of
                  (shutdownErr, st) \<Rightarrow>
                    (case now cf st of
                       (stop, st) \<Rightarrow>
                         (let verdict = stop_status (fmlookup (es_fatal st) (ab_name bg)) err;
                              shutdownErr =
                                (case err of
                                   None \<Rightarrow> shutdownErr
                                 | Some e \<Rightarrow> errors_Join [shutdownErr,
                                     Some (Errorf ''unit %q stop: %w'' [ArgS (ab_name bg), ArgE e])])
                          in (shutdownErr, st\<lparr>es_results := fmupd (ab_name bg)
                                (stop_result cf bg env verdict stop (es_outputs st)) (es_results st)\<rparr>))))))"

definition stopBackgrounds :: "('v, 'w) runCfg \<Rightarrow> ('v, 'w) es \<Rightarrow> goerr option \<times> ('v, 'w) es" where
  "stopBackgrounds cf st =
     drain cf (foldl (\<lambda>s bg. stop_one cf bg s) (drain cf (None, st)) (rev (es_active st)))"

definition cleanup :: "('v, 'w) runCfg \<Rightarrow> ('v, 'w) es \<Rightarrow> ('v, 'w) es" where
  "cleanup cf st =
     (case os_cleanup (cf_ops cf) (gr_order (cf_graph cf)) (es_outputs st) (es_results st) (es_world st) of
        (results, w) \<Rightarrow>
          st\<lparr>es_results := results, es_world := w,
             es_log := es_log st @ map (EvClose \<circ> target_key)
               (cleanupTargets (cf_ops cf) (gr_order (cf_graph cf)) (es_outputs st))\<rparr>)"

definition stopBackgroundsAfterEarlyFailure :: "('v, 'w) runCfg \<Rightarrow> goerr \<Rightarrow> ('v, 'w) es \<Rightarrow> goerr \<times> ('v, 'w) es" where
  "stopBackgroundsAfterEarlyFailure cf primaryErr st =
     (case stopBackgrounds cf st of
        (stopErr, st) \<Rightarrow>
          (case stopErr of
             None \<Rightarrow> (primaryErr, st)
           | Some e \<Rightarrow> (the (errors_Join [Some primaryErr, Some e]), st\<lparr>es_status := StatusWorkerFailed\<rparr>)))"

text \<open>The common end of every early return of \<open>Run\<close>.\<close>

definition abort :: "('v, 'w) runCfg \<Rightarrow> Status \<Rightarrow> goerr \<Rightarrow> ('v, 'w) es \<Rightarrow> goerr option \<times> ('v, 'w) es" where
  "abort cf status primaryErr st =
     (case stopBackgroundsAfterEarlyFailure cf primaryErr (st\<lparr>es_status := status\<rparr>) of
        (err, st) \<Rightarrow> (Some err, cleanup cf st))"

section \<open>Running the units\<close>

definition failed_result :: "UnitDef \<Rightarrow> Status \<Rightarrow> goerr \<Rightarrow> UnitResult" where
  "failed_result def status err = zero_UnitResult\<lparr>ur_Kind := ud_Kind def, ur_Status := status, ur_Error := Some err\<rparr>"

definition set_result :: "string \<Rightarrow> UnitResult \<Rightarrow> ('v, 'w) es \<Rightarrow> ('v, 'w) es" where
  "set_result name r st = st\<lparr>es_results := fmupd name r (es_results st)\<rparr>"

definition env_result :: "UnitDef \<Rightarrow> runEnv \<Rightarrow> UnitResult" where
  "env_result def env =
     zero_UnitResult\<lparr>ur_Kind := ud_Kind def, ur_Metrics := metric_results (re_metrics env),
       ur_Artifacts := artifactResults env\<rparr>"

definition start_background :: "('v, 'w) runCfg \<Rightarrow> string \<Rightarrow> ('v, 'w) Unit graphNode \<Rightarrow> runEnv \<Rightarrow>
    ('v, 'w, ('v, 'w) Task option \<times> goerr option) uprog \<Rightarrow> ('v, 'w) es \<Rightarrow> goerr option \<times> ('v, 'w) es" where
  "start_background cf name node env prog st =
     (case now cf st of
        (start, st) \<Rightarrow>
          (case exec_in cf prog env (log_event (EvStart name) st) of
             ((task, err), env, st) \<Rightarrow>
               (case now cf st of
                  (stop, st) \<Rightarrow>
                    (let err = (if err = None \<and> task = None then Some (Errorf ''background task is nil'' []) else err)
                     in case err of
                       Some e \<Rightarrow>
                         abort cf StatusWorkerFailed (Errorf ''unit %q start: %w'' [ArgS name, ArgE e])
                           (set_result name
                             (with_timeline start stop
                               ((env_result (gn_def node) env)\<lparr>ur_Status := StatusWorkerFailed, ur_Error := Some e\<rparr>))
                             (st\<lparr>es_status := StatusWorkerFailed\<rparr>))
                     | None \<Rightarrow>
                         (None, log_event (EvStarted name)
                           (st\<lparr>es_active := es_active st @
                             [\<lparr>ab_name = name, ab_node = node, ab_env = env, ab_task = the task,
                               ab_startedAt = start\<rparr>]\<rparr>))))))"

definition run_foreground :: "('v, 'w) runCfg \<Rightarrow> string \<Rightarrow> ('v, 'w) Unit graphNode \<Rightarrow> runEnv \<Rightarrow>
    ('v, 'w, goerr option) uprog \<Rightarrow> ('v, 'w) es \<Rightarrow> goerr option \<times> ('v, 'w) es" where
  "run_foreground cf name node env prog st =
     (case checkBackgroundErrors cf st of
        (failures, st) \<Rightarrow>
          (case bf_err failures of
             Some e \<Rightarrow> abort cf StatusWorkerFailed e st
           | None \<Rightarrow>
               (case now cf st of
                  (start, st) \<Rightarrow>
                    (case exec_in cf prog env (log_event (EvRun name) st) of
                       (err, env, st) \<Rightarrow>
                         (case now cf st of
                            (stop, st) \<Rightarrow>
                              (case checkBackgroundErrors cf st of
                                 (failures, st) \<Rightarrow>
                                   (if err \<noteq> None \<or> bf_err failures \<noteq> None then
                                      (let fe = (case err of Some e \<Rightarrow> e
                                         | None \<Rightarrow> (case h_ctxErr (cf_host cf) (es_world st) of Some e \<Rightarrow> e
                                           | None \<Rightarrow> snd (the (bf_first failures))));
                                           primaryErr = Errorf ''unit %q run: %w'' [ArgS name, ArgE fe];
                                           primaryErr = (if bf_err failures \<noteq> None
                                             then the (errors_Join [Some primaryErr, bf_err failures]) else primaryErr);
                                           st = set_result name
                                             (with_timeline start stop
                                               ((env_result (gn_def node) env)\<lparr>ur_Status := StatusWorkerFailed, ur_Error := Some fe\<rparr>)) st
                                       in abort cf StatusWorkerFailed primaryErr
                                            (st\<lparr>es_world := h_cancel (cf_host cf) (es_world st)\<rparr>))
                                    else
                                      (None, set_result name
                                        (with_timeline start stop
                                          ((env_result (gn_def node) env)\<lparr>ur_Status := StatusCompleted,
                                             ur_Outputs := resultsForUnit (cf_ops cf) name (ud_Outputs (gn_def node)) (es_outputs st)\<rparr>)) st)))))))) "

definition validate_failed :: "('v, 'w) runCfg \<Rightarrow> string \<Rightarrow> UnitDef \<Rightarrow> Status \<Rightarrow> goerr \<Rightarrow> goerr \<Rightarrow>
    ('v, 'w) es \<Rightarrow> goerr option \<times> ('v, 'w) es" where
  "validate_failed cf name def status err primaryErr st =
     (case checkBackgroundErrors cf st of
        (failures, st) \<Rightarrow>
          (case bf_err failures of
             Some e \<Rightarrow> abort cf StatusWorkerFailed e st
           | None \<Rightarrow> abort cf status primaryErr (set_result name (failed_result def status err) st)))"

definition run_unit :: "('v, 'w) runCfg \<Rightarrow> string \<Rightarrow> ('v, 'w) es \<Rightarrow> goerr option \<times> ('v, 'w) es" where
  "run_unit cf name st =
     (case checkBackgroundErrors cf st of
        (failures, st) \<Rightarrow>
          (case bf_err failures of
             Some e \<Rightarrow> abort cf StatusWorkerFailed e st
           | None \<Rightarrow>
               (let node = the (fmlookup (gr_nodes (cf_graph cf)) name);
                    u = gn_unit node; def = gn_def node;
                    base = newBaseEnv (cf_scenario cf) name (un_Spec (gn_dsl node))
                in case ut_Validate u base (es_world st) of
                  (verr, w) \<Rightarrow>
                    (let st = log_event (EvValidate name) (st\<lparr>es_world := w\<rparr>)
                     in case verr of
                       Some e \<Rightarrow> validate_failed cf name def StatusConfigFailed e
                          (Errorf ''unit %q validate: %w'' [ArgS name, ArgE e]) st
                     | None \<Rightarrow>
                         (case ut_Plan u base (es_world st) of
                            (planned, w) \<Rightarrow>
                              (let st = log_event (EvPlan name) (st\<lparr>es_world := w\<rparr>)
                               in case planned of
                                 Inl e \<Rightarrow> validate_failed cf name def StatusPlanFailed e
                                    (Errorf ''unit %q plan: %w'' [ArgS name, ArgE e]) st
                               | Inr _ \<Rightarrow>
                                   (let env = newRunEnv base name def
                                    in case ut_Start u of
                                         Some prog \<Rightarrow> start_background cf name node env (prog base) st
                                       | None \<Rightarrow> run_foreground cf name node env (ut_Run u base) st)))))))"

definition finish_run :: "('v, 'w) runCfg \<Rightarrow> ('v, 'w) es \<Rightarrow> goerr option \<times> ('v, 'w) es" where
  "finish_run cf st =
     (case checkBackgroundErrors cf st of
        (failures, st) \<Rightarrow>
          (case bf_err failures of
             Some e \<Rightarrow> abort cf StatusWorkerFailed e st
           | None \<Rightarrow>
               (case stopBackgrounds cf st of
                  (Some e, st) \<Rightarrow> (Some e, cleanup cf (st\<lparr>es_status := StatusWorkerFailed\<rparr>))
                | (None, st) \<Rightarrow> (None, cleanup cf st))))"

fun run_units :: "('v, 'w) runCfg \<Rightarrow> string list \<Rightarrow> ('v, 'w) es \<Rightarrow> goerr option \<times> ('v, 'w) es" where
  "run_units cf [] st = finish_run cf st"
| "run_units cf (name # names) st =
     (case run_unit cf name st of
        (Some e, st) \<Rightarrow> (Some e, st)
      | (None, st) \<Rightarrow> run_units cf names st)"

definition new_es :: "'w \<Rightarrow> ('v, 'w) es" where
  "new_es w =
     \<lparr>es_world = w, es_outputs = newOutputStore, es_results = fmempty, es_status = StatusCompleted,
      es_fatal = fmempty, es_active = [], es_log = []\<rparr>"

type_synonym ('v, 'w) engine = "('v, 'w) Unit Registry"

definition Engine_Run :: "('v, 'w) engine \<Rightarrow> 'w Host \<Rightarrow> ('v, 'w) AnyOps \<Rightarrow> Scenario \<Rightarrow> 'w \<Rightarrow>
    goerr option \<times> ('v, 'w) es" where
  "Engine_Run reg host ops scenario w =
     (case buildGraph ut_Definition reg scenario of
        Inl err \<Rightarrow> (Some err, (new_es w)\<lparr>es_status := StatusConfigFailed\<rparr>)
      | Inr g \<Rightarrow>
          run_units \<lparr>cf_host = host, cf_ops = ops, cf_graph = g, cf_scenario = scenario\<rparr> (gr_order g) (new_es w))"

end
