(* ===== verification/Engine_Facts.thy ===== *)
theory Engine_Facts
  imports Engine
begin

text \<open>
  The shape of every execution of \<open>Engine.Run\<close>: the units run one after the other in the order of
  the graph, then the started background units are stopped in reverse order, then the outputs are
  closed, on every path, early returns included; and the status and the unit results agree with the
  returned error.
\<close>

section \<open>What the single steps leave alone\<close>

named_theorems es_frame \<open>fields of the engine state that a step does not change\<close>

lemma check_frame [es_frame, simp]:
  "es_log (snd (checkBackgroundErrors cf st)) = es_log st"
  "es_active (snd (checkBackgroundErrors cf st)) = es_active st"
  "es_status (snd (checkBackgroundErrors cf st)) = es_status st"
  "es_results (snd (checkBackgroundErrors cf st)) = es_results st"
  "es_outputs (snd (checkBackgroundErrors cf st)) = es_outputs st"
  by (simp_all add: checkBackgroundErrors_def split_beta)

lemma now_frame [es_frame, simp]:
  "es_log (snd (now cf st)) = es_log st"
  "es_active (snd (now cf st)) = es_active st"
  "es_status (snd (now cf st)) = es_status st"
  "es_results (snd (now cf st)) = es_results st"
  "es_outputs (snd (now cf st)) = es_outputs st"
  "es_fatal (snd (now cf st)) = es_fatal st"
  by (simp_all add: now_def split_beta)

lemma exec_in_frame [es_frame, simp]:
  "es_log (snd (snd (exec_in cf p env st))) = es_log st"
  "es_active (snd (snd (exec_in cf p env st))) = es_active st"
  "es_status (snd (snd (exec_in cf p env st))) = es_status st"
  "es_results (snd (snd (exec_in cf p env st))) = es_results st"
  "es_fatal (snd (snd (exec_in cf p env st))) = es_fatal st"
  by (simp_all add: exec_in_def split_beta)

lemma log_event_frame [es_frame, simp]:
  "es_log (log_event ev st) = es_log st @ [ev]"
  "es_active (log_event ev st) = es_active st"
  "es_status (log_event ev st) = es_status st"
  "es_results (log_event ev st) = es_results st"
  "es_outputs (log_event ev st) = es_outputs st"
  "es_fatal (log_event ev st) = es_fatal st"
  by (simp_all add: log_event_def)

lemma set_result_frame [es_frame, simp]:
  "es_log (set_result n r st) = es_log st"
  "es_active (set_result n r st) = es_active st"
  "es_status (set_result n r st) = es_status st"
  "es_outputs (set_result n r st) = es_outputs st"
  "es_fatal (set_result n r st) = es_fatal st"
  "es_results (set_result n r st) = fmupd n r (es_results st)"
  by (simp_all add: set_result_def)

lemma drain_frame [es_frame, simp]:
  "es_log (snd (drain cf s)) = es_log (snd s)"
  "es_active (snd (drain cf s)) = es_active (snd s)"
  "es_status (snd (drain cf s)) = es_status (snd s)"
  "es_results (snd (drain cf s)) = es_results (snd s)"
  "es_outputs (snd (drain cf s)) = es_outputs (snd s)"
  by (simp_all add: drain_def split_beta)

lemma wait_monitor_frame [es_frame, simp]:
  "es_log (snd (wait_monitor cf bg s)) = es_log (snd s)"
  "es_active (snd (wait_monitor cf bg s)) = es_active (snd s)"
  "es_status (snd (wait_monitor cf bg s)) = es_status (snd s)"
  "es_results (snd (wait_monitor cf bg s)) = es_results (snd s)"
  "es_outputs (snd (wait_monitor cf bg s)) = es_outputs (snd s)"
  by (simp_all add: wait_monitor_def split_beta split: option.splits)

section \<open>Stopping and closing\<close>

text \<open>The intermediate states of \<open>stop_one\<close>: after the first drain, after the call of \<open>Stop\<close>, at the end.\<close>

definition stop_call :: "('v, 'w) runCfg \<Rightarrow> ('v, 'w) activeBackground \<Rightarrow> goerr option \<times> ('v, 'w) es \<Rightarrow>
    goerr option \<times> runEnv \<times> ('v, 'w) es" where
  "stop_call cf bg s =
     exec_in cf (tk_Stop (ab_task bg)) (ab_env bg) (log_event (EvStop (ab_name bg)) (snd (drain cf s)))"

definition stop_wait :: "('v, 'w) runCfg \<Rightarrow> ('v, 'w) activeBackground \<Rightarrow> goerr option \<times> ('v, 'w) es \<Rightarrow>
    goerr option \<times> ('v, 'w) es" where
  "stop_wait cf bg s = drain cf (wait_monitor cf bg (fst (drain cf s), snd (snd (stop_call cf bg s))))"

definition stop_err :: "('v, 'w) activeBackground \<Rightarrow> goerr option \<Rightarrow> goerr option \<Rightarrow> goerr option" where
  "stop_err bg shutdownErr err =
     (case err of
        None \<Rightarrow> shutdownErr
      | Some e \<Rightarrow> errors_Join [shutdownErr, Some (Errorf ''unit %q stop: %w'' [ArgS (ab_name bg), ArgE e])])"

definition stop_verdict :: "('v, 'w) runCfg \<Rightarrow> ('v, 'w) activeBackground \<Rightarrow> goerr option \<times> ('v, 'w) es \<Rightarrow>
    Status \<times> goerr option" where
  "stop_verdict cf bg s =
     stop_status (fmlookup (es_fatal (snd (stop_wait cf bg s))) (ab_name bg)) (fst (stop_call cf bg s))"

lemma stop_one_result:
  obtains r where "stop_one cf bg s =
      (stop_err bg (fst (stop_wait cf bg s)) (fst (stop_call cf bg s)),
       set_result (ab_name bg) r (snd (now cf (snd (stop_wait cf bg s)))))"
    and "ur_Status r = fst (stop_verdict cf bg s)" and "ur_Error r = snd (stop_verdict cf bg s)"
proof -
  let ?n = "now cf (snd (stop_wait cf bg s))"
  let ?r = "stop_result cf bg (fst (snd (stop_call cf bg s))) (stop_verdict cf bg s) (fst ?n) (es_outputs (snd ?n))"
  have "es_fatal (snd ?n) = es_fatal (snd (stop_wait cf bg s))" by simp
  then have "stop_one cf bg s =
      (stop_err bg (fst (stop_wait cf bg s)) (fst (stop_call cf bg s)), set_result (ab_name bg) ?r (snd ?n))"
    unfolding stop_verdict_def stop_one_def Let_def split_beta set_result_def stop_err_def
    by (simp only: stop_wait_def stop_call_def)
  then show ?thesis
    by (rule that) (simp_all add: stop_result_def with_timeline_def)
qed

lemma stop_one_frame:
  "es_log (snd (stop_one cf bg s)) = es_log (snd s) @ [EvStop (ab_name bg)]"
  "es_active (snd (stop_one cf bg s)) = es_active (snd s)"
  "es_status (snd (stop_one cf bg s)) = es_status (snd s)"
proof -
  obtain e r where "stop_one cf bg s = (e, set_result (ab_name bg) r (snd (now cf (snd (stop_wait cf bg s)))))"
    using stop_one_result [of cf bg s] by metis
  then show "es_log (snd (stop_one cf bg s)) = es_log (snd s) @ [EvStop (ab_name bg)]"
    and "es_active (snd (stop_one cf bg s)) = es_active (snd s)"
    and "es_status (snd (stop_one cf bg s)) = es_status (snd s)"
    by (simp_all add: stop_wait_def stop_call_def)
qed

lemma stop_all_frame:
  "es_log (snd (foldl (\<lambda>s bg. stop_one cf bg s) s bgs)) = es_log (snd s) @ map (EvStop \<circ> ab_name) bgs"
  "es_active (snd (foldl (\<lambda>s bg. stop_one cf bg s) s bgs)) = es_active (snd s)"
  "es_status (snd (foldl (\<lambda>s bg. stop_one cf bg s) s bgs)) = es_status (snd s)"
  by (induction bgs arbitrary: s) (simp_all add: stop_one_frame)

lemma stopBackgrounds_frame:
  "es_log (snd (stopBackgrounds cf st)) = es_log st @ map (EvStop \<circ> ab_name) (rev (es_active st))"
  "es_active (snd (stopBackgrounds cf st)) = es_active st"
  "es_status (snd (stopBackgrounds cf st)) = es_status st"
  by (simp_all add: stopBackgrounds_def stop_all_frame)

definition close_events :: "('v, 'w) runCfg \<Rightarrow> ('v, 'w) es \<Rightarrow> event list" where
  "close_events cf st = map (EvClose \<circ> target_key)
     (cleanupTargets (cf_ops cf) (gr_order (cf_graph cf)) (es_outputs st))"

lemma cleanup_frame:
  "es_log (cleanup cf st) = es_log st @ close_events cf st"
  "es_status (cleanup cf st) = es_status st"
  "es_outputs (cleanup cf st) = es_outputs st"
  "es_active (cleanup cf st) = es_active st"
  by (simp_all add: cleanup_def close_events_def split_beta)

text \<open>How a run ends: the started background units are stopped and the outputs closed.\<close>

definition ended :: "('v, 'w) runCfg \<Rightarrow> event list \<Rightarrow> string list \<Rightarrow> ('v, 'w) es \<Rightarrow> bool" where
  "ended cf evs started st \<longleftrightarrow> es_log st = evs @ map EvStop (rev started) @ close_events cf st"

lemma close_events_cong: "es_outputs st = es_outputs st' \<Longrightarrow> close_events cf st = close_events cf st'"
  by (simp add: close_events_def)

lemma ended_cleanup:
  "es_log st = evs @ map EvStop (rev started) \<Longrightarrow> ended cf evs started (cleanup cf st)"
  by (simp add: ended_def cleanup_frame) (simp add: close_events_def cleanup_frame)

lemma abort_ended:
  "ended cf (es_log st) (map ab_name (es_active st)) (snd (abort cf status e st))"
proof -
  have "map (EvStop \<circ> ab_name) (rev (es_active st)) = map EvStop (rev (map ab_name (es_active st)))"
    by (simp add: rev_map)
  then show ?thesis
    unfolding abort_def stopBackgroundsAfterEarlyFailure_def
    by (auto simp: split_beta stopBackgrounds_frame intro!: ended_cleanup split: option.splits)
qed

lemma abort_fails:
  "fst (abort cf status e st) \<noteq> None"
  "status \<noteq> StatusCompleted \<Longrightarrow> es_status (snd (abort cf status e st)) \<noteq> StatusCompleted"
  by (simp_all add: abort_def stopBackgroundsAfterEarlyFailure_def split_beta cleanup_frame
      stopBackgrounds_frame split: option.splits)

section \<open>One unit\<close>

definition is_background :: "('v, 'w) runCfg \<Rightarrow> string \<Rightarrow> bool" where
  "is_background cf n \<longleftrightarrow> ut_Start (gn_unit (the (fmlookup (gr_nodes (cf_graph cf)) n))) \<noteq> None"

text \<open>The calls made for a unit, and the mark of a background unit whose start succeeded.\<close>

definition call_events :: "('v, 'w) runCfg \<Rightarrow> string \<Rightarrow> event list" where
  "call_events cf n = [EvValidate n, EvPlan n, if is_background cf n then EvStart n else EvRun n]"

definition unit_events :: "('v, 'w) runCfg \<Rightarrow> string \<Rightarrow> event list" where
  "unit_events cf n = call_events cf n @ (if is_background cf n then [EvStarted n] else [])"

definition aborted :: "('v, 'w) runCfg \<Rightarrow> string \<Rightarrow> ('v, 'w) es \<Rightarrow> goerr option \<times> ('v, 'w) es \<Rightarrow> bool" where
  "aborted cf n st r \<longleftrightarrow>
     fst r \<noteq> None \<and> es_status (snd r) \<noteq> StatusCompleted \<and>
     (\<exists>partial. prefix partial (call_events cf n) \<and>
        ended cf (es_log st @ partial) (map ab_name (es_active st)) (snd r))"

lemma aborted_abort:
  assumes "es_log st' = es_log st @ partial" and "es_active st' = es_active st"
    and "prefix partial (call_events cf n)" and "status \<noteq> StatusCompleted"
  shows "aborted cf n st (abort cf status e st')"
  using abort_fails(1) [of cf status e st'] abort_fails(2) [of status cf e st'] abort_ended [of cf st' status e] assms
  unfolding aborted_def by fastforce

lemma drain_failures_None:
  "drain_failures ds f fatal = (f', fatal') \<Longrightarrow> bf_err f' = None \<Longrightarrow> fatal' = fatal \<and> bf_err f = None"
proof (induction ds f fatal rule: drain_failures.induct)
  case (2 u err rest failures fatal)
  show ?case
  proof (cases err)
    case None
    with 2 show ?thesis by simp
  next
    case (Some e)
    with 2(2) [OF Some] 2(3,4) show ?thesis by simp
  qed
qed simp

lemma check_None_fatal:
  "bf_err (fst (checkBackgroundErrors cf st)) = None \<Longrightarrow> es_fatal (snd (checkBackgroundErrors cf st)) = es_fatal st"
  by (auto simp: checkBackgroundErrors_def split_beta dest: drain_failures_None [OF surjective_pairing])

text \<open>A unit that does not end the run: all its calls were made and its result is recorded.\<close>

definition advanced :: "('v, 'w) runCfg \<Rightarrow> string \<Rightarrow> ('v, 'w) es \<Rightarrow> ('v, 'w) es \<Rightarrow> bool" where
  "advanced cf n st st' \<longleftrightarrow>
     es_log st' = es_log st @ unit_events cf n \<and>
     map ab_name (es_active st') = map ab_name (es_active st) @ (if is_background cf n then [n] else []) \<and>
     es_status st' = es_status st \<and> es_fatal st' = es_fatal st \<and>
     (if is_background cf n then es_results st' = es_results st
      else \<exists>r. es_results st' = fmupd n r (es_results st) \<and> ur_Status r = StatusCompleted \<and> ur_Error r = None)"

lemma with_timeline_frame [simp]:
  "ur_Status (with_timeline a b r) = ur_Status r" "ur_Error (with_timeline a b r) = ur_Error r"
  by (simp_all add: with_timeline_def)

lemma env_result_frame [simp]: "ur_Error (env_result def env) = None"
  by (simp add: env_result_def zero_UnitResult_def)

lemma validate_failed_aborted:
  assumes "es_log st' = es_log st @ partial" and "es_active st' = es_active st"
    and "prefix partial (call_events cf n)" and "status \<noteq> StatusCompleted"
  shows "aborted cf n st (validate_failed cf n def status e pe st')"
  unfolding validate_failed_def split_beta
  by (auto split: option.splits intro!: aborted_abort [where partial = partial] simp: assms)

lemma run_foreground_cases:
  assumes "es_log st' = es_log st @ [EvValidate n, EvPlan n]" and "es_active st' = es_active st"
    and "es_status st' = es_status st" and "es_results st' = es_results st" and "es_fatal st' = es_fatal st"
    and "\<not> is_background cf n"
    and r_def: "r = run_foreground cf n node env prog st'"
  shows "aborted cf n st r \<or> fst r = None \<and> advanced cf n st (snd r)"
proof -
  have ev: "unit_events cf n = [EvValidate n, EvPlan n, EvRun n]" "call_events cf n = [EvValidate n, EvPlan n, EvRun n]"
    using assms(6) by (simp_all add: unit_events_def call_events_def)
  define c1 where "c1 = checkBackgroundErrors cf st'"
  define s1 where "s1 = snd (now cf (snd c1))"
  define x where "x = exec_in cf prog env (log_event (EvRun n) s1)"
  define s2 where "s2 = snd (now cf (snd (snd x)))"
  define c2 where "c2 = checkBackgroundErrors cf s2"
  have log2: "es_log (snd c2) = es_log st @ [EvValidate n, EvPlan n, EvRun n]"
    and act2: "es_active (snd c2) = es_active st"
    by (simp_all add: c2_def s2_def x_def s1_def c1_def assms(1,2))
  show ?thesis
  proof (cases "bf_err (fst c1)")
    case (Some e)
    then have "r = abort cf StatusWorkerFailed e (snd c1)"
      by (simp add: r_def run_foreground_def split_beta c1_def)
    moreover have "aborted cf n st (abort cf StatusWorkerFailed e (snd c1))"
      by (rule aborted_abort [where partial = "[EvValidate n, EvPlan n]"])
        (simp_all add: c1_def assms(1,2) ev)
    ultimately show ?thesis by simp
  next
    case None
    show ?thesis
    proof (cases "fst x \<noteq> None \<or> bf_err (fst c2) \<noteq> None")
      case True
      have "\<exists>pe res w. r = abort cf StatusWorkerFailed pe ((set_result n res (snd c2))\<lparr>es_world := w\<rparr>)"
        using None True
        by (simp add: r_def run_foreground_def split_beta Let_def flip: c1_def s1_def x_def s2_def c2_def) blast
      then obtain pe res w where
        r: "r = abort cf StatusWorkerFailed pe ((set_result n res (snd c2))\<lparr>es_world := w\<rparr>)" by blast
      have "aborted cf n st r"
        unfolding r
        by (rule aborted_abort [where partial = "[EvValidate n, EvPlan n, EvRun n]"]) (simp_all add: log2 act2 ev)
      then show ?thesis ..
    next
      case False
      let ?res = "with_timeline (fst (now cf (snd c1))) (fst (now cf (snd (snd x))))
          ((env_result (gn_def node) (fst (snd x)))\<lparr>ur_Status := StatusCompleted,
             ur_Outputs := resultsForUnit (cf_ops cf) n (ud_Outputs (gn_def node)) (es_outputs (snd c2))\<rparr>)"
      have "r = (None, set_result n ?res (snd c2))"
        using None False
        by (simp add: r_def run_foreground_def split_beta Let_def flip: c1_def s1_def x_def s2_def c2_def)
      moreover have "ur_Status ?res = StatusCompleted" "ur_Error ?res = None" by simp_all
      ultimately obtain res where r: "r = (None, set_result n res (snd c2))" "ur_Status res = StatusCompleted" "ur_Error res = None" by blast
      have "es_fatal (snd c2) = es_fatal st"
        using False None check_None_fatal [of cf s2] check_None_fatal [of cf st'] assms(5)
        by (simp add: c2_def s2_def x_def s1_def c1_def)
      moreover have "es_status (snd c2) = es_status st" "es_results (snd c2) = es_results st"
        by (simp_all add: c2_def s2_def x_def s1_def c1_def assms(3,4))
      ultimately have "advanced cf n st (snd r)"
        using r assms(6) log2 act2 ev by (auto simp: advanced_def)
      with r show ?thesis by simp
    qed
  qed
qed

lemma start_background_cases:
  assumes "es_log st' = es_log st @ [EvValidate n, EvPlan n]" and "es_active st' = es_active st"
    and "es_status st' = es_status st" and "es_results st' = es_results st" and "es_fatal st' = es_fatal st"
    and "is_background cf n"
    and r_def: "r = start_background cf n node env prog st'"
  shows "aborted cf n st r \<or> fst r = None \<and> advanced cf n st (snd r)"
proof -
  have ev: "unit_events cf n = [EvValidate n, EvPlan n, EvStart n, EvStarted n]" "call_events cf n = [EvValidate n, EvPlan n, EvStart n]"
    using assms(6) by (simp_all add: unit_events_def call_events_def)
  define s1 where "s1 = snd (now cf st')"
  define x where "x = exec_in cf prog env (log_event (EvStart n) s1)"
  define s2 where "s2 = snd (now cf (snd (snd x)))"
  define err where "err = (if snd (fst x) = None \<and> fst (fst x) = None then Some (Errorf ''background task is nil'' []) else snd (fst x))"
  have unf: "r = (case err of
      Some e \<Rightarrow> abort cf StatusWorkerFailed (Errorf ''unit %q start: %w'' [ArgS n, ArgE e])
        (set_result n
          (with_timeline (fst (now cf st')) (fst (now cf (snd (snd x))))
            ((env_result (gn_def node) (fst (snd x)))\<lparr>ur_Status := StatusWorkerFailed, ur_Error := Some e\<rparr>))
          (s2\<lparr>es_status := StatusWorkerFailed\<rparr>))
    | None \<Rightarrow> (None, log_event (EvStarted n)
        (s2\<lparr>es_active := es_active s2 @
          [\<lparr>ab_name = n, ab_node = node, ab_env = fst (snd x), ab_task = the (fst (fst x)),
            ab_startedAt = fst (now cf st')\<rparr>]\<rparr>)))"
    by (simp only: r_def start_background_def split_beta Let_def s1_def x_def s2_def err_def)
  have s2: "es_log s2 = es_log st @ [EvValidate n, EvPlan n, EvStart n]" "es_active s2 = es_active st"
    "es_status s2 = es_status st" "es_results s2 = es_results st" "es_fatal s2 = es_fatal st"
    by (simp_all add: s2_def x_def s1_def assms(1-5))
  show ?thesis
  proof (cases err)
    case (Some e)
    then have "\<exists>pe res. r = abort cf StatusWorkerFailed pe (set_result n res (s2\<lparr>es_status := StatusWorkerFailed\<rparr>))"
      unfolding unf by auto
    then obtain pe res where
      r: "r = abort cf StatusWorkerFailed pe (set_result n res (s2\<lparr>es_status := StatusWorkerFailed\<rparr>))" by blast
    have "aborted cf n st r"
      unfolding r
      by (rule aborted_abort [where partial = "[EvValidate n, EvPlan n, EvStart n]"]) (simp_all add: s2 ev)
    then show ?thesis ..
  next
    case None
    then have "\<exists>bg. r = (None, log_event (EvStarted n) (s2\<lparr>es_active := es_active s2 @ [bg]\<rparr>)) \<and> ab_name bg = n"
      unfolding unf by auto
    then show ?thesis using s2 assms(6) ev by (auto simp: advanced_def)
  qed
qed

lemma run_unit_cases:
  "aborted cf n st (run_unit cf n st) \<or>
   fst (run_unit cf n st) = None \<and> advanced cf n st (snd (run_unit cf n st))"
proof -
  define c1 where "c1 = checkBackgroundErrors cf st"
  define node where "node = the (fmlookup (gr_nodes (cf_graph cf)) n)"
  define base where "base = newBaseEnv (cf_scenario cf) n (un_Spec (gn_dsl node))"
  define v where "v = ut_Validate (gn_unit node) base (es_world (snd c1))"
  define s1 where "s1 = log_event (EvValidate n) ((snd c1)\<lparr>es_world := snd v\<rparr>)"
  define p where "p = ut_Plan (gn_unit node) base (es_world s1)"
  define s2 where "s2 = log_event (EvPlan n) (s1\<lparr>es_world := snd p\<rparr>)"
  define env where "env = newRunEnv base n (gn_def node)"
  have unf: "run_unit cf n st =
      (case bf_err (fst c1) of
         Some e \<Rightarrow> abort cf StatusWorkerFailed e (snd c1)
       | None \<Rightarrow>
           (case fst v of
              Some e \<Rightarrow> validate_failed cf n (gn_def node) StatusConfigFailed e
                 (Errorf ''unit %q validate: %w'' [ArgS n, ArgE e]) s1
            | None \<Rightarrow>
                (case fst p of
                   Inl e \<Rightarrow> validate_failed cf n (gn_def node) StatusPlanFailed e
                     (Errorf ''unit %q plan: %w'' [ArgS n, ArgE e]) s2
                 | Inr _ \<Rightarrow>
                     (case ut_Start (gn_unit node) of
                        Some prog \<Rightarrow> start_background cf n node env (prog base) s2
                      | None \<Rightarrow> run_foreground cf n node env (ut_Run (gn_unit node) base) s2))))"
    by (simp only: run_unit_def split_beta Let_def c1_def node_def base_def v_def s1_def p_def s2_def env_def)
  have s1: "es_log s1 = es_log st @ [EvValidate n]" "es_active s1 = es_active st"
    by (simp_all add: s1_def c1_def)
  have s2: "es_log s2 = es_log st @ [EvValidate n, EvPlan n]" "es_active s2 = es_active st"
    "es_status s2 = es_status st" "es_results s2 = es_results st"
    by (simp_all add: s2_def s1_def c1_def)
  have fatal: "es_fatal s2 = es_fatal st" if "bf_err (fst c1) = None"
    using check_None_fatal [of cf st] that by (simp add: s2_def s1_def c1_def)
  have bg: "is_background cf n \<longleftrightarrow> ut_Start (gn_unit node) \<noteq> None"
    by (simp add: is_background_def node_def)
  show ?thesis
  proof (cases "bf_err (fst c1)")
    case (Some e)
    have "aborted cf n st (abort cf StatusWorkerFailed e (snd c1))"
      by (rule aborted_abort [where partial = "[]"]) (simp_all add: c1_def)
    with Some unf show ?thesis by simp
  next
    case None
    show ?thesis
    proof (cases "fst v")
      case (Some e)
      have "aborted cf n st (validate_failed cf n (gn_def node) StatusConfigFailed e
          (Errorf ''unit %q validate: %w'' [ArgS n, ArgE e]) s1)"
        by (rule validate_failed_aborted [where partial = "[EvValidate n]"]) (simp_all add: s1 call_events_def)
      with Some None unf show ?thesis by simp
    next
      case vNone: None
      show ?thesis
      proof (cases "fst p")
        case (Inl e)
        have "aborted cf n st (validate_failed cf n (gn_def node) StatusPlanFailed e
            (Errorf ''unit %q plan: %w'' [ArgS n, ArgE e]) s2)"
          by (rule validate_failed_aborted [where partial = "[EvValidate n, EvPlan n]"]) (simp_all add: s2 call_events_def)
        with Inl vNone None unf show ?thesis by simp
      next
        case (Inr pl)
        show ?thesis
        proof (cases "ut_Start (gn_unit node)")
          case (Some prog)
          have "run_unit cf n st = start_background cf n node env (prog base) s2"
            using unf None vNone Inr Some by simp
          with start_background_cases [OF s2 fatal [OF None] _ refl] Some bg show ?thesis by (simp add: s2)
        next
          case sNone: None
          have "run_unit cf n st = run_foreground cf n node env (ut_Run (gn_unit node) base) s2"
            using unf None vNone Inr sNone by simp
          with run_foreground_cases [OF s2 fatal [OF None] _ refl] sNone bg show ?thesis by (simp add: s2)
        qed
      qed
    qed
  qed
qed

section \<open>The stop phase and the results\<close>

lemma errors_Join_Some [simp]: "errors_Join [a, Some e] \<noteq> None" "errors_Join [Some e, a] \<noteq> None"
  by simp_all

lemma errors_Join_Some_ex [simp]: "\<exists>y. errors_Join [a, Some e] = Some y"
  using errors_Join_Some(1) [of a e] by (simp only: not_None_eq)

lemma drain_None:
  "fst (drain cf s) = None \<Longrightarrow> fst s = None \<and> es_fatal (snd (drain cf s)) = es_fatal (snd s)"
  using check_None_fatal [of cf "snd s"]
  by (auto simp: drain_def split_beta split: if_splits)

lemma wait_monitor_None:
  "fst (wait_monitor cf bg s) = None \<Longrightarrow> fst s = None \<and> es_fatal (snd (wait_monitor cf bg s)) = es_fatal (snd s)"
  by (auto simp: wait_monitor_def split_beta split: option.splits)

lemma stop_one_None:
  assumes "fst (stop_one cf bg s) = None" and "es_fatal (snd s) = fmempty"
  shows "fst s = None" and "es_fatal (snd (stop_one cf bg s)) = fmempty"
    and "\<exists>r. es_results (snd (stop_one cf bg s)) = fmupd (ab_name bg) r (es_results (snd s)) \<and>
      ur_Status r = StatusCompleted \<and> ur_Error r = None"
proof -
  obtain r where so: "stop_one cf bg s =
      (stop_err bg (fst (stop_wait cf bg s)) (fst (stop_call cf bg s)),
       set_result (ab_name bg) r (snd (now cf (snd (stop_wait cf bg s)))))"
    and v: "ur_Status r = fst (stop_verdict cf bg s)" "ur_Error r = snd (stop_verdict cf bg s)"
    using stop_one_result [of cf bg s] by metis
  have call: "fst (stop_call cf bg s) = None" and wait: "fst (stop_wait cf bg s) = None"
    using assms(1) so by (auto simp: stop_err_def split: option.splits)
  from drain_None [OF wait [unfolded stop_wait_def]]
  have w: "fst (wait_monitor cf bg (fst (drain cf s), snd (snd (stop_call cf bg s)))) = None"
    and f1: "es_fatal (snd (stop_wait cf bg s)) =
      es_fatal (snd (wait_monitor cf bg (fst (drain cf s), snd (snd (stop_call cf bg s)))))"
    by (auto simp: stop_wait_def)
  from wait_monitor_None [OF w] have d: "fst (drain cf s) = None"
    and f2: "es_fatal (snd (wait_monitor cf bg (fst (drain cf s), snd (snd (stop_call cf bg s))))) = es_fatal (snd (drain cf s))"
    by (auto simp: stop_call_def)
  from drain_None [OF d] assms(2) f1 f2 have fatal: "es_fatal (snd (stop_wait cf bg s)) = fmempty"
    and "fst s = None" by auto
  then show "fst s = None" and "es_fatal (snd (stop_one cf bg s)) = fmempty" by (simp_all add: so)
  have "stop_verdict cf bg s = (StatusCompleted, None)"
    by (simp add: stop_verdict_def stop_status_def call fatal)
  with v show "\<exists>r. es_results (snd (stop_one cf bg s)) = fmupd (ab_name bg) r (es_results (snd s)) \<and>
      ur_Status r = StatusCompleted \<and> ur_Error r = None"
    by (auto simp: so stop_wait_def stop_call_def)
qed

lemma stop_one_error_stays: "fst s \<noteq> None \<Longrightarrow> fst (stop_one cf bg s) \<noteq> None"
proof -
  assume s: "fst s \<noteq> None"
  have d: "fst t \<noteq> None \<Longrightarrow> fst (drain cf t) \<noteq> None" for t
    by (auto simp: drain_def split_beta)
  have w: "fst t \<noteq> None \<Longrightarrow> fst (wait_monitor cf bg t) \<noteq> None" for t
    by (auto simp: wait_monitor_def split_beta split: option.splits)
  from s have "fst (stop_wait cf bg s) \<noteq> None" unfolding stop_wait_def by (intro d w) (simp add: d)
  moreover obtain r where "stop_one cf bg s =
      (stop_err bg (fst (stop_wait cf bg s)) (fst (stop_call cf bg s)),
       set_result (ab_name bg) r (snd (now cf (snd (stop_wait cf bg s)))))"
    using stop_one_result [of cf bg s] by metis
  ultimately show ?thesis by (auto simp: stop_err_def split: option.splits)
qed

definition completed :: "UnitResult gomap \<Rightarrow> string \<Rightarrow> bool" where
  "completed results n \<longleftrightarrow> (\<exists>r. fmlookup results n = Some r \<and> ur_Status r = StatusCompleted \<and> ur_Error r = None)"

lemma completed_upd:
  "ur_Status r = StatusCompleted \<Longrightarrow> ur_Error r = None \<Longrightarrow>
   completed (fmupd m r results) n \<longleftrightarrow> m = n \<or> completed results n"
  by (auto simp: completed_def)

lemma stop_all_None:
  assumes "fst (foldl (\<lambda>s bg. stop_one cf bg s) s bgs) = None" and "es_fatal (snd s) = fmempty"
  shows "fst s = None \<and>
    (\<forall>n. n \<in> ab_name ` set bgs \<or> completed (es_results (snd s)) n \<longrightarrow>
       completed (es_results (snd (foldl (\<lambda>s bg. stop_one cf bg s) s bgs))) n)"
  using assms
proof (induction bgs arbitrary: s)
  case (Cons bg bgs)
  have one: "fst (stop_one cf bg s) = None"
  proof (rule ccontr)
    assume e: "fst (stop_one cf bg s) \<noteq> None"
    have "fst t \<noteq> None \<Longrightarrow> fst (foldl (\<lambda>s bg. stop_one cf bg s) t bgs) \<noteq> None" for t
      by (induction bgs arbitrary: t) (simp_all add: stop_one_error_stays del: not_None_eq)
    with e Cons.prems(1) show False by simp
  qed
  note o = stop_one_None [OF one Cons.prems(2)]
  from o(3) obtain r where "es_results (snd (stop_one cf bg s)) = fmupd (ab_name bg) r (es_results (snd s))"
    "ur_Status r = StatusCompleted" "ur_Error r = None" by blast
  then have "completed (es_results (snd (stop_one cf bg s))) n \<longleftrightarrow> ab_name bg = n \<or> completed (es_results (snd s)) n" for n
    by (simp add: completed_upd)
  with Cons.IH [OF _ o(2)] Cons.prems(1) o(1) show ?case by auto
qed simp

lemma stopBackgrounds_None:
  assumes "fst (stopBackgrounds cf st) = None" and "es_fatal st = fmempty"
    and "n \<in> ab_name ` set (es_active st) \<or> completed (es_results st) n"
  shows "completed (es_results (snd (stopBackgrounds cf st))) n"
proof -
  let ?s = "drain cf (None, st)" and ?f = "\<lambda>s bg. stop_one cf bg s"
  have f: "fst (foldl ?f ?s (rev (es_active st))) = None"
    using drain_None [of cf "foldl ?f ?s (rev (es_active st))"] assms(1) by (simp add: stopBackgrounds_def)
  have s: "fst ?s = None"
  proof (rule ccontr)
    assume e: "fst ?s \<noteq> None"
    have "fst t \<noteq> None \<Longrightarrow> fst (foldl ?f t bgs) \<noteq> None" for t bgs
      by (induction bgs arbitrary: t) (simp_all add: stop_one_error_stays del: not_None_eq)
    with e f show False by simp
  qed
  from drain_None [OF s] assms(2) have "es_fatal (snd ?s) = fmempty" by simp
  from stop_all_None [OF f this] assms(3) show ?thesis by (auto simp: stopBackgrounds_def)
qed

lemma completed_cleanup: "completed (es_results st) n \<Longrightarrow> completed (es_results (cleanup cf st)) n"
  unfolding completed_def cleanup_def os_cleanup_def
  by (auto simp: split_beta dest: close_targets_keep
      [of _ _ _ "cleanupTargets (cf_ops cf) (gr_order (cf_graph cf)) (es_outputs st)" "es_world st"])

section \<open>Whole runs\<close>

definition foreground_events :: "('v, 'w) runCfg \<Rightarrow> string list \<Rightarrow> event list" where
  "foreground_events cf ns = concat (map (unit_events cf) ns)"

definition backgrounds :: "('v, 'w) runCfg \<Rightarrow> string list \<Rightarrow> string list" where
  "backgrounds cf ns = filter (is_background cf) ns"

text \<open>
  \<open>run_shape\<close>: the units \<open>ran_units\<close> have made all their calls, the next unit a part of them, then the
  background units among \<open>ran_units\<close> are stopped in reverse and the outputs are closed.
\<close>

definition run_shape :: "('v, 'w) runCfg \<Rightarrow> string list \<Rightarrow> string list \<Rightarrow> event list \<Rightarrow> ('v, 'w) es \<Rightarrow> bool" where
  "run_shape cf ran_units later partial st \<longleftrightarrow>
     (partial = [] \<or> (\<exists>n rest. later = n # rest \<and> prefix partial (call_events cf n))) \<and>
     ended cf (foreground_events cf ran_units @ partial) (backgrounds cf ran_units) st"

definition loop_inv :: "('v, 'w) runCfg \<Rightarrow> string list \<Rightarrow> ('v, 'w) es \<Rightarrow> bool" where
  "loop_inv cf ran_units st \<longleftrightarrow>
     es_log st = foreground_events cf ran_units \<and> map ab_name (es_active st) = backgrounds cf ran_units \<and>
     es_status st = StatusCompleted \<and> es_fatal st = fmempty \<and>
     (\<forall>n\<in>set ran_units. is_background cf n \<or> completed (es_results st) n)"

lemma loop_inv_advanced:
  assumes "loop_inv cf ran_units st" and "advanced cf n st st'"
  shows "loop_inv cf (ran_units @ [n]) st'"
  using assms
  by (auto simp: loop_inv_def advanced_def foreground_events_def backgrounds_def completed_upd split: if_splits)

lemma finish_run_ok:
  assumes "loop_inv cf ran_units st"
  defines "r \<equiv> finish_run cf st"
  shows "run_shape cf ran_units [] [] (snd r)"
    and "fst r = None \<longleftrightarrow> es_status (snd r) = StatusCompleted"
    and "fst r = None \<Longrightarrow> n \<in> set ran_units \<Longrightarrow> completed (es_results (snd r)) n"
proof -
  define c where "c = checkBackgroundErrors cf st"
  have inv: "es_log (snd c) = foreground_events cf ran_units" "map ab_name (es_active (snd c)) = backgrounds cf ran_units"
    "es_status (snd c) = StatusCompleted"
    using assms(1) by (simp_all add: c_def loop_inv_def)
  have stops: "es_log (snd (stopBackgrounds cf (snd c))) = foreground_events cf ran_units @ map EvStop (rev (backgrounds cf ran_units))"
    by (simp add: stopBackgrounds_frame inv(1) flip: inv(2)) (simp add: rev_map)
  have unf: "r = (case bf_err (fst c) of
      Some e \<Rightarrow> abort cf StatusWorkerFailed e (snd c)
    | None \<Rightarrow> (case fst (stopBackgrounds cf (snd c)) of
        Some e \<Rightarrow> (Some e, cleanup cf ((snd (stopBackgrounds cf (snd c)))\<lparr>es_status := StatusWorkerFailed\<rparr>))
      | None \<Rightarrow> (None, cleanup cf (snd (stopBackgrounds cf (snd c))))))"
    by (simp add: r_def finish_run_def c_def split_beta split: option.splits)
  have abort: "ended cf (foreground_events cf ran_units) (backgrounds cf ran_units) (snd (abort cf StatusWorkerFailed e (snd c)))" for e
    using abort_ended [of cf "snd c" StatusWorkerFailed e] by (simp add: inv)
  have ended: "ended cf (foreground_events cf ran_units) (backgrounds cf ran_units) (snd r)"
  proof (cases "bf_err (fst c)")
    case (Some e)
    then show ?thesis using abort by (simp add: unf)
  next
    case None
    then show ?thesis by (auto simp: unf stops intro!: ended_cleanup split: option.splits)
  qed
  then show "run_shape cf ran_units [] [] (snd r)" by (simp add: run_shape_def)
  show "fst r = None \<longleftrightarrow> es_status (snd r) = StatusCompleted"
    using abort_fails(1) [of cf StatusWorkerFailed _ "snd c"] abort_fails(2) [of StatusWorkerFailed cf _ "snd c"]
    by (auto simp: unf cleanup_frame stopBackgrounds_frame inv(3) split: option.splits)
  assume ok: "fst r = None" and n: "n \<in> set ran_units"
  have b: "bf_err (fst c) = None"
  proof (cases "bf_err (fst c)")
    case (Some e)
    with ok abort_fails(1) [of cf StatusWorkerFailed e "snd c"] show ?thesis by (simp add: unf)
  qed simp
  with ok have s: "fst (stopBackgrounds cf (snd c)) = None" by (simp add: unf split: option.splits)
  have fatal: "es_fatal (snd c) = fmempty"
    using check_None_fatal [of cf st] b assms(1) by (simp add: c_def loop_inv_def)
  have "n \<in> ab_name ` set (es_active (snd c)) \<or> completed (es_results (snd c)) n"
  proof (cases "is_background cf n")
    case True
    with n have "n \<in> set (backgrounds cf ran_units)" by (simp add: backgrounds_def)
    then show ?thesis by (metis inv(2) list.set_map)
  next
    case False
    with n assms(1) show ?thesis by (auto simp: c_def loop_inv_def)
  qed
  from stopBackgrounds_None [OF s fatal this] b s show "completed (es_results (snd r)) n"
    by (simp add: unf completed_cleanup)
qed

lemma run_units_ok:
  assumes "loop_inv cf ran_units st" and r_def: "r = run_units cf names st"
  shows "\<exists>more later partial. names = more @ later \<and> run_shape cf (ran_units @ more) later partial (snd r) \<and>
      (fst r = None \<longrightarrow> later = [])"
    and "fst r = None \<longleftrightarrow> es_status (snd r) = StatusCompleted"
    and "fst r = None \<Longrightarrow> n \<in> set (ran_units @ names) \<Longrightarrow> completed (es_results (snd r)) n"
proof -
  have "(\<exists>more later partial. names = more @ later \<and> run_shape cf (ran_units @ more) later partial (snd (run_units cf names st)) \<and>
      (fst (run_units cf names st) = None \<longrightarrow> later = [])) \<and>
      (fst (run_units cf names st) = None \<longleftrightarrow> es_status (snd (run_units cf names st)) = StatusCompleted) \<and>
      (fst (run_units cf names st) = None \<longrightarrow>
        (\<forall>n\<in>set (ran_units @ names). completed (es_results (snd (run_units cf names st))) n))"
    using assms(1)
  proof (induction names arbitrary: ran_units st)
    case Nil
    from finish_run_ok [OF Nil] show ?case by auto
  next
    case (Cons m names)
    consider (stop) "aborted cf m st (run_unit cf m st)"
      | (go) "fst (run_unit cf m st) = None" "advanced cf m st (snd (run_unit cf m st))"
      using run_unit_cases [of cf m st] by (elim disjE conjE)
    then show ?case
    proof cases
      case stop
      then obtain e st' where u: "run_unit cf m st = (Some e, st')" by (cases "run_unit cf m st") (auto simp: aborted_def)
      from stop obtain partial where p: "prefix partial (call_events cf m)"
        "ended cf (es_log st @ partial) (map ab_name (es_active st)) st'" "es_status st' \<noteq> StatusCompleted"
        by (auto simp: aborted_def u)
      have "run_shape cf (ran_units @ []) (m # names) partial st'"
        using p(1,2) Cons.prems by (simp add: run_shape_def loop_inv_def)
      moreover have r: "run_units cf (m # names) st = (Some e, st')" by (simp add: u)
      ultimately show ?thesis using p(3) unfolding r by force
    next
      case go
      then obtain st' where u: "run_unit cf m st = (None, st')" by (cases "run_unit cf m st") auto
      with go have "loop_inv cf (ran_units @ [m]) st'" using loop_inv_advanced [OF Cons.prems] by simp
      note IH = Cons.IH [OF this]
      from IH [THEN conjunct1] obtain more later partial where ih:
        "names = more @ later" "run_shape cf ((ran_units @ [m]) @ more) later partial (snd (run_units cf names st'))"
        "fst (run_units cf names st') = None \<longrightarrow> later = []"
        by (elim exE conjE)
      have r: "run_units cf (m # names) st = run_units cf names st'" by (simp add: u)
      show ?thesis unfolding r
      proof (intro conjI)
        show "\<exists>more later partial. m # names = more @ later \<and>
            run_shape cf (ran_units @ more) later partial (snd (run_units cf names st')) \<and>
            (fst (run_units cf names st') = None \<longrightarrow> later = [])"
          by (rule exI [of _ "m # more"]) (use ih(1-3) in auto)
      qed (use IH [THEN conjunct2] in simp_all)
    qed
  qed
  then show "\<exists>more later partial. names = more @ later \<and> run_shape cf (ran_units @ more) later partial (snd r) \<and>
      (fst r = None \<longrightarrow> later = [])"
    and "fst r = None \<longleftrightarrow> es_status (snd r) = StatusCompleted"
    and "fst r = None \<Longrightarrow> n \<in> set (ran_units @ names) \<Longrightarrow> completed (es_results (snd r)) n"
    by (auto simp: r_def)
qed

lemma loop_inv_new: "loop_inv cf [] (new_es w)"
  by (simp add: loop_inv_def new_es_def foreground_events_def backgrounds_def)

definition mk_cfg :: "'w Host \<Rightarrow> ('v, 'w) AnyOps \<Rightarrow> Scenario \<Rightarrow> ('v, 'w) Unit graph \<Rightarrow> ('v, 'w) runCfg" where
  "mk_cfg host ops scenario g = \<lparr>cf_host = host, cf_ops = ops, cf_graph = g, cf_scenario = scenario\<rparr>"

lemma Engine_Run_graph:
  "buildGraph ut_Definition reg scenario = Inr g \<Longrightarrow>
   Engine_Run reg host ops scenario w = run_units (mk_cfg host ops scenario g) (gr_order g) (new_es w)"
  by (simp add: Engine_Run_def mk_cfg_def)

end
