(* ===== verification/Engine_Plan.thy ===== *)
theory Engine_Plan
  imports Engine_Facts
begin

text \<open>
  \<open>Engine.Validate\<close>, \<open>Engine.Explain\<close> and \<open>Engine.Plan\<close> of \<open>benchkit/kernel/kernel.go\<close>: the passes
  that check a scenario without running it.
\<close>

record ExplainUnit =
  eu_Kind :: string
  eu_Inputs :: "ExplainPort list"
  eu_Outputs :: "ExplainPort list"
  eu_After :: "string list"

record Explanation =
  ex_RunID :: string
  ex_Order :: "string list"
  ex_Units :: "ExplainUnit gomap"
  ex_Wiring :: "ExplainBinding list"

record UnitPlanResult =
  up_Kind :: string
  up_Status :: Status
  up_Error :: "goerr option"
  up_Plan :: "Plan option"

record PlanResult =
  pr_RunID :: string
  pr_Status :: Status
  pr_Order :: "string list"
  pr_Units :: "UnitPlanResult gomap"
  pr_Wiring :: "ExplainBinding list"

definition node_of :: "('v, 'w) Unit graph \<Rightarrow> string \<Rightarrow> ('v, 'w) Unit graphNode" where
  "node_of g name = the (fmlookup (gr_nodes g) name)"

definition unit_base :: "Scenario \<Rightarrow> ('v, 'w) Unit graph \<Rightarrow> string \<Rightarrow> baseEnv" where
  "unit_base scenario g name = newBaseEnv scenario name (un_Spec (gn_dsl (node_of g name)))"

definition call_validate :: "Scenario \<Rightarrow> ('v, 'w) Unit graph \<Rightarrow> string \<Rightarrow> 'w \<Rightarrow> goerr option \<times> 'w" where
  "call_validate scenario g name w = ut_Validate (gn_unit (node_of g name)) (unit_base scenario g name) w"

section \<open>Validate\<close>

fun validate_units :: "Scenario \<Rightarrow> ('v, 'w) Unit graph \<Rightarrow> string list \<Rightarrow> 'w \<Rightarrow> goerr option \<times> 'w" where
  "validate_units scenario g [] w = (None, w)"
| "validate_units scenario g (name # names) w =
     (case call_validate scenario g name w of
        (Some err, w) \<Rightarrow> (Some (Errorf ''unit %q validate: %w'' [ArgS name, ArgE err]), w)
      | (None, w) \<Rightarrow> validate_units scenario g names w)"

definition Engine_Validate :: "('v, 'w) engine \<Rightarrow> Scenario \<Rightarrow> 'w \<Rightarrow> goerr option \<times> 'w" where
  "Engine_Validate reg scenario w =
     (case buildGraph ut_Definition reg scenario of
        Inl err \<Rightarrow> (Some err, w)
      | Inr g \<Rightarrow> validate_units scenario g (gr_order g) w)"

section \<open>Explain\<close>

definition explain_unit :: "('v, 'w) Unit graphNode \<Rightarrow> ExplainUnit" where
  "explain_unit node =
     \<lparr>eu_Kind = ud_Kind (gn_def node), eu_Inputs = explainPorts (ud_Inputs (gn_def node)),
      eu_Outputs = explainPorts (ud_Outputs (gn_def node)), eu_After = gn_after node\<rparr>"

fun explain_units :: "Scenario \<Rightarrow> ('v, 'w) Unit graph \<Rightarrow> string list \<Rightarrow> Explanation \<Rightarrow> 'w \<Rightarrow> Explanation result \<times> 'w" where
  "explain_units scenario g [] ex w = (Inr (ex\<lparr>ex_Wiring := graphWiring g\<rparr>), w)"
| "explain_units scenario g (name # names) ex w =
     (case call_validate scenario g name w of
        (Some err, w) \<Rightarrow> (Inl (Errorf ''unit %q validate: %w'' [ArgS name, ArgE err]), w)
      | (None, w) \<Rightarrow>
          explain_units scenario g names
            (ex\<lparr>ex_Units := fmupd name (explain_unit (node_of g name)) (ex_Units ex)\<rparr>) w)"

definition Engine_Explain :: "('v, 'w) engine \<Rightarrow> Scenario \<Rightarrow> 'w \<Rightarrow> Explanation result \<times> 'w" where
  "Engine_Explain reg scenario w =
     (case buildGraph ut_Definition reg scenario of
        Inl err \<Rightarrow> (Inl err, w)
      | Inr g \<Rightarrow>
          explain_units scenario g (gr_order g)
            \<lparr>ex_RunID = rc_ID (sc_Run scenario), ex_Order = gr_order g, ex_Units = fmempty, ex_Wiring = []\<rparr> w)"

section \<open>Plan\<close>

definition plan_entry :: "('v, 'w) Unit graphNode \<Rightarrow> Status \<Rightarrow> goerr option \<Rightarrow> Plan option \<Rightarrow> UnitPlanResult" where
  "plan_entry node status err plan =
     \<lparr>up_Kind = ud_Kind (gn_def node), up_Status = status, up_Error = err, up_Plan = plan\<rparr>"

definition plan_fail :: "string \<Rightarrow> ('v, 'w) Unit graphNode \<Rightarrow> Status \<Rightarrow> goerr \<Rightarrow> PlanResult \<Rightarrow> PlanResult" where
  "plan_fail name node status err r =
     r\<lparr>pr_Status := status, pr_Units := fmupd name (plan_entry node status (Some err) None) (pr_Units r)\<rparr>"

fun plan_units :: "Scenario \<Rightarrow> ('v, 'w) Unit graph \<Rightarrow> string list \<Rightarrow> PlanResult \<Rightarrow> 'w \<Rightarrow>
    goerr option \<times> PlanResult \<times> 'w" where
  "plan_units scenario g [] r w = (None, r, w)"
| "plan_units scenario g (name # names) r w =
     (let node = node_of g name
      in case call_validate scenario g name w of
           (Some err, w) \<Rightarrow>
             (Some (Errorf ''unit %q validate: %w'' [ArgS name, ArgE err]),
              plan_fail name node StatusConfigFailed err r, w)
         | (None, w) \<Rightarrow>
             (case ut_Plan (gn_unit node) (unit_base scenario g name) w of
                (Inl err, w) \<Rightarrow>
                  (Some (Errorf ''unit %q plan: %w'' [ArgS name, ArgE err]),
                   plan_fail name node StatusPlanFailed err r, w)
              | (Inr plan, w) \<Rightarrow>
                  plan_units scenario g names
                    (r\<lparr>pr_Units := fmupd name (plan_entry node StatusCompleted None (Some plan)) (pr_Units r)\<rparr>) w))"

definition new_plan_result :: "Scenario \<Rightarrow> PlanResult" where
  "new_plan_result scenario =
     \<lparr>pr_RunID = rc_ID (sc_Run scenario), pr_Status = StatusCompleted, pr_Order = [],
      pr_Units = fmempty, pr_Wiring = []\<rparr>"

definition Engine_Plan :: "('v, 'w) engine \<Rightarrow> Scenario \<Rightarrow> 'w \<Rightarrow> goerr option \<times> PlanResult \<times> 'w" where
  "Engine_Plan reg scenario w =
     (case buildGraph ut_Definition reg scenario of
        Inl err \<Rightarrow> (Some err, (new_plan_result scenario)\<lparr>pr_Status := StatusConfigFailed\<rparr>, w)
      | Inr g \<Rightarrow>
          plan_units scenario g (gr_order g)
            ((new_plan_result scenario)\<lparr>pr_Order := gr_order g, pr_Wiring := graphWiring g\<rparr>) w)"

section \<open>Agreement of the passes\<close>

lemma explain_units_validate:
  "snd (explain_units scenario g names ex w) = snd (validate_units scenario g names w)"
  "(case fst (explain_units scenario g names ex w) of Inl e \<Rightarrow> Some e | Inr _ \<Rightarrow> None) =
     fst (validate_units scenario g names w)"
  by (induction names arbitrary: ex w) (auto split: prod.splits option.splits)

lemma explain_units_Inr:
  assumes "fst (explain_units scenario g names ex w) = Inr ex'"
  shows "ex_Order ex' = ex_Order ex" and "ex_RunID ex' = ex_RunID ex" and "ex_Wiring ex' = graphWiring g"
    and "fmlookup (ex_Units ex') n =
      (if n \<in> set names then Some (explain_unit (node_of g n)) else fmlookup (ex_Units ex) n)"
proof -
  have "ex_Order ex' = ex_Order ex \<and> ex_RunID ex' = ex_RunID ex \<and> ex_Wiring ex' = graphWiring g \<and>
      (\<forall>n. fmlookup (ex_Units ex') n =
        (if n \<in> set names then Some (explain_unit (node_of g n)) else fmlookup (ex_Units ex) n))"
    using assms by (induction names arbitrary: ex w) (auto split: prod.splits option.splits)
  then show "ex_Order ex' = ex_Order ex" and "ex_RunID ex' = ex_RunID ex" and "ex_Wiring ex' = graphWiring g"
    and "fmlookup (ex_Units ex') n =
      (if n \<in> set names then Some (explain_unit (node_of g n)) else fmlookup (ex_Units ex) n)"
    by auto
qed

definition planned :: "PlanResult \<Rightarrow> string \<Rightarrow> bool" where
  "planned r n \<longleftrightarrow> (\<exists>u. fmlookup (pr_Units r) n = Some u \<and> up_Status u = StatusCompleted \<and>
      up_Error u = None \<and> up_Plan u \<noteq> None)"

definition unplanned :: "PlanResult \<Rightarrow> string \<Rightarrow> bool" where
  "unplanned r n \<longleftrightarrow> (\<exists>u. fmlookup (pr_Units r) n = Some u \<and> up_Status u = pr_Status r \<and> up_Error u \<noteq> None)"

text \<open>
  Planning stops at the first unit that fails: the units before it are planned, the failing one
  carries the status of the whole result and its error, and the rest have no entry.
\<close>

lemma plan_units_outcome:
  assumes "plan_units scenario g names r w = (e, r', w')" and "distinct names"
    and "pr_Status r = StatusCompleted" and "set names \<inter> fset (fmdom (pr_Units r)) = {}"
  shows "pr_Order r' = pr_Order r \<and>
    (case e of
       None \<Rightarrow> pr_Status r' = StatusCompleted \<and> (\<forall>n\<in>set names. planned r' n)
     | Some _ \<Rightarrow> pr_Status r' \<in> {StatusConfigFailed, StatusPlanFailed} \<and>
         (\<exists>xs n ys. names = xs @ n # ys \<and> (\<forall>m\<in>set xs. planned r' m) \<and> unplanned r' n \<and>
            (\<forall>m\<in>set ys. fmlookup (pr_Units r') m = None))) \<and>
    (\<forall>n. n \<notin> set names \<longrightarrow> fmlookup (pr_Units r') n = fmlookup (pr_Units r) n)"
  using assms
proof (induction names arbitrary: r w)
  case (Cons n ns)
  let ?node = "node_of g n"
  obtain v w1 where v: "call_validate scenario g n w = (v, w1)" by force
  have none: "m \<in> set ns \<Longrightarrow> fmlookup (pr_Units r) m = None" for m
    using Cons.prems(4) by (auto simp: fmlookup_dom_iff)
  have fail: ?case if s: "status = StatusConfigFailed \<or> status = StatusPlanFailed"
    and r': "r' = plan_fail n ?node status err r" and e: "e = Some e0" for status err e0
  proof -
    have look: "fmlookup (pr_Units r') m = fmlookup (pr_Units r) m" if "m \<noteq> n" for m
      using that by (simp add: r' plan_fail_def)
    have "unplanned r' n" by (simp add: r' plan_fail_def unplanned_def plan_entry_def)
    moreover have "\<forall>m\<in>set ns. fmlookup (pr_Units r') m = None"
      using look none Cons.prems(2) by (metis distinct.simps(2))
    ultimately have "\<exists>xs k ys. n # ns = xs @ k # ys \<and> (\<forall>m\<in>set xs. planned r' m) \<and> unplanned r' k \<and>
        (\<forall>m\<in>set ys. fmlookup (pr_Units r') m = None)"
      by (intro exI [of _ "[]"] exI [of _ n] exI [of _ ns]) simp
    then show ?thesis using s e look by (auto simp: r' plan_fail_def)
  qed
  show ?case
  proof (cases v)
    case (Some err)
    then show ?thesis using Cons.prems(1) v by (intro fail [of StatusConfigFailed err]) (auto simp: Let_def)
  next
    case None
    obtain p w2 where p: "ut_Plan (gn_unit ?node) (unit_base scenario g n) w1 = (p, w2)" by force
    show ?thesis
    proof (cases p)
      case (Inl err)
      then show ?thesis using Cons.prems(1) v None p
        by (intro fail [of StatusPlanFailed err]) (auto simp: Let_def)
    next
      case (Inr plan)
      let ?r = "r\<lparr>pr_Units := fmupd n (plan_entry ?node StatusCompleted None (Some plan)) (pr_Units r)\<rparr>"
      have step: "plan_units scenario g ns ?r w2 = (e, r', w')"
        using Cons.prems(1) v None p Inr by (simp add: Let_def)
      have "set ns \<inter> fset (fmdom (pr_Units ?r)) = {}" using Cons.prems(2,4) by auto
      with Cons.IH [OF step] Cons.prems(2,3) have ih: "pr_Order r' = pr_Order r \<and>
        (case e of
           None \<Rightarrow> pr_Status r' = StatusCompleted \<and> (\<forall>n\<in>set ns. planned r' n)
         | Some _ \<Rightarrow> pr_Status r' \<in> {StatusConfigFailed, StatusPlanFailed} \<and>
             (\<exists>xs n ys. ns = xs @ n # ys \<and> (\<forall>m\<in>set xs. planned r' m) \<and> unplanned r' n \<and>
                (\<forall>m\<in>set ys. fmlookup (pr_Units r') m = None)))"
        and frame: "\<forall>m. m \<notin> set ns \<longrightarrow> fmlookup (pr_Units r') m = fmlookup (pr_Units ?r) m"
        by simp_all
      have n: "planned r' n"
        using frame Cons.prems(2) by (simp add: planned_def plan_entry_def)
      have keep: "\<forall>m. m \<notin> set (n # ns) \<longrightarrow> fmlookup (pr_Units r') m = fmlookup (pr_Units r) m"
        using frame by simp
      show ?thesis
      proof (cases e)
        case None
        with ih n keep show ?thesis by simp
      next
        case (Some e0)
        with ih obtain xs k ys where "ns = xs @ k # ys" "\<forall>m\<in>set xs. planned r' m" "unplanned r' k"
          "\<forall>m\<in>set ys. fmlookup (pr_Units r') m = None" by auto
        then have "\<exists>xs k ys. n # ns = xs @ k # ys \<and> (\<forall>m\<in>set xs. planned r' m) \<and> unplanned r' k \<and>
            (\<forall>m\<in>set ys. fmlookup (pr_Units r') m = None)"
          using n by (intro exI [of _ "n # xs"] exI [of _ k] exI [of _ ys]) simp
        with ih Some keep show ?thesis by simp
      qed
    qed
  qed
qed auto

section \<open>Checking without running\<close>

text \<open>
  C37: Explain is Validate. \<open>Explain\<close> fails exactly when \<open>Validate\<close> does and with the same error, makes the same
  calls, and otherwise describes every unit of the scenario in the execution order.
\<close>

theorem explain_agrees_with_validate:
  "snd (Engine_Explain reg scenario w) = snd (Engine_Validate reg scenario w) \<and>
   (case fst (Engine_Explain reg scenario w) of
      Inl err \<Rightarrow> fst (Engine_Validate reg scenario w) = Some err
    | Inr ex \<Rightarrow> fst (Engine_Validate reg scenario w) = None \<and>
        set (ex_Order ex) = fset (fmdom (sc_Units scenario)) \<and> fset (fmdom (ex_Units ex)) = fset (fmdom (sc_Units scenario)))"
proof (cases "buildGraph ut_Definition reg scenario")
  case (Inr g)
  let ?ex = "\<lparr>ex_RunID = rc_ID (sc_Run scenario), ex_Order = gr_order g, ex_Units = fmempty, ex_Wiring = []\<rparr>"
  note v = explain_units_validate [of scenario g "gr_order g" ?ex w]
  have units: "set (ex_Order ex) = fset (fmdom (sc_Units scenario)) \<and> fset (fmdom (ex_Units ex)) = fset (fmdom (sc_Units scenario))"
    if "fst (explain_units scenario g (gr_order g) ?ex w) = Inr ex" for ex
    using explain_units_Inr [OF that] buildGraph_order(2) [OF Inr]
    by (auto simp: fmlookup_dom_iff split: if_splits)
  show ?thesis
  proof (cases "fst (explain_units scenario g (gr_order g) ?ex w)")
    case (Inr ex)
    with v units [OF Inr] \<open>buildGraph ut_Definition reg scenario = Inr g\<close> show ?thesis
      by (simp add: Engine_Explain_def Engine_Validate_def)
  next
    case (Inl err)
    with v \<open>buildGraph ut_Definition reg scenario = Inr g\<close> show ?thesis
      by (simp add: Engine_Explain_def Engine_Validate_def)
  qed
qed (simp add: Engine_Explain_def Engine_Validate_def)

text \<open>
  C38: Planning. Without an error every unit of the scenario has a plan and the status is completed. Otherwise the status
  is not completed, and if a unit is at fault, those before it are planned, it carries the status and the error, and those
  after it have no entry.
\<close>

theorem plan_outcome:
  "case buildGraph ut_Definition reg scenario of
     Inl err \<Rightarrow> fst (Engine_Plan reg scenario w) = Some err \<and>
       pr_Status (fst (snd (Engine_Plan reg scenario w))) = StatusConfigFailed
   | Inr g \<Rightarrow>
       (case Engine_Plan reg scenario w of
          (None, r, _) \<Rightarrow> pr_Status r = StatusCompleted \<and> pr_Order r = gr_order g \<and> (\<forall>n\<in>set (gr_order g). planned r n)
        | (Some _, r, _) \<Rightarrow> pr_Status r \<in> {StatusConfigFailed, StatusPlanFailed} \<and>
            (\<exists>xs n ys. gr_order g = xs @ n # ys \<and> (\<forall>m\<in>set xs. planned r m) \<and> unplanned r n \<and>
               (\<forall>m\<in>set ys. fmlookup (pr_Units r) m = None)))"
proof (cases "buildGraph ut_Definition reg scenario")
  case (Inr g)
  let ?r = "(new_plan_result scenario)\<lparr>pr_Order := gr_order g, pr_Wiring := graphWiring g\<rparr>"
  obtain e r w' where p: "plan_units scenario g (gr_order g) ?r w = (e, r, w')" by (metis prod_cases3)
  have init: "pr_Status ?r = StatusCompleted" "set (gr_order g) \<inter> fset (fmdom (pr_Units ?r)) = {}" "pr_Order ?r = gr_order g"
    by (simp_all add: new_plan_result_def)
  have plan: "Engine_Plan reg scenario w = (e, r, w')" using p Inr by (simp add: Engine_Plan_def)
  note out = plan_units_outcome [OF p buildGraph_order(1) [OF Inr] init(1,2)]
  show ?thesis
  proof (cases e)
    case None
    with out plan Inr init(3) show ?thesis by simp
  next
    case (Some err)
    with out plan Inr show ?thesis by simp
  qed
qed (simp add: Engine_Plan_def new_plan_result_def)

end
