(* ===== verification/Run_Log.thy ===== *)
theory Run_Log
  imports Engine_Plan
begin

text \<open>
  What a whole run does, read off the log of its calls: the order of the units, the dependencies and
  the teardown. These are the facts the properties of \<open>Engine.Run\<close> rest on.
\<close>

fun ev_unit :: "event \<Rightarrow> string" where
  "ev_unit (EvValidate n) = n"
| "ev_unit (EvPlan n) = n"
| "ev_unit (EvStart n) = n"
| "ev_unit (EvStarted n) = n"
| "ev_unit (EvRun n) = n"
| "ev_unit (EvStop n) = n"
| "ev_unit (EvClose k) = fst k"

fun ev_forward :: "event \<Rightarrow> bool" where
  "ev_forward (EvStop _) = False"
| "ev_forward (EvClose _) = False"
| "ev_forward _ = True"

lemma call_events_sub: "ev \<in> set (call_events cf n) \<Longrightarrow> ev_unit ev = n \<and> ev_forward ev"
  by (auto simp: call_events_def)

lemma unit_events_sub: "ev \<in> set (unit_events cf n) \<Longrightarrow> ev_unit ev = n \<and> ev_forward ev"
  by (auto simp: unit_events_def dest: call_events_sub split: if_splits)

lemma in_foreground_events: "ev \<in> set (foreground_events cf ns) \<longleftrightarrow> (\<exists>n\<in>set ns. ev \<in> set (unit_events cf n))"
  by (simp add: foreground_events_def)

lemma foreground_events_simps [simp]:
  "foreground_events cf [] = []"
  "foreground_events cf (n # ns) = unit_events cf n @ foreground_events cf ns"
  "foreground_events cf (ms @ ns) = foreground_events cf ms @ foreground_events cf ns"
  by (simp_all add: foreground_events_def)

lemma backgrounds_simps [simp]:
  "backgrounds cf (ms @ ns) = backgrounds cf ms @ backgrounds cf ns"
  "set (backgrounds cf ns) = {n \<in> set ns. is_background cf n}"
  "is_background cf n \<Longrightarrow> backgrounds cf (n # ns) = n # backgrounds cf ns"
  by (auto simp: backgrounds_def)

lemma distinct_call_events: "distinct (call_events cf n)"
  by (simp add: call_events_def)

lemma distinct_unit_events: "distinct (unit_events cf n)"
  by (simp add: unit_events_def call_events_def)

lemma distinct_foreground_events: "distinct ns \<Longrightarrow> distinct (foreground_events cf ns)"
proof (induction ns)
  case (Cons n ns)
  have "set (unit_events cf n) \<inter> set (foreground_events cf ns) = {}"
    using Cons.prems by (auto simp: in_foreground_events dest!: unit_events_sub)
  with Cons show ?case by (simp add: distinct_unit_events)
qed simp

section \<open>The log of a run\<close>

text \<open>\<open>run_log\<close> spells out \<open>run_shape\<close> for the units \<open>names\<close> in their order.\<close>

definition run_log :: "('v, 'w) runCfg \<Rightarrow> string list \<Rightarrow> string list \<Rightarrow> event list \<Rightarrow> ('v, 'w) es \<Rightarrow> bool" where
  "run_log cf ran_units later partial st \<longleftrightarrow>
     (partial = [] \<or> later \<noteq> [] \<and> prefix partial (call_events cf (hd later))) \<and>
     es_log st = foreground_events cf ran_units @ partial @ map EvStop (rev (backgrounds cf ran_units)) @
       close_events cf st"

lemma Engine_Run_log:
  assumes "buildGraph ut_Definition reg scenario = Inr g"
    and r_def: "r = Engine_Run reg host ops scenario w"
  shows "\<exists>ran_units later partial. gr_order g = ran_units @ later \<and>
    run_log (mk_cfg host ops scenario g) ran_units later partial (snd r) \<and> (fst r = None \<longrightarrow> later = [])"
proof -
  have shape: "run_shape cf ran_units later partial st \<longleftrightarrow> run_log cf ran_units later partial st"
    for cf :: "('a, 'b) runCfg" and ran_units later partial st
    by (cases later) (simp_all add: run_shape_def run_log_def ended_def)
  show ?thesis
    using run_units_ok(1) [OF loop_inv_new [of "mk_cfg host ops scenario g" w] refl, where names = "gr_order g"]
    by (simp only: r_def Engine_Run_graph [OF assms(1)] append_Nil shape)
qed

lemma close_events_facts:
  "distinct (gr_order (cf_graph cf)) \<Longrightarrow> distinct (close_events cf st)"
  "ev \<in> set (close_events cf st) \<Longrightarrow> \<exists>k. ev = EvClose k"
  "EvClose (u, port) \<in> set (close_events cf st) \<longleftrightarrow> u \<in> set (gr_order (cf_graph cf)) \<and>
     (\<exists>v. os_lookup (u, port) (es_outputs st) = Some v \<and> any_Close (cf_ops cf) v \<noteq> None)"
proof -
  show "distinct (gr_order (cf_graph cf)) \<Longrightarrow> distinct (close_events cf st)"
    using distinct_cleanupTargets [of "gr_order (cf_graph cf)" "cf_ops cf" "es_outputs st"]
    by (simp add: close_events_def distinct_map comp_inj_on inj_on_def flip: map_map)
  show "ev \<in> set (close_events cf st) \<Longrightarrow> \<exists>k. ev = EvClose k"
    by (auto simp: close_events_def)
  have "EvClose (u, port) \<in> set (close_events cf st) \<longleftrightarrow>
      (u, port) \<in> target_key ` set (cleanupTargets (cf_ops cf) (gr_order (cf_graph cf)) (es_outputs st))"
    by (auto simp: close_events_def image_image)
  then show "EvClose (u, port) \<in> set (close_events cf st) \<longleftrightarrow> u \<in> set (gr_order (cf_graph cf)) \<and>
     (\<exists>v. os_lookup (u, port) (es_outputs st) = Some v \<and> any_Close (cf_ops cf) v \<noteq> None)"
    by (simp only: in_cleanupTargets)
qed

lemma run_log_distinct:
  assumes "run_log cf ran_units later partial st" and "gr_order (cf_graph cf) = ran_units @ later"
    and "distinct (gr_order (cf_graph cf))"
  shows "distinct (es_log st)"
proof -
  let ?F = "foreground_events cf ran_units" and ?S = "map EvStop (rev (backgrounds cf ran_units))"
  have F: "distinct ?F" using assms(2,3) by (simp add: distinct_foreground_events)
  have p: "distinct partial \<and> (\<forall>ev\<in>set partial. ev_forward ev \<and> later \<noteq> [] \<and> ev_unit ev = hd later)"
  proof (cases "partial = []")
    case False
    with assms(1) obtain rest where "later \<noteq> []" "call_events cf (hd later) = partial @ rest"
      by (auto simp: run_log_def prefix_def)
    with distinct_call_events [of cf "hd later"] call_events_sub [of _ cf "hd later"] show ?thesis by auto
  qed simp
  have Fp: "set ?F \<inter> set partial = {}"
  proof (rule ccontr)
    assume "set ?F \<inter> set partial \<noteq> {}"
    then obtain ev where ev: "ev \<in> set ?F" "ev \<in> set partial" by auto
    with p have "later \<noteq> []" "ev_unit ev = hd later" by auto
    moreover from ev(1) obtain n where "n \<in> set ran_units" "ev \<in> set (unit_events cf n)"
      by (auto simp: in_foreground_events)
    ultimately have "hd later \<in> set ran_units \<inter> set later" by (auto dest: unit_events_sub)
    with assms(2,3) show False by auto
  qed
  have forward: "ev \<in> set (?F @ partial) \<Longrightarrow> ev_forward ev" for ev
    using p by (auto simp: in_foreground_events dest: unit_events_sub)
  have S: "distinct ?S" using assms(2,3) by (simp add: distinct_map backgrounds_def inj_on_def)
  have apart: "set (?F @ partial) \<inter> (set ?S \<union> set (close_events cf st)) = {}" "set ?S \<inter> set (close_events cf st) = {}"
    using forward by (fastforce dest: close_events_facts(2))+
  from F p Fp S close_events_facts(1) [OF assms(3), of st] apart assms(1) show ?thesis
    by (auto simp: run_log_def)
qed

lemma split_unique: "distinct (xs @ e # ys) \<Longrightarrow> us @ e # vs = xs @ e # ys \<Longrightarrow> us = xs"
  by (auto simp: append_eq_append_conv2 append_eq_Cons_conv Cons_eq_append_conv)

section \<open>Reading the log\<close>

lemma log_forward:
  assumes "run_log cf ran_units later partial st" and "ev_forward ev"
  shows "ev \<in> set (es_log st) \<longleftrightarrow> ev \<in> set (foreground_events cf ran_units) \<or> ev \<in> set partial"
  using assms close_events_facts(2) [of ev cf st] by (auto simp: run_log_def)

lemma log_partial:
  "run_log cf ran_units later partial st \<Longrightarrow> ev \<in> set partial \<Longrightarrow> ev \<in> set (call_events cf (hd later))"
  by (auto simp: run_log_def prefix_def)

lemma log_started:
  assumes "run_log cf ran_units later partial st"
  shows "EvStarted n \<in> set (es_log st) \<longleftrightarrow> n \<in> set ran_units \<and> is_background cf n"
  using log_forward [OF assms, of "EvStarted n"] log_partial [OF assms, of "EvStarted n"]
  by (auto simp: in_foreground_events unit_events_def call_events_def split: if_splits)

lemma log_stopped:
  assumes "run_log cf ran_units later partial st"
  shows "EvStop n \<in> set (es_log st) \<longleftrightarrow> n \<in> set ran_units \<and> is_background cf n"
  using assms close_events_facts(2) [of "EvStop n" cf st] log_partial [OF assms, of "EvStop n"]
    call_events_sub [of "EvStop n" cf "hd later"] unit_events_sub [of "EvStop n" cf]
  by (auto simp: run_log_def in_foreground_events)

lemma log_closed:
  assumes "run_log cf ran_units later partial st"
  shows "EvClose (u, port) \<in> set (es_log st) \<longleftrightarrow> u \<in> set (gr_order (cf_graph cf)) \<and>
     (\<exists>v. os_lookup (u, port) (es_outputs st) = Some v \<and> any_Close (cf_ops cf) v \<noteq> None)"
proof -
  have "EvClose (u, port) \<in> set (es_log st) \<longleftrightarrow> EvClose (u, port) \<in> set (close_events cf st)"
    using assms log_partial [OF assms, of "EvClose (u, port)"]
      call_events_sub [of "EvClose (u, port)" cf "hd later"] unit_events_sub [of "EvClose (u, port)" cf]
    by (auto simp: run_log_def in_foreground_events)
  then show ?thesis by (simp only: close_events_facts(3))
qed

section \<open>Dependencies\<close>

definition ran_before :: "string \<Rightarrow> event list \<Rightarrow> bool" where
  "ran_before d evs \<longleftrightarrow> EvRun d \<in> set evs \<or> EvStarted d \<in> set evs"

lemma ran_before_foreground: "ran_before d (foreground_events cf ns) \<longleftrightarrow> d \<in> set ns"
  by (auto simp: ran_before_def in_foreground_events unit_events_def call_events_def split: if_splits)

lemma ran_before_append: "ran_before d (xs @ ys) \<longleftrightarrow> ran_before d xs \<or> ran_before d ys"
  by (auto simp: ran_before_def)

lemma forward_event_split:
  assumes "run_log cf ran_units later partial st" and "ev \<in> set (es_log st)" and "ev_forward ev"
  obtains ns rest us vs where "ran_units @ later = ns @ ev_unit ev # rest" and "es_log st = us @ ev # vs"
    and "set (foreground_events cf ns) \<subseteq> set us"
proof -
  have "ev \<in> set (foreground_events cf ran_units) \<or> ev \<in> set partial"
    using assms close_events_facts(2) [of ev cf st] by (auto simp: run_log_def)
  then show thesis
  proof
    assume "ev \<in> set (foreground_events cf ran_units)"
    then obtain n where n: "n \<in> set ran_units" "ev \<in> set (unit_events cf n)" by (auto simp: in_foreground_events)
    then obtain ns rest as bs where "ran_units = ns @ n # rest" "unit_events cf n = as @ ev # bs"
      by (auto dest!: split_list)
    with assms(1) unit_events_sub [OF n(2)] show thesis
      by (intro that [of ns "rest @ later" "foreground_events cf ns @ as"]) (auto simp: run_log_def)
  next
    assume p: "ev \<in> set partial"
    with assms(1) obtain r where "later \<noteq> []" and r: "call_events cf (hd later) = partial @ r"
      by (auto simp: run_log_def prefix_def)
    with p call_events_sub [of ev cf "hd later"] have "later = ev_unit ev # tl later" by simp
    moreover from p obtain as bs where "partial = as @ ev # bs" by (auto dest!: split_list)
    ultimately show thesis
      using assms(1) by (intro that [of ran_units "tl later" "foreground_events cf ran_units @ as"]) (auto simp: run_log_def)
  qed
qed

text \<open>When a call of a unit is made, every unit it depends on has run, or has been started.\<close>

lemma run_log_deps:
  assumes "buildGraph ut_Definition reg scenario = Inr g" and "cf_graph cf = g"
    and "run_log cf ran_units later partial st" and "gr_order g = ran_units @ later"
    and "es_log st = xs @ ev # ys" and "ev_forward ev" and "(ev_unit ev, d) \<in> (dep_rel (gr_nodes g))\<^sup>+"
  shows "ran_before d xs"
proof -
  have "ev \<in> set (es_log st)" using assms(5) by simp
  from forward_event_split [OF assms(3) this assms(6)] obtain ns rest us vs where
    sp: "ran_units @ later = ns @ ev_unit ev # rest" "es_log st = us @ ev # vs"
      "set (foreground_events cf ns) \<subseteq> set us" by metis
  from sp(1) assms(4) have "gr_order g = ns @ ev_unit ev # rest" by simp
  from buildGraph_order(3) [OF assms(1) this assms(7)] have "d \<in> set ns" .
  then have "ran_before d us" using sp(3) ran_before_foreground [of d cf ns] by (auto simp: ran_before_def)
  moreover have "distinct (es_log st)"
    using run_log_distinct [OF assms(3)] assms(2,4) buildGraph_order(1) [OF assms(1)] by simp
  then have "us = xs" using sp(2) assms(5) split_unique by metis
  ultimately show ?thesis by simp
qed

text \<open>Background units are stopped before those they depend on.\<close>

lemma run_log_stops:
  assumes "buildGraph ut_Definition reg scenario = Inr g" and "cf_graph cf = g"
    and "run_log cf ran_units later partial st" and "gr_order g = ran_units @ later"
    and "es_log st = xs @ EvStop d # ys" and "EvStop n \<in> set (es_log st)" and "(n, d) \<in> (dep_rel (gr_nodes g))\<^sup>+"
  shows "EvStop n \<in> set xs"
proof -
  note stop = log_stopped [OF assms(3)]
  have d: "d \<in> set ran_units" "is_background cf d" and n: "n \<in> set ran_units" "is_background cf n"
    using stop [of d] stop [of n] assms(5,6) by simp_all
  from d(1) obtain as ms where ran: "ran_units = as @ d # ms" by (auto dest: split_list)
  from n(1) obtain bs cs where ran': "ran_units = bs @ n # cs" by (auto dest: split_list)
  note order = buildGraph_order [OF assms(1)]
  have "d \<in> set bs" using order(3) [OF _ assms(7)] assms(4) ran' by simp
  then obtain b1 b2 where bs: "bs = b1 @ d # b2" by (auto dest: split_list)
  have "distinct (as @ d # ms)" using order(1) assms(4) ran by auto
  moreover have eq: "b1 @ d # (b2 @ n # cs) = as @ d # ms" using ran ran' by (simp only: bs append.assoc append_Cons)
  ultimately have "b1 = as" by (rule split_unique)
  then have "n \<in> set ms" using eq by auto
  define us where "us = foreground_events cf ran_units @ partial @ map EvStop (rev (backgrounds cf ms))"
  have "es_log st = us @ EvStop d # (map EvStop (rev (backgrounds cf as)) @ close_events cf st)"
    using assms(3) d(2) by (simp add: run_log_def us_def ran)
  moreover have "distinct (es_log st)"
    using run_log_distinct [OF assms(3)] assms(2,4) order(1) by simp
  ultimately have "us = xs" using assms(5) split_unique by metis
  moreover have "EvStop n \<in> set us" using \<open>n \<in> set ms\<close> n(2) by (simp add: us_def)
  ultimately show ?thesis by simp
qed

end
