(* ===== verification/Example_Run.thy ===== *)
theory Example_Run
  imports Run_Log
begin

text \<open>
  A run of the model on a small scenario, on which the properties of the engine are applied: \<open>b\<close> is a
  background unit whose output \<open>c\<close> holds something to close, and \<open>a\<close> reads that output.
\<close>

definition demo_port :: PortDef where
  "demo_port = \<lparr>pd_Name = ''c'', pd_Type = ''t'', pd_Optional = False, pd_Meta = empty_PortMeta\<rparr>"

definition demo_def :: "string \<Rightarrow> PortDef list \<Rightarrow> PortDef list \<Rightarrow> UnitDef" where
  "demo_def kind ins outs = \<lparr>ud_Kind = kind, ud_Title = kind, ud_Description = [], ud_Inputs = ins,
     ud_Outputs = outs, ud_Metrics = [], ud_Artifacts = []\<rparr>"

definition demo_plan :: "baseEnv \<Rightarrow> nat \<Rightarrow> Plan result \<times> nat" where
  "demo_plan e w = (Inr \<lparr>pl_UnitName = be_unitName e, pl_Shards = []\<rparr>, w)"

definition demo_source :: "(string, nat) Unit" where
  "demo_source = \<lparr>ut_Definition = demo_def ''d/s'' [] [demo_port], ut_Validate = (\<lambda>_ w. (None, w)),
     ut_Plan = demo_plan, ut_Run = (\<lambda>_. Return None),
     ut_Start = Some (\<lambda>_. SetOutput ''c'' ''x'' (Return (Some \<lparr>tk_hasDone = False, tk_Stop = Return None\<rparr>, None)))\<rparr>"

definition demo_sink :: "(string, nat) Unit" where
  "demo_sink = \<lparr>ut_Definition = demo_def ''d/t'' [demo_port] [], ut_Validate = (\<lambda>_ w. (None, w)),
     ut_Plan = demo_plan,
     ut_Run = (\<lambda>_. Input ''c'' (\<lambda>r. Return (case r of Inl e \<Rightarrow> Some e | Inr _ \<Rightarrow> None))), ut_Start = None\<rparr>"

definition demo_engine :: "(string, nat) engine" where
  "demo_engine = fmap_of_list [(''d/s'', demo_source), (''d/t'', demo_sink)]"

definition demo_node :: "string \<Rightarrow> UnitNode" where
  "demo_node use = \<lparr>un_Use = use, un_Inputs = fmempty, un_After = [], un_Spec = []\<rparr>"

definition demo_scenario :: Scenario where
  "demo_scenario = \<lparr>sc_Version = ''wkbench/v2'',
     sc_Run = \<lparr>rc_ID = ''r'', rc_Duration = 0, rc_Seed = 0, rc_ReportDir = []\<rparr>, sc_Vars = fmempty,
     sc_Units = fmap_of_list [(''a'', demo_node ''d/t''), (''b'', demo_node ''d/s'')]\<rparr>"

definition demo_host :: "nat Host" where
  "demo_host = \<lparr>h_now = (\<lambda>w. (int w, Suc w)), h_poll = (\<lambda>w. ([], w)), h_ctxErr = (\<lambda>_. None), h_cancel = id,
     h_monitor = (\<lambda>_ w. (\<lparr>mp_done = True, mp_ctxErr = None, mp_until = None, mp_event = MonitorDone\<rparr>, w)),
     h_fs = \<lparr>fs_CreateTemp = Inr, fs_MkdirAll = (\<lambda>_. None), fs_Create = (\<lambda>_. None)\<rparr>\<rparr>"

definition demo_ops :: "(string, nat) AnyOps" where
  "demo_ops = \<lparr>any_OutputValue = (\<lambda>_. None), any_ReportOutput = (\<lambda>_. None),
     any_Close = (\<lambda>_. Some (\<lambda>w. (None, w)))\<rparr>"

definition demo_graph :: "(string, nat) Unit graph" where
  "demo_graph = (case buildGraph ut_Definition demo_engine demo_scenario of
     Inr g \<Rightarrow> g | Inl _ \<Rightarrow> \<lparr>gr_nodes = fmempty, gr_order = []\<rparr>)"

abbreviation demo_run :: "goerr option \<times> (string, nat) es" where
  "demo_run \<equiv> Engine_Run demo_engine demo_host demo_ops demo_scenario 0"

lemma demo_order: "gr_order demo_graph = [''b'', ''a'']"
  by code_simp

lemma demo_built: "buildGraph ut_Definition demo_engine demo_scenario = Inr demo_graph"
  using demo_order by (simp add: demo_graph_def split: sum.splits)

lemma demo_deps: "node_deps (the (fmlookup (gr_nodes demo_graph) ''a'')) = [''b'']"
  by code_simp

lemma demo_node_a: "\<exists>node. fmlookup (gr_nodes demo_graph) ''a'' = Some node"
proof -
  have "''a'' \<in> fset (fmdom (gr_nodes demo_graph))"
    using buildGraph_order(2) [OF demo_built] demo_order buildGraph_nodes(1) [OF demo_built]
    by (metis insertI1 insertI2 list.set(2))
  then show ?thesis by (auto simp: fmlookup_dom_iff)
qed

lemma demo_dep: "(''a'', ''b'') \<in> (dep_rel (gr_nodes demo_graph))\<^sup>+"
  using demo_node_a demo_deps by (auto simp: dep_rel_def)

lemma demo_run: "map_prod id es_log demo_run = (None,
    [EvValidate ''b'', EvPlan ''b'', EvStart ''b'', EvStarted ''b'', EvValidate ''a'', EvPlan ''a'', EvRun ''a'',
     EvStop ''b'', EvClose (''b'', ''c'')])"
  by code_simp

lemma demo_outcome:
  "fst demo_run = None"
  "es_log (snd demo_run) =
    [EvValidate ''b'', EvPlan ''b'', EvStart ''b'', EvStarted ''b'', EvValidate ''a'', EvPlan ''a'', EvRun ''a'',
     EvStop ''b'', EvClose (''b'', ''c'')]"
  using demo_run by (simp_all add: map_prod_def split_beta)

end
