(* ===== verification/Frame.thy ===== *)
theory Frame
  imports Go_Strings "HOL-Library.Word"
begin

text \<open>
  \<open>benchkit/protocol/frame.go\<close>: the frames the host and a plugin exchange, a 4-byte big-endian length
  followed by the payload. The protobuf codec is third-party code: \<open>marshal\<close> and \<open>unmarshal\<close> are
  parameters. A writer is a state \<open>'o\<close> with its \<open>Write\<close> method; a reader is the list of the bytes
  still to come before end of file.
\<close>

unbundle bit_operations_syntax

section \<open>The header\<close>

definition byte_of :: "32 word \<Rightarrow> nat \<Rightarrow> char" where
  "byte_of v k = char_of (unat (ucast (drop_bit k v) :: 8 word))"

definition PutUint32 :: "32 word \<Rightarrow> string" where
  "PutUint32 v = [byte_of v 24, byte_of v 16, byte_of v 8, byte_of v 0]"

definition byte_word :: "char \<Rightarrow> 32 word" where
  "byte_word c = ucast (word_of_nat (of_char c) :: 8 word)"

definition Uint32 :: "string \<Rightarrow> 32 word" where
  "Uint32 b = byte_word (b ! 3) OR push_bit 8 (byte_word (b ! 2)) OR
     push_bit 16 (byte_word (b ! 1)) OR push_bit 24 (byte_word (b ! 0))"

lemma byte_word_byte_of: "byte_word (byte_of v k) = (drop_bit k v AND 255)"
proof -
  let ?b = "ucast (drop_bit k v) :: 8 word"
  have lt: "unat ?b < 256" using unsigned_less [of ?b] by simp
  have "(word_of_nat (of_char (char_of (unat ?b) :: char)) :: 8 word) = ?b"
    using lt by (simp add: of_char_of)
  then have "byte_word (byte_of v k) = ucast ?b" by (simp add: byte_word_def byte_of_def)
  also have "\<dots> = take_bit 8 (drop_bit k v)"
    by (rule bit_word_eqI) (auto simp: bit_simps)
  also have "\<dots> = drop_bit k v AND 255" by (simp add: take_bit_eq_mask mask_eq_exp_minus_1)
  finally show ?thesis .
qed

lemma Uint32_PutUint32 [simp]: "Uint32 (PutUint32 v) = v"
proof -
  have "Uint32 (PutUint32 v) = (take_bit 8 v OR push_bit 8 (take_bit 8 (drop_bit 8 v)) OR
      push_bit 16 (take_bit 8 (drop_bit 16 v)) OR push_bit 24 (take_bit 8 (drop_bit 24 v)))"
    by (simp add: Uint32_def PutUint32_def byte_word_byte_of take_bit_eq_mask mask_eq_exp_minus_1)
  also have "\<dots> = v"
  proof (rule bit_word_eqI)
    fix n assume "n < LENGTH(32)"
    then show "bit (take_bit 8 v OR push_bit 8 (take_bit 8 (drop_bit 8 v)) OR
        push_bit 16 (take_bit 8 (drop_bit 16 v)) OR push_bit 24 (take_bit 8 (drop_bit 24 v))) n = bit v n"
      by (cases "24 \<le> n"; cases "16 \<le> n"; cases "8 \<le> n") (auto simp: bit_simps)
  qed
  finally show ?thesis .
qed

lemma length_PutUint32 [simp]: "length (PutUint32 v) = 4"
  by (simp add: PutUint32_def)

section \<open>Writing and reading frames\<close>

definition ErrFrameTooLarge :: goerr where
  "ErrFrameTooLarge = Errorf ''plugin frame too large'' []"

definition err_EOF :: goerr where
  "err_EOF = Errorf ''EOF'' []"

definition err_UnexpectedEOF :: goerr where
  "err_UnexpectedEOF = Errorf ''unexpected EOF'' []"

definition WriteFrame :: "('f \<Rightarrow> string result) \<Rightarrow> (string \<Rightarrow> 'o \<Rightarrow> goerr option \<times> 'o) \<Rightarrow> 'f \<Rightarrow> 'o \<Rightarrow> goerr option \<times> 'o" where
  "WriteFrame marshal wr frame out =
     (case marshal frame of
        Inl err \<Rightarrow> (Some (Errorf ''marshal frame: %w'' [ArgE err]), out)
      | Inr payload \<Rightarrow>
          if length payload > 2 ^ 32 - 1 then (Some ErrFrameTooLarge, out)
          else (case wr (PutUint32 (word_of_nat (length payload))) out of
            (Some err, out) \<Rightarrow> (Some (Errorf ''write frame header: %w'' [ArgE err]), out)
          | (None, out) \<Rightarrow>
              (case wr payload out of
                 (Some err, out) \<Rightarrow> (Some (Errorf ''write frame payload: %w'' [ArgE err]), out)
               | (None, out) \<Rightarrow> (None, out))))"

text \<open>\<open>io.ReadFull\<close> of \<open>n\<close> bytes.\<close>

definition ReadFull :: "nat \<Rightarrow> string \<Rightarrow> string result \<times> string" where
  "ReadFull n r =
     (if n \<le> length r then (Inr (take n r), drop n r)
      else (Inl (if r = [] then err_EOF else err_UnexpectedEOF), []))"

definition ReadFrame :: "(string \<Rightarrow> 'f result) \<Rightarrow> int \<Rightarrow> string \<Rightarrow> 'f result \<times> string" where
  "ReadFrame unmarshal maxBytes r =
     (case ReadFull 4 r of
        (Inl err, r) \<Rightarrow> (Inl err, r)
      | (Inr header, r) \<Rightarrow>
          (let sz = Uint32 header
           in if maxBytes < 0 \<or> uint sz > maxBytes then (Inl ErrFrameTooLarge, r)
              else (case ReadFull (unat sz) r of
                (Inl err, r) \<Rightarrow> (Inl err, r)
              | (Inr payload, r) \<Rightarrow>
                  (case unmarshal payload of
                     Inl err \<Rightarrow> (Inl (Errorf ''unmarshal frame: %w'' [ArgE err]), r)
                   | Inr frame \<Rightarrow> (Inr frame, r)))))"

text \<open>The encoding of a payload, and a writer that never fails.\<close>

definition encode :: "string \<Rightarrow> string" where
  "encode payload = PutUint32 (word_of_nat (length payload)) @ payload"

definition buffer_write :: "string \<Rightarrow> string \<Rightarrow> goerr option \<times> string" where
  "buffer_write bs out = (None, out @ bs)"

lemma WriteFrame_buffer:
  "marshal frame = Inr payload \<Longrightarrow> length payload < 2 ^ 32 \<Longrightarrow>
   WriteFrame marshal buffer_write frame out = (None, out @ encode payload)"
  by (simp add: WriteFrame_def buffer_write_def encode_def)

lemma unat_length: "n < 2 ^ 32 \<Longrightarrow> unat (word_of_nat n :: 32 word) = n"
  by (simp add: unat_of_nat)

lemma ReadFrame_encode:
  assumes "unmarshal payload = Inr frame" and "int (length payload) \<le> maxBytes" and "length payload < 2 ^ 32"
  shows "ReadFrame unmarshal maxBytes (encode payload @ rest) = (Inr frame, rest)"
proof -
  have u: "unat (word_of_nat (length payload) :: 32 word) = length payload"
    using assms(3) by (rule unat_length)
  then have "uint (word_of_nat (length payload) :: 32 word) = int (length payload)"
    by (metis uint_nat)
  with assms u show ?thesis by (simp add: ReadFrame_def ReadFull_def encode_def Let_def)
qed

text \<open>A frame longer than the limit is refused before its payload is read.\<close>

lemma ReadFrame_too_large:
  assumes "maxBytes < int (length payload)" and "length payload < 2 ^ 32"
  shows "ReadFrame unmarshal maxBytes (encode payload @ rest) = (Inl ErrFrameTooLarge, payload @ rest)"
proof -
  have "uint (word_of_nat (length payload) :: 32 word) = int (length payload)"
    using unat_length [OF assms(2)] by (metis uint_nat)
  with assms show ?thesis by (simp add: ReadFrame_def ReadFull_def encode_def Let_def)
qed

fun write_frames :: "('f \<Rightarrow> string result) \<Rightarrow> 'f list \<Rightarrow> string \<Rightarrow> string" where
  "write_frames marshal [] out = out"
| "write_frames marshal (f # fs) out = write_frames marshal fs (snd (WriteFrame marshal buffer_write f out))"

fun read_frames :: "(string \<Rightarrow> 'f result) \<Rightarrow> int \<Rightarrow> nat \<Rightarrow> string \<Rightarrow> 'f list" where
  "read_frames unmarshal maxBytes 0 r = []"
| "read_frames unmarshal maxBytes (Suc n) r =
     (case ReadFrame unmarshal maxBytes r of
        (Inl err, _) \<Rightarrow> []
      | (Inr f, r) \<Rightarrow> f # read_frames unmarshal maxBytes n r)"

definition fits :: "('f \<Rightarrow> string result) \<Rightarrow> (string \<Rightarrow> 'f result) \<Rightarrow> int \<Rightarrow> 'f \<Rightarrow> bool" where
  "fits marshal unmarshal maxBytes f \<longleftrightarrow>
     (case marshal f of
        Inl _ \<Rightarrow> False
      | Inr p \<Rightarrow> unmarshal p = Inr f \<and> int (length p) \<le> maxBytes \<and> length p < 2 ^ 32)"

definition payload_of :: "('f \<Rightarrow> string result) \<Rightarrow> 'f \<Rightarrow> string" where
  "payload_of marshal f = (case marshal f of Inl _ \<Rightarrow> [] | Inr p \<Rightarrow> p)"

lemma write_frames_encode:
  "list_all (fits marshal unmarshal maxBytes) fs \<Longrightarrow>
   write_frames marshal fs out = out @ concat (map (\<lambda>f. encode (payload_of marshal f)) fs)"
  by (induction fs arbitrary: out)
    (auto simp: fits_def payload_of_def WriteFrame_buffer split: sum.splits)

lemma read_frames_encode:
  "list_all (fits marshal unmarshal maxBytes) fs \<Longrightarrow>
   read_frames unmarshal maxBytes (Suc (length fs)) (concat (map (\<lambda>f. encode (payload_of marshal f)) fs)) = fs"
proof (induction fs)
  case Nil
  show ?case by (simp add: ReadFrame_def ReadFull_def)
next
  case (Cons f fs)
  then obtain p where p: "marshal f = Inr p" "unmarshal p = Inr f" "int (length p) \<le> maxBytes" "length p < 2 ^ 32"
    by (auto simp: fits_def split: sum.splits)
  have "payload_of marshal f = p" by (simp add: payload_of_def p)
  with ReadFrame_encode [of unmarshal p f maxBytes, OF p(2-4)]
  have rd: "ReadFrame unmarshal maxBytes (encode (payload_of marshal f) @ r) = (Inr f, r)" for r
    by simp
  have "read_frames unmarshal maxBytes (Suc (length fs)) (concat (map (\<lambda>f. encode (payload_of marshal f)) fs)) = fs"
    using Cons by (simp del: read_frames.simps)
  then show ?case
    by (subst read_frames.simps(2)) (simp add: rd del: read_frames.simps)
qed

section \<open>Streams of frames\<close>

text \<open>
  C30: Framing round trip. Any sequence of frames whose payloads are within the limit, written one after
  another to a stream, is read back as the same sequence.
\<close>

theorem frames_round_trip:
  assumes "list_all (fits marshal unmarshal maxBytes) fs"
  shows "read_frames unmarshal maxBytes (Suc (length fs)) (write_frames marshal fs []) = fs"
  using read_frames_encode [OF assms] write_frames_encode [OF assms, of "[]"] by simp

theorem frames_round_trip_witness:
  "read_frames Inr 3 3 (write_frames Inr [''ab'', ''cde''] []) = [''ab'', ''cde'']"
  using frames_round_trip [of Inr Inr 3 "[''ab'', ''cde'']"] by (simp add: fits_def numeral_3_eq_3)

text \<open>
  C31: Oversized frames. A frame whose announced length is above the limit is refused with
  \<open>ErrFrameTooLarge\<close> before a byte of its payload is consumed.
\<close>

theorem oversized_frame_refused:
  assumes "maxBytes < int (length payload)" and "length payload < 2 ^ 32"
  shows "ReadFrame unmarshal maxBytes (encode payload @ rest) = (Inl ErrFrameTooLarge, payload @ rest)"
  by (rule ReadFrame_too_large [OF assms])

theorem oversized_frame_refused_witness:
  "ReadFrame Inr 2 (encode ''abc'' @ ''x'') = (Inl ErrFrameTooLarge, ''abcx'')"
  using oversized_frame_refused [of 2 "''abc''" Inr "''x''"] by simp

end
