(* ===== verification/Plugin_Manifest.thy ===== *)
theory Plugin_Manifest
  imports Contract
begin

text \<open>
  The plugin manifests: \<open>benchkit/pluginhost/manifest.go\<close> and \<open>catalog.go\<close>, the conversion to the
  protocol messages in \<open>sdk/go/wkbench/plugin/server.go\<close> (\<open>manifestToProto\<close>) and back in
  \<open>benchkit/pluginhost/stdio_client.go\<close> (\<open>pluginFromProto\<close>). The message types are generated code;
  they are modelled by records with the fields the two conversions use, a nil message by \<open>None\<close>.
  Cloning a slice has no effect on values, so the clones are the identity here.
\<close>

record PluginUnit =
  pu_PluginName :: string
  pu_Kind :: string
  pu_Title :: string
  pu_Description :: string
  pu_Inputs :: "PortDef list"
  pu_Outputs :: "PortDef list"
  pu_Metrics :: "MetricDef list"
  pu_Artifacts :: "ArtifactDef list"
  pu_Background :: bool

record Plugin =
  pg_Name :: string
  pg_Version :: string
  pg_Protocol :: string
  pg_Source :: string
  pg_Checksum :: string
  pg_Units :: "PluginUnit list"

definition PluginUnit_Definition :: "PluginUnit \<Rightarrow> UnitDef" where
  "PluginUnit_Definition u =
     \<lparr>ud_Kind = pu_Kind u, ud_Title = pu_Title u, ud_Description = pu_Description u,
      ud_Inputs = pu_Inputs u, ud_Outputs = pu_Outputs u, ud_Metrics = pu_Metrics u,
      ud_Artifacts = pu_Artifacts u\<rparr>"

definition unit_to_manifest :: "UnitDef \<times> bool \<Rightarrow> PluginUnit" where
  "unit_to_manifest = (\<lambda>(def, background).
     \<lparr>pu_PluginName = [], pu_Kind = ud_Kind def, pu_Title = ud_Title def,
      pu_Description = ud_Description def, pu_Inputs = ud_Inputs def, pu_Outputs = ud_Outputs def,
      pu_Metrics = ud_Metrics def, pu_Artifacts = ud_Artifacts def, pu_Background = background\<rparr>)"

definition ManifestFromUnits :: "string \<Rightarrow> string \<Rightarrow> (UnitDef \<times> bool) list \<Rightarrow> Plugin" where
  "ManifestFromUnits name version units =
     \<lparr>pg_Name = name, pg_Version = version, pg_Protocol = ''wkbench.plugin/v1'', pg_Source = [],
      pg_Checksum = [], pg_Units = map unit_to_manifest units\<rparr>"

section \<open>Protocol messages\<close>

record PbPortMeta =
  bm_boundary :: string
  bm_transport :: string
  bm_schema :: string
  bm_encodings :: "string list"
  bm_max_payload_bytes :: int
  bm_sensitive :: bool
  bm_reportable :: bool
  bm_operations :: "string list"

record PbPortDef =
  bp_name :: string
  bp_type :: string
  bp_optional :: bool
  bp_meta :: "PbPortMeta option"

record PbNamed =
  bn_name :: string
  bn_kind :: string

record PbUnit =
  bu_kind :: string
  bu_title :: string
  bu_description :: string
  bu_inputs :: "PbPortDef option list"
  bu_outputs :: "PbPortDef option list"
  bu_metrics :: "PbNamed option list"
  bu_artifacts :: "PbNamed option list"
  bu_background :: bool

record PbManifest =
  bf_name :: string
  bf_version :: string
  bf_protocol :: string
  bf_source :: string
  bf_checksum :: string
  bf_units :: "PbUnit option list"

definition portToProto :: "PortDef \<Rightarrow> PbPortDef" where
  "portToProto port =
     \<lparr>bp_name = pd_Name port, bp_type = pd_Type port, bp_optional = pd_Optional port,
      bp_meta = Some
        \<lparr>bm_boundary = pm_Boundary (pd_Meta port), bm_transport = pm_Transport (pd_Meta port),
         bm_schema = pm_Schema (pd_Meta port), bm_encodings = pm_Encodings (pd_Meta port),
         bm_max_payload_bytes = pm_MaxPayloadBytes (pd_Meta port),
         bm_sensitive = pm_Sensitive (pd_Meta port), bm_reportable = pm_Reportable (pd_Meta port),
         bm_operations = pm_Operations (pd_Meta port)\<rparr>\<rparr>"

definition portsToProto :: "PortDef list \<Rightarrow> PbPortDef option list" where
  "portsToProto ports = map (Some \<circ> portToProto) ports"

definition metricsToProto :: "MetricDef list \<Rightarrow> PbNamed option list" where
  "metricsToProto ms = map (\<lambda>m. Some \<lparr>bn_name = md_Name m, bn_kind = md_Type m\<rparr>) ms"

definition artifactsToProto :: "ArtifactDef list \<Rightarrow> PbNamed option list" where
  "artifactsToProto as = map (\<lambda>a. Some \<lparr>bn_name = ad_Name a, bn_kind = ad_ContentType a\<rparr>) as"

definition unitToProto :: "PluginUnit \<Rightarrow> PbUnit" where
  "unitToProto u =
     \<lparr>bu_kind = pu_Kind u, bu_title = pu_Title u, bu_description = pu_Description u,
      bu_inputs = portsToProto (pu_Inputs u), bu_outputs = portsToProto (pu_Outputs u),
      bu_metrics = metricsToProto (pu_Metrics u), bu_artifacts = artifactsToProto (pu_Artifacts u),
      bu_background = pu_Background u\<rparr>"

definition unitsToProto :: "PluginUnit list \<Rightarrow> PbUnit option list" where
  "unitsToProto units = map (Some \<circ> unitToProto) units"

definition manifestToProto :: "Plugin \<Rightarrow> PbManifest" where
  "manifestToProto m =
     \<lparr>bf_name = pg_Name m, bf_version = pg_Version m, bf_protocol = pg_Protocol m,
      bf_source = pg_Source m, bf_checksum = pg_Checksum m, bf_units = unitsToProto (pg_Units m)\<rparr>"

definition metaFromProto :: "PbPortMeta option \<Rightarrow> PortMeta" where
  "metaFromProto meta =
     (case meta of
        None \<Rightarrow> empty_PortMeta
      | Some m \<Rightarrow>
          \<lparr>pm_Boundary = bm_boundary m, pm_Transport = bm_transport m, pm_Schema = bm_schema m,
           pm_Encodings = bm_encodings m, pm_MaxPayloadBytes = bm_max_payload_bytes m,
           pm_Sensitive = bm_sensitive m, pm_Reportable = bm_reportable m,
           pm_Operations = bm_operations m\<rparr>)"

definition portFromProto :: "PbPortDef option \<Rightarrow> PortDef" where
  "portFromProto port =
     (case port of
        None \<Rightarrow> \<lparr>pd_Name = [], pd_Type = [], pd_Optional = False, pd_Meta = empty_PortMeta\<rparr>
      | Some p \<Rightarrow> \<lparr>pd_Name = bp_name p, pd_Type = bp_type p, pd_Optional = bp_optional p,
                  pd_Meta = metaFromProto (bp_meta p)\<rparr>)"

definition metricFromProto :: "PbNamed option \<Rightarrow> MetricDef" where
  "metricFromProto m =
     (case m of None \<Rightarrow> \<lparr>md_Name = [], md_Type = []\<rparr> | Some x \<Rightarrow> \<lparr>md_Name = bn_name x, md_Type = bn_kind x\<rparr>)"

definition artifactFromProto :: "PbNamed option \<Rightarrow> ArtifactDef" where
  "artifactFromProto a =
     (case a of None \<Rightarrow> \<lparr>ad_Name = [], ad_ContentType = []\<rparr>
      | Some x \<Rightarrow> \<lparr>ad_Name = bn_name x, ad_ContentType = bn_kind x\<rparr>)"

definition unitFromProto :: "string \<Rightarrow> PbUnit option \<Rightarrow> PluginUnit" where
  "unitFromProto pluginName u =
     (case u of
        None \<Rightarrow>
          \<lparr>pu_PluginName = pluginName, pu_Kind = [], pu_Title = [], pu_Description = [], pu_Inputs = [],
           pu_Outputs = [], pu_Metrics = [], pu_Artifacts = [], pu_Background = False\<rparr>
      | Some b \<Rightarrow>
          \<lparr>pu_PluginName = pluginName, pu_Kind = bu_kind b, pu_Title = bu_title b,
           pu_Description = bu_description b, pu_Inputs = map portFromProto (bu_inputs b),
           pu_Outputs = map portFromProto (bu_outputs b), pu_Metrics = map metricFromProto (bu_metrics b),
           pu_Artifacts = map artifactFromProto (bu_artifacts b), pu_Background = bu_background b\<rparr>)"

definition pluginFromProto :: "PbManifest option \<Rightarrow> Plugin" where
  "pluginFromProto manifest =
     (case manifest of
        None \<Rightarrow> \<lparr>pg_Name = [], pg_Version = [], pg_Protocol = [], pg_Source = [], pg_Checksum = [], pg_Units = []\<rparr>
      | Some m \<Rightarrow>
          \<lparr>pg_Name = bf_name m, pg_Version = bf_version m, pg_Protocol = bf_protocol m,
           pg_Source = bf_source m, pg_Checksum = bf_checksum m,
           pg_Units = map (unitFromProto (bf_name m)) (bf_units m)\<rparr>)"

lemma portFromProto_portToProto [simp]: "portFromProto (Some (portToProto p)) = p"
  by (simp add: portFromProto_def portToProto_def metaFromProto_def)

lemma unitFromProto_unitToProto:
  "unitFromProto name (Some (unitToProto u)) = u\<lparr>pu_PluginName := name\<rparr>"
proof -
  have "map portFromProto (portsToProto ps) = ps" for ps
    by (simp add: portsToProto_def map_idI)
  moreover have "map metricFromProto (metricsToProto ms) = ms" for ms
    by (simp add: metricsToProto_def metricFromProto_def map_idI)
  moreover have "map artifactFromProto (artifactsToProto as) = as" for as
    by (simp add: artifactsToProto_def artifactFromProto_def map_idI)
  ultimately show ?thesis by (simp add: unitFromProto_def unitToProto_def)
qed

text \<open>
  What a plugin sends is what the host reads, each unit labelled with the plugin's name.
\<close>

lemma pluginFromProto_manifestToProto:
  "pluginFromProto (Some (manifestToProto m)) = m\<lparr>pg_Units := map (\<lambda>u. u\<lparr>pu_PluginName := pg_Name m\<rparr>) (pg_Units m)\<rparr>"
  by (simp add: pluginFromProto_def manifestToProto_def unitsToProto_def unitFromProto_unitToProto comp_def)

text \<open>A unit's definition survives the trip into the manifest, over the wire and back.\<close>

lemma Definition_round_trip:
  "map PluginUnit_Definition (pg_Units (pluginFromProto (Some (manifestToProto (ManifestFromUnits name version units))))) =
     map fst units"
  by (simp add: pluginFromProto_manifestToProto ManifestFromUnits_def PluginUnit_Definition_def
      unit_to_manifest_def comp_def split_beta)

section \<open>Catalog\<close>

type_synonym Catalog = "PluginUnit list gomap"

definition units_at :: "string \<Rightarrow> Catalog \<Rightarrow> PluginUnit list" where
  "units_at kind c = (case fmlookup c kind of Some us \<Rightarrow> us | None \<Rightarrow> [])"

definition labelled_units :: "Plugin list \<Rightarrow> PluginUnit list" where
  "labelled_units plugins = concat (map (\<lambda>p. map (\<lambda>u. u\<lparr>pu_PluginName := pg_Name p\<rparr>) (pg_Units p)) plugins)"

fun catalog_add :: "PluginUnit list \<Rightarrow> Catalog \<Rightarrow> Catalog" where
  "catalog_add [] c = c"
| "catalog_add (u # us) c = catalog_add us (fmupd (pu_Kind u) (units_at (pu_Kind u) c @ [u]) c)"

definition NewCatalog :: "Plugin list \<Rightarrow> Catalog" where
  "NewCatalog plugins = fmmap (sort_key pu_PluginName) (catalog_add (labelled_units plugins) fmempty)"

definition Catalog_Resolve :: "Catalog \<Rightarrow> string \<Rightarrow> PluginUnit result" where
  "Catalog_Resolve c use =
     (let use = TrimSpace use
      in if use = [] then Inl (Errorf ''unit kind is required'' [])
         else case Cut use (CHR '':'') of
           (pluginName, kind, True) \<Rightarrow>
             (let pluginName = TrimSpace pluginName; kind = TrimSpace kind
              in if pluginName = [] then Inl (Errorf ''plugin name is required'' [])
                 else if kind = [] then Inl (Errorf ''unit kind is required'' [])
                 else case filter (\<lambda>u. pu_PluginName u = pluginName) (units_at kind c) of
                   [] \<Rightarrow> Inl (Errorf ''unit kind %q from plugin %q is not registered'' [ArgS kind, ArgS pluginName])
                 | [u] \<Rightarrow> Inr u
                 | _ \<Rightarrow> Inl (Errorf ''duplicate unit kind %q from plugin %q is registered'' [ArgS kind, ArgS pluginName]))
         | (_, _, False) \<Rightarrow>
             (case units_at use c of
                [] \<Rightarrow> Inl (Errorf ''unit kind %q is not registered'' [ArgS use])
              | [u] \<Rightarrow> Inr u
              | us \<Rightarrow> Inl (Errorf ''unit kind %q is ambiguous across plugins: %s''
                        [ArgS use, ArgS (strings_Join (map pu_PluginName us) '', '')])))"

lemma units_at_catalog_add: "units_at k (catalog_add us c) = units_at k c @ filter (\<lambda>u. pu_Kind u = k) us"
  by (induction us arbitrary: c) (auto simp: units_at_def)

lemma units_at_NewCatalog:
  "units_at k (NewCatalog plugins) = sort_key pu_PluginName (filter (\<lambda>u. pu_Kind u = k) (labelled_units plugins))"
proof -
  have "units_at k (fmmap (sort_key pu_PluginName) c) = sort_key pu_PluginName (units_at k c)" for c
    by (simp add: units_at_def split: option.splits)
  then show ?thesis by (simp add: NewCatalog_def units_at_catalog_add) (simp add: units_at_def)
qed

text \<open>The units of a kind, and those of a kind in a plugin.\<close>

definition offers :: "Plugin list \<Rightarrow> string \<Rightarrow> PluginUnit list" where
  "offers plugins kind = filter (\<lambda>u. pu_Kind u = kind) (labelled_units plugins)"

definition offers_from :: "Plugin list \<Rightarrow> string \<Rightarrow> string \<Rightarrow> PluginUnit list" where
  "offers_from plugins name kind = filter (\<lambda>u. pu_PluginName u = name) (offers plugins kind)"

lemma length_1_iff: "length xs = 1 \<longleftrightarrow> (\<exists>x. xs = [x])"
  by (cases xs; cases "tl xs") auto

lemma sort_key_single: "sort_key f xs = [u] \<longleftrightarrow> xs = [u]"
proof
  assume "sort_key f xs = [u]"
  then have "length xs = 1" and "set xs = {u}" by (metis length_sort length_Cons list.size(3) One_nat_def, metis set_sort list.simps(15) list.set(1))
  then obtain x where "xs = [x]" using length_1_iff [of xs] by blast
  with \<open>set xs = {u}\<close> show "xs = [u]" by simp
qed simp

lemma filter_sort_key_single:
  "filter P (sort_key f xs) = [u] \<longleftrightarrow> filter P xs = [u]"
  by (simp add: filter_sort sort_key_single)

text \<open>
  A name resolves exactly when one unit answers to it: \<open>plugin:kind\<close> to the only unit of that kind in
  that plugin, a bare kind to the only unit of that kind in any plugin.
\<close>

lemma Catalog_Resolve_bare:
  assumes "TrimSpace use \<noteq> []" and "CHR '':'' \<notin> set (TrimSpace use)"
  shows "Catalog_Resolve (NewCatalog plugins) use = Inr u \<longleftrightarrow> offers plugins (TrimSpace use) = [u]"
proof -
  have cut: "Cut (TrimSpace use) (CHR '':'') = (TrimSpace use, [], False)"
  proof -
    have "c \<notin> set s \<Longrightarrow> Cut s c = (s, [], False)" for s c by (induction s) auto
    then show ?thesis using assms(2) by blast
  qed
  have "Catalog_Resolve (NewCatalog plugins) use = Inr u \<longleftrightarrow> units_at (TrimSpace use) (NewCatalog plugins) = [u]"
    using assms(1) by (auto simp: Catalog_Resolve_def Let_def cut split: list.splits)
  then show ?thesis by (simp add: units_at_NewCatalog sort_key_single offers_def)
qed

lemma Catalog_Resolve_qualified:
  assumes "Cut (TrimSpace use) (CHR '':'') = (p, k, True)" and "TrimSpace p \<noteq> []" and "TrimSpace k \<noteq> []"
  shows "Catalog_Resolve (NewCatalog plugins) use = Inr u \<longleftrightarrow>
    offers_from plugins (TrimSpace p) (TrimSpace k) = [u]"
proof -
  have ne: "TrimSpace use \<noteq> []" using assms(1) by auto
  have "Catalog_Resolve (NewCatalog plugins) use = Inr u \<longleftrightarrow>
      filter (\<lambda>u. pu_PluginName u = TrimSpace p) (units_at (TrimSpace k) (NewCatalog plugins)) = [u]"
    using assms ne by (auto simp: Catalog_Resolve_def Let_def split: list.splits)
  then show ?thesis by (simp add: units_at_NewCatalog filter_sort_key_single offers_def offers_from_def)
qed

section \<open>Manifests and names\<close>

text \<open>
  Manifest round trip. The definitions a host reads from the manifest of a plugin are those of the
  units the plugin was built from, field by field.
\<close>

theorem manifest_round_trip:
  "map PluginUnit_Definition (pg_Units (pluginFromProto (Some (manifestToProto (ManifestFromUnits name version units))))) =
     map fst units"
  by (rule Definition_round_trip)

text \<open>
  C33: Catalog names. A name resolves exactly when one unit answers to it: \<open>plugin:kind\<close> to the only unit of that
  kind in that plugin, a bare kind to the only unit of that kind in any plugin.
\<close>

theorem catalog_resolves:
  assumes "TrimSpace use \<noteq> []"
  shows "Catalog_Resolve (NewCatalog plugins) use = Inr u \<longleftrightarrow>
    (case Cut (TrimSpace use) (CHR '':'') of
       (p, k, True) \<Rightarrow> TrimSpace p \<noteq> [] \<and> TrimSpace k \<noteq> [] \<and> offers_from plugins (TrimSpace p) (TrimSpace k) = [u]
     | (_, _, False) \<Rightarrow> offers plugins (TrimSpace use) = [u])"
proof -
  obtain p k b where cut: "Cut (TrimSpace use) (CHR '':'') = (p, k, b)" by (metis prod_cases3)
  show ?thesis
  proof (cases b)
    case True
    show ?thesis
    proof (cases "TrimSpace p \<noteq> [] \<and> TrimSpace k \<noteq> []")
      case ok: True
      with True cut Catalog_Resolve_qualified [of use p k plugins u] show ?thesis by simp
    next
      case False
      with True cut assms show ?thesis by (auto simp: Catalog_Resolve_def Let_def)
    qed
  next
    case False
    have "CHR '':'' \<in> set s \<Longrightarrow> snd (snd (Cut s (CHR '':'')))" for s
      by (induction s) (auto split: prod.splits)
    with False cut have "CHR '':'' \<notin> set (TrimSpace use)" by fastforce
    with Catalog_Resolve_bare [OF assms, of plugins u] False cut show ?thesis by simp
  qed
qed

definition catalog_unit :: "string \<Rightarrow> string \<Rightarrow> PluginUnit" where
  "catalog_unit p k = \<lparr>pu_PluginName = p, pu_Kind = k, pu_Title = [], pu_Description = [], pu_Inputs = [],
     pu_Outputs = [], pu_Metrics = [], pu_Artifacts = [], pu_Background = False\<rparr>"

definition catalog_plugin :: "string \<Rightarrow> Plugin" where
  "catalog_plugin p = \<lparr>pg_Name = p, pg_Version = [], pg_Protocol = [], pg_Source = [], pg_Checksum = [],
     pg_Units = [catalog_unit [] ''k'']\<rparr>"

theorem catalog_resolves_witness:
  "Catalog_Resolve (NewCatalog [catalog_plugin ''a'', catalog_plugin ''b'']) '' b:k'' = Inr (catalog_unit ''b'' ''k'')"
proof -
  have t: "TrimSpace '' b:k'' = ''b:k''" "TrimSpace ''b'' = ''b''" "TrimSpace ''k'' = ''k''" by code_simp+
  have "offers_from [catalog_plugin ''a'', catalog_plugin ''b''] ''b'' ''k'' = [catalog_unit ''b'' ''k'']"
    by (simp add: offers_from_def offers_def labelled_units_def catalog_plugin_def catalog_unit_def)
  with catalog_resolves [of "'' b:k''" "[catalog_plugin ''a'', catalog_plugin ''b'']" "catalog_unit ''b'' ''k''"]
  show ?thesis by (simp add: t)
qed

end
