(* ===== verification/Port_Gate.thy ===== *)
theory Port_Gate
  imports Plugin_Manifest
begin

text \<open>
  The gate every value passes on its way to a plugin process: \<open>encodeInputPortValues\<close> and
  \<open>validatePhase1InputPort\<close> of \<open>benchkit/pluginhost/stdio_client.go\<close>, and the collection of the
  inputs in \<open>benchkit/pluginhost/remote_unit.go\<close>. \<open>json.Marshal\<close> of a value is the parameter
  \<open>marshal\<close> (a value may bring its own \<open>MarshalJSON\<close>); ranging over the map of inputs takes the order
  of the names as an argument.
\<close>

record PortValue =
  vl_type :: string
  vl_encoding :: string
  vl_transport :: string
  vl_sensitive :: bool
  vl_reportable :: bool
  vl_payload :: string
  vl_reportPayload :: string

definition validatePhase1InputPort :: "string \<Rightarrow> string \<Rightarrow> PortMeta \<Rightarrow> goerr option" where
  "validatePhase1InputPort role name meta =
     (if pm_Boundary meta \<noteq> PortBoundaryData
      then Some (Errorf ''%s %q boundary %s cannot cross the plugin RPC boundary in phase 1''
        [ArgS role, ArgS name, ArgS (pm_Boundary meta)])
      else if pm_Transport meta \<noteq> PortTransportInline
      then Some (Errorf ''%s %q transport %s is not supported for plugin RPC inputs in phase 1''
        [ArgS role, ArgS name, ArgS (pm_Transport meta)])
      else if pm_Sensitive meta
      then Some (Errorf ''%s %q is sensitive and cannot be sent inline over plugin RPC in phase 1''
        [ArgS role, ArgS name])
      else if length (pm_Encodings meta) > 0 \<and> \<not> List.member (pm_Encodings meta) ''json''
      then Some (Errorf ''%s %q must allow json encoding for plugin RPC inputs in phase 1'' [ArgS role, ArgS name])
      else None)"

definition check_source :: "string \<Rightarrow> PortDef \<Rightarrow> string \<Rightarrow> PortDef option \<Rightarrow> goerr option" where
  "check_source name def payload sourceDef =
     (case sourceDef of
        None \<Rightarrow> None
      | Some src \<Rightarrow>
          if pd_Type src \<noteq> pd_Type def
          then Some (Errorf ''producer output %q type %s does not match consumer input %q type %s''
            [ArgS (pd_Name src), ArgS (pd_Type src), ArgS (pd_Name def), ArgS (pd_Type def)])
          else (let sourceMeta = Metadata src
            in case validatePhase1InputPort ''producer output'' (pd_Name src) sourceMeta of
                 Some err \<Rightarrow> Some err
               | None \<Rightarrow>
                   if int (length payload) > pm_MaxPayloadBytes sourceMeta
                   then Some (Errorf ''input %q json payload size %d exceeds producer output %q max payload bytes %d''
                     [ArgS name, ArgI (int (length payload)), ArgS (pd_Name src), ArgI (pm_MaxPayloadBytes sourceMeta)])
                   else None))"

definition encode_input :: "('v \<Rightarrow> string result) \<Rightarrow> PortDef gomap \<Rightarrow> PortDef gomap \<Rightarrow> string \<Rightarrow> 'v \<Rightarrow> PortValue result" where
  "encode_input marshal defByName sourceDefs name value =
     (case fmlookup defByName name of
        None \<Rightarrow> Inl (Errorf ''input %q has no remote port definition'' [ArgS name])
      | Some def \<Rightarrow>
          (let meta = Metadata def
           in case validatePhase1InputPort ''consumer input'' (pd_Name def) meta of
                Some err \<Rightarrow> Inl err
              | None \<Rightarrow>
                  (case marshal value of
                     Inl err \<Rightarrow> Inl (Errorf ''encode input %q json: %w'' [ArgS name, ArgE err])
                   | Inr payload \<Rightarrow>
                       if int (length payload) > pm_MaxPayloadBytes meta
                       then Inl (Errorf ''input %q json payload size %d exceeds max payload bytes %d''
                         [ArgS name, ArgI (int (length payload)), ArgI (pm_MaxPayloadBytes meta)])
                       else (case check_source name def payload (fmlookup sourceDefs name) of
                         Some err \<Rightarrow> Inl err
                       | None \<Rightarrow> Inr
                           \<lparr>vl_type = pd_Type def, vl_encoding = ''json'', vl_transport = pm_Transport meta,
                            vl_sensitive = pm_Sensitive meta, vl_reportable = False, vl_payload = payload,
                            vl_reportPayload = []\<rparr>))))"

fun encode_inputs :: "('v \<Rightarrow> string result) \<Rightarrow> PortDef gomap \<Rightarrow> PortDef gomap \<Rightarrow> 'v gomap \<Rightarrow> string list \<Rightarrow>
    PortValue gomap \<Rightarrow> PortValue gomap result" where
  "encode_inputs marshal defByName sourceDefs inputs [] out = Inr out"
| "encode_inputs marshal defByName sourceDefs inputs (name # names) out =
     (case encode_input marshal defByName sourceDefs name (the (fmlookup inputs name)) of
        Inl err \<Rightarrow> Inl err
      | Inr pv \<Rightarrow> encode_inputs marshal defByName sourceDefs inputs names (fmupd name pv out))"

definition encodeInputPortValues :: "('v \<Rightarrow> string result) \<Rightarrow> string list \<Rightarrow> PortDef list \<Rightarrow> PortDef gomap \<Rightarrow>
    'v gomap \<Rightarrow> PortValue gomap result" where
  "encodeInputPortValues marshal names defs sourceDefs inputs =
     (if map_len inputs = 0 then Inr fmempty
      else encode_inputs marshal (map_collect pd_Name id defs fmempty) sourceDefs inputs names fmempty)"

section \<open>What passes the gate\<close>

text \<open>A port whose values may cross: inline data that is not sensitive and may be JSON.\<close>

definition may_cross :: "PortMeta \<Rightarrow> bool" where
  "may_cross meta \<longleftrightarrow>
     pm_Boundary meta = PortBoundaryData \<and> pm_Transport meta = PortTransportInline \<and>
     \<not> pm_Sensitive meta \<and> (pm_Encodings meta = [] \<or> ''json'' \<in> set (pm_Encodings meta))"

lemma validatePhase1InputPort_None: "validatePhase1InputPort role name meta = None \<longleftrightarrow> may_cross meta"
  by (auto simp: validatePhase1InputPort_def may_cross_def)

definition safe_value :: "PortDef gomap \<Rightarrow> PortDef gomap \<Rightarrow> string \<Rightarrow> PortValue \<Rightarrow> bool" where
  "safe_value defByName sourceDefs name pv \<longleftrightarrow>
     (case fmlookup defByName name of
        None \<Rightarrow> False
      | Some def \<Rightarrow>
          may_cross (Metadata def) \<and> vl_type pv = pd_Type def \<and> vl_encoding pv = ''json'' \<and>
          vl_transport pv = PortTransportInline \<and> \<not> vl_sensitive pv \<and>
          int (length (vl_payload pv)) \<le> pm_MaxPayloadBytes (Metadata def) \<and>
          (case fmlookup sourceDefs name of
             None \<Rightarrow> True
           | Some src \<Rightarrow> pd_Type src = pd_Type def \<and> may_cross (Metadata src) \<and>
               int (length (vl_payload pv)) \<le> pm_MaxPayloadBytes (Metadata src)))"

lemma encode_input_safe:
  "encode_input marshal defByName sourceDefs name value = Inr pv \<Longrightarrow>
   safe_value defByName sourceDefs name pv \<and> marshal value = Inr (vl_payload pv)"
  by (auto simp: encode_input_def safe_value_def check_source_def Let_def validatePhase1InputPort_None
      may_cross_def split: option.splits sum.splits if_splits)

lemma encode_inputs_lookup:
  "encode_inputs marshal defByName sourceDefs inputs names out = Inr out' \<Longrightarrow>
   fmlookup out' name = Some pv \<Longrightarrow>
   fmlookup out name = Some pv \<or>
   name \<in> set names \<and> encode_input marshal defByName sourceDefs name (the (fmlookup inputs name)) = Inr pv"
proof (induction names arbitrary: out)
  case (Cons a names)
  then obtain x where x: "encode_input marshal defByName sourceDefs a (the (fmlookup inputs a)) = Inr x"
    "encode_inputs marshal defByName sourceDefs inputs names (fmupd a x out) = Inr out'"
    by (auto split: sum.splits)
  from Cons.IH [OF x(2) Cons.prems(2)] x(1) show ?case by (auto split: if_splits)
qed simp

lemma encode_inputs_dom:
  "encode_inputs marshal defByName sourceDefs inputs names out = Inr out' \<Longrightarrow>
   fset (fmdom out') = fset (fmdom out) \<union> set names"
  by (induction names arbitrary: out) (auto split: sum.splits)

lemma encode_inputs_total:
  "\<forall>n\<in>set names. \<exists>pv. encode_input marshal defByName sourceDefs n (the (fmlookup inputs n)) = Inr pv \<Longrightarrow>
   \<exists>out'. encode_inputs marshal defByName sourceDefs inputs names out = Inr out'"
  by (induction names arbitrary: out) fastforce+

section \<open>Collecting the inputs\<close>

text \<open>\<open>collectInputs\<close>: an optional input that cannot be read is left out.\<close>

fun collectInputs :: "(string \<Rightarrow> 'v result) \<Rightarrow> PortDef list \<Rightarrow> 'v gomap \<Rightarrow> 'v gomap result" where
  "collectInputs env_Input [] inputs = Inr inputs"
| "collectInputs env_Input (def # defs) inputs =
     (case env_Input (pd_Name def) of
        Inl err \<Rightarrow> if pd_Optional def then collectInputs env_Input defs inputs else Inl err
      | Inr value \<Rightarrow> collectInputs env_Input defs (fmupd (pd_Name def) value inputs))"

fun source_defs :: "(string \<Rightarrow> PortDef option) \<Rightarrow> string list \<Rightarrow> PortDef gomap \<Rightarrow> PortDef gomap result" where
  "source_defs env_Source [] out = Inr out"
| "source_defs env_Source (name # names) out =
     (case env_Source name of
        None \<Rightarrow> Inl (Errorf ''input %q source port metadata not found'' [ArgS name])
      | Some def \<Rightarrow> source_defs env_Source names (fmupd name def out))"

text \<open>\<open>env_Source = None\<close>: the environment does not provide source ports.\<close>

definition collectInputSourceDefs :: "(string \<Rightarrow> PortDef option) option \<Rightarrow> string list \<Rightarrow> 'v gomap \<Rightarrow> PortDef gomap result" where
  "collectInputSourceDefs env_Source names inputs =
     (case env_Source of
        None \<Rightarrow> Inr fmempty
      | Some src \<Rightarrow> if map_len inputs = 0 then Inr fmempty else source_defs src names fmempty)"

lemma collectInputs_lookup:
  "collectInputs env_Input defs inputs = Inr inputs' \<Longrightarrow> fmlookup inputs' n = Some v \<Longrightarrow>
   fmlookup inputs n = Some v \<or> n \<in> pd_Name ` set defs \<and> env_Input n = Inr v"
  by (induction defs arbitrary: inputs) (fastforce split: sum.splits if_splits)+

lemma collectInputs_keeps:
  "collectInputs env_Input defs inputs = Inr inputs' \<Longrightarrow> fmlookup inputs n \<noteq> None \<Longrightarrow> fmlookup inputs' n \<noteq> None"
  by (induction defs arbitrary: inputs) (fastforce split: sum.splits if_splits)+

lemma collectInputs_required:
  "collectInputs env_Input defs inputs = Inr inputs' \<Longrightarrow> def \<in> set defs \<Longrightarrow> \<not> pd_Optional def \<Longrightarrow>
   fmlookup inputs' (pd_Name def) \<noteq> None"
proof (induction defs arbitrary: inputs)
  case (Cons d defs)
  show ?case
  proof (cases "def = d")
    case True
    with Cons.prems obtain v where "collectInputs env_Input defs (fmupd (pd_Name d) v inputs) = Inr inputs'"
      by (auto split: sum.splits)
    from collectInputs_keeps [OF this, of "pd_Name d"] True show ?thesis by simp
  next
    case False
    with Cons show ?thesis by (auto split: sum.splits if_splits)
  qed
qed simp

lemma source_defs_lookup:
  "source_defs src names out = Inr out' \<Longrightarrow> n \<in> set names \<Longrightarrow> fmlookup out' n = src n \<and> src n \<noteq> None"
proof (induction names arbitrary: out)
  case (Cons m names)
  have keep: "source_defs src ns o1 = Inr o2 \<Longrightarrow> n \<notin> set ns \<Longrightarrow> fmlookup o2 n = fmlookup o1 n" for ns o1 o2
    by (induction ns arbitrary: o1) (auto split: option.splits)
  from Cons.prems(1) obtain d where d: "src m = Some d" "source_defs src names (fmupd m d out) = Inr out'"
    by (auto split: option.splits)
  show ?case
  proof (cases "n \<in> set names")
    case True
    with Cons.IH [OF d(2)] show ?thesis by simp
  next
    case False
    with keep [OF d(2)] d(1) Cons.prems(2) show ?thesis by auto
  qed
qed simp

text \<open>All inputs cross, each through the gate and as its encoding.\<close>

lemma inputs_encoded:
  assumes "encodeInputPortValues marshal (map_keys inputs) defs sourceDefs inputs = Inr out"
  shows "fset (fmdom out) = fset (fmdom inputs) \<and>
    (\<forall>name pv. fmlookup out name = Some pv \<longrightarrow>
       safe_value (map_collect pd_Name id defs fmempty) sourceDefs name pv \<and>
       (\<exists>value. fmlookup inputs name = Some value \<and> marshal value = Inr (vl_payload pv)))"
proof (cases "map_len inputs = 0")
  case True
  with assms show ?thesis by (auto simp: encodeInputPortValues_def)
next
  case False
  with assms have e: "encode_inputs marshal (map_collect pd_Name id defs fmempty) sourceDefs inputs (map_keys inputs) fmempty = Inr out"
    by (simp add: encodeInputPortValues_def)
  have "safe_value (map_collect pd_Name id defs fmempty) sourceDefs name pv \<and>
      (\<exists>value. fmlookup inputs name = Some value \<and> marshal value = Inr (vl_payload pv))"
    if pv: "fmlookup out name = Some pv" for name pv
  proof -
    from encode_inputs_lookup [OF e pv] have n: "name \<in> fset (fmdom inputs)"
      and v: "encode_input marshal (map_collect pd_Name id defs fmempty) sourceDefs name (the (fmlookup inputs name)) = Inr pv"
      by simp_all
    from encode_input_safe [OF v] n show ?thesis by (auto simp: fmlookup_dom_iff)
  qed
  with encode_inputs_dom [OF e] show ?thesis by simp
qed

section \<open>The gate\<close>

text \<open>
  C29: Inputs crossing to a plugin. If the inputs of a remote unit can be encoded, every input crosses, and each value
  that crosses belongs to a port that is inline, not sensitive and JSON, at its producer too, has the
  type of the port, is no longer than either port allows, and is the encoding of the value read.
\<close>

theorem inputs_cross_safely:
  assumes "encodeInputPortValues marshal (map_keys inputs) defs sourceDefs inputs = Inr out"
  shows "fset (fmdom out) = fset (fmdom inputs) \<and>
    (\<forall>name pv. fmlookup out name = Some pv \<longrightarrow>
       safe_value (map_collect pd_Name id defs fmempty) sourceDefs name pv \<and>
       (\<exists>value. fmlookup inputs name = Some value \<and> marshal value = Inr (vl_payload pv)))"
  by (rule inputs_encoded [OF assms])

definition gate_port :: PortDef where
  "gate_port = \<lparr>pd_Name = ''in'', pd_Type = ''t'', pd_Optional = False, pd_Meta = empty_PortMeta\<rparr>"

theorem inputs_cross_safely_witness:
  "safe_value (map_collect pd_Name id [gate_port] fmempty) fmempty ''in''
     (the (fmlookup (case encodeInputPortValues Inr [''in''] [gate_port] fmempty (fmupd ''in'' ''1'' fmempty) of
        Inr out \<Rightarrow> out | Inl _ \<Rightarrow> fmempty) ''in''))"
proof -
  have keys: "map_keys (fmupd ''in'' ''1'' fmempty) = [''in'']" by (rule map_keys_unique) auto
  have "\<exists>out pv. encodeInputPortValues Inr [''in''] [gate_port] fmempty (fmupd ''in'' ''1'' fmempty) = Inr out \<and>
      fmlookup out ''in'' = Some pv"
    by (simp add: encodeInputPortValues_def map_len_def keys encode_input_def gate_port_def Let_def
        validatePhase1InputPort_def check_source_def Metadata_def empty_PortMeta_def wk_simps DefaultInlinePortMaxPayloadBytes_def)
  then obtain out pv where out: "encodeInputPortValues Inr [''in''] [gate_port] fmempty (fmupd ''in'' ''1'' fmempty) = Inr out"
    and pv: "fmlookup out ''in'' = Some pv" by blast
  have "encodeInputPortValues Inr (map_keys (fmupd ''in'' ''1'' fmempty)) [gate_port] fmempty (fmupd ''in'' ''1'' fmempty) = Inr out"
    by (simp only: keys out)
  from inputs_cross_safely [OF this] pv have "safe_value (map_collect pd_Name id [gate_port] fmempty) fmempty ''in'' pv"
    by blast
  then show ?thesis by (simp only: out pv sum.case option.sel)
qed

end
