(* ===== verification/Remote_Run.thy ===== *)
theory Remote_Run
  imports Engine Port_Gate
begin

text \<open>
  One foreground run of a unit in a plugin process, seen from the host:
  \<open>StdioClient.Run\<close>, \<open>handleRunLifecycleFrame\<close>, \<open>runArtifactState\<close>, \<open>setOutputFromFrame\<close> and
  \<open>applyMetricFlush\<close> of \<open>benchkit/pluginhost/stdio_client.go\<close>. The frames the plugin sends for the
  request arrive as a list; the host's side is a program of \<open>RunEnv\<close> calls (\<open>uprog\<close>), so that it runs
  inside the kernel model like any other unit. Sending a frame, writing and closing a file and
  \<open>json.Unmarshal\<close> are the calls of \<open>RemoteIO\<close>. The message text of a protocol error is represented
  by the error it renders.
\<close>

section \<open>Frames\<close>

datatype frameBody =
    FHandshakeRequest string string string
  | FHandshakeResponse "PbManifest option" string
  | FListUnitsRequest
  | FListUnitsResponse "PbUnit option list"
  | FValidateRequest string string string
  | FValidateResponse
  | FPlanRequest string string string int int string
  | FPlanResponse string
  | FRunRequest string string string int int string "PortValue gomap"
  | FTerminalStatus bool "(string \<times> goerr) option"
  | FStartRequest string string string int int string "PortValue gomap"
  | FStartResponse string
  | FStopRequest string
  | FStopResponse
  | FSetOutput string "PortValue option"
  | FMetricFlush "MetricSnapshot list"
  | FArtifactOpen string
  | FArtifactOpened string string
  | FArtifactChunk string int string
  | FArtifactClose string
  | FArtifactClosed string int
  | FError string goerr
  | FBackgroundEvent string string "(string \<times> goerr) option"

record Frame =
  fr_RequestId :: string
  fr_RunId :: string
  fr_UnitInstanceId :: string
  fr_Body :: frameBody

record 'w RemoteIO =
  io_send :: "Frame \<Rightarrow> 'w \<Rightarrow> goerr option \<times> 'w"
  io_fileWrite :: "string \<Rightarrow> 'w \<Rightarrow> (int \<times> goerr option) \<times> 'w"
  io_fileClose :: "'w \<Rightarrow> goerr option \<times> 'w"
  io_unmarshal :: "string \<Rightarrow> json result"

definition pluginRPCError :: "(string \<times> goerr) option \<Rightarrow> goerr" where
  "pluginRPCError err =
     (case err of
        None \<Rightarrow> Errorf ''plugin error'' []
      | Some (code, message) \<Rightarrow> Errorf ''plugin error %s: %s'' [ArgS code, ArgE message])"

section \<open>Values received from a plugin\<close>

text \<open>A decoded value, or \<open>remoteReportableOutput\<close>: the value with what reports may show of it.\<close>

datatype rvalue =
    Decoded json
  | RemoteReportable json json

fun rvalue_OutputValue :: "rvalue \<Rightarrow> rvalue option" where
  "rvalue_OutputValue (RemoteReportable v r) = Some (Decoded v)"
| "rvalue_OutputValue (Decoded v) = None"

fun rvalue_ReportOutput :: "rvalue \<Rightarrow> json option" where
  "rvalue_ReportOutput (RemoteReportable v r) = Some r"
| "rvalue_ReportOutput (Decoded v) = None"

definition remote_ops :: "(rvalue, 'w) AnyOps" where
  "remote_ops = \<lparr>any_OutputValue = rvalue_OutputValue, any_ReportOutput = rvalue_ReportOutput,
     any_Close = (\<lambda>_. None)\<rparr>"

text \<open>\<open>setOutputFromFrame\<close> up to the call of \<open>SetOutput\<close>: the value to store.\<close>

definition setOutputFromFrame :: "(string \<Rightarrow> json result) \<Rightarrow> string \<Rightarrow> PortValue option \<Rightarrow> rvalue result" where
  "setOutputFromFrame unmarshal name value =
     (let decoded =
        (case value of
           None \<Rightarrow> Inr JNull
         | Some v \<Rightarrow> if vl_payload v = [] then Inr JNull
             else (case unmarshal (vl_payload v) of
               Inl err \<Rightarrow> Inl (Errorf ''decode output %q json: %w'' [ArgS name, ArgE err])
             | Inr j \<Rightarrow> Inr j))
      in case decoded of
           Inl err \<Rightarrow> Inl err
         | Inr d \<Rightarrow>
             (case value of
                None \<Rightarrow> Inr (Decoded d)
              | Some v \<Rightarrow>
                  if vl_reportable v \<and> \<not> vl_sensitive v then
                    (if vl_reportPayload v = [] then Inr (RemoteReportable d d)
                     else case unmarshal (vl_reportPayload v) of
                       Inl err \<Rightarrow> Inl (Errorf ''decode output %q report json: %w'' [ArgS name, ArgE err])
                     | Inr r \<Rightarrow> Inr (RemoteReportable d r))
                  else Inr (Decoded d)))"

text \<open>Nothing of a sensitive output, or of one not marked reportable, can reach a report.\<close>

lemma setOutputFromFrame_sensitive:
  assumes "setOutputFromFrame unmarshal name (Some v) = Inr stored" and "vl_sensitive v \<or> \<not> vl_reportable v"
  shows "any_ReportOutput remote_ops stored = None"
  using assms by (auto simp: setOutputFromFrame_def remote_ops_def Let_def split: sum.splits if_splits)

section \<open>Artifacts on the host\<close>

record hostArtifactWriter =
  ha_name :: string
  ha_writer :: nat
  ha_size :: int

record runArtifactState =
  ra_next :: int
  ra_writers :: "hostArtifactWriter gomap"

definition newRunArtifactState :: runArtifactState where
  "newRunArtifactState = \<lparr>ra_next = 0, ra_writers = fmempty\<rparr>"

definition artifact_opened :: "string \<Rightarrow> nat \<Rightarrow> runArtifactState \<Rightarrow> string \<times> runArtifactState" where
  "artifact_opened name h s =
     (let n = ra_next s + 1; handle = numbered ''artifact'' n
      in (handle, s\<lparr>ra_next := n,
            ra_writers := fmupd handle \<lparr>ha_name = name, ha_writer = h, ha_size = 0\<rparr> (ra_writers s)\<rparr>))"

definition artifact_wrote :: "string \<Rightarrow> hostArtifactWriter \<Rightarrow> int \<Rightarrow> runArtifactState \<Rightarrow> runArtifactState" where
  "artifact_wrote handle w n s =
     s\<lparr>ra_writers := fmupd handle (w\<lparr>ha_size := ha_size w + n\<rparr>) (ra_writers s)\<rparr>"

definition write_outcome :: "string \<Rightarrow> string \<Rightarrow> int \<Rightarrow> goerr option \<Rightarrow> goerr option" where
  "write_outcome name data n err =
     (case err of
        Some e \<Rightarrow> Some (Errorf ''write artifact %q: %w'' [ArgS name, ArgE e])
      | None \<Rightarrow>
          if n \<noteq> int (length data)
          then Some (Errorf ''write artifact %q: short write %d of %d'' [ArgS name, ArgI n, ArgI (int (length data))])
          else None)"

definition artifact_closed :: "string \<Rightarrow> runArtifactState \<Rightarrow> runArtifactState" where
  "artifact_closed handle s = s\<lparr>ra_writers := fmdrop handle (ra_writers s)\<rparr>"

text \<open>The invariant: handles are numbered up to \<open>ra_next\<close>, so a new handle is unused.\<close>

definition artifacts_ok :: "runArtifactState \<Rightarrow> bool" where
  artifacts_ok_iff: "artifacts_ok s \<longleftrightarrow> 0 \<le> ra_next s \<and>
     (\<forall>h. fmlookup (ra_writers s) h \<noteq> None \<longrightarrow>
        (\<exists>n. 1 \<le> n \<and> n \<le> ra_next s \<and> h = numbered ''artifact'' n))"

lemma artifacts_ok_new: "artifacts_ok newRunArtifactState"
  by (simp add: artifacts_ok_iff newRunArtifactState_def)

lemma artifact_opened_fresh:
  "artifacts_ok s \<Longrightarrow> fmlookup (ra_writers s) (fst (artifact_opened name h s)) = None"
  by (auto simp: artifacts_ok_iff artifact_opened_def Let_def)

lemma artifacts_ok_opened: "artifacts_ok s \<Longrightarrow> artifacts_ok (snd (artifact_opened name h s))"
  by (fastforce simp: artifacts_ok_iff artifact_opened_def Let_def)

lemma artifacts_ok_wrote:
  "artifacts_ok s \<Longrightarrow> fmlookup (ra_writers s) handle \<noteq> None \<Longrightarrow> artifacts_ok (artifact_wrote handle w n s)"
  by (auto simp: artifacts_ok_iff artifact_wrote_def)

lemma artifacts_ok_closed: "artifacts_ok s \<Longrightarrow> artifacts_ok (artifact_closed handle s)"
  by (auto simp: artifacts_ok_iff artifact_closed_def fmlookup_drop)

section \<open>The lifecycle frames\<close>

type_synonym 'w rprog = "(rvalue, 'w, goerr option) uprog"

definition act :: "('w \<Rightarrow> 'a \<times> 'w) \<Rightarrow> ('a \<Rightarrow> 'w rprog) \<Rightarrow> 'w rprog" where
  "act f k = Act (\<lambda>w. snd (f w)) (\<lambda>w. k (fst (f w)))"

record runIds =
  ri_request :: string
  ri_run :: string
  ri_unit :: string

definition reply :: "runIds \<Rightarrow> frameBody \<Rightarrow> Frame" where
  "reply ids body = \<lparr>fr_RequestId = ri_request ids, fr_RunId = ri_run ids, fr_UnitInstanceId = ri_unit ids, fr_Body = body\<rparr>"

definition writeRunArtifactError :: "'w RemoteIO \<Rightarrow> runIds \<Rightarrow> goerr \<Rightarrow> (goerr \<Rightarrow> 'w rprog) \<Rightarrow> 'w rprog" where
  "writeRunArtifactError io ids err k =
     act (io_send io (reply ids (FError ''ARTIFACT_ERROR'' err)))
       (\<lambda>writeErr. case writeErr of
          None \<Rightarrow> k err
        | Some we \<Rightarrow> k (the (errors_Join [Some err, Some (Errorf ''write artifact error response: %w'' [ArgE we])])))"

fun flush_snapshots :: "MetricSnapshot list \<Rightarrow> 'w rprog \<Rightarrow> 'w rprog" where
  "flush_snapshots [] p = p"
| "flush_snapshots (m # ms) p =
     (if ms_Count m \<le> 0 then flush_snapshots ms p else RecordSnapshot m (flush_snapshots ms p))"

text \<open>The continuation gets: handled, error, artifact state.\<close>

definition handleRunLifecycleFrame :: "'w RemoteIO \<Rightarrow> runIds \<Rightarrow> runArtifactState \<Rightarrow> frameBody \<Rightarrow>
    (bool \<Rightarrow> goerr option \<Rightarrow> runArtifactState \<Rightarrow> 'w rprog) \<Rightarrow> 'w rprog" where
  "handleRunLifecycleFrame io ids art body k =
     (case body of
        FSetOutput name value \<Rightarrow>
          (case setOutputFromFrame (io_unmarshal io) name value of
             Inl err \<Rightarrow> k True (Some err) art
           | Inr stored \<Rightarrow> SetOutput name stored (k True None art))
      | FMetricFlush ms \<Rightarrow> flush_snapshots ms (k True None art)
      | FArtifactOpen name \<Rightarrow>
          OpenArtifact name (\<lambda>opened. case opened of
             Inl err \<Rightarrow> writeRunArtifactError io ids (Errorf ''open artifact %q: %w'' [ArgS name, ArgE err])
               (\<lambda>e. k True (Some e) art)
           | Inr h \<Rightarrow>
               (case artifact_opened name h art of
                  (handle, art) \<Rightarrow>
                    act (io_send io (reply ids (FArtifactOpened name handle)))
                      (\<lambda>sent. case sent of
                         Some err \<Rightarrow> k True (Some (Errorf ''write artifact opened response: %w'' [ArgE err])) art
                       | None \<Rightarrow> k True None art)))
      | FArtifactChunk handle sequence data \<Rightarrow>
          (case fmlookup (ra_writers art) handle of
             None \<Rightarrow> writeRunArtifactError io ids (Errorf ''unknown artifact handle %q'' [ArgS handle])
               (\<lambda>e. k True (Some e) art)
           | Some w \<Rightarrow>
               act (io_fileWrite io data)
                 (\<lambda>(n, err). WriteArtifact (ha_writer w) n
                    (case write_outcome (ha_name w) data n err of
                       Some e \<Rightarrow> writeRunArtifactError io ids e (\<lambda>e. k True (Some e) (artifact_wrote handle w n art))
                     | None \<Rightarrow> k True None (artifact_wrote handle w n art))))
      | FArtifactClose handle \<Rightarrow>
          (case fmlookup (ra_writers art) handle of
             None \<Rightarrow> writeRunArtifactError io ids (Errorf ''unknown artifact handle %q'' [ArgS handle])
               (\<lambda>e. k True (Some e) art)
           | Some w \<Rightarrow>
               act (io_fileClose io)
                 (\<lambda>closeErr. CloseArtifact (ha_writer w) closeErr
                    (\<lambda>r. case r of
                       Some e \<Rightarrow> writeRunArtifactError io ids (Errorf ''close artifact %q: %w'' [ArgS (ha_name w), ArgE e])
                         (\<lambda>e. k True (Some e) (artifact_closed handle art))
                     | None \<Rightarrow>
                         act (io_send io (reply ids (FArtifactClosed handle (ha_size w))))
                           (\<lambda>sent. case sent of
                              Some err \<Rightarrow> k True (Some (Errorf ''write artifact closed response: %w'' [ArgE err])) (artifact_closed handle art)
                            | None \<Rightarrow> k True None (artifact_closed handle art)))))
      | _ \<Rightarrow> k False None art)"

fun close_handles :: "'w RemoteIO \<Rightarrow> nat list \<Rightarrow> 'w rprog \<Rightarrow> 'w rprog" where
  "close_handles io [] p = p"
| "close_handles io (h # hs) p = act (io_fileClose io) (\<lambda>err. CloseArtifact h err (\<lambda>_. close_handles io hs p))"

definition closeAll :: "'w RemoteIO \<Rightarrow> runArtifactState \<Rightarrow> 'w rprog \<Rightarrow> 'w rprog" where
  "closeAll io art p =
     close_handles io (map (\<lambda>h. ha_writer (the (fmlookup (ra_writers art) h))) (map_keys (ra_writers art))) p"

section \<open>The run\<close>

definition errStdioClientClosed :: goerr where
  "errStdioClientClosed = Errorf ''stdio plugin client closed'' []"

definition finish_response :: "frameBody \<Rightarrow> goerr option" where
  "finish_response body =
     (case body of
        FTerminalStatus ok err \<Rightarrow>
          (if ok then None else if err \<noteq> None then Some (pluginRPCError err)
           else Some (Errorf ''plugin run failed'' []))
      | FError code message \<Rightarrow> Some (pluginRPCError (Some (code, message)))
      | _ \<Rightarrow> Some (Errorf ''unexpected run response frame %T'' []))"

text \<open>A list that ends before the run does is a waiter that was closed.\<close>

fun run_frames :: "'w RemoteIO \<Rightarrow> runIds \<Rightarrow> (goerr + Frame) list \<Rightarrow> runArtifactState \<Rightarrow> 'w rprog" where
  "run_frames io ids [] art =
     closeAll io art (Return (Some (Errorf ''%s request closed: %w'' [ArgS ''run'', ArgE errStdioClientClosed])))"
| "run_frames io ids (Inl err # rest) art =
     closeAll io art (Return (Some (Errorf ''read %s response: %w'' [ArgS ''run'', ArgE err])))"
| "run_frames io ids (Inr frame # rest) art =
     (if fr_RequestId frame \<noteq> ri_request ids
      then closeAll io art (Return (Some (Errorf ''run response request id = %q, want %q''
             [ArgS (fr_RequestId frame), ArgS (ri_request ids)])))
      else handleRunLifecycleFrame io ids art (fr_Body frame)
        (\<lambda>handled err art.
           if handled then
             (case err of
                Some e \<Rightarrow> closeAll io art (Return (Some e))
              | None \<Rightarrow> run_frames io ids rest art)
           else closeAll io art (Return (finish_response (fr_Body frame)))))"

definition host_Run :: "'w RemoteIO \<Rightarrow> runIds \<Rightarrow> (goerr + Frame) list \<Rightarrow> 'w rprog" where
  "host_Run io ids frames = run_frames io ids frames newRunArtifactState"

section \<open>Sensitive outputs\<close>

text \<open>
  Secrets stay out of reports. A value a plugin sends for an output it marks sensitive, or does not
  mark reportable, is stored without a report form, so no report of the run can show it.
\<close>

theorem sensitive_never_reported:
  assumes "setOutputFromFrame unmarshal name (Some v) = Inr stored" and "vl_sensitive v \<or> \<not> vl_reportable v"
  shows "any_ReportOutput remote_ops stored = None"
  by (rule setOutputFromFrame_sensitive [OF assms])

definition secret_value :: PortValue where
  "secret_value = \<lparr>vl_type = ''t'', vl_encoding = ''json'', vl_transport = PortTransportInline, vl_sensitive = True,
     vl_reportable = True, vl_payload = ''1'', vl_reportPayload = ''1''\<rparr>"

theorem sensitive_never_reported_witness:
  "any_ReportOutput remote_ops (case setOutputFromFrame (\<lambda>_. Inr (JInt 1)) ''token'' (Some secret_value) of
     Inr stored \<Rightarrow> stored | Inl _ \<Rightarrow> RemoteReportable JNull JNull) = None"
proof -
  have s: "\<exists>stored. setOutputFromFrame (\<lambda>_. Inr (JInt 1)) ''token'' (Some secret_value) = Inr stored"
    by (simp add: setOutputFromFrame_def secret_value_def Let_def wk_simps)
  then obtain stored where st: "setOutputFromFrame (\<lambda>_. Inr (JInt 1)) ''token'' (Some secret_value) = Inr stored" ..
  have "vl_sensitive secret_value \<or> \<not> vl_reportable secret_value" by (simp add: secret_value_def)
  from sensitive_never_reported [OF st this] show ?thesis by (simp add: st)
qed

end
