(* ===== verification/Host_Client.thy ===== *)
theory Host_Client
  imports Remote_Run
begin

text \<open>
  \<open>StdioClient\<close> of \<open>benchkit/pluginhost/stdio_client.go\<close>: the requests and background tasks a host
  has open with one plugin process. Waiters and tasks are objects shared by the goroutines that wait
  for them and the maps of the client, so they live in two stores (\<open>hc_pool\<close>, \<open>hc_tasks\<close>) and the maps hold
  their indices. Every operation is a section the source runs under \<open>reqMu\<close> or \<open>stateMu\<close>, or a loop of
  such sections on objects no other goroutine can reach any more. The read loop, which first looks a
  waiter up and then delivers to it, is two operations, since the waiter may be unregistered in
  between. What a \<open>select\<close> with several ready cases picks is an argument.
\<close>

section \<open>Waiters\<close>

datatype readResult = RFrame Frame | RErr goerr

record requestWaiter =
  wt_results :: "readResult list"
  wt_done :: bool

definition queueCapacity :: nat where
  "queueCapacity = 64"

datatype offer = Sent | WasDone | QueueFull

text \<open>The non-blocking select of \<open>deliverWaiterResult\<close> and \<open>failAllWaiters\<close>.\<close>

definition offer_result :: "bool \<Rightarrow> readResult \<Rightarrow> requestWaiter \<Rightarrow> offer \<times> requestWaiter" where
  "offer_result pick r w =
     (if length (wt_results w) < queueCapacity \<and> (\<not> wt_done w \<or> pick)
      then (Sent, w\<lparr>wt_results := wt_results w @ [r]\<rparr>)
      else if wt_done w then (WasDone, w) else (QueueFull, w))"

definition waiter_close :: "requestWaiter \<Rightarrow> requestWaiter" where
  "waiter_close w = w\<lparr>wt_done := True\<rparr>"

definition waiter_fail :: "goerr \<Rightarrow> requestWaiter \<Rightarrow> requestWaiter" where
  "waiter_fail err w = waiter_close (snd (offer_result False (RErr err) w))"

section \<open>Background tasks\<close>

record remoteBackgroundTask =
  rt_taskID :: string
  rt_startRequestID :: string
  rt_runID :: string
  rt_unitName :: string
  rt_artifacts :: runArtifactState
  rt_done :: "goerr option list"
  rt_doneSignal :: bool
  rt_completeOnce :: bool
  rt_cleanupOnce :: bool
  rt_completed :: bool
  rt_doneCompleted :: bool
  rt_stopping :: bool

definition new_task :: "string \<Rightarrow> string \<Rightarrow> string \<Rightarrow> remoteBackgroundTask" where
  "new_task rid runID unitName =
     \<lparr>rt_taskID = [], rt_startRequestID = rid, rt_runID = runID, rt_unitName = unitName,
      rt_artifacts = newRunArtifactState, rt_done = [], rt_doneSignal = False, rt_completeOnce = False,
      rt_cleanupOnce = False, rt_completed = False, rt_doneCompleted = False, rt_stopping = False\<rparr>"

definition completeDone :: "goerr option \<Rightarrow> remoteBackgroundTask \<Rightarrow> remoteBackgroundTask" where
  "completeDone err t =
     (if rt_completeOnce t then t
      else t\<lparr>rt_completeOnce := True, rt_doneCompleted := True, rt_done := rt_done t @ [err], rt_doneSignal := True\<rparr>)"

interpretation task_done: once_closer "\<lambda>err t. (rt_done (completeDone err t), completeDone err t)" rt_completeOnce
  by unfold_locales (simp_all add: completeDone_def)

section \<open>The client\<close>

record hostClient =
  hc_nextSeq :: int
  hc_closed :: bool
  hc_killed :: bool
  hc_pool :: "requestWaiter list"
  hc_waiters :: "nat gomap"
  hc_tasks :: "remoteBackgroundTask list"
  hc_bgTasks :: "nat gomap"
  hc_bgStarts :: "nat gomap"
  hc_pending :: "(nat \<times> Frame) option"
  hc_pumpDone :: "goerr option"

definition new_client :: hostClient where
  "new_client =
     \<lparr>hc_nextSeq = 0, hc_closed = False, hc_killed = False, hc_pool = [], hc_waiters = fmempty,
      hc_tasks = [], hc_bgTasks = fmempty, hc_bgStarts = fmempty, hc_pending = None, hc_pumpDone = None\<rparr>"

definition nextRequestID :: "string \<Rightarrow> hostClient \<Rightarrow> string \<times> hostClient" where
  "nextRequestID pre c = (let n = hc_nextSeq c + 1 in (numbered pre n, c\<lparr>hc_nextSeq := n\<rparr>))"

text \<open>\<open>killed\<close> says whether \<open>Process.Kill\<close> succeeds.\<close>

definition shutdown :: "bool \<Rightarrow> bool \<Rightarrow> hostClient \<Rightarrow> hostClient" where
  "shutdown kill killed c =
     c\<lparr>hc_killed := (hc_killed c \<or> kill \<and> killed), hc_closed := True\<rparr>"

definition client_writeFrame :: "(Frame \<Rightarrow> goerr option) \<Rightarrow> Frame \<Rightarrow> hostClient \<Rightarrow> goerr option" where
  "client_writeFrame write frame c = (if hc_closed c then Some errStdioClientClosed else write frame)"

definition map_task :: "nat \<Rightarrow> (remoteBackgroundTask \<Rightarrow> remoteBackgroundTask) \<Rightarrow> hostClient \<Rightarrow> hostClient" where
  "map_task i f c = c\<lparr>hc_tasks := (hc_tasks c)[i := f (hc_tasks c ! i)]\<rparr>"

definition map_waiter :: "nat \<Rightarrow> (requestWaiter \<Rightarrow> requestWaiter) \<Rightarrow> hostClient \<Rightarrow> hostClient" where
  "map_waiter i f c = c\<lparr>hc_pool := (hc_pool c)[i := f (hc_pool c ! i)]\<rparr>"

text \<open>The objects a map refers to; the source ranges over the map in any order.\<close>

definition refs_of :: "nat gomap \<Rightarrow> nat list" where
  "refs_of m = map (\<lambda>k. the (fmlookup m k)) (map_keys m)"

lemma in_refs_of: "i \<in> set (refs_of m) \<longleftrightarrow> (\<exists>k. fmlookup m k = Some i)"
  by (force simp: refs_of_def fmlookup_dom_iff)

section \<open>Registering waiters\<close>

definition registerWaiter :: "string \<Rightarrow> hostClient \<Rightarrow> nat \<times> hostClient" where
  "registerWaiter rid c =
     (length (hc_pool c),
      c\<lparr>hc_pool := hc_pool c @ [\<lparr>wt_results = [], wt_done = False\<rparr>],
        hc_waiters := fmupd rid (length (hc_pool c)) (hc_waiters c)\<rparr>)"

definition unregisterWaiter :: "string \<Rightarrow> hostClient \<Rightarrow> hostClient" where
  "unregisterWaiter rid c =
     (case fmlookup (hc_waiters c) rid of
        None \<Rightarrow> c
      | Some i \<Rightarrow> map_waiter i waiter_close (c\<lparr>hc_waiters := fmdrop rid (hc_waiters c)\<rparr>))"

definition failAllWaiters :: "goerr \<Rightarrow> hostClient \<Rightarrow> hostClient" where
  "failAllWaiters err c =
     foldl (\<lambda>c i. map_waiter i (waiter_fail err) c) (c\<lparr>hc_waiters := fmempty\<rparr>) (refs_of (hc_waiters c))"

text \<open>
  \<open>waitForRequestFrame\<close>: no value while it blocks; \<open>cancelled\<close> is the error of the context when the
  second select takes that case.
\<close>

definition waitForRequestFrame :: "string \<Rightarrow> goerr option \<Rightarrow> bool \<Rightarrow> nat \<Rightarrow> hostClient \<Rightarrow>
    Frame result option \<times> hostClient" where
  "waitForRequestFrame op cancelled killed i c =
     (case cancelled of
        Some e \<Rightarrow> (Some (Inl (Errorf ''%s canceled: %w'' [ArgS op, ArgE e])), shutdown True killed c)
      | None \<Rightarrow>
          (case wt_results (hc_pool c ! i) of
             r # rest \<Rightarrow>
               (Some (case r of
                  RErr err \<Rightarrow> Inl (Errorf ''read %s response: %w'' [ArgS op, ArgE err])
                | RFrame frame \<Rightarrow> Inr frame),
                map_waiter i (\<lambda>w. w\<lparr>wt_results := rest\<rparr>) c)
           | [] \<Rightarrow>
               (if wt_done (hc_pool c ! i)
                then (Some (Inl (Errorf ''%s request closed: %w'' [ArgS op, ArgE errStdioClientClosed])), c)
                else (None, c))))"

section \<open>Registering background tasks\<close>

definition registerBackgroundTask :: "remoteBackgroundTask \<Rightarrow> hostClient \<Rightarrow> nat \<times> hostClient" where
  "registerBackgroundTask task c =
     (let i = length (hc_tasks c);
          c = c\<lparr>hc_tasks := hc_tasks c @ [task],
                hc_bgStarts := fmupd (rt_startRequestID task) i (hc_bgStarts c)\<rparr>
      in (i, if rt_taskID task \<noteq> [] then c\<lparr>hc_bgTasks := fmupd (rt_taskID task) i (hc_bgTasks c)\<rparr> else c))"

definition registerBackgroundTaskID :: "nat \<Rightarrow> string \<Rightarrow> hostClient \<Rightarrow> hostClient" where
  "registerBackgroundTaskID i taskID c =
     (if rt_completed (hc_tasks c ! i) then c
      else (map_task i (\<lambda>t. t\<lparr>rt_taskID := taskID\<rparr>) c)\<lparr>hc_bgTasks := fmupd taskID i (hc_bgTasks c)\<rparr>)"

definition unregisterBackgroundTask :: "nat \<Rightarrow> hostClient \<Rightarrow> hostClient" where
  "unregisterBackgroundTask i c =
     (let t = hc_tasks c ! i
      in (map_task i (\<lambda>t. t\<lparr>rt_completed := True\<rparr>) c)
        \<lparr>hc_bgTasks := (if rt_taskID t \<noteq> [] \<and> fmlookup (hc_bgTasks c) (rt_taskID t) = Some i
           then fmdrop (rt_taskID t) (hc_bgTasks c) else hc_bgTasks c),
         hc_bgStarts := (if fmlookup (hc_bgStarts c) (rt_startRequestID t) = Some i
           then fmdrop (rt_startRequestID t) (hc_bgStarts c) else hc_bgStarts c)\<rparr>)"

definition artifacts_closeAll :: "runArtifactState \<Rightarrow> runArtifactState" where
  "artifacts_closeAll s = s\<lparr>ra_writers := fmempty\<rparr>"

definition task_finish :: "goerr option \<Rightarrow> nat \<Rightarrow> hostClient \<Rightarrow> hostClient" where
  "task_finish err i c =
     map_task i (completeDone err)
       (if rt_cleanupOnce (hc_tasks c ! i) then c
        else map_task i (\<lambda>t. t\<lparr>rt_cleanupOnce := True, rt_artifacts := artifacts_closeAll (rt_artifacts t)\<rparr>)
               (unregisterBackgroundTask i c))"

definition setStopping :: "bool \<Rightarrow> nat \<Rightarrow> hostClient \<Rightarrow> hostClient" where
  "setStopping stopping i c = map_task i (\<lambda>t. t\<lparr>rt_stopping := stopping\<rparr>) c"

definition failAllBackgroundTasks :: "goerr \<Rightarrow> hostClient \<Rightarrow> hostClient" where
  "failAllBackgroundTasks err c =
     foldl (\<lambda>c i. task_finish (Some err) i c) c (remdups (refs_of (hc_bgStarts c) @ refs_of (hc_bgTasks c)))"

section \<open>The read loop\<close>

definition fail_client :: "bool \<Rightarrow> goerr \<Rightarrow> hostClient \<Rightarrow> hostClient" where
  "fail_client killed err c = shutdown True killed (failAllBackgroundTasks err (failAllWaiters err c))"

definition deliverWaiterResult :: "bool \<Rightarrow> bool \<Rightarrow> string \<Rightarrow> nat \<Rightarrow> readResult \<Rightarrow> hostClient \<Rightarrow> bool \<times> hostClient" where
  "deliverWaiterResult pick killed rid i result c =
     (case offer_result pick result (hc_pool c ! i) of
        (Sent, w) \<Rightarrow> (True, map_waiter i (\<lambda>_. w) c)
      | (WasDone, _) \<Rightarrow> (False, c)
      | (QueueFull, _) \<Rightarrow>
          (False, fail_client killed (Errorf ''plugin response queue full for request %q'' [ArgS rid]) c))"

definition backgroundTaskForEvent :: "Frame \<Rightarrow> string \<Rightarrow> hostClient \<Rightarrow> nat option" where
  "backgroundTaskForEvent frame taskID c =
     (case (if taskID \<noteq> [] then fmlookup (hc_bgTasks c) taskID else None) of
        Some i \<Rightarrow> Some i
      | None \<Rightarrow> if fr_RequestId frame \<noteq> [] then fmlookup (hc_bgStarts c) (fr_RequestId frame) else None)"

definition event_error :: "string \<Rightarrow> (string \<times> goerr) option \<Rightarrow> goerr option" where
  "event_error event err =
     (if event = [] \<or> event = ''completed'' then None
      else if event = ''fatal_error'' then Some (pluginRPCError err)
      else Some (Errorf ''unknown background event %q'' [ArgS event]))"

definition dispatchBackgroundEvent :: "Frame \<Rightarrow> string \<Rightarrow> string \<Rightarrow> (string \<times> goerr) option \<Rightarrow> hostClient \<Rightarrow> hostClient" where
  "dispatchBackgroundEvent frame taskID event err c =
     (case backgroundTaskForEvent frame taskID c of
        None \<Rightarrow> c
      | Some i \<Rightarrow> map_task i (completeDone (event_error event err)) c)"

text \<open>The frames \<open>handleRunLifecycleFrame\<close> handles; \<open>outcome\<close> is what it does to the task.\<close>

definition is_lifecycle :: "frameBody \<Rightarrow> bool" where
  "is_lifecycle body =
     (case body of FSetOutput _ _ \<Rightarrow> True | FMetricFlush _ \<Rightarrow> True | FArtifactOpen _ \<Rightarrow> True
      | FArtifactChunk _ _ _ \<Rightarrow> True | FArtifactClose _ \<Rightarrow> True | _ \<Rightarrow> False)"

lemma not_lifecycle: "\<not> is_lifecycle body \<Longrightarrow> handleRunLifecycleFrame io ids art body k = k False None art"
  by (cases body) (simp_all add: is_lifecycle_def handleRunLifecycleFrame_def)

type_synonym lifecycleOutcome = "goerr option \<times> runArtifactState"

definition dispatchBackgroundLifecycleFrame :: "lifecycleOutcome \<Rightarrow> Frame \<Rightarrow> hostClient \<Rightarrow> bool \<times> hostClient" where
  "dispatchBackgroundLifecycleFrame outcome frame c =
     (case fmlookup (hc_bgStarts c) (fr_RequestId frame) of
        None \<Rightarrow> (False, c)
      | Some i \<Rightarrow>
          if is_lifecycle (fr_Body frame) then
            (let c = map_task i (\<lambda>t. t\<lparr>rt_artifacts := snd outcome\<rparr>) c
             in (True, case fst outcome of None \<Rightarrow> c | Some e \<Rightarrow> task_finish (Some e) i c))
          else (False, c))"

text \<open>One round of \<open>readLoop\<close> up to the delivery to a waiter, the delivery, and its end.\<close>

definition read_frame :: "bool \<Rightarrow> lifecycleOutcome \<Rightarrow> Frame \<Rightarrow> hostClient \<Rightarrow> hostClient" where
  "read_frame killed outcome frame c =
     (case fr_Body frame of
        FBackgroundEvent taskID event err \<Rightarrow> dispatchBackgroundEvent frame taskID event err c
      | _ \<Rightarrow>
          (case fmlookup (hc_waiters c) (fr_RequestId frame) of
             Some i \<Rightarrow> c\<lparr>hc_pending := Some (i, frame)\<rparr>
           | None \<Rightarrow>
               (case dispatchBackgroundLifecycleFrame outcome frame c of
                  (True, c) \<Rightarrow> c
                | (False, c) \<Rightarrow>
                    fail_client killed (Errorf ''unexpected plugin frame for request %q'' [ArgS (fr_RequestId frame)]) c)))"

definition deliver_pending :: "bool \<Rightarrow> bool \<Rightarrow> hostClient \<Rightarrow> hostClient" where
  "deliver_pending pick killed c =
     (case hc_pending c of
        None \<Rightarrow> c
      | Some (i, frame) \<Rightarrow>
          snd (deliverWaiterResult pick killed (fr_RequestId frame) i (RFrame frame) (c\<lparr>hc_pending := None\<rparr>)))"

definition read_error :: "goerr \<Rightarrow> hostClient \<Rightarrow> hostClient" where
  "read_error err c =
     (failAllBackgroundTasks (Errorf ''read plugin frame: %w'' [ArgE err]) (failAllWaiters err c))
       \<lparr>hc_pumpDone := Some err\<rparr>"

section \<open>Requests\<close>

definition begin_request :: "string \<Rightarrow> hostClient \<Rightarrow> (string \<times> nat) \<times> hostClient" where
  "begin_request op c =
     (case nextRequestID op c of
        (rid, c) \<Rightarrow> (case registerWaiter rid c of (i, c) \<Rightarrow> ((rid, i), c)))"

definition wrong_id :: "string \<Rightarrow> string \<Rightarrow> Frame \<Rightarrow> goerr" where
  "wrong_id op rid frame =
     Errorf ''%s response request id = %q, want %q'' [ArgS op, ArgS (fr_RequestId frame), ArgS rid]"

text \<open>What \<open>Handshake\<close>, \<open>Validate\<close> and \<open>Plan\<close> make of the frame they get.\<close>

definition handshake_result :: "string \<Rightarrow> Frame \<Rightarrow> Plugin result" where
  "handshake_result rid frame =
     (if fr_RequestId frame \<noteq> rid then Inl (wrong_id ''handshake'' rid frame)
      else case fr_Body frame of
        FError code message \<Rightarrow> Inl (Errorf ''plugin error %s: %s'' [ArgS code, ArgE message])
      | FHandshakeResponse manifest selected \<Rightarrow>
          (let m = pluginFromProto manifest in Inr (if selected \<noteq> [] then m\<lparr>pg_Protocol := selected\<rparr> else m))
      | _ \<Rightarrow> Inl (Errorf ''expected handshake response frame'' []))"

definition validate_result :: "string \<Rightarrow> Frame \<Rightarrow> goerr option" where
  "validate_result rid frame =
     (if fr_RequestId frame \<noteq> rid then Some (wrong_id ''validate'' rid frame)
      else case fr_Body frame of
        FError code message \<Rightarrow> Some (pluginRPCError (Some (code, message)))
      | FValidateResponse \<Rightarrow> None
      | _ \<Rightarrow> Some (Errorf ''expected validate response frame'' []))"

definition plan_result :: "(string \<Rightarrow> Plan result) \<Rightarrow> string \<Rightarrow> Frame \<Rightarrow> Plan result" where
  "plan_result unmarshal rid frame =
     (if fr_RequestId frame \<noteq> rid then Inl (wrong_id ''plan'' rid frame)
      else case fr_Body frame of
        FError code message \<Rightarrow> Inl (pluginRPCError (Some (code, message)))
      | FPlanResponse json \<Rightarrow>
          (if json = [] then Inr \<lparr>pl_UnitName = [], pl_Shards = []\<rparr>
           else case unmarshal json of
             Inl err \<Rightarrow> Inl (Errorf ''decode plan json: %w'' [ArgE err])
           | Inr plan \<Rightarrow> Inr plan)
      | _ \<Rightarrow> Inl (Errorf ''expected plan response frame'' []))"

section \<open>Starting and stopping a remote task\<close>

definition begin_start :: "string \<Rightarrow> string \<Rightarrow> hostClient \<Rightarrow> (string \<times> nat \<times> nat) \<times> hostClient" where
  "begin_start runID unitName c =
     (case begin_request ''start'' c of
        ((rid, w), c) \<Rightarrow>
          (case registerBackgroundTask (new_task rid runID unitName) c of (i, c) \<Rightarrow> ((rid, w, i), c)))"

text \<open>One answer in the loop of \<open>Start\<close>: no value while the loop goes on.\<close>

definition start_reply :: "lifecycleOutcome \<Rightarrow> string \<Rightarrow> nat \<Rightarrow> Frame result \<Rightarrow> hostClient \<Rightarrow>
    goerr option option \<times> hostClient" where
  "start_reply outcome rid i answer c =
     (let failed = (\<lambda>e c. (Some (Some e), task_finish (Some errStdioClientClosed) i c))
      in case answer of
           Inl err \<Rightarrow> failed err c
         | Inr frame \<Rightarrow>
             (if fr_RequestId frame \<noteq> rid then failed (wrong_id ''start'' rid frame) c
              else if is_lifecycle (fr_Body frame) then
                (let c = map_task i (\<lambda>t. t\<lparr>rt_artifacts := snd outcome\<rparr>) c
                 in case fst outcome of Some e \<Rightarrow> failed e c | None \<Rightarrow> (None, c))
              else case fr_Body frame of
                FError code message \<Rightarrow> failed (pluginRPCError (Some (code, message))) c
              | FStartResponse taskID \<Rightarrow>
                  (if taskID = [] then failed (Errorf ''start response missing task id'' []) c
                   else (Some None, registerBackgroundTaskID i taskID c))
              | _ \<Rightarrow> failed (Errorf ''expected start response frame'' []) c))"

definition begin_stop :: "nat \<Rightarrow> hostClient \<Rightarrow> (string \<times> nat) \<times> hostClient" where
  "begin_stop i c = begin_request ''stop'' (setStopping True i c)"

text \<open>The answer to a stop request; the grace period for a last event ends before \<open>task_finish\<close>.\<close>

definition stop_reply :: "string \<Rightarrow> nat \<Rightarrow> Frame result \<Rightarrow> hostClient \<Rightarrow> goerr option \<times> hostClient" where
  "stop_reply rid i answer c =
     (let failed = (\<lambda>e. (Some e, task_finish (Some e) i c))
      in case answer of
           Inl err \<Rightarrow> failed err
         | Inr frame \<Rightarrow>
             (if fr_RequestId frame \<noteq> rid then failed (wrong_id ''stop'' rid frame)
              else case fr_Body frame of
                FError code message \<Rightarrow>
                  (let err = pluginRPCError (Some (code, message))
                   in if code = ''RUN_ERROR'' then (Some err, setStopping False i c) else failed err)
              | FStopResponse \<Rightarrow> (None, task_finish None i c)
              | _ \<Rightarrow> failed (Errorf ''expected stop response frame'' [])))"

end
