(* ===== verification/Host_Facts.thy ===== *)
theory Host_Facts
  imports Host_Client Test_Env
begin

text \<open>
  The client of \<open>Host_Client\<close> as a machine whose steps interleave freely, and what holds in every state
  it reaches: no waiter and no task is ever lost, response queues are bounded, and a task reports its
  end once.
\<close>

section \<open>Waiters\<close>

definition used_id :: "int \<Rightarrow> string \<Rightarrow> bool" where
  "used_id s k \<longleftrightarrow> (\<exists>p n. k = numbered p n \<and> 1 \<le> n \<and> n \<le> s)"

lemma used_id_mono: "used_id s k \<Longrightarrow> s \<le> s' \<Longrightarrow> used_id s' k"
  unfolding used_id_def by force

lemma fresh_id: "0 \<le> s \<Longrightarrow> \<not> used_id s (numbered p (s + 1))"
  by (auto simp: used_id_def numbered_eq_iff)

lemma used_id_new: "0 \<le> s \<Longrightarrow> used_id (s + 1) (numbered p (s + 1))"
  unfolding used_id_def by force

definition winv :: "int \<Rightarrow> requestWaiter list \<Rightarrow> nat gomap \<Rightarrow> bool" where
  "winv s pool waiters \<longleftrightarrow>
     0 \<le> s \<and>
     (\<forall>k i. fmlookup waiters k = Some i \<longrightarrow> i < length pool \<and> \<not> wt_done (pool ! i) \<and> used_id s k) \<and>
     (\<forall>k k' i. fmlookup waiters k = Some i \<longrightarrow> fmlookup waiters k' = Some i \<longrightarrow> k = k') \<and>
     (\<forall>i<length pool. \<not> wt_done (pool ! i) \<longrightarrow> (\<exists>k. fmlookup waiters k = Some i)) \<and>
     (\<forall>w\<in>set pool. length (wt_results w) \<le> queueCapacity)"

lemma winvI:
  assumes "0 \<le> s"
    and "\<And>k i. fmlookup waiters k = Some i \<Longrightarrow> i < length pool \<and> \<not> wt_done (pool ! i) \<and> used_id s k"
    and "\<And>k k' i. fmlookup waiters k = Some i \<Longrightarrow> fmlookup waiters k' = Some i \<Longrightarrow> k = k'"
    and "\<And>i. i < length pool \<Longrightarrow> \<not> wt_done (pool ! i) \<Longrightarrow> \<exists>k. fmlookup waiters k = Some i"
    and "\<And>w. w \<in> set pool \<Longrightarrow> length (wt_results w) \<le> queueCapacity"
  shows "winv s pool waiters"
  using assms unfolding winv_def by blast

lemma winvD:
  assumes "winv s pool waiters"
  shows "0 \<le> s"
    and "fmlookup waiters k = Some i \<Longrightarrow> i < length pool \<and> \<not> wt_done (pool ! i) \<and> used_id s k"
    and "fmlookup waiters k = Some i \<Longrightarrow> fmlookup waiters k' = Some i \<Longrightarrow> k = k'"
    and "i < length pool \<Longrightarrow> \<not> wt_done (pool ! i) \<Longrightarrow> \<exists>k. fmlookup waiters k = Some i"
    and "w \<in> set pool \<Longrightarrow> length (wt_results w) \<le> queueCapacity"
  using assms unfolding winv_def by blast+

lemma winv_register:
  assumes "winv s pool waiters"
  shows "winv (s + 1) (pool @ [\<lparr>wt_results = [], wt_done = False\<rparr>]) (fmupd (numbered p (s + 1)) (length pool) waiters)"
proof (rule winvI)
  note w = winvD [OF assms]
  show "0 \<le> s + 1" using w(1) by simp
  have old: "fmlookup waiters k = Some i \<Longrightarrow> i < length pool \<and> \<not> wt_done (pool ! i) \<and> used_id (s + 1) k" for k i
    using w(2) used_id_mono [of s k "s + 1"] by auto
  have fresh: "fmlookup waiters (numbered p (s + 1)) = None"
    using w(2) fresh_id [OF w(1)] by (metis not_None_eq)
  show "i < length (pool @ [\<lparr>wt_results = [], wt_done = False\<rparr>]) \<and>
      \<not> wt_done ((pool @ [\<lparr>wt_results = [], wt_done = False\<rparr>]) ! i) \<and> used_id (s + 1) k"
    if "fmlookup (fmupd (numbered p (s + 1)) (length pool) waiters) k = Some i" for k i
    using that old [of k i] used_id_new [OF w(1), of p] by (auto simp: nth_append split: if_splits)
  show "k = k'" if "fmlookup (fmupd (numbered p (s + 1)) (length pool) waiters) k = Some i"
    and "fmlookup (fmupd (numbered p (s + 1)) (length pool) waiters) k' = Some i" for k k' i
    using that w(3) [of k i k'] old by (auto split: if_splits)
  show "\<exists>k. fmlookup (fmupd (numbered p (s + 1)) (length pool) waiters) k = Some i"
    if i: "i < length (pool @ [\<lparr>wt_results = [], wt_done = False\<rparr>])"
      "\<not> wt_done ((pool @ [\<lparr>wt_results = [], wt_done = False\<rparr>]) ! i)" for i
  proof (cases "i < length pool")
    case True
    with i obtain k where "fmlookup waiters k = Some i" using w(4) by (auto simp: nth_append)
    with fresh have "fmlookup (fmupd (numbered p (s + 1)) (length pool) waiters) k = Some i" by auto
    then show ?thesis by blast
  next
    case False
    with i have "i = length pool" by simp
    then show ?thesis by (intro exI [of _ "numbered p (s + 1)"]) simp
  qed
  show "length (wt_results w) \<le> queueCapacity" if "w \<in> set (pool @ [\<lparr>wt_results = [], wt_done = False\<rparr>])" for w
    using that w(5) by auto
qed

text \<open>A change of one waiter that leaves it open, or closes one that is no longer registered.\<close>

lemma winv_update:
  assumes "winv s pool waiters" and "i < length pool" and "length (wt_results w) \<le> queueCapacity"
    and "wt_done w = wt_done (pool ! i)"
  shows "winv s (pool[i := w]) waiters"
proof (rule winvI)
  note iv = winvD [OF assms(1)]
  have eq: "wt_done (pool[i := w] ! j) = wt_done (pool ! j)" if "j < length pool" for j
    using that assms(4) by (cases "i = j") simp_all
  show "0 \<le> s" by (rule iv)
  show "j < length (pool[i := w]) \<and> \<not> wt_done (pool[i := w] ! j) \<and> used_id s k" if "fmlookup waiters k = Some j" for k j
    using iv(2) [OF that] eq by simp
  show "k = k'" if "fmlookup waiters k = Some j" "fmlookup waiters k' = Some j" for k k' j using iv(3) that by blast
  show "\<exists>k. fmlookup waiters k = Some j" if "j < length (pool[i := w])" "\<not> wt_done (pool[i := w] ! j)" for j
    using iv(4) [of j] that eq by simp
  show "length (wt_results v) \<le> queueCapacity" if "v \<in> set (pool[i := w])" for v
    using that assms(3) iv(5) set_update_subset_insert [of pool i w] by auto
qed

lemma winv_unregister:
  assumes "winv s pool waiters" and k: "fmlookup waiters k = Some i"
  shows "winv s (pool[i := waiter_close (pool ! i)]) (fmdrop k waiters)"
proof (rule winvI)
  note iv = winvD [OF assms(1)]
  show "0 \<le> s" by (rule iv)
  show "j < length (pool[i := waiter_close (pool ! i)]) \<and> \<not> wt_done (pool[i := waiter_close (pool ! i)] ! j) \<and> used_id s l"
    if l: "fmlookup (fmdrop k waiters) l = Some j" for l j
  proof -
    from l have "fmlookup waiters l = Some j" "l \<noteq> k" by (auto split: if_splits)
    moreover from this iv(3) [OF _ k, of l] have "j \<noteq> i" by blast
    ultimately show ?thesis using iv(2) by simp
  qed
  show "l = l'" if "fmlookup (fmdrop k waiters) l = Some j" "fmlookup (fmdrop k waiters) l' = Some j" for l l' j
    using iv(3) that by (auto split: if_splits)
  show "\<exists>l. fmlookup (fmdrop k waiters) l = Some j"
    if j: "j < length (pool[i := waiter_close (pool ! i)])" "\<not> wt_done (pool[i := waiter_close (pool ! i)] ! j)" for j
  proof -
    from j iv(2) [OF k] have "j \<noteq> i" by (auto simp: waiter_close_def)
    with j obtain l where "fmlookup waiters l = Some j" using iv(4) by auto
    with k \<open>j \<noteq> i\<close> have "fmlookup (fmdrop k waiters) l = Some j" by auto
    then show ?thesis ..
  qed
  show "length (wt_results v) \<le> queueCapacity" if v: "v \<in> set (pool[i := waiter_close (pool ! i)])" for v
    using set_update_subset_insert [of pool i "waiter_close (pool ! i)"] v iv(5) [of "pool ! i"] iv(5) [of v] iv(2) [OF k]
    by (auto simp: waiter_close_def)
qed

abbreviation fail_pool :: "goerr \<Rightarrow> nat list \<Rightarrow> requestWaiter list \<Rightarrow> requestWaiter list" where
  "fail_pool err is pool \<equiv> foldl (\<lambda>pool i. pool[i := waiter_fail err (pool ! i)]) pool is"

lemma waiter_fail_facts:
  "wt_done (waiter_fail err w)"
  "length (wt_results w) \<le> queueCapacity \<Longrightarrow> length (wt_results (waiter_fail err w)) \<le> queueCapacity"
  by (auto simp: waiter_fail_def waiter_close_def offer_result_def)

lemma fail_pool_length [simp]: "length (fail_pool err is pool) = length pool"
  by (induction "is" arbitrary: pool) simp_all

lemma fail_pool_done:
  "j < length pool \<Longrightarrow> wt_done (fail_pool err is pool ! j) \<longleftrightarrow> j \<in> set is \<or> wt_done (pool ! j)"
proof (induction "is" arbitrary: pool)
  case (Cons i "is")
  then show ?case by (cases "i = j") (auto simp: waiter_fail_facts)
qed simp

lemma fail_pool_bounded:
  "\<forall>w\<in>set pool. length (wt_results w) \<le> queueCapacity \<Longrightarrow> \<forall>i\<in>set is. i < length pool \<Longrightarrow>
   \<forall>w\<in>set (fail_pool err is pool). length (wt_results w) \<le> queueCapacity"
proof (induction "is" arbitrary: pool)
  case (Cons i "is")
  have "\<forall>w\<in>set (pool[i := waiter_fail err (pool ! i)]). length (wt_results w) \<le> queueCapacity"
    using Cons.prems set_update_subset_insert [of pool i "waiter_fail err (pool ! i)"]
    by (auto simp: waiter_fail_facts)
  then show ?case using Cons by simp
qed simp

lemma winv_fail_all:
  assumes "winv s pool waiters"
  shows "winv s (fail_pool err (refs_of waiters) pool) fmempty"
    and "\<And>j. j < length pool \<Longrightarrow> wt_done (fail_pool err (refs_of waiters) pool ! j)"
proof -
  note iv = winvD [OF assms]
  show d: "wt_done (fail_pool err (refs_of waiters) pool ! j)" if "j < length pool" for j
    using fail_pool_done [OF that, of err "refs_of waiters"] iv(4) [OF that] in_refs_of [of j waiters] by auto
  have "\<forall>w\<in>set (fail_pool err (refs_of waiters) pool). length (wt_results w) \<le> queueCapacity"
    using iv(2,5) by (intro fail_pool_bounded) (auto simp: in_refs_of)
  then show "winv s (fail_pool err (refs_of waiters) pool) fmempty"
    using d iv(1) by (intro winvI) auto
qed

section \<open>Tasks\<close>

definition task_ok :: "remoteBackgroundTask \<Rightarrow> bool" where
  "task_ok t \<longleftrightarrow>
     rt_completed t = rt_cleanupOnce t \<and> rt_doneCompleted t = rt_completeOnce t \<and>
     rt_doneSignal t = rt_completeOnce t \<and> length (rt_done t) = (if rt_completeOnce t then 1 else 0) \<and>
     (rt_cleanupOnce t \<longrightarrow> rt_completeOnce t)"

lemma task_ok_new [simp]: "task_ok (new_task rid runID unitName)"
  by (simp add: task_ok_def new_task_def)

lemma task_ok_complete [simp]: "task_ok t \<Longrightarrow> task_ok (completeDone err t)"
  by (auto simp: task_ok_def completeDone_def)

lemma completeDone_frame [simp]:
  "rt_startRequestID (completeDone err t) = rt_startRequestID t"
  "rt_taskID (completeDone err t) = rt_taskID t"
  "rt_cleanupOnce (completeDone err t) = rt_cleanupOnce t"
  "rt_completed (completeDone err t) = rt_completed t"
  "rt_completeOnce (completeDone err t)"
  by (simp_all add: completeDone_def)

definition tinv :: "int \<Rightarrow> remoteBackgroundTask list \<Rightarrow> nat gomap \<Rightarrow> nat gomap \<Rightarrow> bool" where
  "tinv s tasks bgTasks bgStarts \<longleftrightarrow>
     (\<forall>t\<in>set tasks. used_id s (rt_startRequestID t) \<and> task_ok t) \<and>
     distinct (map rt_startRequestID tasks) \<and>
     (\<forall>k i. fmlookup bgStarts k = Some i \<longleftrightarrow>
        i < length tasks \<and> rt_startRequestID (tasks ! i) = k \<and> \<not> rt_cleanupOnce (tasks ! i)) \<and>
     (\<forall>k i. fmlookup bgTasks k = Some i \<longrightarrow>
        i < length tasks \<and> rt_taskID (tasks ! i) = k \<and> k \<noteq> [] \<and> \<not> rt_cleanupOnce (tasks ! i))"

lemma tinvI:
  assumes "\<And>t. t \<in> set tasks \<Longrightarrow> used_id s (rt_startRequestID t) \<and> task_ok t"
    and "distinct (map rt_startRequestID tasks)"
    and "\<And>k i. fmlookup bgStarts k = Some i \<longleftrightarrow>
        i < length tasks \<and> rt_startRequestID (tasks ! i) = k \<and> \<not> rt_cleanupOnce (tasks ! i)"
    and "\<And>k i. fmlookup bgTasks k = Some i \<Longrightarrow>
        i < length tasks \<and> rt_taskID (tasks ! i) = k \<and> k \<noteq> [] \<and> \<not> rt_cleanupOnce (tasks ! i)"
  shows "tinv s tasks bgTasks bgStarts"
  using assms unfolding tinv_def by blast

lemma tinvD:
  assumes "tinv s tasks bgTasks bgStarts"
  shows "t \<in> set tasks \<Longrightarrow> used_id s (rt_startRequestID t) \<and> task_ok t"
    and "distinct (map rt_startRequestID tasks)"
    and "fmlookup bgStarts k = Some i \<longleftrightarrow>
        i < length tasks \<and> rt_startRequestID (tasks ! i) = k \<and> \<not> rt_cleanupOnce (tasks ! i)"
    and "fmlookup bgTasks k = Some i \<Longrightarrow>
        i < length tasks \<and> rt_taskID (tasks ! i) = k \<and> k \<noteq> [] \<and> \<not> rt_cleanupOnce (tasks ! i)"
  using assms unfolding tinv_def by blast+

lemma tinv_mono: "tinv s tasks bgTasks bgStarts \<Longrightarrow> s \<le> s' \<Longrightarrow> tinv s' tasks bgTasks bgStarts"
  unfolding tinv_def by (blast intro: used_id_mono)

lemma map_update_same: "i < length xs \<Longrightarrow> f y = f (xs ! i) \<Longrightarrow> map f (xs[i := y]) = map f xs"
  by (metis list_update_id map_update)

lemma tinv_update:
  assumes "tinv s tasks bgTasks bgStarts" and i: "i < length tasks" and "task_ok t"
    and same: "rt_startRequestID t = rt_startRequestID (tasks ! i)" "rt_taskID t = rt_taskID (tasks ! i)"
      "rt_cleanupOnce t = rt_cleanupOnce (tasks ! i)"
  shows "tinv s (tasks[i := t]) bgTasks bgStarts"
proof (rule tinvI)
  note iv = tinvD [OF assms(1)]
  have nth: "rt_startRequestID (tasks[i := t] ! j) = rt_startRequestID (tasks ! j)"
    "rt_taskID (tasks[i := t] ! j) = rt_taskID (tasks ! j)"
    "rt_cleanupOnce (tasks[i := t] ! j) = rt_cleanupOnce (tasks ! j)" if "j < length tasks" for j
    using that same by (cases "i = j"; simp)+
  show "used_id s (rt_startRequestID x) \<and> task_ok x" if x: "x \<in> set (tasks[i := t])" for x
    using set_update_subset_insert [of tasks i t] x assms(3) same(1) iv(1) [of x] iv(1) [of "tasks ! i"] i by auto
  show "distinct (map rt_startRequestID (tasks[i := t]))"
    using iv(2) i same(1) by (simp add: map_update_same)
  show "fmlookup bgStarts k = Some j \<longleftrightarrow> j < length (tasks[i := t]) \<and> rt_startRequestID (tasks[i := t] ! j) = k \<and>
      \<not> rt_cleanupOnce (tasks[i := t] ! j)" for k j
    using iv(3) [of k j] nth [of j] by auto
  show "j < length (tasks[i := t]) \<and> rt_taskID (tasks[i := t] ! j) = k \<and> k \<noteq> [] \<and> \<not> rt_cleanupOnce (tasks[i := t] ! j)"
    if "fmlookup bgTasks k = Some j" for k j
    using iv(4) [OF that] nth [of j] by auto
qed

lemma tinv_register:
  assumes "tinv s tasks bgTasks bgStarts" and s: "0 \<le> s" and rid_def: "rid = numbered p (s + 1)"
  shows "tinv (s + 1) (tasks @ [new_task rid runID u]) bgTasks (fmupd rid (length tasks) bgStarts)"
proof (rule tinvI)
  note iv = tinvD [OF assms(1)]
  have fresh: "rt_startRequestID t \<noteq> rid" if "t \<in> set tasks" for t
    using iv(1) [OF that] fresh_id [OF s, of p] rid_def by auto
  show "used_id (s + 1) (rt_startRequestID t) \<and> task_ok t" if "t \<in> set (tasks @ [new_task rid runID u])" for t
  proof (cases "t \<in> set tasks")
    case True
    with iv(1) [OF True] used_id_mono [of s _ "s + 1"] show ?thesis by simp
  next
    case False
    with that have "t = new_task rid runID u" by simp
    with used_id_new [OF s, of p] show ?thesis by (simp add: rid_def) (simp add: new_task_def)
  qed
  show "distinct (map rt_startRequestID (tasks @ [new_task rid runID u]))"
    using iv(2) fresh by (auto simp: new_task_def)
  show "fmlookup (fmupd rid (length tasks) bgStarts) k = Some i \<longleftrightarrow>
      i < length (tasks @ [new_task rid runID u]) \<and> rt_startRequestID ((tasks @ [new_task rid runID u]) ! i) = k \<and>
      \<not> rt_cleanupOnce ((tasks @ [new_task rid runID u]) ! i)" for k i
    using iv(3) [of k i] fresh [of "tasks ! i"] by (auto simp: nth_append new_task_def)
  show "i < length (tasks @ [new_task rid runID u]) \<and> rt_taskID ((tasks @ [new_task rid runID u]) ! i) = k \<and> k \<noteq> [] \<and>
      \<not> rt_cleanupOnce ((tasks @ [new_task rid runID u]) ! i)" if "fmlookup bgTasks k = Some i" for k i
    using iv(4) [OF that] by (simp add: nth_append)
qed

lemma tinv_set_id:
  assumes "tinv s tasks bgTasks bgStarts" and i: "i < length tasks" and "rt_taskID (tasks ! i) = []"
    and "taskID \<noteq> []" and "\<not> rt_cleanupOnce (tasks ! i)"
  shows "tinv s (tasks[i := (tasks ! i)\<lparr>rt_taskID := taskID\<rparr>]) (fmupd taskID i bgTasks) bgStarts"
proof (rule tinvI)
  note iv = tinvD [OF assms(1)]
  let ?t = "(tasks ! i)\<lparr>rt_taskID := taskID\<rparr>"
  have ok: "used_id s (rt_startRequestID ?t) \<and> task_ok ?t"
    using iv(1) [of "tasks ! i"] i by (simp add: task_ok_def)
  show "used_id s (rt_startRequestID t) \<and> task_ok t" if t: "t \<in> set (tasks[i := ?t])" for t
    using set_update_subset_insert [of tasks i ?t] t ok iv(1) [of t] by auto
  show "distinct (map rt_startRequestID (tasks[i := ?t]))"
    using iv(2) i by (simp add: map_update_same)
  show "fmlookup bgStarts k = Some j \<longleftrightarrow> j < length (tasks[i := ?t]) \<and> rt_startRequestID (tasks[i := ?t] ! j) = k \<and>
      \<not> rt_cleanupOnce (tasks[i := ?t] ! j)" for k j
    using iv(3) [of k j] i by (cases "i = j") auto
  show "j < length (tasks[i := ?t]) \<and> rt_taskID (tasks[i := ?t] ! j) = k \<and> k \<noteq> [] \<and> \<not> rt_cleanupOnce (tasks[i := ?t] ! j)"
    if k: "fmlookup (fmupd taskID i bgTasks) k = Some j" for k j
  proof (cases "k = taskID")
    case True
    with k i assms(4,5) show ?thesis by auto
  next
    case False
    with k have "fmlookup bgTasks k = Some j" by simp
    from iv(4) [OF this] assms(3) show ?thesis by (cases "i = j") auto
  qed
qed

text \<open>\<open>finish\<close> as an update of the task and of the two maps.\<close>

definition finished :: "goerr option \<Rightarrow> remoteBackgroundTask \<Rightarrow> remoteBackgroundTask" where
  "finished err t = completeDone err
     (if rt_cleanupOnce t then t
      else t\<lparr>rt_completed := True, rt_cleanupOnce := True, rt_artifacts := artifacts_closeAll (rt_artifacts t)\<rparr>)"

definition dropped :: "string \<Rightarrow> nat \<Rightarrow> nat gomap \<Rightarrow> nat gomap" where
  "dropped k i m = (if k \<noteq> [] \<and> fmlookup m k = Some i then fmdrop k m else m)"

lemma finished_facts [simp]:
  "rt_cleanupOnce (finished err t)" "rt_completeOnce (finished err t)"
  "rt_startRequestID (finished err t) = rt_startRequestID t" "rt_taskID (finished err t) = rt_taskID t"
  by (simp_all add: finished_def)

lemma task_ok_finished: "task_ok t \<Longrightarrow> task_ok (finished err t)"
  by (auto simp: finished_def task_ok_def completeDone_def)

lemma finished_keeps_answer: "rt_completeOnce t \<Longrightarrow> rt_done (finished err t) = rt_done t"
  by (simp add: finished_def completeDone_def)

lemma tinv_finish:
  assumes "tinv s tasks bgTasks bgStarts" and i: "i < length tasks" and "\<not> rt_cleanupOnce (tasks ! i)"
    and "rt_startRequestID (tasks ! i) \<noteq> []"
  shows "tinv s (tasks[i := finished err (tasks ! i)]) (dropped (rt_taskID (tasks ! i)) i bgTasks)
    (dropped (rt_startRequestID (tasks ! i)) i bgStarts)"
proof (rule tinvI)
  note iv = tinvD [OF assms(1)]
  let ?t = "finished err (tasks ! i)"
  have ok: "used_id s (rt_startRequestID ?t) \<and> task_ok ?t"
    using iv(1) [of "tasks ! i"] i by (simp add: task_ok_finished)
  show "used_id s (rt_startRequestID t) \<and> task_ok t" if t: "t \<in> set (tasks[i := ?t])" for t
    using set_update_subset_insert [of tasks i ?t] t ok iv(1) [of t] by auto
  show "distinct (map rt_startRequestID (tasks[i := ?t]))"
    using iv(2) i by (simp add: map_update_same)
  have other: "rt_startRequestID (tasks ! j) \<noteq> rt_startRequestID (tasks ! i)" if "j < length tasks" "j \<noteq> i" for j
    using iv(2) i that by (simp add: distinct_conv_nth)
  have self: "fmlookup bgStarts (rt_startRequestID (tasks ! i)) = Some i" using iv(3) i assms(3) by simp
  show "fmlookup (dropped (rt_startRequestID (tasks ! i)) i bgStarts) k = Some j \<longleftrightarrow>
      j < length (tasks[i := ?t]) \<and> rt_startRequestID (tasks[i := ?t] ! j) = k \<and> \<not> rt_cleanupOnce (tasks[i := ?t] ! j)" for k j
    using iv(3) [of k j] self other [of j] i assms(4) by (cases "i = j") (auto simp: dropped_def)
  show "j < length (tasks[i := ?t]) \<and> rt_taskID (tasks[i := ?t] ! j) = k \<and> k \<noteq> [] \<and> \<not> rt_cleanupOnce (tasks[i := ?t] ! j)"
    if k: "fmlookup (dropped (rt_taskID (tasks ! i)) i bgTasks) k = Some j" for k j
  proof -
    from k have bg: "fmlookup bgTasks k = Some j" by (auto simp: dropped_def split: if_splits)
    have "i \<noteq> j"
    proof
      assume "i = j"
      with iv(4) [OF bg] k bg show False by (auto simp: dropped_def)
    qed
    with iv(4) [OF bg] show ?thesis by simp
  qed
qed

section \<open>The client\<close>

definition hc_inv :: "hostClient \<Rightarrow> bool" where
  "hc_inv c \<longleftrightarrow>
     winv (hc_nextSeq c) (hc_pool c) (hc_waiters c) \<and>
     tinv (hc_nextSeq c) (hc_tasks c) (hc_bgTasks c) (hc_bgStarts c) \<and>
     (\<forall>i f. hc_pending c = Some (i, f) \<longrightarrow> i < length (hc_pool c))"

lemma used_id_nonempty: "used_id s k \<Longrightarrow> k \<noteq> []"
  by (auto simp: used_id_def)

lemma hc_inv_nonempty: "hc_inv c \<Longrightarrow> i < length (hc_tasks c) \<Longrightarrow> rt_startRequestID (hc_tasks c ! i) \<noteq> []"
  by (rule used_id_nonempty [of "hc_nextSeq c"])
    (auto simp: hc_inv_def dest!: tinvD(1) [where t = "hc_tasks c ! i"])

lemma map_task_frame [simp]:
  "hc_nextSeq (map_task i f c) = hc_nextSeq c" "hc_pool (map_task i f c) = hc_pool c"
  "hc_waiters (map_task i f c) = hc_waiters c" "hc_pending (map_task i f c) = hc_pending c"
  "hc_bgTasks (map_task i f c) = hc_bgTasks c" "hc_bgStarts (map_task i f c) = hc_bgStarts c"
  "hc_tasks (map_task i f c) = (hc_tasks c)[i := f (hc_tasks c ! i)]"
  by (simp_all add: map_task_def)

lemma map_waiter_frame [simp]:
  "hc_nextSeq (map_waiter i f c) = hc_nextSeq c" "hc_tasks (map_waiter i f c) = hc_tasks c"
  "hc_waiters (map_waiter i f c) = hc_waiters c" "hc_pending (map_waiter i f c) = hc_pending c"
  "hc_bgTasks (map_waiter i f c) = hc_bgTasks c" "hc_bgStarts (map_waiter i f c) = hc_bgStarts c"
  "hc_pool (map_waiter i f c) = (hc_pool c)[i := f (hc_pool c ! i)]"
  by (simp_all add: map_waiter_def)

lemma task_finish_frame [simp]:
  "hc_nextSeq (task_finish err i c) = hc_nextSeq c" "hc_pool (task_finish err i c) = hc_pool c"
  "hc_waiters (task_finish err i c) = hc_waiters c" "hc_pending (task_finish err i c) = hc_pending c"
  by (simp_all add: task_finish_def unregisterBackgroundTask_def Let_def)

lemma task_finish_tasks:
  assumes "i < length (hc_tasks c)"
  shows "hc_tasks (task_finish err i c) = (hc_tasks c)[i := finished err (hc_tasks c ! i)]"
  using assms by (simp add: task_finish_def unregisterBackgroundTask_def Let_def finished_def)

lemma task_finish_maps:
  "rt_cleanupOnce (hc_tasks c ! i) \<Longrightarrow> hc_bgTasks (task_finish err i c) = hc_bgTasks c \<and> hc_bgStarts (task_finish err i c) = hc_bgStarts c"
  "\<not> rt_cleanupOnce (hc_tasks c ! i) \<Longrightarrow> rt_startRequestID (hc_tasks c ! i) \<noteq> [] \<Longrightarrow>
     hc_bgTasks (task_finish err i c) = dropped (rt_taskID (hc_tasks c ! i)) i (hc_bgTasks c) \<and>
     hc_bgStarts (task_finish err i c) = dropped (rt_startRequestID (hc_tasks c ! i)) i (hc_bgStarts c)"
  by (simp_all add: task_finish_def unregisterBackgroundTask_def Let_def dropped_def)

lemma hc_inv_map_task:
  assumes "hc_inv c" and "i < length (hc_tasks c)" and "\<And>t. task_ok t \<Longrightarrow> task_ok (f t)"
    and "\<And>t. rt_startRequestID (f t) = rt_startRequestID t \<and> rt_taskID (f t) = rt_taskID t \<and> rt_cleanupOnce (f t) = rt_cleanupOnce t"
  shows "hc_inv (map_task i f c)"
proof -
  have t: "tinv (hc_nextSeq c) (hc_tasks c) (hc_bgTasks c) (hc_bgStarts c)" using assms(1) by (simp add: hc_inv_def)
  have "task_ok (hc_tasks c ! i)" using tinvD(1) [OF t, of "hc_tasks c ! i"] assms(2) by simp
  then have "tinv (hc_nextSeq c) ((hc_tasks c)[i := f (hc_tasks c ! i)]) (hc_bgTasks c) (hc_bgStarts c)"
    using tinv_update [OF t assms(2)] assms(3,4) by simp
  then show ?thesis using assms(1) by (simp add: hc_inv_def)
qed

lemma hc_inv_finish:
  assumes "hc_inv c" and i: "i < length (hc_tasks c)"
  shows "hc_inv (task_finish err i c)"
proof -
  let ?t = "hc_tasks c ! i"
  have t: "tinv (hc_nextSeq c) (hc_tasks c) (hc_bgTasks c) (hc_bgStarts c)" using assms(1) by (simp add: hc_inv_def)
  have ok: "task_ok ?t" using tinvD(1) [OF t, of ?t] i by simp
  note ne = hc_inv_nonempty [OF assms]
  have "tinv (hc_nextSeq c) (hc_tasks (task_finish err i c)) (hc_bgTasks (task_finish err i c)) (hc_bgStarts (task_finish err i c))"
  proof (cases "rt_cleanupOnce ?t")
    case True
    then show ?thesis using tinv_update [OF t i task_ok_finished [OF ok]]
      by (simp add: task_finish_maps task_finish_tasks [OF i])
  next
    case False
    then show ?thesis using tinv_finish [OF t i False ne]
      by (simp add: task_finish_maps(2) task_finish_tasks [OF i] ne)
  qed
  then show ?thesis using assms(1) by (simp add: hc_inv_def)
qed

section \<open>Failing everything\<close>

lemma failAllWaiters_frame [simp]:
  "hc_nextSeq (failAllWaiters err c) = hc_nextSeq c" "hc_tasks (failAllWaiters err c) = hc_tasks c"
  "hc_bgTasks (failAllWaiters err c) = hc_bgTasks c" "hc_bgStarts (failAllWaiters err c) = hc_bgStarts c"
  "hc_pending (failAllWaiters err c) = hc_pending c" "hc_waiters (failAllWaiters err c) = fmempty"
  "hc_pool (failAllWaiters err c) = fail_pool err (refs_of (hc_waiters c)) (hc_pool c)"
proof -
  define f where "f = (\<lambda>c i. map_waiter i (waiter_fail err) c)"
  have step: "hc_nextSeq (foldl f d is) = hc_nextSeq d \<and> hc_tasks (foldl f d is) = hc_tasks d \<and>
      hc_bgTasks (foldl f d is) = hc_bgTasks d \<and> hc_bgStarts (foldl f d is) = hc_bgStarts d \<and>
      hc_pending (foldl f d is) = hc_pending d \<and> hc_waiters (foldl f d is) = hc_waiters d \<and>
      hc_pool (foldl f d is) = fail_pool err is (hc_pool d)" for "is" d
    by (induction "is" arbitrary: d) (simp_all add: f_def)
  note s = step [of "c\<lparr>hc_waiters := fmempty\<rparr>" "refs_of (hc_waiters c)"]
  show "hc_nextSeq (failAllWaiters err c) = hc_nextSeq c" "hc_tasks (failAllWaiters err c) = hc_tasks c"
    "hc_bgTasks (failAllWaiters err c) = hc_bgTasks c" "hc_bgStarts (failAllWaiters err c) = hc_bgStarts c"
    "hc_pending (failAllWaiters err c) = hc_pending c" "hc_waiters (failAllWaiters err c) = fmempty"
    "hc_pool (failAllWaiters err c) = fail_pool err (refs_of (hc_waiters c)) (hc_pool c)"
    using s by (simp_all add: failAllWaiters_def f_def)
qed

lemma hc_inv_failAllWaiters:
  assumes "hc_inv c"
  shows "hc_inv (failAllWaiters err c)" and "\<forall>w\<in>set (hc_pool (failAllWaiters err c)). wt_done w"
proof -
  have w: "winv (hc_nextSeq c) (hc_pool c) (hc_waiters c)" using assms by (simp add: hc_inv_def)
  show "hc_inv (failAllWaiters err c)" using assms winv_fail_all(1) [OF w] by (simp add: hc_inv_def)
  show "\<forall>w\<in>set (hc_pool (failAllWaiters err c)). wt_done w"
    using winv_fail_all(2) [OF w] by (auto simp: in_set_conv_nth)
qed

lemma finish_all:
  assumes "hc_inv c" and "distinct is" and "\<forall>i\<in>set is. i < length (hc_tasks c)"
    and d_def: "d = foldl (\<lambda>c i. task_finish err i c) c is"
  shows "hc_inv d \<and> hc_pool d = hc_pool c \<and> length (hc_tasks d) = length (hc_tasks c) \<and>
    (\<forall>j<length (hc_tasks c). hc_tasks d ! j = (if j \<in> set is then finished err (hc_tasks c ! j) else hc_tasks c ! j))"
  unfolding d_def using assms(1-3)
proof (induction "is" arbitrary: c)
  case (Cons i "is")
  let ?c = "task_finish err i c"
  from Cons.prems have i: "i < length (hc_tasks c)" "i \<notin> set is" "distinct is" by simp_all
  note t = task_finish_tasks [OF i(1), of err]
  from Cons.IH [OF hc_inv_finish [OF Cons.prems(1) i(1)] i(3)] Cons.prems(3) i t show ?case
    by (auto simp: nth_list_update)
qed simp

lemma failAll_tasks:
  assumes inv: "hc_inv c" and d_def: "d = failAllBackgroundTasks err c"
  shows "hc_inv d" and "hc_pool d = hc_pool c" and "length (hc_tasks d) = length (hc_tasks c)"
    and "j < length (hc_tasks c) \<Longrightarrow> hc_tasks d ! j =
      (if rt_cleanupOnce (hc_tasks c ! j) then hc_tasks c ! j else finished (Some err) (hc_tasks c ! j))"
    and "hc_bgStarts d = fmempty" and "hc_bgTasks d = fmempty"
proof -
  let ?is = "remdups (refs_of (hc_bgStarts c) @ refs_of (hc_bgTasks c))"
  have t: "tinv (hc_nextSeq c) (hc_tasks c) (hc_bgTasks c) (hc_bgStarts c)" using inv by (simp add: hc_inv_def)
  note tv = tinvD [OF t]
  have mem: "i \<in> set ?is \<longleftrightarrow> i < length (hc_tasks c) \<and> \<not> rt_cleanupOnce (hc_tasks c ! i)" for i
  proof
    show "i \<in> set ?is \<Longrightarrow> i < length (hc_tasks c) \<and> \<not> rt_cleanupOnce (hc_tasks c ! i)"
      using tv(3,4) by (auto simp: in_refs_of)
    assume "i < length (hc_tasks c) \<and> \<not> rt_cleanupOnce (hc_tasks c ! i)"
    then have "fmlookup (hc_bgStarts c) (rt_startRequestID (hc_tasks c ! i)) = Some i" using tv(3) by simp
    then show "i \<in> set ?is" by (auto simp: in_refs_of)
  qed
  have all: "\<forall>i\<in>set ?is. i < length (hc_tasks c)" using mem by blast
  note f = finish_all [OF inv distinct_remdups all d_def [unfolded failAllBackgroundTasks_def]]
  show d: "hc_inv d" "hc_pool d = hc_pool c" "length (hc_tasks d) = length (hc_tasks c)" using f by simp_all
  show look: "hc_tasks d ! j =
      (if rt_cleanupOnce (hc_tasks c ! j) then hc_tasks c ! j else finished (Some err) (hc_tasks c ! j))"
    if "j < length (hc_tasks c)" for j
    using f mem [of j] that by simp
  have td: "tinv (hc_nextSeq d) (hc_tasks d) (hc_bgTasks d) (hc_bgStarts d)" using d(1) by (simp add: hc_inv_def)
  have cl: "rt_cleanupOnce (hc_tasks d ! j)" if "j < length (hc_tasks d)" for j
    using look that d(3) by simp
  show "hc_bgStarts d = fmempty" "hc_bgTasks d = fmempty"
    using tinvD(3,4) [OF td] cl by (intro fmap_ext; metis fmempty_lookup not_None_eq)+
qed

section \<open>The steps\<close>

inductive hc_step :: "hostClient \<Rightarrow> hostClient \<Rightarrow> bool" where
  Request: "hc_step c (snd (begin_request op c))"
| Unregister: "hc_step c (unregisterWaiter rid c)"
| Wait: "i < length (hc_pool c) \<Longrightarrow> hc_step c (snd (waitForRequestFrame op cancelled killed i c))"
| BeginStart: "hc_step c (snd (begin_start runID u c))"
| StartReply: "i < length (hc_tasks c) \<Longrightarrow> rt_taskID (hc_tasks c ! i) = [] \<Longrightarrow>
    hc_step c (snd (start_reply outcome rid i answer c))"
| BeginStop: "i < length (hc_tasks c) \<Longrightarrow> hc_step c (snd (begin_stop i c))"
| StopReply: "i < length (hc_tasks c) \<Longrightarrow> hc_step c (snd (stop_reply rid i answer c))"
| Finish: "i < length (hc_tasks c) \<Longrightarrow> hc_step c (task_finish err i c)"
| Read: "hc_pumpDone c = None \<Longrightarrow> hc_pending c = None \<Longrightarrow> hc_step c (read_frame killed outcome frame c)"
| Deliver: "hc_step c (deliver_pending pick killed c)"
| ReadError: "hc_pumpDone c = None \<Longrightarrow> hc_pending c = None \<Longrightarrow> hc_step c (read_error err c)"
| Shutdown: "hc_step c (shutdown kill killed c)"
| Stopping: "i < length (hc_tasks c) \<Longrightarrow> hc_step c (setStopping stopping i c)"

inductive hc_reach :: "hostClient \<Rightarrow> bool" where
  New: "hc_reach new_client"
| Next: "hc_reach c \<Longrightarrow> hc_step c c' \<Longrightarrow> hc_reach c'"

inductive_cases hc_stepE: "hc_step c c'"

lemma hc_inv_new: "hc_inv new_client"
  by (auto simp: hc_inv_def new_client_def winv_def tinv_def)

lemma hc_inv_shutdown [simp]: "hc_inv (shutdown kill killed c) \<longleftrightarrow> hc_inv c"
  by (simp add: hc_inv_def shutdown_def)

lemma begin_request_frame:
  "snd (begin_request op c) = c\<lparr>hc_nextSeq := hc_nextSeq c + 1,
     hc_pool := hc_pool c @ [\<lparr>wt_results = [], wt_done = False\<rparr>],
     hc_waiters := fmupd (numbered op (hc_nextSeq c + 1)) (length (hc_pool c)) (hc_waiters c)\<rparr>"
  "fst (begin_request op c) = (numbered op (hc_nextSeq c + 1), length (hc_pool c))"
  by (simp_all add: begin_request_def nextRequestID_def registerWaiter_def Let_def)

lemma hc_inv_request: "hc_inv c \<Longrightarrow> hc_inv (snd (begin_request op c))"
  unfolding hc_inv_def begin_request_frame
  by (auto simp: winv_register tinv_mono less_SucI elim!: tinv_mono)

lemma hc_inv_unregister: "hc_inv c \<Longrightarrow> hc_inv (unregisterWaiter rid c)"
  by (auto simp: hc_inv_def unregisterWaiter_def winv_unregister split: option.splits)

lemma hc_inv_wait:
  assumes "hc_inv c" and i: "i < length (hc_pool c)"
  shows "hc_inv (snd (waitForRequestFrame op cancelled killed i c))"
proof -
  have w: "winv (hc_nextSeq c) (hc_pool c) (hc_waiters c)" using assms(1) by (simp add: hc_inv_def)
  have "hc_inv (map_waiter i (\<lambda>w. w\<lparr>wt_results := rest\<rparr>) c)" if "wt_results (hc_pool c ! i) = r # rest" for r rest
  proof -
    have "length (wt_results (hc_pool c ! i)) \<le> queueCapacity" using winvD(5) [OF w] i by simp
    with that winv_update [OF w i, of "(hc_pool c ! i)\<lparr>wt_results := rest\<rparr>"] assms(1) show ?thesis
      by (simp add: hc_inv_def)
  qed
  with assms show ?thesis by (auto simp: waitForRequestFrame_def split: option.split list.split)
qed

lemma hc_inv_begin_start:
  assumes "hc_inv c" shows "hc_inv (snd (begin_start runID u c))"
proof -
  have w: "winv (hc_nextSeq c) (hc_pool c) (hc_waiters c)"
    and t: "tinv (hc_nextSeq c) (hc_tasks c) (hc_bgTasks c) (hc_bgStarts c)" using assms by (simp_all add: hc_inv_def)
  note b = begin_request_frame [of "''start''" c]
  have unf: "snd (begin_start runID u c) =
      snd (registerBackgroundTask (new_task (numbered ''start'' (hc_nextSeq c + 1)) runID u) (snd (begin_request ''start'' c)))"
    using b(2) by (cases "begin_request ''start'' c") (auto simp: begin_start_def split: prod.splits)
  have none: "rt_taskID (new_task rid runID u) = []" "rt_startRequestID (new_task rid runID u) = rid" for rid
    by (simp_all add: new_task_def)
  show ?thesis
    using assms winv_register [OF w, of "''start''"] tinv_register [OF t winvD(1) [OF w] refl, of "''start''" runID u]
    by (auto simp: unf b(1) hc_inv_def registerBackgroundTask_def Let_def none)
qed

lemma hc_inv_artifacts:
  "hc_inv c \<Longrightarrow> i < length (hc_tasks c) \<Longrightarrow> hc_inv (map_task i (\<lambda>t. t\<lparr>rt_artifacts := a\<rparr>) c)"
  by (rule hc_inv_map_task) (simp_all add: task_ok_def)

lemma hc_inv_setStopping: "hc_inv c \<Longrightarrow> i < length (hc_tasks c) \<Longrightarrow> hc_inv (setStopping b i c)"
  unfolding setStopping_def by (rule hc_inv_map_task) (simp_all add: task_ok_def)

lemma hc_inv_registerID:
  assumes "hc_inv c" and i: "i < length (hc_tasks c)" and "rt_taskID (hc_tasks c ! i) = []" and "taskID \<noteq> []"
  shows "hc_inv (registerBackgroundTaskID i taskID c)"
proof -
  have t: "tinv (hc_nextSeq c) (hc_tasks c) (hc_bgTasks c) (hc_bgStarts c)" using assms(1) by (simp add: hc_inv_def)
  have ok: "task_ok (hc_tasks c ! i)" using tinvD(1) [OF t, of "hc_tasks c ! i"] i by simp
  show ?thesis
  proof (cases "rt_completed (hc_tasks c ! i)")
    case False
    with ok have "\<not> rt_cleanupOnce (hc_tasks c ! i)" by (simp add: task_ok_def)
    from tinv_set_id [OF t i assms(3,4) this] False assms(1) show ?thesis
      by (simp add: registerBackgroundTaskID_def hc_inv_def)
  qed (use assms(1) in \<open>simp add: registerBackgroundTaskID_def\<close>)
qed

lemma hc_inv_start_reply:
  assumes "hc_inv c" and "i < length (hc_tasks c)" and "rt_taskID (hc_tasks c ! i) = []"
  shows "hc_inv (snd (start_reply outcome rid i answer c))"
proof -
  let ?c = "map_task i (\<lambda>t. t\<lparr>rt_artifacts := snd outcome\<rparr>) c"
  have art: "hc_inv ?c" "hc_inv (task_finish err i ?c)" for err
    using hc_inv_artifacts [OF assms(1,2)] hc_inv_finish [of ?c i err] assms(2) by simp_all
  then show ?thesis
    using hc_inv_finish [OF assms(1,2)] hc_inv_registerID [OF assms]
    by (auto simp: start_reply_def Let_def split: sum.splits option.splits frameBody.splits)
qed

lemma hc_inv_begin_stop: "hc_inv c \<Longrightarrow> i < length (hc_tasks c) \<Longrightarrow> hc_inv (snd (begin_stop i c))"
  by (simp add: begin_stop_def hc_inv_request hc_inv_setStopping)

lemma hc_inv_stop_reply:
  "hc_inv c \<Longrightarrow> i < length (hc_tasks c) \<Longrightarrow> hc_inv (snd (stop_reply rid i answer c))"
  by (auto simp: stop_reply_def Let_def hc_inv_finish hc_inv_setStopping split: sum.splits frameBody.splits)

lemma hc_inv_fail_client: "hc_inv c \<Longrightarrow> hc_inv (fail_client killed err c)"
  by (simp add: fail_client_def failAll_tasks(1) [OF _ refl] hc_inv_failAllWaiters(1))

lemma hc_inv_event:
  assumes "hc_inv c" shows "hc_inv (dispatchBackgroundEvent frame taskID event err c)"
proof -
  have t: "tinv (hc_nextSeq c) (hc_tasks c) (hc_bgTasks c) (hc_bgStarts c)" using assms by (simp add: hc_inv_def)
  have "i < length (hc_tasks c)" if "backgroundTaskForEvent frame taskID c = Some i" for i
    using that tinvD(3,4) [OF t] by (auto simp: backgroundTaskForEvent_def split: option.splits if_splits)
  with assms show ?thesis
    by (auto simp: dispatchBackgroundEvent_def intro!: hc_inv_map_task split: option.splits)
qed

lemma hc_inv_lifecycle:
  assumes "hc_inv c" shows "hc_inv (snd (dispatchBackgroundLifecycleFrame outcome frame c))"
proof -
  have t: "tinv (hc_nextSeq c) (hc_tasks c) (hc_bgTasks c) (hc_bgStarts c)" using assms by (simp add: hc_inv_def)
  have i: "i < length (hc_tasks c)" if "fmlookup (hc_bgStarts c) k = Some i" for i k
    using that tinvD(3) [OF t] by simp
  have "hc_inv (map_task i (\<lambda>t. t\<lparr>rt_artifacts := snd outcome\<rparr>) c) \<and>
      hc_inv (task_finish err i (map_task i (\<lambda>t. t\<lparr>rt_artifacts := snd outcome\<rparr>) c))"
    if "fmlookup (hc_bgStarts c) k = Some i" for i k err
    using hc_inv_artifacts [OF assms i [OF that]] hc_inv_finish i [OF that] by simp
  with assms show ?thesis
    by (auto simp: dispatchBackgroundLifecycleFrame_def Let_def split: option.splits)
qed

lemma hc_inv_read:
  assumes "hc_inv c" shows "hc_inv (read_frame killed outcome frame c)"
proof -
  have w: "winv (hc_nextSeq c) (hc_pool c) (hc_waiters c)" using assms by (simp add: hc_inv_def)
  have pend: "hc_inv (c\<lparr>hc_pending := Some (i, frame)\<rparr>)" if "fmlookup (hc_waiters c) k = Some i" for i k
    using assms winvD(2) [OF w that] by (simp add: hc_inv_def)
  obtain h d where l: "dispatchBackgroundLifecycleFrame outcome frame c = (h, d)" by force
  have "hc_inv d" using hc_inv_lifecycle [OF assms, of outcome frame] l by simp
  then show ?thesis using pend hc_inv_event [OF assms] hc_inv_fail_client
    by (auto simp: read_frame_def l split: frameBody.splits option.splits bool.splits)
qed

lemma hc_inv_deliver:
  assumes "hc_inv c" shows "hc_inv (deliver_pending pick killed c)"
proof (cases "hc_pending c")
  case (Some p)
  obtain i frame where p: "p = (i, frame)" by force
  let ?c = "c\<lparr>hc_pending := None\<rparr>" and ?w = "hc_pool c ! i"
  have inv: "hc_inv ?c" and i: "i < length (hc_pool c)" using assms Some p by (simp_all add: hc_inv_def)
  have w: "winv (hc_nextSeq c) (hc_pool c) (hc_waiters c)" using assms by (simp add: hc_inv_def)
  have "hc_inv (map_waiter i (\<lambda>_. v) ?c)" if "offer_result pick (RFrame frame) ?w = (Sent, v)" for v
    using that winv_update [OF w i, of v] inv
    by (auto simp: offer_result_def hc_inv_def split: if_splits)
  with inv hc_inv_fail_client [OF inv] show ?thesis
    by (auto simp: deliver_pending_def Some p deliverWaiterResult_def split: prod.split offer.split)
qed (use assms in \<open>simp add: deliver_pending_def\<close>)

lemma hc_inv_read_error: "hc_inv c \<Longrightarrow> hc_inv (read_error err c)"
  using failAll_tasks(1) [OF hc_inv_failAllWaiters(1) refl] by (simp add: read_error_def hc_inv_def)

lemma hc_inv_step: "hc_inv c \<Longrightarrow> hc_step c c' \<Longrightarrow> hc_inv c'"
  by (erule hc_stepE)
    (simp_all add: hc_inv_request hc_inv_unregister hc_inv_wait hc_inv_begin_start hc_inv_start_reply
      hc_inv_begin_stop hc_inv_stop_reply hc_inv_finish hc_inv_read hc_inv_deliver hc_inv_read_error
      hc_inv_setStopping)

lemma hc_reach_inv: "hc_reach c \<Longrightarrow> hc_inv c"
  by (induction rule: hc_reach.induct) (auto intro: hc_inv_new hc_inv_step)

section \<open>The client's promises\<close>

text \<open>
  C24: Nobody waits for a dead plugin. In every reachable state, when reading from the plugin fails, all waiting requests are
  released, every background task that ever started has reported its end exactly once, and no request and no task is left
  registered; a task that had ended before keeps the end it reported.
\<close>

theorem read_error_releases_all:
  assumes "hc_reach c"
  shows "(\<forall>w\<in>set (hc_pool (read_error err c)). wt_done w) \<and>
    (\<forall>t\<in>set (hc_tasks (read_error err c)). length (rt_done t) = 1 \<and> rt_doneSignal t) \<and>
    (\<forall>i<length (hc_tasks c). rt_completeOnce (hc_tasks c ! i) \<longrightarrow>
       rt_done (hc_tasks (read_error err c) ! i) = rt_done (hc_tasks c ! i)) \<and>
    hc_waiters (read_error err c) = fmempty \<and> hc_bgTasks (read_error err c) = fmempty \<and>
    hc_bgStarts (read_error err c) = fmempty"
proof -
  let ?e = "Errorf ''read plugin frame: %w'' [ArgE err]"
  define d where "d = failAllWaiters err c"
  define r where "r = failAllBackgroundTasks ?e d"
  have d: "hc_inv d" "\<forall>w\<in>set (hc_pool d). wt_done w" "hc_tasks d = hc_tasks c" "hc_waiters d = fmempty"
    using hc_inv_failAllWaiters [OF hc_reach_inv [OF assms]] by (simp_all add: d_def)
  note f = failAll_tasks [OF d(1) r_def]
  have inv: "hc_inv (read_error err c)" by (rule hc_inv_read_error [OF hc_reach_inv [OF assms]])
  have e: "read_error err c = r\<lparr>hc_pumpDone := Some err\<rparr>" by (simp add: read_error_def r_def d_def)
  have ok: "task_ok t" if "t \<in> set (hc_tasks r)" for t
    using tinvD(1) that f(1) unfolding hc_inv_def by blast
  have "rt_completeOnce t" if t: "t \<in> set (hc_tasks r)" for t
  proof -
    from t obtain j where j: "j < length (hc_tasks r)" "t = hc_tasks r ! j" by (auto simp: in_set_conv_nth)
    with f(3,4) have "rt_cleanupOnce t" by (cases "rt_cleanupOnce (hc_tasks d ! j)") simp_all
    with ok [OF t] show ?thesis by (simp add: task_ok_def)
  qed
  with ok have "\<forall>t\<in>set (hc_tasks r). length (rt_done t) = 1 \<and> rt_doneSignal t" by (simp add: task_ok_def)
  moreover have "rt_done (hc_tasks r ! i) = rt_done (hc_tasks c ! i)"
    if "i < length (hc_tasks c)" "rt_completeOnce (hc_tasks c ! i)" for i
    using f(4) [of i] that by (simp add: d(3) finished_keeps_answer)
  moreover have "hc_waiters r = fmempty"
  proof -
    have "hc_waiters (foldl (\<lambda>c i. task_finish (Some ?e) i c) x is) = hc_waiters x" for x "is"
      by (induction "is" arbitrary: x) simp_all
    then show ?thesis by (simp add: r_def failAllBackgroundTasks_def d(4))
  qed
  ultimately show ?thesis using d(2) f(2,5,6) by (simp add: e)
qed

definition demo_client :: hostClient where
  "demo_client = snd (begin_start ''run'' ''u'' (snd (begin_request ''validate'' new_client)))"

lemma demo_client_reach: "hc_reach demo_client"
  unfolding demo_client_def
  by (rule hc_reach.Next [OF hc_reach.Next [OF hc_reach.New hc_step.Request] hc_step.BeginStart])

theorem read_error_releases_all_witness:
  "length (rt_done (hc_tasks (read_error (Errorf ''EOF'' []) demo_client) ! 0)) = 1"
proof -
  have "length (hc_tasks (read_error (Errorf ''EOF'' []) demo_client)) = 1" by code_simp
  then have "hc_tasks (read_error (Errorf ''EOF'' []) demo_client) ! 0 \<in> set (hc_tasks (read_error (Errorf ''EOF'' []) demo_client))"
    by simp
  with read_error_releases_all [OF demo_client_reach] show ?thesis by blast
qed

text \<open>
  C25: The client's invariants. In every reachable state no response queue is longer than its capacity, every open waiter is
  registered under exactly one request id, every task has reported its end at most once, request ids of
  tasks are distinct, and a task that is not cleaned up can be found by the id of its start request.
\<close>

theorem client_invariants:
  assumes "hc_reach c"
  shows "(\<forall>w\<in>set (hc_pool c). length (wt_results w) \<le> queueCapacity) \<and>
    (\<forall>i<length (hc_pool c). \<not> wt_done (hc_pool c ! i) \<longrightarrow> (\<exists>!k. fmlookup (hc_waiters c) k = Some i)) \<and>
    (\<forall>t\<in>set (hc_tasks c). length (rt_done t) \<le> 1) \<and>
    distinct (map rt_startRequestID (hc_tasks c)) \<and>
    (\<forall>i<length (hc_tasks c). \<not> rt_cleanupOnce (hc_tasks c ! i) \<longrightarrow>
       fmlookup (hc_bgStarts c) (rt_startRequestID (hc_tasks c ! i)) = Some i)"
proof -
  have w: "winv (hc_nextSeq c) (hc_pool c) (hc_waiters c)"
    and t: "tinv (hc_nextSeq c) (hc_tasks c) (hc_bgTasks c) (hc_bgStarts c)"
    using hc_reach_inv [OF assms] by (simp_all add: hc_inv_def)
  have "length (rt_done x) \<le> 1" if "x \<in> set (hc_tasks c)" for x
    using tinvD(1) [OF t that] by (auto simp: task_ok_def)
  with winvD(3-5) [OF w] tinvD(2,3) [OF t] show ?thesis by blast
qed

theorem client_invariants_witness:
  "fmlookup (hc_bgStarts demo_client) (rt_startRequestID (hc_tasks demo_client ! 0)) = Some 0"
proof -
  have "0 < length (hc_tasks demo_client)" "\<not> rt_cleanupOnce (hc_tasks demo_client ! 0)" by code_simp+
  with client_invariants [OF demo_client_reach] show ?thesis by blast
qed

end
