(* ===== verification/Plugin_Server.thy ===== *)
theory Plugin_Server
  imports Remote_Run
begin

text \<open>
  The plugin's side of the protocol, \<open>sdk/go/wkbench/plugin/server.go\<close>: the requests a plugin
  serves, the frames with which a finished unit reports its outputs and metrics, the chunked
  artifact writer, and the registry of background tasks with the goroutine that monitors each of
  them. The writer is a state \<open>'o\<close> with its \<open>writeFrame\<close>; \<open>json.Marshal\<close> is the parameter \<open>marshal\<close>.
\<close>

type_synonym 'o frameWriter = "Frame \<Rightarrow> 'o \<Rightarrow> goerr option \<times> 'o"

definition plain_frame :: "string \<Rightarrow> frameBody \<Rightarrow> Frame" where
  "plain_frame rid body = \<lparr>fr_RequestId = rid, fr_RunId = [], fr_UnitInstanceId = [], fr_Body = body\<rparr>"

definition writeProtocolError :: "'o frameWriter \<Rightarrow> string \<Rightarrow> string \<Rightarrow> goerr \<Rightarrow> 'o \<Rightarrow> goerr option \<times> 'o" where
  "writeProtocolError wr rid code message out = wr (plain_frame rid (FError code message)) out"

section \<open>Reporting outputs and metrics\<close>

record 'v Marshal =
  mj_marshal :: "'v \<Rightarrow> string result"
  mj_ReportOutput :: "'v \<Rightarrow> 'v option"

definition encodeJSONPayload :: "'v Marshal \<Rightarrow> 'v \<Rightarrow> string result" where
  "encodeJSONPayload mj v =
     (case mj_marshal mj v of
        Inl err \<Rightarrow> Inl (Errorf ''encode json payload: %w'' [ArgE err])
      | Inr p \<Rightarrow> Inr p)"

definition report_payload :: "'v Marshal \<Rightarrow> PortDef \<Rightarrow> 'v \<Rightarrow> string result" where
  "report_payload mj def v =
     (if pm_Reportable (pd_Meta def) \<and> \<not> pm_Sensitive (pd_Meta def)
      then encodeJSONPayload mj (case mj_ReportOutput mj v of Some r \<Rightarrow> r | None \<Rightarrow> v)
      else Inr [])"

definition output_value :: "PortDef \<Rightarrow> string \<Rightarrow> string \<Rightarrow> PortValue" where
  "output_value def payload reportPayload =
     \<lparr>vl_type = pd_Type def, vl_encoding = ''json'', vl_transport = pm_Transport (pd_Meta def),
      vl_sensitive = pm_Sensitive (pd_Meta def), vl_reportable = pm_Reportable (pd_Meta def),
      vl_payload = payload, vl_reportPayload = reportPayload\<rparr>"

fun writeOutputs :: "'o frameWriter \<Rightarrow> 'v Marshal \<Rightarrow> string \<Rightarrow> 'v TestRunEnv \<Rightarrow> PortDef list \<Rightarrow> 'o \<Rightarrow> goerr option \<times> 'o" where
  "writeOutputs wr mj rid env [] out = (None, out)"
| "writeOutputs wr mj rid env (def # defs) out =
     (case te_Output (pd_Name def) env of
        None \<Rightarrow> writeOutputs wr mj rid env defs out
      | Some v \<Rightarrow>
          (case encodeJSONPayload mj v of
             Inl err \<Rightarrow> (Some err, out)
           | Inr payload \<Rightarrow>
               (case report_payload mj def v of
                  Inl err \<Rightarrow> (Some err, out)
                | Inr reportPayload \<Rightarrow>
                    (case wr (plain_frame rid (FSetOutput (pd_Name def)
                                (Some (output_value def payload reportPayload)))) out of
                       (Some err, out) \<Rightarrow> (Some err, out)
                     | (None, out) \<Rightarrow> writeOutputs wr mj rid env defs out))))"

definition writeMetricFlush :: "'o frameWriter \<Rightarrow> string \<Rightarrow> 'v TestRunEnv \<Rightarrow> 'o \<Rightarrow> goerr option \<times> 'o" where
  "writeMetricFlush wr rid env out =
     (let snapshots = te_MetricSnapshots env
      in if snapshots = [] then (None, out) else wr (plain_frame rid (FMetricFlush snapshots)) out)"

section \<open>Requests\<close>

record ServeRequest =
  sq_RequestId :: string
  sq_UnitName :: string
  sq_Kind :: string
  sq_RunId :: string
  sq_RunDurationMillis :: int
  sq_WorkerCount :: int

record 'v remoteRunEnv =
  xe_TestRunEnv :: "'v TestRunEnv"
  xe_ids :: runIds
  xe_reader :: bool
  xe_artifactDefs :: "ArtifactDef gomap"

definition newRemoteRunEnv :: "ServeRequest \<Rightarrow> 'v gomap \<Rightarrow> ArtifactDef list \<Rightarrow> bool \<Rightarrow> 'v remoteRunEnv" where
  "newRemoteRunEnv req inputs artifacts hasReader =
     \<lparr>xe_TestRunEnv = NewTestRunEnv (sq_RunId req) (sq_UnitName req) inputs,
      xe_ids = \<lparr>ri_request = sq_RequestId req, ri_run = sq_RunId req, ri_unit = sq_UnitName req\<rparr>,
      xe_reader = hasReader,
      xe_artifactDefs = map_collect ad_Name id artifacts fmempty\<rparr>"

text \<open>
  A unit of the plugin, which is code of its own. \<open>sv_Run\<close> is the whole body of a run: it may read and write frames
  (the state \<open>'o\<close>) and gives its error and the environment it leaves.
\<close>

record ('v, 'o) ServedUnit =
  sv_Definition :: UnitDef
  sv_Validate :: "'v TestRunEnv \<Rightarrow> goerr option"
  sv_Plan :: "'v TestRunEnv \<Rightarrow> string result"
  sv_Run :: "'v remoteRunEnv \<Rightarrow> 'o \<Rightarrow> goerr option \<times> 'v TestRunEnv \<times> 'o"

definition newServer :: "('v, 'o) ServedUnit list \<Rightarrow> ('v, 'o) ServedUnit gomap" where
  "newServer units = map_collect (\<lambda>u. ud_Kind (sv_Definition u)) id units fmempty"

definition server_unit :: "('v, 'u) ServedUnit gomap \<Rightarrow> string \<Rightarrow> ('v, 'u) ServedUnit result" where
  "server_unit units kind =
     (case fmlookup units kind of
        None \<Rightarrow> Inl (Errorf ''unit kind %q is not registered'' [ArgS kind])
      | Some u \<Rightarrow> Inr u)"

text \<open>\<open>spec\<close> and \<open>inputs\<close> are the outcomes of decoding the JSON of the request.\<close>

definition configureRunEnv :: "int \<Rightarrow> int \<Rightarrow> 'v TestRunEnv \<Rightarrow> 'v TestRunEnv" where
  "configureRunEnv durationMillis workerCount env =
     (let env = te_SetRunDuration (wrap64 (durationMillis * 1000000)) env
      in if workerCount > 0 then te_SetWorkerCount workerCount env else env)"

definition handleValidate :: "'o frameWriter \<Rightarrow> ('v, 'u) ServedUnit gomap \<Rightarrow> ServeRequest \<Rightarrow> goerr option \<Rightarrow> 'o \<Rightarrow> goerr option \<times> 'o" where
  "handleValidate wr units req spec out =
     (case server_unit units (sq_Kind req) of
        Inl err \<Rightarrow> writeProtocolError wr (sq_RequestId req) ''CONFIG_ERROR'' err out
      | Inr u \<Rightarrow>
          (case spec of
             Some err \<Rightarrow> writeProtocolError wr (sq_RequestId req) ''CONFIG_ERROR'' err out
           | None \<Rightarrow>
               (case sv_Validate u (NewTestRunEnv [] (sq_UnitName req) fmempty) of
                  Some err \<Rightarrow> writeProtocolError wr (sq_RequestId req) ''CONFIG_ERROR'' err out
                | None \<Rightarrow> wr (plain_frame (sq_RequestId req) FValidateResponse) out)))"

definition handlePlan :: "'o frameWriter \<Rightarrow> ('v, 'u) ServedUnit gomap \<Rightarrow> ServeRequest \<Rightarrow> goerr option \<Rightarrow> 'o \<Rightarrow> goerr option \<times> 'o" where
  "handlePlan wr units req spec out =
     (case server_unit units (sq_Kind req) of
        Inl err \<Rightarrow> writeProtocolError wr (sq_RequestId req) ''PLAN_ERROR'' err out
      | Inr u \<Rightarrow>
          (case spec of
             Some err \<Rightarrow> writeProtocolError wr (sq_RequestId req) ''PLAN_ERROR'' err out
           | None \<Rightarrow>
               (case sv_Plan u (configureRunEnv (sq_RunDurationMillis req) (sq_WorkerCount req)
                       (NewTestRunEnv (sq_RunId req) (sq_UnitName req) fmempty)) of
                  Inl err \<Rightarrow> writeProtocolError wr (sq_RequestId req) ''PLAN_ERROR'' err out
                | Inr payload \<Rightarrow> wr (plain_frame (sq_RequestId req) (FPlanResponse payload)) out)))"

definition run_env_of :: "ServeRequest \<Rightarrow> 'v gomap \<Rightarrow> ArtifactDef list \<Rightarrow> 'v remoteRunEnv" where
  "run_env_of req ins artifacts =
     (let env = newRemoteRunEnv req ins artifacts True
      in env\<lparr>xe_TestRunEnv := configureRunEnv (sq_RunDurationMillis req) (sq_WorkerCount req) (xe_TestRunEnv env)\<rparr>)"

fun send_all :: "'o frameWriter \<Rightarrow> Frame list \<Rightarrow> 'o \<Rightarrow> 'o" where
  "send_all wr [] out = out"
| "send_all wr (f # fs) out = send_all wr fs (snd (wr f out))"

definition handleRun :: "'o frameWriter \<Rightarrow> 'v Marshal \<Rightarrow> ('v, 'o) ServedUnit gomap \<Rightarrow> ServeRequest \<Rightarrow> goerr option \<Rightarrow>
    'v gomap result \<Rightarrow> 'o \<Rightarrow> goerr option \<times> 'o" where
  "handleRun wr mj units req spec inputs out =
     (let rid = sq_RequestId req; fail = (\<lambda>err out. writeProtocolError wr rid ''RUN_ERROR'' err out)
      in case server_unit units (sq_Kind req) of
           Inl err \<Rightarrow> fail err out
         | Inr u \<Rightarrow>
             (case spec of
                Some err \<Rightarrow> fail err out
              | None \<Rightarrow>
                  (case inputs of
                     Inl err \<Rightarrow> fail err out
                   | Inr ins \<Rightarrow>
                       (case sv_Run u (run_env_of req ins (ud_Artifacts (sv_Definition u))) out of
                          (Some err, env, out) \<Rightarrow> fail err out
                        | (None, env, out) \<Rightarrow>
                            (case writeOutputs wr mj rid env (ud_Outputs (sv_Definition u)) out of
                               (Some err, out) \<Rightarrow> fail err out
                             | (None, out) \<Rightarrow>
                                 (case writeMetricFlush wr rid env out of
                                    (Some err, out) \<Rightarrow> (Some err, out)
                                  | (None, out) \<Rightarrow>
                                      wr (plain_frame rid (FTerminalStatus True None)) out))))))"

section \<open>The chunked artifact writer\<close>

definition artifactChunkMaxBytes :: nat where
  "artifactChunkMaxBytes = 64 * 2 ^ 10"

record remoteArtifactWriter =
  xw_name :: string
  xw_handle :: string
  xw_sequence :: int
  xw_closed :: bool

text \<open>The loop of \<open>Write\<close>: the bytes accepted before an error, the error, the writer.\<close>

function write_chunks :: "'o frameWriter \<Rightarrow> runIds \<Rightarrow> remoteArtifactWriter \<Rightarrow> string \<Rightarrow> nat \<Rightarrow> 'o \<Rightarrow>
    (nat \<times> goerr option) \<times> remoteArtifactWriter \<times> 'o" where
  "write_chunks wr ids w p written out =
     (if written < length p then
        (let end = (if written + artifactChunkMaxBytes > length p then length p else written + artifactChunkMaxBytes);
             w = w\<lparr>xw_sequence := xw_sequence w + 1\<rparr>;
             chunk = take (end - written) (drop written p)
         in case wr (reply ids (FArtifactChunk (xw_handle w) (xw_sequence w) chunk)) out of
              (Some err, out) \<Rightarrow> ((written, Some (Errorf ''write artifact chunk: %w'' [ArgE err])), w, out)
            | (None, out) \<Rightarrow> write_chunks wr ids w p end out)
      else ((written, None), w, out))"
  by pat_completeness auto
termination
  by (relation "measure (\<lambda>(wr, ids, w, p, written, out). length p - written)")
    (auto simp: artifactChunkMaxBytes_def)

declare write_chunks.simps [simp del]

definition xw_Write :: "'o frameWriter \<Rightarrow> runIds \<Rightarrow> string \<Rightarrow> remoteArtifactWriter \<Rightarrow> 'o \<Rightarrow>
    (nat \<times> goerr option) \<times> remoteArtifactWriter \<times> 'o" where
  "xw_Write wr ids p w out =
     (if xw_closed w then ((0, Some (Errorf ''artifact %q is closed'' [ArgS (xw_name w)])), w, out)
      else if length p = 0 then ((0, None), w, out)
      else write_chunks wr ids w p 0 out)"

definition list_writer :: "Frame list frameWriter" where
  "list_writer f out = (None, out @ [f])"

fun chunk_data :: "Frame list \<Rightarrow> string" where
  "chunk_data [] = []"
| "chunk_data (f # fs) = (case fr_Body f of FArtifactChunk h s d \<Rightarrow> d | _ \<Rightarrow> []) @ chunk_data fs"

fun chunk_sequence :: "Frame list \<Rightarrow> int list" where
  "chunk_sequence [] = []"
| "chunk_sequence (f # fs) = (case fr_Body f of FArtifactChunk h s d \<Rightarrow> [s] | _ \<Rightarrow> []) @ chunk_sequence fs"

definition chunk_ok :: "runIds \<Rightarrow> string \<Rightarrow> Frame \<Rightarrow> bool" where
  "chunk_ok ids handle f \<longleftrightarrow>
     fr_RequestId f = ri_request ids \<and>
     (case fr_Body f of FArtifactChunk h s d \<Rightarrow> h = handle \<and> d \<noteq> [] \<and> length d \<le> artifactChunkMaxBytes | _ \<Rightarrow> False)"

lemma chunk_data_append: "chunk_data (xs @ ys) = chunk_data xs @ chunk_data ys"
  by (induction xs) simp_all

lemma chunk_sequence_append: "chunk_sequence (xs @ ys) = chunk_sequence xs @ chunk_sequence ys"
  by (induction xs) simp_all

lemma write_chunks_list:
  assumes "written \<le> length p"
  shows "\<exists>fs. write_chunks list_writer ids w p written out =
      ((length p, None), w\<lparr>xw_sequence := xw_sequence w + int (length fs)\<rparr>, out @ fs) \<and>
    chunk_data fs = drop written p \<and> list_all (chunk_ok ids (xw_handle w)) fs \<and>
    chunk_sequence fs = map (\<lambda>i. xw_sequence w + 1 + int i) [0..<length fs]"
  using assms
proof (induction "length p - written" arbitrary: written w out rule: less_induct)
  case less
  show ?case
  proof (cases "written < length p")
    case False
    with less.prems show ?thesis by (intro exI [of _ "[]"]) (simp add: write_chunks.simps)
  next
    case True
    define stop where "stop = (if written + artifactChunkMaxBytes > length p then length p else written + artifactChunkMaxBytes)"
    have stop: "written < stop" "stop \<le> length p" "stop - written \<le> artifactChunkMaxBytes"
      using True by (auto simp: stop_def artifactChunkMaxBytes_def)
    let ?w = "w\<lparr>xw_sequence := xw_sequence w + 1\<rparr>"
    let ?d = "take (stop - written) (drop written p)"
    let ?f = "reply ids (FArtifactChunk (xw_handle w) (xw_sequence w + 1) ?d)"
    have "length p - stop < length p - written" using stop True by linarith
    from less.hyps [OF this stop(2), of ?w "out @ [?f]"] obtain fs where fs:
      "write_chunks list_writer ids ?w p stop (out @ [?f]) =
        ((length p, None), ?w\<lparr>xw_sequence := xw_sequence ?w + int (length fs)\<rparr>, (out @ [?f]) @ fs)"
      "chunk_data fs = drop stop p" "list_all (chunk_ok ids (xw_handle ?w)) fs"
      "chunk_sequence fs = map (\<lambda>i. xw_sequence ?w + 1 + int i) [0..<length fs]" by blast
    have step: "write_chunks list_writer ids w p written out = write_chunks list_writer ids ?w p stop (out @ [?f])"
      using True by (subst write_chunks.simps) (simp add: Let_def list_writer_def stop_def)
    have "drop written p = ?d @ drop stop p"
      using stop by (metis append_take_drop_id drop_drop le_add_diff_inverse2 less_imp_le)
    then have data: "chunk_data (?f # fs) = drop written p" by (simp add: reply_def fs(2))
    have "chunk_ok ids (xw_handle w) ?f"
      using stop True by (auto simp: chunk_ok_def reply_def)
    then have ok: "list_all (chunk_ok ids (xw_handle w)) (?f # fs)" using fs(3) by simp
    have "map (\<lambda>i. xw_sequence w + 1 + int i) [0..<length (?f # fs)] =
        (xw_sequence w + 1) # map (\<lambda>i. xw_sequence w + 1 + int i) (map Suc [0..<length fs])"
      by (simp add: upt_conv_Cons map_Suc_upt del: upt_Suc)
    then have sq: "chunk_sequence (?f # fs) = map (\<lambda>i. xw_sequence w + 1 + int i) [0..<length (?f # fs)]"
      by (simp add: reply_def fs(4))
    show ?thesis
      by (rule exI [of _ "?f # fs"]) (use step fs(1) data ok sq in simp)
  qed
qed

section \<open>Artifacts in chunks\<close>

text \<open>
  C32: Chunked artifacts. Whatever data is written to a remote artifact, the chunks sent concatenate to it,
  carry the handle of the artifact, are never empty nor longer than the limit, and are numbered without a gap
  from the last number used.
\<close>

theorem artifact_chunks_reassemble:
  "\<exists>fs. xw_Write list_writer ids p w out =
      (if xw_closed w then ((0, Some (Errorf ''artifact %q is closed'' [ArgS (xw_name w)])), w, out)
       else ((length p, None), w\<lparr>xw_sequence := xw_sequence w + int (length fs)\<rparr>, out @ fs)) \<and>
    chunk_data fs = p \<and> list_all (chunk_ok ids (xw_handle w)) fs \<and>
    chunk_sequence fs = map (\<lambda>i. xw_sequence w + 1 + int i) [0..<length fs]"
proof (cases "p = []")
  case True
  then show ?thesis by (intro exI [of _ "[]"]) (simp add: xw_Write_def)
next
  case False
  from write_chunks_list [of 0 p ids w out] obtain fs where
    "write_chunks list_writer ids w p 0 out = ((length p, None), w\<lparr>xw_sequence := xw_sequence w + int (length fs)\<rparr>, out @ fs)"
    "chunk_data fs = p" "list_all (chunk_ok ids (xw_handle w)) fs"
    "chunk_sequence fs = map (\<lambda>i. xw_sequence w + 1 + int i) [0..<length fs]" by auto
  with False show ?thesis by (intro exI [of _ fs]) (simp add: xw_Write_def)
qed

end
