(* ===== verification/Server_Tasks.thy ===== *)
theory Server_Tasks
  imports Plugin_Server
begin

text \<open>
  The background tasks of a plugin, \<open>sdk/go/wkbench/plugin/server.go\<close>. Every operation below is one
  section under \<open>taskMu\<close>; the request loop, the monitor goroutine of a task and a stop request
  interleave them freely, which is the step relation \<open>ts_step\<close>. Task ids are never reused, so the
  comparison \<open>s.tasks[tid] == record\<close> of the source is the test that the id is still in the map.
  \<open>ms_out\<close> is the sequence of event frames written; \<open>ms_seen\<close> records what the done channels
  delivered and is not part of the program.
\<close>

record taskRecord =
  bt_id :: string
  bt_requestID :: string
  bt_runID :: string
  bt_unitName :: string
  bt_doneObserved :: bool
  bt_doneErr :: "goerr option"
  bt_eventSent :: bool
  bt_monitorStopped :: bool
  bt_stopping :: bool

record taskServer =
  sv_nextTask :: int
  sv_tasks :: "taskRecord gomap"

definition new_taskServer :: taskServer where
  "new_taskServer = \<lparr>sv_nextTask = 0, sv_tasks = fmempty\<rparr>"

section \<open>The operations\<close>

definition update_task :: "string \<Rightarrow> (taskRecord \<Rightarrow> taskRecord) \<Rightarrow> taskServer \<Rightarrow> taskServer" where
  "update_task tid f s =
     (case fmlookup (sv_tasks s) tid of
        None \<Rightarrow> s
      | Some r \<Rightarrow> s\<lparr>sv_tasks := fmupd tid (f r) (sv_tasks s)\<rparr>)"

definition storeBackgroundTask :: "string \<Rightarrow> string \<Rightarrow> string \<Rightarrow> taskServer \<Rightarrow> taskRecord \<times> taskServer" where
  "storeBackgroundTask requestID runID unitName s =
     (let n = sv_nextTask s + 1; tid = numbered ''bg'' n;
          r = \<lparr>bt_id = tid, bt_requestID = requestID, bt_runID = runID, bt_unitName = unitName,
               bt_doneObserved = False, bt_doneErr = None, bt_eventSent = False,
               bt_monitorStopped = False, bt_stopping = False\<rparr>
      in (r, \<lparr>sv_nextTask = n, sv_tasks = fmupd tid r (sv_tasks s)\<rparr>))"

definition beginBackgroundTaskStop :: "string \<Rightarrow> taskServer \<Rightarrow> taskRecord option \<times> taskServer" where
  "beginBackgroundTaskStop taskID s =
     (case fmlookup (sv_tasks s) taskID of
        None \<Rightarrow> (None, s)
      | Some r \<Rightarrow> (let r = r\<lparr>bt_stopping := True\<rparr> in (Some r, s\<lparr>sv_tasks := fmupd taskID r (sv_tasks s)\<rparr>)))"

definition abortBackgroundTaskStop :: "string \<Rightarrow> taskServer \<Rightarrow> taskServer" where
  "abortBackgroundTaskStop taskID s = update_task taskID (\<lambda>r. r\<lparr>bt_stopping := False\<rparr>) s"

text \<open>The two locked sections of \<open>completeBackgroundTaskStop\<close>: telling the monitor, removing the task.\<close>

definition complete_tell :: "string \<Rightarrow> taskServer \<Rightarrow> taskServer" where
  "complete_tell taskID s = update_task taskID (\<lambda>r. r\<lparr>bt_monitorStopped := True\<rparr>) s"

definition complete_remove :: "string \<Rightarrow> taskServer \<Rightarrow> taskServer" where
  "complete_remove taskID s = s\<lparr>sv_tasks := fmdrop taskID (sv_tasks s)\<rparr>"

definition observeBackgroundDone :: "string \<Rightarrow> goerr option \<Rightarrow> taskServer \<Rightarrow> taskServer" where
  "observeBackgroundDone taskID err s =
     (case fmlookup (sv_tasks s) taskID of
        None \<Rightarrow> s
      | Some r \<Rightarrow>
          if bt_doneObserved r then s
          else s\<lparr>sv_tasks := fmupd taskID (r\<lparr>bt_doneObserved := True, bt_doneErr := err\<rparr>) (sv_tasks s)\<rparr>)"

definition event_frame :: "taskRecord \<Rightarrow> Frame" where
  "event_frame r =
     \<lparr>fr_RequestId = bt_requestID r, fr_RunId = bt_runID r, fr_UnitInstanceId = bt_unitName r,
      fr_Body = FBackgroundEvent (bt_id r)
        (if bt_doneErr r = None then ''completed'' else ''fatal_error'')
        (map_option (\<lambda>e. (''BACKGROUND_ERROR'', e)) (bt_doneErr r))\<rparr>"

definition emitObservedBackgroundEvent :: "string \<Rightarrow> taskServer \<Rightarrow> Frame list \<times> taskServer" where
  "emitObservedBackgroundEvent taskID s =
     (case fmlookup (sv_tasks s) taskID of
        None \<Rightarrow> ([], s)
      | Some r \<Rightarrow>
          if bt_doneObserved r \<and> \<not> bt_eventSent r
          then ([event_frame r], s\<lparr>sv_tasks := fmupd taskID (r\<lparr>bt_eventSent := True\<rparr>) (sv_tasks s)\<rparr>)
          else ([], s))"

definition flushReadyBackgroundEvent :: "string \<Rightarrow> goerr option option \<Rightarrow> taskServer \<Rightarrow> Frame list \<times> taskServer" where
  "flushReadyBackgroundEvent taskID ready s =
     emitObservedBackgroundEvent taskID
       (case ready of None \<Rightarrow> s | Some err \<Rightarrow> observeBackgroundDone taskID err s)"

section \<open>Interleavings\<close>

record machine =
  ms_server :: taskServer
  ms_out :: "Frame list"
  ms_seen :: "(string \<times> goerr option) list"

definition new_machine :: machine where
  "new_machine = \<lparr>ms_server = new_taskServer, ms_out = [], ms_seen = []\<rparr>"

definition first_seen :: "string \<Rightarrow> goerr option \<Rightarrow> machine \<Rightarrow> (string \<times> goerr option) list" where
  "first_seen tid err m =
     (case fmlookup (sv_tasks (ms_server m)) tid of
        None \<Rightarrow> []
      | Some r \<Rightarrow> if bt_doneObserved r then [] else [(tid, err)])"

inductive ts_step :: "machine \<Rightarrow> machine \<Rightarrow> bool" where
  Store: "ts_step m (m\<lparr>ms_server := snd (storeBackgroundTask rid run u (ms_server m))\<rparr>)"
| BeginStop: "ts_step m (m\<lparr>ms_server := snd (beginBackgroundTaskStop tid (ms_server m))\<rparr>)"
| AbortStop: "ts_step m (m\<lparr>ms_server := abortBackgroundTaskStop tid (ms_server m)\<rparr>)"
| CompleteTell: "ts_step m (m\<lparr>ms_server := complete_tell tid (ms_server m)\<rparr>)"
| CompleteRemove: "ts_step m (m\<lparr>ms_server := complete_remove tid (ms_server m)\<rparr>)"
| Observe: "ts_step m (m\<lparr>ms_server := observeBackgroundDone tid err (ms_server m),
    ms_seen := ms_seen m @ first_seen tid err m\<rparr>)"
| EmitEvent: "ts_step m (m\<lparr>ms_server := snd (emitObservedBackgroundEvent tid (ms_server m)),
    ms_out := ms_out m @ fst (emitObservedBackgroundEvent tid (ms_server m))\<rparr>)"

inductive ts_reach :: "machine \<Rightarrow> bool" where
  Init: "ts_reach new_machine"
| Step: "ts_reach m \<Longrightarrow> ts_step m m' \<Longrightarrow> ts_reach m'"

inductive_cases ts_stepE: "ts_step m m'"

fun event_id :: "Frame \<Rightarrow> string option" where
  "event_id f = (case fr_Body f of FBackgroundEvent tid ev err \<Rightarrow> Some tid | _ \<Rightarrow> None)"

definition events_of :: "string \<Rightarrow> Frame list \<Rightarrow> Frame list" where
  "events_of tid out = filter (\<lambda>f. event_id f = Some tid) out"

lemma events_of_simps [simp]:
  "events_of tid [] = []"
  "events_of tid (xs @ ys) = events_of tid xs @ events_of tid ys"
  by (simp_all add: events_of_def)

lemma events_of_event_frame: "events_of tid [event_frame r] = (if bt_id r = tid then [event_frame r] else [])"
  by (simp add: events_of_def event_frame_def)

definition created :: "string \<Rightarrow> taskServer \<Rightarrow> bool" where
  "created tid s \<longleftrightarrow> (\<exists>n. 1 \<le> n \<and> n \<le> sv_nextTask s \<and> tid = numbered ''bg'' n)"

text \<open>The body an event frame of \<open>tid\<close> has when the task ended with \<open>err\<close>.\<close>

definition event_body :: "string \<Rightarrow> goerr option \<Rightarrow> frameBody" where
  "event_body tid err = FBackgroundEvent tid (if err = None then ''completed'' else ''fatal_error'')
     (map_option (\<lambda>e. (''BACKGROUND_ERROR'', e)) err)"

definition record_ok :: "machine \<Rightarrow> string \<Rightarrow> taskRecord \<Rightarrow> bool" where
  "record_ok m tid r \<longleftrightarrow>
     bt_id r = tid \<and> created tid (ms_server m) \<and>
     (bt_eventSent r \<longrightarrow> bt_doneObserved r) \<and>
     (\<not> bt_eventSent r \<longrightarrow> events_of tid (ms_out m) = []) \<and>
     (if bt_doneObserved r then filter (\<lambda>x. fst x = tid) (ms_seen m) = [(tid, bt_doneErr r)]
      else filter (\<lambda>x. fst x = tid) (ms_seen m) = [])"

definition ts_inv :: "machine \<Rightarrow> bool" where
  "ts_inv m \<longleftrightarrow>
     0 \<le> sv_nextTask (ms_server m) \<and>
     (\<forall>tid r. fmlookup (sv_tasks (ms_server m)) tid = Some r \<longrightarrow> record_ok m tid r) \<and>
     (\<forall>tid. \<not> created tid (ms_server m) \<longrightarrow> events_of tid (ms_out m) = [] \<and> filter (\<lambda>x. fst x = tid) (ms_seen m) = []) \<and>
     (\<forall>tid. length (events_of tid (ms_out m)) \<le> 1) \<and>
     (\<forall>tid. length (filter (\<lambda>x. fst x = tid) (ms_seen m)) \<le> 1) \<and>
     (\<forall>tid. \<forall>f\<in>set (events_of tid (ms_out m)). \<exists>err. (tid, err) \<in> set (ms_seen m) \<and> fr_Body f = event_body tid err)"

lemma ts_inv_frame:
  assumes inv: "ts_inv m" and s: "sv_nextTask s = sv_nextTask (ms_server m)"
    and rec: "\<And>tid r. fmlookup (sv_tasks s) tid = Some r \<Longrightarrow>
      \<exists>r0. fmlookup (sv_tasks (ms_server m)) tid = Some r0 \<and> bt_id r = bt_id r0 \<and>
        bt_doneObserved r = bt_doneObserved r0 \<and> bt_doneErr r = bt_doneErr r0 \<and> bt_eventSent r = bt_eventSent r0"
  shows "ts_inv (m\<lparr>ms_server := s\<rparr>)"
proof -
  have c: "created tid s = created tid (ms_server m)" for tid by (simp add: created_def s)
  have "record_ok (m\<lparr>ms_server := s\<rparr>) tid r" if "fmlookup (sv_tasks s) tid = Some r" for tid r
    using rec [OF that] inv by (auto simp: ts_inv_def record_ok_def c)
  with inv show ?thesis by (simp add: ts_inv_def c s)
qed

lemma created_mono: "created tid s \<Longrightarrow> sv_nextTask s \<le> sv_nextTask s' \<Longrightarrow> created tid s'"
  by (auto simp: created_def)

lemma ts_inv_store:
  assumes inv: "ts_inv m"
  shows "ts_inv (m\<lparr>ms_server := snd (storeBackgroundTask rid run u (ms_server m))\<rparr>)"
proof -
  let ?s = "ms_server m" and ?s' = "snd (storeBackgroundTask rid run u (ms_server m))"
  let ?new = "numbered ''bg'' (sv_nextTask ?s + 1)"
  have n: "sv_nextTask ?s' = sv_nextTask ?s + 1" by (simp add: storeBackgroundTask_def Let_def)
  have new: "\<not> created ?new ?s" by (simp add: created_def)
  have old: "created tid ?s \<Longrightarrow> created tid ?s'" for tid using n by (auto intro: created_mono)
  have cnew: "created ?new ?s'" using n inv by (auto simp: created_def ts_inv_def)
  have "record_ok (m\<lparr>ms_server := ?s'\<rparr>) tid r" if r: "fmlookup (sv_tasks ?s') tid = Some r" for tid r
  proof (cases "tid = ?new")
    case True
    with r have "bt_id r = tid" "\<not> bt_doneObserved r" "\<not> bt_eventSent r"
      by (auto simp: storeBackgroundTask_def Let_def)
    with True inv new cnew show ?thesis by (simp add: record_ok_def ts_inv_def)
  next
    case False
    with r have "fmlookup (sv_tasks ?s) tid = Some r" by (simp add: storeBackgroundTask_def Let_def)
    with inv old show ?thesis by (simp add: ts_inv_def record_ok_def)
  qed
  moreover have "\<not> created tid ?s' \<Longrightarrow> \<not> created tid ?s" for tid using old by blast
  ultimately show ?thesis using inv n by (simp add: ts_inv_def)
qed

lemma ts_inv_observe:
  assumes inv: "ts_inv m"
  shows "ts_inv (m\<lparr>ms_server := observeBackgroundDone tid err (ms_server m), ms_seen := ms_seen m @ first_seen tid err m\<rparr>)"
proof (cases "\<exists>r. fmlookup (sv_tasks (ms_server m)) tid = Some r \<and> \<not> bt_doneObserved r")
  case False
  then have "observeBackgroundDone tid err (ms_server m) = ms_server m" "first_seen tid err m = []"
    by (auto simp: observeBackgroundDone_def first_seen_def split: option.splits)
  with inv show ?thesis by simp
next
  case True
  then obtain r where r: "fmlookup (sv_tasks (ms_server m)) tid = Some r" "\<not> bt_doneObserved r" by blast
  let ?r = "r\<lparr>bt_doneObserved := True, bt_doneErr := err\<rparr>"
  let ?m = "m\<lparr>ms_server := observeBackgroundDone tid err (ms_server m), ms_seen := ms_seen m @ first_seen tid err m\<rparr>"
  have s: "observeBackgroundDone tid err (ms_server m) = (ms_server m)\<lparr>sv_tasks := fmupd tid ?r (sv_tasks (ms_server m))\<rparr>"
    and f: "first_seen tid err m = [(tid, err)]"
    using r by (simp_all add: observeBackgroundDone_def first_seen_def)
  have ok: "record_ok m tid r" using inv r by (simp add: ts_inv_def)
  have c: "created i (ms_server ?m) = created i (ms_server m)" for i by (simp add: s created_def)
  have "record_ok ?m i q" if q: "fmlookup (sv_tasks (ms_server ?m)) i = Some q" for i q
  proof (cases "i = tid")
    case True
    with q have "q = ?r" by (simp add: s)
    with True ok r c show ?thesis by (simp add: record_ok_def f)
  next
    case False
    with q have "fmlookup (sv_tasks (ms_server m)) i = Some q" by (simp add: s)
    with inv have "record_ok m i q" by (simp add: ts_inv_def)
    with False c show ?thesis by (simp add: record_ok_def f)
  qed
  moreover have "length (filter (\<lambda>x. fst x = i) (ms_seen ?m)) \<le> 1" for i
  proof (cases "i = tid")
    case True
    have "filter (\<lambda>x. fst x = tid) (ms_seen m) = []" using ok r(2) by (simp add: record_ok_def)
    with True show ?thesis by (simp add: f)
  next
    case False
    with inv show ?thesis by (simp add: ts_inv_def f)
  qed
  moreover have "created tid (ms_server m)" using ok by (simp add: record_ok_def)
  ultimately show ?thesis using inv c by (auto simp: ts_inv_def f s) blast+
qed

lemma ts_inv_emit:
  assumes inv: "ts_inv m"
  shows "ts_inv (m\<lparr>ms_server := snd (emitObservedBackgroundEvent tid (ms_server m)),
    ms_out := ms_out m @ fst (emitObservedBackgroundEvent tid (ms_server m))\<rparr>)"
proof (cases "\<exists>r. fmlookup (sv_tasks (ms_server m)) tid = Some r \<and> bt_doneObserved r \<and> \<not> bt_eventSent r")
  case False
  then have "emitObservedBackgroundEvent tid (ms_server m) = ([], ms_server m)"
    by (auto simp: emitObservedBackgroundEvent_def split: option.splits)
  with inv show ?thesis by simp
next
  case True
  then obtain r where r: "fmlookup (sv_tasks (ms_server m)) tid = Some r" "bt_doneObserved r" "\<not> bt_eventSent r" by blast
  let ?s = "(ms_server m)\<lparr>sv_tasks := fmupd tid (r\<lparr>bt_eventSent := True\<rparr>) (sv_tasks (ms_server m))\<rparr>"
  let ?m = "m\<lparr>ms_server := ?s, ms_out := ms_out m @ [event_frame r]\<rparr>"
  have e: "emitObservedBackgroundEvent tid (ms_server m) = ([event_frame r], ?s)"
    using r by (simp add: emitObservedBackgroundEvent_def)
  have ok: "record_ok m tid r" using inv r by (simp add: ts_inv_def)
  then have id: "bt_id r = tid" and none: "events_of tid (ms_out m) = []"
    and seen: "filter (\<lambda>x. fst x = tid) (ms_seen m) = [(tid, bt_doneErr r)]"
    using r by (simp_all add: record_ok_def)
  have c: "created i ?s = created i (ms_server m)" for i by (simp add: created_def)
  have e1: "events_of i [event_frame r] = (if i = tid then [event_frame r] else [])" for i
    by (simp add: events_of_event_frame id)
  have "record_ok ?m i q" if q: "fmlookup (sv_tasks ?s) i = Some q" for i q
  proof (cases "i = tid")
    case True
    with q have "q = r\<lparr>bt_eventSent := True\<rparr>" by simp
    with True ok r c show ?thesis by (simp add: record_ok_def)
  next
    case False
    with q have "fmlookup (sv_tasks (ms_server m)) i = Some q" by simp
    with inv have "record_ok m i q" by (simp add: ts_inv_def)
    with False e1 c show ?thesis by (simp add: record_ok_def)
  qed
  moreover have "(tid, bt_doneErr r) \<in> set (ms_seen m)"
  proof -
    have "(tid, bt_doneErr r) \<in> set (filter (\<lambda>x. fst x = tid) (ms_seen m))" by (simp add: seen)
    then show ?thesis by simp
  qed
  moreover have "fr_Body (event_frame r) = event_body tid (bt_doneErr r)"
    by (simp add: event_frame_def event_body_def id)
  moreover have "created tid (ms_server m)" using ok by (simp add: record_ok_def)
  ultimately have "ts_inv ?m"
    using inv c e1 none by (auto simp: ts_inv_def)
  then show ?thesis by (simp add: e)
qed

lemma ts_inv_step:
  assumes inv: "ts_inv m" and "ts_step m m'"
  shows "ts_inv m'"
  using assms(2)
proof (cases rule: ts_step.cases)
  case (Store rid run u)
  with ts_inv_store [OF inv] show ?thesis by simp
next
  case (Observe tid err)
  with ts_inv_observe [OF inv] show ?thesis by simp
next
  case (EmitEvent tid)
  with ts_inv_emit [OF inv] show ?thesis by simp
next
  case (BeginStop tid)
  then show ?thesis
    using inv by (auto intro!: ts_inv_frame [OF inv] simp: beginBackgroundTaskStop_def Let_def split: option.splits if_splits)
next
  case (AbortStop tid)
  then show ?thesis
    using inv by (auto intro!: ts_inv_frame [OF inv] simp: abortBackgroundTaskStop_def update_task_def split: option.splits if_splits)
next
  case (CompleteTell tid)
  then show ?thesis
    using inv by (auto intro!: ts_inv_frame [OF inv] simp: complete_tell_def update_task_def split: option.splits if_splits)
next
  case (CompleteRemove tid)
  then show ?thesis
    using inv by (auto intro!: ts_inv_frame [OF inv] simp: complete_remove_def split: option.splits if_splits)
qed

lemma ts_reach_inv: "ts_reach m \<Longrightarrow> ts_inv m"
proof (induction rule: ts_reach.induct)
  case Init
  show ?case by (simp add: ts_inv_def new_machine_def new_taskServer_def created_def)
next
  case (Step m m')
  then show ?case using ts_inv_step by blast
qed

section \<open>Start and stop requests\<close>

text \<open>
  What happens outside the registry while a request is handled: the outcome of \<open>Start\<close>, and of
  \<open>Stop\<close> with the environment it leaves, and whether the done channel is ready at the end.
\<close>

record startWork =
  sw_background :: bool
  sw_spec :: "goerr option"
  sw_inputs :: "goerr option"
  sw_start :: "goerr option"
  sw_nilTask :: bool

definition handleStart :: "'o frameWriter \<Rightarrow> ('v, 'u) ServedUnit gomap \<Rightarrow> ServeRequest \<Rightarrow> startWork \<Rightarrow>
    taskServer \<times> 'o \<Rightarrow> goerr option \<times> taskServer \<times> 'o" where
  "handleStart wr units req work = (\<lambda>(s, out).
     let fail = (\<lambda>code err. case writeProtocolError wr (sq_RequestId req) code err out of (e, out) \<Rightarrow> (e, s, out))
     in case server_unit units (sq_Kind req) of
          Inl err \<Rightarrow> fail ''CONFIG_ERROR'' err
        | Inr u \<Rightarrow>
            if \<not> sw_background work
            then fail ''CONFIG_ERROR'' (Errorf ''unit kind %q is not a background unit'' [ArgS (sq_Kind req)])
            else (case sw_spec work of
              Some err \<Rightarrow> fail ''CONFIG_ERROR'' err
            | None \<Rightarrow>
                (case sw_inputs work of
                   Some err \<Rightarrow> fail ''RUN_ERROR'' err
                 | None \<Rightarrow>
                     (case sw_start work of
                        Some err \<Rightarrow> fail ''RUN_ERROR'' err
                      | None \<Rightarrow>
                          if sw_nilTask work
                          then fail ''RUN_ERROR'' (Errorf ''background unit returned nil task'' [])
                          else (case storeBackgroundTask (sq_RequestId req) (sq_RunId req) (sq_UnitName req) s of
                            (r, s) \<Rightarrow>
                              (case wr \<lparr>fr_RequestId = sq_RequestId req, fr_RunId = sq_RunId req,
                                     fr_UnitInstanceId = sq_UnitName req, fr_Body = FStartResponse (bt_id r)\<rparr> out of
                                 (e, out) \<Rightarrow> (e, s, out)))))))"

record 'v stopWork =
  sp_err :: "goerr option"
  sp_env :: "'v TestRunEnv"
  sp_outputs :: "PortDef list"
  sp_ready :: "goerr option option"

definition handleStop :: "'o frameWriter \<Rightarrow> 'v Marshal \<Rightarrow> string \<Rightarrow> string \<Rightarrow> 'v stopWork \<Rightarrow>
    taskServer \<times> 'o \<Rightarrow> goerr option \<times> taskServer \<times> 'o" where
  "handleStop wr mj rid taskID work = (\<lambda>(s, out).
     case beginBackgroundTaskStop taskID s of
       (None, s) \<Rightarrow>
         (case writeProtocolError wr rid ''CONFIG_ERROR'' (Errorf ''background task %q is not active'' [ArgS taskID]) out of
            (e, out) \<Rightarrow> (e, s, out))
     | (Some r, s) \<Rightarrow>
         (let fail = (\<lambda>err out. case writeProtocolError wr rid ''RUN_ERROR'' err out of
                (e, out) \<Rightarrow> (e, abortBackgroundTaskStop taskID s, out))
          in case sp_err work of
               Some err \<Rightarrow> fail err out
             | None \<Rightarrow>
                 (case writeOutputs wr mj (bt_requestID r) (sp_env work) (sp_outputs work) out of
                    (Some err, out) \<Rightarrow> fail err out
                  | (None, out) \<Rightarrow>
                      (case writeMetricFlush wr (bt_requestID r) (sp_env work) out of
                         (Some err, out) \<Rightarrow> fail err out
                       | (None, out) \<Rightarrow>
                           (case wr \<lparr>fr_RequestId = rid, fr_RunId = bt_runID r, fr_UnitInstanceId = bt_unitName r,
                                   fr_Body = FStopResponse\<rparr> out of
                              (Some err, out) \<Rightarrow> (Some err, abortBackgroundTaskStop taskID s, out)
                            | (None, out) \<Rightarrow>
                                (case flushReadyBackgroundEvent taskID (sp_ready work) s of
                                   (events, s) \<Rightarrow>
                                     (None, complete_remove taskID (complete_tell taskID s), send_all wr events out)))))))"

definition is_active :: "string \<Rightarrow> taskServer \<Rightarrow> bool" where
  "is_active tid s \<longleftrightarrow> fmlookup (sv_tasks s) tid \<noteq> None"

text \<open>The verdict of a stop request, by the code of the frame that answers it.\<close>

definition stop_frames :: "string \<Rightarrow> Frame list \<Rightarrow> frameBody list" where
  "stop_frames rid out = map fr_Body (filter (\<lambda>f. fr_RequestId f = rid) out)"

lemma handleStop_inactive:
  "\<not> is_active taskID s \<Longrightarrow>
   handleStop list_writer mj rid taskID work (s, out) =
     (None, s, out @ [plain_frame rid (FError ''CONFIG_ERROR'' (Errorf ''background task %q is not active'' [ArgS taskID]))])"
  by (auto simp: handleStop_def is_active_def beginBackgroundTaskStop_def writeProtocolError_def list_writer_def)

text \<open>A failed stop leaves the task active and ready for another attempt.\<close>

lemma handleStop_failed:
  assumes "fmlookup (sv_tasks s) taskID = Some r" and "sp_err work = Some err"
  shows "handleStop list_writer mj rid taskID work (s, out) =
    (None, s\<lparr>sv_tasks := fmupd taskID (r\<lparr>bt_stopping := False\<rparr>) (sv_tasks s)\<rparr>,
     out @ [plain_frame rid (FError ''RUN_ERROR'' err)])"
proof -
  have "r\<lparr>bt_stopping := True, bt_stopping := False\<rparr> = r\<lparr>bt_stopping := False\<rparr>" by simp
  with assms show ?thesis
    by (simp add: handleStop_def beginBackgroundTaskStop_def abortBackgroundTaskStop_def update_task_def
        writeProtocolError_def list_writer_def Let_def)
qed

text \<open>A successful stop answers, delivers the pending event of the task, and removes the task.\<close>

lemma handleStop_ok:
  assumes "fmlookup (sv_tasks s) taskID = Some r" and "bt_id r = taskID" and "sp_err work = None"
    and "writeOutputs list_writer mj (bt_requestID r) (sp_env work) (sp_outputs work) out = (None, out1)"
  shows "\<exists>s' events. handleStop list_writer mj rid taskID work (s, out) =
      (None, s', snd (writeMetricFlush list_writer (bt_requestID r) (sp_env work) out1) @
        [\<lparr>fr_RequestId = rid, fr_RunId = bt_runID r, fr_UnitInstanceId = bt_unitName r, fr_Body = FStopResponse\<rparr>] @ events) \<and>
    sv_tasks s' = fmdrop taskID (sv_tasks s) \<and>
    events = (if bt_eventSent r then []
      else if bt_doneObserved r then [event_frame r]
      else case sp_ready work of None \<Rightarrow> []
        | Some err \<Rightarrow> [event_frame (r\<lparr>bt_doneObserved := True, bt_doneErr := err\<rparr>)])"
proof -
  let ?r = "r\<lparr>bt_stopping := True\<rparr>"
  let ?s = "s\<lparr>sv_tasks := fmupd taskID ?r (sv_tasks s)\<rparr>"
  define fl where "fl = flushReadyBackgroundEvent taskID (sp_ready work) ?s"
  have wmf: "\<exists>o2. writeMetricFlush list_writer (bt_requestID r) (sp_env work) out1 = (None, o2)"
    by (simp add: writeMetricFlush_def list_writer_def Let_def)
  have send: "send_all list_writer fs o1 = o1 @ fs" for fs o1
    by (induction fs arbitrary: o1) (simp_all add: list_writer_def)
  have frame: "event_frame (q\<lparr>bt_stopping := b\<rparr>) = event_frame q" for q b
    by (simp add: event_frame_def)
  have ev: "fst fl = (if bt_eventSent r then []
      else if bt_doneObserved r then [event_frame r]
      else case sp_ready work of None \<Rightarrow> []
        | Some err \<Rightarrow> [event_frame (r\<lparr>bt_doneObserved := True, bt_doneErr := err\<rparr>)])"
    using frame by (auto simp: fl_def flushReadyBackgroundEvent_def emitObservedBackgroundEvent_def
        observeBackgroundDone_def event_frame_def split: option.splits)
  have tasks: "sv_tasks (complete_remove taskID (complete_tell taskID (snd fl))) = fmdrop taskID (sv_tasks s)"
  proof (rule fmap_ext)
    fix i
    have "i \<noteq> taskID \<Longrightarrow> fmlookup (sv_tasks (complete_tell taskID t)) i = fmlookup (sv_tasks t) i" for t
      by (simp add: complete_tell_def update_task_def split: option.splits)
    moreover have "i \<noteq> taskID \<Longrightarrow> fmlookup (sv_tasks (snd fl)) i = fmlookup (sv_tasks s) i"
      by (auto simp: fl_def flushReadyBackgroundEvent_def emitObservedBackgroundEvent_def
          observeBackgroundDone_def split: option.splits)
    ultimately show "fmlookup (sv_tasks (complete_remove taskID (complete_tell taskID (snd fl)))) i =
        fmlookup (fmdrop taskID (sv_tasks s)) i"
      by (simp add: complete_remove_def fmlookup_drop)
  qed
  obtain o2 where o2: "writeMetricFlush list_writer (bt_requestID r) (sp_env work) out1 = (None, o2)"
    using wmf by blast
  have "handleStop list_writer mj rid taskID work (s, out) =
      (None, complete_remove taskID (complete_tell taskID (snd fl)),
       o2 @ [\<lparr>fr_RequestId = rid, fr_RunId = bt_runID r, fr_UnitInstanceId = bt_unitName r, fr_Body = FStopResponse\<rparr>] @ fst fl)"
    using assms(1,3,4) o2
    by (simp add: handleStop_def beginBackgroundTaskStop_def Let_def send split_beta list_writer_def flip: fl_def)
  with ev tasks o2 show ?thesis by simp
qed

section \<open>Handlers as sequences of steps\<close>

text \<open>
  C26: One event per task. In every interleaving of requests, monitors and stops, a plugin writes at
  most one event for a background task, only for a task it created, and the event tells the way the
  task's done channel ended: which it observed at most once.
\<close>

theorem background_event_once:
  assumes "ts_reach m"
  shows "length (events_of tid (ms_out m)) \<le> 1 \<and> length (filter (\<lambda>x. fst x = tid) (ms_seen m)) \<le> 1 \<and>
    (\<forall>f\<in>set (events_of tid (ms_out m)). created tid (ms_server m) \<and>
       (\<exists>err. (tid, err) \<in> set (ms_seen m) \<and> fr_Body f = event_body tid err))"
proof -
  have inv: "ts_inv m" by (rule ts_reach_inv [OF assms])
  then have "\<not> created tid (ms_server m) \<Longrightarrow> events_of tid (ms_out m) = []" by (simp add: ts_inv_def)
  with inv show ?thesis by (fastforce simp: ts_inv_def)
qed

definition demo_machine :: machine where
  "demo_machine =
     (let m1 = new_machine\<lparr>ms_server := snd (storeBackgroundTask ''r'' ''run'' ''u'' (ms_server new_machine))\<rparr>;
          m2 = m1\<lparr>ms_server := observeBackgroundDone ''bg-1'' None (ms_server m1), ms_seen := ms_seen m1 @ first_seen ''bg-1'' None m1\<rparr>;
          m3 = m2\<lparr>ms_server := snd (emitObservedBackgroundEvent ''bg-1'' (ms_server m2)),
                  ms_out := ms_out m2 @ fst (emitObservedBackgroundEvent ''bg-1'' (ms_server m2))\<rparr>
      in m3\<lparr>ms_server := snd (emitObservedBackgroundEvent ''bg-1'' (ms_server m3)),
            ms_out := ms_out m3 @ fst (emitObservedBackgroundEvent ''bg-1'' (ms_server m3))\<rparr>)"

lemma demo_machine_reach: "ts_reach demo_machine"
  unfolding demo_machine_def Let_def by (rule ts_reach.intros ts_step.intros)+

theorem background_event_once_witness: "length (events_of ''bg-1'' (ms_out demo_machine)) \<le> 1"
  using background_event_once [OF demo_machine_reach, of "''bg-1''"] by simp

abbreviation ts_path :: "machine \<Rightarrow> machine \<Rightarrow> bool" where
  "ts_path \<equiv> ts_step\<^sup>*\<^sup>*"

lemma flush_path:
  "\<exists>m'. ts_path m m' \<and> ms_server m' = snd (flushReadyBackgroundEvent tid ready (ms_server m))"
proof -
  let ?m = "\<lambda>m. m\<lparr>ms_server := snd (emitObservedBackgroundEvent tid (ms_server m)),
      ms_out := ms_out m @ fst (emitObservedBackgroundEvent tid (ms_server m))\<rparr>"
  show ?thesis
  proof (cases ready)
    case None
    then show ?thesis
      by (intro exI [of _ "?m m"]) (auto simp: flushReadyBackgroundEvent_def intro: ts_step.EmitEvent)
  next
    case (Some err)
    let ?o = "m\<lparr>ms_server := observeBackgroundDone tid err (ms_server m), ms_seen := ms_seen m @ first_seen tid err m\<rparr>"
    have "ts_path m (?m ?o)" by (blast intro: ts_step.Observe ts_step.EmitEvent rtranclp.rtrancl_into_rtrancl rtranclp.rtrancl_refl)
    then show ?thesis by (intro exI [of _ "?m ?o"]) (simp add: flushReadyBackgroundEvent_def Some)
  qed
qed

text \<open>
  Handlers refine the step relation. Whatever a start or stop request does to the registry of background
  tasks, on every path through the handlers, is a sequence of the atomic steps, so what holds in all
  interleavings of the steps holds of the handlers.
\<close>

theorem handlers_refine_steps:
  "(\<exists>m'. ts_path m m' \<and> ms_server m' = fst (snd (handleStart wr units req start_work (ms_server m, out)))) \<and>
   (\<exists>m'. ts_path m m' \<and> ms_server m' = fst (snd (handleStop wr mj rid taskID stop_work (ms_server m, out))))"
proof
  define stored where "stored = m\<lparr>ms_server := snd (storeBackgroundTask (sq_RequestId req) (sq_RunId req) (sq_UnitName req) (ms_server m))\<rparr>"
  have path: "ts_path m stored" unfolding stored_def by (rule r_into_rtranclp, rule ts_step.Store)
  have "fst (snd (handleStart wr units req start_work (ms_server m, out))) \<in> {ms_server m, ms_server stored}"
    by (auto simp: handleStart_def Let_def stored_def split: sum.split option.split prod.split)
  then show "\<exists>m'. ts_path m m' \<and> ms_server m' = fst (snd (handleStart wr units req start_work (ms_server m, out)))"
    by (elim insertE emptyE) (blast intro: path rtranclp.rtrancl_refl dest: sym)+
next
  define m1 where "m1 = m\<lparr>ms_server := snd (beginBackgroundTaskStop taskID (ms_server m))\<rparr>"
  define m2 where "m2 = m1\<lparr>ms_server := abortBackgroundTaskStop taskID (ms_server m1)\<rparr>"
  have started: "ts_path m m1" unfolding m1_def by (rule r_into_rtranclp, rule ts_step.BeginStop)
  have aborted: "ts_path m m2"
    unfolding m2_def by (rule rtranclp.rtrancl_into_rtrancl [OF started], rule ts_step.AbortStop)
  from flush_path [of m1 taskID "sp_ready stop_work"] obtain m3 where
    m3: "ts_path m1 m3" "ms_server m3 = snd (flushReadyBackgroundEvent taskID (sp_ready stop_work) (ms_server m1))"
    by (elim exE conjE)
  define m4 where "m4 = m3\<lparr>ms_server := complete_tell taskID (ms_server m3)\<rparr>"
  define m5 where "m5 = m4\<lparr>ms_server := complete_remove taskID (ms_server m4)\<rparr>"
  have "ts_path m m4" unfolding m4_def
    by (rule rtranclp.rtrancl_into_rtrancl [OF rtranclp_trans [OF started m3(1)]], rule ts_step.CompleteTell)
  then have ok: "ts_path m m5" unfolding m5_def by (rule rtranclp.rtrancl_into_rtrancl, intro ts_step.CompleteRemove)
  have "fst (snd (handleStop wr mj rid taskID stop_work (ms_server m, out))) \<in> {ms_server m1, ms_server m2, ms_server m5}"
    using m3(2) by (auto simp: handleStop_def Let_def m1_def m2_def m4_def m5_def beginBackgroundTaskStop_def
        split: sum.split option.split prod.split)
  then show "\<exists>m'. ts_path m m' \<and> ms_server m' = fst (snd (handleStop wr mj rid taskID stop_work (ms_server m, out)))"
    by (elim insertE emptyE) (blast intro: started aborted ok dest: sym)+
qed

text \<open>
  C27: Stopping. A stop request for an unknown task is answered with a configuration error and changes nothing. If the
  unit's stop fails, the error is answered and the task stays active, so that another stop can succeed.
\<close>

theorem stop_failure_keeps_task:
  "(\<not> is_active taskID s \<longrightarrow>
      handleStop list_writer mj rid taskID work (s, out) =
        (None, s, out @ [plain_frame rid (FError ''CONFIG_ERROR'' (Errorf ''background task %q is not active'' [ArgS taskID]))])) \<and>
   (is_active taskID s \<and> sp_err work = Some err \<longrightarrow>
      is_active taskID (fst (snd (handleStop list_writer mj rid taskID work (s, out)))) \<and>
      snd (snd (handleStop list_writer mj rid taskID work (s, out))) = out @ [plain_frame rid (FError ''RUN_ERROR'' err)])"
  using handleStop_inactive [of taskID s mj rid work out] handleStop_failed [of s taskID _ work err mj rid out]
  by (auto simp: is_active_def)

definition demo_stop :: "json stopWork" where
  "demo_stop = \<lparr>sp_err = Some (Errorf ''busy'' []), sp_env = NewTestRunEnv ''run'' ''u'' fmempty, sp_outputs = [], sp_ready = None\<rparr>"

theorem stop_failure_keeps_task_witness:
  "is_active ''bg-1'' (fst (snd (handleStop list_writer (\<lparr>mj_marshal = \<lambda>_. Inr [], mj_ReportOutput = \<lambda>_. None\<rparr> :: json Marshal)
     ''r2'' ''bg-1'' demo_stop (ms_server demo_machine, []))))"
proof -
  have "is_active ''bg-1'' (ms_server demo_machine)" by code_simp
  with stop_failure_keeps_task [of "''bg-1''" "ms_server demo_machine"
      "\<lparr>mj_marshal = \<lambda>_. Inr [], mj_ReportOutput = \<lambda>_. None\<rparr> :: json Marshal" "''r2''" demo_stop "[]" "Errorf ''busy'' []"]
  show ?thesis by (simp add: demo_stop_def)
qed

end
