(* ===== verification/Plugin_Artifacts.thy ===== *)
theory Plugin_Artifacts
  imports Plugin_Server Frame
begin

text \<open>
  Artifacts of a unit that runs in a plugin: the methods of \<open>remoteRunEnv\<close> of \<open>sdk/go/wkbench/plugin/server.go\<close>, whose
  \<open>OpenArtifact\<close> and whose writer's \<open>Close\<close> ask the host and wait for its answer, while \<open>Write\<close> only sends.
  The reader is a state \<open>'o\<close> with its \<open>ReadFrame\<close>, as the writer is. The last section joins both ends of the pipe.
\<close>

section \<open>Opening and closing\<close>

type_synonym 'o frameReader = "'o \<Rightarrow> Frame result \<times> 'o"

definition validateResponseFrameID :: "Frame \<Rightarrow> string \<Rightarrow> goerr option" where
  "validateResponseFrameID frame requestID =
     (if fr_RequestId frame \<noteq> requestID
      then Some (Errorf ''response request id = %q, want %q'' [ArgS (fr_RequestId frame), ArgS requestID])
      else None)"

definition remoteProtocolError :: "(string \<times> goerr) option \<Rightarrow> goerr" where
  "remoteProtocolError err =
     (case err of
        None \<Rightarrow> Errorf ''plugin protocol error'' []
      | Some (code, message) \<Rightarrow> Errorf ''plugin error %s: %s'' [ArgS code, ArgE message])"

text \<open>The answer the plugin waits for: read, checked for its request id, and not an error.\<close>

definition response_body :: "string \<Rightarrow> Frame result \<Rightarrow> (goerr \<Rightarrow> goerr) \<Rightarrow> frameBody result" where
  "response_body requestID got wrap =
     (case got of
        Inl err \<Rightarrow> Inl (wrap err)
      | Inr frame \<Rightarrow>
          (case validateResponseFrameID frame requestID of
             Some err \<Rightarrow> Inl err
           | None \<Rightarrow>
               (case fr_Body frame of
                  FError code message \<Rightarrow> Inl (remoteProtocolError (Some (code, message)))
                | body \<Rightarrow> Inr body)))"

definition xe_OpenArtifact :: "'o frameReader \<Rightarrow> 'o frameWriter \<Rightarrow> 'v remoteRunEnv \<Rightarrow> string \<Rightarrow> 'o \<Rightarrow>
    remoteArtifactWriter result \<times> 'o" where
  "xe_OpenArtifact rd wr e name out =
     (if fmlookup (xe_artifactDefs e) name = None
      then (Inl (Errorf ''artifact %q not declared'' [ArgS name]), out)
      else if \<not> xe_reader e
      then (Inl (Errorf ''artifact %q cannot be opened without a plugin response reader'' [ArgS name]), out)
      else (case wr (reply (xe_ids e) (FArtifactOpen name)) out of
        (Some err, out) \<Rightarrow> (Inl (Errorf ''write artifact open %q: %w'' [ArgS name, ArgE err]), out)
      | (None, out) \<Rightarrow>
          (case rd out of (got, out) \<Rightarrow>
             (case response_body (ri_request (xe_ids e)) got
                     (\<lambda>err. Errorf ''read artifact opened %q: %w'' [ArgS name, ArgE err]) of
                Inl err \<Rightarrow> (Inl err, out)
              | Inr (FArtifactOpened _ handle) \<Rightarrow>
                  (if handle = []
                   then (Inl (Errorf ''artifact opened response for %q missing handle'' [ArgS name]), out)
                   else (Inr \<lparr>xw_name = name, xw_handle = handle, xw_sequence = 0, xw_closed = False\<rparr>, out))
              | Inr _ \<Rightarrow> (Inl (Errorf ''expected artifact opened response for %q'' [ArgS name]), out)))))"

definition closeArtifact :: "'o frameReader \<Rightarrow> 'o frameWriter \<Rightarrow> runIds \<Rightarrow> string \<Rightarrow> string \<Rightarrow> 'o \<Rightarrow> goerr option \<times> 'o" where
  "closeArtifact rd wr ids handle name out =
     (case wr (reply ids (FArtifactClose handle)) out of
        (Some err, out) \<Rightarrow> (Some (Errorf ''write artifact close %q: %w'' [ArgS name, ArgE err]), out)
      | (None, out) \<Rightarrow>
          (case rd out of (got, out) \<Rightarrow>
             (case response_body (ri_request ids) got
                     (\<lambda>err. Errorf ''read artifact closed %q: %w'' [ArgS name, ArgE err]) of
                Inl err \<Rightarrow> (Some err, out)
              | Inr (FArtifactClosed closedHandle _) \<Rightarrow>
                  (if closedHandle \<noteq> handle
                   then (Some (Errorf ''artifact closed handle = %q, want %q'' [ArgS closedHandle, ArgS handle]), out)
                   else (None, out))
              | Inr _ \<Rightarrow> (Some (Errorf ''expected artifact closed response for %q'' [ArgS name]), out))))"

definition xw_Close :: "'o frameReader \<Rightarrow> 'o frameWriter \<Rightarrow> runIds \<Rightarrow> remoteArtifactWriter \<times> 'o \<Rightarrow>
    goerr option \<times> remoteArtifactWriter \<times> 'o" where
  "xw_Close rd wr ids = (\<lambda>(w, out).
     if xw_closed w then (None, w, out)
     else (case closeArtifact rd wr ids (xw_handle w) (xw_name w) out of
       (err, out) \<Rightarrow> (err, w\<lparr>xw_closed := True\<rparr>, out)))"

section \<open>Both ends of the pipe\<close>

text \<open>
  The plugin's end: frames sent, and the answers still to be read. The host's end: the answers it
  sent, and the bytes of the file it has open.
\<close>

record pipe =
  pp_sent :: "Frame list"
  pp_inbox :: "Frame list"

definition pipe_write :: "pipe frameWriter" where
  "pipe_write f s = (None, s\<lparr>pp_sent := pp_sent s @ [f]\<rparr>)"

definition pipe_read :: "pipe frameReader" where
  "pipe_read s = (case pp_inbox s of [] \<Rightarrow> (Inl err_EOF, s) | f # fs \<Rightarrow> (Inr f, s\<lparr>pp_inbox := fs\<rparr>))"

record link =
  lk_sent :: "Frame list"
  lk_file :: string

definition link_io :: "(string \<Rightarrow> json result) \<Rightarrow> link RemoteIO" where
  "link_io unmarshal =
     \<lparr>io_send = (\<lambda>f w. (None, w\<lparr>lk_sent := lk_sent w @ [f]\<rparr>)),
      io_fileWrite = (\<lambda>data w. ((int (length data), None), w\<lparr>lk_file := lk_file w @ data\<rparr>)),
      io_fileClose = (\<lambda>w. (None, w)), io_unmarshal = unmarshal\<rparr>"

text \<open>What a unit does with an artifact: open it, write the pieces \<open>ps\<close>, close it.\<close>

fun write_pieces :: "'o frameWriter \<Rightarrow> runIds \<Rightarrow> string list \<Rightarrow> remoteArtifactWriter \<Rightarrow> 'o \<Rightarrow>
    goerr option \<times> remoteArtifactWriter \<times> 'o" where
  "write_pieces wr ids [] w out = (None, w, out)"
| "write_pieces wr ids (p # ps) w out =
     (case xw_Write wr ids p w out of
        ((n, Some err), w, out) \<Rightarrow> (Some err, w, out)
      | ((n, None), w, out) \<Rightarrow> write_pieces wr ids ps w out)"

definition artifact_session :: "'o frameReader \<Rightarrow> 'o frameWriter \<Rightarrow> 'v remoteRunEnv \<Rightarrow> string \<Rightarrow> string list \<Rightarrow> 'o \<Rightarrow>
    goerr option \<times> 'o" where
  "artifact_session rd wr e name ps out =
     (case xe_OpenArtifact rd wr e name out of
        (Inl err, out) \<Rightarrow> (Some err, out)
      | (Inr w, out) \<Rightarrow>
          (case write_pieces wr (xe_ids e) ps w out of
             (Some err, w, out) \<Rightarrow> (Some err, out)
           | (None, w, out) \<Rightarrow> (case xw_Close rd wr (xe_ids e) (w, out) of (err, w, out) \<Rightarrow> (err, out))))"

section \<open>The plugin's end\<close>

lemma write_chunks_pipe:
  "write_chunks pipe_write ids w p n s =
     (case write_chunks list_writer ids w p n (pp_sent s) of (r, w, out) \<Rightarrow> (r, w, s\<lparr>pp_sent := out\<rparr>))"
proof (induction "length p - n" arbitrary: n w s rule: less_induct)
  case less
  show ?case
  proof (cases "n < length p")
    case False
    then show ?thesis by (simp add: write_chunks.simps)
  next
    case True
    let ?stop = "if n + artifactChunkMaxBytes > length p then length p else n + artifactChunkMaxBytes"
    have "length p - ?stop < length p - n" using True by (auto simp: artifactChunkMaxBytes_def)
    note ih = less.hyps [OF this]
    show ?thesis
      using True by (subst (1 2) write_chunks.simps) (simp add: Let_def ih pipe_write_def list_writer_def)
  qed
qed

lemma xw_Write_pipe:
  "xw_Write pipe_write ids p w s =
     (case xw_Write list_writer ids p w (pp_sent s) of (r, w, out) \<Rightarrow> (r, w, s\<lparr>pp_sent := out\<rparr>))"
  by (simp add: xw_Write_def write_chunks_pipe)

lemma xw_Write_open:
  assumes "\<not> xw_closed w"
  shows "\<exists>fs n. xw_Write pipe_write ids p w s =
      ((length p, None), w\<lparr>xw_sequence := n\<rparr>, s\<lparr>pp_sent := pp_sent s @ fs\<rparr>) \<and>
    chunk_data fs = p \<and> list_all (chunk_ok ids (xw_handle w)) fs"
proof (cases "p = []")
  case True
  then show ?thesis
    using assms by (intro exI [of _ "[]"] exI [of _ "xw_sequence w"]) (simp add: xw_Write_def)
next
  case False
  from write_chunks_list [of 0 p ids w "pp_sent s"] obtain fs where
    "write_chunks list_writer ids w p 0 (pp_sent s) =
      ((length p, None), w\<lparr>xw_sequence := xw_sequence w + int (length fs)\<rparr>, pp_sent s @ fs)"
    "chunk_data fs = p" "list_all (chunk_ok ids (xw_handle w)) fs" by auto
  with False assms show ?thesis
    by (intro exI [of _ fs] exI [of _ "xw_sequence w + int (length fs)"])
      (simp add: xw_Write_def write_chunks_pipe)
qed

lemma write_pieces_open:
  assumes "\<not> xw_closed w"
  shows "\<exists>fs n. write_pieces pipe_write ids ps w s = (None, w\<lparr>xw_sequence := n\<rparr>, s\<lparr>pp_sent := pp_sent s @ fs\<rparr>) \<and>
    chunk_data fs = concat ps \<and> list_all (chunk_ok ids (xw_handle w)) fs"
  using assms
proof (induction ps arbitrary: w s)
  case Nil
  show ?case by (intro exI [of _ "[]"] exI [of _ "xw_sequence w"]) simp
next
  case (Cons p ps)
  from xw_Write_open [OF Cons.prems, of ids p s] obtain fs n where fs:
    "xw_Write pipe_write ids p w s = ((length p, None), w\<lparr>xw_sequence := n\<rparr>, s\<lparr>pp_sent := pp_sent s @ fs\<rparr>)"
    "chunk_data fs = p" "list_all (chunk_ok ids (xw_handle w)) fs" by (elim exE conjE) (rule that)
  have "\<not> xw_closed (w\<lparr>xw_sequence := n\<rparr>)" using Cons.prems by simp
  from Cons.IH [OF this, of "s\<lparr>pp_sent := pp_sent s @ fs\<rparr>"] obtain gs m where gs:
    "write_pieces pipe_write ids ps (w\<lparr>xw_sequence := n\<rparr>) (s\<lparr>pp_sent := pp_sent s @ fs\<rparr>) =
      (None, w\<lparr>xw_sequence := n\<rparr>\<lparr>xw_sequence := m\<rparr>,
       s\<lparr>pp_sent := pp_sent s @ fs\<rparr>\<lparr>pp_sent := pp_sent (s\<lparr>pp_sent := pp_sent s @ fs\<rparr>) @ gs\<rparr>)"
    "chunk_data gs = concat ps" "list_all (chunk_ok ids (xw_handle (w\<lparr>xw_sequence := n\<rparr>))) gs"
    by (elim exE conjE) (rule that)
  show ?case
    by (intro exI [of _ "fs @ gs"] exI [of _ m]) (use fs gs in \<open>simp add: chunk_data_append\<close>)
qed

text \<open>With the two answers at hand the session succeeds, and it sends the open, the chunks of the data and the close.\<close>

lemma artifact_session_pipe:
  assumes "fmlookup (xe_artifactDefs e) name \<noteq> None" and "xe_reader e" and "h \<noteq> []"
    and "ri_request ids = ri_request (xe_ids e)"
  shows "\<exists>fs. artifact_session pipe_read pipe_write e name ps
      \<lparr>pp_sent = [], pp_inbox = [reply ids (FArtifactOpened n1 h), reply ids (FArtifactClosed h n2)]\<rparr> =
    (None, \<lparr>pp_sent = reply (xe_ids e) (FArtifactOpen name) # fs @ [reply (xe_ids e) (FArtifactClose h)], pp_inbox = []\<rparr>) \<and>
    chunk_data fs = concat ps \<and> list_all (chunk_ok (xe_ids e) h) fs"
proof -
  let ?w = "\<lparr>xw_name = name, xw_handle = h, xw_sequence = 0, xw_closed = False\<rparr>"
  let ?s = "\<lparr>pp_sent = [reply (xe_ids e) (FArtifactOpen name)], pp_inbox = [reply ids (FArtifactClosed h n2)]\<rparr>"
  have "\<not> xw_closed ?w" by simp
  from write_pieces_open [OF this, of "xe_ids e" ps ?s] obtain fs n where fs:
    "write_pieces pipe_write (xe_ids e) ps ?w ?s = (None, ?w\<lparr>xw_sequence := n\<rparr>, ?s\<lparr>pp_sent := pp_sent ?s @ fs\<rparr>)"
    "chunk_data fs = concat ps" "list_all (chunk_ok (xe_ids e) (xw_handle ?w)) fs"
    by (elim exE conjE) (rule that)
  have "xe_OpenArtifact pipe_read pipe_write e name
      \<lparr>pp_sent = [], pp_inbox = [reply ids (FArtifactOpened n1 h), reply ids (FArtifactClosed h n2)]\<rparr> = (Inr ?w, ?s)"
    using assms
    by (simp add: xe_OpenArtifact_def pipe_write_def pipe_read_def response_body_def validateResponseFrameID_def)
      (simp add: reply_def)
  moreover have "xw_Close pipe_read pipe_write (xe_ids e) (?w\<lparr>xw_sequence := n\<rparr>, ?s\<lparr>pp_sent := pp_sent ?s @ fs\<rparr>) =
      (None, ?w\<lparr>xw_sequence := n, xw_closed := True\<rparr>,
       \<lparr>pp_sent = pp_sent ?s @ fs @ [reply (xe_ids e) (FArtifactClose h)], pp_inbox = []\<rparr>)"
    using assms(4)
    by (simp add: xw_Close_def closeArtifact_def pipe_write_def pipe_read_def response_body_def validateResponseFrameID_def)
      (simp add: reply_def)
  ultimately show ?thesis
    by (intro exI [of _ fs]) (use fs in \<open>simp add: artifact_session_def\<close>)
qed

section \<open>The host's end\<close>

lemma link_io_simps [simp]:
  "io_send (link_io um) f w = (None, w\<lparr>lk_sent := lk_sent w @ [f]\<rparr>)"
  "io_fileWrite (link_io um) data w = ((int (length data), None), w\<lparr>lk_file := lk_file w @ data\<rparr>)"
  "io_fileClose (link_io um) w = (None, w)"
  by (simp_all add: link_io_def)

lemma artifact_wrote_0: "fmlookup (ra_writers art) h = Some w \<Longrightarrow> artifact_wrote h w 0 art = art"
proof -
  assume "fmlookup (ra_writers art) h = Some w"
  then have "fmupd h w (ra_writers art) = ra_writers art" by (intro fmap_ext) auto
  then show ?thesis by (simp add: artifact_wrote_def)
qed

lemma artifact_wrote_wrote:
  "artifact_wrote h (w\<lparr>ha_size := ha_size w + m\<rparr>) n (artifact_wrote h w m art) = artifact_wrote h w (m + n) art"
proof -
  have "fmupd h a (fmupd h b x) = fmupd h a x" for a b :: hostArtifactWriter and x by (intro fmap_ext) simp
  then show ?thesis by (simp add: artifact_wrote_def algebra_simps)
qed

lemma write_writer_0 [simp]: "write_writer h 0 e = e"
  by (simp add: write_writer_def rw_Write_def)

lemma write_writer_wrote: "write_writer h n (write_writer h m e) = write_writer h (m + n) e"
  by (simp add: write_writer_def rw_Write_def algebra_simps)

definition host_wrote :: "nat \<Rightarrow> string \<Rightarrow> (rvalue, link) uenv \<Rightarrow> (rvalue, link) uenv" where
  "host_wrote i data s =
     s\<lparr>ue_world := (ue_world s)\<lparr>lk_file := lk_file (ue_world s) @ data\<rparr>,
       ue_env := write_writer i (int (length data)) (ue_env s)\<rparr>"

lemma host_wrote_wrote: "host_wrote i b (host_wrote i a s) = host_wrote i (a @ b) s"
  by (simp add: host_wrote_def write_writer_wrote)

lemma host_chunks:
  assumes "list_all (chunk_ok xids h) fs" and "ri_request ids = ri_request xids"
    and "fmlookup (ra_writers art) h = Some w"
  shows "exec ops fsys g (run_frames (link_io um) ids (map Inr fs @ rest) art) s =
    exec ops fsys g (run_frames (link_io um) ids rest (artifact_wrote h w (int (length (chunk_data fs))) art))
      (host_wrote (ha_writer w) (chunk_data fs) s)"
  using assms(1,3)
proof (induction fs arbitrary: art w s)
  case Nil
  then show ?case by (simp add: artifact_wrote_0 host_wrote_def)
next
  case (Cons f fs)
  from Cons.prems(1) obtain sq d where f: "fr_RequestId f = ri_request xids" "fr_Body f = FArtifactChunk h sq d"
    by (cases "fr_Body f") (auto simp: chunk_ok_def)
  let ?w = "w\<lparr>ha_size := ha_size w + int (length d)\<rparr>" and ?art = "artifact_wrote h w (int (length d)) art"
  have art: "fmlookup (ra_writers ?art) h = Some ?w" by (simp add: artifact_wrote_def)
  have "exec ops fsys g (run_frames (link_io um) ids (map Inr (f # fs) @ rest) art) s =
      exec ops fsys g (run_frames (link_io um) ids (map Inr fs @ rest) ?art) (host_wrote (ha_writer w) d s)"
    using f assms(2) Cons.prems(2)
    by (simp add: handleRunLifecycleFrame_def act_def write_outcome_def host_wrote_def with_env_def)
  also have "\<dots> = exec ops fsys g (run_frames (link_io um) ids rest
        (artifact_wrote h ?w (int (length (chunk_data fs))) ?art)) (host_wrote (ha_writer w) (chunk_data fs) (host_wrote (ha_writer w) d s))"
    using Cons.IH [OF _ art] Cons.prems(1) by simp
  finally show ?case by (simp add: artifact_wrote_wrote host_wrote_wrote f)
qed

lemma host_open:
  assumes "run_OpenArtifact fsys name (ue_env s) = Inr w" and "ri_request ids = ri_request xids"
    and "artifact_opened name (length (re_writers (ue_env s))) art = (h, art')"
  shows "exec ops fsys g (run_frames (link_io um) ids (Inr (reply xids (FArtifactOpen name)) # rest) art) s =
    exec ops fsys g (run_frames (link_io um) ids rest art')
      (s\<lparr>ue_env := add_writer w (ue_env s),
         ue_world := (ue_world s)\<lparr>lk_sent := lk_sent (ue_world s) @ [reply ids (FArtifactOpened name h)]\<rparr>\<rparr>)"
  using assms by (simp add: handleRunLifecycleFrame_def act_def with_env_def reply_def)

lemma host_close:
  assumes "fmlookup (ra_writers art) h = Some w" and "ri_request ids = ri_request xids"
    and "close_writer (ha_writer w) None (ue_env s) = (None, env)"
  shows "exec ops fsys g (run_frames (link_io um) ids (Inr (reply xids (FArtifactClose h)) # rest) art) s =
    exec ops fsys g (run_frames (link_io um) ids rest (artifact_closed h art))
      (s\<lparr>ue_env := env,
         ue_world := (ue_world s)\<lparr>lk_sent := lk_sent (ue_world s) @ [reply ids (FArtifactClosed h (ha_size w))]\<rparr>\<rparr>)"
  using assms by (simp add: handleRunLifecycleFrame_def act_def with_env_def reply_def)

lemma artifact_lands:
  assumes "fmlookup (xe_artifactDefs e) name \<noteq> None" and "xe_reader e"
    and "run_OpenArtifact fsys name (ue_env s) = Inr w"
    and "ri_request ids = ri_request (xe_ids e)" and "ue_world s = \<lparr>lk_sent = [], lk_file = []\<rparr>"
  shows "\<exists>answers sent s'.
    artifact_session pipe_read pipe_write e name ps \<lparr>pp_sent = [], pp_inbox = answers\<rparr> =
      (None, \<lparr>pp_sent = sent, pp_inbox = []\<rparr>) \<and>
    (\<forall>rest. exec ops fsys g (host_Run (link_io um) ids (map Inr (sent @ rest))) s =
       exec ops fsys g (run_frames (link_io um) ids (map Inr rest) \<lparr>ra_next = 1, ra_writers = fmempty\<rparr>) s') \<and>
    ue_world s' = \<lparr>lk_sent = answers, lk_file = concat ps\<rparr> \<and> ue_outputs s' = ue_outputs s \<and>
    fmlookup (re_artifacts (ue_env s')) name =
      Some \<lparr>ar_Path = ''artifacts/'' @ re_unitName (ue_env s) @ ''/'' @ name, ar_ContentType = rw_contentType w,
        ar_SizeBytes = int (length (concat ps))\<rparr>"
proof -
  define h where "h = numbered ''artifact'' 1"
  define i where "i = length (re_writers (ue_env s))"
  let ?a1 = "reply ids (FArtifactOpened name h)" and ?a2 = "reply ids (FArtifactClosed h (int (length (concat ps))))"
  from artifact_session_pipe [OF assms(1,2) _ assms(4), of h ps name "int (length (concat ps))"] obtain fs where fs:
    "artifact_session pipe_read pipe_write e name ps \<lparr>pp_sent = [], pp_inbox = [?a1, ?a2]\<rparr> =
      (None, \<lparr>pp_sent = reply (xe_ids e) (FArtifactOpen name) # fs @ [reply (xe_ids e) (FArtifactClose h)], pp_inbox = []\<rparr>)"
    "chunk_data fs = concat ps" "list_all (chunk_ok (xe_ids e) h) fs"
    by (auto simp: h_def)
  note w = run_OpenArtifact_Inr [OF assms(3)]
  let ?hw = "\<lparr>ha_name = name, ha_writer = i, ha_size = 0\<rparr>"
  let ?art = "\<lparr>ra_next = 1, ra_writers = fmupd h ?hw fmempty\<rparr>"
  have opened: "artifact_opened name i newRunArtifactState = (h, ?art)"
    by (simp add: artifact_opened_def newRunArtifactState_def h_def Let_def)
  define s1 where "s1 = s\<lparr>ue_env := add_writer w (ue_env s), ue_world := \<lparr>lk_sent = [?a1], lk_file = []\<rparr>\<rparr>"
  define s2 where "s2 = host_wrote i (concat ps) s1"
  let ?art2 = "artifact_wrote h ?hw (int (length (concat ps))) ?art"
  let ?hw2 = "?hw\<lparr>ha_size := int (length (concat ps))\<rparr>"
  let ?w2 = "w\<lparr>rw_size := int (length (concat ps)), rw_closed := True, rw_closeErr := None\<rparr>"
  define env where "env = rw_recordArtifact ?w2 (ue_env s2)\<lparr>re_writers := re_writers (ue_env s) @ [?w2]\<rparr>"
  have art2: "fmlookup (ra_writers ?art2) h = Some ?hw2" by (simp add: artifact_wrote_def)
  have "re_writers (ue_env s2) = re_writers (ue_env s) @ [w\<lparr>rw_size := int (length (concat ps))\<rparr>]"
    using w(6) by (simp add: s2_def s1_def host_wrote_def write_writer_def add_writer_def i_def rw_Write_def)
  then have cw: "close_writer i None (ue_env s2) = (None, env)"
    using w(7) by (simp add: close_writer_def rw_Close_def i_def env_def rw_recordArtifact_def)
  define s' where "s' = s2\<lparr>ue_env := env, ue_world := (ue_world s2)\<lparr>lk_sent := [?a1, ?a2]\<rparr>\<rparr>"
  have "exec ops fsys g (host_Run (link_io um) ids (map Inr ((reply (xe_ids e) (FArtifactOpen name) # fs @
        [reply (xe_ids e) (FArtifactClose h)]) @ rest))) s =
      exec ops fsys g (run_frames (link_io um) ids (map Inr rest) \<lparr>ra_next = 1, ra_writers = fmempty\<rparr>) s'" for rest
  proof -
    have "exec ops fsys g (host_Run (link_io um) ids (map Inr ((reply (xe_ids e) (FArtifactOpen name) # fs @
        [reply (xe_ids e) (FArtifactClose h)]) @ rest))) s =
      exec ops fsys g (run_frames (link_io um) ids (map Inr fs @ Inr (reply (xe_ids e) (FArtifactClose h)) # map Inr rest) ?art) s1"
      using host_open [OF assms(3,4) opened [unfolded i_def]] by (simp add: host_Run_def s1_def assms(5) i_def del: run_frames.simps)
    also have "\<dots> = exec ops fsys g (run_frames (link_io um) ids (Inr (reply (xe_ids e) (FArtifactClose h)) # map Inr rest) ?art2) s2"
      using host_chunks [OF fs(3) assms(4), of ?art ?hw] by (simp add: s2_def fs(2) del: run_frames.simps)
    also have "\<dots> = exec ops fsys g (run_frames (link_io um) ids (map Inr rest) (artifact_closed h ?art2)) s'"
      using host_close [OF art2 assms(4), of s2 env] cw
      by (simp add: s'_def s2_def s1_def host_wrote_def del: run_frames.simps)
    also have "artifact_closed h ?art2 = \<lparr>ra_next = 1, ra_writers = fmempty\<rparr>"
      by (simp add: artifact_closed_def artifact_wrote_def fmap_ext)
    finally show ?thesis .
  qed
  moreover have "ue_world s' = \<lparr>lk_sent = [?a1, ?a2], lk_file = concat ps\<rparr>" "ue_outputs s' = ue_outputs s"
    by (simp_all add: s'_def s2_def s1_def host_wrote_def)
  moreover have "fmlookup (re_artifacts (ue_env s')) name =
      Some \<lparr>ar_Path = ''artifacts/'' @ re_unitName (ue_env s) @ ''/'' @ name, ar_ContentType = rw_contentType w,
        ar_SizeBytes = int (length (concat ps))\<rparr>"
    using w(4,5) by (simp add: s'_def env_def rw_recordArtifact_def)
  ultimately show ?thesis using fs(1) by blast
qed

section \<open>An artifact of a plugin\<close>

text \<open>
  C11: An artifact crosses the process boundary whole. When a unit in a plugin opens an artifact the host can open, writes
  pieces of data and closes it, there are answers of the host with which every call of the unit succeeds, and the
  host, reading the frames the unit has sent, gives just these answers, writes the pieces to the file in order, and
  records the artifact with its path in the directory of the unit and the number of bytes written. It then reads on with the rest of the frames, with no handle
  left open and the outputs unchanged.
\<close>

theorem remote_artifact_lands:
  assumes "fmlookup (xe_artifactDefs e) name \<noteq> None" and "xe_reader e"
    and "run_OpenArtifact fsys name (ue_env s) = Inr w"
    and "ri_request ids = ri_request (xe_ids e)" and "ue_world s = \<lparr>lk_sent = [], lk_file = []\<rparr>"
  shows "\<exists>answers sent s'.
    artifact_session pipe_read pipe_write e name ps \<lparr>pp_sent = [], pp_inbox = answers\<rparr> =
      (None, \<lparr>pp_sent = sent, pp_inbox = []\<rparr>) \<and>
    (\<forall>rest. exec ops fsys g (host_Run (link_io um) ids (map Inr (sent @ rest))) s =
       exec ops fsys g (run_frames (link_io um) ids (map Inr rest) \<lparr>ra_next = 1, ra_writers = fmempty\<rparr>) s') \<and>
    ue_world s' = \<lparr>lk_sent = answers, lk_file = concat ps\<rparr> \<and> ue_outputs s' = ue_outputs s \<and>
    fmlookup (re_artifacts (ue_env s')) name =
      Some \<lparr>ar_Path = ''artifacts/'' @ re_unitName (ue_env s) @ ''/'' @ name, ar_ContentType = rw_contentType w,
        ar_SizeBytes = int (length (concat ps))\<rparr>"
  using artifact_lands [OF assms] by blast

definition sample_remote_env :: "nat remoteRunEnv" where
  "sample_remote_env = newRemoteRunEnv
     \<lparr>sq_RequestId = ''run-1'', sq_UnitName = ''a'', sq_Kind = ''k'', sq_RunId = ''r'', sq_RunDurationMillis = 0, sq_WorkerCount = 1\<rparr>
     fmempty [\<lparr>ad_Name = ''f'', ad_ContentType = []\<rparr>] True"

definition empty_graph :: "unit graph" where
  "empty_graph = \<lparr>gr_nodes = fmempty, gr_order = []\<rparr>"

theorem remote_artifact_lands_witness:
  "\<exists>answers sent s'.
    artifact_session pipe_read pipe_write sample_remote_env ''f'' [''ab'', ''c''] \<lparr>pp_sent = [], pp_inbox = answers\<rparr> =
      (None, \<lparr>pp_sent = sent, pp_inbox = []\<rparr>) \<and>
    exec remote_ops sample_fs empty_graph
      (host_Run (link_io (\<lambda>_. Inr JNull)) (xe_ids sample_remote_env) (map Inr (sent @ [])))
      \<lparr>ue_outputs = newOutputStore, ue_env = sample_run_env, ue_world = \<lparr>lk_sent = [], lk_file = []\<rparr>\<rparr> =
    exec remote_ops sample_fs empty_graph
      (run_frames (link_io (\<lambda>_. Inr JNull)) (xe_ids sample_remote_env) (map Inr []) \<lparr>ra_next = 1, ra_writers = fmempty\<rparr>) s' \<and>
    lk_file (ue_world s') = ''abc''"
proof -
  have "map_sum (\<lambda>_. ()) (\<lambda>_. ()) (run_OpenArtifact sample_fs ''f'' sample_run_env) = Inr ()" by code_simp
  then obtain w where w: "run_OpenArtifact sample_fs ''f'' sample_run_env = Inr w"
    by (cases "run_OpenArtifact sample_fs ''f'' sample_run_env") auto
  let ?s = "\<lparr>ue_outputs = newOutputStore, ue_env = sample_run_env, ue_world = \<lparr>lk_sent = [], lk_file = []\<rparr>\<rparr> :: (rvalue, link) uenv"
  have e: "fmlookup (xe_artifactDefs sample_remote_env) ''f'' \<noteq> None" "xe_reader sample_remote_env" by code_simp+
  have "run_OpenArtifact sample_fs ''f'' (ue_env ?s) = Inr w" "ue_world ?s = \<lparr>lk_sent = [], lk_file = []\<rparr>"
    using w by simp_all
  from remote_artifact_lands [OF e this(1) refl this(2), of "[''ab'', ''c'']" remote_ops empty_graph "\<lambda>_. Inr JNull"]
  obtain answers sent s' where r:
    "artifact_session pipe_read pipe_write sample_remote_env ''f'' [''ab'', ''c''] \<lparr>pp_sent = [], pp_inbox = answers\<rparr> =
      (None, \<lparr>pp_sent = sent, pp_inbox = []\<rparr>)"
    "\<forall>rest. exec remote_ops sample_fs empty_graph
       (host_Run (link_io (\<lambda>_. Inr JNull)) (xe_ids sample_remote_env) (map Inr (sent @ rest))) ?s =
     exec remote_ops sample_fs empty_graph
       (run_frames (link_io (\<lambda>_. Inr JNull)) (xe_ids sample_remote_env) (map Inr rest) \<lparr>ra_next = 1, ra_writers = fmempty\<rparr>) s'"
    "ue_world s' = \<lparr>lk_sent = answers, lk_file = concat [''ab'', ''c'']\<rparr>" by (elim exE conjE) (rule that)
  from r(3) have "lk_file (ue_world s') = ''abc''" by simp
  with r(1) spec [OF r(2), of "[]"] show ?thesis by blast
qed

end
