(* ===== verification/Plugin_Serve.thy ===== *)
theory Plugin_Serve
  imports Server_Tasks Plugin_Artifacts
begin

text \<open>
  The request loop of a plugin, \<open>Serve\<close> of \<open>sdk/go/wkbench/plugin/server.go\<close>: it reads a frame, has it
  handled, and goes on until the input ends or a frame cannot be read or written. The handlers are those of
  \<open>Plugin_Server\<close> and \<open>Server_Tasks\<close>; here their requests are taken from the frames.
\<close>

section \<open>Decoding requests\<close>

definition json_kind :: "json \<Rightarrow> string" where
  "json_kind j =
     (case j of JBool _ \<Rightarrow> ''bool'' | JInt _ \<Rightarrow> ''number'' | JFloat _ \<Rightarrow> ''number'' | JString _ \<Rightarrow> ''string''
      | JArray _ \<Rightarrow> ''array'' | JObject _ \<Rightarrow> ''object'' | JNull \<Rightarrow> ''null'')"

text \<open>\<open>json.Unmarshal\<close> into a map: of two entries with the same name the later one stays.\<close>

definition json_map :: "json \<Rightarrow> json gomap result" where
  "json_map j =
     (case j of
        JObject kvs \<Rightarrow> Inr (foldl (\<lambda>m kv. fmupd (fst kv) (snd kv) m) fmempty kvs)
      | JNull \<Rightarrow> Inr fmempty
      | _ \<Rightarrow> Inl (Errorf ''json: cannot unmarshal %s into Go value of type map[string]interface {}'' [ArgS (json_kind j)]))"

definition decodeSpecMap :: "(string \<Rightarrow> json result) \<Rightarrow> string \<Rightarrow> json gomap result" where
  "decodeSpecMap unmarshal data =
     (if length data = 0 then Inr fmempty
      else case (case unmarshal data of Inl err \<Rightarrow> Inl err | Inr j \<Rightarrow> json_map j) of
        Inl err \<Rightarrow> Inl (Errorf ''decode spec json: %w'' [ArgE err])
      | Inr spec \<Rightarrow> Inr spec)"

fun decode_inputs :: "(string \<Rightarrow> json result) \<Rightarrow> (json \<Rightarrow> 'v) \<Rightarrow> PortValue gomap \<Rightarrow> string list \<Rightarrow> 'v gomap \<Rightarrow> 'v gomap result" where
  "decode_inputs unmarshal anyv values [] inputs = Inr inputs"
| "decode_inputs unmarshal anyv values (name # names) inputs =
     (let payload = vl_payload (the (fmlookup values name))
      in if payload = [] then decode_inputs unmarshal anyv values names (fmupd name (anyv JNull) inputs)
         else case unmarshal payload of
           Inl err \<Rightarrow> Inl (Errorf ''decode input %q json: %w'' [ArgS name, ArgE err])
         | Inr j \<Rightarrow> decode_inputs unmarshal anyv values names (fmupd name (anyv j) inputs))"

text \<open>\<open>names\<close> is the order in which the map is ranged over; a decoded frame has no nil value in it.\<close>

definition decodeInputValues :: "(string \<Rightarrow> json result) \<Rightarrow> (json \<Rightarrow> 'v) \<Rightarrow> string list \<Rightarrow> PortValue gomap \<Rightarrow> 'v gomap result" where
  "decodeInputValues unmarshal anyv names values = decode_inputs unmarshal anyv values names fmempty"

section \<open>The loop\<close>

text \<open>
  A plugin being served. The units may depend on the spec of the request, which they decode themselves.
  \<open>pl_start\<close> and \<open>pl_stop\<close> are what the code of a background unit does when it is started and stopped.
\<close>

record ('v, 'o) served =
  pl_read :: "'o frameReader"
  pl_write :: "'o frameWriter"
  pl_marshal :: "'v Marshal"
  pl_unmarshal :: "string \<Rightarrow> json result"
  pl_any :: "json \<Rightarrow> 'v"
  pl_order :: "PortValue gomap \<Rightarrow> string list"
  pl_manifest :: Plugin
  pl_units :: "json gomap \<Rightarrow> ('v, 'o) ServedUnit gomap"
  pl_background :: "string \<Rightarrow> bool"
  pl_start :: "ServeRequest \<Rightarrow> json gomap \<Rightarrow> 'v gomap \<Rightarrow> 'o \<Rightarrow> (goerr option \<times> bool) \<times> 'o"
  pl_stop :: "string \<Rightarrow> 'o \<Rightarrow> 'v stopWork \<times> 'o"

definition spec_error :: "'a result \<Rightarrow> goerr option" where
  "spec_error r = (case r of Inl err \<Rightarrow> Some err | Inr _ \<Rightarrow> None)"

definition decoded :: "'a gomap result \<Rightarrow> 'a gomap" where
  "decoded r = (case r of Inl err \<Rightarrow> fmempty | Inr m \<Rightarrow> m)"

definition request_of :: "string \<Rightarrow> string \<Rightarrow> string \<Rightarrow> string \<Rightarrow> int \<Rightarrow> int \<Rightarrow> ServeRequest" where
  "request_of rid unitName kind runID millis workers =
     \<lparr>sq_RequestId = rid, sq_UnitName = unitName, sq_Kind = kind, sq_RunId = runID,
      sq_RunDurationMillis = millis, sq_WorkerCount = workers\<rparr>"

text \<open>\<open>Start\<close> is called only for a background unit that is registered and whose spec and inputs decode.\<close>

definition start_work :: "('v, 'o) served \<Rightarrow> ServeRequest \<Rightarrow> json gomap result \<Rightarrow> 'v gomap result \<Rightarrow> 'o \<Rightarrow> startWork \<times> 'o" where
  "start_work p req spec inputs out =
     (let run = fmlookup (pl_units p (decoded spec)) (sq_Kind req) \<noteq> None \<and> pl_background p (sq_Kind req) \<and>
                spec_error spec = None \<and> spec_error inputs = None;
          r = (if run then pl_start p req (decoded spec) (decoded inputs) out else ((None, False), out))
      in (\<lparr>sw_background = pl_background p (sq_Kind req), sw_spec = spec_error spec, sw_inputs = spec_error inputs,
           sw_start = fst (fst r), sw_nilTask = snd (fst r)\<rparr>, snd r))"

definition with_tasks :: "taskServer \<Rightarrow> goerr option \<times> 'o \<Rightarrow> goerr option \<times> taskServer \<times> 'o" where
  "with_tasks s = (\<lambda>(err, out). (err, s, out))"

definition serve_frame :: "('v, 'o) served \<Rightarrow> Frame \<Rightarrow> taskServer \<times> 'o \<Rightarrow> goerr option \<times> taskServer \<times> 'o" where
  "serve_frame p frame = (\<lambda>(s, out).
     let wr = pl_write p; rid = fr_RequestId frame; um = pl_unmarshal p
     in case fr_Body frame of
          FHandshakeRequest hostProtocol minProtocol maxProtocol \<Rightarrow>
            with_tasks s (wr (plain_frame rid
              (FHandshakeResponse (Some (manifestToProto (pl_manifest p))) ''wkbench.plugin/v1'')) out)
        | FListUnitsRequest \<Rightarrow>
            with_tasks s (wr (plain_frame rid (FListUnitsResponse (unitsToProto (pg_Units (pl_manifest p))))) out)
        | FValidateRequest u kind spec \<Rightarrow>
            (let d = decodeSpecMap um spec
             in with_tasks s (handleValidate wr (pl_units p (decoded d)) (request_of rid u kind [] 0 0) (spec_error d) out))
        | FPlanRequest u kind run millis workers spec \<Rightarrow>
            (let d = decodeSpecMap um spec
             in with_tasks s (handlePlan wr (pl_units p (decoded d)) (request_of rid u kind run millis workers) (spec_error d) out))
        | FRunRequest u kind run millis workers spec values \<Rightarrow>
            (let d = decodeSpecMap um spec
             in with_tasks s (handleRun wr (pl_marshal p) (pl_units p (decoded d)) (request_of rid u kind run millis workers)
                  (spec_error d) (decodeInputValues um (pl_any p) (pl_order p values) values) out))
        | FStartRequest u kind run millis workers spec values \<Rightarrow>
            (let d = decodeSpecMap um spec; req = request_of rid u kind run millis workers
             in case start_work p req d (decodeInputValues um (pl_any p) (pl_order p values) values) out of
                  (work, out) \<Rightarrow> handleStart wr (pl_units p (decoded d)) req work (s, out))
        | FStopRequest taskID \<Rightarrow>
            (case (if is_active taskID s then pl_stop p taskID out
                   else (\<lparr>sp_err = None, sp_env = NewTestRunEnv [] [] fmempty, sp_outputs = [], sp_ready = None\<rparr>, out)) of
               (work, out) \<Rightarrow> handleStop wr (pl_marshal p) rid taskID work (s, out))
        | _ \<Rightarrow> with_tasks s (writeProtocolError wr rid ''UNSUPPORTED'' (Errorf ''unsupported frame'' []) out))"

text \<open>The loop ends for every input that ends; \<open>None\<close> stands for a loop that does not.\<close>

partial_function (option) Serve :: "('v, 'o) served \<Rightarrow> taskServer \<times> 'o \<Rightarrow> (goerr option \<times> taskServer \<times> 'o) option" where
  "Serve p st =
     (case pl_read p (snd st) of
        (Inl err, out) \<Rightarrow> Some (if errors_Is err err_EOF then None else Some err, fst st, out)
      | (Inr frame, out) \<Rightarrow>
          (case serve_frame p frame (fst st, out) of
             (Some err, st) \<Rightarrow> Some (Some err, st)
           | (None, st) \<Rightarrow> Serve p st))"

text \<open>The goroutine that waits for the end of a task: its done channel, or being told to stop.\<close>

definition monitorBackgroundTask :: "string \<Rightarrow> goerr option option \<Rightarrow> taskServer \<Rightarrow> Frame list \<times> taskServer" where
  "monitorBackgroundTask taskID received s =
     (case received of
        None \<Rightarrow> ([], s)
      | Some err \<Rightarrow> emitObservedBackgroundEvent taskID (observeBackgroundDone taskID err s))"

section \<open>One answer for every request\<close>

fun is_answer :: "frameBody \<Rightarrow> bool" where
  "is_answer (FHandshakeResponse _ _) = True"
| "is_answer (FListUnitsResponse _) = True"
| "is_answer FValidateResponse = True"
| "is_answer (FPlanResponse _) = True"
| "is_answer (FTerminalStatus _ _) = True"
| "is_answer (FStartResponse _) = True"
| "is_answer FStopResponse = True"
| "is_answer (FError _ _) = True"
| "is_answer _ = False"

definition answer_frames :: "Frame list \<Rightarrow> Frame list" where
  "answer_frames fs = filter (\<lambda>f. is_answer (fr_Body f)) fs"

lemma answers_simps [simp]:
  "answer_frames [] = []"
  "answer_frames (f # fs) = (if is_answer (fr_Body f) then f # answer_frames fs else answer_frames fs)"
  "answer_frames (xs @ ys) = answer_frames xs @ answer_frames ys"
  by (simp_all add: answer_frames_def)

text \<open>What was written between two states of the pipe: only non-answers, or just one answer, to \<open>rid\<close>.\<close>

definition silent :: "pipe \<Rightarrow> pipe \<Rightarrow> bool" where
  "silent io io' \<longleftrightarrow> (\<exists>fs. io' = io\<lparr>pp_sent := pp_sent io @ fs\<rparr> \<and> answer_frames fs = [])"

definition answered :: "string \<Rightarrow> pipe \<Rightarrow> pipe \<Rightarrow> bool" where
  "answered rid io io' \<longleftrightarrow> (\<exists>fs a. io' = io\<lparr>pp_sent := pp_sent io @ fs\<rparr> \<and> answer_frames fs = [a] \<and> fr_RequestId a = rid)"

lemma silent_refl [simp]: "silent io io"
  by (auto simp: silent_def intro: exI [of _ "[]"])

lemma silent_write: "\<not> is_answer (fr_Body f) \<Longrightarrow> silent io (io\<lparr>pp_sent := pp_sent io @ [f]\<rparr>)"
  by (auto simp: silent_def)

lemma silent_trans: "silent a b \<Longrightarrow> silent b c \<Longrightarrow> silent a c"
  by (auto simp: silent_def)

lemma answered_write: "is_answer (fr_Body f) \<Longrightarrow> fr_RequestId f = rid \<Longrightarrow> answered rid io (io\<lparr>pp_sent := pp_sent io @ [f]\<rparr>)"
  by (auto simp: answered_def)

lemma answered_after: "silent a b \<Longrightarrow> answered rid b c \<Longrightarrow> answered rid a c"
  by (auto simp: silent_def answered_def)

lemma answered_before: "answered rid a b \<Longrightarrow> silent b c \<Longrightarrow> answered rid a c"
  by (auto simp: silent_def answered_def)

lemma pipe_answer [simp]:
  "pipe_write (plain_frame rid b) io = (None, io\<lparr>pp_sent := pp_sent io @ [plain_frame rid b]\<rparr>)"
  by (simp add: pipe_write_def)

lemma answered_plain: "is_answer b \<Longrightarrow> answered rid io (io\<lparr>pp_sent := pp_sent io @ [plain_frame rid b]\<rparr>)"
  by (rule answered_write) (simp_all add: plain_frame_def)

lemma protocol_error_pipe:
  "writeProtocolError pipe_write rid code err io = (None, io\<lparr>pp_sent := pp_sent io @ [plain_frame rid (FError code err)]\<rparr>)"
  by (simp add: writeProtocolError_def)

lemma writeOutputs_silent: "silent io (snd (writeOutputs pipe_write mj rid env defs io))"
proof (induction defs arbitrary: io)
  case (Cons def defs)
  have "silent io (io\<lparr>pp_sent := pp_sent io @ [plain_frame rid (FSetOutput n v)]\<rparr>)" for n v
    by (rule silent_write) (simp add: plain_frame_def)
  from silent_trans [OF this Cons.IH] Cons.IH show ?case by (simp split: option.split sum.split)
qed simp

lemma writeMetricFlush_pipe_ok:
  "fst (writeMetricFlush pipe_write rid env io) = None" "silent io (snd (writeMetricFlush pipe_write rid env io))"
  by (auto simp: writeMetricFlush_def Let_def plain_frame_def intro: silent_write)
    (auto simp: pipe_write_def intro: silent_write)

lemma send_all_silent: "answer_frames fs = [] \<Longrightarrow> silent io (send_all pipe_write fs io)"
proof (induction fs arbitrary: io)
  case (Cons f fs)
  then have f: "\<not> is_answer (fr_Body f)" "answer_frames fs = []" by (simp_all split: if_splits)
  show ?case using silent_trans [OF silent_write [OF f(1)] Cons.IH [OF f(2)]] by (simp add: pipe_write_def)
qed simp

section \<open>The handlers\<close>

definition answers_ok :: "string \<Rightarrow> pipe \<Rightarrow> goerr option \<times> taskServer \<times> pipe \<Rightarrow> bool" where
  "answers_ok rid io r \<longleftrightarrow> fst r = None \<and> answered rid io (snd (snd r))"

lemma answers_ok_error:
  "silent io io1 \<Longrightarrow> answers_ok rid io (None, s, io1\<lparr>pp_sent := pp_sent io1 @ [plain_frame rid (FError code err)]\<rparr>)"
  by (simp add: answers_ok_def answered_after [OF _ answered_plain])

lemma handleValidate_answers: "answers_ok (sq_RequestId req) io (with_tasks s (handleValidate pipe_write units req spec io))"
  by (auto simp: handleValidate_def protocol_error_pipe with_tasks_def answers_ok_def answered_plain
      split: sum.split option.split)

lemma handlePlan_answers: "answers_ok (sq_RequestId req) io (with_tasks s (handlePlan pipe_write units req spec io))"
  by (auto simp: handlePlan_def protocol_error_pipe with_tasks_def answers_ok_def answered_plain
      split: sum.split option.split)

definition runs_silently :: "('v, pipe) ServedUnit gomap \<Rightarrow> bool" where
  "runs_silently units \<longleftrightarrow> (\<forall>kind u e io. fmlookup units kind = Some u \<longrightarrow> silent io (snd (snd (sv_Run u e io))))"

lemma handleRun_answers:
  assumes "runs_silently units"
  shows "answers_ok (sq_RequestId req) io (with_tasks s (handleRun pipe_write mj units req spec inputs io))"
proof (cases "server_unit units (sq_Kind req)")
  case (Inr u)
  let ?rid = "sq_RequestId req"
  show ?thesis
  proof (cases "spec = None \<and> (\<exists>ins. inputs = Inr ins)")
    case False
    with Inr show ?thesis
      by (auto simp: handleRun_def protocol_error_pipe with_tasks_def answers_ok_def answered_plain Let_def
          split: sum.split option.split)
  next
    case True
    then obtain ins where ins: "spec = None" "inputs = Inr ins" by blast
    let ?io1 = "sv_Run u (run_env_of req ins (ud_Artifacts (sv_Definition u))) io"
    have run: "silent io (snd (snd ?io1))"
      using assms Inr by (auto simp: runs_silently_def server_unit_def split: option.splits)
    let ?w = "writeOutputs pipe_write mj ?rid (fst (snd ?io1)) (ud_Outputs (sv_Definition u)) (snd (snd ?io1))"
    have out: "silent io (snd ?w)" by (rule silent_trans [OF run writeOutputs_silent])
    let ?m = "writeMetricFlush pipe_write ?rid (fst (snd ?io1)) (snd ?w)"
    have met: "fst ?m = None" "silent io (snd ?m)"
      by (rule writeMetricFlush_pipe_ok, rule silent_trans [OF out writeMetricFlush_pipe_ok(2)])
    have ok: "answers_ok ?rid io (None, s, (snd ?m)\<lparr>pp_sent := pp_sent (snd ?m) @ [plain_frame ?rid (FTerminalStatus True None)]\<rparr>)"
      by (simp add: answers_ok_def answered_after [OF met(2) answered_plain])
    show ?thesis
    proof (cases "fst ?io1")
      case (Some err)
      with answers_ok_error [OF run, of ?rid s "''RUN_ERROR''" err] show ?thesis
        by (simp add: handleRun_def Inr ins protocol_error_pipe with_tasks_def Let_def split_beta)
    next
      case None
      note no_err = this
      show ?thesis
      proof (cases "fst ?w")
        case (Some err)
        with no_err answers_ok_error [OF out, of ?rid s "''RUN_ERROR''" err] show ?thesis
          by (simp add: handleRun_def Inr ins protocol_error_pipe with_tasks_def Let_def split_beta)
      next
        case None
        with no_err met(1) ok show ?thesis
          by (simp add: handleRun_def Inr ins protocol_error_pipe with_tasks_def Let_def split_beta)
      qed
    qed
  qed
qed (auto simp: handleRun_def protocol_error_pipe with_tasks_def answers_ok_def answered_plain Let_def)

lemma handleStart_answers: "answers_ok (sq_RequestId req) io (handleStart pipe_write units req work (s, io))"
proof -
  have "answered rid io (io\<lparr>pp_sent := pp_sent io @ [\<lparr>fr_RequestId = rid, fr_RunId = run, fr_UnitInstanceId = u, fr_Body = FStartResponse t\<rparr>]\<rparr>)" for rid run u t
    by (rule answered_write) simp_all
  then show ?thesis
    by (auto simp: handleStart_def protocol_error_pipe answers_ok_def answered_plain Let_def pipe_write_def
        split: sum.split option.split prod.split)
qed

lemma flush_silent: "answer_frames (fst (flushReadyBackgroundEvent tid ready s)) = []"
  by (auto simp: flushReadyBackgroundEvent_def emitObservedBackgroundEvent_def event_frame_def split: option.split)

lemma handleStop_answers: "answers_ok rid io (handleStop pipe_write mj rid taskID work (s, io))"
proof (cases "fst (beginBackgroundTaskStop taskID s)")
  case None
  then show ?thesis
    by (auto simp: handleStop_def protocol_error_pipe answers_ok_def answered_plain split: prod.split)
next
  case (Some r)
  then obtain s1 where bs: "beginBackgroundTaskStop taskID s = (Some r, s1)" by (cases "beginBackgroundTaskStop taskID s") simp
  let ?w = "writeOutputs pipe_write mj (bt_requestID r) (sp_env work) (sp_outputs work) io"
  have out: "silent io (snd ?w)" by (rule writeOutputs_silent)
  let ?m = "writeMetricFlush pipe_write (bt_requestID r) (sp_env work) (snd ?w)"
  have met: "fst ?m = None" "silent io (snd ?m)"
    by (rule writeMetricFlush_pipe_ok, rule silent_trans [OF out writeMetricFlush_pipe_ok(2)])
  let ?f = "\<lparr>fr_RequestId = rid, fr_RunId = bt_runID r, fr_UnitInstanceId = bt_unitName r, fr_Body = FStopResponse\<rparr>"
  have ok: "answered rid io (send_all pipe_write (fst (flushReadyBackgroundEvent taskID (sp_ready work) s1))
      ((snd ?m)\<lparr>pp_sent := pp_sent (snd ?m) @ [?f]\<rparr>))"
    by (intro answered_before [OF answered_after [OF met(2) answered_write] send_all_silent [OF flush_silent]]) simp_all
  show ?thesis
  proof (cases "sp_err work")
    case (Some err)
    with answers_ok_error [OF silent_refl, of rid io] show ?thesis
      by (simp add: handleStop_def bs protocol_error_pipe Let_def)
  next
    case None
    note no_err = this
    show ?thesis
    proof (cases "fst ?w")
      case (Some err)
      with no_err answers_ok_error [OF out, of rid] show ?thesis
        by (simp add: handleStop_def bs protocol_error_pipe Let_def split_beta)
    next
      case None
      with no_err met(1) ok show ?thesis
        by (simp add: handleStop_def bs Let_def split_beta pipe_write_def answers_ok_def)
    qed
  qed
qed


section \<open>The loop\<close>

text \<open>
  A plugin on a pipe whose units, while they run, send nothing that answer_frames a request, and read no
  frames (they open no artifact).
\<close>

definition well_behaved :: "('v, pipe) served \<Rightarrow> bool" where
  "well_behaved p \<longleftrightarrow>
     pl_read p = pipe_read \<and> pl_write p = pipe_write \<and> (\<forall>spec. runs_silently (pl_units p spec)) \<and>
     (\<forall>req spec inputs io. silent io (snd (pl_start p req spec inputs io))) \<and>
     (\<forall>taskID io. silent io (snd (pl_stop p taskID io)))"

lemma answers_ok_after: "silent io io1 \<Longrightarrow> answers_ok rid io1 r \<Longrightarrow> answers_ok rid io r"
  by (auto simp: answers_ok_def intro: answered_after)

lemma request_of_id [simp]: "sq_RequestId (request_of rid u kind run millis workers) = rid"
  by (simp add: request_of_def)

lemma serve_frame_answers:
  assumes "well_behaved p"
  shows "answers_ok (fr_RequestId f) io (serve_frame p f (s, io))"
proof -
  have wr: "pl_write p = pipe_write" and runs: "\<And>spec. runs_silently (pl_units p spec)"
    and st: "\<And>req spec inputs io. silent io (snd (pl_start p req spec inputs io))"
    and sp: "\<And>taskID io. silent io (snd (pl_stop p taskID io))"
    using assms by (auto simp: well_behaved_def)
  show ?thesis
  proof (cases "fr_Body f")
    case (FStartRequest u kind run millis workers spec vals)
    let ?req = "request_of (fr_RequestId f) u kind run millis workers"
    let ?d = "decodeSpecMap (pl_unmarshal p) spec"
    let ?w = "start_work p ?req ?d (decodeInputValues (pl_unmarshal p) (pl_any p) (pl_order p vals) vals) io"
    have "silent io (snd ?w)" by (simp add: start_work_def Let_def st)
    from answers_ok_after [OF this handleStart_answers, of ?req] FStartRequest show ?thesis
      by (simp add: serve_frame_def wr Let_def split_beta)
  next
    case (FStopRequest taskID)
    then show ?thesis
      by (simp add: serve_frame_def wr Let_def split_beta answers_ok_after [OF sp handleStop_answers] handleStop_answers)
  next
    case (FRunRequest u kind run millis workers spec vals)
    with handleRun_answers [OF runs, of "request_of (fr_RequestId f) u kind run millis workers"] show ?thesis
      by (simp add: serve_frame_def wr Let_def)
  next
    case (FValidateRequest u kind spec)
    with handleValidate_answers [of "request_of (fr_RequestId f) u kind [] 0 0"] show ?thesis
      by (simp add: serve_frame_def wr Let_def)
  next
    case (FPlanRequest u kind run millis workers spec)
    with handlePlan_answers [of "request_of (fr_RequestId f) u kind run millis workers"] show ?thesis
      by (simp add: serve_frame_def wr Let_def)
  qed (simp_all add: serve_frame_def wr Let_def with_tasks_def answers_ok_def answered_plain protocol_error_pipe)
qed

lemma Serve_pipe:
  assumes "well_behaved p" and "io = \<lparr>pp_sent = old, pp_inbox = requests\<rparr>"
  shows "\<exists>s' sent. Serve p (s, io) = Some (None, s', \<lparr>pp_sent = old @ sent, pp_inbox = []\<rparr>) \<and>
    map fr_RequestId (answer_frames sent) = map fr_RequestId requests"
  using assms(2)
proof (induction requests arbitrary: s io old)
  case Nil
  have "pl_read p io = (Inl err_EOF, io)" using assms(1) Nil by (simp add: well_behaved_def pipe_read_def)
  then show ?case
    using Nil by (intro exI [of _ s] exI [of _ "[]"]) (subst Serve.simps, simp)
next
  case (Cons f requests)
  let ?io = "\<lparr>pp_sent = old, pp_inbox = requests\<rparr>"
  have rd: "pl_read p io = (Inr f, ?io)"
    using assms(1) Cons.prems by (simp add: well_behaved_def pipe_read_def)
  from serve_frame_answers [OF assms(1), of f ?io s] obtain s1 fs a where
    h: "serve_frame p f (s, ?io) = (None, s1, \<lparr>pp_sent = old @ fs, pp_inbox = requests\<rparr>)"
    and a: "answer_frames fs = [a]" "fr_RequestId a = fr_RequestId f"
    by (cases "serve_frame p f (s, ?io)") (auto simp: answers_ok_def answered_def)
  from Cons.IH [OF refl, of s1 "old @ fs"] obtain s' sent where
    r: "Serve p (s1, \<lparr>pp_sent = old @ fs, pp_inbox = requests\<rparr>) = Some (None, s', \<lparr>pp_sent = (old @ fs) @ sent, pp_inbox = []\<rparr>)"
    "map fr_RequestId (answer_frames sent) = map fr_RequestId requests" by blast
  have "Serve p (s, io) = Some (None, s', \<lparr>pp_sent = old @ fs @ sent, pp_inbox = []\<rparr>)"
    by (subst Serve.simps) (simp add: rd h r(1))
  moreover have "map fr_RequestId (answer_frames (fs @ sent)) = map fr_RequestId (f # requests)" using a r(2) by simp
  ultimately show ?case by blast
qed

section \<open>The plugin answers\<close>


definition sample_served_def :: UnitDef where
  "sample_served_def = \<lparr>ud_Kind = ''k'', ud_Title = [], ud_Description = [], ud_Inputs = [],
     ud_Outputs = [\<lparr>pd_Name = ''o'', pd_Type = ''t'', pd_Optional = False, pd_Meta = empty_PortMeta\<rparr>],
     ud_Metrics = [], ud_Artifacts = []\<rparr>"

definition sample_served_unit :: "(int, pipe) ServedUnit" where
  "sample_served_unit = \<lparr>sv_Definition = sample_served_def, sv_Validate = (\<lambda>_. None), sv_Plan = (\<lambda>_. Inr []),
     sv_Run = (\<lambda>e io. (None, te_SetOutput ''o'' 3 (xe_TestRunEnv e), io))\<rparr>"

definition sample_served :: "(int, pipe) served" where
  "sample_served =
     \<lparr>pl_read = pipe_read, pl_write = pipe_write,
      pl_marshal = \<lparr>mj_marshal = (\<lambda>v. Inr (itoa v)), mj_ReportOutput = (\<lambda>_. None)\<rparr>,
      pl_unmarshal = (\<lambda>_. Inr JNull), pl_any = (\<lambda>_. 0), pl_order = map_keys,
      pl_manifest = ManifestFromUnits ''demo'' ''1'' [(sample_served_def, False)],
      pl_units = (\<lambda>_. newServer [sample_served_unit]), pl_background = (\<lambda>_. False),
      pl_start = (\<lambda>_ _ _ io. ((None, False), io)),
      pl_stop = (\<lambda>_ io. (\<lparr>sp_err = None, sp_env = NewTestRunEnv [] [] fmempty, sp_outputs = [], sp_ready = None\<rparr>, io))\<rparr>"

definition sample_requests :: "Frame list" where
  "sample_requests =
     [plain_frame ''1'' (FHandshakeRequest [] [] []), plain_frame ''2'' (FRunRequest ''a'' ''k'' ''r'' 0 1 [] fmempty),
      plain_frame ''3'' (FRunRequest ''a'' ''none'' ''r'' 0 1 [] fmempty), plain_frame ''4'' (FTerminalStatus True None)]"


end
