(* ===== verification/Host_Calls.thy ===== *)
theory Host_Calls
  imports Host_Facts Plugin_Serve
begin

text \<open>
  The calls of \<open>StdioClient\<close> in \<open>benchkit/pluginhost/stdio_client.go\<close> as a whole: \<open>Handshake\<close>, \<open>Validate\<close>, \<open>Plan\<close>,
  \<open>Start\<close> and the task's \<open>Stop\<close>, from the check of the context to the deferred clean up, over the pieces of
  \<open>Host_Client\<close>. What the read loop and the other calls do while a call waits is the argument
  \<open>cl_meanwhile\<close>; a call that waits for ever has no result.
\<close>

section \<open>Requests\<close>

record UnitRequest =
  uq_PluginName :: string
  uq_UnitName :: string
  uq_Kind :: string
  uq_RunID :: string
  uq_RunDurationMillis :: int
  uq_WorkerCount :: int
  uq_SpecJSON :: string

record 'v RunRequest = UnitRequest +
  rq_InputDefs :: "PortDef list"
  rq_InputSourceDefs :: "PortDef gomap"
  rq_Inputs :: "'v gomap"

definition host_protocol :: string where
  "host_protocol = ''wkbench.plugin/v1''"

definition handshake_frame :: "string \<Rightarrow> Frame" where
  "handshake_frame rid = plain_frame rid (FHandshakeRequest host_protocol host_protocol host_protocol)"

definition request_frame :: "'m UnitRequest_scheme \<Rightarrow> frameBody \<Rightarrow> string \<Rightarrow> Frame" where
  "request_frame req body rid =
     \<lparr>fr_RequestId = rid, fr_RunId = uq_RunID req, fr_UnitInstanceId = uq_UnitName req, fr_Body = body\<rparr>"

definition validate_frame :: "'m UnitRequest_scheme \<Rightarrow> string \<Rightarrow> Frame" where
  "validate_frame req = request_frame req (FValidateRequest (uq_UnitName req) (uq_Kind req) (uq_SpecJSON req))"

definition plan_frame :: "'m UnitRequest_scheme \<Rightarrow> string \<Rightarrow> Frame" where
  "plan_frame req = request_frame req
     (FPlanRequest (uq_UnitName req) (uq_Kind req) (uq_RunID req) (uq_RunDurationMillis req)
        (wrap32 (uq_WorkerCount req)) (uq_SpecJSON req))"

definition run_frame :: "'m UnitRequest_scheme \<Rightarrow> PortValue gomap \<Rightarrow> string \<Rightarrow> Frame" where
  "run_frame req inputs = request_frame req
     (FRunRequest (uq_UnitName req) (uq_Kind req) (uq_RunID req) (uq_RunDurationMillis req)
        (wrap32 (uq_WorkerCount req)) (uq_SpecJSON req) inputs)"

definition start_frame :: "'m UnitRequest_scheme \<Rightarrow> PortValue gomap \<Rightarrow> string \<Rightarrow> Frame" where
  "start_frame req inputs = request_frame req
     (FStartRequest (uq_UnitName req) (uq_Kind req) (uq_RunID req) (uq_RunDurationMillis req)
        (wrap32 (uq_WorkerCount req)) (uq_SpecJSON req) inputs)"

definition stop_frame :: "remoteBackgroundTask \<Rightarrow> string \<Rightarrow> Frame" where
  "stop_frame t rid =
     \<lparr>fr_RequestId = rid, fr_RunId = rt_runID t, fr_UnitInstanceId = rt_unitName t, fr_Body = FStopRequest (rt_taskID t)\<rparr>"

section \<open>Calls\<close>

record call =
  cl_ctxErr :: "goerr option"
  cl_killed :: bool
  cl_write :: "Frame \<Rightarrow> goerr option"
  cl_meanwhile :: "hostClient \<Rightarrow> hostClient"
  cl_cancelled :: "goerr option"

text \<open>
  What \<open>Handshake\<close>, \<open>Validate\<close> and \<open>Plan\<close> have in common; \<open>interpret\<close> is what they make of the answer.
\<close>

definition client_call :: "string \<Rightarrow> string \<Rightarrow> (string \<Rightarrow> Frame) \<Rightarrow> (string \<Rightarrow> Frame \<Rightarrow> 'a result) \<Rightarrow> call \<Rightarrow> hostClient \<Rightarrow>
    ('a result \<times> hostClient) option" where
  "client_call op writeErr frame answer cl c =
     (case cl_ctxErr cl of
        Some err \<Rightarrow> Some (Inl err, shutdown True (cl_killed cl) c)
      | None \<Rightarrow>
          (case begin_request op c of ((rid, i), c) \<Rightarrow>
             (case client_writeFrame (cl_write cl) (frame rid) c of
                Some err \<Rightarrow> Some (Inl (Errorf writeErr [ArgE err]), unregisterWaiter rid c)
              | None \<Rightarrow>
                  (case waitForRequestFrame op (cl_cancelled cl) (cl_killed cl) i (cl_meanwhile cl c) of
                     (None, c) \<Rightarrow> None
                   | (Some (Inl err), c) \<Rightarrow> Some (Inl err, unregisterWaiter rid c)
                   | (Some (Inr response), c) \<Rightarrow> Some (answer rid response, unregisterWaiter rid c)))))"

definition client_Handshake :: "call \<Rightarrow> hostClient \<Rightarrow> (Plugin result \<times> hostClient) option" where
  "client_Handshake = client_call ''handshake'' ''write handshake request: %w'' handshake_frame handshake_result"

definition as_result :: "goerr option \<Rightarrow> unit result" where
  "as_result r = (case r of None \<Rightarrow> Inr () | Some err \<Rightarrow> Inl err)"

definition client_Validate :: "'m UnitRequest_scheme \<Rightarrow> call \<Rightarrow> hostClient \<Rightarrow> (unit result \<times> hostClient) option" where
  "client_Validate req = client_call ''validate'' ''write validate request: %w'' (validate_frame req)
     (\<lambda>rid response. as_result (validate_result rid response))"

definition client_Plan :: "(string \<Rightarrow> Plan result) \<Rightarrow> 'm UnitRequest_scheme \<Rightarrow> call \<Rightarrow> hostClient \<Rightarrow>
    (Plan result \<times> hostClient) option" where
  "client_Plan unmarshal req = client_call ''plan'' ''write plan request: %w'' (plan_frame req) (plan_result unmarshal)"

text \<open>The loop of \<open>Start\<close>: for each frame, what happens before it is there, and the outcome of its handling.\<close>

fun start_loop :: "bool \<Rightarrow> string \<Rightarrow> nat \<Rightarrow> nat \<Rightarrow> ((hostClient \<Rightarrow> hostClient) \<times> goerr option \<times> lifecycleOutcome) list \<Rightarrow>
    hostClient \<Rightarrow> (goerr option \<times> hostClient) option" where
  "start_loop killed rid i task [] c = None"
| "start_loop killed rid i task ((meanwhile, cancelled, outcome) # rest) c =
     (case waitForRequestFrame ''start'' cancelled killed i (meanwhile c) of
        (None, c) \<Rightarrow> None
      | (Some answer, c) \<Rightarrow>
          (case start_reply outcome rid task answer c of
             (Some r, c) \<Rightarrow> Some (r, unregisterWaiter rid c)
           | (None, c) \<Rightarrow> start_loop killed rid i task rest c))"

text \<open>The result of \<open>Start\<close> is an error or the task, given by its index.\<close>

definition client_Start :: "('v \<Rightarrow> string result) \<Rightarrow> string list \<Rightarrow> 'v RunRequest \<Rightarrow> call \<Rightarrow>
    ((hostClient \<Rightarrow> hostClient) \<times> goerr option \<times> lifecycleOutcome) list \<Rightarrow> hostClient \<Rightarrow> (nat result \<times> hostClient) option" where
  "client_Start marshal names req cl rounds c =
     (case cl_ctxErr cl of
        Some err \<Rightarrow> Some (Inl err, shutdown True (cl_killed cl) c)
      | None \<Rightarrow>
          (case encodeInputPortValues marshal names (rq_InputDefs req) (rq_InputSourceDefs req) (rq_Inputs req) of
             Inl err \<Rightarrow> Some (Inl err, c)
           | Inr inputs \<Rightarrow>
               (case begin_start (uq_RunID req) (uq_UnitName req) c of ((rid, i, task), c) \<Rightarrow>
                  (case client_writeFrame (cl_write cl) (start_frame req inputs rid) c of
                     Some err \<Rightarrow>
                       Some (Inl (Errorf ''write start request: %w'' [ArgE err]),
                         unregisterWaiter rid (task_finish (Some errStdioClientClosed) task c))
                   | None \<Rightarrow>
                       (case start_loop (cl_killed cl) rid i task rounds c of
                          None \<Rightarrow> None
                        | Some (Some err, c) \<Rightarrow> Some (Inl err, c)
                        | Some (None, c) \<Rightarrow> Some (Inr task, c))))))"

definition task_Stop :: "nat \<Rightarrow> call \<Rightarrow> hostClient \<Rightarrow> (goerr option \<times> hostClient) option" where
  "task_Stop task cl c =
     (case cl_ctxErr cl of
        Some err \<Rightarrow> Some (Some err, task_finish (Some err) task (shutdown True (cl_killed cl) (setStopping True task c)))
      | None \<Rightarrow>
          (case begin_stop task c of ((rid, i), c) \<Rightarrow>
             (case client_writeFrame (cl_write cl) (stop_frame (hc_tasks c ! task) rid) c of
                Some err \<Rightarrow>
                  Some (Some (Errorf ''write stop request: %w'' [ArgE err]), unregisterWaiter rid (task_finish (Some err) task c))
              | None \<Rightarrow>
                  (case waitForRequestFrame ''stop'' (cl_cancelled cl) (cl_killed cl) i (cl_meanwhile cl c) of
                     (None, c) \<Rightarrow> None
                   | (Some answer, c) \<Rightarrow>
                       (case stop_reply rid task answer c of (r, c) \<Rightarrow> Some (r, unregisterWaiter rid c))))))"

end
