(* ===== verification/Call_Facts.thy ===== *)
theory Call_Facts
  imports Host_Calls
begin

text \<open>
  The calls of the host's client as sequences of the steps of \<open>Host_Facts\<close>, and what they return when a plugin served by
  \<open>Plugin_Serve\<close> answers them.
\<close>

section \<open>A call is a sequence of steps\<close>

lemma pool_length_simps [simp]:
  "hc_pool (shutdown kill killed c) = hc_pool c" "hc_tasks (shutdown kill killed c) = hc_tasks c"
  "hc_waiters (shutdown kill killed c) = hc_waiters c"
  by (simp_all add: shutdown_def)

lemma foldl_finish_length [simp]:
  "length (hc_tasks (foldl (\<lambda>c i. task_finish err i c) c is)) = length (hc_tasks c)"
  "hc_pool (foldl (\<lambda>c i. task_finish err i c) c is) = hc_pool c"
  by (induction "is" arbitrary: c) (simp_all add: task_finish_def unregisterBackgroundTask_def Let_def)

lemma foldl_waiter_length [simp]:
  "length (hc_pool (foldl (\<lambda>c i. map_waiter i (f i) c) c is)) = length (hc_pool c)"
  "hc_tasks (foldl (\<lambda>c i. map_waiter i (f i) c) c is) = hc_tasks c"
  by (induction "is" arbitrary: c) simp_all

definition grows :: "hostClient \<Rightarrow> hostClient \<Rightarrow> bool" where
  "grows c c' \<longleftrightarrow> length (hc_pool c) \<le> length (hc_pool c') \<and> length (hc_tasks c) \<le> length (hc_tasks c')"

lemma grows_refl [simp]: "grows c c"
  by (simp add: grows_def)

lemma grows_trans: "grows a b \<Longrightarrow> grows b c \<Longrightarrow> grows a c"
  by (simp add: grows_def)

lemma fails_length [simp]:
  "length (hc_pool (failAllWaiters err c)) = length (hc_pool c)" "length (hc_tasks (failAllWaiters err c)) = length (hc_tasks c)"
  "length (hc_pool (failAllBackgroundTasks err c)) = length (hc_pool c)"
  "length (hc_tasks (failAllBackgroundTasks err c)) = length (hc_tasks c)"
  by (simp_all add: failAllWaiters_def failAllBackgroundTasks_def)

lemma finish_length [simp]: "length (hc_tasks (task_finish err i c)) = length (hc_tasks c)"
  by (simp add: task_finish_def unregisterBackgroundTask_def Let_def)

lemma registerID_length [simp]:
  "length (hc_tasks (registerBackgroundTaskID i t c)) = length (hc_tasks c)" "hc_pool (registerBackgroundTaskID i t c) = hc_pool c"
  by (simp_all add: registerBackgroundTaskID_def)

lemma step_grows: "hc_step c c' \<Longrightarrow> grows c c'"
proof (induction rule: hc_step.induct)
  case (Read c killed outcome frame)
  show ?case
    by (auto simp: grows_def read_frame_def dispatchBackgroundEvent_def dispatchBackgroundLifecycleFrame_def fail_client_def Let_def
        split: frameBody.splits option.splits prod.splits if_splits)
next
  case (Deliver c pick killed)
  show ?case
    by (auto simp: grows_def deliver_pending_def deliverWaiterResult_def fail_client_def split: option.splits prod.splits offer.splits)
next
  case (StartReply i c outcome rid answer)
  show ?case
    by (auto simp: grows_def start_reply_def Let_def split: sum.splits option.splits frameBody.splits)
next
  case (StopReply i c rid answer)
  show ?case
    by (auto simp: grows_def stop_reply_def setStopping_def Let_def split: sum.splits frameBody.splits)
qed (auto simp: grows_def begin_request_frame unregisterWaiter_def waitForRequestFrame_def begin_start_def begin_stop_def
    registerBackgroundTask_def setStopping_def read_error_def Let_def split: option.splits prod.splits list.splits readResult.splits
    dest!: arg_cong [where f = snd])

abbreviation hc_path :: "hostClient \<Rightarrow> hostClient \<Rightarrow> bool" where
  "hc_path \<equiv> hc_step\<^sup>*\<^sup>*"

lemma path_grows: "hc_path c c' \<Longrightarrow> grows c c'"
  by (induction rule: rtranclp_induct) (auto intro: grows_trans step_grows)

lemma path_reach: "hc_path c c' \<Longrightarrow> hc_reach c \<Longrightarrow> hc_reach c'"
  by (induction rule: rtranclp_induct) (auto intro: hc_reach.Next)

lemma path_step: "hc_path a b \<Longrightarrow> hc_step b c \<Longrightarrow> hc_path a c"
  by (rule rtranclp.rtrancl_into_rtrancl)

lemma client_call_path:
  assumes "\<And>c. hc_path c (cl_meanwhile cl c)" and "client_call op writeErr frame answer cl c = Some (r, c')"
  shows "hc_path c c'"
proof (cases "cl_ctxErr cl")
  case (Some err)
  with assms(2) show ?thesis by (auto simp: client_call_def intro: hc_step.Shutdown)
next
  case None
  obtain rid i c1 where b: "begin_request op c = ((rid, i), c1)" by (cases "begin_request op c") auto
  have p1: "hc_path c c1" using hc_step.Request [of c op] by (auto simp: b)
  have i: "i < length (hc_pool c1)" using b begin_request_frame [of op c] by (auto simp: prod_eq_iff)
  let ?m = "cl_meanwhile cl c1"
  have p2: "hc_path c ?m" using p1 assms(1) [of c1] by (rule rtranclp_trans)
  have "i < length (hc_pool ?m)" using path_grows [OF assms(1) [of c1]] i by (simp add: grows_def)
  from hc_step.Wait [OF this, of op "cl_cancelled cl" "cl_killed cl"]
  have p3: "hc_path c (snd (waitForRequestFrame op (cl_cancelled cl) (cl_killed cl) i ?m))" by (rule path_step [OF p2])
  have p4: "hc_path c (unregisterWaiter rid (snd (waitForRequestFrame op (cl_cancelled cl) (cl_killed cl) i ?m)))"
    by (rule path_step [OF p3 hc_step.Unregister])
  have p5: "hc_path c (unregisterWaiter rid c1)" by (rule path_step [OF p1 hc_step.Unregister])
  show ?thesis
    using assms(2) None p4 p5
    by (auto simp: client_call_def b split_beta split: option.splits sum.splits)
qed

text \<open>Steps that give no task its id: only the call that starts a task does that.\<close>

definition others :: "hostClient \<Rightarrow> hostClient \<Rightarrow> bool" where
  "others c c' \<longleftrightarrow> hc_path c c' \<and>
     (\<forall>i<length (hc_tasks c). rt_taskID (hc_tasks c ! i) = [] \<longrightarrow> rt_taskID (hc_tasks c' ! i) = [])"

lemma wait_tasks: "hc_tasks (snd (waitForRequestFrame op cancelled killed i c)) = hc_tasks c"
  by (simp add: waitForRequestFrame_def split: option.split list.split)

lemma start_reply_continues:
  assumes "start_reply outcome rid task answer c = (None, c')" and "rt_taskID (hc_tasks c ! task) = []"
    and "task < length (hc_tasks c)"
  shows "rt_taskID (hc_tasks c' ! task) = []"
  using assms by (auto simp: start_reply_def Let_def split: sum.splits if_splits option.splits frameBody.splits)

lemma start_loop_path:
  assumes "\<forall>(meanwhile, cancelled, outcome)\<in>set rounds. \<forall>c. others c (meanwhile c)"
    and "i < length (hc_pool c)" and "task < length (hc_tasks c)" and "rt_taskID (hc_tasks c ! task) = []"
    and "start_loop killed rid i task rounds c = Some (r, c')"
  shows "hc_path c c'"
  using assms
proof (induction rounds arbitrary: c)
  case (Cons round rounds)
  obtain meanwhile cancelled outcome where rd: "round = (meanwhile, cancelled, outcome)" by (cases round) auto
  let ?m = "meanwhile c"
  have o: "others c ?m" using Cons.prems(1) rd by simp
  then have p1: "hc_path c ?m" by (simp add: others_def)
  have len: "i < length (hc_pool ?m)" "task < length (hc_tasks ?m)"
    using path_grows [OF p1] Cons.prems(2,3) by (simp_all add: grows_def)
  have id1: "rt_taskID (hc_tasks ?m ! task) = []" using o Cons.prems(3,4) by (simp add: others_def)
  obtain a c2 where w: "waitForRequestFrame ''start'' cancelled killed i ?m = (a, c2)"
    by (cases "waitForRequestFrame ''start'' cancelled killed i ?m") auto
  have p2: "hc_path c c2" using path_step [OF p1 hc_step.Wait [OF len(1), of "''start''" cancelled killed]] by (simp add: w)
  have t2: "hc_tasks c2 = hc_tasks ?m" using wait_tasks [of "''start''" cancelled killed i ?m] by (simp add: w)
  from Cons.prems(5) obtain answer where a: "a = Some answer" by (cases a) (auto simp: rd w)
  obtain q c3 where s: "start_reply outcome rid task answer c2 = (q, c3)" by (cases "start_reply outcome rid task answer c2") auto
  have p3: "hc_path c c3"
    using path_step [OF p2 hc_step.StartReply [of task c2 outcome rid answer]] len(2) id1 by (simp add: t2 s)
  show ?case
  proof (cases q)
    case (Some x)
    with Cons.prems(5) have "c' = unregisterWaiter rid c3" by (simp add: rd w a s)
    with path_step [OF p3 hc_step.Unregister] show ?thesis by simp
  next
    case None
    note s = s [unfolded None]
    have g: "grows c2 c3" using step_grows [OF hc_step.StartReply [of task c2 outcome rid answer]] len(2) id1 by (simp add: t2 s)
    have "grows ?m c2" using step_grows [OF hc_step.Wait [OF len(1), of "''start''" cancelled killed]] by (simp add: w)
    with g len have "i < length (hc_pool c3)" "task < length (hc_tasks c3)" by (simp_all add: grows_def)
    moreover have "rt_taskID (hc_tasks c3 ! task) = []"
      using start_reply_continues [OF s] id1 len(2) by (simp add: t2)
    moreover have "start_loop killed rid i task rounds c3 = Some (r, c')" using Cons.prems(5) by (simp add: rd w a s)
    ultimately have "hc_path c3 c'" using Cons.IH Cons.prems(1) by simp
    with p3 show ?thesis by (rule rtranclp_trans)
  qed
qed simp

lemma begin_start_frame:
  assumes "begin_start runID u c = ((rid, i, task), c1)"
  shows "i < length (hc_pool c1)" and "task < length (hc_tasks c1)" and "rt_taskID (hc_tasks c1 ! task) = []"
  using assms by (auto simp: begin_start_def begin_request_frame registerBackgroundTask_def new_task_def Let_def
      split_beta prod_eq_iff)

lemma client_Start_path:
  assumes "\<forall>(meanwhile, cancelled, outcome)\<in>set rounds. \<forall>c. others c (meanwhile c)"
    and "client_Start marshal names req cl rounds c = Some (r, c')"
  shows "hc_path c c'"
proof (cases "cl_ctxErr cl")
  case (Some err)
  with assms(2) show ?thesis by (auto simp: client_Start_def intro: hc_step.Shutdown)
next
  case None
  show ?thesis
  proof (cases "encodeInputPortValues marshal names (rq_InputDefs req) (rq_InputSourceDefs req) (rq_Inputs req)")
    case (Inl err)
    with None assms(2) show ?thesis by (simp add: client_Start_def)
  next
    case (Inr inputs)
    obtain rid i task c1 where b: "begin_start (uq_RunID req) (uq_UnitName req) c = ((rid, i, task), c1)"
      by (cases "begin_start (uq_RunID req) (uq_UnitName req) c") auto
    have p1: "hc_path c c1" using hc_step.BeginStart [of c "uq_RunID req" "uq_UnitName req"] by (auto simp: b)
    note f = begin_start_frame [OF b]
    show ?thesis
    proof (cases "client_writeFrame (cl_write cl) (start_frame req inputs rid) c1")
      case (Some err)
      have "hc_path c (unregisterWaiter rid (task_finish (Some errStdioClientClosed) task c1))"
        by (rule path_step [OF path_step [OF p1 hc_step.Finish [OF f(2)]] hc_step.Unregister])
      with Some None Inr b assms(2) show ?thesis by (simp add: client_Start_def)
    next
      case w: None
      with None Inr b assms(2) obtain q where "start_loop (cl_killed cl) rid i task rounds c1 = Some (q, c')"
        by (auto simp: client_Start_def split: option.splits)
      from start_loop_path [OF assms(1) f this] p1 show ?thesis by (rule rtranclp_trans [rotated])
    qed
  qed
qed

lemma task_Stop_path:
  assumes "\<And>c. hc_path c (cl_meanwhile cl c)" and "task < length (hc_tasks c)" and "task_Stop task cl c = Some (r, c')"
  shows "hc_path c c'"
proof (cases "cl_ctxErr cl")
  case (Some err)
  have s: "hc_path c (shutdown True (cl_killed cl) (setStopping True task c))"
    by (rule path_step [OF r_into_rtranclp [of hc_step, OF hc_step.Stopping [OF assms(2)]] hc_step.Shutdown])
  have "task < length (hc_tasks (shutdown True (cl_killed cl) (setStopping True task c)))"
    using assms(2) by (simp add: setStopping_def)
  from path_step [OF s hc_step.Finish [OF this]] Some assms(3) show ?thesis by (auto simp: task_Stop_def)
next
  case None
  obtain rid i c1 where b: "begin_stop task c = ((rid, i), c1)" by (cases "begin_stop task c") auto
  have s1: "hc_step c c1" using hc_step.BeginStop [OF assms(2)] by (simp add: b)
  then have p1: "hc_path c c1" by blast
  have t: "task < length (hc_tasks c1)" using step_grows [OF s1] assms(2) by (simp add: grows_def)
  have i: "i < length (hc_pool c1)"
    using b by (auto simp: begin_stop_def setStopping_def begin_request_frame prod_eq_iff)
  let ?m = "cl_meanwhile cl c1"
  have p2: "hc_path c ?m" using p1 assms(1) [of c1] by (rule rtranclp_trans)
  have len: "i < length (hc_pool ?m)" "task < length (hc_tasks ?m)"
    using path_grows [OF assms(1) [of c1]] i t by (simp_all add: grows_def)
  let ?w = "waitForRequestFrame ''stop'' (cl_cancelled cl) (cl_killed cl) i ?m"
  have p3: "hc_path c (snd ?w)" by (rule path_step [OF p2 hc_step.Wait [OF len(1)]])
  have "task < length (hc_tasks (snd ?w))" using len(2) by (simp add: wait_tasks)
  then have p4: "hc_path c (unregisterWaiter rid (snd (stop_reply rid task answer (snd ?w))))" for answer
    by (rule path_step [OF path_step [OF p3 hc_step.StopReply] hc_step.Unregister])
  have p5: "hc_path c (unregisterWaiter rid (task_finish (Some err) task c1))" for err
    by (rule path_step [OF path_step [OF p1 hc_step.Finish [OF t]] hc_step.Unregister])
  show ?thesis
    using assms(3) None p4 p5 by (auto simp: task_Stop_def b split_beta split: option.splits)
qed

section \<open>Calls through the plugin\<close>

text \<open>The read loop takes frames one after the other and gives each to its waiter.\<close>

definition read_all :: "Frame list \<Rightarrow> hostClient \<Rightarrow> hostClient" where
  "read_all fs c = foldl (\<lambda>c f. deliver_pending True False (read_frame False (None, newRunArtifactState) f c)) c fs"

text \<open>A call of which no step fails, while the read loop reads \<open>fs\<close>.\<close>

definition smooth_call :: "Frame list \<Rightarrow> call" where
  "smooth_call fs = \<lparr>cl_ctxErr = None, cl_killed = False, cl_write = (\<lambda>_. None), cl_meanwhile = read_all fs, cl_cancelled = None\<rparr>"

lemma client_call_answered:
  assumes "hc_reach c" and "\<not> hc_closed c" and "fr_RequestId a = numbered op (hc_nextSeq c + 1)" and "is_answer (fr_Body a)"
  shows "\<exists>c'. client_call op writeErr frame answer (smooth_call [a]) c = Some (answer (fr_RequestId a) a, c') \<and>
    fmlookup (hc_waiters c') (fr_RequestId a) = None"
proof -
  let ?rid = "fr_RequestId a"
  define i where "i = length (hc_pool c)"
  define c1 where "c1 = snd (begin_request op c)"
  have b: "begin_request op c = ((?rid, i), c1)"
    using begin_request_frame(2) [of op c] by (simp add: c1_def i_def assms(3) prod_eq_iff)
  have c1: "hc_pool c1 = hc_pool c @ [\<lparr>wt_results = [], wt_done = False\<rparr>]" "fmlookup (hc_waiters c1) ?rid = Some i"
    "hc_closed c1 = hc_closed c"
    by (simp_all add: c1_def begin_request_frame i_def assms(3))
  have "\<not> (\<exists>t e err. fr_Body a = FBackgroundEvent t e err)" using assms(4) by auto
  then have rf: "read_frame False (None, newRunArtifactState) a c1 = c1\<lparr>hc_pending := Some (i, a)\<rparr>"
    using c1(2) by (auto simp: read_frame_def split: frameBody.split)
  define c2 where "c2 = read_all [a] c1"
  have c2: "c2 = map_waiter i (\<lambda>_. \<lparr>wt_results = [RFrame a], wt_done = False\<rparr>) (c1\<lparr>hc_pending := None\<rparr>)"
    using c1(1) by (simp add: c2_def read_all_def rf deliver_pending_def deliverWaiterResult_def offer_result_def i_def queueCapacity_def)
  have "hc_pool c2 ! i = \<lparr>wt_results = [RFrame a], wt_done = False\<rparr>" using c1(1) by (simp add: c2 i_def)
  then have w: "waitForRequestFrame op None False i c2 = (Some (Inr a), map_waiter i (\<lambda>w. w\<lparr>wt_results := []\<rparr>) c2)"
    by (simp add: waitForRequestFrame_def)
  have "client_call op writeErr frame answer (smooth_call [a]) c =
      Some (answer ?rid a, unregisterWaiter ?rid (map_waiter i (\<lambda>w. w\<lparr>wt_results := []\<rparr>) c2))"
    using assms(2) c1(3) w by (simp add: client_call_def smooth_call_def b client_writeFrame_def c2_def)
  moreover have "fmlookup (hc_waiters (unregisterWaiter ?rid x)) ?rid = None" for x
    by (auto simp: unregisterWaiter_def split: option.splits)
  ultimately show ?thesis by blast
qed

text \<open>The frames the plugin writes for a request.\<close>

definition plugin_frames :: "('v, pipe) served \<Rightarrow> taskServer \<Rightarrow> Frame \<Rightarrow> Frame list" where
  "plugin_frames p s f = pp_sent (snd (snd (serve_frame p f (s, \<lparr>pp_sent = [], pp_inbox = []\<rparr>))))"

lemma handshake_frames:
  assumes "pl_write p = pipe_write"
  shows "plugin_frames p s (handshake_frame rid) =
    [plain_frame rid (FHandshakeResponse (Some (manifestToProto (pl_manifest p))) host_protocol)]"
  using assms by (simp add: plugin_frames_def serve_frame_def handshake_frame_def plain_frame_def Let_def with_tasks_def
      pipe_write_def host_protocol_def)

lemma handshake_answer:
  "handshake_result rid (plain_frame rid (FHandshakeResponse (Some (manifestToProto m)) host_protocol)) =
     Inr (m\<lparr>pg_Protocol := host_protocol, pg_Units := map (\<lambda>u. u\<lparr>pu_PluginName := pg_Name m\<rparr>) (pg_Units m)\<rparr>)"
  by (simp add: handshake_result_def plain_frame_def pluginFromProto_manifestToProto host_protocol_def)

lemma validate_frames:
  assumes "pl_write p = pipe_write" and "decodeSpecMap (pl_unmarshal p) (uq_SpecJSON req) = Inr spec"
    and "fmlookup (pl_units p spec) (uq_Kind req) = Some u"
  shows "plugin_frames p s (validate_frame req rid) =
    [plain_frame rid (case sv_Validate u (NewTestRunEnv [] (uq_UnitName req) fmempty) of
       None \<Rightarrow> FValidateResponse | Some err \<Rightarrow> FError ''CONFIG_ERROR'' err)]"
  using assms
  by (simp add: plugin_frames_def serve_frame_def validate_frame_def request_frame_def Let_def with_tasks_def handleValidate_def
      server_unit_def decoded_def spec_error_def request_of_def writeProtocolError_def pipe_write_def split: option.split)

section \<open>The client's calls\<close>


definition idle_call :: call where
  "idle_call = \<lparr>cl_ctxErr = None, cl_killed = True, cl_write = (\<lambda>_. None), cl_meanwhile = (\<lambda>c. c), cl_cancelled = Some (Errorf ''context canceled'' [])\<rparr>"


text \<open>
  C8: A client and a plugin understand each other. A handshake with a served plugin gives the client the name, the version and the
  protocol of the plugin and the definitions of its units, and a validate call fails exactly if the
  unit's own validation does, with its error; neither leaves a request registered.
\<close>

theorem client_calls_reach_plugin:
  assumes "hc_reach c" and "\<not> hc_closed c" and "pl_write p = pipe_write" and "pl_manifest p = ManifestFromUnits name version units"
  shows "(\<exists>m c'. client_Handshake (smooth_call (plugin_frames p s (handshake_frame (numbered ''handshake'' (hc_nextSeq c + 1))))) c = Some (Inr m, c') \<and>
      pg_Name m = name \<and> pg_Version m = version \<and> pg_Protocol m = ''wkbench.plugin/v1'' \<and>
      map PluginUnit_Definition (pg_Units m) = map fst units \<and> map pu_Background (pg_Units m) = map snd units \<and>
      fmlookup (hc_waiters c') (numbered ''handshake'' (hc_nextSeq c + 1)) = None) \<and>
    (\<forall>spec u. decodeSpecMap (pl_unmarshal p) (uq_SpecJSON req) = Inr spec \<longrightarrow> fmlookup (pl_units p spec) (uq_Kind req) = Some u \<longrightarrow>
      (\<exists>c'. client_Validate req (smooth_call (plugin_frames p s (validate_frame req (numbered ''validate'' (hc_nextSeq c + 1))))) c =
        Some (case sv_Validate u (NewTestRunEnv [] (uq_UnitName req) fmempty) of
          None \<Rightarrow> Inr () | Some err \<Rightarrow> Inl (pluginRPCError (Some (''CONFIG_ERROR'', err))), c') \<and>
        fmlookup (hc_waiters c') (numbered ''validate'' (hc_nextSeq c + 1)) = None))"
proof
  let ?rid = "numbered ''handshake'' (hc_nextSeq c + 1)"
  let ?a = "plain_frame ?rid (FHandshakeResponse (Some (manifestToProto (pl_manifest p))) host_protocol)"
  have "fr_RequestId ?a = ?rid" "is_answer (fr_Body ?a)" by (simp_all add: plain_frame_def)
  from client_call_answered [OF assms(1,2) this] obtain c' where
    "client_Handshake (smooth_call [?a]) c = Some (handshake_result ?rid ?a, c')" "fmlookup (hc_waiters c') ?rid = None"
    unfolding client_Handshake_def using \<open>fr_RequestId ?a = ?rid\<close> by metis
  then have r: "client_Handshake (smooth_call (plugin_frames p s (handshake_frame ?rid))) c =
      Some (Inr ((pl_manifest p)\<lparr>pg_Protocol := host_protocol,
        pg_Units := map (\<lambda>u. u\<lparr>pu_PluginName := pg_Name (pl_manifest p)\<rparr>) (pg_Units (pl_manifest p))\<rparr>), c')"
    and w: "fmlookup (hc_waiters c') ?rid = None"
    by (simp_all only: handshake_frames [OF assms(3)] handshake_answer)
  show "\<exists>m c'. client_Handshake (smooth_call (plugin_frames p s (handshake_frame ?rid))) c = Some (Inr m, c') \<and>
      pg_Name m = name \<and> pg_Version m = version \<and> pg_Protocol m = ''wkbench.plugin/v1'' \<and>
      map PluginUnit_Definition (pg_Units m) = map fst units \<and> map pu_Background (pg_Units m) = map snd units \<and>
      fmlookup (hc_waiters c') ?rid = None"
    by (rule exI, rule exI, rule conjI, rule r)
      (use w in \<open>simp add: assms(4) ManifestFromUnits_def host_protocol_def comp_def
        PluginUnit_Definition_def unit_to_manifest_def split_beta\<close>)
next
  let ?rid = "numbered ''validate'' (hc_nextSeq c + 1)"
  show "\<forall>spec u. decodeSpecMap (pl_unmarshal p) (uq_SpecJSON req) = Inr spec \<longrightarrow> fmlookup (pl_units p spec) (uq_Kind req) = Some u \<longrightarrow>
      (\<exists>c'. client_Validate req (smooth_call (plugin_frames p s (validate_frame req ?rid))) c =
        Some (case sv_Validate u (NewTestRunEnv [] (uq_UnitName req) fmempty) of
          None \<Rightarrow> Inr () | Some err \<Rightarrow> Inl (pluginRPCError (Some (''CONFIG_ERROR'', err))), c') \<and>
        fmlookup (hc_waiters c') ?rid = None)"
  proof (intro allI impI)
    fix spec u
    assume u: "decodeSpecMap (pl_unmarshal p) (uq_SpecJSON req) = Inr spec" "fmlookup (pl_units p spec) (uq_Kind req) = Some u"
    let ?v = "sv_Validate u (NewTestRunEnv [] (uq_UnitName req) fmempty)"
    let ?a = "plain_frame ?rid (case ?v of None \<Rightarrow> FValidateResponse | Some err \<Rightarrow> FError ''CONFIG_ERROR'' err)"
    have a: "fr_RequestId ?a = ?rid" "is_answer (fr_Body ?a)" by (simp_all add: plain_frame_def split: option.split)
    from client_call_answered [OF assms(1,2) this] obtain c' where
      "client_Validate req (smooth_call [?a]) c = Some (as_result (validate_result ?rid ?a), c')" "fmlookup (hc_waiters c') ?rid = None"
      unfolding client_Validate_def using a(1) by metis
    moreover have "as_result (validate_result ?rid ?a) =
        (case ?v of None \<Rightarrow> Inr () | Some err \<Rightarrow> Inl (pluginRPCError (Some (''CONFIG_ERROR'', err))))"
      by (simp add: validate_result_def plain_frame_def as_result_def split: option.split)
    ultimately show "\<exists>c'. client_Validate req (smooth_call (plugin_frames p s (validate_frame req ?rid))) c =
        Some (case ?v of None \<Rightarrow> Inr () | Some err \<Rightarrow> Inl (pluginRPCError (Some (''CONFIG_ERROR'', err))), c') \<and>
        fmlookup (hc_waiters c') ?rid = None"
      by (simp add: validate_frames [OF assms(3) u])
  qed
qed

theorem client_calls_reach_plugin_witness:
  "\<exists>m c'. client_Handshake (smooth_call (plugin_frames sample_served new_taskServer (handshake_frame (numbered ''handshake'' 1)))) new_client = Some (Inr m, c') \<and>
     map PluginUnit_Definition (pg_Units m) = [sample_served_def]"
proof -
  have "\<not> hc_closed new_client" "hc_nextSeq new_client = 0" by (simp_all add: new_client_def)
  moreover have "pl_write sample_served = pipe_write" "pl_manifest sample_served = ManifestFromUnits ''demo'' ''1'' [(sample_served_def, False)]"
    by (simp_all add: sample_served_def)
  ultimately show ?thesis
    using client_calls_reach_plugin [OF hc_reach.New, of sample_served "''demo''" "''1''" "[(sample_served_def, False)]" new_taskServer] by fastforce
qed

end
