(* ===== verification/Host_Close.thy ===== *)
theory Host_Close
  imports Call_Facts
begin

text \<open>
  The end of a plugin process: \<open>Close\<close>, \<open>close\<close>, \<open>shutdown\<close> and \<open>startWait\<close> of \<open>StdioClient\<close>
  (\<open>benchkit/pluginhost/stdio_client.go\<close>). The process and the clock decide how it ends; a
  \<open>processEnd\<close> says what they do.
\<close>

section \<open>Closing\<close>

text \<open>
  \<open>pe_exit\<close> is what \<open>Wait\<close> returns within two seconds, \<open>None\<close> if the process is still running then;
  \<open>pe_killable\<close> tells whether \<open>Kill\<close> succeeds and \<open>pe_afterKill\<close> what \<open>Wait\<close> then returns;
  \<open>pe_pumpEnds\<close> tells whether the read loop ends within half a second.
\<close>

record processEnd =
  pe_exit :: "goerr option option"
  pe_killable :: bool
  pe_afterKill :: "goerr option"
  pe_pumpEnds :: bool

definition await_pump :: "processEnd \<Rightarrow> hostClient \<Rightarrow> goerr option" where
  "await_pump pe c =
     (if pe_pumpEnds pe \<or> hc_killed c then None
      else Some (Errorf ''read pump did not exit after plugin process exit'' []))"

definition client_close :: "processEnd \<Rightarrow> hostClient \<Rightarrow> goerr option \<times> hostClient" where
  "client_close pe c =
     (let c = shutdown False False c
      in case pe_exit pe of
        Some err \<Rightarrow>
          (case err of
             Some e \<Rightarrow> if hc_killed c then (await_pump pe c, c) else (Some (Errorf ''wait plugin: %w'' [ArgE e]), c)
           | None \<Rightarrow> (await_pump pe c, c))
      | None \<Rightarrow>
          (let c = shutdown True (pe_killable pe) c
           in case pe_afterKill pe of
             Some e \<Rightarrow> if hc_killed c then (await_pump pe c, c)
               else (Some (Errorf ''plugin did not exit after stdin close: %w'' [ArgE e]), c)
           | None \<Rightarrow> (await_pump pe c, c)))"

text \<open>\<open>closeOnce\<close> and \<open>closeErr\<close>: the outcome of the first \<open>close\<close>, if there was one.\<close>

definition client_Close :: "processEnd \<Rightarrow> goerr option option \<times> hostClient \<Rightarrow> goerr option \<times> goerr option option \<times> hostClient" where
  "client_Close pe s =
     (case s of
        (Some closeErr, c) \<Rightarrow> (closeErr, s)
      | (None, c) \<Rightarrow> (case client_close pe c of (err, c) \<Rightarrow> (err, Some err, c)))"

interpretation host_close: once_closer client_Close "\<lambda>(closeErr, c). closeErr \<noteq> None"
  by unfold_locales (auto simp: client_Close_def split: option.splits prod.splits)

lemma client_close_closed: "hc_closed (snd (client_close pe c))"
  by (simp add: client_close_def Let_def shutdown_def split: option.split)

lemma client_close_reach: "hc_reach c \<Longrightarrow> hc_reach (snd (client_close pe c))"
  by (auto simp: client_close_def Let_def intro!: hc_reach.Next [OF _ hc_step.Shutdown] split: option.split)

lemma client_close_clean:
  "fst (client_close pe c) = None \<longleftrightarrow> hc_killed (snd (client_close pe c)) \<or>
     pe_pumpEnds pe \<and> (case pe_exit pe of Some err \<Rightarrow> err = None | None \<Rightarrow> pe_afterKill pe = None)"
  by (auto simp: client_close_def await_pump_def Let_def split: option.splits)

section \<open>Calls to a closed client\<close>

lemma begin_request_closed [simp]: "hc_closed (snd (begin_request op c)) = hc_closed c"
  by (simp add: begin_request_frame)

lemma begin_request_closedD: "begin_request op c = (x, c1) \<Longrightarrow> hc_closed c1 = hc_closed c"
  using begin_request_closed [of op c] by simp

lemma closed_client_call:
  assumes "hc_closed c"
  shows "\<exists>e c'. client_call op writeErr frame answer cl c = Some (Inl e, c')"
proof -
  obtain ri c1 where b: "begin_request op c = (ri, c1)" by (meson surj_pair)
  have "hc_closed c1" using begin_request_closedD [OF b] assms by simp
  then show ?thesis
    by (cases ri) (simp add: client_call_def b client_writeFrame_def split: option.split)
qed

lemma closed_client_Start:
  assumes "hc_closed c"
  shows "\<exists>e c'. client_Start marshal names req cl rounds c = Some (Inl e, c')"
proof -
  obtain rid i task c1 where b: "begin_start (uq_RunID req) (uq_UnitName req) c = ((rid, i, task), c1)"
    by (metis prod_cases4 surj_pair)
  have "hc_closed c1"
    using b assms
    by (auto simp: begin_start_def Let_def registerBackgroundTask_def split: prod.splits dest!: begin_request_closedD)
  then show ?thesis
    by (simp add: client_Start_def b client_writeFrame_def split: option.split sum.split)
qed

text \<open>
  C10: Closing a plugin. \<open>Close\<close> succeeds exactly if the process had to be killed, or was left to end by itself without an error and the read loop
  ended too. Closing again repeats the answer and changes nothing. A closed client is closed for good: every
  later handshake, validate, plan or start call returns an error, and none waits for an answer.
\<close>

theorem closed_client_refuses:
  assumes "hc_reach c" and "client_Close pe (None, c) = (err, once, c')"
  shows "hc_reach c' \<and> hc_closed c' \<and>
    (err = None \<longleftrightarrow> hc_killed c' \<or> pe_pumpEnds pe \<and> (case pe_exit pe of Some e \<Rightarrow> e = None | None \<Rightarrow> pe_afterKill pe = None)) \<and>
    (\<forall>pe'. client_Close pe' (once, c') = (err, once, c')) \<and>
    (\<forall>cl. \<exists>e c2. client_Handshake cl c' = Some (Inl e, c2)) \<and>
    (\<forall>cl req. \<exists>e c2. client_Validate req cl c' = Some (Inl e, c2)) \<and>
    (\<forall>cl unmarshal req. \<exists>e c2. client_Plan unmarshal req cl c' = Some (Inl e, c2)) \<and>
    (\<forall>cl marshal names req rounds. \<exists>e c2. client_Start marshal names req cl rounds c' = Some (Inl e, c2))"
proof -
  have r: "client_close pe c = (err, c')" "once = Some err"
    using assms(2) by (auto simp: client_Close_def split: prod.splits)
  have "hc_closed c'" using client_close_closed [of pe c] r by simp
  with client_close_reach [OF assms(1), of pe] client_close_clean [of pe c] r show ?thesis
    by (auto simp: client_Close_def client_Handshake_def client_Validate_def client_Plan_def
        intro: closed_client_call closed_client_Start)
qed

theorem closed_client_refuses_witness:
  "fst (client_Close \<lparr>pe_exit = None, pe_killable = False, pe_afterKill = None, pe_pumpEnds = False\<rparr> (None, new_client)) \<noteq> None"
proof -
  let ?pe = "\<lparr>pe_exit = None, pe_killable = False, pe_afterKill = None, pe_pumpEnds = False\<rparr>"
  obtain err once c' where r: "client_Close ?pe (None, new_client) = (err, once, c')" by (metis prod_cases3)
  have "\<not> hc_killed c'"
    using r by (auto simp: client_Close_def client_close_def shutdown_def new_client_def Let_def)
  with closed_client_refuses [OF hc_reach.New r] show ?thesis by (auto simp: r)
qed

end
