(* ===== verification/File_Paths.thy ===== *)
theory File_Paths
  imports Go_Paths
begin

text \<open>
  More of \<open>path/filepath\<close> on Unix: \<open>IsAbs\<close>, \<open>Dir\<close>, \<open>Base\<close> and \<open>Rel\<close>, and how they relate to
  \<open>Clean\<close> and \<open>Join\<close> on absolute paths.
\<close>

section \<open>Operations\<close>

definition path_IsAbs :: "string \<Rightarrow> bool" where
  "path_IsAbs p = prefix ''/'' p"

definition path_Dir :: "string \<Rightarrow> string" where
  "path_Dir p = path_Clean (rev (dropWhile (\<lambda>c. c \<noteq> CHR ''/'') (rev p)))"

definition path_Base :: "string \<Rightarrow> string" where
  "path_Base p =
     (if p = [] then ''.''
      else let q = TrimRightByte p (CHR ''/'');
               b = rev (takeWhile (\<lambda>c. c \<noteq> CHR ''/'') (rev q))
           in if b = [] then ''/'' else b)"

text \<open>The elements of a cleaned path; \<open>.\<close> has none.\<close>

definition path_elems :: "string \<Rightarrow> string list" where
  "path_elems p = filter (\<lambda>e. e \<noteq> [] \<and> e \<noteq> ''.'') (Split p (CHR ''/''))"

fun drop_common :: "'a list \<Rightarrow> 'a list \<Rightarrow> 'a list \<times> 'a list" where
  "drop_common (x # xs) (y # ys) = (if x = y then drop_common xs ys else (x # xs, y # ys))"
| "drop_common xs ys = (xs, ys)"

definition path_Rel :: "string \<Rightarrow> string \<Rightarrow> string result" where
  "path_Rel basepath targpath =
     (let base = path_Clean basepath; targ = path_Clean targpath;
          err = Inl (Errorf ''Rel: can't make %s relative to %s'' [ArgS targpath, ArgS basepath])
      in if targ = base then Inr ''.''
         else if path_IsAbs base \<noteq> path_IsAbs targ then err
         else (case drop_common (path_elems base) (path_elems targ) of (b, t) \<Rightarrow>
           if b \<noteq> [] \<and> hd b = ''..'' then err
           else Inr (strings_Join (replicate (length b) ''..'' @ t) ''/'')))"

text \<open>\<open>Abs\<close> of a path, given the working directory.\<close>

definition path_Abs :: "string \<Rightarrow> string \<Rightarrow> string" where
  "path_Abs cwd p = (if path_IsAbs p then path_Clean p else path_Join [cwd, p])"

section \<open>Absolute paths as lists of segments\<close>

definition abs_path :: "string list \<Rightarrow> string" where
  "abs_path ss = CHR ''/'' # strings_Join ss ''/''"

lemma Split_strings_Join:
  assumes "\<forall>s\<in>set ss. CHR ''/'' \<notin> set s"
  shows "Split (strings_Join ss ''/'') (CHR ''/'') = (if ss = [] then [[]] else ss)"
  using Split_Join_segments [of ss "CHR ''/''"] assms by simp

lemma simple_no_slash: "simple_segment s \<Longrightarrow> CHR ''/'' \<notin> set s"
  by (simp add: simple_segment_def)

lemma Split_cons_sep: "Split (c # s) c = [] # Split s c"
  by simp

lemma clean_elems_simple:
  assumes "\<forall>s\<in>set st. simple_segment s" and "\<forall>e\<in>set es. CHR ''/'' \<notin> set e"
  shows "\<forall>s\<in>set (foldl (clean_step True) st es). simple_segment s"
  using assms
proof (induction es arbitrary: st)
  case (Cons e es)
  have "\<forall>s\<in>set (clean_step True st e). simple_segment s"
    using Cons.prems by (auto simp: clean_step_def simple_segment_def dest: list.set_sel(2))
  with Cons show ?case by simp
qed simp

lemma Clean_cons:
  "path_Clean (CHR ''/'' # p) = abs_path (rev (foldl (clean_step True) [] (Split p (CHR ''/''))))"
  by (simp add: path_Clean_def abs_path_def Let_def clean_step_def)

lemma Clean_rooted: "\<exists>ss. path_Clean (CHR ''/'' # p) = abs_path ss \<and> (\<forall>s\<in>set ss. simple_segment s)"
proof (intro exI conjI)
  show "path_Clean (CHR ''/'' # p) = abs_path (rev (foldl (clean_step True) [] (Split p (CHR ''/''))))" by (rule Clean_cons)
  show "\<forall>s\<in>set (rev (foldl (clean_step True) [] (Split p (CHR ''/'')))). simple_segment s"
    using clean_elems_simple [of "[]" "Split p (CHR ''/'')"] by (auto dest: Split_no_sep_parts)
qed

lemma Clean_abs_path:
  assumes "\<forall>s\<in>set ss. simple_segment s"
  shows "path_Clean (abs_path ss) = abs_path ss"
  using assms clean_simple [of ss True "[]"]
  by (auto simp: abs_path_def [of ss] Clean_cons Split_strings_Join simple_no_slash) (simp_all add: abs_path_def clean_step_def)

lemma Clean_absolute: "path_IsAbs p \<Longrightarrow> \<exists>ss. path_Clean p = abs_path ss \<and> (\<forall>s\<in>set ss. simple_segment s)"
  using Clean_rooted by (cases p) (auto simp: path_IsAbs_def)

lemma Split_Join_append:
  "ss \<noteq> [] \<Longrightarrow> \<forall>s\<in>set ss. CHR ''/'' \<notin> set s \<Longrightarrow>
     Split (strings_Join ss ''/'' @ CHR ''/'' # q) (CHR ''/'') = ss @ Split q (CHR ''/'')"
proof (induction ss)
  case (Cons s ss)
  then show ?case by (cases ss) (simp_all add: Split_append)
qed simp

lemma clean_from:
  assumes "\<forall>s\<in>set D. simple_segment s"
  shows "path_Clean (abs_path D @ CHR ''/'' # rel) = abs_path (rev (foldl (clean_step True) (rev D) (Split rel (CHR ''/''))))"
proof (cases "D = []")
  case True
  then show ?thesis by (simp add: abs_path_def [of "[]"] Clean_cons clean_step_def)
next
  case False
  then have "Split (strings_Join D ''/'' @ CHR ''/'' # rel) (CHR ''/'') = D @ Split rel (CHR ''/'')"
    using assms by (simp add: Split_Join_append simple_no_slash)
  then show ?thesis
    using clean_simple [of D True "[]"] assms by (simp add: abs_path_def [of D] Clean_cons)
qed

lemma Join_abs_path:
  assumes "\<forall>s\<in>set D. simple_segment s"
  shows "path_Join [abs_path D, rel] = abs_path (rev (foldl (clean_step True) (rev D) (Split rel (CHR ''/''))))"
  using clean_from [OF assms, of rel] by (simp add: path_Join_def abs_path_def)

lemma Dir_abs_path:
  assumes "\<forall>s\<in>set ss. simple_segment s"
  shows "path_Dir (abs_path ss) = abs_path (butlast ss)"
proof (cases ss rule: rev_cases)
  case Nil
  then show ?thesis by (simp add: path_Dir_def abs_path_def Clean_cons clean_step_def)
next
  case (snoc xs x)
  have x: "dropWhile (\<lambda>c. c \<noteq> CHR ''/'') (rev x @ CHR ''/'' # q) = CHR ''/'' # q" for q
    using assms snoc simple_no_slash [of x] by (induction "rev x" rule: list.induct) (auto simp: dropWhile_append)
  have join: "abs_path (xs @ [x]) = (if xs = [] then [] else abs_path xs) @ CHR ''/'' # x"
  proof -
    have "xs \<noteq> [] \<Longrightarrow> strings_Join (xs @ [x]) ''/'' = strings_Join xs ''/'' @ CHR ''/'' # x"
    proof (induction xs)
      case (Cons y ys)
      then show ?case by (cases ys) simp_all
    qed simp
    then show ?thesis by (simp add: abs_path_def)
  qed
  have "path_Dir (abs_path ss) = path_Clean ((if xs = [] then [] else abs_path xs) @ ''/'')"
    by (simp add: path_Dir_def snoc join x)
  also have "\<dots> = abs_path xs"
  proof (cases "xs = []")
    case True
    then show ?thesis by (simp add: Clean_cons clean_step_def)
  next
    case False
    then show ?thesis
      using clean_from [of xs "[]"] assms snoc by (simp add: clean_step_def)
  qed
  finally show ?thesis by (simp add: snoc)
qed

section \<open>Relative paths lead back\<close>

lemma drop_common_split: "drop_common xs ys = (b, t) \<Longrightarrow> \<exists>c. xs = c @ b \<and> ys = c @ t"
proof (induction xs ys arbitrary: b t rule: drop_common.induct)
  case (1 x xs y ys)
  show ?case
  proof (cases "x = y")
    case True
    with 1 obtain c where "xs = c @ b" "ys = c @ t" by auto
    with True show ?thesis by (intro exI [of _ "x # c"]) simp
  qed (use 1 in auto)
qed auto

lemma elems_abs_path: "\<forall>s\<in>set ss. simple_segment s \<Longrightarrow> path_elems (abs_path ss) = ss"
  by (auto simp: path_elems_def abs_path_def Split_strings_Join simple_no_slash simple_segment_def intro: filter_True)

lemma clean_ups: "foldl (clean_step True) (rev b @ st) (replicate (length b) ''..'') = st"
  if "\<forall>s\<in>set b. simple_segment s"
  using that
proof (induction b arbitrary: st rule: rev_induct)
  case (snoc x b)
  then show ?case by (simp add: clean_step_def simple_segment_def)
qed simp

lemma clean_relative:
  assumes "\<forall>s\<in>set t. simple_segment s"
  shows "foldl (clean_step False) [] (replicate n ''..'' @ t) = rev (replicate n ''..'' @ t)"
proof -
  have up: "clean_step False (replicate k ''..'') ''..'' = replicate (Suc k) ''..''" for k
    by (cases k) (simp_all add: clean_step_def)
  have "foldl (clean_step False) (replicate k ''..'') (replicate n ''..'') = replicate (k + n) ''..''" for k
  proof (induction n arbitrary: k)
    case (Suc n)
    have "foldl (clean_step False) (replicate k ''..'') (replicate (Suc n) ''..'') =
        foldl (clean_step False) (clean_step False (replicate k ''..'') ''..'') (replicate n ''..'')" by simp
    with Suc [of "Suc k"] show ?case unfolding up by simp
  qed simp
  from this [of 0] show ?thesis using clean_simple [OF assms, of False "replicate n ''..''"] by simp
qed

lemma Rel_leads_back:
  assumes D: "\<forall>s\<in>set D. simple_segment s" and T: "\<forall>s\<in>set T. simple_segment s"
  shows "\<exists>rel. path_Rel (abs_path D) (abs_path T) = Inr rel \<and> \<not> path_IsAbs rel \<and> path_Clean rel = rel \<and>
    path_Join [abs_path D, rel] = abs_path T"
proof (cases "D = T")
  case True
  have "path_Clean ''.'' = ''.''" by (simp add: path_Clean_def clean_step_def Let_def)
  with True D show ?thesis
    by (intro exI [of _ "''.''"]) (simp add: path_Rel_def Clean_abs_path path_IsAbs_def Join_abs_path clean_step_def)
next
  case False
  obtain b t where bt: "drop_common D T = (b, t)" by (meson surj_pair)
  from drop_common_split [OF this] obtain c where c: "D = c @ b" "T = c @ t" by blast
  let ?es = "replicate (length b) ''..'' @ t"
  let ?rel = "strings_Join ?es ''/''"
  have ne: "?es \<noteq> []" using False c by auto
  have no: "\<forall>e\<in>set ?es. CHR ''/'' \<notin> set e" using T c by (auto simp: simple_no_slash)
  have sp: "Split ?rel (CHR ''/'') = ?es" using ne no by (simp add: Split_strings_Join del: append_is_Nil_conv)
  have hd_dots: "b \<noteq> [] \<Longrightarrow> hd b \<noteq> ''..''" using D c by (cases b) (auto simp: simple_segment_def)
  have neq: "abs_path T \<noteq> abs_path D" using elems_abs_path [OF D] elems_abs_path [OF T] False by metis
  have 1: "path_Rel (abs_path D) (abs_path T) = Inr ?rel"
  proof -
    have "path_IsAbs (abs_path ss)" for ss by (simp add: abs_path_def path_IsAbs_def)
    moreover have "b = [] \<or> hd b \<noteq> ''..''" using hd_dots by blast
    ultimately show ?thesis using neq D T by (simp add: path_Rel_def Clean_abs_path elems_abs_path bt Let_def)
  qed
  have hd_rel: "?rel \<noteq> [] \<and> hd ?rel \<noteq> CHR ''/''"
  proof -
    obtain e es where e: "?es = e # es" using ne by (cases ?es) auto
    have "e \<noteq> []" using e T c by (cases b) (auto simp: simple_segment_def)
    moreover have "CHR ''/'' \<notin> set e" using no e by simp
    ultimately have "e \<noteq> [] \<and> hd e \<noteq> CHR ''/''" by (cases e) auto
    then show ?thesis unfolding e by (cases es) auto
  qed
  then have 2: "\<not> path_IsAbs ?rel" by (cases ?rel) (auto simp: path_IsAbs_def)
  have 3: "path_Clean ?rel = ?rel"
    using 2 ne T c unfolding path_Clean_def Let_def sp path_IsAbs_def by (simp add: clean_relative del: foldl_append)
  have 4: "path_Join [abs_path D, ?rel] = abs_path T"
    unfolding Join_abs_path [OF D] sp using clean_ups [of b "rev c"] clean_simple [of t True "rev c"] D T c by simp
  from 1 2 3 4 show ?thesis by blast
qed

section \<open>The parent of a path is shorter\<close>

lemma length_Join: "length (strings_Join ss [c]) = sum_list (map length ss) + (length ss - 1)"
proof (induction ss)
  case (Cons s ss)
  then show ?case by (cases ss) simp_all
qed simp

lemma subseq_sum: "subseq xs ys \<Longrightarrow> sum_list (map length xs) \<le> sum_list (map length ys)"
  by (induction rule: list_emb.induct) auto

lemma subseq_Join: "subseq xs ys \<Longrightarrow> length (strings_Join xs [c]) \<le> length (strings_Join ys [c])"
  using subseq_sum [of xs ys] list_emb_length [of "(=)" xs ys] by (simp add: length_Join)

lemma clean_subseq: "subseq (rev st) xs \<Longrightarrow> subseq (rev (foldl (clean_step r) st es)) (xs @ es)"
proof (induction es arbitrary: st xs)
  case (Cons e es)
  have "subseq (rev (clean_step r st e)) (xs @ [e])"
  proof -
    have "subseq (rev (tl st)) (rev st)" by (cases st) auto
    with Cons.prems have "subseq (rev (tl st)) xs" by (metis subseq_order.trans)
    with Cons.prems show ?thesis
      by (auto simp: clean_step_def intro: list_emb_append_mono subseq_rev_drop_many subseq_drop_many list_emb_append2)
  qed
  from Cons.IH [OF this] show ?case by simp
qed simp

lemma Split_snoc_sep: "Split (q @ [c]) c = Split q c @ [[]]"
  by (induction q) (auto split: list.splits)

lemma Clean_slash_shorter: "path_Clean (q @ ''/'') = ''/'' \<or> length (path_Clean (q @ ''/'')) \<le> length q"
proof (cases q)
  case Nil
  then show ?thesis by (simp add: Clean_cons clean_step_def abs_path_def)
next
  case (Cons a r)
  have sub: "length (strings_Join (rev (foldl (clean_step b) [] (Split x (CHR ''/'')))) ''/'') \<le> length x" for b x
    using subseq_Join [OF clean_subseq [of "[]" "[]" b "Split x (CHR ''/'')"], of "CHR ''/''"] by (simp add: Join_Split)
  show ?thesis
  proof (cases "a = CHR ''/''")
    case True
    with Cons sub [of True r] show ?thesis
      by (simp add: path_Clean_def Let_def Split_snoc_sep clean_step_def)
  next
    case False
    let ?es = "rev (foldl (clean_step False) [] (Split q (CHR ''/'')))"
    from False Cons have "\<not> prefix ''/'' (q @ ''/'')" by simp
    then have "path_Clean (q @ ''/'') = (if ?es = [] then ''.'' else strings_Join ?es ''/'')"
      unfolding path_Clean_def Let_def Split_snoc_sep by (simp add: clean_step_def)
    with sub [of False q] Cons show ?thesis by auto
  qed
qed

lemma clean_nonempty: "\<forall>s\<in>set st. s \<noteq> [] \<Longrightarrow> \<forall>s\<in>set (foldl (clean_step r) st es). s \<noteq> []"
proof (induction es arbitrary: st)
  case (Cons e es)
  have "\<forall>s\<in>set (clean_step r st e). s \<noteq> []"
    using Cons.prems by (auto simp: clean_step_def dest: list.set_sel(2))
  with Cons.IH show ?case by simp
qed simp

lemma Clean_nonempty [simp]: "path_Clean p \<noteq> []"
proof -
  have "ss \<noteq> [] \<Longrightarrow> \<forall>s\<in>set ss. s \<noteq> [] \<Longrightarrow> strings_Join ss ''/'' \<noteq> []" for ss
  proof (induction ss)
    case (Cons x xs)
    then show ?case by (cases xs) auto
  qed simp
  note join = this
  have "\<forall>s\<in>set (rev (foldl (clean_step r) [] (Split p (CHR ''/'')))). s \<noteq> []" for r
    using clean_nonempty [of "[]" r] by simp
  from join [OF _ this] show ?thesis by (simp add: path_Clean_def Let_def)
qed

definition path_rank :: "string \<Rightarrow> nat" where
  "path_rank d = (if d = [] then 3 else if d = ''.'' then 2 else 2 * length d + 1)"

lemma Dir_shorter: "path_Dir d \<noteq> d \<Longrightarrow> path_rank (path_Dir d) < path_rank d"
proof -
  assume ne: "path_Dir d \<noteq> d"
  let ?r = "dropWhile (\<lambda>c. c \<noteq> CHR ''/'') (rev d)"
  have dir: "path_Dir d = path_Clean (rev ?r)" by (simp add: path_Dir_def)
  have len: "length ?r \<le> length d" using length_dropWhile_le [of _ "rev d"] by simp
  show ?thesis
  proof (cases ?r)
    case Nil
    then have "path_Dir d = path_Clean []" by (simp only: dir rev.simps)
    then have "path_Dir d = ''.''" by (simp add: path_Clean_def clean_step_def)
    with ne show ?thesis by (cases d) (auto simp: path_rank_def)
  next
    case (Cons c q)
    then have "c = CHR ''/''" by (metis (mono_tags, lifting) dropWhile_eq_Cons_conv)
    with Cons have r: "rev ?r = rev q @ ''/''" by simp
    have d: "d \<noteq> []" "d \<noteq> ''.''" using Cons by auto
    from Clean_slash_shorter [of "rev q"] consider "path_Dir d = ''/''" | "length (path_Dir d) \<le> length q"
      unfolding dir r by auto
    then show ?thesis
    proof cases
      case 1
      have "length d \<noteq> 1"
      proof
        assume "length d = 1"
        then obtain x where "d = [x]" by (cases d) auto
        with Cons \<open>c = CHR ''/''\<close> ne 1 show False by (auto split: if_splits)
      qed
      moreover have "length d \<noteq> 0" using d by simp
      ultimately have "1 < length d" by linarith
      with 1 d show ?thesis by (simp add: path_rank_def)
    next
      case 2
      have "length q < length d" using len Cons by simp
      with 2 d dir show ?thesis by (auto simp: path_rank_def)
    qed
  qed
qed

section \<open>Cleaning a relative path first makes no difference\<close>

definition plain_elem :: "string \<Rightarrow> bool" where
  "plain_elem e \<longleftrightarrow> e \<noteq> [] \<and> e \<noteq> ''.'' \<and> CHR ''/'' \<notin> set e"

lemma clean_step_later:
  assumes "\<forall>s\<in>set st. plain_elem s"
  shows "foldl (clean_step True) D (rev (clean_step False st e)) = clean_step True (foldl (clean_step True) D (rev st)) e"
proof (cases "e = ''..'' \<and> st \<noteq> [] \<and> hd st \<noteq> ''..''")
  case True
  then obtain x st' where "st = x # st'" "x \<noteq> ''..''" by (cases st) auto
  with True assms show ?thesis by (simp add: clean_step_def plain_elem_def)
next
  case False
  then show ?thesis by (auto simp: clean_step_def)
qed

lemma clean_plain:
  "\<forall>s\<in>set st. plain_elem s \<Longrightarrow> \<forall>e\<in>set es. CHR ''/'' \<notin> set e \<Longrightarrow> \<forall>s\<in>set (foldl (clean_step False) st es). plain_elem s"
proof (induction es arbitrary: st)
  case (Cons e es)
  have "\<forall>s\<in>set (clean_step False st e). plain_elem s"
    using Cons.prems by (auto simp: clean_step_def plain_elem_def dest: list.set_sel(2))
  with Cons show ?case by simp
qed simp

lemma clean_twice:
  "\<forall>s\<in>set st. plain_elem s \<Longrightarrow> \<forall>e\<in>set es. CHR ''/'' \<notin> set e \<Longrightarrow>
     foldl (clean_step True) D (rev (foldl (clean_step False) st es)) = foldl (clean_step True) D (rev st @ es)"
proof (induction es arbitrary: st)
  case (Cons e es)
  have "\<forall>s\<in>set (clean_step False st e). plain_elem s"
    using clean_plain [of st "[e]"] Cons.prems by simp
  with Cons show ?case using clean_step_later [of st D e] by simp
qed simp

lemma Clean_relative:
  assumes "\<not> path_IsAbs p" and "\<forall>s\<in>set D. simple_segment s"
  shows "path_Join [abs_path D, path_Clean p] = path_Join [abs_path D, p]" "\<not> path_IsAbs (path_Clean p)"
proof -
  let ?st = "foldl (clean_step False) [] (Split p (CHR ''/''))"
  have no: "\<forall>e\<in>set (Split p (CHR ''/'')). CHR ''/'' \<notin> set e" by (auto dest: Split_no_sep_parts)
  have plain: "\<forall>s\<in>set ?st. plain_elem s" using clean_plain [OF _ no, of "[]"] by simp
  have c: "path_Clean p = (if ?st = [] then ''.'' else strings_Join (rev ?st) ''/'')"
    using assms(1) by (auto simp: path_Clean_def path_IsAbs_def Let_def)
  have "foldl (clean_step True) (rev D) (Split (path_Clean p) (CHR ''/'')) = foldl (clean_step True) (rev D) (rev ?st)"
    using plain by (auto simp: c Split_strings_Join plain_elem_def clean_step_def)
  then show "path_Join [abs_path D, path_Clean p] = path_Join [abs_path D, p]"
    using clean_twice [OF _ no, of "[]" "rev D"] by (simp add: Join_abs_path [OF assms(2)])
  have "\<not> prefix ''/'' (strings_Join ss ''/'')" if "ss \<noteq> []" "\<forall>s\<in>set ss. plain_elem s" for ss
  proof (cases ss)
    case (Cons a as)
    with that obtain x a' where "a = x # a'" "x \<noteq> CHR ''/''" by (cases a) (auto simp: plain_elem_def)
    with Cons show ?thesis by (cases as) auto
  qed (use that in simp)
  from this [of "rev ?st"] plain show "\<not> path_IsAbs (path_Clean p)"
    by (simp add: c path_IsAbs_def)
qed

end
