(* ===== verification/Go_Flags.thy ===== *)
theory Go_Flags
  imports Go_Strings
begin

text \<open>
  The Go packages \<open>flag\<close> and \<open>fmt\<close> as the command line uses them: \<open>FlagSet.Parse\<close> with its
  rules for values, booleans and the terminator, and what is printed, kept as format and arguments.
\<close>

section \<open>What is printed\<close>

text \<open>\<open>Usage\<close> is the default usage text of a flag set, which \<open>flag\<close> makes of its definitions.\<close>

datatype printed =
    Printf string "goarg list"
  | PrintErr goerr
  | Usage string

section \<open>Flag sets\<close>

datatype 's flagSpec =
    BoolFlag "string \<Rightarrow> 's \<Rightarrow> 's result"
  | ValueFlag "string \<Rightarrow> 's \<Rightarrow> 's result"

definition ErrHelp :: goerr where
  "ErrHelp = Errorf ''flag: help requested'' []"

definition flag_name :: "string \<Rightarrow> string" where
  "flag_name a = (if a ! 1 = CHR ''-'' then drop 2 a else tl a)"

fun flag_Parse :: "(string \<Rightarrow> 's flagSpec option) \<Rightarrow> string list \<Rightarrow> 's \<Rightarrow> ('s \<times> string list) result" where
  "flag_Parse formal [] s = Inr (s, [])"
| "flag_Parse formal (a # rest) s =
     (if length a < 2 \<or> hd a \<noteq> CHR ''-'' then Inr (s, a # rest)
      else if a = ''--'' then Inr (s, rest)
      else if flag_name a = [] \<or> hd (flag_name a) \<in> {CHR ''-'', CHR ''=''}
      then Inl (Errorf ''bad flag syntax: %s'' [ArgS a])
      else (case Cut (flag_name a) (CHR ''='') of (name, value, hasValue) \<Rightarrow>
        (case formal name of
           None \<Rightarrow> if name = ''help'' \<or> name = ''h'' then Inl ErrHelp
             else Inl (Errorf ''flag provided but not defined: -%s'' [ArgS name])
         | Some (BoolFlag assign) \<Rightarrow>
             (case assign (if hasValue then value else ''true'') s of
                Inl err \<Rightarrow> Inl (Errorf ''invalid boolean value %q for -%s: %v'' [ArgS value, ArgS name, ArgE err])
              | Inr s' \<Rightarrow> flag_Parse formal rest s')
         | Some (ValueFlag assign) \<Rightarrow>
             (if hasValue
              then (case assign value s of
                Inl err \<Rightarrow> Inl (Errorf ''invalid value %q for flag -%s: %v'' [ArgS value, ArgS name, ArgE err])
              | Inr s' \<Rightarrow> flag_Parse formal rest s')
              else (case rest of
                [] \<Rightarrow> Inl (Errorf ''flag needs an argument: -%s'' [ArgS name])
              | v # rest' \<Rightarrow>
                  (case assign v s of
                     Inl err \<Rightarrow> Inl (Errorf ''invalid value %q for flag -%s: %v'' [ArgS v, ArgS name, ArgE err])
                   | Inr s' \<Rightarrow> flag_Parse formal rest' s'))))))"

text \<open>What \<open>Parse\<close> prints before it returns an error.\<close>

definition flag_report :: "string \<Rightarrow> goerr \<Rightarrow> printed list" where
  "flag_report name err = (if err = ErrHelp then [Usage name] else [PrintErr err, Usage name])"

definition ParseBool :: "string \<Rightarrow> bool result" where
  "ParseBool s =
     (if s \<in> {''1'', ''t'', ''T'', ''true'', ''TRUE'', ''True''} then Inr True
      else if s \<in> {''0'', ''f'', ''F'', ''false'', ''FALSE'', ''False''} then Inr False
      else Inl (Errorf ''parse error'' []))"

definition StringVar :: "(string \<Rightarrow> 's \<Rightarrow> 's) \<Rightarrow> 's flagSpec" where
  "StringVar assign = ValueFlag (\<lambda>v s. Inr (assign v s))"

definition BoolVar :: "(bool \<Rightarrow> 's \<Rightarrow> 's) \<Rightarrow> 's flagSpec" where
  "BoolVar assign = BoolFlag (\<lambda>v s. case ParseBool v of Inl err \<Rightarrow> Inl err | Inr b \<Rightarrow> Inr (assign b s))"

section \<open>Facts\<close>

declare flag_Parse.simps(2) [simp del]

definition is_flag :: "string \<Rightarrow> bool" where
  "is_flag a \<longleftrightarrow> 2 \<le> length a \<and> hd a = CHR ''-''"

lemma flag_Parse_target: "\<not> is_flag a \<Longrightarrow> flag_Parse formal (a # rest) s = Inr (s, a # rest)"
  by (auto simp: is_flag_def not_le flag_Parse.simps(2))

lemma flag_Parse_targets: "\<forall>a\<in>set as. \<not> is_flag a \<Longrightarrow> flag_Parse formal as s = Inr (s, as)"
  by (cases as) (simp_all add: flag_Parse_target)

lemma flag_Parse_terminated: "flag_Parse formal (''--'' # rest) s = Inr (s, rest)"
  by (simp add: flag_Parse.simps(2))

end
