(* ===== verification/Plugin_Config.thy ===== *)
theory Plugin_Config
  imports File_Paths Go_Flags
begin

text \<open>
  \<open>cmd/wkbench/plugin_config.go\<close> and the commands of \<open>plugin_commands.go\<close> that edit the configuration:
  the search for \<open>.wkbench/plugins.yaml\<close>, its entries, the paths in it, \<open>plugin add\<close> and \<open>plugin list\<close>.
  The file system and the YAML library are parameters.
\<close>

section \<open>The system and the file\<close>

definition exitOK :: int where "exitOK = 0"
definition exitConfig :: int where "exitConfig = 1"
definition exitRun :: int where "exitRun = 2"
definition exitInternal :: int where "exitInternal = 3"

lemmas exit_codes = exitOK_def exitConfig_def exitRun_def exitInternal_def

text \<open>\<open>os\<close>: reading leaves the world alone, writing changes it. \<open>sys_Stat\<close> returns the error of \<open>os.Stat\<close>.\<close>

record 'w OS =
  sys_Getwd :: "'w \<Rightarrow> string result"
  sys_Stat :: "string \<Rightarrow> 'w \<Rightarrow> goerr option"
  sys_IsNotExist :: "goerr \<Rightarrow> bool"
  sys_ReadFile :: "string \<Rightarrow> 'w \<Rightarrow> string result"
  sys_EvalSymlinks :: "string \<Rightarrow> 'w \<Rightarrow> string result"
  sys_MkdirAll :: "string \<Rightarrow> 'w \<Rightarrow> goerr option \<times> 'w"
  sys_WriteFile :: "string \<Rightarrow> string \<Rightarrow> nat \<Rightarrow> 'w \<Rightarrow> goerr option \<times> 'w"

record pluginConfigEntry =
  ce_Name :: string
  ce_Path :: string
  ce_Enabled :: "bool option"

record pluginConfigFile =
  pf_Version :: string
  pf_Plugins :: "pluginConfigEntry list"

record yamlCodec =
  yc_Marshal :: "pluginConfigFile \<Rightarrow> string result"
  yc_Unmarshal :: "string \<Rightarrow> pluginConfigFile result"

definition pluginConfigVersion :: string where
  "pluginConfigVersion = ''wkbench.plugins/v1''"

definition pluginConfigRelPath :: string where
  "pluginConfigRelPath = ''.wkbench/plugins.yaml''"

definition isEnabled :: "pluginConfigEntry \<Rightarrow> bool" where
  "isEnabled p = (ce_Enabled p = None \<or> ce_Enabled p = Some True)"

section \<open>Finding and reading the configuration\<close>

definition filepath_Abs :: "'w OS \<Rightarrow> string \<Rightarrow> 'w \<Rightarrow> string result" where
  "filepath_Abs sys p w =
     (if path_IsAbs p then Inr (path_Clean p)
      else case sys_Getwd sys w of Inl err \<Rightarrow> Inl err | Inr wd \<Rightarrow> Inr (path_Join [wd, p]))"

definition config_at :: "string \<Rightarrow> string" where
  "config_at dir = path_Join [dir, pluginConfigRelPath]"

text \<open>The loop goes to the parent until that is the directory itself; the parent's rank is smaller.\<close>

function findPluginConfig_from :: "'w OS \<Rightarrow> 'w \<Rightarrow> string \<Rightarrow> string option result" where
  "findPluginConfig_from sys w dir =
     (case sys_Stat sys (config_at dir) w of
        None \<Rightarrow> Inr (Some (config_at dir))
      | Some err \<Rightarrow>
          if \<not> sys_IsNotExist sys err then Inl err
          else if path_Dir dir = dir then Inr None
          else findPluginConfig_from sys w (path_Dir dir))"
  by pat_completeness auto

termination
  by (relation "measure (\<lambda>(sys, w, dir). path_rank dir)") (auto intro: Dir_shorter)

declare findPluginConfig_from.simps [simp del]

definition findPluginConfig :: "'w OS \<Rightarrow> string \<Rightarrow> 'w \<Rightarrow> string option result" where
  "findPluginConfig sys start w =
     (case filepath_Abs sys start w of Inl err \<Rightarrow> Inl err | Inr dir \<Rightarrow> findPluginConfig_from sys w dir)"

definition readPluginConfigFile :: "'w OS \<Rightarrow> yamlCodec \<Rightarrow> string \<Rightarrow> 'w \<Rightarrow> pluginConfigFile result" where
  "readPluginConfigFile sys yaml path w =
     (case sys_ReadFile sys path w of
        Inl err \<Rightarrow> Inl err
      | Inr data \<Rightarrow>
          (case yc_Unmarshal yaml data of
             Inl err \<Rightarrow> Inl (Errorf ''parse %s: %w'' [ArgS path, ArgE err])
           | Inr cfg \<Rightarrow>
               if pf_Version cfg \<noteq> [] \<and> pf_Version cfg \<noteq> pluginConfigVersion
               then Inl (Errorf ''%s has unsupported version %q'' [ArgS path, ArgS (pf_Version cfg)])
               else Inr cfg))"

text \<open>\<open>None\<close> is the answer that there is no configuration.\<close>

definition readProjectPluginConfig :: "'w OS \<Rightarrow> yamlCodec \<Rightarrow> 'w \<Rightarrow> (string \<times> pluginConfigFile) option result" where
  "readProjectPluginConfig sys yaml w =
     (case sys_Getwd sys w of
        Inl err \<Rightarrow> Inl err
      | Inr wd \<Rightarrow>
          (case findPluginConfig sys wd w of
             Inl err \<Rightarrow> Inl err
           | Inr None \<Rightarrow> Inr None
           | Inr (Some path) \<Rightarrow>
               (case readPluginConfigFile sys yaml path w of Inl err \<Rightarrow> Inl err | Inr cfg \<Rightarrow> Inr (Some (path, cfg)))))"

definition writePluginConfigFile :: "'w OS \<Rightarrow> yamlCodec \<Rightarrow> string \<Rightarrow> pluginConfigFile \<Rightarrow> 'w \<Rightarrow> goerr option \<times> 'w" where
  "writePluginConfigFile sys yaml path cfg w =
     (let cfg = (if pf_Version cfg = [] then cfg\<lparr>pf_Version := pluginConfigVersion\<rparr> else cfg)
      in case sys_MkdirAll sys (path_Dir path) w of
        (Some err, w) \<Rightarrow> (Some err, w)
      | (None, w) \<Rightarrow>
          (case yc_Marshal yaml cfg of
             Inl err \<Rightarrow> (Some err, w)
           | Inr data \<Rightarrow> sys_WriteFile sys path data 420 w))"

definition pluginConfigPathForWrite :: "'w OS \<Rightarrow> yamlCodec \<Rightarrow> 'w \<Rightarrow> (string \<times> pluginConfigFile) result" where
  "pluginConfigPathForWrite sys yaml w =
     (case sys_Getwd sys w of
        Inl err \<Rightarrow> Inl err
      | Inr wd \<Rightarrow>
          (case findPluginConfig sys wd w of
             Inl err \<Rightarrow> Inl err
           | Inr (Some path) \<Rightarrow>
               (case readPluginConfigFile sys yaml path w of Inl err \<Rightarrow> Inl err | Inr cfg \<Rightarrow> Inr (path, cfg))
           | Inr None \<Rightarrow> Inr (config_at wd, \<lparr>pf_Version = pluginConfigVersion, pf_Plugins = []\<rparr>)))"

section \<open>The paths in the configuration\<close>

definition pluginConfigProjectDir :: "string \<Rightarrow> string" where
  "pluginConfigProjectDir configPath = path_Dir (path_Dir configPath)"

definition resolvePluginPath :: "string \<Rightarrow> string \<Rightarrow> string" where
  "resolvePluginPath projectDir path =
     (if path_IsAbs path then path_Clean path else path_Clean (path_Join [projectDir, path]))"

definition normalizePluginPathForConfig :: "'w OS \<Rightarrow> string \<Rightarrow> string \<Rightarrow> 'w \<Rightarrow> string result" where
  "normalizePluginPathForConfig sys configPath path w =
     (let path = path_Clean path
      in if path_IsAbs path then Inr path
         else case sys_Getwd sys w of
           Inl err \<Rightarrow> Inl err
         | Inr wd \<Rightarrow>
             (let absolute = path_Clean (path_Join [wd, path])
              in case path_Rel (pluginConfigProjectDir configPath) absolute of
                Inl err \<Rightarrow> Inr absolute
              | Inr rel \<Rightarrow> Inr (path_Clean rel)))"

definition canonicalPluginPath :: "'w OS \<Rightarrow> 'w \<Rightarrow> string \<Rightarrow> string" where
  "canonicalPluginPath sys w path =
     (case filepath_Abs sys path w of
        Inl err \<Rightarrow> path_Clean path
      | Inr absolute \<Rightarrow>
          (case sys_EvalSymlinks sys absolute w of Inl err \<Rightarrow> path_Clean absolute | Inr resolved \<Rightarrow> resolved))"

fun dedupe_from :: "(string \<Rightarrow> string) \<Rightarrow> string list \<Rightarrow> string list \<Rightarrow> string list" where
  "dedupe_from canonical seen [] = []"
| "dedupe_from canonical seen (path # paths) =
     (if canonical path \<in> set seen then dedupe_from canonical seen paths
      else path # dedupe_from canonical (canonical path # seen) paths)"

definition dedupePluginPaths :: "'w OS \<Rightarrow> string list \<Rightarrow> 'w \<Rightarrow> string list" where
  "dedupePluginPaths sys paths w = dedupe_from (canonicalPluginPath sys w) [] paths"

text \<open>The paths of the enabled plugins in the configuration, or what is printed when an entry is incomplete.\<close>

fun configured_paths :: "string \<Rightarrow> pluginConfigEntry list \<Rightarrow> printed + string list" where
  "configured_paths projectDir [] = Inr []"
| "configured_paths projectDir (p # ps) =
     (if \<not> isEnabled p then configured_paths projectDir ps
      else if ce_Name p = [] then Inl (Printf ''plugin config failed: plugin name is required'' [])
      else if ce_Path p = [] then Inl (Printf ''plugin config failed: plugin %q path is required'' [ArgS (ce_Name p)])
      else map_sum id (\<lambda>paths. resolvePluginPath projectDir (ce_Path p) # paths) (configured_paths projectDir ps))"

definition loadConfiguredPluginPaths :: "'w OS \<Rightarrow> yamlCodec \<Rightarrow> string list \<Rightarrow> 'w \<Rightarrow> printed + string list" where
  "loadConfiguredPluginPaths sys yaml cliPaths w =
     (case readProjectPluginConfig sys yaml w of
        Inl err \<Rightarrow> Inl (Printf ''plugin config failed: %v'' [ArgE err])
      | Inr project \<Rightarrow>
          map_sum id (\<lambda>paths. dedupePluginPaths sys (paths @ cliPaths) w)
            (case project of
               None \<Rightarrow> Inr []
             | Some (configPath, cfg) \<Rightarrow> configured_paths (pluginConfigProjectDir configPath) (pf_Plugins cfg)))"

section \<open>The commands that edit the configuration\<close>

abbreviation no_flags :: "string \<Rightarrow> unit flagSpec option" where
  "no_flags \<equiv> (\<lambda>_. None)"

fun replace_entry :: "pluginConfigEntry \<Rightarrow> pluginConfigEntry list \<Rightarrow> pluginConfigEntry list" where
  "replace_entry entry [] = [entry]"
| "replace_entry entry (p # ps) = (if ce_Name p = ce_Name entry then entry # ps else p # replace_entry entry ps)"

definition runPluginAdd :: "'w OS \<Rightarrow> yamlCodec \<Rightarrow> string list \<Rightarrow> 'w \<Rightarrow> int \<times> printed list \<times> 'w" where
  "runPluginAdd sys yaml args w =
     (case flag_Parse no_flags args () of
        Inl err \<Rightarrow> (exitConfig, flag_report ''plugin add'' err, w)
      | Inr (_, rest) \<Rightarrow>
          (case rest of
             [name, pluginPath] \<Rightarrow>
               if name = [] \<or> pluginPath = [] then (exitConfig, [Printf ''plugin name and path are required'' []], w)
               else (case pluginConfigPathForWrite sys yaml w of
                 Inl err \<Rightarrow> (exitConfig, [Printf ''plugin add failed: %v'' [ArgE err]], w)
               | Inr (configPath, cfg) \<Rightarrow>
                   (case normalizePluginPathForConfig sys configPath pluginPath w of
                      Inl err \<Rightarrow> (exitConfig, [Printf ''plugin add failed: %v'' [ArgE err]], w)
                    | Inr storedPath \<Rightarrow>
                        (let entry = \<lparr>ce_Name = name, ce_Path = storedPath, ce_Enabled = Some True\<rparr>
                         in case writePluginConfigFile sys yaml configPath
                                (cfg\<lparr>pf_Plugins := replace_entry entry (pf_Plugins cfg)\<rparr>) w of
                           (Some err, w) \<Rightarrow> (exitConfig, [Printf ''plugin add failed: %v'' [ArgE err]], w)
                         | (None, w) \<Rightarrow> (exitOK, [Printf ''configured plugin %s in %s'' [ArgS name, ArgS configPath]], w))))
           | _ \<Rightarrow> (exitConfig, [Printf ''usage: wkbench plugin add <name> <path>'' []], w)))"

definition list_line :: "pluginConfigEntry \<Rightarrow> printed" where
  "list_line p = Printf (strings_Join [''%s'', ''%s'', ''%s''] [CHR 0x09]) [ArgS (ce_Name p), ArgS (if isEnabled p then ''enabled'' else ''disabled''), ArgS (ce_Path p)]"

definition runPluginList :: "'w OS \<Rightarrow> yamlCodec \<Rightarrow> string list \<Rightarrow> 'w \<Rightarrow> int \<times> printed list" where
  "runPluginList sys yaml args w =
     (case flag_Parse no_flags args () of
        Inl err \<Rightarrow> (exitConfig, flag_report ''plugin list'' err)
      | Inr _ \<Rightarrow>
          (case readProjectPluginConfig sys yaml w of
             Inl err \<Rightarrow> (exitConfig, [Printf ''plugin list failed: %v'' [ArgE err]])
           | Inr None \<Rightarrow> (exitOK, [Printf ''no plugins configured'' []])
           | Inr (Some (configPath, cfg)) \<Rightarrow>
               if pf_Plugins cfg = [] then (exitOK, [Printf ''no plugins configured'' []])
               else (exitOK, Printf ''Config: %s'' [ArgS configPath] # map list_line (pf_Plugins cfg))))"

definition find_entry :: "string \<Rightarrow> pluginConfigEntry list \<Rightarrow> pluginConfigEntry option" where
  "find_entry name = find (\<lambda>p. ce_Name p = name)"

definition resolvePluginInspectTarget :: "'w OS \<Rightarrow> yamlCodec \<Rightarrow> string \<Rightarrow> 'w \<Rightarrow> string result" where
  "resolvePluginInspectTarget sys yaml target w =
     (case readProjectPluginConfig sys yaml w of
        Inl err \<Rightarrow> Inl err
      | Inr None \<Rightarrow> Inr target
      | Inr (Some (configPath, cfg)) \<Rightarrow>
          (case find_entry target (pf_Plugins cfg) of
             Some p \<Rightarrow> Inr (resolvePluginPath (pluginConfigProjectDir configPath) (ce_Path p))
           | None \<Rightarrow> Inr (path_Clean target)))"

section \<open>A file system in memory\<close>

text \<open>Files by path, directories not recorded; used to show that what is assumed of a file system can hold.\<close>

definition mem_fs :: "string \<Rightarrow> (string \<times> string) list OS" where
  "mem_fs wd =
     \<lparr>sys_Getwd = (\<lambda>w. Inr wd),
      sys_Stat = (\<lambda>p w. case map_of w p of None \<Rightarrow> Some (Errorf ''not found'' []) | Some _ \<Rightarrow> None),
      sys_IsNotExist = (\<lambda>err. err = Errorf ''not found'' []),
      sys_ReadFile = (\<lambda>p w. case map_of w p of None \<Rightarrow> Inl (Errorf ''not found'' []) | Some data \<Rightarrow> Inr data),
      sys_EvalSymlinks = (\<lambda>p w. Inr p),
      sys_MkdirAll = (\<lambda>p w. (None, w)),
      sys_WriteFile = (\<lambda>p data mode w. (None, (p, data) # w))\<rparr>"

section \<open>The nearest configuration wins\<close>

abbreviation clean_segs :: "string list \<Rightarrow> bool" where
  "clean_segs ss \<equiv> (\<forall>s\<in>set ss. simple_segment s)"

lemma config_at_abs: "clean_segs d \<Longrightarrow> config_at (abs_path d) = abs_path (d @ [''.wkbench'', ''plugins.yaml''])"
  by (simp add: config_at_def pluginConfigRelPath_def Join_abs_path clean_step_def)

lemma config_segs: "clean_segs d \<Longrightarrow> clean_segs (d @ [''.wkbench'', ''plugins.yaml''])" "clean_segs d \<Longrightarrow> clean_segs (d @ [''.wkbench''])"
  by (auto simp: simple_segment_def)

lemma projectDir_config_at:
  assumes "clean_segs d"
  shows "pluginConfigProjectDir (config_at (abs_path d)) = abs_path d" "path_Dir (config_at (abs_path d)) = abs_path (d @ [''.wkbench''])"
  using Dir_abs_path [OF config_segs(1) [OF assms]] Dir_abs_path [OF config_segs(2) [OF assms]]
  by (simp_all add: pluginConfigProjectDir_def config_at_abs [OF assms] butlast_append)

lemma abs_path_inject: "clean_segs a \<Longrightarrow> clean_segs b \<Longrightarrow> abs_path a = abs_path b \<longleftrightarrow> a = b"
  using elems_abs_path by metis

text \<open>What the search makes of one candidate.\<close>

definition missing :: "'w OS \<Rightarrow> 'w \<Rightarrow> string list \<Rightarrow> bool" where
  "missing sys w d = (case sys_Stat sys (config_at (abs_path d)) w of None \<Rightarrow> False | Some err \<Rightarrow> sys_IsNotExist sys err)"

text \<open>
  The search for the configuration always ends, and its answer is that of the nearest directory, from the one it starts in up
  to the root, whose \<open>.wkbench/plugins.yaml\<close> is not missing: the path of the file if it exists, and the error if it cannot be
  examined. There is no configuration exactly if it is missing in all of them.
\<close>

theorem plugin_config_nearest:
  assumes "clean_segs ss"
  shows "findPluginConfig_from sys w (abs_path ss) =
    (case find (\<lambda>d. \<not> missing sys w d) (rev (prefixes ss)) of
       None \<Rightarrow> Inr None
     | Some d \<Rightarrow> (case sys_Stat sys (config_at (abs_path d)) w of
         None \<Rightarrow> Inr (Some (config_at (abs_path d))) | Some err \<Rightarrow> Inl err))"
  using assms
proof (induction ss rule: rev_induct)
  case Nil
  have "path_Dir (abs_path []) = abs_path []" using Dir_abs_path [of "[]"] by simp
  then show ?case by (subst findPluginConfig_from.simps) (simp add: missing_def split: option.split)
next
  case (snoc x xs)
  have "path_Dir (abs_path (xs @ [x])) = abs_path xs" using Dir_abs_path [OF snoc.prems] by simp
  moreover have "abs_path xs \<noteq> abs_path (xs @ [x])" using abs_path_inject [of xs "xs @ [x]"] snoc.prems by auto
  ultimately show ?case
    using snoc by (subst findPluginConfig_from.simps) (auto simp: missing_def prefixes_snoc split: option.split)
qed

theorem plugin_config_nearest_witness:
  "findPluginConfig_from (mem_fs ''/'') [(''/a/.wkbench/plugins.yaml'', ''x'')] ''/a/b/c'' = Inr (Some ''/a/.wkbench/plugins.yaml'')"
proof -
  have ss: "\<forall>s\<in>set [''a'', ''b'', ''c'']. simple_segment s" by (simp add: simple_segment_def)
  have at: "config_at (abs_path [''a'']) = ''/a/.wkbench/plugins.yaml''" "config_at (abs_path [''a'', ''b'']) = ''/a/b/.wkbench/plugins.yaml''"
    "config_at (abs_path [''a'', ''b'', ''c'']) = ''/a/b/c/.wkbench/plugins.yaml''"
    using ss by (simp_all add: config_at_abs) (simp_all add: abs_path_def)
  have path: "''/a/b/c'' = abs_path [''a'', ''b'', ''c'']" by (simp add: abs_path_def)
  show ?thesis
    unfolding path plugin_config_nearest [OF ss] by (simp add: missing_def at mem_fs_def prefixes_snoc)
qed

text \<open>An answer stays the same when the candidates below it do.\<close>

lemma findPluginConfig_stable:
  assumes "clean_segs ss" and "findPluginConfig_from sys w (abs_path ss) = Inr (Some p)"
  shows "\<exists>d. prefix d ss \<and> p = config_at (abs_path d) \<and>
    (\<forall>w'. sys_Stat sys p w' = None \<longrightarrow>
      (\<forall>d'. clean_segs d' \<longrightarrow> length d < length d' \<longrightarrow> sys_Stat sys (config_at (abs_path d')) w' = sys_Stat sys (config_at (abs_path d')) w) \<longrightarrow>
      findPluginConfig_from sys w' (abs_path ss) = Inr (Some p))"
  using assms
proof (induction ss rule: rev_induct)
  case Nil
  have "path_Dir (abs_path []) = abs_path []" using Dir_abs_path [of "[]"] by simp
  with Nil show ?case
    by (intro exI [of _ "[]"]) (auto simp: findPluginConfig_from.simps [of sys _ "abs_path []"] split: option.splits if_splits)
next
  case (snoc x xs)
  have dir: "path_Dir (abs_path (xs @ [x])) = abs_path xs" using Dir_abs_path [OF snoc.prems(1)] by simp
  have ne: "abs_path xs \<noteq> abs_path (xs @ [x])" using abs_path_inject [of xs "xs @ [x]"] snoc.prems by auto
  note unfold = findPluginConfig_from.simps [of sys _ "abs_path (xs @ [x])"]
  show ?case
  proof (cases "sys_Stat sys (config_at (abs_path (xs @ [x]))) w")
    case None
    with snoc.prems(2) show ?thesis by (intro exI [of _ "xs @ [x]"]) (auto simp: unfold)
  next
    case (Some err)
    with snoc.prems(2) dir ne have e: "sys_IsNotExist sys err" "findPluginConfig_from sys w (abs_path xs) = Inr (Some p)"
      by (auto simp: unfold split: if_splits)
    with snoc.IH snoc.prems(1) obtain d where d: "prefix d xs" "p = config_at (abs_path d)"
      "\<And>w'. sys_Stat sys p w' = None \<Longrightarrow>
        \<forall>d'. clean_segs d' \<longrightarrow> length d < length d' \<longrightarrow> sys_Stat sys (config_at (abs_path d')) w' = sys_Stat sys (config_at (abs_path d')) w \<Longrightarrow>
        findPluginConfig_from sys w' (abs_path xs) = Inr (Some p)"
      by auto
    have "length d < length (xs @ [x])" using prefix_length_le [OF d(1)] by simp
    then show ?thesis
      using d Some e dir ne snoc.prems(1) by (intro exI [of _ d]) (auto simp: unfold)
  qed
qed

section \<open>A plugin that was added is found again\<close>

text \<open>
  What the file system promises: a file written can be read back and its working directory, and other paths, are as before;
  making a directory only brings into being the directory and those above it, and files keep their contents.
\<close>

definition fs_laws :: "'w OS \<Rightarrow> bool" where
  "fs_laws sys \<longleftrightarrow>
     (\<forall>p data mode w w'. sys_WriteFile sys p data mode w = (None, w') \<longrightarrow>
        sys_ReadFile sys p w' = Inr data \<and> sys_Stat sys p w' = None \<and> sys_Getwd sys w' = sys_Getwd sys w \<and>
        (\<forall>ss. clean_segs ss \<longrightarrow> abs_path ss \<noteq> p \<longrightarrow> sys_Stat sys (abs_path ss) w' = sys_Stat sys (abs_path ss) w \<and>
           sys_ReadFile sys (abs_path ss) w' = sys_ReadFile sys (abs_path ss) w)) \<and>
     (\<forall>d w w'. sys_MkdirAll sys d w = (None, w') \<longrightarrow> sys_Getwd sys w' = sys_Getwd sys w \<and>
        (\<forall>p data. sys_ReadFile sys p w = Inr data \<longrightarrow> sys_ReadFile sys p w' = Inr data) \<and>
        (\<forall>ss. clean_segs ss \<longrightarrow> \<not> prefix ss (path_elems d) \<longrightarrow> sys_Stat sys (abs_path ss) w' = sys_Stat sys (abs_path ss) w))"

lemma fs_write:
  assumes "fs_laws sys" and "sys_WriteFile sys p data mode w = (None, w')"
  shows "sys_ReadFile sys p w' = Inr data" "sys_Stat sys p w' = None" "sys_Getwd sys w' = sys_Getwd sys w"
    and "clean_segs ss \<Longrightarrow> abs_path ss \<noteq> p \<Longrightarrow> sys_Stat sys (abs_path ss) w' = sys_Stat sys (abs_path ss) w"
    and "clean_segs ss \<Longrightarrow> abs_path ss \<noteq> p \<Longrightarrow> sys_ReadFile sys (abs_path ss) w' = sys_ReadFile sys (abs_path ss) w"
  using assms unfolding fs_laws_def by blast+

lemma fs_mkdir:
  assumes "fs_laws sys" and "sys_MkdirAll sys d w = (None, w')"
  shows "sys_Getwd sys w' = sys_Getwd sys w"
    and "clean_segs ss \<Longrightarrow> \<not> prefix ss (path_elems d) \<Longrightarrow> sys_Stat sys (abs_path ss) w' = sys_Stat sys (abs_path ss) w"
    and fs_mkdir_keeps: "sys_ReadFile sys p w = Inr data \<Longrightarrow> sys_ReadFile sys p w' = Inr data"
  using assms unfolding fs_laws_def by blast+

definition yaml_laws :: "yamlCodec \<Rightarrow> bool" where
  "yaml_laws yaml \<longleftrightarrow> (\<forall>cfg data. yc_Marshal yaml cfg = Inr data \<longrightarrow> yc_Unmarshal yaml data = Inr cfg)"

lemma find_replaced: "find_entry (ce_Name e) (replace_entry e ps) = Some e"
  by (induction ps) (simp_all add: find_entry_def)

lemma find_others: "n \<noteq> ce_Name e \<Longrightarrow> find_entry n (replace_entry e ps) = find_entry n ps"
  by (induction ps) (auto simp: find_entry_def)

lemma path_for_write:
  assumes "pluginConfigPathForWrite sys yaml w = Inr (configPath, cfg)" and "sys_Getwd sys w = Inr (abs_path cwd)" and "clean_segs cwd"
  shows "\<exists>d. clean_segs d \<and> configPath = config_at (abs_path d) \<and>
    (\<forall>w'. sys_Stat sys configPath w' = None \<longrightarrow>
      (\<forall>d'. clean_segs d' \<longrightarrow> length d < length d' \<longrightarrow> sys_Stat sys (config_at (abs_path d')) w' = sys_Stat sys (config_at (abs_path d')) w) \<longrightarrow>
      findPluginConfig_from sys w' (abs_path cwd) = Inr (Some configPath)) \<and>
    (readProjectPluginConfig sys yaml w = Inr (Some (configPath, cfg)) \<or> readProjectPluginConfig sys yaml w = Inr None) \<and>
    pf_Version cfg \<in> {[], pluginConfigVersion}"
proof -
  have abs: "findPluginConfig sys (abs_path cwd) w = findPluginConfig_from sys w (abs_path cwd)"
    using assms(3) by (simp add: findPluginConfig_def filepath_Abs_def path_IsAbs_def Clean_abs_path) (simp add: abs_path_def)
  show ?thesis
  proof (cases "findPluginConfig_from sys w (abs_path cwd)")
    case (Inr r)
    show ?thesis
    proof (cases r)
      case None
      with assms Inr abs have "configPath = config_at (abs_path cwd)" "pf_Version cfg = pluginConfigVersion"
        by (auto simp: pluginConfigPathForWrite_def)
      moreover have "findPluginConfig_from sys w' (abs_path cwd) = Inr (Some configPath)" if "sys_Stat sys configPath w' = None" for w'
        using that calculation(1) by (subst findPluginConfig_from.simps) simp
      ultimately show ?thesis
        using assms(2,3) Inr None abs by (intro exI [of _ cwd]) (auto simp: readProjectPluginConfig_def)
    next
      case (Some p)
      with assms Inr abs have p: "configPath = p" "readPluginConfigFile sys yaml p w = Inr cfg"
        by (auto simp: pluginConfigPathForWrite_def split: sum.splits)
      then have v: "pf_Version cfg \<in> {[], pluginConfigVersion}"
        by (auto simp: readPluginConfigFile_def split: sum.splits if_splits)
      from findPluginConfig_stable [OF assms(3), of sys w p] Inr Some obtain d where d: "prefix d cwd" "p = config_at (abs_path d)"
        "\<forall>w'. sys_Stat sys p w' = None \<longrightarrow>
          (\<forall>d'. clean_segs d' \<longrightarrow> length d < length d' \<longrightarrow> sys_Stat sys (config_at (abs_path d')) w' = sys_Stat sys (config_at (abs_path d')) w) \<longrightarrow>
          findPluginConfig_from sys w' (abs_path cwd) = Inr (Some p)"
        by auto
      have "clean_segs d" using assms(3) d(1) set_mono_prefix by blast
      with d p v show ?thesis
        using assms(2) Inr Some abs by (intro exI [of _ d]) (auto simp: readProjectPluginConfig_def)
    qed
  qed (use assms abs in \<open>auto simp: pluginConfigPathForWrite_def\<close>)
qed

lemma config_write_kept:
  assumes "fs_laws sys" and "clean_segs d" and "p = config_at (abs_path d)"
    and "sys_MkdirAll sys (path_Dir p) w = (None, w1)" and "sys_WriteFile sys p data mode w1 = (None, w')"
  shows "sys_ReadFile sys p w' = Inr data" "sys_Stat sys p w' = None" "sys_Getwd sys w' = sys_Getwd sys w"
    and "clean_segs d' \<Longrightarrow> length d < length d' \<Longrightarrow> sys_Stat sys (config_at (abs_path d')) w' = sys_Stat sys (config_at (abs_path d')) w"
proof -
  let ?file = "\<lambda>d. d @ [''.wkbench'', ''plugins.yaml'']"
  have dir: "path_elems (path_Dir p) = d @ [''.wkbench'']"
    unfolding assms(3) projectDir_config_at(2) [OF assms(2)] by (rule elems_abs_path [OF config_segs(2) [OF assms(2)]])
  show "sys_ReadFile sys p w' = Inr data" "sys_Stat sys p w' = None" "sys_Getwd sys w' = sys_Getwd sys w"
    using fs_write(1-3) [OF assms(1,5)] fs_mkdir(1) [OF assms(1,4)] by simp_all
  assume d': "clean_segs d'" "length d < length d'"
  note segs = config_segs(1) [OF d'(1)] config_segs(1) [OF assms(2)]
  have "abs_path (?file d') \<noteq> p" unfolding assms(3) config_at_abs [OF assms(2)] abs_path_inject [OF segs] using d'(2) by auto
  moreover have "\<not> prefix (?file d') (path_elems (path_Dir p))"
    unfolding dir using d'(2) prefix_length_le [of "?file d'" "d @ [''.wkbench'']"] by auto
  ultimately show "sys_Stat sys (config_at (abs_path d')) w' = sys_Stat sys (config_at (abs_path d')) w"
    unfolding config_at_abs [OF d'(1)]
    using fs_write(4) [OF assms(1,5) segs(1)] fs_mkdir(2) [OF assms(1,4) segs(1)] by simp
qed

lemma resolve_normalized:
  assumes "normalizePluginPathForConfig sys configPath path w = Inr stored" and "pluginConfigProjectDir configPath = abs_path d"
    and "clean_segs d" and "sys_Getwd sys w = Inr (abs_path cwd)" and "clean_segs cwd"
  shows "Inr (resolvePluginPath (abs_path d) stored) = filepath_Abs sys path w"
proof (cases "path_IsAbs path")
  case True
  from Clean_absolute [OF this] obtain ss where ss: "path_Clean path = abs_path ss" "clean_segs ss" by blast
  have "path_IsAbs (abs_path ss)" by (simp add: path_IsAbs_def abs_path_def)
  with assms(1) True ss Clean_abs_path [OF ss(2)] show ?thesis
    by (auto simp: normalizePluginPathForConfig_def filepath_Abs_def resolvePluginPath_def)
next
  case False
  note rel = Clean_relative [OF False assms(5)]
  have "path_IsAbs (abs_path cwd @ q)" for q by (simp add: path_IsAbs_def abs_path_def)
  then have "\<exists>ss. path_Join [abs_path cwd, path] = abs_path ss \<and> clean_segs ss"
    using Clean_absolute [of "abs_path cwd @ CHR ''/'' # path"] by (simp add: path_Join_def abs_path_def)
  then obtain T where T: "path_Join [abs_path cwd, path] = abs_path T" "clean_segs T" by blast
  from Rel_leads_back [OF assms(3) T(2)] obtain rel where r: "path_Rel (abs_path d) (abs_path T) = Inr rel" "\<not> path_IsAbs rel"
    "path_Clean rel = rel" "path_Join [abs_path d, rel] = abs_path T" by blast
  from assms(1,2,4) rel T r have "stored = rel"
    by (simp add: normalizePluginPathForConfig_def Clean_abs_path)
  with r T False assms(4) show ?thesis
    by (simp add: resolvePluginPath_def filepath_Abs_def Clean_abs_path)
qed

text \<open>
  A plugin that was added is found again. When \<open>plugin add name path\<close> succeeds, the name resolves to the absolute form of the path,
  wherever in the project the command ran and wherever its configuration is; it is enabled; and every other
  name of the configuration keeps its entry.
\<close>

theorem plugin_add_resolves:
  assumes "fs_laws sys" and "yaml_laws yaml" and "sys_Getwd sys w = Inr (abs_path cwd)" and "\<forall>s\<in>set cwd. simple_segment s"
    and "runPluginAdd sys yaml [name, path] w = (exitOK, out, w')"
  shows "resolvePluginInspectTarget sys yaml name w' = filepath_Abs sys path w \<and>
    (\<exists>configPath cfg p. readProjectPluginConfig sys yaml w' = Inr (Some (configPath, cfg)) \<and>
       find_entry name (pf_Plugins cfg) = Some p \<and> isEnabled p \<and>
       (\<forall>cfg0 other. readProjectPluginConfig sys yaml w = Inr (Some (configPath, cfg0)) \<longrightarrow> other \<noteq> name \<longrightarrow>
          find_entry other (pf_Plugins cfg) = find_entry other (pf_Plugins cfg0)))"
proof -
  obtain configPath cfg stored where pre: "pluginConfigPathForWrite sys yaml w = Inr (configPath, cfg)"
    "normalizePluginPathForConfig sys configPath path w = Inr stored"
    and wr: "writePluginConfigFile sys yaml configPath
       (cfg\<lparr>pf_Plugins := replace_entry \<lparr>ce_Name = name, ce_Path = stored, ce_Enabled = Some True\<rparr> (pf_Plugins cfg)\<rparr>) w = (None, w')"
    using assms(5)
    by (auto simp: runPluginAdd_def exit_codes Let_def flag_Parse.simps(2)
        split: sum.splits list.splits if_splits prod.splits option.splits)
  define e where "e = \<lparr>ce_Name = name, ce_Path = stored, ce_Enabled = Some True\<rparr>"
  from path_for_write [OF pre(1) assms(3,4)] obtain d where d: "clean_segs d" "configPath = config_at (abs_path d)"
    and again: "\<And>w'. sys_Stat sys configPath w' = None \<Longrightarrow>
      \<forall>d'. clean_segs d' \<longrightarrow> length d < length d' \<longrightarrow> sys_Stat sys (config_at (abs_path d')) w' = sys_Stat sys (config_at (abs_path d')) w \<Longrightarrow>
      findPluginConfig_from sys w' (abs_path cwd) = Inr (Some configPath)"
    and before: "readProjectPluginConfig sys yaml w = Inr (Some (configPath, cfg)) \<or> readProjectPluginConfig sys yaml w = Inr None"
    and v: "pf_Version cfg \<in> {[], pluginConfigVersion}" by blast
  define cfg' where "cfg' = \<lparr>pf_Version = pluginConfigVersion, pf_Plugins = replace_entry e (pf_Plugins cfg)\<rparr>"
  from wr v obtain w1 data where w1: "sys_MkdirAll sys (path_Dir configPath) w = (None, w1)" "yc_Marshal yaml cfg' = Inr data"
    "sys_WriteFile sys configPath data 420 w1 = (None, w')"
    by (cases cfg) (auto simp: writePluginConfigFile_def Let_def cfg'_def e_def split: prod.splits option.splits sum.splits if_splits)
  note kept = config_write_kept [OF assms(1) d w1(1,3)]
  have "findPluginConfig sys (abs_path cwd) w' = Inr (Some configPath)"
    using again kept(2,4) assms(4) by (simp add: findPluginConfig_def filepath_Abs_def path_IsAbs_def Clean_abs_path) (simp add: abs_path_def)
  moreover have "readPluginConfigFile sys yaml configPath w' = Inr cfg'"
    using kept(1) w1(2) assms(2) by (simp add: readPluginConfigFile_def yaml_laws_def cfg'_def)
  ultimately have read: "readProjectPluginConfig sys yaml w' = Inr (Some (configPath, cfg'))"
    using kept(3) assms(3) by (simp add: readProjectPluginConfig_def)
  have found: "find_entry name (pf_Plugins cfg') = Some e" using find_replaced [of e] by (simp add: cfg'_def e_def)
  have "resolvePluginInspectTarget sys yaml name w' = filepath_Abs sys path w"
    using read found resolve_normalized [OF pre(2) _ d(1) assms(3,4)] projectDir_config_at(1) [OF d(1)]
    by (simp add: resolvePluginInspectTarget_def d(2) e_def)
  moreover have "isEnabled e" by (simp add: isEnabled_def e_def)
  moreover have "find_entry other (pf_Plugins cfg') = find_entry other (pf_Plugins cfg0)"
    if "readProjectPluginConfig sys yaml w = Inr (Some (configPath, cfg0))" "other \<noteq> name" for cfg0 other
    using that before find_others [of other e] by (auto simp: cfg'_def e_def)
  ultimately show ?thesis using read found by blast
qed

definition demo_entry :: pluginConfigEntry where
  "demo_entry = \<lparr>ce_Name = ''demo'', ce_Path = ''../bin/demo'', ce_Enabled = Some True\<rparr>"

definition demo_file :: pluginConfigFile where
  "demo_file = \<lparr>pf_Version = pluginConfigVersion, pf_Plugins = [demo_entry]\<rparr>"

definition demo_yaml :: yamlCodec where
  "demo_yaml =
     \<lparr>yc_Marshal = (\<lambda>cfg. if cfg = demo_file then Inr ''demo'' else Inl (Errorf ''yaml'' [])),
      yc_Unmarshal = (\<lambda>data. if data = ''demo'' then Inr demo_file else Inl (Errorf ''yaml'' []))\<rparr>"

lemma mem_fs_laws: "fs_laws (mem_fs wd)"
  by (auto simp: fs_laws_def mem_fs_def)

theorem plugin_add_resolves_witness:
  "resolvePluginInspectTarget (mem_fs ''/work'') demo_yaml ''demo''
     (snd (snd (runPluginAdd (mem_fs ''/work'') demo_yaml [''demo'', ''../bin/demo''] []))) = Inr ''/bin/demo''"
proof -
  let ?sys = "mem_fs ''/work''"
  have segs: "\<forall>s\<in>set [''work'']. simple_segment s" by (simp add: simple_segment_def)
  have wd: "sys_Getwd ?sys [] = Inr (abs_path [''work''])" by (simp add: mem_fs_def abs_path_def)
  have yaml: "yaml_laws demo_yaml" by (simp add: yaml_laws_def demo_yaml_def)
  have path: "''/work'' = abs_path [''work'']" "abs_path [] = ''/''" by (simp_all add: abs_path_def)
  have dir: "path_Dir ''/work'' = ''/''" "path_Dir ''/'' = ''/''"
    using Dir_abs_path [OF segs] Dir_abs_path [of "[]"] by (simp_all add: path)
  have rel: "path_Rel ''/work'' ''/bin/demo'' = Inr ''../bin/demo''" "path_Clean ''../bin/demo'' = ''../bin/demo''"
    "path_Clean (path_Join [''/work'', ''../bin/demo'']) = ''/bin/demo''" "path_Join [''/work'', ''../bin/demo''] = ''/bin/demo''"
    "path_Clean ''/work'' = ''/work''" by code_simp+
  have prep: "pluginConfigPathForWrite ?sys demo_yaml [] = Inr (config_at ''/work'', \<lparr>pf_Version = pluginConfigVersion, pf_Plugins = []\<rparr>)"
    by (simp add: pluginConfigPathForWrite_def findPluginConfig_def filepath_Abs_def mem_fs_def path_IsAbs_def rel dir
        findPluginConfig_from.simps [of _ _ "''/work''"] findPluginConfig_from.simps [of _ _ "''/''"])
  have norm: "normalizePluginPathForConfig ?sys (config_at ''/work'') ''../bin/demo'' [] = Inr ''../bin/demo''"
    using projectDir_config_at(1) [OF segs] rel
    by (simp add: normalizePluginPathForConfig_def mem_fs_def path_IsAbs_def flip: path(1))
  obtain out w' where run: "runPluginAdd ?sys demo_yaml [''demo'', ''../bin/demo''] [] = (exitOK, out, w')"
    using prep norm by (simp add: runPluginAdd_def flag_Parse_targets is_flag_def writePluginConfigFile_def demo_yaml_def mem_fs_def
        demo_file_def demo_entry_def pluginConfigVersion_def)
  have "filepath_Abs ?sys ''../bin/demo'' [] = Inr ''/bin/demo''"
    by (simp add: filepath_Abs_def path_IsAbs_def mem_fs_def rel)
  with plugin_add_resolves [OF mem_fs_laws yaml wd segs run, THEN conjunct1] show ?thesis by (simp add: run)
qed

end
