(* ===== verification/Remote_Facts.thy ===== *)
theory Remote_Facts
  imports Plugin_Artifacts
begin

text \<open>
  Host and plugin together: what a unit published and measured in the plugin process is what the
  kernel holds after the remote run, and nothing sensitive becomes reportable on the way.
\<close>

section \<open>The frames of a finished run\<close>

definition reported :: "'v Marshal \<Rightarrow> 'v \<Rightarrow> 'v" where
  "reported mj v = (case mj_ReportOutput mj v of Some r \<Rightarrow> r | None \<Rightarrow> v)"

definition crosses_report :: "PortDef \<Rightarrow> bool" where
  "crosses_report def \<longleftrightarrow> pm_Reportable (pd_Meta def) \<and> \<not> pm_Sensitive (pd_Meta def)"

text \<open>A codec: marshalling always succeeds with a non-empty payload that decodes to \<open>J v\<close>.\<close>

definition codec_ok :: "'v Marshal \<Rightarrow> (string \<Rightarrow> json result) \<Rightarrow> ('v \<Rightarrow> json) \<Rightarrow> 'v set \<Rightarrow> bool" where
  "codec_ok mj unmarshal J V \<longleftrightarrow>
     (\<forall>v\<in>V. \<exists>p. mj_marshal mj v = Inr p \<and> p \<noteq> [] \<and> unmarshal p = Inr (J v))"

definition payload_for :: "'v Marshal \<Rightarrow> 'v \<Rightarrow> string" where
  "payload_for mj v = (case mj_marshal mj v of Inr p \<Rightarrow> p | Inl _ \<Rightarrow> [])"

definition output_frame :: "'v Marshal \<Rightarrow> string \<Rightarrow> PortDef \<Rightarrow> 'v \<Rightarrow> Frame" where
  "output_frame mj rid def v =
     plain_frame rid (FSetOutput (pd_Name def)
       (Some (output_value def (payload_for mj v)
          (if crosses_report def then payload_for mj (reported mj v) else []))))"

definition output_frames :: "'v Marshal \<Rightarrow> string \<Rightarrow> 'v TestRunEnv \<Rightarrow> PortDef list \<Rightarrow> Frame list" where
  "output_frames mj rid env defs =
     concat (map (\<lambda>def. case te_Output (pd_Name def) env of None \<Rightarrow> [] | Some v \<Rightarrow> [output_frame mj rid def v]) defs)"

text \<open>The values a run hands to the codec.\<close>

definition coded_values :: "'v Marshal \<Rightarrow> 'v TestRunEnv \<Rightarrow> PortDef list \<Rightarrow> 'v set" where
  "coded_values mj env defs =
     (\<Union>def\<in>set defs. case te_Output (pd_Name def) env of None \<Rightarrow> {} | Some v \<Rightarrow> {v, reported mj v})"

lemma codec_okD: "codec_ok mj unmarshal J V \<Longrightarrow> v \<in> V \<Longrightarrow>
    mj_marshal mj v = Inr (payload_for mj v) \<and> payload_for mj v \<noteq> [] \<and> unmarshal (payload_for mj v) = Inr (J v)"
  by (auto simp: codec_ok_def payload_for_def)

lemma codec_ok_subset: "codec_ok mj unmarshal J V \<Longrightarrow> V' \<subseteq> V \<Longrightarrow> codec_ok mj unmarshal J V'"
  by (auto simp: codec_ok_def)

lemma pipe_write_apply: "pipe_write f out = (None, out\<lparr>pp_sent := pp_sent out @ [f]\<rparr>)"
  by (simp add: pipe_write_def)

lemma writeOutputs_pipe:
  "codec_ok mj unmarshal J (coded_values mj env defs) \<Longrightarrow>
   writeOutputs pipe_write mj rid env defs out = (None, out\<lparr>pp_sent := pp_sent out @ output_frames mj rid env defs\<rparr>)"
proof (induction defs arbitrary: out)
  case (Cons def defs)
  have ih: "writeOutputs pipe_write mj rid env defs o1 = (None, o1\<lparr>pp_sent := pp_sent o1 @ output_frames mj rid env defs\<rparr>)" for o1
    using Cons.IH codec_ok_subset [OF Cons.prems, of "coded_values mj env defs"]
    by (simp add: coded_values_def)
  show ?case
  proof (cases "te_Output (pd_Name def) env")
    case None
    then show ?thesis by (simp add: ih output_frames_def)
  next
    case (Some v)
    then have "v \<in> coded_values mj env (def # defs)" "reported mj v \<in> coded_values mj env (def # defs)"
      by (auto simp: coded_values_def)
    note cs = codec_okD [OF Cons.prems this(1)] codec_okD [OF Cons.prems this(2)]
    have fr: "output_frames mj rid env (def # defs) = output_frame mj rid def v # output_frames mj rid env defs"
      using Some by (simp add: output_frames_def)
    have rp: "report_payload mj def v = Inr (if crosses_report def then payload_for mj (reported mj v) else [])"
      using cs by (simp add: report_payload_def crosses_report_def encodeJSONPayload_def flip: reported_def)
    have "encodeJSONPayload mj v = Inr (payload_for mj v)" using cs by (simp add: encodeJSONPayload_def)
    moreover have "pipe_write (output_frame mj rid def v) out = (None, out\<lparr>pp_sent := pp_sent out @ [output_frame mj rid def v]\<rparr>)"
      by (rule pipe_write_apply)
    ultimately show ?thesis
      using Some rp by (simp add: ih fr flip: output_frame_def)
  qed
qed (simp add: output_frames_def)

definition flush_frames :: "string \<Rightarrow> 'v TestRunEnv \<Rightarrow> Frame list" where
  "flush_frames rid env = (if te_MetricSnapshots env = [] then [] else [plain_frame rid (FMetricFlush (te_MetricSnapshots env))])"

lemma writeMetricFlush_pipe: "writeMetricFlush pipe_write rid env out = (None, out\<lparr>pp_sent := pp_sent out @ flush_frames rid env\<rparr>)"
  by (simp add: writeMetricFlush_def flush_frames_def pipe_write_def)

lemma handleRun_pipe:
  assumes "server_unit units (sq_Kind req) = Inr u"
    and "sv_Run u (run_env_of req ins (ud_Artifacts (sv_Definition u))) io = (None, env, io')"
    and "codec_ok mj unmarshal J (coded_values mj env (ud_Outputs (sv_Definition u)))"
  shows "handleRun pipe_write mj units req None (Inr ins) io =
    (None, io'\<lparr>pp_sent := pp_sent io' @ output_frames mj (sq_RequestId req) env (ud_Outputs (sv_Definition u)) @
           flush_frames (sq_RequestId req) env @
           [plain_frame (sq_RequestId req) (FTerminalStatus True None)]\<rparr>)"
  using assms
  by (simp add: handleRun_def Let_def writeOutputs_pipe [OF assms(3)] writeMetricFlush_pipe) (simp add: pipe_write_def)

section \<open>The host's reading of them\<close>

definition stored_value :: "'v Marshal \<Rightarrow> ('v \<Rightarrow> json) \<Rightarrow> PortDef \<Rightarrow> 'v \<Rightarrow> rvalue" where
  "stored_value mj J def v =
     (if crosses_report def then RemoteReportable (J v) (J (reported mj v)) else Decoded (J v))"

lemma setOutputFromFrame_stored:
  assumes "codec_ok mj unmarshal J V" and "v \<in> V" and "reported mj v \<in> V"
  shows "setOutputFromFrame unmarshal name (Some (output_value def (payload_for mj v)
      (if crosses_report def then payload_for mj (reported mj v) else []))) = Inr (stored_value mj J def v)"
  using codec_okD [OF assms(1,2)] codec_okD [OF assms(1,3)]
  by (simp add: setOutputFromFrame_def output_value_def stored_value_def crosses_report_def Let_def)

definition put_port :: "string \<Rightarrow> string \<times> rvalue \<Rightarrow> rvalue outputStore \<Rightarrow> rvalue outputStore" where
  "put_port u kv s = os_set u (fst kv) (snd kv) s"

definition stored_pairs :: "'v Marshal \<Rightarrow> ('v \<Rightarrow> json) \<Rightarrow> string \<Rightarrow> 'v TestRunEnv \<Rightarrow> PortDef list \<Rightarrow>
    ((string \<times> string) \<times> rvalue) list" where
  "stored_pairs mj J u env defs =
     concat (map (\<lambda>def. case te_Output (pd_Name def) env of None \<Rightarrow> []
       | Some v \<Rightarrow> [((u, pd_Name def), stored_value mj J def v)]) defs)"

lemma exec_output_frames:
  assumes "codec_ok mj (io_unmarshal io) J (coded_values mj env defs)" and "ri_request ids = rid"
  shows "exec ops fs g (run_frames io ids (map Inr (output_frames mj rid env defs) @ rest) art) s =
    exec ops fs g (run_frames io ids rest art)
      (s\<lparr>ue_outputs := ostore.put_all (stored_pairs mj J (re_unitName (ue_env s)) env defs) (ue_outputs s)\<rparr>)"
  using assms(1)
proof (induction defs arbitrary: s)
  case (Cons def defs)
  have ih: "exec ops fs g (run_frames io ids (map Inr (output_frames mj rid env defs) @ rest) art) s =
    exec ops fs g (run_frames io ids rest art)
      (s\<lparr>ue_outputs := ostore.put_all (stored_pairs mj J (re_unitName (ue_env s)) env defs) (ue_outputs s)\<rparr>)" for s
    using Cons.IH codec_ok_subset [OF Cons.prems, of "coded_values mj env defs"]
    by (simp add: coded_values_def)
  show ?case
  proof (cases "te_Output (pd_Name def) env")
    case None
    then have "output_frames mj rid env (def # defs) = output_frames mj rid env defs"
      and "stored_pairs mj J u env (def # defs) = stored_pairs mj J u env defs" for u
      by (simp_all add: output_frames_def stored_pairs_def)
    with ih show ?thesis by simp
  next
    case (Some v)
    then have V: "v \<in> coded_values mj env (def # defs)" "reported mj v \<in> coded_values mj env (def # defs)"
      by (auto simp: coded_values_def)
    have fr: "output_frames mj rid env (def # defs) = output_frame mj rid def v # output_frames mj rid env defs"
      and sp: "stored_pairs mj J u env (def # defs) = ((u, pd_Name def), stored_value mj J def v) # stored_pairs mj J u env defs" for u
      using Some by (simp_all add: output_frames_def stored_pairs_def)
    have "exec ops fs g (run_frames io ids (map Inr (output_frames mj rid env (def # defs)) @ rest) art) s =
        exec ops fs g (run_frames io ids (map Inr (output_frames mj rid env defs) @ rest) art)
          (s\<lparr>ue_outputs := os_set (re_unitName (ue_env s)) (pd_Name def) (stored_value mj J def v) (ue_outputs s)\<rparr>)"
      using setOutputFromFrame_stored [OF Cons.prems V, of "pd_Name def" def] assms(2)
      by (simp add: fr) (simp add: output_frame_def plain_frame_def handleRunLifecycleFrame_def)
    then show ?thesis by (simp add: ih sp)
  qed
qed (simp add: output_frames_def stored_pairs_def)

lemma exec_flush:
  "exec ops fs g (flush_snapshots ms p) s =
   exec ops fs g p (with_env (\<lambda>e. e\<lparr>re_metrics := foldl (\<lambda>m x. recordSnapshot x m) (re_metrics e) ms\<rparr>) s)"
proof (induction ms arbitrary: s)
  case (Cons m ms)
  show ?case
  proof (cases "ms_Count m \<le> 0")
    case True
    with Cons show ?thesis by (simp add: recordSnapshot_def)
  next
    case False
    with Cons show ?thesis by (simp add: with_env_def)
  qed
qed (simp add: with_env_def)

lemma exec_flush_frames:
  assumes "ri_request ids = rid"
  shows "exec ops fs g (run_frames io ids (map Inr (flush_frames rid env) @ rest) art) s =
    exec ops fs g (run_frames io ids rest art)
      (with_env (\<lambda>e. e\<lparr>re_metrics := foldl (\<lambda>m x. recordSnapshot x m) (re_metrics e) (te_MetricSnapshots env)\<rparr>) s)"
  using assms
  by (simp add: flush_frames_def plain_frame_def handleRunLifecycleFrame_def exec_flush)
    (simp add: with_env_def)

lemma exec_terminal:
  assumes "ri_request ids = rid" and "ra_writers art = fmempty"
  shows "exec ops fs g (run_frames io ids [Inr (plain_frame rid (FTerminalStatus True None))] art) s = (None, s)"
  using assms
  by (simp add: plain_frame_def handleRunLifecycleFrame_def closeAll_def finish_response_def)

text \<open>
  The whole remote run. \<open>sent\<close> is what the unit sent while it ran; the host has read it into the state \<open>s'\<close>.
\<close>

lemma remote_run:
  assumes "server_unit units (sq_Kind req) = Inr u"
    and "sv_Run u (run_env_of req ins (ud_Artifacts (sv_Definition u))) \<lparr>pp_sent = [], pp_inbox = answers\<rparr> =
      (None, env, \<lparr>pp_sent = sent, pp_inbox = []\<rparr>)"
    and "codec_ok mj (io_unmarshal io) J (coded_values mj env (ud_Outputs (sv_Definition u)))"
    and "ri_request ids = sq_RequestId req"
    and "\<And>rest. exec ops fs g (host_Run io ids (map Inr (sent @ rest))) s = exec ops fs g (run_frames io ids (map Inr rest) art) s'"
    and "ra_writers art = fmempty"
  defines "frames \<equiv> pp_sent (snd (handleRun pipe_write mj units req None (Inr ins) \<lparr>pp_sent = [], pp_inbox = answers\<rparr>))"
  shows "exec ops fs g (host_Run io ids (map Inr frames)) s =
    (None,
     with_env (\<lambda>e. e\<lparr>re_metrics := foldl (\<lambda>m x. recordSnapshot x m) (re_metrics e) (te_MetricSnapshots env)\<rparr>)
       (s'\<lparr>ue_outputs := ostore.put_all
            (stored_pairs mj J (re_unitName (ue_env s')) env (ud_Outputs (sv_Definition u))) (ue_outputs s')\<rparr>))"
proof -
  let ?tail = "output_frames mj (sq_RequestId req) env (ud_Outputs (sv_Definition u)) @
      flush_frames (sq_RequestId req) env @ [plain_frame (sq_RequestId req) (FTerminalStatus True None)]"
  have "frames = sent @ ?tail"
    by (simp add: frames_def handleRun_pipe [OF assms(1-3)])
  then have "exec ops fs g (host_Run io ids (map Inr frames)) s = exec ops fs g (run_frames io ids (map Inr ?tail) art) s'"
    by (simp only: assms(5))
  moreover have "(map Inr ?tail :: (goerr + Frame) list) = map Inr (output_frames mj (sq_RequestId req) env (ud_Outputs (sv_Definition u))) @
      map Inr (flush_frames (sq_RequestId req) env) @
      [Inr (plain_frame (sq_RequestId req) (FTerminalStatus True None))]" by simp
  ultimately show ?thesis
    by (simp only: exec_output_frames [OF assms(3,4)] exec_flush_frames [OF assms(4)]
        exec_terminal [OF assms(4,6)])
qed

lemma stored_pairs_lookup:
  assumes "distinct (map pd_Name defs)" and "def \<in> set defs" and "te_Output (pd_Name def) env = Some v"
  shows "os_lookup (n, pd_Name def) (ostore.put_all (stored_pairs mj J n env defs) s) = Some (stored_value mj J def v)"
proof (rule ostore.get_put_all_distinct)
  show "((n, pd_Name def), stored_value mj J def v) \<in> set (stored_pairs mj J n env defs)"
    using assms(2,3) by (force simp: stored_pairs_def)
  have "map fst (stored_pairs mj J n env ds) =
      map (\<lambda>d. (n, pd_Name d)) (filter (\<lambda>d. te_Output (pd_Name d) env \<noteq> None) ds)" for ds
    by (induction ds) (auto simp: stored_pairs_def split: option.splits)
  moreover have "distinct (map (\<lambda>d. (n, pd_Name d)) (filter P ds))" if "distinct (map pd_Name ds)" for P ds
    using that by (induction ds) auto
  ultimately show "distinct (map fst (stored_pairs mj J n env defs))" using assms(1) by simp
qed

end
