(* ===== verification/Remote_Unit.thy ===== *)
theory Remote_Unit
  imports Host_Calls Remote_Facts
begin

text \<open>
  The unit of a plugin as the kernel sees it: \<open>benchkit/pluginhost/remote_unit.go\<close>, and \<open>StdioClient.Run\<close> of
  \<open>stdio_client.go\<close> as a program of \<open>RunEnv\<close> calls. The last sections follow a run from the kernel into
  the plugin and back.
\<close>

section \<open>The adapter\<close>

record remoteUnit =
  ru_unit :: PluginUnit
  ru_aliasKind :: string

definition NewRemoteUnit :: "PluginUnit \<Rightarrow> remoteUnit" where
  "NewRemoteUnit unit = \<lparr>ru_unit = unit, ru_aliasKind = []\<rparr>"

definition NewRemoteUnitAlias :: "PluginUnit \<Rightarrow> string \<Rightarrow> remoteUnit" where
  "NewRemoteUnitAlias unit aliasKind = \<lparr>ru_unit = unit, ru_aliasKind = aliasKind\<rparr>"

definition remote_Definition :: "remoteUnit \<Rightarrow> UnitDef" where
  "remote_Definition u =
     (let def = PluginUnit_Definition (ru_unit u)
      in if ru_aliasKind u \<noteq> [] then def\<lparr>ud_Kind := ru_aliasKind u\<rparr> else def)"

text \<open>\<open>json.Marshal\<close> of values and its inverse, as the host uses them.\<close>

record hostJSON =
  hj_marshal :: "json \<Rightarrow> string result"
  hj_unmarshal :: "string \<Rightarrow> json result"

definition json_object :: "json gomap \<Rightarrow> json" where
  "json_object m = JObject (map (\<lambda>k. (k, the (fmlookup m k))) (map_keys m))"

definition base_DecodeSpec :: "hostJSON \<Rightarrow> baseEnv \<Rightarrow> json gomap result" where
  "base_DecodeSpec js e =
     (case hj_marshal js (JObject (be_spec e)) of
        Inl err \<Rightarrow> Inl err
      | Inr data \<Rightarrow> (case hj_unmarshal js data of Inl err \<Rightarrow> Inl err | Inr j \<Rightarrow> json_map j))"

definition encodeSpec :: "hostJSON \<Rightarrow> baseEnv \<Rightarrow> string result" where
  "encodeSpec js e =
     (case base_DecodeSpec js e of Inl err \<Rightarrow> Inl err | Inr spec \<Rightarrow> hj_marshal js (json_object spec))"

definition validate_request :: "remoteUnit \<Rightarrow> baseEnv \<Rightarrow> string \<Rightarrow> UnitRequest" where
  "validate_request u e spec =
     \<lparr>uq_PluginName = pu_PluginName (ru_unit u), uq_UnitName = be_unitName e, uq_Kind = pu_Kind (ru_unit u),
      uq_RunID = [], uq_RunDurationMillis = 0, uq_WorkerCount = 0, uq_SpecJSON = spec\<rparr>"

definition plan_request :: "remoteUnit \<Rightarrow> baseEnv \<Rightarrow> string \<Rightarrow> UnitRequest" where
  "plan_request u e spec =
     (validate_request u e spec)\<lparr>uq_RunID := be_RunID e, uq_RunDurationMillis := be_RunDuration e sdiv 1000000,
        uq_WorkerCount := be_WorkerCount e\<rparr>"

definition run_request :: "remoteUnit \<Rightarrow> baseEnv \<Rightarrow> string \<Rightarrow> 'v gomap \<Rightarrow> PortDef gomap \<Rightarrow> 'v RunRequest" where
  "run_request u e spec inputs sources =
     UnitRequest.extend (plan_request u e spec)
       \<lparr>rq_InputDefs = ud_Inputs (PluginUnit_Definition (ru_unit u)), rq_InputSourceDefs = sources, rq_Inputs = inputs\<rparr>"

definition remote_Validate :: "hostJSON \<Rightarrow> remoteUnit \<Rightarrow> baseEnv \<Rightarrow> call \<Rightarrow> hostClient \<Rightarrow> (unit result \<times> hostClient) option" where
  "remote_Validate js u e cl c =
     (case encodeSpec js e of
        Inl err \<Rightarrow> Some (Inl err, c)
      | Inr spec \<Rightarrow> client_Validate (validate_request u e spec) cl c)"

definition remote_Plan :: "hostJSON \<Rightarrow> (string \<Rightarrow> Plan result) \<Rightarrow> remoteUnit \<Rightarrow> baseEnv \<Rightarrow> call \<Rightarrow> hostClient \<Rightarrow>
    (Plan result \<times> hostClient) option" where
  "remote_Plan js unmarshal u e cl c =
     (case encodeSpec js e of
        Inl err \<Rightarrow> Some (Inl err, c)
      | Inr spec \<Rightarrow> client_Plan unmarshal (plan_request u e spec) cl c)"

section \<open>Running\<close>

text \<open>A deferred action of the world at the end of a program.\<close>

primrec finally_act :: "('w \<Rightarrow> 'w) \<Rightarrow> ('v, 'w, 'x) uprog \<Rightarrow> ('v, 'w, 'x) uprog" where
  "finally_act f (Return x) = Act f (\<lambda>_. Return x)"
| "finally_act f (Input name k) = Input name (\<lambda>r. finally_act f (k r))"
| "finally_act f (InputSourcePort name k) = InputSourcePort name (\<lambda>r. finally_act f (k r))"
| "finally_act f (SetOutput name v p) = SetOutput name v (finally_act f p)"
| "finally_act f (Emit x p) = Emit x (finally_act f p)"
| "finally_act f (RecordSnapshot m p) = RecordSnapshot m (finally_act f p)"
| "finally_act f (NextID pre k) = NextID pre (\<lambda>r. finally_act f (k r))"
| "finally_act f (OpenArtifact name k) = OpenArtifact name (\<lambda>r. finally_act f (k r))"
| "finally_act f (WriteArtifact h n p) = WriteArtifact h n (finally_act f p)"
| "finally_act f (CloseArtifact h err k) = CloseArtifact h err (\<lambda>r. finally_act f (k r))"
| "finally_act f (Act a k) = Act a (\<lambda>w. finally_act f (k w))"

lemma exec_finally_act:
  "exec ops fs g (finally_act f p) s =
     (fst (exec ops fs g p s), (snd (exec ops fs g p s))\<lparr>ue_world := f (ue_world (snd (exec ops fs g p s)))\<rparr>)"
  by (induction p arbitrary: s) (simp_all split: sum.split)

text \<open>
  What a run needs of the client: the check of the context on entry, a request id with its waiter, the
  request on its way, the frames the waiter gets, and the end of the waiter.
\<close>

record 'w clientIO =
  ci_enter :: "'w \<Rightarrow> goerr option \<times> 'w"
  ci_begin :: "'w \<Rightarrow> string \<times> 'w"
  ci_write :: "Frame \<Rightarrow> 'w \<Rightarrow> goerr option \<times> 'w"
  ci_frames :: "string \<Rightarrow> 'w \<Rightarrow> (goerr + Frame) list \<times> 'w"
  ci_end :: "string \<Rightarrow> 'w \<Rightarrow> 'w"

text \<open>What \<open>json.Marshal\<close> sees of a value: \<open>remoteReportableOutput\<close> brings its own \<open>MarshalJSON\<close>.\<close>

fun rvalue_json :: "rvalue \<Rightarrow> json" where
  "rvalue_json (Decoded v) = v"
| "rvalue_json (RemoteReportable v r) = v"

definition client_Run :: "hostJSON \<Rightarrow> 'w RemoteIO \<Rightarrow> 'w clientIO \<Rightarrow> rvalue RunRequest \<Rightarrow> 'w rprog" where
  "client_Run js io ci req =
     act (ci_enter ci) (\<lambda>ctxErr. case ctxErr of
        Some err \<Rightarrow> Return (Some err)
      | None \<Rightarrow>
          (case encodeInputPortValues (\<lambda>v. hj_marshal js (rvalue_json v)) (map_keys (rq_Inputs req)) (rq_InputDefs req)
                  (rq_InputSourceDefs req) (rq_Inputs req) of
             Inl err \<Rightarrow> Return (Some err)
           | Inr inputs \<Rightarrow>
               act (ci_begin ci) (\<lambda>rid.
                 finally_act (ci_end ci rid)
                   (act (ci_write ci (run_frame req inputs rid)) (\<lambda>writeErr. case writeErr of
                      Some err \<Rightarrow> Return (Some (Errorf ''write run request: %w'' [ArgE err]))
                    | None \<Rightarrow>
                        act (ci_frames ci rid)
                          (\<lambda>frames. host_Run io \<lparr>ri_request = rid, ri_run = uq_RunID req, ri_unit = uq_UnitName req\<rparr> frames))))))"

text \<open>\<open>collectInputs\<close> and \<open>collectInputSourceDefs\<close> as the calls they make.\<close>

fun collect_inputs :: "PortDef list \<Rightarrow> 'v gomap \<Rightarrow> ('v gomap result \<Rightarrow> ('v, 'w, 'x) uprog) \<Rightarrow> ('v, 'w, 'x) uprog" where
  "collect_inputs [] inputs k = k (Inr inputs)"
| "collect_inputs (def # defs) inputs k =
     Input (pd_Name def) (\<lambda>r. case r of
        Inl err \<Rightarrow> if pd_Optional def then collect_inputs defs inputs k else k (Inl err)
      | Inr value \<Rightarrow> collect_inputs defs (fmupd (pd_Name def) value inputs) k)"

fun collect_sources :: "string list \<Rightarrow> PortDef gomap \<Rightarrow> (PortDef gomap result \<Rightarrow> ('v, 'w, 'x) uprog) \<Rightarrow> ('v, 'w, 'x) uprog" where
  "collect_sources [] out k = k (Inr out)"
| "collect_sources (name # names) out k =
     InputSourcePort name (\<lambda>r. case r of
        None \<Rightarrow> k (Inl (Errorf ''input %q source port metadata not found'' [ArgS name]))
      | Some def \<Rightarrow> collect_sources names (fmupd name def out) k)"

definition remote_Run :: "hostJSON \<Rightarrow> 'w RemoteIO \<Rightarrow> 'w clientIO \<Rightarrow> remoteUnit \<Rightarrow> baseEnv \<Rightarrow> 'w rprog" where
  "remote_Run js io ci u e =
     (case encodeSpec js e of
        Inl err \<Rightarrow> Return (Some err)
      | Inr spec \<Rightarrow>
          collect_inputs (ud_Inputs (PluginUnit_Definition (ru_unit u))) fmempty (\<lambda>r. case r of
             Inl err \<Rightarrow> Return (Some err)
           | Inr inputs \<Rightarrow>
               collect_sources (map_keys inputs) fmempty (\<lambda>r. case r of
                  Inl err \<Rightarrow> Return (Some err)
                | Inr sources \<Rightarrow> client_Run js io ci (run_request u e spec inputs sources))))"

text \<open>
  \<open>remoteBackgroundUnit.Start\<close>: the same requests to the environment, then the client's \<open>Start\<close>. \<open>input\<close> and \<open>sourcePort\<close>
  are the answers of the environment.
\<close>

definition remote_Start :: "hostJSON \<Rightarrow> remoteUnit \<Rightarrow> baseEnv \<Rightarrow> (string \<Rightarrow> rvalue result) \<Rightarrow> (string \<Rightarrow> PortDef option) \<Rightarrow> call \<Rightarrow>
    ((hostClient \<Rightarrow> hostClient) \<times> goerr option \<times> lifecycleOutcome) list \<Rightarrow> hostClient \<Rightarrow> (nat result \<times> hostClient) option" where
  "remote_Start js u e input sourcePort cl rounds c =
     (case encodeSpec js e of
        Inl err \<Rightarrow> Some (Inl err, c)
      | Inr spec \<Rightarrow>
          (case collectInputs input (ud_Inputs (PluginUnit_Definition (ru_unit u))) fmempty of
             Inl err \<Rightarrow> Some (Inl err, c)
           | Inr inputs \<Rightarrow>
               (case collectInputSourceDefs (Some sourcePort) (map_keys inputs) inputs of
                  Inl err \<Rightarrow> Some (Inl err, c)
                | Inr sources \<Rightarrow>
                    client_Start (\<lambda>v. hj_marshal js (rvalue_json v)) (map_keys inputs) (run_request u e spec inputs sources) cl rounds c)))"

text \<open>The same as the functions of \<open>Port_Gate\<close> on the environment's answers.\<close>

lemma exec_collect_inputs:
  "exec ops fs g (collect_inputs defs inputs k) s =
     exec ops fs g (k (collectInputs (run_Input ops g (ue_outputs s) (ue_env s)) defs inputs)) s"
  by (induction defs arbitrary: inputs) (simp_all split: sum.split)

lemma exec_collect_sources:
  "exec ops fs g (collect_sources names out k) s =
     exec ops fs g (k (source_defs (run_InputSourcePort g (ue_env s)) names out)) s"
  by (induction names arbitrary: out) (simp_all split: option.split)

section \<open>What reaches the plugin\<close>

text \<open>A codec whose decoder undoes the encoder and whose encodings are not empty.\<close>

definition json_codec :: "hostJSON \<Rightarrow> (string \<Rightarrow> json result) \<Rightarrow> bool" where
  "json_codec js unmarshal \<longleftrightarrow>
     (\<forall>j data. hj_marshal js j = Inr data \<longrightarrow> data \<noteq> [] \<and> hj_unmarshal js data = Inr j \<and> unmarshal data = Inr j)"

lemma json_codecD:
  "json_codec js unmarshal \<Longrightarrow> hj_marshal js j = Inr data \<Longrightarrow> data \<noteq> [] \<and> hj_unmarshal js data = Inr j \<and> unmarshal data = Inr j"
  by (simp add: json_codec_def)

definition pairs_map :: "(string \<times> json) list \<Rightarrow> json gomap" where
  "pairs_map kvs = foldl (\<lambda>m kv. fmupd (fst kv) (snd kv) m) fmempty kvs"

lemma json_map_object [simp]: "json_map (JObject kvs) = Inr (pairs_map kvs)"
  by (simp add: json_map_def pairs_map_def)

lemma pairs_map_append: "fmlookup (foldl (\<lambda>m kv. fmupd (fst kv) (snd kv) m) m kvs) k =
    (case map_of (rev kvs) k of Some v \<Rightarrow> Some v | None \<Rightarrow> fmlookup m k)"
  by (induction kvs arbitrary: m) (auto simp: map_add_def split: option.splits)

lemma pairs_map_lookup: "fmlookup (pairs_map kvs) k = map_of (rev kvs) k"
  by (simp add: pairs_map_def pairs_map_append split: option.split)

lemma pairs_map_object: "json_map (json_object m) = Inr m"
proof -
  let ?f = "\<lambda>k. (k, the (fmlookup m k))"
  have "map_of (rev (map ?f (map_keys m))) k = fmlookup m k" for k
  proof -
    have "distinct (map fst (rev (map ?f (map_keys m))))" by (simp add: rev_map comp_def)
    moreover have "(k, v) \<in> set (map ?f (map_keys m)) \<longleftrightarrow> fmlookup m k = Some v" for v
      by (force simp: fmlookup_dom_iff)
    ultimately show ?thesis
      by (cases "fmlookup m k") (auto simp: map_of_eq_None_iff fmlookup_dom_iff simp flip: map_of_eq_Some_iff)
  qed
  then have "pairs_map (map ?f (map_keys m)) = m" by (intro fmap_ext) (simp add: pairs_map_lookup)
  then show ?thesis by (simp add: json_object_def)
qed

lemma spec_round_trip:
  assumes "json_codec js unmarshal" and "encodeSpec js e = Inr data"
  shows "decodeSpecMap unmarshal data = Inr (pairs_map (be_spec e))"
proof -
  from assms(2) obtain d where d: "hj_marshal js (JObject (be_spec e)) = Inr d" by (auto simp: encodeSpec_def base_DecodeSpec_def split: sum.splits)
  with json_codecD [OF assms(1) d] assms(2) have "hj_marshal js (json_object (pairs_map (be_spec e))) = Inr data"
    by (simp add: encodeSpec_def base_DecodeSpec_def)
  from json_codecD [OF assms(1) this] show ?thesis by (simp add: decodeSpecMap_def pairs_map_object)
qed

lemma decode_inputs_ok:
  assumes "\<And>n. n \<in> set names \<Longrightarrow> \<exists>j. vl_payload (the (fmlookup vals n)) \<noteq> [] \<and> unmarshal (vl_payload (the (fmlookup vals n))) = Inr (J n)"
  shows "\<exists>m. decode_inputs unmarshal anyv vals names out = Inr m \<and>
    (\<forall>n. fmlookup m n = (if n \<in> set names then Some (anyv (J n)) else fmlookup out n))"
  using assms
proof (induction names arbitrary: out)
  case (Cons name names)
  from Cons.prems [of name] have p: "vl_payload (the (fmlookup vals name)) \<noteq> []"
    "unmarshal (vl_payload (the (fmlookup vals name))) = Inr (J name)" by auto
  from Cons.IH [of "fmupd name (anyv (J name)) out"] Cons.prems obtain m where
    "decode_inputs unmarshal anyv vals names (fmupd name (anyv (J name)) out) = Inr m"
    "\<forall>n. fmlookup m n = (if n \<in> set names then Some (anyv (J n)) else fmlookup (fmupd name (anyv (J name)) out) n)"
    by auto
  with p show ?case by (intro exI [of _ m]) (auto simp: Let_def)
qed simp

lemma encoded_inputs_decode:
  assumes codec: "json_codec js unmarshal"
    and enc: "encodeInputPortValues (\<lambda>v. hj_marshal js (rvalue_json v)) (map_keys inputs) defs sources inputs = Inr vals"
    and order: "set names = fset (fmdom vals)"
  shows "decodeInputValues unmarshal anyv names vals = Inr (fmmap (\<lambda>v. anyv (rvalue_json v)) inputs)"
proof -
  have dom: "fset (fmdom vals) = fset (fmdom inputs)" and
    pay: "\<And>n pv. fmlookup vals n = Some pv \<Longrightarrow> \<exists>v. fmlookup inputs n = Some v \<and> hj_marshal js (rvalue_json v) = Inr (vl_payload pv)"
    using inputs_encoded [OF enc] by auto
  let ?J = "\<lambda>n. rvalue_json (the (fmlookup inputs n))"
  have "vl_payload (the (fmlookup vals n)) \<noteq> [] \<and> unmarshal (vl_payload (the (fmlookup vals n))) = Inr (?J n)"
    if "n \<in> set names" for n
  proof -
    from that order obtain pv where pv: "fmlookup vals n = Some pv" by (auto simp: fmlookup_dom_iff)
    from pay [OF this] obtain v where "fmlookup inputs n = Some v" "hj_marshal js (rvalue_json v) = Inr (vl_payload pv)" by blast
    with json_codecD [OF codec this(2)] pv show ?thesis by simp
  qed
  then obtain m where m: "decode_inputs unmarshal anyv vals names fmempty = Inr m"
    "\<forall>n. fmlookup m n = (if n \<in> set names then Some (anyv (?J n)) else None)"
    using decode_inputs_ok [of names vals unmarshal ?J anyv fmempty] by auto
  have "fmlookup m n = map_option (\<lambda>v. anyv (rvalue_json v)) (fmlookup inputs n)" for n
  proof -
    have "n \<in> set names \<longleftrightarrow> fmlookup inputs n \<noteq> None" unfolding order dom by (simp add: fmlookup_dom_iff)
    with m(2) show ?thesis by auto
  qed
  then have "m = fmmap (\<lambda>v. anyv (rvalue_json v)) inputs" by (intro fmap_ext) simp
  with m(1) show ?thesis by (simp add: decodeInputValues_def)
qed

text \<open>The request the plugin's handler is called with.\<close>

definition served_request_of :: "remoteUnit \<Rightarrow> baseEnv \<Rightarrow> string \<Rightarrow> ServeRequest" where
  "served_request_of u e rid =
     request_of rid (be_unitName e) (pu_Kind (ru_unit u)) (be_RunID e) (be_RunDuration e sdiv 1000000) 1"

lemma run_request_served:
  assumes "json_codec js (pl_unmarshal p)" and "encodeSpec js e = Inr data"
    and "encodeInputPortValues (\<lambda>v. hj_marshal js (rvalue_json v)) (map_keys inputs) defs sources inputs = Inr vals"
    and "set (pl_order p vals) = fset (fmdom vals)"
  shows "serve_frame p (run_frame (run_request u e data inputs srcs) vals rid) (ts, io) =
    with_tasks ts (handleRun (pl_write p) (pl_marshal p) (pl_units p (pairs_map (be_spec e))) (served_request_of u e rid) None
      (Inr (fmmap (\<lambda>v. pl_any p (rvalue_json v)) inputs)) io)"
  using encoded_inputs_decode [OF assms(1,3,4), of "pl_any p"] spec_round_trip [OF assms(1,2)]
  by (simp add: serve_frame_def run_frame_def request_frame_def run_request_def plan_request_def validate_request_def
      UnitRequest.defs Let_def decoded_def spec_error_def served_request_of_def be_WorkerCount_def wrap32_def)

text \<open>A client that gets what the plugin \<open>p\<close> writes for its request, given the answers it sent meanwhile.\<close>

definition direct_client :: "(Frame \<Rightarrow> Frame list) \<Rightarrow> string \<Rightarrow> Frame \<Rightarrow> 'w clientIO" where
  "direct_client plugin rid request =
     \<lparr>ci_enter = (\<lambda>w. (None, w)), ci_begin = (\<lambda>w. (rid, w)), ci_write = (\<lambda>_ w. (None, w)),
      ci_frames = (\<lambda>_ w. (map Inr (plugin request), w)), ci_end = (\<lambda>_ w. w)\<rparr>"

definition served_frames :: "('v, pipe) served \<Rightarrow> taskServer \<Rightarrow> Frame list \<Rightarrow> Frame \<Rightarrow> Frame list" where
  "served_frames p ts answers f = pp_sent (snd (snd (serve_frame p f (ts, \<lparr>pp_sent = [], pp_inbox = answers\<rparr>))))"

lemma exec_client_Run_direct:
  assumes "encodeInputPortValues (\<lambda>v. hj_marshal js (rvalue_json v)) (map_keys (rq_Inputs req)) (rq_InputDefs req)
      (rq_InputSourceDefs req) (rq_Inputs req) = Inr vals"
  shows "exec ops fs g (client_Run js io (direct_client plugin rid (run_frame req vals rid)) req) s =
    exec ops fs g (host_Run io \<lparr>ri_request = rid, ri_run = uq_RunID req, ri_unit = uq_UnitName req\<rparr>
      (map Inr (plugin (run_frame req vals rid)))) s"
  using assms by (simp add: client_Run_def direct_client_def act_def exec_finally_act)

lemma remote_unit_run:
  assumes plug: "pl_write p = pipe_write" "json_codec js (pl_unmarshal p)" "set (pl_order p vals) = fset (fmdom vals)"
    and spec: "encodeSpec js e = Inr data"
    and ins: "collectInputs (run_Input ops g (ue_outputs s) (ue_env s)) (pu_Inputs (ru_unit u)) fmempty = Inr inputs"
    and srcs: "source_defs (run_InputSourcePort g (ue_env s)) (map_keys inputs) fmempty = Inr sources"
    and enc: "encodeInputPortValues (\<lambda>v. hj_marshal js (rvalue_json v)) (map_keys inputs) (pu_Inputs (ru_unit u)) sources inputs = Inr vals"
    and unit: "fmlookup (pl_units p (pairs_map (be_spec e))) (pu_Kind (ru_unit u)) = Some un"
    and run: "sv_Run un (run_env_of (served_request_of u e rid) (fmmap (\<lambda>v. pl_any p (rvalue_json v)) inputs) (ud_Artifacts (sv_Definition un)))
        \<lparr>pp_sent = [], pp_inbox = answers\<rparr> = (None, env, \<lparr>pp_sent = sent, pp_inbox = []\<rparr>)"
    and codec: "codec_ok (pl_marshal p) (io_unmarshal io) J (coded_values (pl_marshal p) env (ud_Outputs (sv_Definition un)))"
    and host: "\<And>rest. exec ops fs g (host_Run io \<lparr>ri_request = rid, ri_run = be_RunID e, ri_unit = be_unitName e\<rparr> (map Inr (sent @ rest))) s =
        exec ops fs g (run_frames io \<lparr>ri_request = rid, ri_run = be_RunID e, ri_unit = be_unitName e\<rparr> (map Inr rest) art) s'"
    and art: "ra_writers art = fmempty"
  shows "exec ops fs g (remote_Run js io (direct_client (served_frames p ts answers) rid
      (run_frame (run_request u e data inputs sources) vals rid)) u e) s =
    (None,
     with_env (\<lambda>e. e\<lparr>re_metrics := foldl (\<lambda>m x. recordSnapshot x m) (re_metrics e) (te_MetricSnapshots env)\<rparr>)
       (s'\<lparr>ue_outputs := ostore.put_all
            (stored_pairs (pl_marshal p) J (re_unitName (ue_env s')) env (ud_Outputs (sv_Definition un))) (ue_outputs s')\<rparr>))"
proof -
  let ?req = "run_request u e data inputs sources"
  have req: "rq_Inputs ?req = inputs" "rq_InputDefs ?req = pu_Inputs (ru_unit u)" "rq_InputSourceDefs ?req = sources"
    "uq_RunID ?req = be_RunID e" "uq_UnitName ?req = be_unitName e"
    by (simp_all add: run_request_def plan_request_def validate_request_def UnitRequest.defs PluginUnit_Definition_def)
  have enc': "encodeInputPortValues (\<lambda>v. hj_marshal js (rvalue_json v)) (map_keys (rq_Inputs ?req)) (rq_InputDefs ?req)
      (rq_InputSourceDefs ?req) (rq_Inputs ?req) = Inr vals" using enc by (simp add: req)
  have frames: "served_frames p ts answers (run_frame ?req vals rid) = pp_sent (snd (handleRun pipe_write (pl_marshal p)
      (pl_units p (pairs_map (be_spec e))) (served_request_of u e rid) None (Inr (fmmap (\<lambda>v. pl_any p (rvalue_json v)) inputs))
      \<lparr>pp_sent = [], pp_inbox = answers\<rparr>))"
    by (simp add: served_frames_def run_request_served [OF plug(2) spec enc plug(3)] plug(1) with_tasks_def split_beta)
  have "server_unit (pl_units p (pairs_map (be_spec e))) (sq_Kind (served_request_of u e rid)) = Inr un"
    using unit by (simp add: server_unit_def served_request_of_def request_of_def)
  from remote_run [OF this run codec _ host art] have
    "exec ops fs g (host_Run io \<lparr>ri_request = rid, ri_run = be_RunID e, ri_unit = be_unitName e\<rparr>
        (map Inr (served_frames p ts answers (run_frame ?req vals rid)))) s =
     (None,
     with_env (\<lambda>e. e\<lparr>re_metrics := foldl (\<lambda>m x. recordSnapshot x m) (re_metrics e) (te_MetricSnapshots env)\<rparr>)
       (s'\<lparr>ue_outputs := ostore.put_all
            (stored_pairs (pl_marshal p) J (re_unitName (ue_env s')) env (ud_Outputs (sv_Definition un))) (ue_outputs s')\<rparr>))"
    by (simp add: frames served_request_of_def request_of_def)
  moreover have "exec ops fs g (remote_Run js io ci u e) s = exec ops fs g (client_Run js io ci ?req) s" for ci
    using ins srcs by (simp add: remote_Run_def spec exec_collect_inputs exec_collect_sources PluginUnit_Definition_def)
  ultimately show ?thesis by (simp add: exec_client_Run_direct [OF enc'] req)
qed

section \<open>A unit in a plugin\<close>


definition tiny_json :: hostJSON where
  "tiny_json =
     \<lparr>hj_marshal = (\<lambda>j. if j = JObject [] then Inr ''{}'' else if j = JInt 1 then Inr ''1'' else Inl (Errorf ''unsupported'' [])),
      hj_unmarshal = (\<lambda>s. if s = ''{}'' then Inr (JObject []) else if s = ''1'' then Inr (JInt 1) else Inl (Errorf ''unsupported'' []))\<rparr>"

lemma tiny_json_codec: "json_codec tiny_json (hj_unmarshal tiny_json)"
  by (auto simp: json_codec_def tiny_json_def split: if_splits)

definition tiny_env :: baseEnv where
  "tiny_env = newBaseEnv \<lparr>sc_Version = [], sc_Run = \<lparr>rc_ID = ''r'', rc_Duration = 2000000, rc_Seed = 0, rc_ReportDir = []\<rparr>,
     sc_Vars = fmempty, sc_Units = fmempty\<rparr> ''a'' []"

lemma tiny_spec: "encodeSpec tiny_json tiny_env = Inr ''{}''"
proof -
  have "map_keys (pairs_map []) = []" by (simp add: pairs_map_def)
  then show ?thesis
    by (simp add: encodeSpec_def base_DecodeSpec_def tiny_json_def tiny_env_def newBaseEnv_def json_object_def)
qed

definition tiny_served :: "(int, pipe) served" where
  "tiny_served = sample_served\<lparr>pl_unmarshal := hj_unmarshal tiny_json, pl_any := (\<lambda>j. case j of JInt i \<Rightarrow> i | _ \<Rightarrow> 0)\<rparr>"

definition tiny_inputs :: "rvalue gomap" where
  "tiny_inputs = fmupd ''in'' (Decoded (JInt 1)) fmempty"



definition tiny_unit :: remoteUnit where
  "tiny_unit = NewRemoteUnit (unit_to_manifest (sample_served_def, False))"


end
