(* ===== verification/Plugin_Load.thy ===== *)
theory Plugin_Load
  imports Plugin_Config Remote_Unit Engine_Plan
begin

text \<open>
  Plugin processes in the command line (\<open>cmd/wkbench/main.go\<close>, \<open>official_plugins.go\<close> and the inspection of
  \<open>plugin_commands.go\<close>): starting them, the handshake, registering their units under a
  qualified and a bare kind, and closing them. What a process does is a parameter; \<open>cs_started\<close> and \<open>cs_closed\<close>
  are not part of the program, they record the clients.
\<close>

section \<open>Processes and the state of a command\<close>

record ('c, 'w) plugins =
  ps_StdinPipe :: "string \<Rightarrow> 'w \<Rightarrow> goerr option"
  ps_StdoutPipe :: "string \<Rightarrow> 'w \<Rightarrow> goerr option"
  ps_Exec :: "int option \<Rightarrow> string \<Rightarrow> string list \<Rightarrow> 'w \<Rightarrow> 'c result \<times> 'w"
  ps_Handshake :: "int option \<Rightarrow> 'c \<Rightarrow> 'w \<Rightarrow> Plugin result \<times> 'w"
  ps_Close :: "'c \<Rightarrow> 'w \<Rightarrow> goerr option \<times> 'w"
  ps_Validate :: "'c \<Rightarrow> UnitRequest \<Rightarrow> 'w \<Rightarrow> goerr option \<times> 'w"
  ps_Plan :: "'c \<Rightarrow> UnitRequest \<Rightarrow> 'w \<Rightarrow> Plan result \<times> 'w"
  ps_io :: "'c \<Rightarrow> 'w clientIO"
  ps_Task :: "'c \<Rightarrow> rvalue RunRequest \<Rightarrow> (rvalue, 'w, (rvalue, 'w) Task option \<times> goerr option) uprog"

record ('c, 'w) cli =
  cs_world :: 'w
  cs_stderr :: "printed list"
  cs_started :: "'c list"
  cs_closed :: "'c list"

definition say :: "printed list \<Rightarrow> ('c, 'w) cli \<Rightarrow> ('c, 'w) cli" where
  "say ps s = s\<lparr>cs_stderr := cs_stderr s @ ps\<rparr>"

abbreviation with_world :: "'w \<Rightarrow> ('c, 'w) cli \<Rightarrow> ('c, 'w) cli" where
  "with_world w s \<equiv> s\<lparr>cs_world := w\<rparr>"

text \<open>The first argument is the time limit of the context, if it has one.\<close>

definition StartStdioCommand :: "('c, 'w) plugins \<Rightarrow> int option \<Rightarrow> string \<Rightarrow> string list \<Rightarrow> 'w \<Rightarrow> 'c result \<times> 'w" where
  "StartStdioCommand ps limit path args w =
     (case ps_StdinPipe ps path w of
        Some err \<Rightarrow> (Inl (Errorf ''open plugin stdin: %w'' [ArgE err]), w)
      | None \<Rightarrow>
          (case ps_StdoutPipe ps path w of
             Some err \<Rightarrow> (Inl (Errorf ''open plugin stdout: %w'' [ArgE err]), w)
           | None \<Rightarrow>
               (case ps_Exec ps limit path args w of
                  (Inl err, w) \<Rightarrow> (Inl (Errorf ''start plugin: %w'' [ArgE err]), w)
                | (Inr client, w) \<Rightarrow> (Inr client, w))))"

definition start_client :: "('c, 'w) plugins \<Rightarrow> int option \<Rightarrow> string \<Rightarrow> string list \<Rightarrow> ('c, 'w) cli \<Rightarrow> 'c result \<times> ('c, 'w) cli" where
  "start_client ps limit path args s =
     (case StartStdioCommand ps limit path args (cs_world s) of
        (Inl err, w) \<Rightarrow> (Inl err, with_world w s)
      | (Inr c, w) \<Rightarrow> (Inr c, (with_world w s)\<lparr>cs_started := cs_started s @ [c]\<rparr>))"

definition close_client :: "('c, 'w) plugins \<Rightarrow> 'c \<Rightarrow> ('c, 'w) cli \<Rightarrow> goerr option \<times> ('c, 'w) cli" where
  "close_client ps c s =
     (case ps_Close ps c (cs_world s) of (err, w) \<Rightarrow> (err, (with_world w s)\<lparr>cs_closed := cs_closed s @ [c]\<rparr>))"

definition handshake_client :: "('c, 'w) plugins \<Rightarrow> int option \<Rightarrow> 'c \<Rightarrow> ('c, 'w) cli \<Rightarrow> Plugin result \<times> ('c, 'w) cli" where
  "handshake_client ps limit c s =
     (case ps_Handshake ps limit c (cs_world s) of (r, w) \<Rightarrow> (r, with_world w s))"

definition closePluginClients :: "('c, 'w) plugins \<Rightarrow> 'c list \<Rightarrow> ('c, 'w) cli \<Rightarrow> ('c, 'w) cli" where
  "closePluginClients ps clients s =
     foldl (\<lambda>s c. case close_client ps c s of
         (None, s) \<Rightarrow> s
       | (Some err, s) \<Rightarrow> say [Printf ''plugin close failed: %v'' [ArgE err]] s) s (rev clients)"

section \<open>Loading plugins\<close>

record pluginCommandSpec =
  sp_Label :: string
  sp_Path :: string
  sp_Args :: "string list"
  sp_HandshakeTimeout :: int

definition spec_display :: "pluginCommandSpec \<Rightarrow> string" where
  "spec_display s = (if sp_Label s \<noteq> [] then sp_Label s else sp_Path s)"

definition pluginPathSpecs :: "string list \<Rightarrow> pluginCommandSpec list" where
  "pluginPathSpecs = map (\<lambda>path. \<lparr>sp_Label = [], sp_Path = path, sp_Args = [], sp_HandshakeTimeout = 0\<rparr>)"

record 'c loadedPlugin =
  lp_label :: string
  lp_client :: 'c
  lp_manifest :: Plugin

text \<open>The first loop: start and greet every plugin; a failure closes what was started.\<close>

fun start_all :: "('c, 'w) plugins \<Rightarrow> pluginCommandSpec list \<Rightarrow> 'c list \<Rightarrow> 'c loadedPlugin list \<Rightarrow> ('c, 'w) cli \<Rightarrow>
    ('c list \<times> 'c loadedPlugin list) option \<times> ('c, 'w) cli" where
  "start_all ps [] clients loaded s = (Some (clients, loaded), s)"
| "start_all ps (spec # specs) clients loaded s =
     (let label = spec_display spec
      in case start_client ps None (sp_Path spec) (sp_Args spec) s of
        (Inl err, s) \<Rightarrow>
          (None, closePluginClients ps clients (say [Printf ''plugin %s failed to start: %v'' [ArgS label, ArgE err]] s))
      | (Inr client, s) \<Rightarrow>
          (case handshake_client ps (if 0 < sp_HandshakeTimeout spec then Some (sp_HandshakeTimeout spec) else None) client s of
             (Inl err, s) \<Rightarrow>
               (None, closePluginClients ps (clients @ [client])
                  (say [Printf ''plugin %s handshake failed: %v'' [ArgS label, ArgE err]] s))
           | (Inr manifest, s) \<Rightarrow>
               start_all ps specs (clients @ [client])
                 (loaded @ [\<lparr>lp_label = label, lp_client = client,
                    lp_manifest = (if pg_Source manifest = [] then manifest\<lparr>pg_Source := label\<rparr> else manifest)\<rparr>]) s))"

definition bareKindCounts :: "'c loadedPlugin list \<Rightarrow> string \<Rightarrow> nat" where
  "bareKindCounts loaded kind = length (filter (\<lambda>u. pu_Kind u = kind) (concat (map (pg_Units \<circ> lp_manifest) loaded)))"

definition qualifiedKind :: "Plugin \<Rightarrow> PluginUnit \<Rightarrow> string" where
  "qualifiedKind manifest u = pg_Name manifest @ '':'' @ pu_Kind u"

text \<open>
  The second loop, over the units of one plugin and over the plugins. \<open>adapt\<close> makes a unit of the kernel of a client and an adapter. The
  result of a registration that is only tried is dropped.
\<close>

fun register_units :: "('c \<Rightarrow> remoteUnit \<Rightarrow> ('v, 'w) Unit) \<Rightarrow> (string \<Rightarrow> nat) \<Rightarrow> 'c loadedPlugin \<Rightarrow> PluginUnit list \<Rightarrow>
    ('v, 'w) engine \<Rightarrow> ('v, 'w) engine result" where
  "register_units adapt counts p [] reg = Inr reg"
| "register_units adapt counts p (u # us) reg =
     (case Register ut_Definition (Some (adapt (lp_client p) (NewRemoteUnitAlias u (qualifiedKind (lp_manifest p) u)))) reg of
        Inl err \<Rightarrow> Inl err
      | Inr reg \<Rightarrow>
          register_units adapt counts p us
            (if counts (pu_Kind u) \<noteq> 1 then reg
             else (case Register ut_Definition (Some (adapt (lp_client p) (NewRemoteUnit u))) reg of
               Inl _ \<Rightarrow> reg | Inr reg \<Rightarrow> reg)))"

fun register_all :: "('c \<Rightarrow> remoteUnit \<Rightarrow> ('v, 'w) Unit) \<Rightarrow> (string \<Rightarrow> nat) \<Rightarrow> 'c loadedPlugin list \<Rightarrow>
    ('v, 'w) engine \<Rightarrow> (string \<times> goerr) + ('v, 'w) engine" where
  "register_all adapt counts [] reg = Inr reg"
| "register_all adapt counts (p # ps) reg =
     (case register_units adapt counts p (pg_Units (lp_manifest p)) reg of
        Inl err \<Rightarrow> Inl (lp_label p, err)
      | Inr reg \<Rightarrow> register_all adapt counts ps reg)"

text \<open>The clients and the registry with their units, or nothing.\<close>

definition loadExternalPlugins :: "('c, 'w) plugins \<Rightarrow> ('c \<Rightarrow> remoteUnit \<Rightarrow> ('v, 'w) Unit) \<Rightarrow> ('v, 'w) engine \<Rightarrow>
    pluginCommandSpec list \<Rightarrow> ('c, 'w) cli \<Rightarrow> ('c list \<times> ('v, 'w) engine) option \<times> ('c, 'w) cli" where
  "loadExternalPlugins ps adapt reg specs s =
     (case start_all ps specs [] [] s of
        (None, s) \<Rightarrow> (None, s)
      | (Some (clients, loaded), s) \<Rightarrow>
          (case register_all adapt (bareKindCounts loaded) loaded reg of
             Inl (label, err) \<Rightarrow>
               (None, closePluginClients ps clients (say [Printf ''plugin %s registration failed: %v'' [ArgS label, ArgE err]] s))
           | Inr reg \<Rightarrow> (Some (clients, reg), s)))"

text \<open>A unit of a plugin as a unit of the kernel: \<open>RemoteUnit\<close> with the client of its process.\<close>

definition remote_as_Unit :: "hostJSON \<Rightarrow> ('c, 'w) plugins \<Rightarrow> 'w RemoteIO \<Rightarrow> 'c \<Rightarrow> remoteUnit \<Rightarrow> (rvalue, 'w) Unit" where
  "remote_as_Unit js ps io c u =
     \<lparr>ut_Definition = remote_Definition u,
      ut_Validate = (\<lambda>e w. case encodeSpec js e of
          Inl err \<Rightarrow> (Some err, w) | Inr spec \<Rightarrow> ps_Validate ps c (validate_request u e spec) w),
      ut_Plan = (\<lambda>e w. case encodeSpec js e of
          Inl err \<Rightarrow> (Inl err, w) | Inr spec \<Rightarrow> ps_Plan ps c (plan_request u e spec) w),
      ut_Run = remote_Run js io (ps_io ps c) u,
      ut_Start =
        (if \<not> pu_Background (ru_unit u) then None
         else Some (\<lambda>e. case encodeSpec js e of
            Inl err \<Rightarrow> Return (None, Some err)
          | Inr spec \<Rightarrow>
              collect_inputs (ud_Inputs (PluginUnit_Definition (ru_unit u))) fmempty (\<lambda>r. case r of
                 Inl err \<Rightarrow> Return (None, Some err)
               | Inr inputs \<Rightarrow>
                   collect_sources (map_keys inputs) fmempty (\<lambda>r. case r of
                      Inl err \<Rightarrow> Return (None, Some err)
                    | Inr sources \<Rightarrow> ps_Task ps c (run_request u e spec inputs sources)))))\<rparr>"

section \<open>Inspection\<close>

definition pluginManifestTimeout :: int where
  "pluginManifestTimeout = 2000000000"

text \<open>The client is closed when the function returns; the error of that is dropped.\<close>

definition inspectPluginManifestWithTimeout :: "('c, 'w) plugins \<Rightarrow> string \<Rightarrow> int \<Rightarrow> ('c, 'w) cli \<Rightarrow> Plugin result \<times> ('c, 'w) cli" where
  "inspectPluginManifestWithTimeout ps path timeout s =
     (case start_client ps (Some timeout) path [] s of
        (Inl err, s) \<Rightarrow> (Inl err, s)
      | (Inr client, s) \<Rightarrow>
          (case handshake_client ps (Some timeout) client s of
             (Inl err, s) \<Rightarrow> (Inl err, snd (close_client ps client s))
           | (Inr manifest, s) \<Rightarrow>
               (Inr (if pg_Source manifest = [] then manifest\<lparr>pg_Source := path\<rparr> else manifest), snd (close_client ps client s))))"

definition inspectPluginManifest :: "('c, 'w) plugins \<Rightarrow> string \<Rightarrow> ('c, 'w) cli \<Rightarrow> Plugin result \<times> ('c, 'w) cli" where
  "inspectPluginManifest ps path = inspectPluginManifestWithTimeout ps path pluginManifestTimeout"

section \<open>Official plugins\<close>

definition officialPluginCommand :: string where
  "officialPluginCommand = ''__official-plugin''"

definition official_spec :: "string \<Rightarrow> string \<Rightarrow> pluginCommandSpec" where
  "official_spec exe name =
     \<lparr>sp_Label = ''wkbench.official.'' @ name, sp_Path = exe, sp_Args = [officialPluginCommand, name], sp_HandshakeTimeout = 0\<rparr>"

definition defaultOfficialPluginSpecs :: "string result \<Rightarrow> pluginCommandSpec list result" where
  "defaultOfficialPluginSpecs executable =
     (case executable of
        Inl err \<Rightarrow> Inl err
      | Inr exe \<Rightarrow> Inr (map (official_spec exe) [''core'', ''identity'', ''wukongim'', ''report'']))"

text \<open>\<open>serve\<close> is \<open>wkplugin.Serve\<close> of the named plugin on standard input and output.\<close>

definition runOfficialPluginServe :: "(string \<Rightarrow> Plugin) \<Rightarrow> (string \<Rightarrow> 'w \<Rightarrow> goerr option \<times> 'w) \<Rightarrow> string list \<Rightarrow>
    ('c, 'w) cli \<Rightarrow> int \<times> ('c, 'w) cli" where
  "runOfficialPluginServe manifest serve args s =
     (case args of
        [name] \<Rightarrow>
          if name \<in> {''core'', ''identity'', ''wukongim'', ''report''}
          then (case serve name (cs_world s) of
            (Some err, w) \<Rightarrow>
              (exitInternal, say [Printf ''official plugin %s failed: %v'' [ArgS (pg_Name (manifest name)), ArgE err]] (with_world w s))
          | (None, w) \<Rightarrow> (exitOK, with_world w s))
          else (exitConfig, say [Printf ''unknown official plugin %q'' [ArgS name]] s)
      | _ \<Rightarrow> (exitConfig, say [Printf ''usage: wkbench __official-plugin <core|identity|wukongim|report>'' []] s))"

section \<open>No process is left behind\<close>

lemma say_frame [simp]:
  "cs_world (say ps s) = cs_world s" "cs_started (say ps s) = cs_started s" "cs_closed (say ps s) = cs_closed s"
  by (simp_all add: say_def)

lemma close_client_frame [simp]:
  "cs_started (snd (close_client ps c s)) = cs_started s" "cs_closed (snd (close_client ps c s)) = cs_closed s @ [c]"
  by (simp_all add: close_client_def split: prod.split)

lemma handshake_frame_cli: "handshake_client ps limit c s = (r, s') \<Longrightarrow> cs_started s' = cs_started s \<and> cs_closed s' = cs_closed s"
  by (auto simp: handshake_client_def split: prod.splits)

lemma start_client_frame:
  "start_client ps limit path args s = (r, s') \<Longrightarrow>
     cs_started s' = cs_started s @ (case r of Inl err \<Rightarrow> [] | Inr c \<Rightarrow> [c]) \<and> cs_closed s' = cs_closed s"
  by (auto simp: start_client_def split: prod.splits sum.splits)

lemma closePluginClients_frame [simp]:
  "cs_started (closePluginClients ps clients s) = cs_started s"
  "cs_closed (closePluginClients ps clients s) = cs_closed s @ rev clients"
proof -
  have step: "cs_started (foldl (\<lambda>s c. case close_client ps c s of (None, s) \<Rightarrow> s
         | (Some err, s) \<Rightarrow> say [Printf ''plugin close failed: %v'' [ArgE err]] s) s cs) = cs_started s \<and>
      cs_closed (foldl (\<lambda>s c. case close_client ps c s of (None, s) \<Rightarrow> s
         | (Some err, s) \<Rightarrow> say [Printf ''plugin close failed: %v'' [ArgE err]] s) s cs) = cs_closed s @ cs" for cs
  proof (induction cs arbitrary: s)
    case (Cons c cs)
    obtain err s1 where c: "close_client ps c s = (err, s1)" by force
    with close_client_frame [of ps c s] Cons [of s1] Cons [of "say p s1" for p] show ?case
      by (cases err) (auto simp: c)
  qed simp
  from step [of "rev clients"] show "cs_started (closePluginClients ps clients s) = cs_started s"
    "cs_closed (closePluginClients ps clients s) = cs_closed s @ rev clients"
    by (simp_all add: closePluginClients_def)
qed

text \<open>The manifest of a loaded plugin is the answer of its client to a handshake, with a source.\<close>

definition greeted :: "('c, 'w) plugins \<Rightarrow> 'c loadedPlugin \<Rightarrow> bool" where
  "greeted ps p \<longleftrightarrow>
     (\<exists>limit m w w'. ps_Handshake ps limit (lp_client p) w = (Inr m, w') \<and>
        lp_manifest p = (if pg_Source m = [] then m\<lparr>pg_Source := lp_label p\<rparr> else m))"

lemma start_all_outcome:
  assumes "start_all ps specs clients loaded s = (r, s')"
  shows "case r of
      None \<Rightarrow> \<exists>cs. cs_started s' = cs_started s @ cs \<and> cs_closed s' = cs_closed s @ rev (clients @ cs)
    | Some (cl, ld) \<Rightarrow> \<exists>ld'. cl = clients @ map lp_client ld' \<and> ld = loaded @ ld' \<and> map lp_label ld' = map spec_display specs \<and>
        (\<forall>p\<in>set ld'. greeted ps p) \<and> cs_started s' = cs_started s @ map lp_client ld' \<and> cs_closed s' = cs_closed s"
  using assms
proof (induction specs arbitrary: clients loaded s)
  case (Cons spec specs)
  obtain r1 s1 where st: "start_client ps None (sp_Path spec) (sp_Args spec) s = (r1, s1)" by force
  note f1 = start_client_frame [OF st]
  show ?case
  proof (cases r1)
    case (Inl err)
    with Cons.prems st f1 show ?thesis by auto
  next
    case (Inr c)
    let ?limit = "if 0 < sp_HandshakeTimeout spec then Some (sp_HandshakeTimeout spec) else None"
    obtain r2 s2 where hs: "handshake_client ps ?limit c s1 = (r2, s2)" by force
    note f2 = handshake_frame_cli [OF hs]
    show ?thesis
    proof (cases r2)
      case (Inl err)
      with Cons.prems st f1 f2 hs \<open>r1 = Inr c\<close> show ?thesis by auto
    next
      case (Inr m)
      define p where "p = \<lparr>lp_label = spec_display spec, lp_client = c,
        lp_manifest = (if pg_Source m = [] then m\<lparr>pg_Source := spec_display spec\<rparr> else m)\<rparr>"
      have "start_all ps specs (clients @ [c]) (loaded @ [p]) s2 = (r, s')"
        using Cons.prems by (simp add: st hs Inr \<open>r1 = Inr c\<close> p_def Let_def)
      from Cons.IH [OF this] show ?thesis
      proof (cases r)
        case None
        with \<open>start_all ps specs (clients @ [c]) (loaded @ [p]) s2 = (r, s')\<close> Cons.IH [of "clients @ [c]" "loaded @ [p]" s2]
        obtain cs where "cs_started s' = cs_started s2 @ cs" "cs_closed s' = cs_closed s2 @ rev ((clients @ [c]) @ cs)" by auto
        with None f1 f2 \<open>r1 = Inr c\<close> show ?thesis by (auto intro!: exI [of _ "c # cs"])
      next
        case (Some x)
        obtain cl ld where x: "x = (cl, ld)" by force
        with Some \<open>start_all ps specs (clients @ [c]) (loaded @ [p]) s2 = (r, s')\<close> Cons.IH [of "clients @ [c]" "loaded @ [p]" s2]
        obtain ld' where "cl = (clients @ [c]) @ map lp_client ld'" "ld = (loaded @ [p]) @ ld'" "map lp_label ld' = map spec_display specs"
          "\<forall>p\<in>set ld'. greeted ps p" "cs_started s' = cs_started s2 @ map lp_client ld'" "cs_closed s' = cs_closed s2" by auto
        moreover have "greeted ps p"
          unfolding greeted_def using hs Inr
          by (auto simp: p_def handshake_client_def split: prod.splits intro!: exI [of _ m] exI [of _ ?limit])
        ultimately show ?thesis using Some x f1 f2 \<open>r1 = Inr c\<close> by (auto simp: p_def intro!: exI [of _ "p # ld'"])
      qed
    qed
  qed
qed auto

section \<open>What is registered\<close>

definition bare_unique :: "(string \<Rightarrow> nat) \<Rightarrow> PluginUnit \<Rightarrow> bool" where
  "bare_unique counts u \<longleftrightarrow> counts (pu_Kind u) = 1 \<and> TrimSpace (pu_Kind u) \<noteq> []"

lemma NewRemoteUnit_kinds:
  "ud_Kind (remote_Definition (NewRemoteUnit u)) = pu_Kind u"
  "k \<noteq> [] \<Longrightarrow> ud_Kind (remote_Definition (NewRemoteUnitAlias u k)) = k"
  by (simp_all add: remote_Definition_def NewRemoteUnit_def NewRemoteUnitAlias_def PluginUnit_Definition_def Let_def)

lemma qualifiedKind_nonempty [simp]: "qualifiedKind m u \<noteq> []"
  by (simp add: qualifiedKind_def)

text \<open>What the entries of a registry say after some units of plugin \<open>p\<close> were registered on top of \<open>reg\<close>.\<close>

definition alias_unit where
  "alias_unit adapt p u = adapt (lp_client p) (NewRemoteUnitAlias u (qualifiedKind (lp_manifest p) u))"

definition alias_key :: "'c loadedPlugin \<Rightarrow> PluginUnit \<Rightarrow> string" where
  "alias_key p u = TrimSpace (qualifiedKind (lp_manifest p) u)"

definition new_entry :: "('c \<Rightarrow> remoteUnit \<Rightarrow> ('v, 'w) Unit) \<Rightarrow> (string \<Rightarrow> nat) \<Rightarrow> ('c loadedPlugin \<times> PluginUnit) list \<Rightarrow>
    string \<Rightarrow> ('v, 'w) Unit \<Rightarrow> bool" where
  "new_entry adapt counts pus k x \<longleftrightarrow>
     (\<exists>(p, u)\<in>set pus. k = alias_key p u \<and> x = alias_unit adapt p u \<or>
        bare_unique counts u \<and> k = TrimSpace (pu_Kind u) \<and> x = adapt (lp_client p) (NewRemoteUnit u))"

definition registered :: "('c \<Rightarrow> remoteUnit \<Rightarrow> ('v, 'w) Unit) \<Rightarrow> (string \<Rightarrow> nat) \<Rightarrow> ('c loadedPlugin \<times> PluginUnit) list \<Rightarrow>
    ('v, 'w) engine \<Rightarrow> ('v, 'w) engine \<Rightarrow> bool" where
  "registered adapt counts pus reg reg' \<longleftrightarrow>
     (\<forall>k x. fmlookup reg k = Some x \<longrightarrow> fmlookup reg' k = Some x) \<and>
     (\<forall>p u. (p, u) \<in> set pus \<longrightarrow> fmlookup reg' (alias_key p u) = Some (alias_unit adapt p u)) \<and>
     (\<forall>p u. (p, u) \<in> set pus \<longrightarrow> bare_unique counts u \<longrightarrow> (\<exists>x. fmlookup reg' (TrimSpace (pu_Kind u)) = Some x)) \<and>
     (\<forall>k x. fmlookup reg' k = Some x \<longrightarrow> fmlookup reg k = Some x \<or> new_entry adapt counts pus k x)"

lemma registered_refl: "registered adapt counts [] reg reg"
  by (simp add: registered_def)

lemma new_entry_append: "new_entry adapt counts (xs @ ys) k x \<longleftrightarrow> new_entry adapt counts xs k x \<or> new_entry adapt counts ys k x"
  by (simp add: new_entry_def bex_Un)

lemma registered_trans:
  assumes "registered adapt counts xs a b" and "registered adapt counts ys b c"
  shows "registered adapt counts (xs @ ys) a c"
  using assms unfolding registered_def new_entry_append set_append Un_iff
  by (intro conjI; elim conjE; meson)

lemma registered_one:
  assumes "\<And>c u. ut_Definition (adapt c u) = remote_Definition u"
    and "Register ut_Definition (Some (alias_unit adapt p u)) reg = Inr reg1"
    and "reg' = (if counts (pu_Kind u) \<noteq> 1 then reg1
      else (case Register ut_Definition (Some (adapt (lp_client p) (NewRemoteUnit u))) reg1 of Inl _ \<Rightarrow> reg1 | Inr reg2 \<Rightarrow> reg2))"
  shows "registered adapt counts [(p, u)] reg reg'"
proof -
  have kinds: "ud_Kind (ut_Definition (alias_unit adapt p u)) = qualifiedKind (lp_manifest p) u"
    "ud_Kind (ut_Definition (adapt (lp_client p) (NewRemoteUnit u))) = pu_Kind u"
    by (simp_all add: alias_unit_def assms(1) NewRemoteUnit_kinds)
  note r1 = Register_Inr [OF assms(2), unfolded kinds, folded alias_key_def]
  show ?thesis
  proof (cases "counts (pu_Kind u) = 1")
    case False
    with assms(3) r1 show ?thesis by (auto simp: registered_def new_entry_def bare_unique_def)
  next
    case True
    show ?thesis
    proof (cases "Register ut_Definition (Some (adapt (lp_client p) (NewRemoteUnit u))) reg1")
      case (Inl err)
      then have "TrimSpace (pu_Kind u) = [] \<or> fmlookup reg1 (TrimSpace (pu_Kind u)) \<noteq> None"
        by (auto simp: Register_def Let_def kinds split: if_splits option.splits)
      with Inl True assms(3) r1 show ?thesis by (auto simp: registered_def new_entry_def bare_unique_def)
    next
      case (Inr reg2)
      note r2 = Register_Inr [OF Inr, unfolded kinds]
      from Inr True assms(3) r1 r2 show ?thesis by (auto simp: registered_def new_entry_def bare_unique_def)
    qed
  qed
qed

lemma register_units_registered:
  assumes "\<And>c u. ut_Definition (adapt c u) = remote_Definition u"
  shows "register_units adapt counts p us reg = Inr reg' \<Longrightarrow> registered adapt counts (map (Pair p) us) reg reg'"
proof (induction us arbitrary: reg)
  case (Cons u us)
  then obtain reg1 where r: "Register ut_Definition (Some (alias_unit adapt p u)) reg = Inr reg1"
    by (auto simp: alias_unit_def split: sum.splits)
  define reg2 where "reg2 = (if counts (pu_Kind u) \<noteq> 1 then reg1
      else (case Register ut_Definition (Some (adapt (lp_client p) (NewRemoteUnit u))) reg1 of Inl _ \<Rightarrow> reg1 | Inr reg2 \<Rightarrow> reg2))"
  have "register_units adapt counts p us reg2 = Inr reg'"
    using Cons.prems r by (simp add: alias_unit_def reg2_def)
  note rest = Cons.IH [OF this]
  have "registered adapt counts [(p, u)] reg reg2" by (rule registered_one [where ?reg1.0 = reg1]) (use assms r in \<open>simp_all add: reg2_def\<close>)
  from registered_trans [OF this rest] show ?case by simp
qed (simp add: registered_refl)

definition loaded_units :: "'c loadedPlugin list \<Rightarrow> ('c loadedPlugin \<times> PluginUnit) list" where
  "loaded_units loaded = concat (map (\<lambda>p. map (Pair p) (pg_Units (lp_manifest p))) loaded)"

lemma register_all_registered:
  assumes "\<And>c u. ut_Definition (adapt c u) = remote_Definition u"
  shows "register_all adapt counts loaded reg = Inr reg' \<Longrightarrow> registered adapt counts (loaded_units loaded) reg reg'"
proof (induction loaded arbitrary: reg)
  case (Cons p ps)
  then obtain reg1 where "register_units adapt counts p (pg_Units (lp_manifest p)) reg = Inr reg1" "register_all adapt counts ps reg1 = Inr reg'"
    by (auto split: sum.splits)
  from registered_trans [OF register_units_registered [OF assms this(1)] Cons.IH [OF this(2)]] show ?case
    by (simp add: loaded_units_def)
qed (simp add: registered_refl loaded_units_def)

section \<open>Loading as a whole\<close>

lemma loadExternalPlugins_outcome:
  assumes "loadExternalPlugins ps adapt reg specs s = (r, s')"
  shows "case r of
      None \<Rightarrow> \<exists>cs. cs_started s' = cs_started s @ cs \<and> cs_closed s' = cs_closed s @ rev cs
    | Some (clients, reg') \<Rightarrow> cs_started s' = cs_started s @ clients \<and> cs_closed s' = cs_closed s \<and>
        (\<exists>loaded. clients = map lp_client loaded \<and> map lp_label loaded = map spec_display specs \<and> (\<forall>p\<in>set loaded. greeted ps p) \<and>
           register_all adapt (bareKindCounts loaded) loaded reg = Inr reg')"
proof -
  obtain r1 s1 where st: "start_all ps specs [] [] s = (r1, s1)" by force
  show ?thesis
  proof (cases r1)
    case None
    with start_all_outcome [OF st] assms st show ?thesis by (auto simp: loadExternalPlugins_def)
  next
    case (Some x)
    obtain cl ld where x: "x = (cl, ld)" by force
    with Some start_all_outcome [OF st] have o: "cl = map lp_client ld" "map lp_label ld = map spec_display specs" "\<forall>p\<in>set ld. greeted ps p"
      "cs_started s1 = cs_started s @ cl" "cs_closed s1 = cs_closed s" by auto
    show ?thesis
    proof (cases "register_all adapt (bareKindCounts ld) ld reg")
      case (Inl e)
      obtain label err where "e = (label, err)" by force
      with Inl assms st Some x o have "r = None" "cs_started s' = cs_started s @ cl" "cs_closed s' = cs_closed s @ rev cl"
        by (auto simp: loadExternalPlugins_def)
      then show ?thesis by auto
    next
      case (Inr reg')
      with assms st Some x o show ?thesis by (auto simp: loadExternalPlugins_def)
    qed
  qed
qed

text \<open>
  Loading plugins. When all plugins start, greet and register, there is a client for each, none is closed, and every
  unit of every plugin answers to its kind qualified by the plugin's name, with its own definition. What was registered before stays. A bare kind that exactly one unit
  has answers to a unit too, and nothing else is registered. When anything fails, every client that
  was started is closed, in reverse order.
\<close>

theorem plugins_registered:
  assumes "\<And>c u. ut_Definition (adapt c u) = remote_Definition u" and "loadExternalPlugins ps adapt reg specs s = (r, s')"
  shows "(r = None \<longrightarrow> (\<exists>cs. cs_started s' = cs_started s @ cs \<and> cs_closed s' = cs_closed s @ rev cs)) \<and>
    (\<forall>clients reg'. r = Some (clients, reg') \<longrightarrow>
      cs_started s' = cs_started s @ clients \<and> cs_closed s' = cs_closed s \<and>
      (\<exists>loaded. clients = map lp_client loaded \<and> map lp_label loaded = map spec_display specs \<and> (\<forall>p\<in>set loaded. greeted ps p) \<and>
        registered adapt (bareKindCounts loaded) (loaded_units loaded) reg reg' \<and>
        (\<forall>p u. (p, u) \<in> set (loaded_units loaded) \<longrightarrow>
           Resolve ut_Definition reg' (qualifiedKind (lp_manifest p) u) =
             Inr (alias_unit adapt p u, (PluginUnit_Definition u)\<lparr>ud_Kind := qualifiedKind (lp_manifest p) u\<rparr>))))"
proof (intro conjI impI allI)
  note outcome = loadExternalPlugins_outcome [OF assms(2)]
  show "r = None \<Longrightarrow> \<exists>cs. cs_started s' = cs_started s @ cs \<and> cs_closed s' = cs_closed s @ rev cs" using outcome by simp
  fix clients reg'
  assume r: "r = Some (clients, reg')"
  with outcome show "cs_started s' = cs_started s @ clients" "cs_closed s' = cs_closed s" by simp_all
  from outcome r obtain loaded where l: "clients = map lp_client loaded" "map lp_label loaded = map spec_display specs" "\<forall>p\<in>set loaded. greeted ps p"
    "register_all adapt (bareKindCounts loaded) loaded reg = Inr reg'" by auto
  note reg = register_all_registered [OF assms(1) l(4)]
  have def: "ut_Definition (alias_unit adapt p u) = (PluginUnit_Definition u)\<lparr>ud_Kind := qualifiedKind (lp_manifest p) u\<rparr>" for p :: "'a loadedPlugin" and u
    by (simp add: alias_unit_def assms(1) remote_Definition_def NewRemoteUnitAlias_def Let_def)
  have "TrimSpace (qualifiedKind m u) \<noteq> []" for m u
  proof -
    have "CHR '':'' \<in> set (qualifiedKind m u)" by (simp add: qualifiedKind_def)
    moreover have "\<forall>w\<in>set space_runes. CHR '':'' \<notin> set w" by (simp add: space_runes_def)
    ultimately show ?thesis using TrimSpace_keeps by fastforce
  qed
  with reg l def show "\<exists>loaded. clients = map lp_client loaded \<and> map lp_label loaded = map spec_display specs \<and> (\<forall>p\<in>set loaded. greeted ps p) \<and>
        registered adapt (bareKindCounts loaded) (loaded_units loaded) reg reg' \<and>
        (\<forall>p u. (p, u) \<in> set (loaded_units loaded) \<longrightarrow>
           Resolve ut_Definition reg' (qualifiedKind (lp_manifest p) u) =
             Inr (alias_unit adapt p u, (PluginUnit_Definition u)\<lparr>ud_Kind := qualifiedKind (lp_manifest p) u\<rparr>))"
    by (intro exI [of _ loaded]) (auto simp: Resolve_def Let_def registered_def alias_key_def)
qed

definition demo_plugins :: "(nat, unit) plugins" where
  "demo_plugins =
     \<lparr>ps_StdinPipe = (\<lambda>_ _. None), ps_StdoutPipe = (\<lambda>_ _. None), ps_Exec = (\<lambda>_ _ _ w. (Inr 9, w)),
      ps_Handshake = (\<lambda>_ _ w. (Inr (ManifestFromUnits ''demo'' ''1'' [(sample_served_def, False)]), w)),
      ps_Close = (\<lambda>_ w. (None, w)), ps_Validate = (\<lambda>_ _ w. (None, w)),
      ps_Plan = (\<lambda>_ req w. (Inr \<lparr>pl_UnitName = uq_UnitName req, pl_Shards = []\<rparr>, w)),
      ps_io = (\<lambda>_. direct_client (\<lambda>_. []) ''run-1'' (handshake_frame ''run-1'')),
      ps_Task = (\<lambda>_ _. Return (None, Some (Errorf ''no task'' [])))\<rparr>"

definition demo_io :: "unit RemoteIO" where
  "demo_io = \<lparr>io_send = (\<lambda>_ w. (None, w)), io_fileWrite = (\<lambda>data w. ((int (length data), None), w)),
     io_fileClose = (\<lambda>w. (None, w)), io_unmarshal = (\<lambda>_. Inr JNull)\<rparr>"

definition new_cli :: "'w \<Rightarrow> ('c, 'w) cli" where
  "new_cli w = \<lparr>cs_world = w, cs_stderr = [], cs_started = [], cs_closed = []\<rparr>"

theorem plugins_registered_witness:
  "\<exists>reg' u. fst (loadExternalPlugins demo_plugins (remote_as_Unit tiny_json demo_plugins demo_io) registry_New
       (pluginPathSpecs [''/bin/demo'']) (new_cli ())) = Some ([9], reg') \<and>
     Resolve ut_Definition reg' ''demo:k'' = Inr (u, sample_served_def\<lparr>ud_Kind := ''demo:k''\<rparr>)"
proof -
  let ?adapt = "remote_as_Unit tiny_json demo_plugins demo_io"
  have adapt: "ut_Definition (?adapt c u) = remote_Definition u" for c u by (simp add: remote_as_Unit_def)
  have trim: "TrimSpace ''k'' = ''k''" "TrimSpace ''demo:k'' = ''demo:k''" by code_simp+
  have demo: "ps_StdinPipe demo_plugins x w = None" "ps_StdoutPipe demo_plugins x w = None" "ps_Exec demo_plugins l x as w = (Inr 9, w)"
    "ps_Handshake demo_plugins l c w = (Inr (ManifestFromUnits ''demo'' ''1'' [(sample_served_def, False)]), w)" for x w l as c
    by (simp_all add: demo_plugins_def)
  have "\<exists>reg' s'. loadExternalPlugins demo_plugins ?adapt registry_New (pluginPathSpecs [''/bin/demo'']) (new_cli ()) = (Some ([9], reg'), s')"
    by (simp add: loadExternalPlugins_def pluginPathSpecs_def start_client_def StartStdioCommand_def handshake_client_def demo
        ManifestFromUnits_def qualifiedKind_def unit_to_manifest_def sample_served_def_def Register_def adapt NewRemoteUnit_kinds
        registry_New_def trim Let_def split: sum.split)
  then obtain reg' s' where l: "loadExternalPlugins demo_plugins ?adapt registry_New (pluginPathSpecs [''/bin/demo'']) (new_cli ()) = (Some ([9], reg'), s')"
    by blast
  from plugins_registered [OF adapt l, THEN conjunct2, rule_format, OF refl] obtain loaded where ld: "[9] = map lp_client loaded" "\<forall>p\<in>set loaded. greeted demo_plugins p"
    "\<forall>p u. (p, u) \<in> set (loaded_units loaded) \<longrightarrow> Resolve ut_Definition reg' (qualifiedKind (lp_manifest p) u) =
       Inr (alias_unit ?adapt p u, (PluginUnit_Definition u)\<lparr>ud_Kind := qualifiedKind (lp_manifest p) u\<rparr>)"
    by (elim conjE exE) (rule that)
  from ld(1) obtain p where p: "loaded = [p]" by (cases loaded) auto
  let ?u = "unit_to_manifest (sample_served_def, False)"
  from p ld(2) have m: "pg_Units (lp_manifest p) = [?u]" "pg_Name (lp_manifest p) = ''demo''"
    by (auto simp: greeted_def demo_plugins_def ManifestFromUnits_def split: if_splits)
  then have "(p, ?u) \<in> set (loaded_units loaded)" "qualifiedKind (lp_manifest p) ?u = ''demo:k''"
    by (simp_all add: p loaded_units_def qualifiedKind_def unit_to_manifest_def sample_served_def_def)
  with ld(3) have "Resolve ut_Definition reg' ''demo:k'' = Inr (alias_unit ?adapt p ?u, (PluginUnit_Definition ?u)\<lparr>ud_Kind := ''demo:k''\<rparr>)"
    by metis
  moreover have "PluginUnit_Definition ?u = sample_served_def"
    by (simp add: PluginUnit_Definition_def unit_to_manifest_def sample_served_def_def)
  ultimately show ?thesis using l by auto
qed

end
