(* ===== verification/Go_Runes.thy ===== *)
theory Go_Runes
  imports Go_Strings
begin

text \<open>
  Strings as sequences of runes: what \<open>range\<close> over a string yields (invalid bytes are \<open>U+FFFD\<close>, one at a time),
  \<open>utf8.EncodeRune\<close>, and \<open>unicode.IsDigit\<close> with the decimal digits of Unicode 15, the tables of Go 1.23.
\<close>

section \<open>Decoding and encoding\<close>

definition byte_at :: "nat list \<Rightarrow> nat \<Rightarrow> nat \<Rightarrow> nat \<Rightarrow> bool" where
  "byte_at b i lo hi \<longleftrightarrow> i < length b \<and> lo \<le> b ! i \<and> b ! i \<le> hi"

text \<open>The first rune of a nonempty string and its width.\<close>

definition DecodeRune :: "string \<Rightarrow> nat \<times> nat" where
  "DecodeRune s =
     (let b = map of_char (take 4 s); b0 = b ! 0
      in if b0 < 128 then (b0, 1)
         else if byte_at b 0 194 223 \<and> byte_at b 1 128 191
         then ((b0 - 192) * 64 + (b ! 1 - 128), 2)
         else if byte_at b 0 224 239 \<and> byte_at b 1 (if b0 = 224 then 160 else 128) (if b0 = 237 then 159 else 191) \<and> byte_at b 2 128 191
         then ((b0 - 224) * 4096 + (b ! 1 - 128) * 64 + (b ! 2 - 128), 3)
         else if byte_at b 0 240 244 \<and> byte_at b 1 (if b0 = 240 then 144 else 128) (if b0 = 244 then 143 else 191) \<and>
           byte_at b 2 128 191 \<and> byte_at b 3 128 191
         then ((b0 - 240) * 262144 + (b ! 1 - 128) * 4096 + (b ! 2 - 128) * 64 + (b ! 3 - 128), 4)
         else (65533, 1))"

lemma DecodeRune_width: "0 < snd (DecodeRune s)"
  by (simp add: DecodeRune_def Let_def)

function runes :: "string \<Rightarrow> nat list" where
  "runes [] = []"
| "runes (c # s) = (case DecodeRune (c # s) of (r, width) \<Rightarrow> r # runes (drop width (c # s)))"
  by pat_completeness auto

termination
  by (relation "measure length") (auto dest!: arg_cong [of _ _ snd] simp: DecodeRune_width)

declare runes.simps(2) [simp del]

definition valid_rune :: "nat \<Rightarrow> bool" where
  "valid_rune r \<longleftrightarrow> r < 55296 \<or> 57344 \<le> r \<and> r < 1114112"

definition EncodeRune :: "nat \<Rightarrow> string" where
  "EncodeRune r0 =
     (let r = (if valid_rune r0 then r0 else 65533)
      in if r < 128 then [char_of r]
         else if r < 2048 then [char_of (192 + r div 64), char_of (128 + r mod 64)]
         else if r < 65536 then [char_of (224 + r div 4096), char_of (128 + r div 64 mod 64), char_of (128 + r mod 64)]
         else [char_of (240 + r div 262144), char_of (128 + r div 4096 mod 64), char_of (128 + r div 64 mod 64), char_of (128 + r mod 64)])"

definition encode_runes :: "nat list \<Rightarrow> string" where
  "encode_runes rs = concat (map EncodeRune rs)"

section \<open>Digits\<close>

definition digit_zeros :: "nat list" where
  "digit_zeros =
     [0x30, 0x660, 0x6F0, 0x7C0, 0x966, 0x9E6, 0xA66, 0xAE6, 0xB66, 0xBE6, 0xC66, 0xCE6, 0xD66, 0xDE6, 0xE50, 0xED0,
      0xF20, 0x1040, 0x1090, 0x17E0, 0x1810, 0x1946, 0x19D0, 0x1A80, 0x1A90, 0x1B50, 0x1BB0, 0x1C40, 0x1C50, 0xA620,
      0xA8D0, 0xA900, 0xA9D0, 0xA9F0, 0xAA50, 0xABF0, 0xFF10, 0x104A0, 0x10D30, 0x11066, 0x110F0, 0x11136, 0x111D0,
      0x112F0, 0x11450, 0x114D0, 0x11650, 0x116C0, 0x11730, 0x118E0, 0x11950, 0x11C50, 0x11D50, 0x11DA0, 0x11F50,
      0x16A60, 0x16AC0, 0x16B50, 0x1E140, 0x1E2F0, 0x1E4F0, 0x1E950, 0x1FBF0]"

definition IsDigit :: "nat \<Rightarrow> bool" where
  "IsDigit r \<longleftrightarrow> list_ex (\<lambda>z. z \<le> r \<and> r \<le> z + 9) digit_zeros \<or> 0x1D7CE \<le> r \<and> r \<le> 0x1D7FF"

section \<open>Encoding is undone by decoding\<close>

lemma of_char_of: "n < 256 \<Longrightarrow> of_char (char_of n :: char) = (n :: nat)"
  by simp

lemma decode_1: "a < 128 \<Longrightarrow> DecodeRune (char_of a # s) = (a, 1)"
  by (simp add: DecodeRune_def Let_def of_char_of)

lemma decode_2:
  "2 \<le> a \<Longrightarrow> a < 32 \<Longrightarrow> b < 64 \<Longrightarrow> DecodeRune (char_of (192 + a) # char_of (128 + b) # s) = (a * 64 + b, 2)"
  by (simp add: DecodeRune_def Let_def of_char_of byte_at_def)

lemma decode_3:
  assumes "a < 16" and "b < 64" and "c < 64" and "a = 0 \<longrightarrow> 32 \<le> b" and "a = 13 \<longrightarrow> b < 32"
  shows "DecodeRune (char_of (224 + a) # char_of (128 + b) # char_of (128 + c) # s) = (a * 4096 + b * 64 + c, 3)"
proof -
  have "map of_char (take 4 (char_of (224 + a) # char_of (128 + b) # char_of (128 + c) # s)) = [224 + a, 128 + b, 128 + c] @ map of_char (take 1 s)"
    using assms by (simp add: of_char_of)
  moreover have "a = 0 \<Longrightarrow> 32 \<le> b" "a = 13 \<Longrightarrow> b \<le> 31" using assms by auto
  ultimately show ?thesis using assms(1-3)
    unfolding DecodeRune_def by (simp add: Let_def byte_at_def)
qed

lemma decode_4:
  assumes "a < 5" and "b < 64" and "c < 64" and "d < 64" and "a = 0 \<longrightarrow> 16 \<le> b" and "a = 4 \<longrightarrow> b < 16"
  shows "DecodeRune (char_of (240 + a) # char_of (128 + b) # char_of (128 + c) # char_of (128 + d) # s) =
    (a * 262144 + b * 4096 + c * 64 + d, 4)"
proof -
  have "map of_char (take 4 (char_of (240 + a) # char_of (128 + b) # char_of (128 + c) # char_of (128 + d) # s)) =
      [240 + a, 128 + b, 128 + c, 128 + d]"
    using assms by (simp add: of_char_of)
  moreover have "a = 0 \<Longrightarrow> 16 \<le> b" "a = 4 \<Longrightarrow> b \<le> 15" using assms by auto
  ultimately show ?thesis using assms(1-4)
    unfolding DecodeRune_def by (simp add: Let_def byte_at_def)
qed

lemma base64_3: "(r :: nat) div 4096 * 4096 + r div 64 mod 64 * 64 + r mod 64 = r"
  using mod_mult2_eq [of r 64 64] div_mult_mod_eq [of r 4096] by simp

lemma base64_4: "(r :: nat) div 262144 * 262144 + r div 4096 mod 64 * 4096 + r div 64 mod 64 * 64 + r mod 64 = r"
proof -
  have "r div 262144 = r div 4096 div 64" by (simp add: div_mult2_eq)
  then show ?thesis using base64_3 [of r] div_mult_mod_eq [of "r div 4096" 64] by linarith
qed

lemma Decode_Encode:
  assumes "valid_rune r"
  shows "DecodeRune (EncodeRune r @ s) = (r, length (EncodeRune r))"
proof -
  have "r < 1114112" using assms by (auto simp: valid_rune_def)
  then consider "r < 128" | "128 \<le> r" "r < 2048" | "2048 \<le> r" "r < 65536" | "65536 \<le> r" "r < 1114112"
    by (meson not_less)
  then show ?thesis
  proof cases
    case 1
    with assms show ?thesis by (simp add: EncodeRune_def decode_1)
  next
    case 2
    then have "2 \<le> r div 64" "r div 64 < 32" by simp_all
    from decode_2 [OF this, of "r mod 64" s] 2 assms show ?thesis by (simp add: EncodeRune_def)
  next
    case 3
    let ?a = "r div 4096" and ?b = "r div 64 mod 64" and ?c = "r mod 64"
    have e: "EncodeRune r = [char_of (224 + ?a), char_of (128 + ?b), char_of (128 + ?c)]"
      using 3 assms by (simp add: EncodeRune_def)
    have lt: "?a < 16" "?b < 64" "?c < 64" using 3 by simp_all
    moreover have "?a = 0 \<longrightarrow> 32 \<le> ?b" using 3 lt base64_3 [of r] by linarith
    moreover have "?a = 13 \<longrightarrow> ?b < 32" using 3 lt assms base64_3 [of r] unfolding valid_rune_def by linarith
    ultimately have d: "DecodeRune (char_of (224 + ?a) # char_of (128 + ?b) # char_of (128 + ?c) # s) = (?a * 4096 + ?b * 64 + ?c, 3)"
      by (rule decode_3)
    then show ?thesis unfolding e append_Cons append_Nil d base64_3 by simp
  next
    case 4
    let ?a = "r div 262144" and ?b = "r div 4096 mod 64" and ?c = "r div 64 mod 64" and ?d = "r mod 64"
    have e: "EncodeRune r = [char_of (240 + ?a), char_of (128 + ?b), char_of (128 + ?c), char_of (128 + ?d)]"
      using 4 assms by (simp add: EncodeRune_def)
    have lt: "?a < 5" "?b < 64" "?c < 64" "?d < 64" using 4 by simp_all
    moreover have "?a = 0 \<longrightarrow> 16 \<le> ?b" using 4 lt base64_4 [of r] by linarith
    moreover have "?a = 4 \<longrightarrow> ?b < 16" using 4 lt base64_4 [of r] by linarith
    ultimately have d: "DecodeRune (char_of (240 + ?a) # char_of (128 + ?b) # char_of (128 + ?c) # char_of (128 + ?d) # s) =
        (?a * 262144 + ?b * 4096 + ?c * 64 + ?d, 4)"
      by (rule decode_4)
    then show ?thesis unfolding e append_Cons append_Nil d base64_4 by simp
  qed
qed

lemma EncodeRune_nonempty [simp]: "EncodeRune r \<noteq> []"
  by (simp add: EncodeRune_def Let_def)

lemma runes_encode: "\<forall>r\<in>set rs. valid_rune r \<Longrightarrow> runes (encode_runes rs) = rs"
proof (induction rs)
  case (Cons r rs)
  obtain c t where e: "EncodeRune r = c # t" by (cases "EncodeRune r") auto
  have "runes (c # (t @ encode_runes rs)) = r # runes (encode_runes rs)"
    using Decode_Encode [of r "encode_runes rs"] Cons.prems by (simp add: runes.simps(2) e)
  with Cons show ?case by (simp add: encode_runes_def e)
qed (simp add: encode_runes_def)

end
