(* ===== verification/Plugin_Check.thy ===== *)
theory Plugin_Check
  imports Plugin_Load Go_Runes
begin

text \<open>
  \<open>wkbench plugin check\<close> (\<open>cmd/wkbench/plugin_check.go\<close>) and \<open>plugin doctor\<close> and \<open>plugin inspect\<close> of
  \<open>plugin_commands.go\<close>: the checks of a manifest, the report, and the order of flags and targets. Every \<open>printed\<close> value is one line.
\<close>

section \<open>Checking a manifest\<close>

record pluginCheckIssue =
  is_Subject :: string
  is_Message :: goerr

definition pluginProtocolV1 :: string where
  "pluginProtocolV1 = ''wkbench.plugin/v1''"

definition hasVersionSuffixForCheck :: "string \<Rightarrow> bool" where
  "hasVersionSuffixForCheck kind =
     (case LastIndex kind ''/v'' of
        None \<Rightarrow> False
      | Some idx \<Rightarrow> 0 < idx \<and> idx + 2 < length kind \<and> list_all IsDigit (runes (drop (idx + 2) kind)))"

definition encodingsAllowJSON :: "string list \<Rightarrow> bool" where
  "encodingsAllowJSON encodings = list_ex (\<lambda>e. TrimSpace e = ''json'') encodings"

definition unit_subject :: "string \<Rightarrow> string" where
  "unit_subject kind = (if kind = [] then ''unit'' else kind)"

abbreviation issue_if :: "bool \<Rightarrow> string \<Rightarrow> string \<Rightarrow> goarg list \<Rightarrow> pluginCheckIssue list" where
  "issue_if bad subject format args \<equiv> (if bad then [\<lparr>is_Subject = subject, is_Message = Errorf format args\<rparr>] else [])"

definition port_issues :: "string \<Rightarrow> string \<Rightarrow> PortDef \<Rightarrow> pluginCheckIssue list" where
  "port_issues subject direction port =
     (let label = (if TrimSpace (pd_Name port) \<noteq> [] then direction @ '' '' @ pd_Name port else direction);
          meta = Metadata port
      in issue_if (TrimSpace (pd_Name port) = []) subject ''%s port name is required'' [ArgS direction] @
         issue_if (TrimSpace (pd_Type port) = []) subject ''%s type is required'' [ArgS label] @
         issue_if (pm_Boundary meta \<noteq> PortBoundaryData) subject ''%s boundary must be %s'' [ArgS label, ArgS PortBoundaryData] @
         issue_if (pm_Transport meta \<noteq> PortTransportInline) subject ''%s transport must be %s'' [ArgS label, ArgS PortTransportInline] @
         issue_if (pm_Sensitive meta) subject
           ''%s is sensitive; sensitive inline data ports cannot cross plugin RPC in Phase 1'' [ArgS label] @
         issue_if (pm_MaxPayloadBytes (pd_Meta port) < 0) subject ''%s max_payload_bytes must not be negative'' [ArgS label] @
         issue_if (pm_Encodings meta \<noteq> [] \<and> \<not> encodingsAllowJSON (pm_Encodings meta)) subject
           ''%s encodings must include json for Phase 1 inline transport'' [ArgS label])"

definition validatePluginCheckPorts :: "string \<Rightarrow> string \<Rightarrow> PortDef list \<Rightarrow> pluginCheckIssue list" where
  "validatePluginCheckPorts unitKind direction ports = concat (map (port_issues (unit_subject unitKind) direction) ports)"

fun unit_issues :: "string list \<Rightarrow> PluginUnit list \<Rightarrow> pluginCheckIssue list" where
  "unit_issues seenKinds [] = []"
| "unit_issues seenKinds (u # us) =
     (let subject = unit_subject (pu_Kind u); blank = (TrimSpace (pu_Kind u) = [])
      in (if blank then [\<lparr>is_Subject = subject, is_Message = Errorf ''unit kind is required'' []\<rparr>]
          else issue_if (\<not> hasVersionSuffixForCheck (pu_Kind u)) subject ''unit kind %q must end with /vN'' [ArgS (pu_Kind u)] @
            issue_if (pu_Kind u \<in> set seenKinds) subject ''unit kind %q is declared more than once'' [ArgS (pu_Kind u)]) @
         validatePluginCheckPorts (pu_Kind u) ''input'' (pu_Inputs u) @
         validatePluginCheckPorts (pu_Kind u) ''output'' (pu_Outputs u) @
         concat (map (\<lambda>a. issue_if (TrimSpace (ad_Name a) = []) subject ''artifact name is required'' []) (pu_Artifacts u)) @
         unit_issues (if blank then seenKinds else pu_Kind u # seenKinds) us)"

definition validatePluginCheckManifest :: "Plugin \<Rightarrow> pluginCheckIssue list" where
  "validatePluginCheckManifest m =
     issue_if (TrimSpace (pg_Name m) = []) ''plugin'' ''plugin name is required'' [] @
     issue_if (pg_Protocol m \<noteq> pluginProtocolV1) ''plugin'' ''plugin protocol must be %s'' [ArgS pluginProtocolV1] @
     unit_issues [] (pg_Units m)"

section \<open>The report\<close>

definition issuesForSubject :: "pluginCheckIssue list \<Rightarrow> string \<Rightarrow> pluginCheckIssue list" where
  "issuesForSubject issues subject = filter (\<lambda>i. is_Subject i = subject) issues"

definition bool_text :: "bool \<Rightarrow> string" where
  "bool_text b = (if b then ''true'' else ''false'')"

definition portCheckSummary :: "PortDef \<Rightarrow> string" where
  "portCheckSummary port =
     (let meta = Metadata port
      in ''boundary='' @ pm_Boundary meta @ '' transport='' @ pm_Transport meta @ '' reportable='' @ bool_text (pm_Reportable meta) @
         '' sensitive='' @ bool_text (pm_Sensitive meta))"

definition writePluginCheckPorts :: "string \<Rightarrow> PortDef list \<Rightarrow> printed list" where
  "writePluginCheckPorts title ports =
     (if ports = [] then []
      else Printf ''    %s:'' [ArgS title] #
        map (\<lambda>p. Printf ''      - %s %s %s'' [ArgS (pd_Name p), ArgS (pd_Type p), ArgS (portCheckSummary p)]) ports)"

definition check_unit_lines :: "pluginCheckIssue list \<Rightarrow> PluginUnit \<Rightarrow> printed list" where
  "check_unit_lines issues u =
     [Printf ''  - %s: %s%s'' [ArgS (pu_Kind u),
        ArgS (if issuesForSubject issues (unit_subject (pu_Kind u)) \<noteq> [] then ''failed'' else ''ok''),
        ArgS (if pu_Background u then '' background=true'' else [])]] @
     writePluginCheckPorts ''inputs'' (pu_Inputs u) @
     writePluginCheckPorts ''outputs'' (pu_Outputs u) @
     (if pu_Artifacts u = [] then []
      else Printf ''    artifacts:'' [] #
        map (\<lambda>a. Printf ''      - %s%s'' [ArgS (ad_Name a),
          ArgS (if ad_ContentType a \<noteq> [] then '' content_type='' @ ad_ContentType a else [])]) (pu_Artifacts u))"

definition issue_line :: "pluginCheckIssue \<Rightarrow> printed" where
  "issue_line i =
     (if is_Subject i \<noteq> [] then Printf ''  - %s: %s'' [ArgS (is_Subject i), ArgE (is_Message i)]
      else Printf ''  - %s'' [ArgE (is_Message i)])"

definition writePluginCheckReport :: "Plugin \<Rightarrow> pluginCheckIssue list \<Rightarrow> printed list" where
  "writePluginCheckReport m issues =
     [Printf (if issues \<noteq> [] then ''Plugin check: failed'' else ''Plugin check: ok'') [],
      Printf ''Plugin: %s'' [ArgS (pg_Name m)],
      Printf ''Version: %s'' [ArgS (pg_Version m)],
      Printf ''Protocol: %s'' [ArgS (pg_Protocol m)]] @
     (if pg_Source m \<noteq> [] then [Printf ''Source: %s'' [ArgS (pg_Source m)]] else []) @
     (if pg_Units m = [] then [] else Printf ''Units:'' [] # concat (map (check_unit_lines issues) (pg_Units m))) @
     (if issues = [] then [] else Printf ''Issues:'' [] # map issue_line issues)"

definition writeManifestPorts :: "string \<Rightarrow> PortDef list \<Rightarrow> printed list" where
  "writeManifestPorts title ports =
     (if ports = [] then []
      else Printf ''    %s:'' [ArgS title] # map (\<lambda>p. Printf ''      - %s %s'' [ArgS (pd_Name p), ArgS (pd_Type p)]) ports)"

definition writePluginManifest :: "Plugin \<Rightarrow> printed list" where
  "writePluginManifest m =
     [Printf ''Plugin: %s'' [ArgS (pg_Name m)], Printf ''Version: %s'' [ArgS (pg_Version m)],
      Printf ''Protocol: %s'' [ArgS (pg_Protocol m)]] @
     (if pg_Source m \<noteq> [] then [Printf ''Source: %s'' [ArgS (pg_Source m)]] else []) @
     Printf ''Units:'' [] #
     concat (map (\<lambda>u.
       [Printf ''  - %s'' [ArgS (pu_Kind u)]] @
       (if pu_Title u \<noteq> [] then [Printf ''    title: %s'' [ArgS (pu_Title u)]] else []) @
       writeManifestPorts ''inputs'' (pu_Inputs u) @
       writeManifestPorts ''outputs'' (pu_Outputs u) @
       (if pu_Artifacts u = [] then []
        else Printf ''    artifacts:'' [] #
          map (\<lambda>a. Printf ''      - %s%s'' [ArgS (ad_Name a),
            ArgS (if ad_ContentType a \<noteq> [] then '' ('' @ ad_ContentType a @ '')'' else [])]) (pu_Artifacts u))) (pg_Units m))"

section \<open>Arguments\<close>

definition pluginCheckFlagTakesValue :: "string \<Rightarrow> bool" where
  "pluginCheckFlagTakesValue arg \<longleftrightarrow> arg \<in> {''-scenario'', ''--scenario'', ''-timeout'', ''--timeout''}"

definition pluginCheckFlagHasInlineValue :: "string \<Rightarrow> bool" where
  "pluginCheckFlagHasInlineValue arg \<longleftrightarrow>
     prefix ''-scenario='' arg \<or> prefix ''--scenario='' arg \<or> prefix ''-timeout='' arg \<or> prefix ''--timeout='' arg"

text \<open>The loop: the flags with their values, the targets, and whether the terminator was seen.\<close>

fun sort_args :: "string list \<Rightarrow> string list \<times> string list \<times> bool" where
  "sort_args [] = ([], [], False)"
| "sort_args (arg # args) =
     (if arg = ''--'' then ([], args, True)
      else if pluginCheckFlagTakesValue arg then
        (case args of
           [] \<Rightarrow> ([arg], [], False)
         | v # rest \<Rightarrow> (case sort_args rest of (flags, targets, t) \<Rightarrow> (arg # v # flags, targets, t)))
      else (case sort_args args of (flags, targets, t) \<Rightarrow>
        if pluginCheckFlagHasInlineValue arg \<or> prefix ''-'' arg \<and> arg \<noteq> ''-'' then (arg # flags, targets, t)
        else (flags, arg # targets, t)))"

definition pluginCheckInterspersedFlagArgs :: "string list \<Rightarrow> string list" where
  "pluginCheckInterspersedFlagArgs args =
     (case sort_args args of (flags, targets, sawTerminator) \<Rightarrow> flags @ (if sawTerminator then [''--''] else []) @ targets)"

record pluginCheckOptions =
  po_Target :: string
  po_ScenarioPath :: string
  po_Timeout :: int

definition check_flags :: "(string \<Rightarrow> int result) \<Rightarrow> string \<Rightarrow> pluginCheckOptions flagSpec option" where
  "check_flags parseDuration name =
     (if name = ''scenario'' then Some (StringVar (\<lambda>v o'. o'\<lparr>po_ScenarioPath := v\<rparr>))
      else if name = ''timeout'' then
        Some (ValueFlag (\<lambda>v o'. case parseDuration v of Inl err \<Rightarrow> Inl err | Inr d \<Rightarrow> Inr (o'\<lparr>po_Timeout := d\<rparr>)))
      else None)"

definition check_usage :: printed where
  "check_usage = Printf ''usage: wkbench plugin check <name-or-path> [-scenario path] [-timeout duration]'' []"

definition parsePluginCheckArgs :: "(string \<Rightarrow> int result) \<Rightarrow> string list \<Rightarrow> printed list + pluginCheckOptions" where
  "parsePluginCheckArgs parseDuration args =
     (case flag_Parse (check_flags parseDuration) (pluginCheckInterspersedFlagArgs args)
          \<lparr>po_Target = [], po_ScenarioPath = [], po_Timeout = pluginManifestTimeout\<rparr> of
        Inl err \<Rightarrow> Inl ((if err = ErrHelp then [] else [PrintErr err]) @ [check_usage])
      | Inr (options, [target]) \<Rightarrow> Inr (options\<lparr>po_Target := target\<rparr>)
      | Inr _ \<Rightarrow> Inl [check_usage])"

section \<open>Targets and commands\<close>

record pluginCheckTarget =
  ct_Label :: string
  ct_Path :: string

definition pluginCheckTargetLooksLikePath :: "string \<Rightarrow> bool" where
  "pluginCheckTargetLooksLikePath target \<longleftrightarrow> path_IsAbs target \<or> prefix ''.'' target \<or> Contains target ''/''"

definition resolvePluginCheckTarget :: "'w OS \<Rightarrow> yamlCodec \<Rightarrow> string \<Rightarrow> 'w \<Rightarrow> pluginCheckTarget result" where
  "resolvePluginCheckTarget sys yaml target w =
     (let target = TrimSpace target
      in if target = [] then Inl (Errorf ''plugin target is required'' [])
         else if pluginCheckTargetLooksLikePath target then Inr \<lparr>ct_Label = target, ct_Path = path_Clean target\<rparr>
         else (case readProjectPluginConfig sys yaml w of
           Inl err \<Rightarrow> Inl err
         | Inr project \<Rightarrow>
             (case (case project of None \<Rightarrow> None
                | Some (configPath, cfg) \<Rightarrow>
                    map_option (\<lambda>p. resolvePluginPath (pluginConfigProjectDir configPath) (ce_Path p)) (find_entry target (pf_Plugins cfg))) of
                Some path \<Rightarrow> Inr \<lparr>ct_Label = target, ct_Path = path\<rparr>
              | None \<Rightarrow> Inr \<lparr>ct_Label = target, ct_Path = path_Clean target\<rparr>)))"

text \<open>\<open>errText\<close> is the \<open>Error\<close> method.\<close>

definition writePluginCheckInspectError :: "(goerr \<Rightarrow> string) \<Rightarrow> pluginCheckTarget \<Rightarrow> goerr \<Rightarrow> printed" where
  "writePluginCheckInspectError errText target err =
     (if prefix ''start plugin:'' (errText err) then Printf ''plugin %s failed to start: %v'' [ArgS (ct_Label target), ArgE err]
      else Printf ''plugin check failed: %v'' [ArgE err])"

definition runPluginCheckManifest :: "(goerr \<Rightarrow> string) \<Rightarrow> ('c, 'w) plugins \<Rightarrow> pluginCheckTarget \<Rightarrow> int \<Rightarrow> ('c, 'w) cli \<Rightarrow> int \<times> ('c, 'w) cli" where
  "runPluginCheckManifest errText ps target timeout s =
     (case inspectPluginManifestWithTimeout ps (ct_Path target) timeout s of
        (Inl err, s) \<Rightarrow> (exitConfig, say [writePluginCheckInspectError errText target err] s)
      | (Inr manifest, s) \<Rightarrow>
          (let manifest = (if pg_Source manifest = [] then manifest\<lparr>pg_Source := ct_Path target\<rparr> else manifest);
               issues = validatePluginCheckManifest manifest
           in (if issues \<noteq> [] then exitConfig else exitOK, say (writePluginCheckReport manifest issues) s)))"

fun doctor_loop :: "('c, 'w) plugins \<Rightarrow> string \<Rightarrow> pluginConfigEntry list \<Rightarrow> int \<Rightarrow> ('c, 'w) cli \<Rightarrow> int \<times> ('c, 'w) cli" where
  "doctor_loop ps projectDir [] code s = (code, s)"
| "doctor_loop ps projectDir (p # rest) code s =
     (if \<not> isEnabled p
      then doctor_loop ps projectDir rest code (say [Printf ''%s skipped disabled path=%s'' [ArgS (ce_Name p), ArgS (ce_Path p)]] s)
      else (case inspectPluginManifest ps (resolvePluginPath projectDir (ce_Path p)) s of
        (Inl err, s) \<Rightarrow>
          doctor_loop ps projectDir rest exitConfig
            (say [Printf ''%s failed path=%s error=%v'' [ArgS (ce_Name p), ArgS (ce_Path p), ArgE err]] s)
      | (Inr m, s) \<Rightarrow>
          doctor_loop ps projectDir rest code
            (say (Printf ''%s ok plugin=%s version=%s protocol=%s path=%s''
                [ArgS (ce_Name p), ArgS (pg_Name m), ArgS (pg_Version m), ArgS (pg_Protocol m), ArgS (ce_Path p)] #
              map (\<lambda>u. Printf ''  unit %s'' [ArgS (pu_Kind u)]) (pg_Units m)) s)))"

definition runPluginDoctor :: "'w OS \<Rightarrow> yamlCodec \<Rightarrow> ('c, 'w) plugins \<Rightarrow> string list \<Rightarrow> ('c, 'w) cli \<Rightarrow> int \<times> ('c, 'w) cli" where
  "runPluginDoctor sys yaml ps args s =
     (case flag_Parse no_flags args () of
        Inl err \<Rightarrow> (exitConfig, say (flag_report ''plugin doctor'' err) s)
      | Inr _ \<Rightarrow>
          (case readProjectPluginConfig sys yaml (cs_world s) of
             Inl err \<Rightarrow> (exitConfig, say [Printf ''plugin doctor failed: %v'' [ArgE err]] s)
           | Inr None \<Rightarrow> (exitOK, say [Printf ''no plugins configured'' []] s)
           | Inr (Some (configPath, cfg)) \<Rightarrow>
               if pf_Plugins cfg = [] then (exitOK, say [Printf ''no plugins configured'' []] s)
               else doctor_loop ps (pluginConfigProjectDir configPath) (pf_Plugins cfg) exitOK s))"

definition runPluginInspect :: "'w OS \<Rightarrow> yamlCodec \<Rightarrow> ('c, 'w) plugins \<Rightarrow> string list \<Rightarrow> ('c, 'w) cli \<Rightarrow> int \<times> ('c, 'w) cli" where
  "runPluginInspect sys yaml ps args s =
     (case flag_Parse no_flags args () of
        Inl err \<Rightarrow> (exitConfig, say (flag_report ''plugin inspect'' err) s)
      | Inr (_, [target]) \<Rightarrow>
          (case resolvePluginInspectTarget sys yaml target (cs_world s) of
             Inl err \<Rightarrow> (exitConfig, say [Printf ''plugin inspect failed: %v'' [ArgE err]] s)
           | Inr path \<Rightarrow>
               (case inspectPluginManifest ps path s of
                  (Inl err, s) \<Rightarrow> (exitConfig, say [Printf ''plugin inspect failed: %v'' [ArgE err]] s)
                | (Inr manifest, s) \<Rightarrow> (exitOK, say (writePluginManifest manifest) s)))
      | Inr _ \<Rightarrow> (exitConfig, say [Printf ''usage: wkbench plugin inspect <name-or-path>'' []] s))"

section \<open>What a manifest without issues is\<close>

definition port_checked :: "PortDef \<Rightarrow> bool" where
  "port_checked p \<longleftrightarrow>
     TrimSpace (pd_Name p) \<noteq> [] \<and> TrimSpace (pd_Type p) \<noteq> [] \<and>
     pm_Boundary (Metadata p) = PortBoundaryData \<and> pm_Transport (Metadata p) = PortTransportInline \<and>
     \<not> pm_Sensitive (Metadata p) \<and> 0 \<le> pm_MaxPayloadBytes (pd_Meta p) \<and>
     (pm_Encodings (Metadata p) = [] \<or> (\<exists>e\<in>set (pm_Encodings (Metadata p)). TrimSpace e = ''json''))"

definition unit_checked :: "PluginUnit \<Rightarrow> bool" where
  "unit_checked u \<longleftrightarrow>
     TrimSpace (pu_Kind u) \<noteq> [] \<and> hasVersionSuffixForCheck (pu_Kind u) \<and>
     (\<forall>p\<in>set (pu_Inputs u) \<union> set (pu_Outputs u). port_checked p) \<and> (\<forall>a\<in>set (pu_Artifacts u). TrimSpace (ad_Name a) \<noteq> [])"

lemma port_issues_Nil: "port_issues subject direction p = [] \<longleftrightarrow> port_checked p"
  by (auto simp: port_issues_def port_checked_def encodingsAllowJSON_def list_ex_iff Let_def)

lemma unit_issues_Nil:
  "unit_issues seen us = [] \<longleftrightarrow>
     (\<forall>u\<in>set us. unit_checked u) \<and> distinct (map pu_Kind us) \<and> set seen \<inter> set (map pu_Kind us) = {}"
proof (induction us arbitrary: seen)
  case (Cons u us)
  show ?case
    unfolding unit_issues.simps Let_def append_is_Nil_conv Cons.IH
    by (auto simp: unit_checked_def validatePluginCheckPorts_def port_issues_Nil concat_eq_Nil_conv split: if_splits)
qed simp

lemma manifest_issues_Nil:
  "validatePluginCheckManifest m = [] \<longleftrightarrow>
     TrimSpace (pg_Name m) \<noteq> [] \<and> pg_Protocol m = pluginProtocolV1 \<and>
     distinct (map pu_Kind (pg_Units m)) \<and> (\<forall>u\<in>set (pg_Units m). unit_checked u)"
  by (auto simp: validatePluginCheckManifest_def unit_issues_Nil)

lemma LastIndex_Some: "LastIndex s sub = Some i \<Longrightarrow> prefix sub (drop i s) \<and> i \<le> length s"
  by (induction s arbitrary: i) (auto split: option.splits if_splits)

lemma version_suffix:
  assumes "hasVersionSuffixForCheck kind"
  shows "\<exists>base version. kind = base @ ''/v'' @ version \<and> base \<noteq> [] \<and> version \<noteq> [] \<and> (\<forall>r\<in>set (runes version). IsDigit r)"
proof -
  from assms obtain i where i: "LastIndex kind ''/v'' = Some i" "0 < i" "i + 2 < length kind" "\<forall>r\<in>set (runes (drop (i + 2) kind)). IsDigit r"
    by (auto simp: hasVersionSuffixForCheck_def list_all_iff split: option.splits)
  from LastIndex_Some [OF i(1)] obtain rest where "drop i kind = ''/v'' @ rest" by (auto simp: prefix_def)
  moreover then have "rest = drop (i + 2) kind" by (metis append_eq_conv_conj drop_drop add.commute length_Cons list.size(3) Suc_1 One_nat_def numeral_2_eq_2)
  ultimately have "kind = take i kind @ ''/v'' @ drop (i + 2) kind" by (metis append_take_drop_id)
  with i show ?thesis by (intro exI [of _ "take i kind"] exI [of _ "drop (i + 2) kind"]) auto
qed

text \<open>
  What \<open>plugin check\<close> promises. A manifest passes exactly if it has a name and the protocol of version one, its kinds are distinct, and every unit has a
  versioned kind, named artifacts, and ports that are inline data, not sensitive and open to JSON. The inputs of a unit of such a manifest, if its encodings are written without white space around
  them, cross to the plugin whenever they can be encoded within the size of their ports.
\<close>

theorem plugin_check_admits:
  "(validatePluginCheckManifest m = [] \<longleftrightarrow>
     TrimSpace (pg_Name m) \<noteq> [] \<and> pg_Protocol m = ''wkbench.plugin/v1'' \<and>
     distinct (map pu_Kind (pg_Units m)) \<and> (\<forall>u\<in>set (pg_Units m). unit_checked u)) \<and>
   (validatePluginCheckManifest m = [] \<longrightarrow> u \<in> set (pg_Units m) \<longrightarrow>
     (\<forall>p\<in>set (pu_Inputs u). \<forall>e\<in>set (pm_Encodings (pd_Meta p)). TrimSpace e = e) \<longrightarrow>
     (\<forall>n v. fmlookup inputs n = Some v \<longrightarrow> n \<in> pd_Name ` set (pu_Inputs u) \<and>
        (\<exists>data. marshal v = Inr data \<and>
           (\<forall>p\<in>set (pu_Inputs u). pd_Name p = n \<longrightarrow> int (length data) \<le> pm_MaxPayloadBytes (Metadata p)))) \<longrightarrow>
     (\<exists>vals. encodeInputPortValues marshal (map_keys inputs) (pu_Inputs u) fmempty inputs = Inr vals))"
proof (intro conjI impI)
  show "validatePluginCheckManifest m = [] \<longleftrightarrow>
     TrimSpace (pg_Name m) \<noteq> [] \<and> pg_Protocol m = ''wkbench.plugin/v1'' \<and>
     distinct (map pu_Kind (pg_Units m)) \<and> (\<forall>u\<in>set (pg_Units m). unit_checked u)"
    using manifest_issues_Nil [of m] by (simp add: pluginProtocolV1_def)
  assume ok: "validatePluginCheckManifest m = []" "u \<in> set (pg_Units m)"
    and plain: "\<forall>p\<in>set (pu_Inputs u). \<forall>e\<in>set (pm_Encodings (pd_Meta p)). TrimSpace e = e"
    and inputs: "\<forall>n v. fmlookup inputs n = Some v \<longrightarrow> n \<in> pd_Name ` set (pu_Inputs u) \<and>
        (\<exists>data. marshal v = Inr data \<and>
           (\<forall>p\<in>set (pu_Inputs u). pd_Name p = n \<longrightarrow> int (length data) \<le> pm_MaxPayloadBytes (Metadata p)))"
  have cross: "may_cross (Metadata p)" if "p \<in> set (pu_Inputs u)" for p
  proof -
    have "port_checked p" using ok that by (auto simp: manifest_issues_Nil unit_checked_def)
    moreover have "pm_Encodings (Metadata p) = pm_Encodings (pd_Meta p)" by (simp add: Metadata_def Let_def)
    ultimately show ?thesis using plain that by (force simp: may_cross_def port_checked_def)
  qed
  show "\<exists>vals. encodeInputPortValues marshal (map_keys inputs) (pu_Inputs u) fmempty inputs = Inr vals"
  proof (cases "map_len inputs = 0")
    case False
    let ?defs = "map_collect pd_Name id (pu_Inputs u) fmempty"
    have "\<exists>pv. encode_input marshal ?defs fmempty n (the (fmlookup inputs n)) = Inr pv" if "n \<in> set (map_keys inputs)" for n
    proof -
      from that obtain v where v: "fmlookup inputs n = Some v" by (auto simp: fmlookup_dom_iff)
      with inputs obtain data where data: "n \<in> pd_Name ` set (pu_Inputs u)" "marshal v = Inr data"
        "\<forall>p\<in>set (pu_Inputs u). pd_Name p = n \<longrightarrow> int (length data) \<le> pm_MaxPayloadBytes (Metadata p)" by blast
      have "n \<in> fset (fmdom ?defs)" using data(1) by (auto simp: fmdom_map_collect)
      then obtain def where def: "fmlookup ?defs n = Some def" by (auto simp: fmlookup_dom_iff)
      from map_collect_lookup_Some [OF this] have "def \<in> set (pu_Inputs u)" "pd_Name def = n" by auto
      with cross [of def] data def v show ?thesis
        using validatePhase1InputPort_None [of "''consumer input''" "pd_Name def" "Metadata def"]
        by (auto simp: encode_input_def check_source_def Let_def)
    qed
    then show ?thesis
      using False encode_inputs_total [of "map_keys inputs" marshal ?defs fmempty inputs fmempty]
      by (auto simp: encodeInputPortValues_def)
  qed (simp add: encodeInputPortValues_def)
qed

text \<open>With white space around \<open>json\<close> the check passes and the gate refuses.\<close>

lemma check_passes_gate_refuses:
  "encodingsAllowJSON ['' json ''] \<and> \<not> may_cross (m\<lparr>pm_Encodings := ['' json '']\<rparr>)"
proof -
  have "TrimSpace '' json '' = ''json''" by code_simp
  then show ?thesis by (simp add: encodingsAllowJSON_def may_cross_def)
qed

definition echo_manifest :: Plugin where
  "echo_manifest = \<lparr>pg_Name = ''demo'', pg_Version = ''1'', pg_Protocol = ''wkbench.plugin/v1'', pg_Source = [], pg_Checksum = [],
     pg_Units = [\<lparr>pu_PluginName = ''demo'', pu_Kind = ''demo.echo/v1'', pu_Title = [], pu_Description = [], pu_Inputs = [gate_port],
       pu_Outputs = [], pu_Metrics = [], pu_Artifacts = [], pu_Background = False\<rparr>]\<rparr>"

theorem plugin_check_admits_witness:
  "validatePluginCheckManifest echo_manifest = [] \<and>
   (\<exists>vals. encodeInputPortValues Inr [''in''] [gate_port] fmempty (fmupd ''in'' ''1'' fmempty) = Inr vals)"
proof -
  have digit: "hasVersionSuffixForCheck ''demo.echo/v1''"
    by (simp add: hasVersionSuffixForCheck_def runes.simps(2) DecodeRune_def IsDigit_def digit_zeros_def)
  have trims: "TrimSpace ''demo'' = ''demo''" "TrimSpace ''in'' = ''in''" "TrimSpace ''t'' = ''t''" "TrimSpace ''demo.echo/v1'' = ''demo.echo/v1''"
    by code_simp+
  have port: "port_checked gate_port"
    by code_simp
  have ok: "validatePluginCheckManifest echo_manifest = []"
    using port digit by (simp add: manifest_issues_Nil echo_manifest_def pluginProtocolV1_def unit_checked_def trims)
  have enc: "pm_Encodings (pd_Meta gate_port) = []" "pd_Name gate_port = ''in''" "1 \<le> pm_MaxPayloadBytes (Metadata gate_port)"
    by (simp_all add: gate_port_def empty_PortMeta_def Metadata_def Let_def DefaultInlinePortMaxPayloadBytes_def)
  have keys: "map_keys (fmupd ''in'' ''1'' fmempty) = [''in'']" by (rule map_keys_unique) auto
  let ?u = "hd (pg_Units echo_manifest)" and ?in = "fmupd ''in'' ''1'' fmempty :: string gomap"
  have u: "?u \<in> set (pg_Units echo_manifest)" "pu_Inputs ?u = [gate_port]" by (simp_all add: echo_manifest_def)
  have plain: "\<forall>p\<in>set (pu_Inputs ?u). \<forall>e\<in>set (pm_Encodings (pd_Meta p)). TrimSpace e = e" by (simp add: u enc)
  have ins: "\<forall>n v. fmlookup ?in n = Some v \<longrightarrow> n \<in> pd_Name ` set (pu_Inputs ?u) \<and>
      (\<exists>data. Inr v = Inr data \<and> (\<forall>p\<in>set (pu_Inputs ?u). pd_Name p = n \<longrightarrow> int (length data) \<le> pm_MaxPayloadBytes (Metadata p)))"
    using enc(2,3) by (auto simp: u split: if_splits)
  have "\<exists>vals. encodeInputPortValues Inr (map_keys ?in) [gate_port] fmempty ?in = Inr vals"
    using plugin_check_admits [THEN conjunct2, THEN mp, OF ok, THEN mp, OF u(1), THEN mp, OF plain, THEN mp, OF ins] by (simp only: u(2))
  with ok show ?thesis by (simp add: keys)
qed

section \<open>Flags and targets in any order\<close>

text \<open>What a user writes: a target, or a flag with its value as the next argument.\<close>

datatype check_item = Target string | ScenarioIs string | TimeoutIs string

fun item_args :: "check_item \<Rightarrow> string list" where
  "item_args (Target t) = [t]"
| "item_args (ScenarioIs v) = [''-scenario'', v]"
| "item_args (TimeoutIs v) = [''-timeout'', v]"

fun item_ok :: "(string \<Rightarrow> int result) \<Rightarrow> check_item \<Rightarrow> bool" where
  "item_ok parseDuration (Target t) \<longleftrightarrow> \<not> prefix ''-'' t"
| "item_ok parseDuration (ScenarioIs v) \<longleftrightarrow> True"
| "item_ok parseDuration (TimeoutIs v) \<longleftrightarrow> (\<exists>d. parseDuration v = Inr d)"

fun item_apply :: "(string \<Rightarrow> int result) \<Rightarrow> check_item \<Rightarrow> pluginCheckOptions \<Rightarrow> pluginCheckOptions" where
  "item_apply parseDuration (Target t) o' = o'"
| "item_apply parseDuration (ScenarioIs v) o' = o'\<lparr>po_ScenarioPath := v\<rparr>"
| "item_apply parseDuration (TimeoutIs v) o' = (case parseDuration v of Inl err \<Rightarrow> o' | Inr d \<Rightarrow> o'\<lparr>po_Timeout := d\<rparr>)"

definition is_target :: "check_item \<Rightarrow> bool" where
  "is_target i = (case i of Target t \<Rightarrow> True | _ \<Rightarrow> False)"

lemma sort_items:
  "list_all (item_ok parseDuration) items \<Longrightarrow>
   sort_args (concat (map item_args items)) =
     (concat (map item_args (filter (\<lambda>i. \<not> is_target i) items)), concat (map item_args (filter is_target items)), False)"
proof (induction items)
  case (Cons i items)
  have no: "\<not> prefix ''-'' t \<Longrightarrow> t \<noteq> ''--'' \<and> \<not> pluginCheckFlagTakesValue t \<and> \<not> pluginCheckFlagHasInlineValue t" for t
    by (cases t) (auto simp: pluginCheckFlagTakesValue_def pluginCheckFlagHasInlineValue_def)
  from Cons no show ?case
    by (cases i) (auto simp: is_target_def pluginCheckFlagTakesValue_def)
qed simp

lemma parse_flag_items:
  "list_all (item_ok parseDuration) items \<Longrightarrow>
   flag_Parse (check_flags parseDuration) (concat (map item_args (filter (\<lambda>i. \<not> is_target i) items)) @ rest) o' =
     flag_Parse (check_flags parseDuration) rest (fold (item_apply parseDuration) items o')"
proof (induction items arbitrary: o')
  case (Cons i items)
  have names: "flag_name ''-scenario'' = ''scenario''" "flag_name ''-timeout'' = ''timeout''" by (simp_all add: flag_name_def)
  from Cons show ?case
    by (cases i) (auto simp: is_target_def flag_Parse.simps(2) names check_flags_def StringVar_def)
qed simp

text \<open>
  Flags and target in any order. Whatever the order in which a user writes one target and any number of \<open>-scenario\<close> and \<open>-timeout\<close> flags with
  valid values, \<open>plugin check\<close> takes that target, and of each flag the last value.
\<close>

theorem check_options_any_order:
  assumes "list_all (item_ok parseDuration) items" and "filter is_target items = [Target t]"
  shows "parsePluginCheckArgs parseDuration (concat (map item_args items)) =
    Inr ((fold (item_apply parseDuration) items
      \<lparr>po_Target = [], po_ScenarioPath = [], po_Timeout = pluginManifestTimeout\<rparr>)\<lparr>po_Target := t\<rparr>)"
proof -
  have "item_ok parseDuration (Target t)"
    using assms by (metis Cons_eq_filterD list_all_iff in_set_conv_decomp)
  then have "\<not> is_flag t" by (cases t) (auto simp: is_flag_def)
  then show ?thesis
    using sort_items [OF assms(1)] parse_flag_items [OF assms(1), of "[t]"] assms(2)
    by (simp add: parsePluginCheckArgs_def pluginCheckInterspersedFlagArgs_def flag_Parse_target)
qed

theorem check_options_any_order_witness:
  "parsePluginCheckArgs (\<lambda>_. Inr 5) [''-scenario'', ''a.yaml'', ''./demo'', ''-timeout'', ''5ns''] =
     Inr \<lparr>po_Target = ''./demo'', po_ScenarioPath = ''a.yaml'', po_Timeout = 5\<rparr>"
  using check_options_any_order [of "\<lambda>_. Inr 5" "[ScenarioIs ''a.yaml'', Target ''./demo'', TimeoutIs ''5ns'']" "''./demo''"]
  by (simp add: is_target_def)

text \<open>A flag without its value at the end of the line takes the first target as its value.\<close>

lemma missing_value_takes_target:
  "parsePluginCheckArgs parseDuration [''a'', ''b'', ''-scenario''] =
     Inr \<lparr>po_Target = ''b'', po_ScenarioPath = ''a'', po_Timeout = pluginManifestTimeout\<rparr>"
  by (simp add: parsePluginCheckArgs_def pluginCheckInterspersedFlagArgs_def pluginCheckFlagTakesValue_def pluginCheckFlagHasInlineValue_def
      flag_Parse.simps(2) flag_name_def check_flags_def StringVar_def)

end
