(* ===== verification/Unit_Ports.thy ===== *)
theory Unit_Ports
  imports Test_Env "HOL-Library.Word"
begin

text \<open>
  What the bundled units share: the port values of \<open>benchkit/ports\<close> (identity pools, group and send
  target sets, traffic summaries, send requests), the typed \<open>Input\<close> and \<open>Output\<close> of
  \<open>benchkit/contract/types.go\<close>, and its \<open>Rate\<close> and \<open>Duration\<close> with their decoding. \<open>strconv\<close>,
  \<open>time.ParseDuration\<close> and \<open>encoding/json\<close> are parameters. An index out of range is the value
  \<open>index_panic\<close>, so that the absence of panics is a theorem. Non-negative Go \<open>int\<close>s are written with
  \<open>div\<close> and \<open>mod\<close>, which agree there with Go's truncating operators.
\<close>

section \<open>Port values\<close>

definition index_panic :: goerr where
  "index_panic = Errorf ''panic: runtime error: index out of range'' []"

definition slice_At :: "'a list \<Rightarrow> int \<Rightarrow> 'a result" where
  "slice_At xs i = (if 0 \<le> i \<and> i < int (length xs) then Inr (xs ! nat i) else Inl index_panic)"

record Identity =
  id_UID :: string
  id_DeviceID :: string
  id_Token :: string

record PoolData =
  po_Items :: "Identity list"

definition pool_Count :: "PoolData \<Rightarrow> int" where
  "pool_Count p = int (length (po_Items p))"

definition pool_At :: "PoolData \<Rightarrow> int \<Rightarrow> Identity result" where
  "pool_At p index = slice_At (po_Items p) index"

definition TokenFor :: "string \<Rightarrow> PoolData \<Rightarrow> string \<times> bool" where
  "TokenFor uid p =
     (case find (\<lambda>item. id_UID item = uid) (po_Items p) of
        Some item \<Rightarrow> (id_Token item, id_Token item \<noteq> [])
      | None \<Rightarrow> ([], False))"

record GroupChannel =
  gc_ChannelID :: string
  gc_Members :: "string list"

record GroupSetData =
  gs_Items :: "GroupChannel list"

definition groups_Count :: "GroupSetData \<Rightarrow> int" where
  "groups_Count s = int (length (gs_Items s))"

definition groups_At :: "GroupSetData \<Rightarrow> int \<Rightarrow> GroupChannel result" where
  "groups_At s index = slice_At (gs_Items s) index"

record SendTarget =
  st_ChannelID :: string
  st_ChannelType :: "8 word"
  st_SenderUIDs :: "string list"

record SendTargetSetData =
  ss_Items :: "SendTarget list"

definition targets_Count :: "SendTargetSetData \<Rightarrow> int" where
  "targets_Count s = int (length (ss_Items s))"

definition targets_At :: "SendTargetSetData \<Rightarrow> int \<Rightarrow> SendTarget result" where
  "targets_At s index = slice_At (ss_Items s) index"

record SendRequest =
  sr_ChannelID :: string
  sr_ChannelType :: "8 word"
  sr_SenderUID :: string
  sr_ClientMsgNo :: string
  sr_Payload :: string
  sr_Timeout :: int

record GroupSendRequest =
  gq_ChannelID :: string
  gq_SenderUID :: string
  gq_ClientMsgNo :: string
  gq_Payload :: string
  gq_Timeout :: int

record SendAck =
  sk_MessageID :: int
  sk_MessageSeq :: "64 word"
  sk_WireLatency :: int

record Target =
  tg_APIAddrs :: "string list"
  tg_GatewayTCPAddrs :: "string list"
  tg_BenchAPIToken :: string
  tg_OperationTimeout :: int

text \<open>Connected clients by user id; a client is the number of its connection.\<close>

record SessionPool =
  sn_clients :: "nat gomap"

section \<open>Traffic summaries\<close>

record Summary =
  sm_SendackOK :: "64 word"
  sm_SendackErrors :: "64 word"
  sm_ElapsedMS :: int
  sm_LastMessageID :: int

definition zero_Summary :: Summary where
  "zero_Summary = \<lparr>sm_SendackOK = 0, sm_SendackErrors = 0, sm_ElapsedMS = 0, sm_LastMessageID = 0\<rparr>"

definition float_of_word :: "64 word \<Rightarrow> float64" where
  "float_of_word w = float_of_int (uint w)"

definition SendackErrorRate :: "Summary \<Rightarrow> float64" where
  "SendackErrorRate s =
     (let total = sm_SendackOK s + sm_SendackErrors s
      in if total = 0 then 0 else float_of_word (sm_SendackErrors s) div float_of_word total)"

definition ActualQPS :: "Summary \<Rightarrow> float64" where
  "ActualQPS s =
     (if sm_ElapsedMS s \<le> 0 then 0
      else float_of_word (sm_SendackOK s) div (float_of_int (sm_ElapsedMS s) div Fin 1000))"

section \<open>Typed inputs and outputs\<close>

text \<open>
  A Go type \<open>T\<close> as \<open>Input[T]\<close> uses it: the type assertion \<open>value.(T)\<close>, and the JSON decoder for \<open>T\<close>.
\<close>

record ('v, 'a) typed =
  ty_assert :: "'v \<Rightarrow> 'a option"
  ty_Unmarshal :: "string \<Rightarrow> 'a result"

definition Input_typed :: "('v \<Rightarrow> string result) \<Rightarrow> ('v, 'a) typed \<Rightarrow> string \<Rightarrow> 'v TestRunEnv \<Rightarrow> 'a result" where
  "Input_typed Marshal t name env =
     (case te_Input name env of
        Inl err \<Rightarrow> Inl err
      | Inr value \<Rightarrow>
          (case ty_assert t value of
             Some typed \<Rightarrow> Inr typed
           | None \<Rightarrow>
               (case Marshal value of
                  Inl err \<Rightarrow> Inl (Errorf ''input %q has unexpected type %T and cannot encode as json: %w'' [ArgS name, ArgE err])
                | Inr payload \<Rightarrow>
                    (case ty_Unmarshal t payload of
                       Inl err \<Rightarrow> Inl (Errorf ''input %q has unexpected type %T; decode as %T: %w'' [ArgS name, ArgE err])
                     | Inr decoded \<Rightarrow> Inr decoded))))"

definition Output_typed :: "('v, 'a) typed \<Rightarrow> string \<Rightarrow> 'v TestRunEnv \<Rightarrow> 'a result" where
  "Output_typed t name env =
     (case te_Output name env of
        None \<Rightarrow> Inl (Errorf ''output %q not found'' [ArgS name])
      | Some value \<Rightarrow>
          (case ty_assert t value of
             None \<Rightarrow> Inl (Errorf ''output %q has unexpected type %T'' [ArgS name])
           | Some typed \<Rightarrow> Inr typed))"

text \<open>A value that was set under a name is read back as the type it has, and a wired input as well.\<close>

lemma Output_typed_set: "ty_assert t v = Some x \<Longrightarrow> Output_typed t name (te_SetOutput name v env) = Inr x"
  by (simp add: Output_typed_def tenv_out.get_put)

lemma Output_typed_set_other:
  "name \<noteq> name' \<Longrightarrow> Output_typed t name' (te_SetOutput name v env) = Output_typed t name' env"
  by (simp add: Output_typed_def tenv_out.get_put_other)

lemma Input_typed_value:
  "fmlookup (te_inputs env) name = Some v \<Longrightarrow> ty_assert t v = Some x \<Longrightarrow> Input_typed Marshal t name env = Inr x"
  by (simp add: Input_typed_def te_Input_def)

lemma Input_typed_missing:
  "fmlookup (te_inputs env) name = None \<Longrightarrow>
   Input_typed Marshal t name env = Inl (Errorf ''input %q not found'' [ArgS name])"
  by (simp add: Input_typed_def te_Input_def)

text \<open>
  The values that travel between the bundled units. A message or group sender is an interface value: what the
  traffic units ask of it before sending is whether it has a client for a user id. The prepared sets are types of
  their own in Go, so a type assertion for the set types of the ports fails on them.
\<close>

record AssertResult =
  rs_Passed :: bool
  rs_Failures :: "string list"

datatype unit_value =
    PoolV PoolData
  | TargetsV SendTargetSetData
  | GroupsV GroupSetData
  | SummaryV Summary
  | ResultV AssertResult
  | MessageSenderV "string \<Rightarrow> bool"
  | GroupSenderV "string \<Rightarrow> bool"
  | TargetV Target
  | TokensV "string gomap"
  | PreparedGroupsV GroupSetData
  | PreparedTargetsV SendTargetSetData
  | SessionsV SessionPool
  | OtherV string

fun as_pool :: "unit_value \<Rightarrow> PoolData option" where
  "as_pool (PoolV p) = Some p" | "as_pool _ = None"

fun as_targets :: "unit_value \<Rightarrow> SendTargetSetData option" where
  "as_targets (TargetsV p) = Some p" | "as_targets _ = None"

fun as_groups :: "unit_value \<Rightarrow> GroupSetData option" where
  "as_groups (GroupsV p) = Some p" | "as_groups _ = None"

fun as_summary :: "unit_value \<Rightarrow> Summary option" where
  "as_summary (SummaryV p) = Some p" | "as_summary _ = None"

fun as_result :: "unit_value \<Rightarrow> AssertResult option" where
  "as_result (ResultV p) = Some p" | "as_result _ = None"

fun as_message_sender :: "unit_value \<Rightarrow> (string \<Rightarrow> bool) option" where
  "as_message_sender (MessageSenderV p) = Some p"
| "as_message_sender (SessionsV p) = Some (\<lambda>uid. fmlookup (sn_clients p) uid \<noteq> None)"
| "as_message_sender _ = None"

fun as_group_sender :: "unit_value \<Rightarrow> (string \<Rightarrow> bool) option" where
  "as_group_sender (GroupSenderV p) = Some p"
| "as_group_sender (SessionsV p) = Some (\<lambda>uid. fmlookup (sn_clients p) uid \<noteq> None)"
| "as_group_sender _ = None"

fun as_target :: "unit_value \<Rightarrow> Target option" where
  "as_target (TargetV p) = Some p" | "as_target _ = None"

text \<open>What implements \<open>TokenSource\<close>: prepared tokens, and pools.\<close>

fun as_token_source :: "unit_value \<Rightarrow> (string \<Rightarrow> string \<times> bool) option" where
  "as_token_source (TokensV m) = Some (\<lambda>uid. case fmlookup m uid of Some t \<Rightarrow> (t, True) | None \<Rightarrow> ([], False))"
| "as_token_source (PoolV p) = Some (\<lambda>uid. TokenFor uid p)"
| "as_token_source _ = None"

definition trimStrings :: "string list \<Rightarrow> string list" where
  "trimStrings values = filter (\<lambda>v. v \<noteq> []) (map TrimSpace values)"

section \<open>Rates and durations\<close>

record Rate =
  rt_PerSecond :: float64

definition ParseRate :: "(string \<Rightarrow> float64 result) \<Rightarrow> string \<Rightarrow> Rate result" where
  "ParseRate ParseFloat raw =
     (let raw = TrimSpace raw;
          raw = TrimSuffix raw ''/sec'';
          raw = TrimSuffix raw ''/s''
      in if raw = [] then Inl (Errorf ''rate is empty'' [])
         else case ParseFloat (TrimSpace raw) of
                Inl err \<Rightarrow> Inl (Errorf ''invalid rate %q: %w'' [ArgS raw, ArgE err])
              | Inr value \<Rightarrow> Inr \<lparr>rt_PerSecond = value\<rparr>)"

text \<open>The JSON decoder for a string, a float and an \<open>int64\<close>.\<close>

record JsonScalars =
  js_string :: "string \<Rightarrow> string result"
  js_float :: "string \<Rightarrow> float64 result"
  js_int64 :: "string \<Rightarrow> int result"

definition rate_UnmarshalJSON :: "JsonScalars \<Rightarrow> (string \<Rightarrow> float64 result) \<Rightarrow> string \<Rightarrow> Rate result" where
  "rate_UnmarshalJSON js ParseFloat data =
     (case js_string js data of
        Inr raw \<Rightarrow> ParseRate ParseFloat raw
      | Inl _ \<Rightarrow> (case js_float js data of Inl err \<Rightarrow> Inl err | Inr number \<Rightarrow> Inr \<lparr>rt_PerSecond = number\<rparr>))"

definition duration_UnmarshalJSON :: "JsonScalars \<Rightarrow> (string \<Rightarrow> int result) \<Rightarrow> string \<Rightarrow> int result" where
  "duration_UnmarshalJSON js ParseDuration data =
     (case js_string js data of
        Inr raw \<Rightarrow> ParseDuration (TrimSpace raw)
      | Inl _ \<Rightarrow> js_int64 js data)"

lemma slice_At_mod:
  "xs \<noteq> [] \<Longrightarrow> 0 \<le> i \<Longrightarrow> slice_At xs (i mod int (length xs)) = Inr (xs ! (nat i mod length xs))"
  by (auto simp: slice_At_def nat_mod_distrib)

lemma slice_At_0: "xs \<noteq> [] \<Longrightarrow> slice_At xs 0 = Inr (xs ! 0)"
  by (simp add: slice_At_def)

end
