(* ===== verification/Prom_Text.thy ===== *)
theory Prom_Text
  imports Unit_Ports Metric_Store
begin

text \<open>
  The Prometheus text parser of \<open>units/wukongim/metrics_collector/prometheus.go\<close>. Go ranges over the runes of a
  line; only ASCII runes matter to the scanners, and the bytes of a longer rune are none of them, so the scanners
  run over bytes. \<open>strconv\<close> and \<open>regexp\<close> are the parameters in \<open>PromLib\<close>: a compiled pattern is its match
  function. \<open>bufio.Scanner\<close> is \<open>scan_lines\<close>.
\<close>

section \<open>Library\<close>

record PromLib =
  pl_ParseFloat :: "string \<Rightarrow> float64 result"
  pl_ParseInt :: "string \<Rightarrow> int result"
  pl_Unquote :: "string \<Rightarrow> string result"
  pl_Compile :: "string \<Rightarrow> (string \<Rightarrow> bool) result"

text \<open>
  \<open>bufio.ScanLines\<close>: lines end at a newline, a carriage return before it is dropped, and there is no
  empty last line. A line that does not fit the buffer ends the scan with an error.
\<close>

definition maxTokenSize :: nat where "maxTokenSize = 1024 * 1024"

definition dropCR :: "string \<Rightarrow> string" where
  "dropCR l = (if l \<noteq> [] \<and> last l = CHR 0x0D then butlast l else l)"

fun take_lines :: "string list \<Rightarrow> string list \<times> goerr option" where
  "take_lines [] = ([], None)"
| "take_lines (l # ls) =
     (if maxTokenSize \<le> length l then ([], Some (Errorf ''bufio.Scanner: token too long'' []))
      else if ls = [] \<and> l = [] then ([], None)
      else (case take_lines ls of (rest, err) \<Rightarrow> (dropCR l # rest, err)))"

definition scan_lines :: "string \<Rightarrow> string list \<times> goerr option" where
  "scan_lines data = take_lines (Split data (CHR 0x0A))"

section \<open>Filters\<close>

record metricFilter =
  mf_include :: "(string \<Rightarrow> bool) list"
  mf_exclude :: "(string \<Rightarrow> bool) list"

fun compileRegexps :: "PromLib \<Rightarrow> string \<Rightarrow> string list \<Rightarrow> (string \<Rightarrow> bool) list result" where
  "compileRegexps lib field [] = Inr []"
| "compileRegexps lib field (pattern # patterns) =
     (case pl_Compile lib pattern of
        Inl err \<Rightarrow> Inl (Errorf ''%s regex %q is invalid: %w'' [ArgS field, ArgS pattern, ArgE err])
      | Inr compiled \<Rightarrow>
          (case compileRegexps lib field patterns of
             Inl err \<Rightarrow> Inl err
           | Inr rest \<Rightarrow> Inr (compiled # rest)))"

definition newMetricFilter :: "PromLib \<Rightarrow> string list \<Rightarrow> string list \<Rightarrow> metricFilter result" where
  "newMetricFilter lib include exclude =
     (case compileRegexps lib ''include'' include of
        Inl err \<Rightarrow> Inl err
      | Inr inc \<Rightarrow>
          (case compileRegexps lib ''exclude'' exclude of
             Inl err \<Rightarrow> Inl err
           | Inr exc \<Rightarrow> Inr \<lparr>mf_include = inc, mf_exclude = exc\<rparr>))"

definition filter_match :: "metricFilter \<Rightarrow> string \<Rightarrow> bool" where
  "filter_match f name =
     (if mf_include f \<noteq> [] \<and> \<not> list_ex (\<lambda>re. re name) (mf_include f) then False
      else \<not> list_ex (\<lambda>re. re name) (mf_exclude f))"

section \<open>Characters\<close>

definition in_range :: "char \<Rightarrow> char \<Rightarrow> char \<Rightarrow> bool" where
  "in_range lo hi c \<longleftrightarrow> (of_char lo :: nat) \<le> of_char c \<and> (of_char c :: nat) \<le> of_char hi"

definition is_letter :: "char \<Rightarrow> bool" where
  "is_letter c \<longleftrightarrow> in_range (CHR ''A'') (CHR ''Z'') c \<or> in_range (CHR ''a'') (CHR ''z'') c"

definition is_digit :: "char \<Rightarrow> bool" where
  "is_digit c \<longleftrightarrow> in_range (CHR ''0'') (CHR ''9'') c"

definition isASCIIWhitespace :: "char \<Rightarrow> bool" where
  "isASCIIWhitespace r \<longleftrightarrow> r = CHR '' '' \<or> r = CHR 0x09 \<or> r = CHR 0x0A \<or> r = CHR 0x0D \<or> r = CHR 0x0C"

definition isPrometheusMetricName :: "string \<Rightarrow> bool" where
  "isPrometheusMetricName name =
     (case name of
        [] \<Rightarrow> False
      | c # cs \<Rightarrow> (is_letter c \<or> c = CHR ''_'' \<or> c = CHR '':'') \<and>
          list_all (\<lambda>r. is_letter r \<or> is_digit r \<or> r = CHR ''_'' \<or> r = CHR '':'') cs)"

definition isPrometheusLabelKey :: "string \<Rightarrow> bool" where
  "isPrometheusLabelKey key =
     (case key of
        [] \<Rightarrow> False
      | c # cs \<Rightarrow> (is_letter c \<or> c = CHR ''_'') \<and>
          list_all (\<lambda>r. is_letter r \<or> is_digit r \<or> r = CHR ''_'') cs)"

section \<open>Scanning\<close>

text \<open>
  The loop of \<open>splitSampleLine\<close>: the part of the line before the first white space outside quotes, and the
  rest from there on.
\<close>

fun cut_sample :: "bool \<Rightarrow> bool \<Rightarrow> string \<Rightarrow> (string \<times> string) option" where
  "cut_sample inQuote escaped [] = None"
| "cut_sample inQuote escaped (r # rest) =
     (if escaped then map_option (apfst (Cons r)) (cut_sample inQuote False rest)
      else if inQuote \<and> r = CHR 0x5C then map_option (apfst (Cons r)) (cut_sample inQuote True rest)
      else if r = CHR 0x22 then map_option (apfst (Cons r)) (cut_sample (\<not> inQuote) False rest)
      else if \<not> inQuote \<and> isASCIIWhitespace r then Some ([], r # rest)
      else map_option (apfst (Cons r)) (cut_sample inQuote False rest))"

definition splitSampleLine :: "PromLib \<Rightarrow> string \<Rightarrow> (string \<times> string) option" where
  "splitSampleLine lib line =
     (case cut_sample False False line of
        None \<Rightarrow> None
      | Some (before, after) \<Rightarrow>
          (let expr = TrimSpace before; rest = TrimSpace after
           in if expr = [] \<or> rest = [] then None
              else (case Fields rest of
                      [v] \<Rightarrow> Some (expr, v)
                    | [v, ts] \<Rightarrow> (case pl_ParseInt lib ts of Inl _ \<Rightarrow> None | Inr _ \<Rightarrow> Some (expr, v))
                    | _ \<Rightarrow> None)))"

text \<open>
  The loop of \<open>splitLabelPairs\<close>: the pieces between the commas outside quotes, and whether the text ends
  outside quotes.
\<close>

definition onto :: "string \<Rightarrow> string list \<times> bool \<Rightarrow> string list \<times> bool" where
  "onto t res = (case fst res of [] \<Rightarrow> ([t], snd res) | p # ps \<Rightarrow> ((t @ p) # ps, snd res))"

fun cut_labels :: "bool \<Rightarrow> bool \<Rightarrow> string \<Rightarrow> string list \<times> bool" where
  "cut_labels inQuote escaped [] = ([[]], \<not> inQuote \<and> \<not> escaped)"
| "cut_labels inQuote escaped (r # rest) =
     (if \<not> escaped \<and> \<not> (inQuote \<and> r = CHR 0x5C) \<and> r \<noteq> CHR 0x22 \<and> \<not> inQuote \<and> r = CHR '',''
      then apfst (Cons []) (cut_labels inQuote False rest)
      else onto [r] (cut_labels
              (if \<not> escaped \<and> \<not> (inQuote \<and> r = CHR 0x5C) \<and> r = CHR 0x22 then \<not> inQuote else inQuote)
              (\<not> escaped \<and> inQuote \<and> r = CHR 0x5C) rest))"

definition splitLabelPairs :: "string \<Rightarrow> string list option" where
  "splitLabelPairs raw =
     (case cut_labels False False raw of
        (ps, ok) \<Rightarrow>
          (if \<not> ok \<or> list_ex (\<lambda>p. TrimSpace p = []) ps then None else Some (map TrimSpace ps)))"

section \<open>Parsing\<close>

record metricSample =
  sa_Name :: string
  sa_Labels :: "string gomap"
  sa_Value :: float64

fun parse_pairs :: "PromLib \<Rightarrow> string list \<Rightarrow> string gomap \<Rightarrow> string gomap option" where
  "parse_pairs lib [] labels = Some labels"
| "parse_pairs lib (part # parts) labels =
     (case Cut (TrimSpace part) (CHR ''='') of
        (key, value, found) \<Rightarrow>
          (let key = TrimSpace key; value = TrimSpace value
           in if \<not> found then None
              else if \<not> isPrometheusLabelKey key \<or> length value < 2 \<or> value ! 0 \<noteq> CHR 0x22 \<or> last value \<noteq> CHR 0x22
              then None
              else if fmlookup labels key \<noteq> None then None
              else (case pl_Unquote lib value of
                      Inl _ \<Rightarrow> None
                    | Inr unquoted \<Rightarrow> parse_pairs lib parts (fmupd key unquoted labels))))"

definition parseLabels :: "PromLib \<Rightarrow> string \<Rightarrow> string gomap option" where
  "parseLabels lib raw =
     (let raw = TrimSpace raw
      in if raw = [] then Some fmempty
         else (case splitLabelPairs raw of None \<Rightarrow> None | Some parts \<Rightarrow> parse_pairs lib parts fmempty))"

definition parseMetricExpr :: "PromLib \<Rightarrow> string \<Rightarrow> (string \<times> string gomap) option" where
  "parseMetricExpr lib expr =
     (case IndexByte expr (CHR ''{'') of
        None \<Rightarrow>
          (if Contains expr ''}'' then None
           else if \<not> isPrometheusMetricName expr then None
           else Some (expr, fmempty))
      | Some op \<Rightarrow>
          (if \<not> suffix ''}'' expr then None
           else let name = take op expr
                in if \<not> isPrometheusMetricName name then None
                   else (case parseLabels lib (take (length expr - 1 - Suc op) (drop (Suc op) expr)) of
                           None \<Rightarrow> None
                         | Some labels \<Rightarrow> Some (name, labels))))"

definition parsePrometheusLine :: "PromLib \<Rightarrow> string \<Rightarrow> metricSample option" where
  "parsePrometheusLine lib line =
     (case splitSampleLine lib line of
        None \<Rightarrow> None
      | Some (expr, rawValue) \<Rightarrow>
          (case pl_ParseFloat lib rawValue of
             Inl _ \<Rightarrow> None
           | Inr value \<Rightarrow>
               if \<not> is_finite value then None
               else (case parseMetricExpr lib expr of
                       None \<Rightarrow> None
                     | Some (name, labels) \<Rightarrow>
                         if name = [] then None
                         else Some \<lparr>sa_Name = name, sa_Labels = labels, sa_Value = value\<rparr>)))"

fun parse_lines :: "PromLib \<Rightarrow> metricFilter \<Rightarrow> string list \<Rightarrow> metricSample list \<times> int \<Rightarrow> metricSample list \<times> int" where
  "parse_lines lib filt [] acc = acc"
| "parse_lines lib filt (line # lines) (samples, parseErrors) =
     (let line = TrimSpace line
      in if line = [] \<or> prefix ''#'' line then parse_lines lib filt lines (samples, parseErrors)
         else (case parsePrometheusLine lib line of
                 None \<Rightarrow> parse_lines lib filt lines (samples, parseErrors + 1)
               | Some sample \<Rightarrow>
                   if \<not> filter_match filt (sa_Name sample) then parse_lines lib filt lines (samples, parseErrors)
                   else parse_lines lib filt lines (samples @ [sample], parseErrors)))"

text \<open>\<open>readErr\<close> is the error with which reading the body ended, if it did.\<close>

definition parsePrometheusReader :: "PromLib \<Rightarrow> metricFilter \<Rightarrow> string \<Rightarrow> goerr option \<Rightarrow>
    metricSample list \<times> int \<times> goerr option" where
  "parsePrometheusReader lib filt data readErr =
     (case scan_lines data of
        (lines, scanErr) \<Rightarrow>
          (case parse_lines lib filt lines ([], 0) of
             (samples, parseErrors) \<Rightarrow>
               (samples, parseErrors, (case scanErr of Some e \<Rightarrow> Some e | None \<Rightarrow> readErr))))"

definition parsePrometheusText :: "PromLib \<Rightarrow> metricFilter \<Rightarrow> string \<Rightarrow> metricSample list \<times> int" where
  "parsePrometheusText lib filt data =
     (case parsePrometheusReader lib filt data None of (samples, parseErrors, _) \<Rightarrow> (samples, parseErrors))"

section \<open>What is parsed is well formed\<close>

definition sample_ok :: "metricSample \<Rightarrow> bool" where
  "sample_ok s \<longleftrightarrow> isPrometheusMetricName (sa_Name s) \<and> fmpred (\<lambda>k _. isPrometheusLabelKey k) (sa_Labels s) \<and>
     is_finite (sa_Value s)"

lemma parse_pairs_step:
  assumes "parse_pairs lib (p # ps) m = Some m'"
  shows "\<exists>key v. isPrometheusLabelKey key \<and> fmlookup m key = None \<and> parse_pairs lib ps (fmupd key v m) = Some m'"
proof -
  obtain key v found where c: "Cut (TrimSpace p) (CHR ''='') = (key, v, found)" by (metis prod_cases3)
  show ?thesis using assms by (auto simp: c Let_def simp del: One_nat_def split: if_splits sum.splits)
qed

lemma parse_pairs_keys:
  "parse_pairs lib ps m = Some m' \<Longrightarrow> fmpred (\<lambda>k _. isPrometheusLabelKey k) m \<Longrightarrow>
   fmpred (\<lambda>k _. isPrometheusLabelKey k) m'"
proof (induction ps arbitrary: m)
  case (Cons p ps)
  from parse_pairs_step [OF Cons.prems(1)] obtain key v where
    "isPrometheusLabelKey key" "parse_pairs lib ps (fmupd key v m) = Some m'" by blast
  with Cons show ?case by (auto intro: fmpred_upd)
qed simp

lemma parseLabels_keys: "parseLabels lib raw = Some m \<Longrightarrow> fmpred (\<lambda>k _. isPrometheusLabelKey k) m"
  by (auto simp: parseLabels_def Let_def intro: parse_pairs_keys split: if_splits option.splits)

lemma parseMetricExpr_ok:
  assumes "parseMetricExpr lib expr = Some (name, labels)"
  shows "isPrometheusMetricName name \<and> fmpred (\<lambda>k _. isPrometheusLabelKey k) labels"
proof (cases "IndexByte expr (CHR ''{'')")
  case None
  with assms show ?thesis by (auto simp: parseMetricExpr_def split: if_splits)
next
  case (Some op)
  let ?raw = "take (length expr - 1 - Suc op) (drop (Suc op) expr)"
  from assms Some have "parseLabels lib ?raw = Some labels" "isPrometheusMetricName name"
    by (simp_all add: parseMetricExpr_def Let_def split: if_splits option.splits)
  with parseLabels_keys show ?thesis by blast
qed

lemma parsePrometheusLine_ok:
  assumes "parsePrometheusLine lib line = Some s"
  shows "sample_ok s"
proof -
  obtain e r v n l where "splitSampleLine lib line = Some (e, r)" "pl_ParseFloat lib r = Inr v" "is_finite v"
    "parseMetricExpr lib e = Some (n, l)" "s = \<lparr>sa_Name = n, sa_Labels = l, sa_Value = v\<rparr>"
    using assms by (auto simp: parsePrometheusLine_def split: option.splits sum.splits if_splits)
  with parseMetricExpr_ok [of lib e n l] show ?thesis by (simp add: sample_ok_def)
qed

lemma parse_lines_ok:
  "parse_lines lib filt ls (ss, n) = (ss', n') \<Longrightarrow> list_all (\<lambda>s. sample_ok s \<and> filter_match filt (sa_Name s)) ss \<Longrightarrow>
   list_all (\<lambda>s. sample_ok s \<and> filter_match filt (sa_Name s)) ss'"
proof (induction lib filt ls "(ss, n)" arbitrary: ss n rule: parse_lines.induct)
  case (2 lib filt line ls ss n)
  then show ?case
    by (auto simp: Let_def parsePrometheusLine_ok split: if_splits option.splits)
qed simp

text \<open>A line counts as a sample, as an error, or not at all; nothing else happens to it.\<close>

definition line_samples :: "PromLib \<Rightarrow> metricFilter \<Rightarrow> string \<Rightarrow> metricSample list" where
  "line_samples lib filt line =
     (if TrimSpace line = [] \<or> prefix ''#'' (TrimSpace line) then []
      else case parsePrometheusLine lib (TrimSpace line) of
             None \<Rightarrow> [] | Some s \<Rightarrow> if filter_match filt (sa_Name s) then [s] else [])"

definition line_errors :: "PromLib \<Rightarrow> string \<Rightarrow> int" where
  "line_errors lib line =
     (if TrimSpace line = [] \<or> prefix ''#'' (TrimSpace line) then 0
      else case parsePrometheusLine lib (TrimSpace line) of None \<Rightarrow> 1 | Some _ \<Rightarrow> 0)"

lemma parse_lines_map:
  "parse_lines lib filt ls (ss, n) =
   (ss @ concat (map (line_samples lib filt) ls), n + sum_list (map (line_errors lib) ls))"
proof (induction ls arbitrary: ss n)
  case (Cons l ls)
  then show ?case by (simp add: Let_def line_samples_def line_errors_def split: option.splits)
qed simp

section \<open>Trimming and scanning of printable text\<close>

definition printable :: "char \<Rightarrow> bool" where
  "printable c \<longleftrightarrow> 33 \<le> (of_char c :: nat) \<and> (of_char c :: nat) \<le> 126"

lemma space_runes_ends:
  "list_all (\<lambda>w. w \<noteq> [] \<and> \<not> printable (hd w) \<and> \<not> printable (last w)) space_runes"
  by (simp add: space_runes_def printable_def)

lemma printable_not_space: "printable c \<Longrightarrow> \<not> starts_with_any space_runes (c # s)"
  using space_runes_ends by (fastforce simp: starts_with_any_def list_all_iff prefix_Cons)

lemma printable_not_space_rev: "printable c \<Longrightarrow> \<not> starts_with_any (map rev space_runes) (c # s)"
proof
  assume p: "printable c" and "starts_with_any (map rev space_runes) (c # s)"
  then obtain w where w: "w \<in> set space_runes" "w \<noteq> []" "prefix (rev w) (c # s)"
    by (auto simp: starts_with_any_def)
  then have "hd (rev w) = c" by (cases "rev w") auto
  with w space_runes_ends p show False by (auto simp: list_all_iff hd_rev)
qed

lemma TrimSpace_printable_ends: "s \<noteq> [] \<Longrightarrow> printable (hd s) \<Longrightarrow> printable (last s) \<Longrightarrow> TrimSpace s = s"
proof -
  assume s: "s \<noteq> []" "printable (hd s)" "printable (last s)"
  have l: "strip space_runes s = s"
    using printable_not_space [OF s(2), of "tl s"] s(1) by (intro strip_done) simp
  have r: "rev s = last s # tl (rev s)" using s(1) by (metis hd_rev list.collapse rev_is_Nil_conv)
  have "\<not> starts_with_any (map rev space_runes) (rev s)"
    using printable_not_space_rev [OF s(3), of "tl (rev s)"] unfolding r [symmetric] .
  then have "strip (map rev space_runes) (rev s) = rev s" by (rule strip_done)
  with l show ?thesis by (simp add: TrimSpace_def)
qed

lemma TrimSpace_printable: "list_all printable s \<Longrightarrow> TrimSpace s = s"
  by (cases "s = []") (auto simp: list_all_iff intro: TrimSpace_printable_ends)

lemma fields_from_printable:
  "list_all printable s \<Longrightarrow> fields_from s acc 0 = (if rev acc @ s = [] then [] else [rev acc @ s])"
proof (induction s arbitrary: acc)
  case (Cons c s)
  have "find (\<lambda>w. prefix w (c # s)) space_runes = None"
    using printable_not_space [of c s] Cons.prems space_runes_ends
    by (auto simp: find_None_iff starts_with_any_def list_all_iff)
  with Cons show ?case by simp
qed simp

lemma Fields_printable: "list_all printable s \<Longrightarrow> s \<noteq> [] \<Longrightarrow> Fields s = [s]"
  by (simp add: Fields_def fields_from_printable)

end
