(* ===== verification/Identity_Units.thy ===== *)
theory Identity_Units
  imports Unit_Ports
begin

text \<open>
  The units that produce who talks to whom: \<open>identity.pool/v1\<close>, \<open>identity.person_pairs/v1\<close> and
  \<open>core.static_groups/v1\<close> (\<open>units/identity/pool\<close>, \<open>units/identity/person_pairs\<close>, \<open>units/core/static_groups\<close>).
  Each is its \<open>Definition\<close>, \<open>decodeSpec\<close>, \<open>Validate\<close> and \<open>Run\<close>, the last as a function on the run environment.
  \<open>DecodeSpec\<close>, which fills the fields the scenario sets, is the argument \<open>decode\<close>. The kernel runs a unit only
  after its \<open>Validate\<close>, so counts are positive in \<open>Run\<close>; for a negative one Go's \<open>make\<close> would panic where the model makes nothing.
\<close>

section \<open>Port metadata\<close>

definition inlineJSONDataMeta :: PortMeta where
  "inlineJSONDataMeta =
     empty_PortMeta\<lparr>pm_Boundary := PortBoundaryData, pm_Transport := PortTransportInline,
       pm_Encodings := [''json''], pm_MaxPayloadBytes := DefaultInlinePortMaxPayloadBytes\<rparr>"

definition data_port :: "string \<Rightarrow> string \<Rightarrow> PortDef" where
  "data_port name t = \<lparr>pd_Name = name, pd_Type = t, pd_Optional = False, pd_Meta = inlineJSONDataMeta\<rparr>"

definition PoolV1 :: string where "PoolV1 = ''port.identity.pool/v1''"
definition GroupSetV1 :: string where "GroupSetV1 = ''port.channel.group_set/v1''"
definition SendTargetSetV1 :: string where "SendTargetSetV1 = ''port.channel.send_target_set/v1''"

definition trim_default :: "string \<Rightarrow> string \<Rightarrow> string" where
  "trim_default s d = (let s = TrimSpace s in if s = [] then d else s)"

section \<open>identity.pool/v1\<close>

record PoolSpec =
  ps_Total :: int
  ps_UIDPrefix :: string
  ps_DevicePrefix :: string
  ps_TokenPrefix :: string

definition pool_Definition :: UnitDef where
  "pool_Definition =
     \<lparr>ud_Kind = ''identity.pool/v1'', ud_Title = ''Identity pool'',
      ud_Description = ''Produces deterministic benchmark user and device identities.'',
      ud_Inputs = [], ud_Outputs = [data_port ''pool'' PoolV1], ud_Metrics = [], ud_Artifacts = []\<rparr>"

definition pool_decodeSpec :: "(PoolSpec \<Rightarrow> PoolSpec result) \<Rightarrow> PoolSpec result" where
  "pool_decodeSpec decode =
     (case decode \<lparr>ps_Total = 0, ps_UIDPrefix = ''user'', ps_DevicePrefix = ''device'', ps_TokenPrefix = []\<rparr> of
        Inl err \<Rightarrow> Inl err
      | Inr spec \<Rightarrow>
          Inr (spec\<lparr>ps_UIDPrefix := trim_default (ps_UIDPrefix spec) ''user'',
                    ps_DevicePrefix := trim_default (ps_DevicePrefix spec) ''device'',
                    ps_TokenPrefix := TrimSpace (ps_TokenPrefix spec)\<rparr>))"

definition pool_Validate :: "(PoolSpec \<Rightarrow> PoolSpec result) \<Rightarrow> goerr option" where
  "pool_Validate decode =
     (case pool_decodeSpec decode of
        Inl err \<Rightarrow> Some err
      | Inr spec \<Rightarrow> if ps_Total spec \<le> 0 then Some (Errorf ''total must be greater than zero'' []) else None)"

definition pool_identity :: "PoolSpec \<Rightarrow> int \<Rightarrow> Identity" where
  "pool_identity spec i =
     \<lparr>id_UID = numbered (ps_UIDPrefix spec) i, id_DeviceID = numbered (ps_DevicePrefix spec) i,
      id_Token = (if ps_TokenPrefix spec \<noteq> [] then numbered (ps_TokenPrefix spec) i else [])\<rparr>"

definition pool_Run :: "(PoolSpec \<Rightarrow> PoolSpec result) \<Rightarrow> unit_value TestRunEnv \<Rightarrow>
    goerr option \<times> unit_value TestRunEnv" where
  "pool_Run decode env =
     (case pool_decodeSpec decode of
        Inl err \<Rightarrow> (Some err, env)
      | Inr spec \<Rightarrow>
          (None, te_SetOutput ''pool'' (PoolV \<lparr>po_Items = map (pool_identity spec) [0..ps_Total spec - 1]\<rparr>) env))"

section \<open>identity.person\_pairs/v1\<close>

record PairSpec =
  pp_Count :: int
  pp_Mode :: string
  pp_Bidirectional :: bool

definition personChannelType :: "8 word" where "personChannelType = 1"

definition pairs_Definition :: UnitDef where
  "pairs_Definition =
     \<lparr>ud_Kind = ''identity.person_pairs/v1'', ud_Title = ''Person send pairs'',
      ud_Description = ''Produces deterministic person-channel send targets from an identity pool.'',
      ud_Inputs = [data_port ''identities'' PoolV1], ud_Outputs = [data_port ''targets'' SendTargetSetV1],
      ud_Metrics = [], ud_Artifacts = []\<rparr>"

definition pairs_decodeSpec :: "(PairSpec \<Rightarrow> PairSpec result) \<Rightarrow> PairSpec result" where
  "pairs_decodeSpec decode =
     (case decode \<lparr>pp_Count = 0, pp_Mode = [], pp_Bidirectional = False\<rparr> of
        Inl err \<Rightarrow> Inl err
      | Inr spec \<Rightarrow> Inr (spec\<lparr>pp_Mode := trim_default (pp_Mode spec) ''ring''\<rparr>))"

definition pairs_Validate :: "(PairSpec \<Rightarrow> PairSpec result) \<Rightarrow> goerr option" where
  "pairs_Validate decode =
     (case pairs_decodeSpec decode of
        Inl err \<Rightarrow> Some err
      | Inr spec \<Rightarrow>
          if pp_Count spec \<le> 0 then Some (Errorf ''count must be greater than zero'' [])
          else if pp_Mode spec \<noteq> ''ring'' then Some (Errorf ''mode must be %q'' [ArgS ''ring''])
          else None)"

definition personTarget :: "string \<Rightarrow> string \<Rightarrow> SendTarget" where
  "personTarget senderUID recipientUID =
     \<lparr>st_ChannelID = recipientUID, st_ChannelType = personChannelType, st_SenderUIDs = [senderUID]\<rparr>"

text \<open>The loop of \<open>Run\<close>: \<open>n\<close> more pairs, starting with pair \<open>i\<close>.\<close>

fun pair_loop :: "bool \<Rightarrow> PoolData \<Rightarrow> nat \<Rightarrow> int \<Rightarrow> SendTarget list \<Rightarrow> SendTarget list result" where
  "pair_loop bidir pool 0 i items = Inr items"
| "pair_loop bidir pool (Suc n) i items =
     (case pool_At pool (i mod pool_Count pool) of
        Inl err \<Rightarrow> Inl err
      | Inr s \<Rightarrow>
          (case pool_At pool ((i + 1) mod pool_Count pool) of
             Inl err \<Rightarrow> Inl err
           | Inr r \<Rightarrow>
               pair_loop bidir pool n (i + 1)
                 (items @ [personTarget (id_UID s) (id_UID r)]
                        @ (if bidir then [personTarget (id_UID r) (id_UID s)] else []))))"

definition pairs_Run :: "(unit_value \<Rightarrow> string result) \<Rightarrow> (unit_value, PoolData) typed \<Rightarrow>
    (PairSpec \<Rightarrow> PairSpec result) \<Rightarrow> unit_value TestRunEnv \<Rightarrow> goerr option \<times> unit_value TestRunEnv" where
  "pairs_Run Marshal t decode env =
     (case pairs_decodeSpec decode of
        Inl err \<Rightarrow> (Some err, env)
      | Inr spec \<Rightarrow>
          (case Input_typed Marshal t ''identities'' env of
             Inl err \<Rightarrow> (Some err, env)
           | Inr pool \<Rightarrow>
               if pool_Count pool < 2
               then (Some (Errorf ''identities must contain at least two identities'' []), env)
               else (case pair_loop (pp_Bidirectional spec) pool (nat (pp_Count spec)) 0 [] of
                       Inl err \<Rightarrow> (Some err, env)
                     | Inr items \<Rightarrow> (None, te_SetOutput ''targets'' (TargetsV \<lparr>ss_Items = items\<rparr>) env))))"

section \<open>core.static\_groups/v1\<close>

record GroupsSpec =
  sg_Count :: int
  sg_MembersPerChannel :: int
  sg_ChannelPrefix :: string
  sg_UIDPrefix :: string

definition groups_Definition :: UnitDef where
  "groups_Definition =
     \<lparr>ud_Kind = ''core.static_groups/v1'', ud_Title = ''Static group channels'',
      ud_Description = ''Produces deterministic in-memory group channels for examples and tests.'',
      ud_Inputs = [], ud_Outputs = [data_port ''groups'' GroupSetV1], ud_Metrics = [], ud_Artifacts = []\<rparr>"

definition groups_decodeSpec :: "(GroupsSpec \<Rightarrow> GroupsSpec result) \<Rightarrow> GroupsSpec result" where
  "groups_decodeSpec decode =
     (case decode \<lparr>sg_Count = 0, sg_MembersPerChannel = 0, sg_ChannelPrefix = ''group'', sg_UIDPrefix = ''user''\<rparr> of
        Inl err \<Rightarrow> Inl err
      | Inr spec \<Rightarrow>
          Inr (spec\<lparr>sg_ChannelPrefix := trim_default (sg_ChannelPrefix spec) ''group'',
                    sg_UIDPrefix := trim_default (sg_UIDPrefix spec) ''user''\<rparr>))"

definition groups_Validate :: "(GroupsSpec \<Rightarrow> GroupsSpec result) \<Rightarrow> goerr option" where
  "groups_Validate decode =
     (case groups_decodeSpec decode of
        Inl err \<Rightarrow> Some err
      | Inr spec \<Rightarrow>
          if sg_Count spec \<le> 0 then Some (Errorf ''count must be greater than zero'' [])
          else if sg_MembersPerChannel spec \<le> 0 then Some (Errorf ''members_per_channel must be greater than zero'' [])
          else None)"

text \<open>The inner loop adds \<open>n\<close> members and moves the user index on; the outer one adds \<open>n\<close> channels.\<close>

fun member_loop :: "GroupsSpec \<Rightarrow> nat \<Rightarrow> string list \<times> int \<Rightarrow> string list \<times> int" where
  "member_loop spec 0 (members, userIndex) = (members, userIndex)"
| "member_loop spec (Suc n) (members, userIndex) =
     member_loop spec n (members @ [numbered (sg_UIDPrefix spec) userIndex], userIndex + 1)"

fun channel_loop :: "GroupsSpec \<Rightarrow> nat \<Rightarrow> int \<Rightarrow> int \<Rightarrow> GroupChannel list \<Rightarrow> GroupChannel list" where
  "channel_loop spec 0 channelIndex userIndex groups = groups"
| "channel_loop spec (Suc n) channelIndex userIndex groups =
     (case member_loop spec (nat (sg_MembersPerChannel spec)) ([], userIndex) of
        (members, userIndex') \<Rightarrow>
          channel_loop spec n (channelIndex + 1) userIndex'
            (groups @ [\<lparr>gc_ChannelID = numbered (sg_ChannelPrefix spec) channelIndex, gc_Members = members\<rparr>]))"

definition groups_Run :: "(GroupsSpec \<Rightarrow> GroupsSpec result) \<Rightarrow> unit_value TestRunEnv \<Rightarrow>
    goerr option \<times> unit_value TestRunEnv" where
  "groups_Run decode env =
     (case groups_decodeSpec decode of
        Inl err \<Rightarrow> (Some err, env)
      | Inr spec \<Rightarrow>
          (None, te_SetOutput ''groups'' (GroupsV \<lparr>gs_Items = channel_loop spec (nat (sg_Count spec)) 0 0 []\<rparr>) env))"

section \<open>What the units produce\<close>

lemma pool_items: "po_Items \<lparr>po_Items = xs\<rparr> = xs" "ss_Items \<lparr>ss_Items = ys\<rparr> = ys" "gs_Items \<lparr>gs_Items = zs\<rparr> = zs"
  by simp_all

text \<open>The identities of a pool are pairwise different in user id and in device id.\<close>

lemma pool_uids_distinct:
  "distinct (map (id_UID \<circ> pool_identity spec) [a..b])"
  "distinct (map (id_DeviceID \<circ> pool_identity spec) [a..b])"
  by (auto simp: distinct_map inj_on_def pool_identity_def)

lemma pool_At_mod:
  assumes "0 < pool_Count pool" and "0 \<le> i"
  shows "pool_At pool (i mod pool_Count pool) = Inr (po_Items pool ! (nat i mod length (po_Items pool)))"
  using assms slice_At_mod [of "po_Items pool" i] by (auto simp: pool_At_def pool_Count_def)

definition ring_pair :: "bool \<Rightarrow> string list \<Rightarrow> nat \<Rightarrow> SendTarget list" where
  "ring_pair bidir uids k =
     (let s = uids ! (k mod length uids); r = uids ! (Suc k mod length uids)
      in personTarget s r # (if bidir then [personTarget r s] else []))"

lemma pair_loop_ring:
  assumes "0 < pool_Count pool"
  shows "pair_loop bidir pool n (int k) items =
    Inr (items @ concat (map (ring_pair bidir (map id_UID (po_Items pool))) [k..<k + n]))"
proof (induction n arbitrary: k items)
  case (Suc n)
  have ne: "po_Items pool \<noteq> []" using assms by (auto simp: pool_Count_def)
  have a: "pool_At pool (int k mod pool_Count pool) = Inr (po_Items pool ! (k mod length (po_Items pool)))"
    using pool_At_mod [OF assms, of "int k"] by simp
  have b: "pool_At pool (int (Suc k) mod pool_Count pool) = Inr (po_Items pool ! (Suc k mod length (po_Items pool)))"
    using pool_At_mod [OF assms, of "int (Suc k)"] by (simp del: of_nat_Suc)
  have u: "[k..<k + Suc n] = k # [Suc k..<Suc k + n]" by (simp add: upt_conv_Cons)
  have s: "int k + 1 = int (Suc k)" by simp
  show ?case unfolding pair_loop.simps s a b sum.case Suc.IH u list.map concat.simps
    using ne by (simp add: ring_pair_def Let_def)
qed simp

lemma mod_Suc_neq: "1 < n \<Longrightarrow> Suc k mod n \<noteq> k mod (n::nat)"
  by (metis Suc_eq_plus1 add_cancel_right_right cancel_comm_monoid_add_class.diff_cancel mod_add_self2
      mod_less mod_mod_trivial mod_Suc n_not_Suc_n nat_neq_iff not_less_zero)

lemma ring_pair_targets:
  assumes "1 < length uids" and "t \<in> set (ring_pair bidir uids k)"
  shows "\<exists>i j. i < length uids \<and> j < length uids \<and> i \<noteq> j \<and> t = personTarget (uids ! i) (uids ! j)"
proof -
  let ?i = "k mod length uids" and ?j = "Suc k mod length uids"
  have "0 < length uids" using assms(1) by linarith
  then have ij: "?i < length uids" "?j < length uids" "?j \<noteq> ?i"
    using mod_Suc_neq [OF assms(1)] by simp_all
  from assms(2) consider "t = personTarget (uids ! ?i) (uids ! ?j)" | "t = personTarget (uids ! ?j) (uids ! ?i)"
    by (auto simp: ring_pair_def Let_def split: if_splits)
  then show ?thesis using ij by cases metis+
qed

text \<open>The number of targets, whatever the direction flag.\<close>

lemma length_ring_targets:
  "length (concat (map (ring_pair bidir uids) ks)) = (if bidir then 2 else 1) * length ks"
  by (induction ks) (auto simp: ring_pair_def Let_def)

section \<open>Groups\<close>

lemma member_loop_eq:
  "member_loop spec n (ms, u) = (ms @ map (numbered (sg_UIDPrefix spec)) [u..u + int n - 1], u + int n)"
proof (induction n arbitrary: ms u)
  case (Suc n)
  have "[u..u + int (Suc n) - 1] = u # [u + 1..u + 1 + int n - 1]" by (subst upto.simps) (simp add: algebra_simps)
  with Suc show ?case by simp
qed simp

definition group_block :: "GroupsSpec \<Rightarrow> int \<Rightarrow> GroupChannel" where
  "group_block spec c =
     (let m = int (nat (sg_MembersPerChannel spec))
      in \<lparr>gc_ChannelID = numbered (sg_ChannelPrefix spec) c,
          gc_Members = map (numbered (sg_UIDPrefix spec)) [c * m..(c + 1) * m - 1]\<rparr>)"

lemma channel_loop_blocks:
  "channel_loop spec n c (c * int (nat (sg_MembersPerChannel spec))) gs =
   gs @ map (group_block spec) [c..c + int n - 1]"
proof (induction n arbitrary: c gs)
  case (Suc n)
  let ?m = "int (nat (sg_MembersPerChannel spec))"
  have u: "[c..c + int (Suc n) - 1] = c # [c + 1..c + 1 + int n - 1]" by (subst upto.simps) (simp add: algebra_simps)
  have e: "c * ?m + ?m = (c + 1) * ?m" by (simp only: distrib_right mult_1)
  show ?case
    unfolding channel_loop.simps member_loop_eq prod.case e Suc.IH u
    by (simp add: group_block_def Let_def)
qed simp

text \<open>Two channels never share a member, a channel never has one twice, and the channel ids differ.\<close>

lemma group_blocks_disjoint:
  assumes "x \<in> set (gc_Members (group_block spec c))" and "x \<in> set (gc_Members (group_block spec d))"
  shows "c = d"
proof -
  let ?m = "int (nat (sg_MembersPerChannel spec))"
  from assms obtain i where "c * ?m \<le> i" "i < (c + 1) * ?m" "d * ?m \<le> i" "i < (d + 1) * ?m"
    by (auto simp: group_block_def Let_def)
  then have "c * ?m < (d + 1) * ?m" "d * ?m < (c + 1) * ?m" by linarith+
  then have "c < d + 1" "d < c + 1" by (simp_all add: mult_less_cancel_right)
  then show ?thesis by simp
qed

lemma group_block_members:
  "length (gc_Members (group_block spec c)) = nat (sg_MembersPerChannel spec)"
  "distinct (gc_Members (group_block spec c))"
  by (auto simp: group_block_def Let_def distrib_right distinct_map inj_on_def)

lemma group_blocks_ids: "distinct (map (gc_ChannelID \<circ> group_block spec) [a..b])"
  by (auto simp: distinct_map inj_on_def group_block_def Let_def)

section \<open>The units together\<close>

lemma pool_Run_output:
  assumes "pool_Run decode env = (None, env')"
  obtains spec where "pool_decodeSpec decode = Inr spec"
    and "te_Output ''pool'' env' = Some (PoolV \<lparr>po_Items = map (pool_identity spec) [0..ps_Total spec - 1]\<rparr>)"
  using assms by (auto simp: pool_Run_def tenv_out.get_put split: sum.splits)

lemma pairs_Run_ring:
  assumes "pairs_decodeSpec decode = Inr spec" and "Input_typed M t ''identities'' env = Inr pool"
    and "2 \<le> pool_Count pool"
  shows "pairs_Run M t decode env =
    (None, te_SetOutput ''targets'' (TargetsV \<lparr>ss_Items = concat (map
       (ring_pair (pp_Bidirectional spec) (map id_UID (po_Items pool))) [0..<nat (pp_Count spec)])\<rparr>) env)"
  using assms pair_loop_ring [of pool "pp_Bidirectional spec" "nat (pp_Count spec)" 0 "[]"]
  by (simp add: pairs_Run_def)

text \<open>
  Senders never address themselves. When a pool of at least two identities is wired into a pairs unit, the pairs
  unit succeeds, produces one target per requested pair (two when bidirectional), and every target is a person
  channel from one user of the pool to a different user of the pool.
\<close>

theorem person_pairs_ring:
  assumes "pool_Run dp env = (None, env')" and "pool_decodeSpec dp = Inr ps" and "2 \<le> ps_Total ps"
    and "te_Output ''pool'' env' = Some v" and "fmlookup (te_inputs env2) ''identities'' = Some v"
    and "ty_assert t = as_pool" and "pairs_decodeSpec dq = Inr spec"
  shows "\<exists>ts. pairs_Run M t dq env2 = (None, te_SetOutput ''targets'' (TargetsV \<lparr>ss_Items = ts\<rparr>) env2) \<and>
    length ts = (if pp_Bidirectional spec then 2 else 1) * nat (pp_Count spec) \<and>
    (\<forall>x\<in>set ts. \<exists>i j. i \<noteq> j \<and> 0 \<le> i \<and> i < ps_Total ps \<and> 0 \<le> j \<and> j < ps_Total ps \<and>
       x = personTarget (numbered (ps_UIDPrefix ps) i) (numbered (ps_UIDPrefix ps) j))"
proof -
  define pool where "pool = \<lparr>po_Items = map (pool_identity ps) [0..ps_Total ps - 1]\<rparr>"
  define uids where "uids = map id_UID (po_Items pool)"
  have v: "v = PoolV pool" using assms(1,2,4) by (auto simp: pool_Run_def pool_def tenv_out.get_put)
  have inp: "Input_typed M t ''identities'' env2 = Inr pool"
    by (rule Input_typed_value [OF assms(5)]) (simp add: assms(6) v)
  have cnt: "2 \<le> pool_Count pool" using assms(3) by (simp add: pool_def pool_Count_def)
  have uids: "uids = map (numbered (ps_UIDPrefix ps)) [0..ps_Total ps - 1]"
    by (simp add: uids_def pool_def pool_identity_def)
  then have len: "1 < length uids" using assms(3) by simp
  let ?ts = "concat (map (ring_pair (pp_Bidirectional spec) uids) [0..<nat (pp_Count spec)])"
  have "\<exists>i j. i \<noteq> j \<and> 0 \<le> i \<and> i < ps_Total ps \<and> 0 \<le> j \<and> j < ps_Total ps \<and>
       x = personTarget (numbered (ps_UIDPrefix ps) i) (numbered (ps_UIDPrefix ps) j)" if x: "x \<in> set ?ts" for x
  proof -
    from x obtain k where "x \<in> set (ring_pair (pp_Bidirectional spec) uids k)" by auto
    from ring_pair_targets [OF len this] obtain i j where ij: "i < length uids" "j < length uids" "i \<noteq> j"
      and x: "x = personTarget (uids ! i) (uids ! j)" by blast
    have "uids ! l = numbered (ps_UIDPrefix ps) (int l)" if "l < length uids" for l
      using that by (simp add: uids)
    with ij x have "x = personTarget (numbered (ps_UIDPrefix ps) (int i)) (numbered (ps_UIDPrefix ps) (int j))"
      by simp
    moreover have "int i < ps_Total ps" "int j < ps_Total ps" "int i \<noteq> int j" using ij by (simp_all add: uids)
    ultimately show ?thesis by (intro exI [of _ "int i"] exI [of _ "int j"]) simp
  qed
  moreover note pairs_Run_ring [OF assms(7) inp cnt, folded uids_def]
  moreover have "length ?ts = (if pp_Bidirectional spec then 2 else 1) * nat (pp_Count spec)"
    by (simp only: length_ring_targets) simp
  ultimately show ?thesis by blast
qed

definition demo_pool_spec :: "PoolSpec \<Rightarrow> PoolSpec result" where
  "demo_pool_spec s = Inr (s\<lparr>ps_Total := 3\<rparr>)"

definition demo_pair_spec :: "PairSpec \<Rightarrow> PairSpec result" where
  "demo_pair_spec s = Inr (s\<lparr>pp_Count := 2, pp_Bidirectional := True\<rparr>)"

theorem person_pairs_ring_witness:
  "\<exists>ts. snd (pairs_Run (\<lambda>_. Inr []) \<lparr>ty_assert = as_pool, ty_Unmarshal = (\<lambda>_. Inl index_panic)\<rparr> demo_pair_spec
      (NewTestRunEnv ''r'' ''pairs'' (fmupd ''identities'' (PoolV \<lparr>po_Items = map (pool_identity
        \<lparr>ps_Total = 3, ps_UIDPrefix = ''user'', ps_DevicePrefix = ''device'', ps_TokenPrefix = []\<rparr>) [0..2]\<rparr>) fmempty))) =
    te_SetOutput ''targets'' (TargetsV \<lparr>ss_Items = ts\<rparr>) (NewTestRunEnv ''r'' ''pairs'' (fmupd ''identities'' (PoolV
        \<lparr>po_Items = map (pool_identity
        \<lparr>ps_Total = 3, ps_UIDPrefix = ''user'', ps_DevicePrefix = ''device'', ps_TokenPrefix = []\<rparr>) [0..2]\<rparr>) fmempty)) \<and>
    length ts = 4"
proof -
  let ?ps = "\<lparr>ps_Total = 3, ps_UIDPrefix = ''user'', ps_DevicePrefix = ''device'', ps_TokenPrefix = []\<rparr>"
  let ?v = "PoolV \<lparr>po_Items = map (pool_identity ?ps) [0..2]\<rparr>"
  let ?e = "NewTestRunEnv ''r'' ''pairs'' (fmupd ''identities'' ?v fmempty)"
  let ?t = "\<lparr>ty_assert = as_pool, ty_Unmarshal = (\<lambda>_. Inl index_panic)\<rparr>"
  let ?n = "NewTestRunEnv ''r'' ''pool'' fmempty"
  have d: "pool_decodeSpec demo_pool_spec = Inr ?ps" by code_simp
  have q: "pairs_decodeSpec demo_pair_spec = Inr \<lparr>pp_Count = 2, pp_Mode = ''ring'', pp_Bidirectional = True\<rparr>" by code_simp
  have r: "pool_Run demo_pool_spec ?n = (None, te_SetOutput ''pool'' ?v ?n)" by (simp add: pool_Run_def d)
  have i: "fmlookup (te_inputs ?e) ''identities'' = Some ?v" by (simp add: NewTestRunEnv_def)
  from person_pairs_ring [OF r d _ _ i _ q, of ?t "\<lambda>_. Inr []"] show ?thesis
    by (auto simp: tenv_out.get_put)
qed

text \<open>
  Groups are disjoint. A static group unit that succeeds produces exactly the requested number of channels, with different
  channel ids, each with the requested number of different members, and no user is a member of two channels.
\<close>

theorem static_groups_disjoint:
  assumes "groups_decodeSpec decode = Inr spec"
  shows "\<exists>gs. groups_Run decode env = (None, te_SetOutput ''groups'' (GroupsV \<lparr>gs_Items = gs\<rparr>) env) \<and>
    length gs = nat (sg_Count spec) \<and> distinct (map gc_ChannelID gs) \<and>
    (\<forall>g\<in>set gs. length (gc_Members g) = nat (sg_MembersPerChannel spec) \<and> distinct (gc_Members g)) \<and>
    (\<forall>a < length gs. \<forall>b < length gs. a \<noteq> b \<longrightarrow> set (gc_Members (gs ! a)) \<inter> set (gc_Members (gs ! b)) = {})"
proof -
  let ?gs = "map (group_block spec) [0..int (nat (sg_Count spec)) - 1]"
  have "channel_loop spec (nat (sg_Count spec)) 0 0 [] = ?gs"
    using channel_loop_blocks [of spec "nat (sg_Count spec)" 0 "[]"] by simp
  then have run: "groups_Run decode env = (None, te_SetOutput ''groups'' (GroupsV \<lparr>gs_Items = ?gs\<rparr>) env)"
    using assms by (simp add: groups_Run_def)
  have nth: "?gs ! a = group_block spec (int a)" if "a < length ?gs" for a using that by simp
  have dis: "set (gc_Members (?gs ! a)) \<inter> set (gc_Members (?gs ! b)) = {}"
    if "a < length ?gs" "b < length ?gs" "a \<noteq> b" for a b
    unfolding nth [OF that(1)] nth [OF that(2)] using that(3) group_blocks_disjoint by fastforce
  show ?thesis
  proof (intro exI [of _ ?gs] conjI run allI impI dis ballI)
    show "distinct (map gc_ChannelID ?gs)" using group_blocks_ids by simp
  qed (auto simp: group_block_members)
qed

definition demo_groups_spec :: "GroupsSpec \<Rightarrow> GroupsSpec result" where
  "demo_groups_spec s = Inr (s\<lparr>sg_Count := 2, sg_MembersPerChannel := 3\<rparr>)"

theorem static_groups_disjoint_witness:
  "\<exists>gs. snd (groups_Run demo_groups_spec (NewTestRunEnv ''r'' ''g'' fmempty)) =
      te_SetOutput ''groups'' (GroupsV \<lparr>gs_Items = gs\<rparr>) (NewTestRunEnv ''r'' ''g'' fmempty) \<and> length gs = 2"
proof -
  have d: "groups_decodeSpec demo_groups_spec =
      Inr \<lparr>sg_Count = 2, sg_MembersPerChannel = 3, sg_ChannelPrefix = ''group'', sg_UIDPrefix = ''user''\<rparr>" by code_simp
  from static_groups_disjoint [OF d, of "NewTestRunEnv ''r'' ''g'' fmempty"] show ?thesis by auto
qed

end
