(* ===== verification/Traffic_Common.thy ===== *)
theory Traffic_Common
  imports Identity_Units
begin

text \<open>
  The parts \<open>traffic.send/v1\<close> and \<open>traffic.group_send/v1\<close> have in common (both packages hold
  their own copy, character for character): the spec, its decoding and validation, the plan shard, the number of
  messages of a run and the elapsed time. \<open>oor\<close> is the implementation's result for a float that no
  \<open>int64\<close> represents.
\<close>

record SendSpec =
  sp_Rate :: Rate
  sp_PayloadSize :: int
  sp_SenderPick :: string
  sp_MaxInFlight :: int
  sp_AckTimeout :: int

definition senderPickFirstOnline :: string where "senderPickFirstOnline = ''first_online''"
definition senderPickRoundRobin :: string where "senderPickRoundRobin = ''round_robin''"
definition defaultAckTimeout :: int where "defaultAckTimeout = 5 * 1000000000"

definition SummaryV1 :: string where "SummaryV1 = ''port.traffic.summary/v1''"
definition MessageSenderV1 :: string where "MessageSenderV1 = ''port.wkproto.message_sender/v1''"
definition GroupSenderV1 :: string where "GroupSenderV1 = ''port.wkproto.group_sender/v1''"

definition plain_port :: "string \<Rightarrow> string \<Rightarrow> PortDef" where
  "plain_port name t = \<lparr>pd_Name = name, pd_Type = t, pd_Optional = False, pd_Meta = empty_PortMeta\<rparr>"

definition traffic_metrics :: "MetricDef list" where
  "traffic_metrics =
     [\<lparr>md_Name = ''send_attempt_total'', md_Type = ''counter''\<rparr>,
      \<lparr>md_Name = ''sendack_success_total'', md_Type = ''counter''\<rparr>,
      \<lparr>md_Name = ''sendack_error_total'', md_Type = ''counter''\<rparr>,
      \<lparr>md_Name = ''sendack_latency'', md_Type = ''duration''\<rparr>]"

definition send_Definition :: UnitDef where
  "send_Definition =
     \<lparr>ud_Kind = ''traffic.send/v1'', ud_Title = ''SEND traffic'',
      ud_Description = ''Sends messages using public send target and WKProto ports.'',
      ud_Inputs = [plain_port ''targets'' SendTargetSetV1, plain_port ''sender'' MessageSenderV1],
      ud_Outputs = [plain_port ''summary'' SummaryV1],
      ud_Metrics = traffic_metrics, ud_Artifacts = []\<rparr>"

definition group_send_Definition :: UnitDef where
  "group_send_Definition =
     \<lparr>ud_Kind = ''traffic.group_send/v1'', ud_Title = ''Group SEND traffic'',
      ud_Description = ''Sends group messages using public channel and WKProto ports.'',
      ud_Inputs = [plain_port ''channels'' GroupSetV1, plain_port ''sender'' GroupSenderV1],
      ud_Outputs = [plain_port ''summary'' SummaryV1],
      ud_Metrics = traffic_metrics, ud_Artifacts = []\<rparr>"

definition traffic_decodeSpec :: "(SendSpec \<Rightarrow> SendSpec result) \<Rightarrow> SendSpec result" where
  "traffic_decodeSpec decode =
     (case decode \<lparr>sp_Rate = \<lparr>rt_PerSecond = 0\<rparr>, sp_PayloadSize = 0, sp_SenderPick = [],
        sp_MaxInFlight = 0, sp_AckTimeout = 0\<rparr> of
        Inl err \<Rightarrow> Inl err
      | Inr spec \<Rightarrow> Inr (spec\<lparr>sp_SenderPick := TrimSpace (sp_SenderPick spec)\<rparr>))"

definition traffic_Validate :: "(SendSpec \<Rightarrow> SendSpec result) \<Rightarrow> goerr option" where
  "traffic_Validate decode =
     (case traffic_decodeSpec decode of
        Inl err \<Rightarrow> Some err
      | Inr spec \<Rightarrow>
          if rt_PerSecond (sp_Rate spec) \<le> 0 then Some (Errorf ''rate must be greater than zero'' [])
          else if sp_PayloadSize spec < 0 then Some (Errorf ''payload_size must not be negative'' [])
          else if sp_MaxInFlight spec < 0 then Some (Errorf ''max_in_flight must not be negative'' [])
          else if sp_SenderPick spec \<in> {[], senderPickFirstOnline, senderPickRoundRobin} then None
          else Some (Errorf ''unsupported sender_pick %q'' [ArgS (sp_SenderPick spec)]))"

definition totalMessages :: "(float64 \<Rightarrow> int) \<Rightarrow> Rate \<Rightarrow> int \<Rightarrow> int" where
  "totalMessages oor rate duration =
     (let total = int64_of_float oor (math_Round (rt_PerSecond rate * Seconds duration))
      in if total < 1 then 1 else total)"

record PlanShard =
  sh_TotalMessages :: int
  sh_RatePerSecond :: float64
  sh_DurationMS :: int
  sh_PayloadSize :: int
  sh_SenderPick :: string
  sh_MaxInFlight :: int

definition traffic_Plan :: "(float64 \<Rightarrow> int) \<Rightarrow> (SendSpec \<Rightarrow> SendSpec result) \<Rightarrow> int \<Rightarrow> PlanShard list result" where
  "traffic_Plan oor decode runDuration =
     (case traffic_decodeSpec decode of
        Inl err \<Rightarrow> Inl err
      | Inr spec \<Rightarrow>
          Inr [\<lparr>sh_TotalMessages = totalMessages oor (sp_Rate spec) runDuration,
                sh_RatePerSecond = rt_PerSecond (sp_Rate spec), sh_DurationMS = runDuration sdiv 1000000,
                sh_PayloadSize = sp_PayloadSize spec, sh_SenderPick = sp_SenderPick spec,
                sh_MaxInFlight = sp_MaxInFlight spec\<rparr>])"

text \<open>\<open>elapsedMilliseconds\<close>, given the time since the start.\<close>

definition elapsedMilliseconds :: "int \<Rightarrow> int" where
  "elapsedMilliseconds since = (let elapsed = since sdiv 1000000 in if elapsed < 1 then 1 else elapsed)"

definition effectiveAckTimeout :: "SendSpec \<Rightarrow> int" where
  "effectiveAckTimeout spec = (if sp_AckTimeout spec \<le> 0 then defaultAckTimeout else sp_AckTimeout spec)"

lemma totalMessages_pos: "1 \<le> totalMessages oor rate d"
  by (simp add: totalMessages_def Let_def)

lemma totalMessages_int64: "(\<And>x. oor x < 2 ^ 63) \<Longrightarrow> totalMessages oor rate d < 2 ^ 63"
  by (auto simp: totalMessages_def int64_of_float_def Let_def split: float64.splits)

text \<open>
  The validation lets through a rate that is not a number: every comparison with it is false. A run then
  depends on how the implementation converts it to an integer.
\<close>

lemma NaN_rate_validates:
  assumes "traffic_decodeSpec decode = Inr \<lparr>sp_Rate = \<lparr>rt_PerSecond = NaN\<rparr>, sp_PayloadSize = 0, sp_SenderPick = [],
     sp_MaxInFlight = 0, sp_AckTimeout = 0\<rparr>"
  shows "traffic_Validate decode = None" and "totalMessages oor \<lparr>rt_PerSecond = NaN\<rparr> d = max 1 (oor NaN)"
proof -
  have "NaN * y = NaN" for y by (cases y) simp_all
  then show "totalMessages oor \<lparr>rt_PerSecond = NaN\<rparr> d = max 1 (oor NaN)"
    by (simp add: totalMessages_def Let_def math_Round_def int64_of_float_def max_def)
  show "traffic_Validate decode = None"
    using assms by (simp add: traffic_Validate_def zero_float64_def)
qed

section \<open>Results of one send\<close>

record sendResult =
  re_ack :: SendAck
  re_latency :: int
  re_err :: "goerr option"

definition zero_ack :: SendAck where
  "zero_ack = \<lparr>sk_MessageID = 0, sk_MessageSeq = 0, sk_WireLatency = 0\<rparr>"

definition failed :: "goerr \<Rightarrow> sendResult" where
  "failed e = \<lparr>re_ack = zero_ack, re_latency = 0, re_err = Some e\<rparr>"

definition sendackLatency :: "sendResult \<Rightarrow> int" where
  "sendackLatency result =
     (if 0 < sk_WireLatency (re_ack result) then sk_WireLatency (re_ack result) else re_latency result)"

text \<open>Counting one result: an error, or a success with its latency.\<close>

definition count_error :: "unit_value TestRunEnv \<times> Summary \<Rightarrow> unit_value TestRunEnv \<times> Summary" where
  "count_error = (\<lambda>(env, summary).
     (te_EmitCounter ''sendack_error_total'' 1 fmempty env,
      summary\<lparr>sm_SendackErrors := sm_SendackErrors summary + 1\<rparr>))"

definition count_success :: "SendAck \<Rightarrow> int \<Rightarrow> unit_value TestRunEnv \<times> Summary \<Rightarrow> unit_value TestRunEnv \<times> Summary" where
  "count_success ack latency = (\<lambda>(env, summary).
     (te_ObserveDuration ''sendack_latency'' latency fmempty
        (te_EmitCounter ''sendack_success_total'' 1 fmempty env),
      summary\<lparr>sm_SendackOK := sm_SendackOK summary + 1, sm_LastMessageID := sk_MessageID ack\<rparr>))"

definition applyResult :: "sendResult \<Rightarrow> unit_value TestRunEnv \<times> Summary \<Rightarrow> unit_value TestRunEnv \<times> Summary" where
  "applyResult result es =
     (case re_err result of
        Some _ \<Rightarrow> count_error es
      | None \<Rightarrow> count_success (re_ack result) (sendackLatency result) es)"

section \<open>Counting\<close>

text \<open>
  The bookkeeping of a traffic unit: after \<open>n\<close> results of which \<open>e\<close> failed, the summary and the
  metrics both say so.
\<close>

definition series :: "string \<Rightarrow> unit_value TestRunEnv \<Rightarrow> int" where
  "series name env = te_sample_count (metricSnapshotKey name fmempty) env"

definition counted :: "unit_value TestRunEnv \<Rightarrow> nat \<Rightarrow> nat \<Rightarrow> unit_value TestRunEnv \<times> Summary \<Rightarrow> bool" where
  "counted env0 ok errs = (\<lambda>(env, summary).
     sm_SendackOK summary = of_nat ok \<and> sm_SendackErrors summary = of_nat errs \<and>
     series ''sendack_success_total'' env = series ''sendack_success_total'' env0 + int ok \<and>
     series ''sendack_error_total'' env = series ''sendack_error_total'' env0 + int errs \<and>
     series ''sendack_latency'' env = series ''sendack_latency'' env0 + int ok)"

lemma metricSnapshotKey_unlabelled [simp]: "metricSnapshotKey name fmempty = name"
  by (simp add: metricSnapshotKey_def)

lemma series_emit_counter:
  "series n (te_EmitCounter m d fmempty env) = (if n = m then series n env + 1 else series n env)"
  using tenv_metrics.count_emit [of "CounterSample m d fmempty" env]
    tenv_metrics.count_emit_other [of n "CounterSample m d fmempty" env]
  by (auto simp: series_def)

lemma series_emit_duration:
  "series n (te_ObserveDuration m d fmempty env) = (if n = m then series n env + 1 else series n env)"
  using tenv_metrics.count_emit [of "DurationSample m d fmempty" env]
    tenv_metrics.count_emit_other [of n "DurationSample m d fmempty" env]
  by (auto simp: series_def)

lemmas series_emits = series_emit_counter series_emit_duration

lemma counted_error: "counted env0 ok errs es \<Longrightarrow> counted env0 ok (Suc errs) (count_error es)"
  by (cases es) (simp add: counted_def count_error_def series_emits)

lemma counted_success: "counted env0 ok errs es \<Longrightarrow> counted env0 (Suc ok) errs (count_success ack l es)"
  by (cases es) (simp add: counted_def count_success_def series_emits)

lemma counted_applyResult:
  "counted env0 ok errs es \<Longrightarrow>
   counted env0 (if re_err r = None then Suc ok else ok) (if re_err r = None then errs else Suc errs) (applyResult r es)"
  by (auto simp: applyResult_def counted_error counted_success split: option.splits)

lemma counted_zero: "counted env 0 0 (env, zero_Summary)"
  by (simp add: counted_def zero_Summary_def)

lemma series_NextID [simp]: "series n (snd (te_NextID pre env)) = series n env"
  by (simp add: series_def te_sample_count_def te_NextID_def Let_def)

lemma counted_env_cong:
  "counted env0 ok errs (env, s) \<Longrightarrow> (\<And>n. n \<noteq> ''send_attempt_total'' \<Longrightarrow> series n env' = series n env) \<Longrightarrow>
   counted env0 ok errs (env', s)"
  by (simp add: counted_def)

lemma applyResult_attempts:
  "series ''send_attempt_total'' (fst (applyResult r (env, s))) = series ''send_attempt_total'' env"
  by (auto simp: applyResult_def count_error_def count_success_def series_emits split: option.splits)

lemma series_SetOutput [simp]: "series n (te_SetOutput name v env) = series n env"
  by (simp add: series_def te_sample_count_def te_SetOutput_def)

lemma unat_sum_small: "int (a + b) < 2 ^ 63 \<Longrightarrow> unat (of_nat a :: 64 word) = a \<and> unat (of_nat b :: 64 word) = b"
  by (auto simp: unat_of_nat)

end
