(* ===== verification/Metrics_Collector.thy ===== *)
theory Metrics_Collector
  imports Prom_Text Identity_Units Traffic_Common
begin

text \<open>
  \<open>wukongim.metrics_collector/v1\<close> (\<open>units/wukongim/metrics_collector/collector.go\<close>, \<open>unit.go\<close>): a background unit
  that scrapes every node once per tick, writes one record per node and tick, and publishes a summary when it is
  stopped. The nodes of a tick are scraped concurrently, each into a slot of its own, and the tick goes on
  when all are done, so a tick is a function of what the nodes answer (\<open>tick\<close>). HTTP, JSON, and the instants at which the
  context ends are part of the tick or parameters. An error whose \<open>Error()\<close> a record holds is kept as the error. Equal samples, whose order
  Go's \<open>sort.Slice\<close> leaves open, keep their order.
\<close>

section \<open>Specification\<close>

record collectorSpec =
  cs_Interval :: int
  cs_Timeout :: int
  cs_Path :: string
  cs_Include :: "string list"
  cs_Exclude :: "string list"
  cs_FailOnScrapeError :: bool
  cs_MaxConsecutiveErrors :: int
  cs_MaxSummaryMetrics :: int

definition collector_decodeSpec :: "(collectorSpec \<Rightarrow> collectorSpec result) \<Rightarrow> collectorSpec result" where
  "collector_decodeSpec decode =
     (case decode \<lparr>cs_Interval = 1000000000, cs_Timeout = 800 * 1000000, cs_Path = ''/metrics'', cs_Include = [],
        cs_Exclude = [], cs_FailOnScrapeError = False, cs_MaxConsecutiveErrors = 0, cs_MaxSummaryMetrics = 0\<rparr> of
        Inl err \<Rightarrow> Inl err
      | Inr spec \<Rightarrow>
          (let spec = spec\<lparr>cs_Path := TrimSpace (cs_Path spec), cs_Include := trimStrings (cs_Include spec),
                           cs_Exclude := trimStrings (cs_Exclude spec)\<rparr>
           in Inr (if cs_MaxSummaryMetrics spec = 0 then spec\<lparr>cs_MaxSummaryMetrics := 100\<rparr> else spec)))"

definition validateSpec :: "PromLib \<Rightarrow> collectorSpec \<Rightarrow> goerr option" where
  "validateSpec lib spec =
     (if cs_Interval spec \<le> 0 then Some (Errorf ''interval must be greater than zero'' [])
      else if cs_Timeout spec \<le> 0 then Some (Errorf ''timeout must be greater than zero'' [])
      else if cs_Path spec = [] then Some (Errorf ''path is required'' [])
      else if \<not> prefix ''/'' (cs_Path spec) then Some (Errorf ''path must start with /'' [])
      else (case newMetricFilter lib (cs_Include spec) (cs_Exclude spec) of
              Inl err \<Rightarrow> Some err
            | Inr _ \<Rightarrow>
                if cs_MaxConsecutiveErrors spec < 0
                then Some (Errorf ''max_consecutive_errors must not be negative'' [])
                else if cs_MaxSummaryMetrics spec < 0
                then Some (Errorf ''max_summary_metrics must not be negative'' [])
                else None))"

definition collector_Validate :: "PromLib \<Rightarrow> (collectorSpec \<Rightarrow> collectorSpec result) \<Rightarrow> goerr option" where
  "collector_Validate lib decode =
     (case collector_decodeSpec decode of Inl err \<Rightarrow> Some err | Inr spec \<Rightarrow> validateSpec lib spec)"

definition collector_Definition :: UnitDef where
  "collector_Definition =
     \<lparr>ud_Kind = ''wukongim.metrics_collector/v1'', ud_Title = ''WuKongIM metrics collector'',
      ud_Description = ''Collects WuKongIM Prometheus metrics and publishes a compact summary.'',
      ud_Inputs = [plain_port ''target'' ''port.target.endpoint/v1''],
      ud_Outputs = [plain_port ''summary'' ''port.wukongim.metrics_summary/v1''],
      ud_Metrics = [\<lparr>md_Name = ''scrape_success_total'', md_Type = ''counter''\<rparr>,
        \<lparr>md_Name = ''scrape_error_total'', md_Type = ''counter''\<rparr>,
        \<lparr>md_Name = ''scrape_parse_error_total'', md_Type = ''counter''\<rparr>,
        \<lparr>md_Name = ''scrape_latency'', md_Type = ''duration''\<rparr>],
      ud_Artifacts = [\<lparr>ad_Name = ''metrics.jsonl'', ad_ContentType = ''application/jsonl''\<rparr>]\<rparr>"

text \<open>\<open>Run\<close>: the unit has no foreground part.\<close>

definition collector_Run :: goerr where
  "collector_Run = Errorf ''%s is a background unit; use Start'' [ArgS ''wukongim.metrics_collector/v1'']"

section \<open>Samples\<close>

record JsonLib =
  jl_pairs :: "(string \<times> string) list \<Rightarrow> string result"
  jl_series :: "string \<Rightarrow> (string \<times> string) list \<Rightarrow> string result"

definition sortedLabelPairs :: "string gomap \<Rightarrow> (string \<times> string) list" where
  "sortedLabelPairs labels = map (\<lambda>key. (key, the (fmlookup labels key))) (map_keys labels)"

definition sampleSeriesKey :: "JsonLib \<Rightarrow> metricSample \<Rightarrow> string" where
  "sampleSeriesKey js sample =
     (case jl_series js (sa_Name sample) (sortedLabelPairs (sa_Labels sample)) of
        Inl _ \<Rightarrow> sa_Name sample
      | Inr data \<Rightarrow> data)"

definition labelsKey :: "JsonLib \<Rightarrow> string gomap \<Rightarrow> string" where
  "labelsKey js labels =
     (if map_len labels = 0 then []
      else case jl_pairs js (sortedLabelPairs labels) of Inl _ \<Rightarrow> [] | Inr data \<Rightarrow> data)"

definition compareMetricSamples :: "JsonLib \<Rightarrow> metricSample \<Rightarrow> metricSample \<Rightarrow> int" where
  "compareMetricSamples js a b =
     (if sa_Name a < sa_Name b then - 1
      else if sa_Name a > sa_Name b then 1
      else let aLabels = labelsKey js (sa_Labels a); bLabels = labelsKey js (sa_Labels b)
           in if aLabels < bLabels then - 1 else if aLabels > bLabels then 1 else 0)"

fun insert_sample :: "JsonLib \<Rightarrow> metricSample \<Rightarrow> metricSample list \<Rightarrow> metricSample list" where
  "insert_sample js x [] = [x]"
| "insert_sample js x (y # ys) =
     (if compareMetricSamples js y x < 0 then y # insert_sample js x ys else x # y # ys)"

definition sortMetricSamples :: "JsonLib \<Rightarrow> metricSample list \<Rightarrow> metricSample list" where
  "sortMetricSamples js samples = foldr (insert_sample js) samples []"

definition metricsURL :: "string \<Rightarrow> string \<Rightarrow> string" where
  "metricsURL addr path = TrimRightByte addr (CHR ''/'') @ ''/'' @ TrimLeftByte path (CHR ''/'')"

definition durationMS :: "int \<Rightarrow> float64" where
  "durationMS d = float_of_int d div Fin 1000000"

definition percentileMS :: "(float64 \<Rightarrow> int) \<Rightarrow> int list \<Rightarrow> float64 \<Rightarrow> float64" where
  "percentileMS oor values percentile =
     (if values = [] then 0
      else let sorted = sort values;
               index = int64_of_float oor (percentile * float_of_int (int (length sorted)) + fround (999999999 / 1000000000)) - 1;
               index = (if index < 0 then 0 else index);
               index = (if int (length sorted) \<le> index then int (length sorted) - 1 else index)
           in durationMS (sorted ! nat index))"

section \<open>State\<close>

record NodeScrapeSummary =
  ns_Address :: string
  ns_Success :: int
  ns_Errors :: int

record scrapeRecord =
  sx_Timestamp :: string
  sx_NodeIndex :: int
  sx_Address :: string
  sx_DurationMS :: float64
  sx_Status :: string
  sx_StatusCode :: int
  sx_Error :: "goerr option"
  sx_Samples :: "metricSample list"

record nodeScrapeResult =
  nr_record :: scrapeRecord
  nr_samples :: "metricSample list"
  nr_parseErrors :: int
  nr_err :: "goerr option"

record MetricsSummary =
  mx_ScrapeTicks :: int
  mx_SelectedSamples :: int
  mx_DroppedMetricNames :: int
  mx_Nodes :: "NodeScrapeSummary list"
  mx_LatencyP95MS :: float64
  mx_LatencyP99MS :: float64
  mx_Latest :: "metricSample list"

record collector_cfg =
  cg_oor :: "float64 \<Rightarrow> int"
  cg_lib :: PromLib
  cg_json :: JsonLib
  cg_marshal :: "scrapeRecord \<Rightarrow> string result"
  cg_spec :: collectorSpec
  cg_filter :: metricFilter
  cg_addrs :: "string list"

record 'v collector =
  cl_scrapeTicks :: int
  cl_selectedSamples :: int
  cl_droppedMetricNames :: int
  cl_nodes :: "NodeScrapeSummary gomap"
  cl_latencies :: "int list"
  cl_latest :: "metricSample gomap"
  cl_droppedSeries :: "unit gomap"
  cl_artifact :: "string list"
  cl_env :: "'v TestRunEnv"
  cl_cancelled :: bool
  cl_done :: "goerr list"
  cl_stopped :: bool
  cl_finalized :: "goerr option option"

definition newCollector :: "'v TestRunEnv \<Rightarrow> 'v collector" where
  "newCollector env =
     \<lparr>cl_scrapeTicks = 0, cl_selectedSamples = 0, cl_droppedMetricNames = 0, cl_nodes = fmempty, cl_latencies = [],
      cl_latest = fmempty, cl_droppedSeries = fmempty, cl_artifact = [], cl_env = env, cl_cancelled = False,
      cl_done = [], cl_stopped = False, cl_finalized = None\<rparr>"

section \<open>One tick\<close>

text \<open>What comes of a request to a node, when the scrape started, and how long it took.\<close>

datatype scrape_answer =
    RequestError goerr
  | DoError goerr
  | Response int string "goerr option"

record scrape_event =
  ev_timestamp :: string
  ev_elapsed :: int
  ev_answer :: scrape_answer

record tick =
  tk_ctxBefore :: bool
  tk_node :: "nat \<Rightarrow> string \<Rightarrow> scrape_event"
  tk_write :: "nat \<Rightarrow> goerr option"
  tk_ctxAfter :: bool
  tk_ctxWait :: bool

definition scrape_failed :: "scrapeRecord \<Rightarrow> goerr \<Rightarrow> nodeScrapeResult" where
  "scrape_failed rec err =
     \<lparr>nr_record = rec\<lparr>sx_Status := ''error'', sx_Error := Some err\<rparr>, nr_samples = [], nr_parseErrors = 0,
      nr_err = Some err\<rparr>"

definition scrapeNode :: "collector_cfg \<Rightarrow> nat \<Rightarrow> string \<Rightarrow> scrape_event \<Rightarrow> nodeScrapeResult" where
  "scrapeNode cf index addr ev =
     (let rec = \<lparr>sx_Timestamp = ev_timestamp ev, sx_NodeIndex = int index, sx_Address = addr,
                 sx_DurationMS = durationMS (ev_elapsed ev), sx_Status = ''success'', sx_StatusCode = 0,
                 sx_Error = None, sx_Samples = []\<rparr>
      in case ev_answer ev of
           RequestError err \<Rightarrow> scrape_failed rec err
         | DoError err \<Rightarrow> scrape_failed rec err
         | Response code body readErr \<Rightarrow>
             (let rec = rec\<lparr>sx_StatusCode := code\<rparr>
              in if code < 200 \<or> 300 \<le> code then scrape_failed rec (Errorf ''HTTP %d'' [ArgI code])
                 else case parsePrometheusReader (cg_lib cf) (cg_filter cf) body readErr of
                        (samples, parseErrors, Some err) \<Rightarrow> scrape_failed rec err
                      | (samples, parseErrors, None) \<Rightarrow>
                          (let samples = sortMetricSamples (cg_json cf) samples
                           in \<lparr>nr_record = rec\<lparr>sx_Samples := samples\<rparr>, nr_samples = samples,
                               nr_parseErrors = parseErrors, nr_err = None\<rparr>)))"

definition node_at :: "string \<Rightarrow> NodeScrapeSummary gomap \<Rightarrow> NodeScrapeSummary" where
  "node_at addr nodes =
     (case fmlookup nodes addr of Some node \<Rightarrow> node | None \<Rightarrow> \<lparr>ns_Address = addr, ns_Success = 0, ns_Errors = 0\<rparr>)"

definition record_sample :: "JsonLib \<Rightarrow> int \<Rightarrow> metricSample \<Rightarrow> 'v collector \<Rightarrow> 'v collector" where
  "record_sample js maxMetrics sample c =
     (let key = sampleSeriesKey js sample
      in if fmlookup (cl_latest c) key \<noteq> None then c\<lparr>cl_latest := fmupd key sample (cl_latest c)\<rparr>
         else if fmlookup (cl_droppedSeries c) key \<noteq> None then c
         else if int (map_len (cl_latest c)) < maxMetrics then c\<lparr>cl_latest := fmupd key sample (cl_latest c)\<rparr>
         else c\<lparr>cl_droppedSeries := fmupd key () (cl_droppedSeries c),
                cl_droppedMetricNames := cl_droppedMetricNames c + 1\<rparr>)"

definition recordLatest :: "JsonLib \<Rightarrow> int \<Rightarrow> metricSample list \<Rightarrow> 'v collector \<Rightarrow> 'v collector" where
  "recordLatest js maxMetrics samples c = foldl (\<lambda>c s. record_sample js maxMetrics s c) c samples"

definition recordResult :: "collector_cfg \<Rightarrow> string \<Rightarrow> nodeScrapeResult \<Rightarrow> 'v collector \<Rightarrow> 'v collector" where
  "recordResult cf addr result c =
     (let labels = fmupd ''node_index'' (itoa (sx_NodeIndex (nr_record result))) (fmupd ''address'' addr fmempty);
          latency = int64_of_float (cg_oor cf) (sx_DurationMS (nr_record result) * Fin 1000000);
          c = c\<lparr>cl_env := te_ObserveDuration ''scrape_latency'' latency labels (cl_env c),
                cl_latencies := cl_latencies c @ [latency]\<rparr>;
          node = node_at addr (cl_nodes c)
      in if nr_err result \<noteq> None
         then c\<lparr>cl_nodes := fmupd addr (node\<lparr>ns_Errors := ns_Errors node + 1\<rparr>) (cl_nodes c),
                cl_env := te_EmitCounter ''scrape_error_total'' 1 labels (cl_env c)\<rparr>
         else let env = te_EmitCounter ''scrape_success_total'' 1 labels (cl_env c);
                  env = (if 0 < nr_parseErrors result
                    then te_EmitCounter ''scrape_parse_error_total'' (float_of_int (nr_parseErrors result)) labels env
                    else env)
              in recordLatest (cg_json cf) (cs_MaxSummaryMetrics (cg_spec cf)) (nr_samples result)
                   (c\<lparr>cl_nodes := fmupd addr (node\<lparr>ns_Success := ns_Success node + 1\<rparr>) (cl_nodes c),
                      cl_env := env,
                      cl_selectedSamples := cl_selectedSamples c + int (length (nr_samples result))\<rparr>))"

definition writeRecord :: "collector_cfg \<Rightarrow> goerr option \<Rightarrow> scrapeRecord \<Rightarrow> 'v collector \<Rightarrow> goerr option \<times> 'v collector" where
  "writeRecord cf writeErr rec c =
     (case cg_marshal cf rec of
        Inl err \<Rightarrow> (Some err, c)
      | Inr data \<Rightarrow>
          (case writeErr of
             Some err \<Rightarrow> (Some err, c)
           | None \<Rightarrow> (None, c\<lparr>cl_artifact := cl_artifact c @ [data @ [CHR 0x0A]]\<rparr>)))"

fun take_results :: "collector_cfg \<Rightarrow> (nat \<Rightarrow> goerr option) \<Rightarrow> (nat \<times> string \<times> nodeScrapeResult) list \<Rightarrow> bool \<Rightarrow>
    'v collector \<Rightarrow> bool \<times> goerr option \<times> 'v collector" where
  "take_results cf writes [] had c = (had, None, c)"
| "take_results cf writes ((index, addr, result) # rest) had c =
     (case writeRecord cf (writes index) (nr_record result) c of
        (Some err, c) \<Rightarrow> (had, Some (Errorf ''write metrics artifact: %w'' [ArgE err]), c)
      | (None, c) \<Rightarrow>
          take_results cf writes rest (if nr_err result \<noteq> None \<or> 0 < nr_parseErrors result then True else had)
            (recordResult cf addr result c))"

definition scrape_all :: "collector_cfg \<Rightarrow> tick \<Rightarrow> (nat \<times> string \<times> nodeScrapeResult) list" where
  "scrape_all cf t =
     map (\<lambda>(index, addr). (index, addr,
            scrapeNode cf index addr (tk_node t index (metricsURL addr (cs_Path (cg_spec cf))))))
       (enumerate 0 (cg_addrs cf))"

definition scrapeTick :: "collector_cfg \<Rightarrow> tick \<Rightarrow> 'v collector \<Rightarrow> bool \<times> goerr option \<times> 'v collector" where
  "scrapeTick cf t c =
     (if tk_ctxBefore t then (False, None, c)
      else take_results cf (tk_write t) (scrape_all cf t) False (c\<lparr>cl_scrapeTicks := cl_scrapeTicks c + 1\<rparr>))"

section \<open>The loop\<close>

datatype loop_end = Fatal goerr | Cancelled | Running nat

fun collector_loop :: "collector_cfg \<Rightarrow> tick list \<Rightarrow> nat \<Rightarrow> 'v collector \<Rightarrow> loop_end \<times> 'v collector" where
  "collector_loop cf [] errorTicks c = (Running errorTicks, c)"
| "collector_loop cf (t # ts) errorTicks c =
     (case scrapeTick cf t c of
        (had, Some err, c) \<Rightarrow> (Fatal err, c)
      | (had, None, c) \<Rightarrow>
          if tk_ctxAfter t then (Cancelled, c)
          else let errorTicks = (if had then Suc errorTicks else 0); limit = cs_MaxConsecutiveErrors (cg_spec cf)
               in if had \<and> cs_FailOnScrapeError (cg_spec cf) \<and> (limit = 0 \<or> limit \<le> int errorTicks)
                  then (Fatal (Errorf ''scrape error threshold reached after %d consecutive tick(s)'' [ArgI (int errorTicks)]), c)
                  else if tk_ctxWait t then (Cancelled, c)
                  else collector_loop cf ts errorTicks c)"

text \<open>\<open>run\<close>: when the loop has ended, a fatal error is sent on \<open>done\<close>, and both channels are closed.\<close>

definition collector_run :: "collector_cfg \<Rightarrow> tick list \<Rightarrow> 'v collector \<Rightarrow> 'v collector" where
  "collector_run cf ts c =
     (case collector_loop cf ts 0 c of
        (Fatal err, c) \<Rightarrow> c\<lparr>cl_done := [err], cl_stopped := True\<rparr>
      | (Cancelled, c) \<Rightarrow> c\<lparr>cl_stopped := True\<rparr>
      | (Running _, c) \<Rightarrow> c)"

section \<open>Stopping\<close>

definition collector_summary :: "(float64 \<Rightarrow> int) \<Rightarrow> JsonLib \<Rightarrow> 'v collector \<Rightarrow> MetricsSummary" where
  "collector_summary oor js c =
     \<lparr>mx_ScrapeTicks = cl_scrapeTicks c, mx_SelectedSamples = cl_selectedSamples c,
      mx_DroppedMetricNames = cl_droppedMetricNames c,
      mx_Nodes = map (\<lambda>addr. node_at addr (cl_nodes c)) (map_keys (cl_nodes c)),
      mx_LatencyP95MS = percentileMS oor (cl_latencies c) (fround (95 / 100)),
      mx_LatencyP99MS = percentileMS oor (cl_latencies c) (fround (99 / 100)),
      mx_Latest = sortMetricSamples js (map (\<lambda>key. the (fmlookup (cl_latest c) key)) (map_keys (cl_latest c)))\<rparr>"

text \<open>The body of \<open>finalizeOnce\<close>; \<open>closeErr\<close> is the error of closing the artifact.\<close>

definition collector_finalize :: "(float64 \<Rightarrow> int) \<Rightarrow> JsonLib \<Rightarrow> (MetricsSummary \<Rightarrow> 'v) \<Rightarrow> goerr option \<Rightarrow>
    'v collector \<Rightarrow> goerr option \<times> 'v collector" where
  "collector_finalize oor js wrap closeErr c =
     (case cl_finalized c of
        Some err \<Rightarrow> (err, c)
      | None \<Rightarrow>
          (closeErr, c\<lparr>cl_env := te_SetOutput ''summary'' (wrap (collector_summary oor js c)) (cl_env c),
                       cl_finalized := Some closeErr\<rparr>))"

text \<open>\<open>Stop\<close>: \<open>ctxFirst\<close> is the error of its context if that ended before the collector had stopped.\<close>

definition collector_Stop :: "(float64 \<Rightarrow> int) \<Rightarrow> JsonLib \<Rightarrow> (MetricsSummary \<Rightarrow> 'v) \<Rightarrow> goerr option \<Rightarrow> goerr option \<Rightarrow>
    'v collector \<Rightarrow> goerr option \<times> 'v collector" where
  "collector_Stop oor js wrap ctxFirst closeErr c =
     (let c = c\<lparr>cl_cancelled := True\<rparr>
      in case ctxFirst of
           Some err \<Rightarrow> (Some err, c)
         | None \<Rightarrow> collector_finalize oor js wrap closeErr c)"

section \<open>Starting\<close>

definition collector_Start :: "(float64 \<Rightarrow> int) \<Rightarrow> PromLib \<Rightarrow> JsonLib \<Rightarrow> (scrapeRecord \<Rightarrow> string result) \<Rightarrow> FileSys \<Rightarrow>
    ('v \<Rightarrow> string result) \<Rightarrow> ('v, Target) typed \<Rightarrow> (collectorSpec \<Rightarrow> collectorSpec result) \<Rightarrow> 'v TestRunEnv \<Rightarrow>
    (collector_cfg \<times> 'v collector) result" where
  "collector_Start oor lib js marshal fs Marshal t decode env =
     (case collector_decodeSpec decode of
        Inl err \<Rightarrow> Inl err
      | Inr spec \<Rightarrow>
          (case validateSpec lib spec of
             Some err \<Rightarrow> Inl err
           | None \<Rightarrow>
               (case Input_typed Marshal t ''target'' env of
                  Inl err \<Rightarrow> Inl err
                | Inr target \<Rightarrow>
                    (case newMetricFilter lib (cs_Include spec) (cs_Exclude spec) of
                       Inl err \<Rightarrow> Inl err
                     | Inr filt \<Rightarrow>
                         (case te_OpenArtifact fs ''metrics.jsonl'' env of
                            Inl err \<Rightarrow> Inl err
                          | Inr _ \<Rightarrow>
                              Inr (\<lparr>cg_oor = oor, cg_lib = lib, cg_json = js, cg_marshal = marshal, cg_spec = spec,
                                    cg_filter = filt, cg_addrs = tg_APIAddrs target\<rparr>, newCollector env))))))"

interpretation collector_final: once_closer "collector_finalize oor js wrap" "\<lambda>c. cl_finalized c \<noteq> None" for oor js wrap
  by unfold_locales (auto simp: collector_finalize_def split: option.splits)

end
