(* ===== verification/Report.thy ===== *)
theory Report
  imports Plugin_Config Engine Unit_Ports Metrics_Collector
begin

text \<open>
  \<open>benchkit/report/report.go\<close>: the Markdown summary of a run and the two files of the report directory. JSON, the text of
  times, errors and shortest floats, and the dynamic Go type of a reported value are parameters.
\<close>

section \<open>Numbers\<close>

text \<open>
  The verbs \<open>%.1f\<close>, \<open>%.2f\<close> and \<open>%.4f\<close>: the exact decimal expansion, rounded half to even. The sign of a zero is not kept (see \<open>Go_Float\<close>).
\<close>

definition pad_left :: "nat \<Rightarrow> string \<Rightarrow> string" where
  "pad_left n s = replicate (n - length s) (CHR ''0'') @ s"

definition fmt_fixed :: "nat \<Rightarrow> float64 \<Rightarrow> string" where
  "fmt_fixed d x =
     (case x of
        PosInf \<Rightarrow> ''+Inf''
      | NegInf \<Rightarrow> ''-Inf''
      | NaN \<Rightarrow> ''NaN''
      | Fin q \<Rightarrow>
          (let n = nat (round_half_even (\<bar>q\<bar> * 10 ^ d))
           in (if q < 0 then ''-'' else []) @ nat_digits (n div 10 ^ d) @
              (if d = 0 then [] else ''.'' @ pad_left d (nat_digits (n mod 10 ^ d)))))"

text \<open>The size of an artifact.\<close>

definition formatBytes :: "int \<Rightarrow> string" where
  "formatBytes bytes =
     (if bytes < 1024 then itoa bytes @ ''B''
      else if bytes < 1024 * 1024 then fmt_fixed 1 (float_of_int bytes div Fin 1024) @ ''KB''
      else fmt_fixed 1 (float_of_int bytes div Fin (1024 * 1024)) @ ''MB'')"

definition formatMilliseconds :: "float64 \<Rightarrow> string" where
  "formatMilliseconds value = fmt_fixed 2 (value * Fin 1000) @ ''ms''"

section \<open>Lines\<close>

text \<open>The Go type behind a reported value, as the type switches see it.\<close>

datatype reportedValue =
    SummaryValue Summary
  | MetricsValue MetricsSummary
  | OtherValue json

record reportLib =
  rl_marshalIndent :: "string \<Rightarrow> Status \<Rightarrow> UnitResult gomap \<Rightarrow> string result"
  rl_marshal :: "json \<Rightarrow> string result"
  rl_verb :: "json \<Rightarrow> string"
  rl_float :: "float64 \<Rightarrow> string"
  rl_view :: "json \<Rightarrow> reportedValue"
  rl_time :: "int \<Rightarrow> string"
  rl_err :: "goerr \<Rightarrow> string"
  rl_oor :: "float64 \<Rightarrow> int"

definition MetricsSummaryV1 :: string where
  "MetricsSummaryV1 = ''port.wukongim.metrics_summary/v1''"

definition nl :: string where "nl = [CHR 0x0A]"

definition code :: "string \<Rightarrow> string" where
  "code s = CHR 0x60 # s @ [CHR 0x60]"

definition status_text :: "Status \<Rightarrow> string" where
  "status_text st =
     (case st of StatusUnset \<Rightarrow> [] | StatusCompleted \<Rightarrow> ''completed'' | StatusConfigFailed \<Rightarrow> ''config_failed''
      | StatusPlanFailed \<Rightarrow> ''plan_failed'' | StatusWorkerFailed \<Rightarrow> ''worker_failed'')"

definition int64Value :: "(float64 \<Rightarrow> int) \<Rightarrow> json option \<Rightarrow> int" where
  "int64Value oor v = (case v of Some (JInt i) \<Rightarrow> i | Some (JFloat f) \<Rightarrow> int64_of_float oor f | _ \<Rightarrow> 0)"

definition float64Value :: "json option \<Rightarrow> float64" where
  "float64Value v = (case v of Some (JInt i) \<Rightarrow> float_of_int i | Some (JFloat f) \<Rightarrow> f | _ \<Rightarrow> 0)"

definition wukongIMMetricsSummaryErrors :: "(float64 \<Rightarrow> int) \<Rightarrow> json option \<Rightarrow> int" where
  "wukongIMMetricsSummaryErrors oor nodes =
     (case nodes of
        Some (JArray vs) \<Rightarrow>
          foldl (\<lambda>errors node. case node of
            JObject kvs \<Rightarrow> wrap64 (errors + int64Value oor (map_of kvs ''errors'')) | _ \<Rightarrow> errors) 0 vs
      | _ \<Rightarrow> 0)"

definition metrics_line :: "int \<Rightarrow> int \<Rightarrow> int \<Rightarrow> float64 \<Rightarrow> float64 \<Rightarrow> string" where
  "metrics_line scrapes errors samples p95 p99 =
     ''scrapes: '' @ code (itoa scrapes) @ '', errors: '' @ code (itoa errors) @ '', samples: '' @ code (itoa samples) @
     '', latency_p95: '' @ code (fmt_fixed 2 p95 @ ''ms'') @ '', latency_p99: '' @ code (fmt_fixed 2 p99 @ ''ms'')"

definition formatWuKongIMMetricsSummary :: "(float64 \<Rightarrow> int) \<Rightarrow> reportedValue \<Rightarrow> string option" where
  "formatWuKongIMMetricsSummary oor value =
     (case value of
        MetricsValue v \<Rightarrow>
          Some (metrics_line (mx_ScrapeTicks v) (foldl (\<lambda>errors node. wrap64 (errors + ns_Errors node)) 0 (mx_Nodes v))
            (mx_SelectedSamples v) (mx_LatencyP95MS v) (mx_LatencyP99MS v))
      | OtherValue (JObject kvs) \<Rightarrow>
          Some (metrics_line (int64Value oor (map_of kvs ''scrape_ticks'')) (wukongIMMetricsSummaryErrors oor (map_of kvs ''nodes''))
            (int64Value oor (map_of kvs ''selected_samples'')) (float64Value (map_of kvs ''latency_p95_ms''))
            (float64Value (map_of kvs ''latency_p99_ms'')))
      | _ \<Rightarrow> None)"

definition formatOutputValue :: "reportLib \<Rightarrow> json \<Rightarrow> string" where
  "formatOutputValue lib value =
     (case rl_view lib value of
        SummaryValue v \<Rightarrow>
          ''sendack_ok: '' @ code (itoa (uint (sm_SendackOK v))) @ '', sendack_errors: '' @ code (itoa (uint (sm_SendackErrors v))) @
          '', sendack_error_rate: '' @ code (fmt_fixed 4 (SendackErrorRate v)) @ '', elapsed_ms: '' @ code (itoa (sm_ElapsedMS v)) @
          '', actual_qps: '' @ code (fmt_fixed 2 (ActualQPS v)) @ '', last_message_id: '' @ code (itoa (sm_LastMessageID v))
      | MetricsValue v \<Rightarrow>
          (case formatWuKongIMMetricsSummary (rl_oor lib) (MetricsValue v) of None \<Rightarrow> [] | Some t \<Rightarrow> t)
      | OtherValue _ \<Rightarrow>
          (case rl_marshal lib value of
             Inl err \<Rightarrow> ''value: '' @ code (rl_verb lib value)
           | Inr data \<Rightarrow> ''value: '' @ code data))"

definition formatOutput :: "reportLib \<Rightarrow> string \<Rightarrow> OutputResult \<Rightarrow> string" where
  "formatOutput lib name output =
     (let pre = ''  - output '' @ code name @ '' '' @ code (or_Type output)
      in case or_Value output of
        None \<Rightarrow> pre @ nl
      | Some value \<Rightarrow>
          (case (if or_Type output = MetricsSummaryV1 then formatWuKongIMMetricsSummary (rl_oor lib) (rl_view lib value) else None) of
             Some formatted \<Rightarrow> pre @ '': '' @ formatted @ nl
           | None \<Rightarrow> pre @ '': '' @ formatOutputValue lib value @ nl))"

definition formatMetric :: "reportLib \<Rightarrow> string \<Rightarrow> MetricResult \<Rightarrow> string" where
  "formatMetric lib name metric =
     (if mr_Type metric = ''duration'' then
        (let avg = (if 0 < mr_Count metric then mr_Sum metric div float_of_int (mr_Count metric) else 0)
         in ''  - metric '' @ code name @ '' '' @ code ''duration'' @ '': count '' @ code (itoa (mr_Count metric)) @
            '', avg '' @ code (formatMilliseconds avg) @
            (if \<not> feq (mr_P95 metric) 0 \<or> \<not> feq (mr_P99 metric) 0
             then '', p95 '' @ code (formatMilliseconds (mr_P95 metric)) @ '', p99 '' @ code (formatMilliseconds (mr_P99 metric))
             else []) @
            '', min '' @ code (formatMilliseconds (mr_Min metric)) @ '', max '' @ code (formatMilliseconds (mr_Max metric)) @ nl)
      else
        ''  - metric '' @ code name @ '' '' @ code (if mr_Type metric = [] then ''counter'' else mr_Type metric) @
        '': count '' @ code (itoa (mr_Count metric)) @ '', sum '' @ code (rl_float lib (mr_Sum metric)) @ nl)"

definition formatArtifact :: "string \<Rightarrow> ArtifactResult \<Rightarrow> string" where
  "formatArtifact name a =
     ''  - artifact '' @ code name @ '': '' @ code (ar_Path a) @ '', '' @ formatBytes (ar_SizeBytes a) @ nl"

definition formatCleanup :: "reportLib \<Rightarrow> CleanupResult \<Rightarrow> string" where
  "formatCleanup lib c =
     (let message = rl_err lib (cr_Error c)
      in ''  - cleanup '' @ code (cr_Output c) @ '': '' @ (if message = [] then ''ok'' else message) @ nl)"

section \<open>The summary and the files\<close>

text \<open>The entries of a map by ascending key.\<close>

definition sorted_entries :: "(string \<Rightarrow> 'a \<Rightarrow> string) \<Rightarrow> 'a gomap \<Rightarrow> string" where
  "sorted_entries f m = concat (map (\<lambda>k. f k (the (fmlookup m k))) (map_keys m))"

definition unit_section :: "reportLib \<Rightarrow> string \<Rightarrow> UnitResult \<Rightarrow> string" where
  "unit_section lib name u =
     ''- '' @ code name @ '' '' @ code (ur_Kind u) @ '' '' @ code (status_text (ur_Status u)) @ nl @
     (if 0 < ur_ElapsedMS u
      then ''  - timing: elapsed '' @ code (itoa (ur_ElapsedMS u) @ ''ms'') @ '', started '' @ code (rl_time lib (ur_StartedAt u)) @
        '', ended '' @ code (rl_time lib (ur_EndedAt u)) @ nl
      else []) @
     sorted_entries (formatOutput lib) (ur_Outputs u) @
     sorted_entries (formatMetric lib) (ur_Metrics u) @
     sorted_entries formatArtifact (ur_Artifacts u) @
     concat (map (formatCleanup lib) (ur_Cleanup u))"

definition summaryMarkdown :: "reportLib \<Rightarrow> string \<Rightarrow> Status \<Rightarrow> UnitResult gomap \<Rightarrow> string" where
  "summaryMarkdown lib runID status units =
     (let out = ''# wkbench run '' @ runID @ nl @ nl @ ''status: '' @ code (status_text status) @ nl @ nl
      in if map_len units = 0 then out else out @ ''## Units'' @ nl @ nl @ sorted_entries (unit_section lib) units)"

definition WriteDir :: "'w OS \<Rightarrow> reportLib \<Rightarrow> string \<Rightarrow> string \<Rightarrow> Status \<Rightarrow> UnitResult gomap \<Rightarrow> 'w \<Rightarrow> goerr option \<times> 'w" where
  "WriteDir sys lib dir runID status units w =
     (if dir = [] then (Some (Errorf ''report directory is required'' []), w)
      else (case sys_MkdirAll sys dir w of
        (Some err, w) \<Rightarrow> (Some err, w)
      | (None, w) \<Rightarrow>
          (case rl_marshalIndent lib runID status units of
             Inl err \<Rightarrow> (Some err, w)
           | Inr data \<Rightarrow>
               (case sys_WriteFile sys (path_Join [dir, ''report.json'']) (data @ nl) 420 w of
                  (Some err, w) \<Rightarrow> (Some err, w)
                | (None, w) \<Rightarrow>
                    sys_WriteFile sys (path_Join [dir, ''summary.md'']) (summaryMarkdown lib runID status units) 420 w))))"

section \<open>The figures are accurate\<close>

text \<open>The number a printed figure denotes.\<close>

definition fixed_value :: "string \<Rightarrow> rat" where
  "fixed_value s =
     (case Cut s (CHR ''.'') of (whole, decimals, _) \<Rightarrow> of_nat (digits_val whole) + of_nat (digits_val decimals) / 10 ^ length decimals)"

lemma Cut_none: "c \<notin> set s \<Longrightarrow> Cut s c = (s, [], False)"
  by (induction s) auto

lemma nat_digits_char: "c \<in> set (nat_digits n) \<Longrightarrow> c \<noteq> CHR ''.''"
  using nat_digits_range [of c n] by auto

lemma digits_val_pad: "digits_val (pad_left d s) = digits_val s"
proof -
  have "foldl (\<lambda>a c. 10 * a + (of_char c - 48)) 0 (replicate k (CHR ''0'')) = (0 :: nat)" for k
    by (induction k) simp_all
  then show ?thesis by (simp add: digits_val_def pad_left_def)
qed

lemma length_nat_digits: "n < 10 ^ d \<Longrightarrow> 0 < d \<Longrightarrow> length (nat_digits n) \<le> d"
proof (induction n arbitrary: d rule: nat_digits.induct)
  case (1 n)
  show ?case
  proof (cases "n < 10")
    case True
    with 1 show ?thesis by (subst nat_digits.simps) simp
  next
    case False
    then obtain d' where d: "d = Suc d'" "0 < d'" using 1 by (cases d) (auto, cases "d - 1", auto)
    with 1(2) have "n div 10 < 10 ^ d'" by (simp add: less_mult_imp_div_less)
    with 1(1) [OF False this d(2)] False d(1) show ?thesis by (subst nat_digits.simps) simp
  qed
qed

lemma round_half_even_near: "\<bar>of_int (round_half_even x) - x\<bar> \<le> 1 / 2"
proof -
  have "of_int \<lfloor>x\<rfloor> \<le> x" "x < of_int \<lfloor>x\<rfloor> + 1" by linarith+
  then show ?thesis by (auto simp: round_half_even_def Let_def abs_le_iff)
qed

lemma round_half_even_nonneg: "0 \<le> x \<Longrightarrow> 0 \<le> round_half_even x"
  by (simp add: round_half_even_def Let_def)

lemma fixed_value_fmt:
  assumes "0 \<le> q"
  shows "fixed_value (fmt_fixed d (Fin q)) = of_int (round_half_even (q * 10 ^ d)) / 10 ^ d"
proof -
  define n where "n = nat (round_half_even (q * 10 ^ d))"
  have n: "of_nat n = (of_int (round_half_even (q * 10 ^ d)) :: rat)"
    using round_half_even_nonneg [of "q * 10 ^ d"] assms by (simp add: n_def of_nat_nat)
  have no_dot: "CHR ''.'' \<notin> set (nat_digits m)" for m using nat_digits_char by blast
  show ?thesis
  proof (cases "d = 0")
    case True
    have "Cut (nat_digits n) (CHR ''.'') = (nat_digits n, [], False)"
      using Cut_none [OF no_dot] by simp
    with True assms n show ?thesis by (simp add: fixed_value_def fmt_fixed_def n_def digits_val_def [of "[]"])
  next
    case False
    let ?frac = "pad_left d (nat_digits (n mod 10 ^ d))"
    have len: "length ?frac = d" using length_nat_digits [of "n mod 10 ^ d" d] False by (simp add: pad_left_def)
    have "fixed_value (fmt_fixed d (Fin q)) = of_nat (n div 10 ^ d) + of_nat (n mod 10 ^ d) / 10 ^ d"
      using False assms Cut_append [OF no_dot, of "n div 10 ^ d" ?frac]
      by (simp add: fixed_value_def fmt_fixed_def Let_def n_def [symmetric] digits_val_pad len)
    also have "\<dots> = of_nat n / 10 ^ d"
    proof -
      have "(of_nat n :: rat) = of_nat (n div 10 ^ d * 10 ^ d + n mod 10 ^ d)" by (simp only: div_mult_mod_eq)
      then have "(of_nat n :: rat) = of_nat (n div 10 ^ d) * 10 ^ d + of_nat (n mod 10 ^ d)"
        by (simp only: of_nat_add of_nat_mult of_nat_power of_nat_numeral)
      then show ?thesis by (simp add: field_simps)
    qed
    finally show ?thesis by (simp add: n)
  qed
qed

lemma fixed_value_near:
  assumes "0 \<le> q"
  shows "\<bar>fixed_value (fmt_fixed d (Fin q)) - q\<bar> \<le> 1 / (2 * 10 ^ d)"
proof -
  have "\<bar>of_int (round_half_even (q * 10 ^ d)) / 10 ^ d - q\<bar> = \<bar>of_int (round_half_even (q * 10 ^ d)) - q * 10 ^ d\<bar> / 10 ^ d"
    by (simp add: field_simps abs_divide flip: abs_mult)
  also have "\<dots> \<le> (1 / 2) / 10 ^ d" by (intro divide_right_mono round_half_even_near) simp
  finally show ?thesis by (simp add: fixed_value_fmt [OF assms] mult.commute)
qed

section \<open>The report is complete\<close>

lemma sublist_sorted_entries: "fmlookup m k = Some v \<Longrightarrow> sublist (f k v) (sorted_entries f m)"
proof -
  assume m: "fmlookup m k = Some v"
  then have "k \<in> set (map_keys m)" by (auto intro: fmdomI)
  then obtain xs ys where "map_keys m = xs @ k # ys" by (meson split_list)
  with m show ?thesis unfolding sorted_entries_def sublist_def by auto
qed

lemma sublist_in: "sublist a b \<Longrightarrow> sublist a (p @ b @ q)"
  by (rule sublist_order.order_trans [of a b]) auto

lemma unit_section_parts:
  "sublist (sorted_entries (formatOutput lib) (ur_Outputs u)) (unit_section lib name u)"
  "sublist (sorted_entries (formatMetric lib) (ur_Metrics u)) (unit_section lib name u)"
  "sublist (sorted_entries formatArtifact (ur_Artifacts u)) (unit_section lib name u)"
  "\<exists>r. unit_section lib name u =
     ''- '' @ code name @ '' '' @ code (ur_Kind u) @ '' '' @ code (status_text (ur_Status u)) @ nl @ r"
  unfolding unit_section_def sublist_def by (metis append.assoc)+

lemma summary_section:
  assumes "fmlookup units name = Some u"
  shows "sublist (unit_section lib name u) (summaryMarkdown lib runID status units)"
proof -
  have "map_len units \<noteq> 0" using assms by (auto simp: map_len_0_iff)
  then have "\<exists>p. summaryMarkdown lib runID status units = p @ sorted_entries (unit_section lib) units"
    unfolding summaryMarkdown_def Let_def by (metis append.assoc)
  then show ?thesis
    using sublist_in [OF sublist_sorted_entries [OF assms, of "unit_section lib"], of _ "[]"] by fastforce
qed

text \<open>
  The report of a run. When \<open>WriteDir\<close> succeeds, both files are there: \<open>report.json\<close> with the JSON of the result, and
  \<open>summary.md\<close>, which has a section for every unit with its kind and status and a line for each of its outputs, metrics and
  artifacts. A figure in it is the value it stands for rounded to its last digit.
\<close>

theorem report_written:
  assumes "fs_laws sys" and "\<forall>s\<in>set dir. simple_segment s" and "dir \<noteq> []"
    and "WriteDir sys lib (abs_path dir) runID status units w = (None, w')"
  shows "(\<exists>data. rl_marshalIndent lib runID status units = Inr data \<and>
      sys_ReadFile sys (path_Join [abs_path dir, ''report.json'']) w' = Inr (data @ nl)) \<and>
    sys_ReadFile sys (path_Join [abs_path dir, ''summary.md'']) w' = Inr (summaryMarkdown lib runID status units) \<and>
    (\<forall>name u. fmlookup units name = Some u \<longrightarrow>
       sublist (unit_section lib name u) (summaryMarkdown lib runID status units) \<and>
       prefix (''- '' @ code name @ '' '' @ code (ur_Kind u) @ '' '' @ code (status_text (ur_Status u)) @ nl) (unit_section lib name u) \<and>
       (\<forall>n x. fmlookup (ur_Outputs u) n = Some x \<longrightarrow> sublist (formatOutput lib n x) (unit_section lib name u)) \<and>
       (\<forall>n x. fmlookup (ur_Metrics u) n = Some x \<longrightarrow> sublist (formatMetric lib n x) (unit_section lib name u)) \<and>
       (\<forall>n x. fmlookup (ur_Artifacts u) n = Some x \<longrightarrow> sublist (formatArtifact n x) (unit_section lib name u))) \<and>
    (\<forall>d q. 0 \<le> q \<longrightarrow> \<bar>fixed_value (fmt_fixed d (Fin q)) - q\<bar> \<le> 1 / (2 * 10 ^ d))"
proof (intro conjI allI impI)
  let ?json = "path_Join [abs_path dir, ''report.json'']" and ?md = "path_Join [abs_path dir, ''summary.md'']"
  have names: "?json = abs_path (dir @ [''report.json''])" "?md = abs_path (dir @ [''summary.md''])"
    using assms(2) by (simp_all add: Join_abs_path clean_step_def)
  have segs: "\<forall>s\<in>set (dir @ [''report.json'']). simple_segment s" "\<forall>s\<in>set (dir @ [''summary.md'']). simple_segment s"
    using assms(2) by (auto simp: simple_segment_def)
  have ne: "abs_path (dir @ [''report.json'']) \<noteq> ?md" unfolding names abs_path_inject [OF segs] by simp
  from assms(4) obtain w1 w2 data where w: "rl_marshalIndent lib runID status units = Inr data"
    "sys_WriteFile sys ?json (data @ nl) 420 w1 = (None, w2)" "sys_WriteFile sys ?md (summaryMarkdown lib runID status units) 420 w2 = (None, w')"
    by (auto simp: WriteDir_def split: if_splits prod.splits option.splits sum.splits)
  have "sys_ReadFile sys ?json w' = Inr (data @ nl)"
    using fs_write(1) [OF assms(1) w(2)] fs_write(5) [OF assms(1) w(3) segs(1) ne] by (simp only: names)
  with w show "\<exists>data. rl_marshalIndent lib runID status units = Inr data \<and> sys_ReadFile sys ?json w' = Inr (data @ nl)" by blast
  show "sys_ReadFile sys ?md w' = Inr (summaryMarkdown lib runID status units)" by (rule fs_write(1) [OF assms(1) w(3)])
next
  fix name u
  assume "fmlookup units name = Some u"
  then show "sublist (unit_section lib name u) (summaryMarkdown lib runID status units)" by (rule summary_section)
  show "prefix (''- '' @ code name @ '' '' @ code (ur_Kind u) @ '' '' @ code (status_text (ur_Status u)) @ nl) (unit_section lib name u)"
    using unit_section_parts(4) [where lib = lib and name = name and u = u] by (auto simp: prefix_def)
  show "\<And>n x. fmlookup (ur_Outputs u) n = Some x \<Longrightarrow> sublist (formatOutput lib n x) (unit_section lib name u)"
    "\<And>n x. fmlookup (ur_Metrics u) n = Some x \<Longrightarrow> sublist (formatMetric lib n x) (unit_section lib name u)"
    "\<And>n x. fmlookup (ur_Artifacts u) n = Some x \<Longrightarrow> sublist (formatArtifact n x) (unit_section lib name u)"
    by (rule sublist_order.order_trans [OF sublist_sorted_entries unit_section_parts(1)],
        assumption,
        rule sublist_order.order_trans [OF sublist_sorted_entries unit_section_parts(2)], assumption,
        rule sublist_order.order_trans [OF sublist_sorted_entries unit_section_parts(3)], assumption)
qed (rule fixed_value_near)

definition demo_lib :: reportLib where
  "demo_lib =
     \<lparr>rl_marshalIndent = (\<lambda>_ _ _. Inr ''{}''), rl_marshal = (\<lambda>_. Inr ''{}''), rl_verb = (\<lambda>_. ''{}''), rl_float = fmt_fixed 0,
      rl_view = OtherValue, rl_time = itoa, rl_err = (\<lambda>_. ''error''), rl_oor = (\<lambda>_. 0)\<rparr>"

theorem report_written_witness:
  "sys_ReadFile (mem_fs ''/'') ''/out/report.json'' (snd (WriteDir (mem_fs ''/'') demo_lib ''/out'' ''r'' StatusCompleted fmempty [])) =
     Inr (''{}'' @ nl) \<and> \<bar>fixed_value (fmt_fixed 2 (Fin (1 / 3))) - 1 / 3\<bar> \<le> 1 / 200"
proof -
  have segs: "\<forall>s\<in>set [''out'']. simple_segment s" by (simp add: simple_segment_def)
  have dir: "abs_path [''out''] = ''/out''" by (simp add: abs_path_def)
  obtain w' where w: "WriteDir (mem_fs ''/'') demo_lib (abs_path [''out'']) ''r'' StatusCompleted fmempty [] = (None, w')"
    by (simp add: WriteDir_def dir mem_fs_def demo_lib_def)
  note r = report_written [OF mem_fs_laws segs _ w]
  have "path_Join [''/out'', ''report.json''] = ''/out/report.json''" by code_simp
  with r [THEN conjunct1] have "sys_ReadFile (mem_fs ''/'') ''/out/report.json'' w' = Inr (''{}'' @ nl)"
    by (simp add: dir demo_lib_def)
  moreover have "\<bar>fixed_value (fmt_fixed 2 (Fin (1 / 3))) - 1 / 3\<bar> \<le> 1 / 200"
    using r [THEN conjunct2, THEN conjunct2, THEN conjunct2, rule_format, of "1 / 3" 2] by simp
  ultimately show ?thesis using w by (simp add: dir)
qed

end
