(* ===== verification/Scaffold.thy ===== *)
theory Scaffold
  imports Plugin_Config Go_Runes Contract
begin

text \<open>
  Generators and the test kit: \<open>benchkit/scaffold/unit.go\<close>, the generator of \<open>cmd/wkbench/plugin_init.go\<close>, and
  \<open>benchkit/unittest/unittest.go\<close>. The template engine, the tables of \<open>unicode\<close> for letters and \<open>strings.ToLower\<close> are parameters.
\<close>

section \<open>Names\<close>

record unicode =
  uc_IsLetter :: "nat \<Rightarrow> bool"
  uc_ToLower :: "string \<Rightarrow> string"

record UnitSpec =
  us_Kind :: string
  us_Dir :: string
  us_PackageName :: string
  us_Title :: string
  us_Description :: string

definition hasVersionSuffix :: "string \<Rightarrow> bool" where
  "hasVersionSuffix kind =
     (case LastIndex kind ''/v'' of
        None \<Rightarrow> False
      | Some idx \<Rightarrow> idx + 2 < length kind \<and> list_all IsDigit (runes (drop (idx + 2) kind)))"

definition sanitizePackageName :: "unicode \<Rightarrow> string \<Rightarrow> string" where
  "sanitizePackageName uc raw =
     (let out = encode_runes (filter (\<lambda>r. uc_IsLetter uc r \<or> IsDigit r) (runes (uc_ToLower uc (TrimSpace raw))))
      in if out = [] then []
         else if \<not> uc_IsLetter uc (hd (runes out)) then ''unit'' @ out
         else out)"

text \<open>\<open>strings.ToUpper\<close> of one byte: a byte that is not ASCII is no rune and becomes \<open>U+FFFD\<close>.\<close>

definition upper_byte :: "char \<Rightarrow> string" where
  "upper_byte c =
     (let n = of_char c :: nat
      in if 128 \<le> n then [CHR 0xEF, CHR 0xBF, CHR 0xBD]
         else if 97 \<le> n \<and> n \<le> 122 then [char_of (n - 32)] else [c])"

definition title_word :: "string \<Rightarrow> string" where
  "title_word w = (case w of [] \<Rightarrow> [] | c # rest \<Rightarrow> upper_byte c @ rest)"

definition title_separator :: "char \<Rightarrow> char" where
  "title_separator c = (if c \<in> {CHR ''.'', CHR ''_'', CHR ''-''} then CHR '' '' else c)"

definition titleFromKind :: "string \<Rightarrow> string" where
  "titleFromKind kind =
     (let base = TrimSpace kind;
          base = (case LastIndex base ''/'' of None \<Rightarrow> base | Some i \<Rightarrow> take i base);
          ws = map title_word (Fields (map title_separator base))
      in if ws = [] then ''Benchmark unit'' else strings_Join ws '' '')"

definition normalizeSpec :: "unicode \<Rightarrow> UnitSpec \<Rightarrow> UnitSpec" where
  "normalizeSpec uc spec =
     (let kind = TrimSpace (us_Kind spec);
          dir = TrimSpace (us_Dir spec);
          package = sanitizePackageName uc (us_PackageName spec);
          package = (if package = [] then sanitizePackageName uc (path_Base dir) else package);
          package = (if package = [] then ''unit'' else package);
          title = TrimSpace (us_Title spec);
          title = (if title = [] then titleFromKind kind else title);
          description = TrimSpace (us_Description spec);
          description = (if description = [] then ''Implements the '' @ kind @ '' benchmark unit.'' else description)
      in \<lparr>us_Kind = kind, us_Dir = dir, us_PackageName = package, us_Title = title, us_Description = description\<rparr>)"

section \<open>Files that must not exist yet\<close>

text \<open>The first loop over the files of a template: none may exist.\<close>

fun check_absent :: "'w OS \<Rightarrow> string \<Rightarrow> string list \<Rightarrow> 'w \<Rightarrow> goerr option" where
  "check_absent sys dir [] w = None"
| "check_absent sys dir (name # names) w =
     (let path = path_Join [dir, name]
      in case sys_Stat sys path w of
        None \<Rightarrow> Some (Errorf ''%s already exists'' [ArgS path])
      | Some err \<Rightarrow> if sys_IsNotExist sys err then check_absent sys dir names w else Some err)"

text \<open>
  The second loop: render and write. \<open>mkdirs\<close> tells whether the directory of every file is made first, as \<open>plugin init\<close> does.
\<close>

fun write_files :: "'w OS \<Rightarrow> bool \<Rightarrow> (string \<Rightarrow> string result) \<Rightarrow> (string \<Rightarrow> nat) \<Rightarrow> string \<Rightarrow> string list \<Rightarrow> 'w \<Rightarrow> goerr option \<times> 'w" where
  "write_files sys mkdirs render mode dir [] w = (None, w)"
| "write_files sys mkdirs render mode dir (name # names) w =
     (let path = path_Join [dir, name]
      in case (if mkdirs then sys_MkdirAll sys (path_Dir path) w else (None, w)) of
        (Some err, w) \<Rightarrow> (Some err, w)
      | (None, w) \<Rightarrow>
          (case render name of
             Inl err \<Rightarrow> (Some err, w)
           | Inr data \<Rightarrow>
               (case sys_WriteFile sys path data (mode name) w of
                  (Some err, w) \<Rightarrow> (Some err, w)
                | (None, w) \<Rightarrow> write_files sys mkdirs render mode dir names w)))"

section \<open>New units\<close>

text \<open>\<open>checkOrder\<close> and \<open>writeOrder\<close> are the orders in which the map of files is traversed.\<close>

definition unit_files :: "string list" where
  "unit_files = [''unit.go'', ''unit_test.go'', ''README.md'']"

definition NewUnit :: "'w OS \<Rightarrow> unicode \<Rightarrow> (string \<Rightarrow> UnitSpec \<Rightarrow> string result) \<Rightarrow> string list \<Rightarrow> string list \<Rightarrow> UnitSpec \<Rightarrow> 'w \<Rightarrow>
    goerr option \<times> 'w" where
  "NewUnit sys uc render checkOrder writeOrder spec w =
     (let spec = normalizeSpec uc spec
      in if \<not> hasVersionSuffix (us_Kind spec)
         then (Some (Errorf ''kind must end with /vN, got %q'' [ArgS (us_Kind spec)]), w)
         else if us_Dir spec = [] then (Some (Errorf ''dir is required'' []), w)
         else (case check_absent sys (us_Dir spec) checkOrder w of
           Some err \<Rightarrow> (Some err, w)
         | None \<Rightarrow>
             (case sys_MkdirAll sys (us_Dir spec) w of
                (Some err, w) \<Rightarrow> (Some err, w)
              | (None, w) \<Rightarrow> write_files sys False (\<lambda>name. render name spec) (\<lambda>_. 420) (us_Dir spec) writeOrder w)))"

text \<open>The \<open>Definition\<close> method of the unit that the template describes.\<close>

definition template_Definition :: "UnitSpec \<Rightarrow> UnitDef" where
  "template_Definition spec =
     \<lparr>ud_Kind = us_Kind spec, ud_Title = us_Title spec, ud_Description = us_Description spec, ud_Inputs = [], ud_Outputs = [],
      ud_Metrics = [], ud_Artifacts = []\<rparr>"

section \<open>New plugins\<close>

record pluginTemplateSpec =
  pt_Dir :: string
  pt_Module :: string
  pt_PluginName :: string
  pt_CommandName :: string
  pt_UnitKind :: string
  pt_UnitConst :: string
  pt_WKBenchRoot :: string
  pt_ScenarioID :: string
  pt_QualifiedUse :: string

text \<open>The loop over the runes, with \<open>lastDash\<close>.\<close>

fun command_runes :: "unicode \<Rightarrow> bool \<Rightarrow> nat list \<Rightarrow> nat list" where
  "command_runes uc lastDash [] = []"
| "command_runes uc lastDash (r # rs) =
     (if uc_IsLetter uc r \<or> IsDigit r then r # command_runes uc False rs
      else if lastDash then command_runes uc True rs
      else 45 # command_runes uc True rs)"

definition commandNameFromPlugin :: "unicode \<Rightarrow> string \<Rightarrow> string" where
  "commandNameFromPlugin uc name =
     (let out = TrimRightByte (TrimLeftByte (encode_runes (command_runes uc False (runes (uc_ToLower uc name)))) (CHR ''-'')) (CHR ''-'')
      in (if out = [] then ''wkbench'' else out) @ ''-plugin'')"

definition unitKindFromPlugin :: "unicode \<Rightarrow> string \<Rightarrow> string" where
  "unitKindFromPlugin uc name =
     (let name = TrimSpace (uc_ToLower uc name) in if name = [] then ''demo.echo/v1'' else name @ ''/v1'')"

function findWKBenchRootFrom :: "'w OS \<Rightarrow> 'w \<Rightarrow> string \<Rightarrow> string result" where
  "findWKBenchRootFrom sys w dir =
     (case sys_ReadFile sys (path_Join [dir, ''go.mod'']) w of
        Inr data \<Rightarrow>
          if Contains data ''module github.com/WuKongIM/wkbench'' then Inr dir
          else if path_Dir dir = dir then Inl (Errorf ''wkbench module root not found'' [])
          else findWKBenchRootFrom sys w (path_Dir dir)
      | Inl err \<Rightarrow>
          if \<not> sys_IsNotExist sys err then Inl err
          else if path_Dir dir = dir then Inl (Errorf ''wkbench module root not found'' [])
          else findWKBenchRootFrom sys w (path_Dir dir))"
  by pat_completeness auto

termination
  by (relation "measure (\<lambda>(sys, w, dir). path_rank dir)") (auto intro: Dir_shorter)

declare findWKBenchRootFrom.simps [simp del]

text \<open>\<open>caller\<close> is the file of the function itself, from \<open>runtime.Caller\<close>.\<close>

definition findWKBenchRoot :: "'w OS \<Rightarrow> string option \<Rightarrow> 'w \<Rightarrow> string result" where
  "findWKBenchRoot sys caller w =
     (case sys_Getwd sys w of
        Inl err \<Rightarrow> Inl err
      | Inr dir \<Rightarrow>
          (case findWKBenchRootFrom sys w dir of
             Inr rootDir \<Rightarrow> Inr rootDir
           | Inl _ \<Rightarrow>
               (case (case caller of None \<Rightarrow> Inl () | Some file \<Rightarrow>
                   (case findWKBenchRootFrom sys w (path_Dir file) of Inl _ \<Rightarrow> Inl () | Inr rootDir \<Rightarrow> Inr rootDir)) of
                  Inr rootDir \<Rightarrow> Inr rootDir
                | Inl _ \<Rightarrow> Inl (Errorf ''wkbench module root not found'' []))))"

definition plugin_files :: "string \<Rightarrow> string list" where
  "plugin_files command =
     [''go.mod'', ''go.sum'', ''.gitignore'', path_Join [''cmd'', command, ''main.go''], path_Join [''units'', ''echo'', ''unit.go''],
      path_Join [''units'', ''echo'', ''unit_test.go''], path_Join [''examples'', ''echo.yaml''], path_Join [''scripts'', ''check.sh''],
      ''README.md'']"

definition plugin_mode :: "string \<Rightarrow> nat" where
  "plugin_mode name = (if name = path_Join [''scripts'', ''check.sh''] then 493 else 420)"

definition fill_spec :: "unicode \<Rightarrow> string \<Rightarrow> pluginTemplateSpec \<Rightarrow> pluginTemplateSpec" where
  "fill_spec uc rootDir spec =
     (let name = TrimSpace (pt_PluginName spec); kind = unitKindFromPlugin uc name
      in \<lparr>pt_Dir = path_Clean (pt_Dir spec), pt_Module = TrimSpace (pt_Module spec), pt_PluginName = name,
          pt_CommandName = commandNameFromPlugin uc name, pt_UnitKind = kind, pt_UnitConst = kind, pt_WKBenchRoot = rootDir,
          pt_ScenarioID = map (\<lambda>c. if c = CHR ''.'' then CHR ''-'' else c) name @ ''-demo'', pt_QualifiedUse = name @ '':'' @ kind\<rparr>)"

definition initPluginTemplate :: "'w OS \<Rightarrow> unicode \<Rightarrow> string option \<Rightarrow> (string \<Rightarrow> pluginTemplateSpec \<Rightarrow> string result) \<Rightarrow>
    (string list \<Rightarrow> string list) \<Rightarrow> (string list \<Rightarrow> string list) \<Rightarrow> pluginTemplateSpec \<Rightarrow> 'w \<Rightarrow> goerr option \<times> 'w" where
  "initPluginTemplate sys uc caller render checkOrder writeOrder spec w =
     (case findWKBenchRoot sys caller w of
        Inl err \<Rightarrow> (Some err, w)
      | Inr rootDir \<Rightarrow>
          (let spec = fill_spec uc rootDir spec; files = plugin_files (pt_CommandName spec)
           in case check_absent sys (pt_Dir spec) (checkOrder files) w of
             Some err \<Rightarrow> (Some err, w)
           | None \<Rightarrow> write_files sys True (\<lambda>name. render name spec) plugin_mode (pt_Dir spec) (writeOrder files) w))"

section \<open>The unit contract\<close>

text \<open>
  The messages given to \<open>Fatalf\<close>. A \<open>TB\<close> may return from it, so the assertions after a failed group still run.
\<close>

definition hasVersionSuffix_trimmed :: "string \<Rightarrow> bool" where
  "hasVersionSuffix_trimmed kind = (let kind = TrimSpace kind in kind \<noteq> [] \<and> hasVersionSuffix kind)"

fun assertPorts :: "string \<Rightarrow> string \<Rightarrow> string list \<Rightarrow> PortDef list \<Rightarrow> goerr list" where
  "assertPorts kind label seen [] = []"
| "assertPorts kind label seen (port # ports) =
     (let name = TrimSpace (pd_Name port)
      in if name = [] then [Errorf ''unit %q %s port name is required'' [ArgS kind, ArgS label]]
         else if name \<in> set seen then [Errorf ''unit %q duplicate %s port %q'' [ArgS kind, ArgS label, ArgS name]]
         else if TrimSpace (pd_Type port) = [] then [Errorf ''unit %q %s port %q type is required'' [ArgS kind, ArgS label, ArgS name]]
         else assertPorts kind label (name # seen) ports)"

fun assertMetrics :: "string \<Rightarrow> string list \<Rightarrow> MetricDef list \<Rightarrow> goerr list" where
  "assertMetrics kind seen [] = []"
| "assertMetrics kind seen (metric # metrics) =
     (let name = TrimSpace (md_Name metric)
      in if name = [] then [Errorf ''unit %q metric name is required'' [ArgS kind]]
         else if name \<in> set seen then [Errorf ''unit %q duplicate metric %q'' [ArgS kind, ArgS name]]
         else if TrimSpace (md_Type metric) = [] then [Errorf ''unit %q metric %q type is required'' [ArgS kind, ArgS name]]
         else assertMetrics kind (name # seen) metrics)"

fun assertArtifacts :: "string \<Rightarrow> string list \<Rightarrow> ArtifactDef list \<Rightarrow> goerr list" where
  "assertArtifacts kind seen [] = []"
| "assertArtifacts kind seen (artifact # artifacts) =
     (let rawName = ad_Name artifact; name = TrimSpace rawName
      in if name = [] then [Errorf ''unit %q artifact name is required'' [ArgS kind]]
         else if name = ''.'' \<or> containsWhitespace rawName \<or> Contains rawName ''..'' \<or> ContainsAny rawName [CHR ''/'', CHR 0x5C]
         then [Errorf ''unit %q artifact %q must be a simple relative file name'' [ArgS kind, ArgS rawName]]
         else if name \<in> set seen then [Errorf ''unit %q duplicate artifact %q'' [ArgS kind, ArgS name]]
         else assertArtifacts kind (name # seen) artifacts)"

definition AssertUnitContract :: "UnitDef option \<Rightarrow> goerr list" where
  "AssertUnitContract unit =
     (case unit of
        None \<Rightarrow> [Errorf ''unit must not be nil'' []]
      | Some def \<Rightarrow>
          if \<not> hasVersionSuffix_trimmed (ud_Kind def) then [Errorf ''unit kind must end with /vN, got %q'' [ArgS (ud_Kind def)]]
          else if TrimSpace (ud_Title def) = [] then [Errorf ''unit %q title is required'' [ArgS (ud_Kind def)]]
          else if TrimSpace (ud_Description def) = [] then [Errorf ''unit %q description is required'' [ArgS (ud_Kind def)]]
          else assertPorts (ud_Kind def) ''input'' [] (ud_Inputs def) @ assertPorts (ud_Kind def) ''output'' [] (ud_Outputs def) @
            assertMetrics (ud_Kind def) [] (ud_Metrics def) @ assertArtifacts (ud_Kind def) [] (ud_Artifacts def))"

text \<open>\<open>report\<close> is what \<open>ReportOutput\<close> of a value returns, if it has that method.\<close>

fun declared_outputs :: "(string \<Rightarrow> 'v option) \<Rightarrow> ('v \<Rightarrow> 'r option) \<Rightarrow> ('r \<Rightarrow> string result) \<Rightarrow> PortDef list \<Rightarrow> goerr list" where
  "declared_outputs outputs report marshal [] = []"
| "declared_outputs outputs report marshal (port # ports) =
     (case outputs (pd_Name port) of
        None \<Rightarrow> [Errorf ''declared output %q was not produced'' [ArgS (pd_Name port)]]
      | Some value \<Rightarrow>
          (case (case report value of None \<Rightarrow> None | Some r \<Rightarrow> (case marshal r of Inl err \<Rightarrow> Some err | Inr _ \<Rightarrow> None)) of
             Some err \<Rightarrow> [Errorf ''declared output %q report value is not JSON-friendly: %v'' [ArgS (pd_Name port), ArgE err]]
           | None \<Rightarrow> declared_outputs outputs report marshal ports))"

definition AssertDeclaredOutputs :: "UnitDef option \<Rightarrow> (string \<Rightarrow> 'v option) option \<Rightarrow> ('v \<Rightarrow> 'r option) \<Rightarrow> ('r \<Rightarrow> string result) \<Rightarrow> goerr list" where
  "AssertDeclaredOutputs unit outputs report marshal =
     (case unit of
        None \<Rightarrow> [Errorf ''unit must not be nil'' []]
      | Some def \<Rightarrow>
          (case outputs of
             None \<Rightarrow> [Errorf ''output reader must not be nil'' []]
           | Some outs \<Rightarrow> declared_outputs outs report marshal (ud_Outputs def)))"

end
