(* ===== verification/Group_Send.thy ===== *)
theory Group_Send
  imports Traffic_Common
begin

text \<open>
  \<open>traffic.group_send/v1\<close> (\<open>units/traffic/group_send/unit.go\<close>), which sends its messages one after the
  other, and the fake senders of \<open>units/core\<close>. The group clients are a state \<open>'c\<close> that a request
  moves on (\<open>send\<close>), so that a run is a function.
\<close>

section \<open>The unit\<close>

definition group_pickSender :: "GroupChannel \<Rightarrow> string \<Rightarrow> int \<Rightarrow> string result" where
  "group_pickSender channel mode msgIndex =
     (if mode = senderPickRoundRobin
      then slice_At (gc_Members channel) (msgIndex mod int (length (gc_Members channel)))
      else slice_At (gc_Members channel) 0)"

type_synonym 'c group_client = "GroupSendRequest \<Rightarrow> 'c \<Rightarrow> SendAck result \<times> 'c"

text \<open>\<open>sendOne\<close>: the outer \<open>Inl\<close> is a panic, the inner one the error of the send.\<close>

definition group_sendOne :: "SendSpec \<Rightarrow> int \<Rightarrow> GroupSetData \<Rightarrow> (string \<Rightarrow> bool) \<Rightarrow> 'c group_client \<Rightarrow> int \<Rightarrow>
    unit_value TestRunEnv \<times> 'c \<Rightarrow> (SendAck result \<times> unit_value TestRunEnv \<times> 'c) result" where
  "group_sendOne spec ackTimeout channels client send msgIndex = (\<lambda>(env, c).
     (case groups_At channels (msgIndex mod groups_Count channels) of
        Inl p \<Rightarrow> Inl p
      | Inr channel \<Rightarrow>
          if gc_Members channel = []
          then Inr (Inl (Errorf ''group_send: channel %q has no online members'' [ArgS (gc_ChannelID channel)]), env, c)
          else (case group_pickSender channel (sp_SenderPick spec) msgIndex of
                  Inl p \<Rightarrow> Inl p
                | Inr senderUID \<Rightarrow>
                    if \<not> client senderUID
                    then Inr (Inl (Errorf ''group_send: missing sender client %q'' [ArgS senderUID]), env, c)
                    else (case te_NextID ''msg'' env of
                            (msgNo, env') \<Rightarrow>
                              (case send \<lparr>gq_ChannelID = gc_ChannelID channel, gq_SenderUID = senderUID,
                                      gq_ClientMsgNo = msgNo, gq_Payload = gen_payload (sp_PayloadSize spec),
                                      gq_Timeout = ackTimeout\<rparr> c of
                                 (answer, c') \<Rightarrow> Inr (answer, env', c'))))))"

fun group_loop :: "(int \<Rightarrow> unit_value TestRunEnv \<times> 'c \<Rightarrow> (SendAck result \<times> unit_value TestRunEnv \<times> 'c) result) \<Rightarrow>
    nat \<Rightarrow> int \<Rightarrow> unit_value TestRunEnv \<Rightarrow> Summary \<Rightarrow> 'c \<Rightarrow> (unit_value TestRunEnv \<times> Summary \<times> 'c) result" where
  "group_loop one 0 idx env summary c = Inr (env, summary, c)"
| "group_loop one (Suc n) idx env summary c =
     (case one idx (te_EmitCounter ''send_attempt_total'' 1 fmempty env, c) of
        Inl p \<Rightarrow> Inl p
      | Inr (answer, env', c') \<Rightarrow>
          (case (case answer of
                   Inl _ \<Rightarrow> count_error (env', summary)
                 | Inr ack \<Rightarrow> count_success ack (sk_WireLatency ack) (env', summary)) of
             (env'', summary') \<Rightarrow> group_loop one n (idx + 1) env'' summary' c'))"

text \<open>\<open>Run\<close>; \<open>elapsed\<close> is the time the loop took.\<close>

definition group_send_Run :: "(float64 \<Rightarrow> int) \<Rightarrow> (unit_value \<Rightarrow> string result) \<Rightarrow>
    (unit_value, GroupSetData) typed \<Rightarrow> (unit_value, string \<Rightarrow> bool) typed \<Rightarrow> (SendSpec \<Rightarrow> SendSpec result) \<Rightarrow>
    'c group_client \<Rightarrow> int \<Rightarrow> unit_value TestRunEnv \<times> 'c \<Rightarrow> goerr option \<times> unit_value TestRunEnv \<times> 'c" where
  "group_send_Run oor Marshal tg ts decode send elapsed = (\<lambda>(env, c).
     (case traffic_decodeSpec decode of
        Inl err \<Rightarrow> (Some err, env, c)
      | Inr spec \<Rightarrow>
          (case Input_typed Marshal tg ''channels'' env of
             Inl err \<Rightarrow> (Some err, env, c)
           | Inr channels \<Rightarrow>
               (case Input_typed Marshal ts ''sender'' env of
                  Inl err \<Rightarrow> (Some err, env, c)
                | Inr sender \<Rightarrow>
                    if groups_Count channels \<le> 0
                    then (Some (Errorf ''group_send: channels input is empty'' []), env, c)
                    else (case group_loop (group_sendOne spec (effectiveAckTimeout spec) channels sender send)
                              (nat (totalMessages oor (sp_Rate spec) (te_runDuration env))) 0 env zero_Summary c of
                            Inl p \<Rightarrow> (Some p, env, c)
                          | Inr (env', summary, c') \<Rightarrow>
                              (None, te_SetOutput ''summary''
                                 (SummaryV (summary\<lparr>sm_ElapsedMS := elapsedMilliseconds elapsed\<rparr>)) env', c'))))))"

section \<open>Fake senders\<close>

text \<open>
  \<open>core.fake_message_sender/v1\<close> and \<open>core.fake_group_sender/v1\<close>: the state is the id of the last
  acknowledged message.
\<close>

definition fake_message_Definition :: UnitDef where
  "fake_message_Definition =
     \<lparr>ud_Kind = ''core.fake_message_sender/v1'', ud_Title = ''Fake message sender'',
      ud_Description = ''Produces a deterministic in-memory sender that accepts every protocol send.'',
      ud_Inputs = [], ud_Outputs = [plain_port ''sender'' MessageSenderV1], ud_Metrics = [], ud_Artifacts = []\<rparr>"

definition fake_MessageClient :: "string \<Rightarrow> bool" where
  "fake_MessageClient uid = (uid \<noteq> [])"

definition fake_message_Run :: "unit_value TestRunEnv \<Rightarrow> goerr option \<times> unit_value TestRunEnv" where
  "fake_message_Run env = (None, te_SetOutput ''sender'' (MessageSenderV fake_MessageClient) env)"

definition fake_SendAndWaitAck :: "SendRequest \<Rightarrow> int \<Rightarrow> SendAck result \<times> int" where
  "fake_SendAndWaitAck req seen =
     (if sr_ChannelID req = [] \<or> sr_ChannelType req = 0 \<or> sr_SenderUID req = [] \<or> sr_ClientMsgNo req = []
      then (Inl (Errorf ''fake message sender: channel_id, channel_type, sender_uid, and client_msg_no are required'' []), seen)
      else (let i = wrap64 (seen + 1)
            in (Inr \<lparr>sk_MessageID = i, sk_MessageSeq = word_of_int i, sk_WireLatency = 0\<rparr>, i)))"

definition fake_group_Definition :: UnitDef where
  "fake_group_Definition =
     \<lparr>ud_Kind = ''core.fake_group_sender/v1'', ud_Title = ''Fake group sender'',
      ud_Description = ''Produces a deterministic in-memory sender that accepts every group send.'',
      ud_Inputs = [], ud_Outputs = [plain_port ''sender'' GroupSenderV1], ud_Metrics = [], ud_Artifacts = []\<rparr>"

definition fake_Client :: "string \<Rightarrow> bool" where
  "fake_Client uid = (uid \<noteq> [])"

definition fake_group_Run :: "unit_value TestRunEnv \<Rightarrow> goerr option \<times> unit_value TestRunEnv" where
  "fake_group_Run env = (None, te_SetOutput ''sender'' (GroupSenderV fake_Client) env)"

definition fake_SendGroupAndWaitAck :: "GroupSendRequest \<Rightarrow> int \<Rightarrow> SendAck result \<times> int" where
  "fake_SendGroupAndWaitAck req seen =
     (if gq_ChannelID req = [] \<or> gq_SenderUID req = [] \<or> gq_ClientMsgNo req = []
      then (Inl (Errorf ''fake group sender: channel_id, sender_uid, and client_msg_no are required'' []), seen)
      else (let i = wrap64 (seen + 1)
            in (Inr \<lparr>sk_MessageID = i, sk_MessageSeq = word_of_int i, sk_WireLatency = 0\<rparr>, i)))"

section \<open>The loop\<close>

lemma group_sendOne_no_panic:
  assumes "0 < groups_Count channels" and "0 \<le> i"
  shows "\<exists>r. group_sendOne spec t channels client send i (env, c) = Inr r"
proof -
  have ne: "gs_Items channels \<noteq> []" using assms(1) by (auto simp: groups_Count_def)
  obtain ch where ch: "groups_At channels (i mod groups_Count channels) = Inr ch"
    using slice_At_mod [OF ne assms(2)] by (simp add: groups_At_def groups_Count_def)
  show ?thesis
  proof (cases "gc_Members ch = []")
    case False
    then obtain u where "group_pickSender ch (sp_SenderPick spec) i = Inr u"
      using slice_At_mod [OF False assms(2)] slice_At_0 [OF False]
      by (cases "sp_SenderPick spec = senderPickRoundRobin") (auto simp: group_pickSender_def)
    with ch show ?thesis by (simp add: group_sendOne_def split: prod.splits)
  qed (simp add: group_sendOne_def ch)
qed

lemma group_sendOne_series:
  "group_sendOne spec t channels client send i (env, c) = Inr (answer, env', c') \<Longrightarrow> series n env' = series n env"
proof -
  assume "group_sendOne spec t channels client send i (env, c) = Inr (answer, env', c')"
  then have "env' = env \<or> env' = snd (te_NextID ''msg'' env)"
    by (auto simp: group_sendOne_def split: sum.splits prod.splits if_splits)
  then show ?thesis by auto
qed

lemma group_loop_counts:
  assumes "0 < groups_Count channels"
  shows "0 \<le> i \<Longrightarrow> counted env0 ok errs (env, sm) \<Longrightarrow> \<exists>env' sm' c' k.
    group_loop (group_sendOne spec t channels client send) n i env sm c = Inr (env', sm', c') \<and> k \<le> n \<and>
    counted env0 (ok + k) (errs + (n - k)) (env', sm') \<and>
    series ''send_attempt_total'' env' = series ''send_attempt_total'' env + int n"
proof (induction n arbitrary: i env sm c ok errs)
  case 0
  then show ?case by (intro exI [of _ env] exI [of _ sm] exI [of _ c] exI [of _ 0]) simp
next
  case (Suc n)
  let ?e = "te_EmitCounter ''send_attempt_total'' 1 fmempty env"
  obtain answer e1 c1 where one: "group_sendOne spec t channels client send i (?e, c) = Inr (answer, e1, c1)"
    using group_sendOne_no_panic [OF assms Suc.prems(1)] by (metis prod_cases3)
  have s1: "series m e1 = (if m = ''send_attempt_total'' then series m env + 1 else series m env)" for m
    using group_sendOne_series [OF one] by (simp add: series_emits)
  have c1: "counted env0 ok errs (e1, sm)"
    by (rule counted_env_cong [OF Suc.prems(2)]) (simp add: s1)
  have i1: "0 \<le> i + 1" using Suc.prems(1) by simp
  show ?case
  proof (cases answer)
    case (Inl e)
    obtain e2 sm2 where two: "count_error (e1, sm) = (e2, sm2)" by force
    then have a2: "series ''send_attempt_total'' e2 = series ''send_attempt_total'' env + 1"
      by (auto simp: count_error_def series_emits s1)
    from Suc.IH [OF i1 counted_error [OF c1, unfolded two], of c1] obtain env' sm' c' k where
      "group_loop (group_sendOne spec t channels client send) n (i + 1) e2 sm2 c1 = Inr (env', sm', c')" "k \<le> n"
      "counted env0 (ok + k) (Suc errs + (n - k)) (env', sm')"
      "series ''send_attempt_total'' env' = series ''send_attempt_total'' e2 + int n" by blast
    with one two Inl a2 show ?thesis
      by (intro exI [of _ env'] exI [of _ sm'] exI [of _ c'] exI [of _ k]) (simp add: Suc_diff_le)
  next
    case (Inr ack)
    obtain e2 sm2 where two: "count_success ack (sk_WireLatency ack) (e1, sm) = (e2, sm2)" by force
    then have a2: "series ''send_attempt_total'' e2 = series ''send_attempt_total'' env + 1"
      by (auto simp: count_success_def series_emits s1)
    from Suc.IH [OF i1 counted_success [OF c1, of ack "sk_WireLatency ack", unfolded two], of c1] obtain env' sm' c' k where
      "group_loop (group_sendOne spec t channels client send) n (i + 1) e2 sm2 c1 = Inr (env', sm', c')" "k \<le> n"
      "counted env0 (Suc ok + k) (errs + (n - k)) (env', sm')"
      "series ''send_attempt_total'' env' = series ''send_attempt_total'' e2 + int n" by blast
    with one two Inr a2 show ?thesis
      by (intro exI [of _ env'] exI [of _ sm'] exI [of _ c'] exI [of _ "Suc k"]) simp
  qed
qed

lemma group_send_Run_loop:
  assumes "traffic_decodeSpec decode = Inr spec" and "Input_typed M tg ''channels'' env = Inr channels"
    and "Input_typed M ts ''sender'' env = Inr sender" and "0 < groups_Count channels"
    and "group_loop (group_sendOne spec (effectiveAckTimeout spec) channels sender send)
      (nat (totalMessages oor (sp_Rate spec) (te_runDuration env))) 0 env zero_Summary c = Inr (env', sm, c')"
  shows "group_send_Run oor M tg ts decode send elapsed (env, c) =
    (None, te_SetOutput ''summary'' (SummaryV (sm\<lparr>sm_ElapsedMS := elapsedMilliseconds elapsed\<rparr>)) env', c')"
  using assms by (simp add: group_send_Run_def)

text \<open>
  Group traffic counts every message. Whatever the group clients answer, a group send unit with its inputs present runs through all
  messages that rate and duration ask for without an error or a panic, and its summary and its metrics count each of them once, as
  acknowledged or as failed.
\<close>

theorem group_send_counts:
  assumes "traffic_decodeSpec decode = Inr spec" and "Input_typed M tg ''channels'' env = Inr channels"
    and "Input_typed M ts ''sender'' env = Inr sender" and "0 < groups_Count channels"
    and "totalMessages oor (sp_Rate spec) (te_runDuration env) < 2 ^ 63"
  shows "\<exists>env' sm c'. group_send_Run oor M tg ts decode send elapsed (env, c) = (None, env', c') \<and>
    te_Output ''summary'' env' = Some (SummaryV sm) \<and>
    int (unat (sm_SendackOK sm)) + int (unat (sm_SendackErrors sm)) = totalMessages oor (sp_Rate spec) (te_runDuration env) \<and>
    series ''send_attempt_total'' env' = series ''send_attempt_total'' env + totalMessages oor (sp_Rate spec) (te_runDuration env) \<and>
    series ''sendack_success_total'' env' = series ''sendack_success_total'' env + int (unat (sm_SendackOK sm)) \<and>
    series ''sendack_error_total'' env' = series ''sendack_error_total'' env + int (unat (sm_SendackErrors sm))"
proof -
  let ?n = "nat (totalMessages oor (sp_Rate spec) (te_runDuration env))"
  have n: "int ?n = totalMessages oor (sp_Rate spec) (te_runDuration env)"
    using totalMessages_pos [of oor "sp_Rate spec" "te_runDuration env"] by simp
  obtain env1 sm c' k where l: "group_loop (group_sendOne spec (effectiveAckTimeout spec) channels sender send)
      ?n 0 env zero_Summary c = Inr (env1, sm, c')" and k: "k \<le> ?n"
    and cnt: "counted env (0 + k) (0 + (?n - k)) (env1, sm)"
    and att: "series ''send_attempt_total'' env1 = series ''send_attempt_total'' env + int ?n"
    using group_loop_counts [OF assms(4) order_refl counted_zero [of env], where spec = spec
        and t = "effectiveAckTimeout spec" and client = sender and send = send and n = ?n and c = c]
    by (elim exE conjE)
  have "int (k + (?n - k)) < 2 ^ 63" using k n assms(5) by simp
  from unat_sum_small [OF this] have u: "unat (of_nat k :: 64 word) = k" "unat (of_nat (?n - k) :: 64 word) = ?n - k"
    by simp_all
  have "int k + int (?n - k) = totalMessages oor (sp_Rate spec) (te_runDuration env)" using k n by simp
  then show ?thesis unfolding group_send_Run_loop [OF assms(1-4) l]
    using cnt att n u
    by (intro exI [of _ "te_SetOutput ''summary'' (SummaryV (sm\<lparr>sm_ElapsedMS := elapsedMilliseconds elapsed\<rparr>)) env1"]
        exI [of _ "sm\<lparr>sm_ElapsedMS := elapsedMilliseconds elapsed\<rparr>"] exI [of _ c'])
      (simp add: tenv_out.get_put counted_def)
qed

section \<open>Round robin\<close>

text \<open>
  The member that sends a message is picked by the index of the message in the whole run, not within its channel. With
  as many members per channel as there are channels, all messages of a channel come from one member.
\<close>

lemma group_round_robin_stuck:
  assumes "groups_Count channels = int n" and "0 < n" and "length (gc_Members ch) = n"
    and "i mod groups_Count channels = int k" and "k < n" and "0 \<le> i"
  shows "group_pickSender ch senderPickRoundRobin i = Inr (gc_Members ch ! k)"
proof -
  have ne: "gc_Members ch \<noteq> []" using assms(2,3) by auto
  have "nat (i mod int n) = nat i mod n" using assms(6) by (simp add: nat_mod_distrib)
  then have "nat i mod n = k" using assms(1,4) by simp
  then show ?thesis using slice_At_mod [OF ne assms(6)] assms(3)
    by (simp add: group_pickSender_def)
qed

section \<open>With the fake sender\<close>

definition usable_groups :: "GroupSetData \<Rightarrow> bool" where
  "usable_groups channels \<longleftrightarrow> 0 < groups_Count channels \<and>
     list_all (\<lambda>g. gc_ChannelID g \<noteq> [] \<and> gc_Members g \<noteq> [] \<and> list_all (\<lambda>u. u \<noteq> []) (gc_Members g)) (gs_Items channels)"

lemma group_block_names:
  "gc_ChannelID (group_block spec c) \<noteq> []"
  "u \<in> set (gc_Members (group_block spec c)) \<Longrightarrow> u \<noteq> []"
  "0 < sg_MembersPerChannel spec \<Longrightarrow> gc_Members (group_block spec c) \<noteq> []"
proof -
  show "gc_Members (group_block spec c) \<noteq> []" if "0 < sg_MembersPerChannel spec"
    using that group_block_members(1) [of spec c] by (intro notI) simp
qed (auto simp: group_block_def Let_def)

lemma static_groups_usable:
  "0 < sg_Count spec \<Longrightarrow> 0 < sg_MembersPerChannel spec \<Longrightarrow>
   usable_groups \<lparr>gs_Items = channel_loop spec (nat (sg_Count spec)) 0 0 []\<rparr>"
  using channel_loop_blocks [of spec "nat (sg_Count spec)" 0 "[]"] group_block_names
  by (auto simp: usable_groups_def groups_Count_def list_all_iff)

lemma fake_group_sendOne:
  assumes "usable_groups channels" and "0 \<le> i"
  shows "group_sendOne spec t channels fake_Client fake_SendGroupAndWaitAck i (env, c) =
    Inr (Inr \<lparr>sk_MessageID = wrap64 (c + 1), sk_MessageSeq = word_of_int (wrap64 (c + 1)), sk_WireLatency = 0\<rparr>,
      snd (te_NextID ''msg'' env), wrap64 (c + 1))"
proof -
  have ne: "gs_Items channels \<noteq> []" using assms(1) by (auto simp: usable_groups_def groups_Count_def)
  obtain ch where at: "groups_At channels (i mod groups_Count channels) = Inr ch" and ch: "ch \<in> set (gs_Items channels)"
    using slice_At_mod [OF ne assms(2)] ne by (auto simp: groups_At_def groups_Count_def)
  have m: "gc_Members ch \<noteq> []" "gc_ChannelID ch \<noteq> []" "\<And>u. u \<in> set (gc_Members ch) \<Longrightarrow> u \<noteq> []"
    using assms(1) ch by (auto simp: usable_groups_def list_all_iff)
  obtain u where u: "group_pickSender ch (sp_SenderPick spec) i = Inr u" and "u \<in> set (gc_Members ch)"
    using slice_At_mod [OF m(1) assms(2)] slice_At_0 [OF m(1)] m(1)
    by (cases "sp_SenderPick spec = senderPickRoundRobin") (auto simp: group_pickSender_def)
  with m have "u \<noteq> []" by blast
  moreover obtain msgNo env' where n: "te_NextID ''msg'' env = (msgNo, env')" by force
  moreover from n have "msgNo \<noteq> []" by (auto simp: te_NextID_def Let_def)
  ultimately show ?thesis using at u m
    by (simp add: group_sendOne_def fake_Client_def fake_SendGroupAndWaitAck_def Let_def)
qed

lemma fake_group_loop:
  assumes "usable_groups channels"
  shows "0 \<le> i \<Longrightarrow> 0 \<le> c \<Longrightarrow> c + int n < 2 ^ 63 \<Longrightarrow> counted env0 ok 0 (env, sm) \<Longrightarrow>
    sm_LastMessageID sm = c \<Longrightarrow> \<exists>env' sm'.
    group_loop (group_sendOne spec t channels fake_Client fake_SendGroupAndWaitAck) n i env sm c = Inr (env', sm', c + int n) \<and>
    counted env0 (ok + n) 0 (env', sm') \<and> sm_LastMessageID sm' = c + int n"
proof (induction n arbitrary: i env sm c ok)
  case (Suc n)
  let ?e = "snd (te_NextID ''msg'' (te_EmitCounter ''send_attempt_total'' 1 fmempty env))"
  have w: "wrap64 (c + 1) = c + 1" using Suc.prems by (intro wrap64_id) simp_all
  let ?ack = "\<lparr>sk_MessageID = c + 1, sk_MessageSeq = word_of_int (c + 1), sk_WireLatency = 0\<rparr>"
  obtain e2 sm2 where two: "count_success ?ack 0 (?e, sm) = (e2, sm2)" by force
  have "counted env0 ok 0 (?e, sm)"
    by (rule counted_env_cong [OF Suc.prems(4)]) (simp add: series_emits)
  from counted_success [OF this, of ?ack 0, unfolded two]
  have c2: "counted env0 (Suc ok) 0 (e2, sm2)" .
  have l2: "sm_LastMessageID sm2 = c + 1" using two by (auto simp: count_success_def)
  from Suc.IH [of "i + 1" "c + 1", OF _ _ _ c2 l2] Suc.prems obtain env' sm' where
    "group_loop (group_sendOne spec t channels fake_Client fake_SendGroupAndWaitAck) n (i + 1) e2 sm2 (c + 1) =
      Inr (env', sm', c + 1 + int n)" "counted env0 (Suc ok + n) 0 (env', sm')" "sm_LastMessageID sm' = c + 1 + int n"
    by auto
  then show ?case using two
    by (intro exI [of _ env'] exI [of _ sm']) (simp add: fake_group_sendOne [OF assms Suc.prems(1)] w)
qed simp

end
