(* ===== verification/Traffic_Send.thy ===== *)
theory Traffic_Send
  imports Traffic_Common
begin

text \<open>
  \<open>traffic.send/v1\<close> (\<open>units/traffic/send/unit.go\<close>): a paced loop that keeps at most \<open>max_in_flight\<close> sends
  waiting for their acknowledgement, each in a goroutine of its own that puts its result into the buffered
  channel \<open>results\<close>. The unit is a transition system. \<open>send_work\<close> is what the unit itself does: the steps of the
  main loop and of the goroutines. \<open>send_env\<close> is what happens to it: time passes, the context ends. The answer of the
  message client to a request is any acknowledgement or error. What the loop does in one go is a function
  (\<open>loop_head\<close>, \<open>launch\<close>, \<open>receive\<close>); \<open>send_pc\<close> says where it blocks.
\<close>

section \<open>State\<close>

record send_cfg =
  cf_oor :: "float64 \<Rightarrow> int"
  cf_spec :: SendSpec
  cf_ackTimeout :: int
  cf_targets :: SendTargetSetData
  cf_client :: "string \<Rightarrow> bool"
  cf_messageCount :: int
  cf_maxInFlight :: int
  cf_start :: int

text \<open>
  A goroutine: started for a message, waiting for the answer to its request since a time, or holding its
  result until the channel takes it.
\<close>

datatype send_worker =
    Spawned int
  | Sending int SendRequest int
  | Delivering int sendResult

datatype send_pc =
    AtLoop
  | Sleeping int
  | SelectDue int
  | SelectResult
  | Returned "goerr option"
  | Crashed goerr

record send_state =
  sd_pc :: send_pc
  sd_launched :: int
  sd_completed :: int
  sd_inFlight :: int
  sd_workers :: "send_worker list"
  sd_results :: "(int \<times> sendResult) list"
  sd_summary :: Summary
  sd_env :: "unit_value TestRunEnv"
  sd_now :: int
  sd_ctxErr :: "goerr option"

section \<open>Functions\<close>

text \<open>\<open>time.Duration(float64(time.Second) * float64(msgIndex) / rate.PerSecond)\<close> after the start.\<close>

definition scheduledStart :: "(float64 \<Rightarrow> int) \<Rightarrow> int \<Rightarrow> Rate \<Rightarrow> int \<Rightarrow> int" where
  "scheduledStart oor start rate msgIndex =
     (if rt_PerSecond rate \<le> 0 then start
      else start + int64_of_float oor (Fin 1000000000 * float_of_int msgIndex div rt_PerSecond rate))"

definition pickSender :: "SendTarget \<Rightarrow> string \<Rightarrow> int \<Rightarrow> string result" where
  "pickSender target mode msgIndex =
     (if mode = senderPickRoundRobin
      then slice_At (st_SenderUIDs target) (msgIndex mod int (length (st_SenderUIDs target)))
      else slice_At (st_SenderUIDs target) 0)"

definition terminalContextError :: "goerr option \<Rightarrow> goerr option \<Rightarrow> goerr option" where
  "terminalContextError ctxErr err =
     (case err of
        None \<Rightarrow> None
      | Some e \<Rightarrow> (case ctxErr of None \<Rightarrow> None | Some c \<Rightarrow> if errors_Is e c then Some c else None))"

text \<open>
  \<open>sendOne\<close> up to the call of the client: a panic, a failure without a request, or the request, with the environment
  after \<open>NextID\<close>.
\<close>

definition sendOne_begin :: "send_cfg \<Rightarrow> int \<Rightarrow> unit_value TestRunEnv \<Rightarrow>
    ((goerr + SendRequest) \<times> unit_value TestRunEnv) result" where
  "sendOne_begin cf msgIndex env =
     (let targetCount = targets_Count (cf_targets cf);
          targetIndex = msgIndex mod targetCount;
          targetSendIndex = msgIndex div targetCount
      in case targets_At (cf_targets cf) targetIndex of
           Inl p \<Rightarrow> Inl p
         | Inr target \<Rightarrow>
             if st_SenderUIDs target = []
             then Inr (Inl (Errorf ''send: target %q has no online senders'' [ArgS (st_ChannelID target)]), env)
             else (case pickSender target (sp_SenderPick (cf_spec cf)) targetSendIndex of
                     Inl p \<Rightarrow> Inl p
                   | Inr senderUID \<Rightarrow>
                       if \<not> cf_client cf senderUID
                       then Inr (Inl (Errorf ''send: missing sender client %q'' [ArgS senderUID]), env)
                       else (case te_NextID ''msg'' env of
                               (msgNo, env') \<Rightarrow>
                                 Inr (Inr \<lparr>sr_ChannelID = st_ChannelID target, sr_ChannelType = st_ChannelType target,
                                           sr_SenderUID = senderUID, sr_ClientMsgNo = msgNo,
                                           sr_Payload = gen_payload (sp_PayloadSize (cf_spec cf)),
                                           sr_Timeout = cf_ackTimeout cf\<rparr>, env'))))"

text \<open>The result of a send that the client answered after \<open>latency\<close>.\<close>

definition sendOne_end :: "SendAck result \<Rightarrow> int \<Rightarrow> sendResult" where
  "sendOne_end answer latency =
     (case answer of
        Inl err \<Rightarrow> failed err
      | Inr ack \<Rightarrow> \<lparr>re_ack = ack, re_latency = latency, re_err = None\<rparr>)"

definition launch :: "send_state \<Rightarrow> send_state" where
  "launch s =
     s\<lparr>sd_launched := sd_launched s + 1, sd_inFlight := sd_inFlight s + 1,
       sd_env := te_EmitCounter ''send_attempt_total'' 1 fmempty (sd_env s),
       sd_workers := sd_workers s @ [Spawned (sd_launched s)], sd_pc := AtLoop\<rparr>"

definition finish :: "send_cfg \<Rightarrow> send_state \<Rightarrow> send_state" where
  "finish cf s =
     (let summary = (sd_summary s)\<lparr>sm_ElapsedMS := elapsedMilliseconds (sd_now s - cf_start cf)\<rparr>
      in s\<lparr>sd_summary := summary, sd_env := te_SetOutput ''summary'' (SummaryV summary) (sd_env s),
           sd_pc := Returned None\<rparr>)"

definition due_next :: "send_cfg \<Rightarrow> send_state \<Rightarrow> int" where
  "due_next cf s = scheduledStart (cf_oor cf) (cf_start cf) (sp_Rate (cf_spec cf)) (sd_launched s)"

text \<open>From the head of the loop to the next place where it blocks, the next launch, or the end.\<close>

definition loop_head :: "send_cfg \<Rightarrow> send_state \<Rightarrow> send_state" where
  "loop_head cf s =
     (if sd_completed s < cf_messageCount cf then
        if sd_launched s < cf_messageCount cf \<and> sd_inFlight s < cf_maxInFlight cf then
          let due = due_next cf s in
          if 0 < due - sd_now s then
            (if sd_inFlight s = 0 then s\<lparr>sd_pc := Sleeping due\<rparr> else s\<lparr>sd_pc := SelectDue due\<rparr>)
          else launch s
        else s\<lparr>sd_pc := SelectResult\<rparr>
      else finish cf s)"

definition take_result :: "sendResult \<Rightarrow> send_state \<Rightarrow> send_state" where
  "take_result result s =
     (case terminalContextError (sd_ctxErr s) (re_err result) of
        Some err \<Rightarrow> s\<lparr>sd_pc := Returned (Some err)\<rparr>
      | None \<Rightarrow>
          (case applyResult result (sd_env s, sd_summary s) of
             (env, summary) \<Rightarrow>
               s\<lparr>sd_env := env, sd_summary := summary, sd_completed := sd_completed s + 1,
                 sd_inFlight := sd_inFlight s - 1, sd_pc := AtLoop\<rparr>))"

definition receive :: "send_state \<Rightarrow> send_state" where
  "receive s =
     (case sd_results s of
        [] \<Rightarrow> s
      | (_, result) # rest \<Rightarrow> take_result result (s\<lparr>sd_results := rest\<rparr>))"

text \<open>\<open>Run\<close> up to the loop: the configuration and the state in which the loop starts.\<close>

definition send_Run :: "(float64 \<Rightarrow> int) \<Rightarrow> (unit_value \<Rightarrow> string result) \<Rightarrow>
    (unit_value, SendTargetSetData) typed \<Rightarrow> (unit_value, string \<Rightarrow> bool) typed \<Rightarrow>
    (SendSpec \<Rightarrow> SendSpec result) \<Rightarrow> int \<Rightarrow> goerr option \<Rightarrow> unit_value TestRunEnv \<Rightarrow> (send_cfg \<times> send_state) result" where
  "send_Run oor Marshal tt ts decode now ctxErr env =
     (case traffic_decodeSpec decode of
        Inl err \<Rightarrow> Inl err
      | Inr spec \<Rightarrow>
          (case Input_typed Marshal tt ''targets'' env of
             Inl err \<Rightarrow> Inl err
           | Inr targets \<Rightarrow>
               (case Input_typed Marshal ts ''sender'' env of
                  Inl err \<Rightarrow> Inl err
                | Inr sender \<Rightarrow>
                    if targets_Count targets \<le> 0 then Inl (Errorf ''send: targets input is empty'' [])
                    else Inr
                      (\<lparr>cf_oor = oor, cf_spec = spec, cf_ackTimeout = effectiveAckTimeout spec,
                        cf_targets = targets, cf_client = sender,
                        cf_messageCount = totalMessages oor (sp_Rate spec) (te_runDuration env),
                        cf_maxInFlight = (if sp_MaxInFlight spec \<le> 0 then 1 else sp_MaxInFlight spec),
                        cf_start = now\<rparr>,
                       \<lparr>sd_pc = AtLoop, sd_launched = 0, sd_completed = 0, sd_inFlight = 0,
                        sd_workers = [], sd_results = [], sd_summary = zero_Summary, sd_env = env,
                        sd_now = now, sd_ctxErr = ctxErr\<rparr>))))"

section \<open>Steps\<close>

inductive send_work :: "send_cfg \<Rightarrow> send_state \<Rightarrow> send_state \<Rightarrow> bool" for cf where
  head: "sd_pc s = AtLoop \<Longrightarrow> send_work cf s (loop_head cf s)"
| wake: "sd_pc s = Sleeping due \<Longrightarrow> due \<le> sd_now s \<Longrightarrow> send_work cf s (s\<lparr>sd_pc := AtLoop\<rparr>)"
| timer: "sd_pc s = SelectDue due \<Longrightarrow> due \<le> sd_now s \<Longrightarrow> send_work cf s (launch s)"
| recv_due: "sd_pc s = SelectDue due \<Longrightarrow> sd_results s \<noteq> [] \<Longrightarrow> send_work cf s (receive s)"
| recv: "sd_pc s = SelectResult \<Longrightarrow> sd_results s \<noteq> [] \<Longrightarrow> send_work cf s (receive s)"
| ctx_done: "sd_pc s = Sleeping due \<or> sd_pc s = SelectDue due \<or> sd_pc s = SelectResult \<Longrightarrow>
    sd_ctxErr s = Some e \<Longrightarrow> send_work cf s (s\<lparr>sd_pc := Returned (Some e)\<rparr>)"
| worker_request: "sd_workers s = ws @ Spawned i # vs \<Longrightarrow>
    sendOne_begin cf i (sd_env s) = Inr (Inr req, env) \<Longrightarrow>
    send_work cf s (s\<lparr>sd_workers := ws @ Sending i req (sd_now s) # vs, sd_env := env\<rparr>)"
| worker_failed: "sd_workers s = ws @ Spawned i # vs \<Longrightarrow>
    sendOne_begin cf i (sd_env s) = Inr (Inl e, env) \<Longrightarrow>
    send_work cf s (s\<lparr>sd_workers := ws @ Delivering i (failed e) # vs, sd_env := env\<rparr>)"
| worker_panic: "sd_workers s = ws @ Spawned i # vs \<Longrightarrow> sendOne_begin cf i (sd_env s) = Inl p \<Longrightarrow>
    send_work cf s (s\<lparr>sd_pc := Crashed p\<rparr>)"
| worker_answer: "sd_workers s = ws @ Sending i req t # vs \<Longrightarrow>
    send_work cf s (s\<lparr>sd_workers := ws @ Delivering i (sendOne_end answer (sd_now s - t)) # vs\<rparr>)"
| worker_deliver: "sd_workers s = ws @ Delivering i r # vs \<Longrightarrow>
    int (length (sd_results s)) < cf_maxInFlight cf \<Longrightarrow>
    send_work cf s (s\<lparr>sd_workers := ws @ vs, sd_results := sd_results s @ [(i, r)]\<rparr>)"
| worker_drop: "sd_workers s = ws @ Delivering i r # vs \<Longrightarrow> sd_ctxErr s \<noteq> None \<Longrightarrow>
    send_work cf s (s\<lparr>sd_workers := ws @ vs\<rparr>)"

inductive send_env :: "send_state \<Rightarrow> send_state \<Rightarrow> bool" where
  tick: "sd_now s \<le> t \<Longrightarrow> send_env s (s\<lparr>sd_now := t\<rparr>)"
| cancel: "sd_ctxErr s = None \<Longrightarrow> send_env s (s\<lparr>sd_ctxErr := Some e\<rparr>)"

text \<open>A crash of a goroutine takes the process with it: nothing follows.\<close>

inductive send_step :: "send_cfg \<Rightarrow> send_state \<Rightarrow> send_state \<Rightarrow> bool" for cf where
  work: "(\<nexists>p. sd_pc s = Crashed p) \<Longrightarrow> send_work cf s s' \<Longrightarrow> send_step cf s s'"
| env: "send_env s s' \<Longrightarrow> send_step cf s s'"

inductive send_reach :: "send_cfg \<Rightarrow> send_state \<Rightarrow> send_state \<Rightarrow> bool" for cf s0 where
  start: "send_reach cf s0 s0"
| step: "send_reach cf s0 s \<Longrightarrow> send_step cf s s' \<Longrightarrow> send_reach cf s0 s'"

section \<open>Invariants\<close>

definition cfg_ok :: "send_cfg \<Rightarrow> bool" where
  "cfg_ok cf \<longleftrightarrow> 0 < targets_Count (cf_targets cf) \<and> 1 \<le> cf_messageCount cf \<and> 1 \<le> cf_maxInFlight cf"

definition outstanding :: "send_state \<Rightarrow> int" where
  "outstanding s = int (length (sd_workers s)) + int (length (sd_results s))"

text \<open>
  The counters: every launched message is completed or in flight, the bound is kept, and while the context lives
  every message in flight is with a goroutine or in the channel.
\<close>

definition inv_num :: "send_cfg \<Rightarrow> send_state \<Rightarrow> bool" where
  "inv_num cf s \<longleftrightarrow>
     sd_launched s = sd_completed s + sd_inFlight s \<and> 0 \<le> sd_completed s \<and> 0 \<le> sd_inFlight s \<and>
     sd_launched s \<le> cf_messageCount cf \<and> sd_inFlight s \<le> cf_maxInFlight cf \<and>
     outstanding s \<le> sd_inFlight s \<and> (sd_ctxErr s = None \<longrightarrow> outstanding s = sd_inFlight s)"

definition may_launch :: "send_cfg \<Rightarrow> send_state \<Rightarrow> bool" where
  "may_launch cf s \<longleftrightarrow> sd_completed s < cf_messageCount cf \<and> sd_launched s < cf_messageCount cf \<and>
     sd_inFlight s < cf_maxInFlight cf"

text \<open>Where the main loop is, and what it knows there.\<close>

fun inv_pc :: "send_cfg \<Rightarrow> send_state \<Rightarrow> send_pc \<Rightarrow> bool" where
  "inv_pc cf s AtLoop = True"
| "inv_pc cf s (Sleeping due) = (may_launch cf s \<and> sd_inFlight s = 0 \<and> due = due_next cf s)"
| "inv_pc cf s (SelectDue due) = (may_launch cf s \<and> 0 < sd_inFlight s \<and> due = due_next cf s)"
| "inv_pc cf s SelectResult = (sd_completed s < cf_messageCount cf \<and> \<not> may_launch cf s)"
| "inv_pc cf s (Returned None) = (sd_completed s = cf_messageCount cf)"
| "inv_pc cf s (Returned (Some e)) = (sd_ctxErr s = Some e)"
| "inv_pc cf s (Crashed p) = False"

fun worker_index :: "send_worker \<Rightarrow> int" where
  "worker_index (Spawned i) = i"
| "worker_index (Sending i _ _) = i"
| "worker_index (Delivering i _) = i"

definition indices :: "send_state \<Rightarrow> int list" where
  "indices s = map worker_index (sd_workers s) @ map fst (sd_results s)"

text \<open>No message is handled by two goroutines.\<close>

definition inv_idx :: "send_state \<Rightarrow> bool" where
  "inv_idx s \<longleftrightarrow> distinct (indices s) \<and> set (indices s) \<subseteq> {0..<sd_launched s}"

text \<open>The summary and the metrics agree with the number of results taken and of messages launched.\<close>

definition inv_stat :: "unit_value TestRunEnv \<Rightarrow> send_state \<Rightarrow> bool" where
  "inv_stat env0 s \<longleftrightarrow>
     series ''send_attempt_total'' (sd_env s) = series ''send_attempt_total'' env0 + sd_launched s \<and>
     (\<exists>ok errs. sd_completed s = int (ok + errs) \<and> counted env0 ok errs (sd_env s, sd_summary s))"

lemma sendOne_begin_no_panic:
  assumes "cfg_ok cf" and "0 \<le> i"
  shows "sendOne_begin cf i env \<noteq> Inl p"
proof -
  have ne: "ss_Items (cf_targets cf) \<noteq> []" using assms(1) by (auto simp: cfg_ok_def targets_Count_def)
  have t': "\<exists>t. targets_At (cf_targets cf) (i mod targets_Count (cf_targets cf)) = Inr t"
    using slice_At_mod [OF ne assms(2)] by (simp add: targets_At_def targets_Count_def)
  have p: "\<exists>u. pickSender t mode (i div n) = Inr u" if "st_SenderUIDs t \<noteq> []" "0 \<le> n" for t mode n
    using that slice_At_mod [OF that(1), of "i div n"] assms(2)
    by (auto simp: pickSender_def slice_At_def div_int_pos_iff)
  obtain t where t: "targets_At (cf_targets cf) (i mod targets_Count (cf_targets cf)) = Inr t" using t' by blast
  show ?thesis
  proof (cases "st_SenderUIDs t = []")
    case False
    then obtain u where "pickSender t (sp_SenderPick (cf_spec cf)) (i div targets_Count (cf_targets cf)) = Inr u"
      using p [of t "targets_Count (cf_targets cf)" "sp_SenderPick (cf_spec cf)"] by (auto simp: targets_Count_def)
    with t show ?thesis by (simp add: sendOne_begin_def Let_def split: prod.splits)
  qed (simp add: sendOne_begin_def Let_def t)
qed

lemma inv_num_launch:
  "inv_num cf s \<Longrightarrow> may_launch cf s \<Longrightarrow> inv_num cf (launch s) \<and> inv_pc cf (launch s) (sd_pc (launch s))"
  by (auto simp: inv_num_def may_launch_def launch_def outstanding_def)

lemma inv_loop_head:
  assumes "inv_num cf s" and "sd_pc s = AtLoop"
  shows "inv_num cf (loop_head cf s) \<and> inv_pc cf (loop_head cf s) (sd_pc (loop_head cf s))"
proof -
  consider "\<not> sd_completed s < cf_messageCount cf" | "sd_completed s < cf_messageCount cf" "\<not> may_launch cf s"
    | "may_launch cf s" by (auto simp: may_launch_def)
  then show ?thesis
  proof cases
    case 1
    with assms(1) show ?thesis by (auto simp: loop_head_def finish_def Let_def inv_num_def outstanding_def)
  next
    case 2
    with assms(1) show ?thesis by (auto simp: loop_head_def may_launch_def inv_num_def outstanding_def)
  next
    case 3
    show ?thesis
    proof (cases "0 < due_next cf s - sd_now s")
      case True
      with 3 assms(1) show ?thesis
        by (auto simp: loop_head_def Let_def may_launch_def inv_num_def outstanding_def due_next_def)
    next
      case False
      with 3 have "loop_head cf s = launch s" by (auto simp: loop_head_def may_launch_def Let_def)
      with inv_num_launch [OF assms(1) 3] show ?thesis by simp
    qed
  qed
qed

lemma terminalContextError_Some: "terminalContextError c err = Some e \<Longrightarrow> c = Some e"
  by (auto simp: terminalContextError_def split: option.splits if_splits)

lemma inv_receive:
  assumes "inv_num cf s" and "sd_results s \<noteq> []"
  shows "inv_num cf (receive s) \<and> inv_pc cf (receive s) (sd_pc (receive s))"
proof -
  obtain i r rest where r: "sd_results s = (i, r) # rest" using assms(2) by (cases "sd_results s") auto
  have ctx: "sd_ctxErr s \<noteq> None" if "terminalContextError (sd_ctxErr s) (re_err r) = Some e" for e
    using terminalContextError_Some [OF that] by simp
  from assms(1) r ctx show ?thesis
    by (auto simp: receive_def take_result_def inv_num_def outstanding_def terminalContextError_Some
        split: option.splits prod.splits)
qed

text \<open>A step of a goroutine leaves the main loop's variables alone and moves its message towards the channel.\<close>

lemma inv_num_workers:
  assumes "inv_num cf s" and "int (length ws') + int (length rs') \<le> outstanding s"
    and "sd_ctxErr s = None \<Longrightarrow> int (length ws') + int (length rs') = outstanding s"
  shows "inv_num cf (s\<lparr>sd_workers := ws', sd_results := rs', sd_env := env\<rparr>)"
  using assms by (auto simp: inv_num_def outstanding_def)

lemma inv_pc_frame:
  assumes "inv_pc cf s pc" and "sd_launched s' = sd_launched s" and "sd_completed s' = sd_completed s"
    and "sd_inFlight s' = sd_inFlight s" and "sd_ctxErr s' = sd_ctxErr s \<or> sd_ctxErr s = None"
  shows "inv_pc cf s' pc"
  using assms by (cases "(cf, s, pc)" rule: inv_pc.cases) (auto simp: may_launch_def due_next_def)

definition send_inv :: "send_cfg \<Rightarrow> unit_value TestRunEnv \<Rightarrow> send_state \<Rightarrow> bool" where
  "send_inv cf env0 s \<longleftrightarrow> inv_num cf s \<and> inv_pc cf s (sd_pc s) \<and> inv_idx s \<and> inv_stat env0 s"

lemma inv_idx_launch: "inv_idx s \<Longrightarrow> 0 \<le> sd_launched s \<Longrightarrow> inv_idx (launch s)"
  by (fastforce simp: inv_idx_def launch_def indices_def)

lemma inv_stat_launch: "inv_stat env0 s \<Longrightarrow> inv_stat env0 (launch s)"
  unfolding inv_stat_def launch_def by (auto simp: series_emits counted_def)

lemma inv_idx_loop_head: "inv_idx s \<Longrightarrow> 0 \<le> sd_launched s \<Longrightarrow> inv_idx (loop_head cf s)"
  using inv_idx_launch [of s] by (auto simp: loop_head_def Let_def finish_def inv_idx_def indices_def)

lemma inv_stat_loop_head: "inv_stat env0 s \<Longrightarrow> inv_stat env0 (loop_head cf s)"
proof -
  assume i: "inv_stat env0 s"
  then have "inv_stat env0 (finish cf s)"
    by (auto simp: inv_stat_def finish_def Let_def counted_def)
  moreover have "inv_stat env0 (s\<lparr>sd_pc := pc\<rparr>)" for pc using i by (simp add: inv_stat_def)
  ultimately show ?thesis using inv_stat_launch [OF i] by (auto simp: loop_head_def Let_def)
qed

lemma remove_index: "distinct (xs @ k # ys) \<and> set (xs @ k # ys) \<subseteq> A \<Longrightarrow> distinct (xs @ ys) \<and> set (xs @ ys) \<subseteq> A"
  by simp

lemma move_index: "distinct (xs @ k # ys @ zs) \<and> set (xs @ k # ys @ zs) \<subseteq> A \<Longrightarrow>
  distinct ((xs @ ys) @ zs @ [k]) \<and> set ((xs @ ys) @ zs @ [k]) \<subseteq> A"
  by auto

lemma inv_idx_receive: "inv_idx s \<Longrightarrow> sd_results s \<noteq> [] \<Longrightarrow> inv_idx (receive s)"
proof -
  assume i: "inv_idx s" and "sd_results s \<noteq> []"
  then obtain k r rest where r: "sd_results s = (k, r) # rest" by (cases "sd_results s") auto
  have "indices (receive s) = map worker_index (sd_workers s) @ map fst rest"
    by (simp add: receive_def take_result_def indices_def r split: option.splits prod.splits)
  moreover have "sd_launched (receive s) = sd_launched s"
    by (simp add: receive_def take_result_def r split: option.splits prod.splits)
  ultimately show ?thesis using i unfolding inv_idx_def
    by (simp only: indices_def r list.map fst_conv) (rule remove_index)
qed

lemma inv_stat_receive:
  assumes "inv_stat env0 s"
  shows "inv_stat env0 (receive s)"
proof (cases "sd_results s")
  case (Cons ir rest)
  obtain i r where ir: "ir = (i, r)" by force
  obtain ok errs where c: "sd_completed s = int (ok + errs)" "counted env0 ok errs (sd_env s, sd_summary s)"
    using assms by (auto simp: inv_stat_def)
  obtain env' sm' where a: "applyResult r (sd_env s, sd_summary s) = (env', sm')" by force
  have at: "series ''send_attempt_total'' env' = series ''send_attempt_total'' (sd_env s)"
    using applyResult_attempts [of r "sd_env s" "sd_summary s"] a by simp
  have "\<exists>ok' errs'. sd_completed s + 1 = int (ok' + errs') \<and> counted env0 ok' errs' (env', sm')"
    using counted_applyResult [OF c(2), of r] c(1) unfolding a by (cases "re_err r") (auto intro!: exI)
  then show ?thesis using assms Cons ir a at
    by (auto simp: receive_def take_result_def inv_stat_def split: option.splits)
qed (use assms in \<open>simp add: receive_def\<close>)

lemma sendOne_begin_env:
  "sendOne_begin cf i env = Inr (r, env') \<Longrightarrow> series n env' = series n env"
proof -
  assume "sendOne_begin cf i env = Inr (r, env')"
  then have "env' = env \<or> env' = snd (te_NextID ''msg'' env)"
    by (auto simp: sendOne_begin_def Let_def split: sum.splits prod.splits if_splits)
  then show ?thesis by auto
qed

lemma inv_stat_env:
  "inv_stat env0 s \<Longrightarrow> (\<And>n. series n env = series n (sd_env s)) \<Longrightarrow>
   inv_stat env0 (s\<lparr>sd_workers := ws, sd_results := rs, sd_env := env\<rparr>)"
  by (auto simp: inv_stat_def counted_def)

lemma inv_num_pc [simp]: "inv_num cf (s\<lparr>sd_pc := pc\<rparr>) = inv_num cf s"
  by (simp add: inv_num_def outstanding_def)

lemma inv_idx_pc [simp]: "inv_idx (s\<lparr>sd_pc := pc\<rparr>) = inv_idx s"
  by (simp add: inv_idx_def indices_def)

lemma inv_stat_pc [simp]: "inv_stat env0 (s\<lparr>sd_pc := pc\<rparr>) = inv_stat env0 s"
  by (simp add: inv_stat_def)

lemma launched_nonneg: "inv_num cf s \<Longrightarrow> 0 \<le> sd_launched s"
  by (simp add: inv_num_def)

lemma send_inv_parts:
  assumes "send_inv cf env0 s"
  shows "inv_num cf s" "inv_pc cf s (sd_pc s)" "inv_idx s" "inv_stat env0 s" "0 \<le> sd_launched s"
  using assms launched_nonneg by (auto simp: send_inv_def)

text \<open>What a goroutine does, whatever it is, keeps the invariant.\<close>

lemma send_inv_workers:
  assumes "send_inv cf env0 s" and "int (length ws') + int (length rs') \<le> outstanding s"
    and "sd_ctxErr s = None \<Longrightarrow> int (length ws') + int (length rs') = outstanding s"
    and "distinct (map worker_index ws' @ map fst rs') \<and> set (map worker_index ws' @ map fst rs') \<subseteq> {0..<sd_launched s}"
    and "\<And>n. series n env = series n (sd_env s)"
  shows "send_inv cf env0 (s\<lparr>sd_workers := ws', sd_results := rs', sd_env := env\<rparr>)"
proof -
  note p = send_inv_parts [OF assms(1)]
  let ?s = "s\<lparr>sd_workers := ws', sd_results := rs', sd_env := env\<rparr>"
  have "inv_num cf ?s" by (rule inv_num_workers [OF p(1) assms(2,3)])
  moreover have "inv_pc cf ?s (sd_pc ?s)"
    using inv_pc_frame [OF p(2), of ?s] by simp
  moreover have "inv_idx ?s" using assms(4) by (simp only: inv_idx_def indices_def) simp
  moreover have "inv_stat env0 ?s" by (rule inv_stat_env [OF p(4) assms(5)])
  ultimately show ?thesis by (simp add: send_inv_def)
qed

lemma inv_idx_D: "inv_idx s \<Longrightarrow> distinct (map worker_index (sd_workers s) @ map fst (sd_results s)) \<and>
    set (map worker_index (sd_workers s) @ map fst (sd_results s)) \<subseteq> {0..<sd_launched s}"
  by (simp only: inv_idx_def indices_def)

lemma send_inv_replace:
  assumes "send_inv cf env0 s" and "sd_workers s = ws @ w # vs" and "worker_index w' = worker_index w"
    and "\<And>n. series n env = series n (sd_env s)"
  shows "send_inv cf env0 (s\<lparr>sd_workers := ws @ w' # vs, sd_env := env\<rparr>)"
proof -
  have "send_inv cf env0 (s\<lparr>sd_workers := ws @ w' # vs, sd_results := sd_results s, sd_env := env\<rparr>)"
    using inv_idx_D [OF send_inv_parts(3) [OF assms(1)]] assms(2,3)
    by (intro send_inv_workers assms(1,4)) (simp_all add: outstanding_def)
  then show ?thesis by simp
qed

lemma send_inv_head:
  assumes "send_inv cf env0 s" and "sd_pc s = AtLoop"
  shows "send_inv cf env0 (loop_head cf s)"
proof -
  note p = send_inv_parts [OF assms(1)]
  show ?thesis using inv_loop_head [OF p(1) assms(2)] inv_idx_loop_head [OF p(3,5)] inv_stat_loop_head [OF p(4)]
    by (simp add: send_inv_def)
qed

lemma send_inv_launch:
  assumes "send_inv cf env0 s" and "sd_pc s = SelectDue due"
  shows "send_inv cf env0 (launch s)"
proof -
  note p = send_inv_parts [OF assms(1)]
  from p(2) assms(2) have "may_launch cf s" by simp
  with p show ?thesis using inv_num_launch [OF p(1)] inv_idx_launch [OF p(3,5)] inv_stat_launch [OF p(4)]
    by (simp add: send_inv_def)
qed

lemma send_inv_receive:
  assumes "send_inv cf env0 s" and "sd_results s \<noteq> []"
  shows "send_inv cf env0 (receive s)"
proof -
  note p = send_inv_parts [OF assms(1)]
  show ?thesis using inv_receive [OF p(1) assms(2)] inv_idx_receive [OF p(3) assms(2)] inv_stat_receive [OF p(4)]
    by (simp add: send_inv_def)
qed

lemma send_inv_ctx_done:
  assumes "send_inv cf env0 s" and "sd_ctxErr s = Some e"
  shows "send_inv cf env0 (s\<lparr>sd_pc := Returned (Some e)\<rparr>)"
  using send_inv_parts [OF assms(1)] assms(2) by (simp add: send_inv_def)

lemma send_inv_wake:
  assumes "send_inv cf env0 s"
  shows "send_inv cf env0 (s\<lparr>sd_pc := AtLoop\<rparr>)"
  using send_inv_parts [OF assms] by (simp add: send_inv_def)

lemma send_inv_work:
  assumes "cfg_ok cf" and "send_work cf s s'" and "send_inv cf env0 s"
  shows "send_inv cf env0 s'"
  using assms(2)
proof cases
  case (worker_request ws i vs req env)
  have "send_inv cf env0 (s\<lparr>sd_workers := ws @ Sending i req (sd_now s) # vs, sd_env := env\<rparr>)"
    using worker_request sendOne_begin_env by (intro send_inv_replace [OF assms(3)]) auto
  with worker_request show ?thesis by simp
next
  case (worker_failed ws i vs e env)
  have "send_inv cf env0 (s\<lparr>sd_workers := ws @ Delivering i (failed e) # vs, sd_env := env\<rparr>)"
    using worker_failed sendOne_begin_env by (intro send_inv_replace [OF assms(3)]) auto
  with worker_failed show ?thesis by simp
next
  case (worker_panic ws i vs p)
  have "0 \<le> i" using inv_idx_D [OF send_inv_parts(3) [OF assms(3)]] worker_panic(2) by simp
  with worker_panic(3) sendOne_begin_no_panic [OF assms(1)] show ?thesis by blast
next
  case (worker_answer ws i req t vs answer)
  have "send_inv cf env0 (s\<lparr>sd_workers := ws @ Delivering i (sendOne_end answer (sd_now s - t)) # vs, sd_env := sd_env s\<rparr>)"
    using worker_answer by (intro send_inv_replace [OF assms(3)]) auto
  with worker_answer show ?thesis by simp
next
  case (worker_deliver ws i r vs)
  have "send_inv cf env0 (s\<lparr>sd_workers := ws @ vs, sd_results := sd_results s @ [(i, r)], sd_env := sd_env s\<rparr>)"
    using worker_deliver move_index inv_idx_D [OF send_inv_parts(3) [OF assms(3)]]
    by (intro send_inv_workers assms(3)) (simp_all add: outstanding_def)
  with worker_deliver show ?thesis by simp
next
  case (worker_drop ws i r vs)
  have "send_inv cf env0 (s\<lparr>sd_workers := ws @ vs, sd_results := sd_results s, sd_env := sd_env s\<rparr>)"
    using worker_drop inv_idx_D [OF send_inv_parts(3) [OF assms(3)]]
    by (intro send_inv_workers assms(3)) (simp_all add: outstanding_def)
  with worker_drop show ?thesis by simp
qed (use assms(3) send_inv_head send_inv_wake send_inv_launch send_inv_receive send_inv_ctx_done in blast)+

lemma send_inv_env:
  assumes "send_env s s'" and "send_inv cf env0 s"
  shows "send_inv cf env0 s'"
  using assms(1)
proof cases
  case (tick t)
  with send_inv_parts [OF assms(2)] inv_pc_frame [OF send_inv_parts(2) [OF assms(2)], of s'] show ?thesis
    by (simp add: send_inv_def inv_num_def outstanding_def inv_idx_def indices_def inv_stat_def)
next
  case (cancel e)
  with send_inv_parts [OF assms(2)] inv_pc_frame [OF send_inv_parts(2) [OF assms(2)], of s'] show ?thesis
    by (simp add: send_inv_def inv_num_def outstanding_def inv_idx_def indices_def inv_stat_def)
qed

lemma send_inv_reach:
  assumes "cfg_ok cf" and "send_inv cf env0 s0" and "send_reach cf s0 s"
  shows "send_inv cf env0 s"
  using assms(3)
proof induction
  case (step s s')
  from step.hyps(2) show ?case
    by cases (use step.IH assms(1) send_inv_work send_inv_env in blast)+
qed (rule assms(2))

lemma send_Run_start:
  assumes "send_Run oor M tt ts decode now ctxErr env = Inr (cf, s0)"
  shows "cfg_ok cf" and "send_inv cf env s0"
proof -
  note a = assms [unfolded send_Run_def]
  show "cfg_ok cf"
    using a totalMessages_pos by (auto simp: cfg_ok_def split: sum.splits if_splits)
  have "cf_maxInFlight cf \<ge> 1" "cf_messageCount cf \<ge> 1" using \<open>cfg_ok cf\<close> by (auto simp: cfg_ok_def)
  then show "send_inv cf env s0"
    using a counted_zero [of env]
    by (auto simp: send_inv_def inv_num_def outstanding_def inv_idx_def indices_def inv_stat_def
        split: sum.splits if_splits intro!: exI [of _ 0])
qed

lemmas send_Run_inv = send_inv_reach [OF send_Run_start]

section \<open>Round robin\<close>

text \<open>The k-th message of a target comes from its k-th sender, in rotation.\<close>

lemma pickSender_rotates:
  assumes "st_SenderUIDs target \<noteq> []" and "0 \<le> t" and "t < targets_Count ts" and "0 \<le> k" and "i = t + k * targets_Count ts"
  shows "i mod targets_Count ts = t \<and>
    pickSender target senderPickRoundRobin (i div targets_Count ts) =
      Inr (st_SenderUIDs target ! (nat k mod length (st_SenderUIDs target)))"
  using assms slice_At_mod [OF assms(1,4)] by (simp add: pickSender_def)

end
