(* ===== verification/Send_Facts.thy ===== *)
theory Send_Facts
  imports Traffic_Send
begin

text \<open>
  What the transition system of \<open>traffic.send/v1\<close> guarantees: it ends (a measure that every step of its own lowers,
  and a step that is always possible), what it publishes, how many messages are in flight and when they are
  launched. The last section is a run with one message.
\<close>

section \<open>Progress\<close>

fun worker_weight :: "send_worker \<Rightarrow> nat" where
  "worker_weight (Spawned _) = 7"
| "worker_weight (Sending _ _ _) = 6"
| "worker_weight (Delivering _ _) = 5"

fun pc_weight :: "bool \<Rightarrow> send_pc \<Rightarrow> nat" where
  "pc_weight early AtLoop = (if early then 4 else 2)"
| "pc_weight early (Sleeping _) = 3"
| "pc_weight early (SelectDue _) = 1"
| "pc_weight early SelectResult = 1"
| "pc_weight early (Returned _) = 0"
| "pc_weight early (Crashed _) = 0"

text \<open>How many steps the unit can still take on its own.\<close>

definition send_measure :: "send_cfg \<Rightarrow> send_state \<Rightarrow> nat" where
  "send_measure cf s =
     11 * nat (cf_messageCount cf - sd_launched s) + sum_list (map worker_weight (sd_workers s)) +
     4 * length (sd_results s) + pc_weight (sd_now s < due_next cf s) (sd_pc s)"

lemma pc_weight_le: "pc_weight b AtLoop \<le> 4" "2 \<le> pc_weight b AtLoop"
  by simp_all

lemma launch_measure:
  assumes "may_launch cf s" and "2 \<le> pc_weight (sd_now s < due_next cf s) (sd_pc s) \<or> sd_pc s = SelectDue due"
  shows "send_measure cf (launch s) < send_measure cf s"
proof -
  have "nat (cf_messageCount cf - sd_launched s) = Suc (nat (cf_messageCount cf - (sd_launched s + 1)))"
    using assms(1) unfolding may_launch_def by arith
  with assms(2) show ?thesis by (auto simp: send_measure_def launch_def)
qed

lemma head_measure:
  assumes "sd_pc s = AtLoop"
  shows "send_measure cf (loop_head cf s) < send_measure cf s"
proof (cases "may_launch cf s \<and> sd_now s \<ge> due_next cf s")
  case True
  then have "loop_head cf s = launch s" by (simp add: loop_head_def may_launch_def Let_def)
  moreover have "send_measure cf (launch s) < send_measure cf s"
    using True by (intro launch_measure) (simp_all add: assms)
  ultimately show ?thesis by simp
next
  case False
  have fin: "send_measure cf (finish cf s) < send_measure cf s"
    by (simp add: send_measure_def finish_def Let_def assms due_next_def)
  have blk: "send_measure cf (s\<lparr>sd_pc := pc\<rparr>) < send_measure cf s"
    if "pc = SelectDue d \<or> pc = SelectResult \<or> (pc = Sleeping d \<and> sd_now s < due_next cf s)" for pc d
    using that by (auto simp: send_measure_def assms due_next_def)
  from False fin blk show ?thesis
    by (auto simp: loop_head_def may_launch_def Let_def)
qed

lemma receive_measure:
  assumes "sd_results s \<noteq> []" and "sd_pc s = SelectResult \<or> sd_pc s = SelectDue due"
  shows "send_measure cf (receive s) < send_measure cf s"
proof -
  obtain k r rest where "sd_results s = (k, r) # rest" using assms(1) by (cases "sd_results s") auto
  with assms(2) show ?thesis
    by (auto simp: send_measure_def receive_def take_result_def due_next_def split: option.splits prod.splits)
qed

lemma work_measure:
  assumes "cfg_ok cf" and "send_inv cf env0 s" and "send_work cf s s'"
  shows "send_measure cf s' < send_measure cf s"
  using assms(3)
proof cases
  case head
  then show ?thesis using head_measure by simp
next
  case (wake due)
  with send_inv_parts(2) [OF assms(2)] show ?thesis by (simp add: send_measure_def due_next_def)
next
  case (timer due)
  with send_inv_parts(2) [OF assms(2)] launch_measure [of cf s due] show ?thesis by simp
next
  case (recv_due due)
  then show ?thesis using receive_measure by simp
next
  case recv
  then show ?thesis using receive_measure by simp
next
  case (worker_panic ws i vs p)
  have "0 \<le> i" using inv_idx_D [OF send_inv_parts(3) [OF assms(2)]] worker_panic(2) by simp
  with worker_panic(3) sendOne_begin_no_panic [OF assms(1)] show ?thesis by blast
qed (auto simp: send_measure_def due_next_def)

lemma env_measure: "send_env s s' \<Longrightarrow> send_measure cf s' \<le> send_measure cf s"
  by (erule send_env.cases) (cases "sd_pc s"; auto simp: send_measure_def due_next_def)+

definition returned :: "send_state \<Rightarrow> bool" where
  "returned s \<longleftrightarrow> (\<exists>r. sd_pc s = Returned r)"

text \<open>A goroutine always has a step to take: the channel is never full when one holds a result.\<close>

lemma worker_can_step:
  assumes "cfg_ok cf" and "send_inv cf env0 s" and "sd_workers s = w # vs"
  shows "\<exists>s'. send_work cf s s'"
proof (cases w)
  case (Spawned i)
  have ws: "sd_workers s = [] @ Spawned i # vs" by (simp add: assms(3) Spawned)
  have "0 \<le> i" using inv_idx_D [OF send_inv_parts(3) [OF assms(2)]] ws by simp
  then obtain r env where r: "sendOne_begin cf i (sd_env s) = Inr (r, env)"
    using sendOne_begin_no_panic [OF assms(1)] by (cases "sendOne_begin cf i (sd_env s)") auto
  show ?thesis
  proof (cases r)
    case (Inl e)
    with r have "sendOne_begin cf i (sd_env s) = Inr (Inl e, env)" by simp
    then show ?thesis by (intro exI) (rule send_work.worker_failed [OF ws])
  next
    case (Inr req)
    with r have "sendOne_begin cf i (sd_env s) = Inr (Inr req, env)" by simp
    then show ?thesis by (intro exI) (rule send_work.worker_request [OF ws])
  qed
next
  case (Sending i req t)
  then have ws: "sd_workers s = [] @ Sending i req t # vs" by (simp add: assms(3))
  show ?thesis by (intro exI) (rule send_work.worker_answer [OF ws])
next
  case (Delivering i r)
  then have ws: "sd_workers s = [] @ Delivering i r # vs" by (simp add: assms(3))
  have "int (length (sd_results s)) < cf_maxInFlight cf"
    using send_inv_parts(1) [OF assms(2)] assms(3) by (simp add: inv_num_def outstanding_def)
  then show ?thesis by (intro exI) (rule send_work.worker_deliver [OF ws])
qed

lemma send_progress:
  assumes "cfg_ok cf" and "send_inv cf env0 s" and "\<not> returned s"
  shows "(\<exists>s'. send_work cf s s') \<or> (\<exists>due. sd_pc s = Sleeping due \<and> sd_now s < due)"
proof -
  have blocked: "\<exists>s'. send_work cf s s'"
    if pc: "sd_pc s = SelectDue due \<or> sd_pc s = SelectResult" and f: "0 < sd_inFlight s" for due
  proof (cases "sd_ctxErr s")
    case (Some e)
    with pc show ?thesis using send_work.ctx_done by blast
  next
    case None
    then have o: "0 < outstanding s" using f send_inv_parts(1) [OF assms(2)] by (simp add: inv_num_def)
    show ?thesis
    proof (cases "sd_workers s")
      case Nil
      with o have "sd_results s \<noteq> []" by (simp add: outstanding_def)
      with pc show ?thesis using send_work.recv send_work.recv_due by blast
    next
      case (Cons w vs)
      then show ?thesis by (rule worker_can_step [OF assms(1,2)])
    qed
  qed
  show ?thesis
  proof (cases "sd_pc s")
    case AtLoop
    then show ?thesis using send_work.head by blast
  next
    case (Sleeping due)
    then show ?thesis using send_work.wake [OF Sleeping] by (cases "due \<le> sd_now s") auto
  next
    case (SelectDue due)
    with send_inv_parts(2) [OF assms(2)] blocked show ?thesis by simp
  next
    case SelectResult
    have "0 < sd_inFlight s"
      using send_inv_parts(1,2) [OF assms(2)] SelectResult assms(1)
      by (auto simp: inv_num_def may_launch_def cfg_ok_def)
    with blocked SelectResult show ?thesis by blast
  next
    case (Crashed p)
    with send_inv_parts(2) [OF assms(2)] show ?thesis by simp
  qed (use assms(3) in \<open>simp add: returned_def\<close>)
qed

lemma send_reach_trans: "send_reach cf s1 s2 \<Longrightarrow> send_reach cf s0 s1 \<Longrightarrow> send_reach cf s0 s2"
  by (induction rule: send_reach.induct) (auto intro: send_reach.step)

lemma send_inv_not_crashed: "send_inv cf env0 s \<Longrightarrow> \<nexists>p. sd_pc s = Crashed p"
  using send_inv_parts(2) by force

lemma send_can_return:
  assumes "cfg_ok cf"
  shows "send_inv cf env0 s \<Longrightarrow> \<exists>s'. send_reach cf s s' \<and> returned s'"
proof (induction "send_measure cf s" arbitrary: s rule: less_induct)
  case less
  note nc = send_inv_not_crashed [OF less.prems]
  have step: "\<exists>s'. send_reach cf t s' \<and> returned s'"
    if w: "send_work cf t t'" and i: "send_inv cf env0 t" and m: "send_measure cf t \<le> send_measure cf s" for t t'
  proof -
    have "send_measure cf t' < send_measure cf s" using work_measure [OF assms i w] m by simp
    from less.hyps [OF this send_inv_work [OF assms w i]] obtain s' where "send_reach cf t' s'" "returned s'" by blast
    moreover have "send_reach cf t t'"
      by (rule send_reach.step [OF send_reach.start send_step.work [OF send_inv_not_crashed [OF i] w]])
    ultimately show ?thesis using send_reach_trans by blast
  qed
  show ?case
  proof (cases "returned s")
    case True
    then show ?thesis using send_reach.start by blast
  next
    case False
    from send_progress [OF assms less.prems this] show ?thesis
    proof (elim disjE exE conjE)
      fix s' assume "send_work cf s s'"
      then show ?thesis by (rule step [OF _ less.prems]) simp
    next
      fix due assume pc: "sd_pc s = Sleeping due" and d: "sd_now s < due"
      let ?t = "s\<lparr>sd_now := due\<rparr>"
      have e: "send_env s ?t" using d by (intro send_env.tick) simp
      have w: "send_work cf ?t (?t\<lparr>sd_pc := AtLoop\<rparr>)" by (rule send_work.wake [where due = due]) (simp_all add: pc)
      from step [OF w send_inv_env [OF e less.prems] env_measure [OF e]] obtain s' where
        "send_reach cf ?t s'" "returned s'" by blast
      moreover have "send_reach cf s ?t" by (rule send_reach.step [OF send_reach.start send_step.env [OF e]])
      ultimately show ?thesis using send_reach_trans by blast
    qed
  qed
qed

section \<open>What a run reports\<close>

definition published :: "send_state \<Rightarrow> bool" where
  "published s \<longleftrightarrow> 1 \<le> sm_ElapsedMS (sd_summary s) \<and> te_Output ''summary'' (sd_env s) = Some (SummaryV (sd_summary s))"

text \<open>Once the loop has ended without error no goroutine is left, so the published summary stays.\<close>

lemma returned_quiet:
  assumes "send_inv cf env0 s" and "sd_pc s = Returned None"
  shows "sd_workers s = [] \<and> sd_results s = [] \<and> sd_launched s = cf_messageCount cf \<and> sd_completed s = cf_messageCount cf"
proof -
  have c: "sd_completed s = cf_messageCount cf" using send_inv_parts(2) [OF assms(1)] assms(2) by simp
  have n: "sd_launched s = sd_completed s + sd_inFlight s" "0 \<le> sd_inFlight s"
    "sd_launched s \<le> cf_messageCount cf" "outstanding s \<le> sd_inFlight s"
    using send_inv_parts(1) [OF assms(1)] by (simp_all add: inv_num_def)
  with c have "int (length (sd_workers s)) + int (length (sd_results s)) \<le> 0" "sd_launched s = cf_messageCount cf"
    by (simp_all add: outstanding_def)
  then have "length (sd_workers s) = 0" "length (sd_results s) = 0" by linarith+
  with c \<open>sd_launched s = cf_messageCount cf\<close> show ?thesis by simp
qed

lemma work_from_quiet:
  "send_work cf s s' \<Longrightarrow> sd_pc s = Returned None \<Longrightarrow> sd_workers s \<noteq> []"
  by (erule send_work.cases) auto

lemma receive_pc: "sd_pc (receive s) = Returned None \<Longrightarrow> sd_pc s = Returned None"
  by (auto simp: receive_def take_result_def split: list.splits option.splits prod.splits)

lemma work_publishes:
  assumes "send_work cf s s'" and "sd_pc s' = Returned None" and "sd_pc s \<noteq> Returned None"
  shows "published s'"
  using assms(1)
proof cases
  case head
  with assms(2) have "s' = finish cf s" by (auto simp: loop_head_def launch_def Let_def split: if_splits)
  then show ?thesis
    by (simp add: published_def finish_def Let_def tenv_out.get_put elapsedMilliseconds_def)
next
  case (recv_due due)
  with assms(2,3) receive_pc show ?thesis by simp
next
  case recv
  with assms(2,3) receive_pc show ?thesis by simp
qed (use assms(2,3) in \<open>auto simp: launch_def\<close>)

lemma env_keeps: "send_env s s' \<Longrightarrow> sd_pc s' = sd_pc s \<and> published s' = published s"
  by (erule send_env.cases) (simp_all add: published_def)

lemma returned_published:
  assumes "cfg_ok cf" and "send_inv cf env0 s0" and "sd_pc s0 = AtLoop" and "send_reach cf s0 s"
  shows "sd_pc s = Returned None \<Longrightarrow> published s"
  using assms(4)
proof induction
  case (step s s')
  note i = send_inv_reach [OF assms(1,2) step.hyps(1)]
  from step.hyps(2) show ?case
  proof cases
    case work
    show ?thesis
    proof (cases "sd_pc s = Returned None")
      case True
      with work_from_quiet [OF work(2)] returned_quiet [OF i] show ?thesis by simp
    next
      case False
      with work_publishes [OF work(2)] step.prems show ?thesis by simp
    qed
  next
    case env
    with env_keeps [OF env] step show ?thesis by simp
  qed
qed (use assms(3) in simp)

lemma send_summary_facts:
  assumes "send_Run oor M tt ts decode now ctxErr env = Inr (cf, s0)" and "send_reach cf s0 s"
    and "sd_pc s = Returned None" and "cf_messageCount cf < 2 ^ 63"
  shows "\<exists>summary. te_Output ''summary'' (sd_env s) = Some (SummaryV summary) \<and>
    int (unat (sm_SendackOK summary)) + int (unat (sm_SendackErrors summary)) = cf_messageCount cf \<and>
    series ''send_attempt_total'' (sd_env s) = series ''send_attempt_total'' env + cf_messageCount cf \<and>
    series ''sendack_success_total'' (sd_env s) = series ''sendack_success_total'' env + int (unat (sm_SendackOK summary)) \<and>
    series ''sendack_error_total'' (sd_env s) = series ''sendack_error_total'' env + int (unat (sm_SendackErrors summary)) \<and>
    1 \<le> sm_ElapsedMS summary \<and> sd_workers s = [] \<and> sd_results s = []"
proof -
  note st = send_Run_start [OF assms(1)]
  note i = send_inv_reach [OF st assms(2)]
  have "sd_pc s0 = AtLoop" using assms(1) by (auto simp: send_Run_def split: sum.splits if_splits)
  from returned_published [OF st this assms(2,3)]
  have p: "te_Output ''summary'' (sd_env s) = Some (SummaryV (sd_summary s))" "1 \<le> sm_ElapsedMS (sd_summary s)"
    by (simp_all add: published_def)
  note q = returned_quiet [OF i assms(3)]
  obtain ok errs where c: "sd_completed s = int (ok + errs)" "counted env ok errs (sd_env s, sd_summary s)"
    using send_inv_parts(4) [OF i] by (auto simp: inv_stat_def)
  from c(1) q assms(4) have u: "unat (of_nat ok :: 64 word) = ok" "unat (of_nat errs :: 64 word) = errs"
    using unat_sum_small [of ok errs] by simp_all
  have a: "series ''send_attempt_total'' (sd_env s) = series ''send_attempt_total'' env + cf_messageCount cf"
    using send_inv_parts(4) [OF i] q by (simp add: inv_stat_def)
  show ?thesis
    using p q c u a by (intro exI [of _ "sd_summary s"]) (simp add: counted_def)
qed

text \<open>
  C14: Every message is accounted for. When the loop of a send unit ends without an error, it has sent exactly the number of
  messages that rate and duration ask for, and no goroutine is left; the published summary counts every message once, as acknowledged or as
  failed, and the metrics of the unit have grown by the same numbers.
\<close>

theorem send_summary_exact:
  assumes "send_Run oor M tt ts decode now ctxErr env = Inr (cf, s0)" and "send_reach cf s0 s"
    and "sd_pc s = Returned None" and "cf_messageCount cf < 2 ^ 63"
  shows "\<exists>summary. te_Output ''summary'' (sd_env s) = Some (SummaryV summary) \<and>
    int (unat (sm_SendackOK summary)) + int (unat (sm_SendackErrors summary)) = cf_messageCount cf \<and>
    series ''send_attempt_total'' (sd_env s) = series ''send_attempt_total'' env + cf_messageCount cf \<and>
    series ''sendack_success_total'' (sd_env s) = series ''sendack_success_total'' env + int (unat (sm_SendackOK summary)) \<and>
    series ''sendack_error_total'' (sd_env s) = series ''sendack_error_total'' env + int (unat (sm_SendackErrors summary)) \<and>
    1 \<le> sm_ElapsedMS summary \<and> sd_workers s = [] \<and> sd_results s = []"
  by (rule send_summary_facts [OF assms])

text \<open>
  C15: Concurrency and pacing. At every moment of a run, no goroutine crashes, at most \<open>max_in_flight\<close> (at least one) messages are in flight, each
  held by one goroutine or lying in the channel, never the same message twice; and a step that launches a message launches the next one,
  not before its scheduled start.
\<close>

theorem send_bounded_and_paced:
  assumes "send_Run oor M tt ts decode now ctxErr env = Inr (cf, s0)" and "send_reach cf s0 s" and "send_step cf s s'"
  shows "sd_inFlight s \<le> max 1 (sp_MaxInFlight (cf_spec cf)) \<and> outstanding s \<le> sd_inFlight s \<and>
    distinct (indices s) \<and> set (indices s) \<subseteq> {0..<sd_launched s} \<and> (\<nexists>p. sd_pc s = Crashed p) \<and>
    (sd_launched s' = sd_launched s \<or>
     sd_launched s' = sd_launched s + 1 \<and>
     scheduledStart oor now (sp_Rate (cf_spec cf)) (sd_launched s) \<le> sd_now s)"
proof -
  note st = send_Run_start [OF assms(1)]
  note i = send_inv_reach [OF st assms(2)]
  note p = send_inv_parts [OF i]
  have cf: "cf_oor cf = oor" "cf_start cf = now" "cf_maxInFlight cf = max 1 (sp_MaxInFlight (cf_spec cf))"
    using assms(1) by (auto simp: send_Run_def split: sum.splits if_splits)
  have due: "due_next cf s = scheduledStart oor now (sp_Rate (cf_spec cf)) (sd_launched s)"
    by (simp add: due_next_def cf)
  have "sd_launched s' = sd_launched s \<or> sd_launched s' = sd_launched s + 1 \<and> due_next cf s \<le> sd_now s"
    using assms(3)
  proof cases
    case work
    from work(2) show ?thesis
    proof cases
      case (timer d)
      with p(2) show ?thesis by (simp add: launch_def)
    next
      case head
      then show ?thesis by (auto simp: loop_head_def launch_def finish_def Let_def)
    next
      case (recv_due d)
      then show ?thesis by (auto simp: receive_def take_result_def split: list.splits option.splits prod.splits)
    next
      case recv
      then show ?thesis by (auto simp: receive_def take_result_def split: list.splits option.splits prod.splits)
    qed simp_all
  next
    case env
    then show ?thesis by cases simp_all
  qed
  then show ?thesis using p send_inv_not_crashed [OF i] unfolding due
    by (simp add: inv_num_def inv_idx_def cf)
qed

text \<open>
  C16: A run comes to its end. Every step the unit takes on its own lowers a measure that starts at most at eleven times the number of messages plus
  four, and nothing that happens to it raises it; while the run has not returned, the unit has a step to take or sleeps until a
  message is due. So from every state of a run it can be brought to return.
\<close>

theorem send_terminates:
  assumes "send_Run oor M tt ts decode now ctxErr env = Inr (cf, s0)" and "send_reach cf s0 s"
  shows "(\<forall>s'. send_work cf s s' \<longrightarrow> send_measure cf s' < send_measure cf s) \<and>
    (\<forall>s'. send_env s s' \<longrightarrow> send_measure cf s' \<le> send_measure cf s) \<and>
    send_measure cf s0 \<le> 11 * nat (cf_messageCount cf) + 4 \<and>
    (returned s \<or> (\<exists>s'. send_work cf s s') \<or> (\<exists>due. sd_pc s = Sleeping due \<and> sd_now s < due)) \<and>
    (\<exists>s'. send_reach cf s s' \<and> returned s')"
proof -
  note st = send_Run_start [OF assms(1)]
  note i = send_inv_reach [OF st assms(2)]
  have "sd_pc s0 = AtLoop" "sd_workers s0 = []" "sd_results s0 = []" "sd_launched s0 = 0"
    using assms(1) by (auto simp: send_Run_def split: sum.splits if_splits)
  then have "send_measure cf s0 \<le> 11 * nat (cf_messageCount cf) + 4" by (simp add: send_measure_def)
  with work_measure [OF st(1) i] env_measure send_progress [OF st(1) i] send_can_return [OF st(1) i]
  show ?thesis by blast
qed

section \<open>A run with one message\<close>

definition demo_send_env :: "unit_value TestRunEnv" where
  "demo_send_env = NewTestRunEnv ''r'' ''send''
     (fmupd ''targets'' (TargetsV \<lparr>ss_Items = [personTarget ''user-0'' ''user-1'']\<rparr>)
       (fmupd ''sender'' (MessageSenderV (\<lambda>uid. uid \<noteq> [])) fmempty))"

definition demo_send_spec :: "SendSpec \<Rightarrow> SendSpec result" where
  "demo_send_spec s = Inr (s\<lparr>sp_Rate := \<lparr>rt_PerSecond = 1\<rparr>, sp_PayloadSize := 4\<rparr>)"

definition no_json :: "string \<Rightarrow> 'a result" where
  "no_json _ = Inl (Errorf ''no json'' [])"

definition demo_ack :: SendAck where
  "demo_ack = \<lparr>sk_MessageID = 7, sk_MessageSeq = 1, sk_WireLatency = 0\<rparr>"

definition send_demo :: "(send_cfg \<times> send_state) result" where
  "send_demo = send_Run (\<lambda>_. 0) (\<lambda>_. no_json []) \<lparr>ty_assert = as_targets, ty_Unmarshal = no_json\<rparr>
     \<lparr>ty_assert = as_message_sender, ty_Unmarshal = no_json\<rparr> demo_send_spec 100 None demo_send_env"

definition demo_cfg :: send_cfg where "demo_cfg = fst (projr send_demo)"
definition demo_state0 :: send_state where "demo_state0 = snd (projr send_demo)"
definition demo_state1 :: send_state where "demo_state1 = loop_head demo_cfg demo_state0"
definition demo_state2 :: send_state where
  "demo_state2 = (case sendOne_begin demo_cfg 0 (sd_env demo_state1) of
     Inr (Inr req, env) \<Rightarrow> demo_state1\<lparr>sd_workers := [Sending 0 req (sd_now demo_state1)], sd_env := env\<rparr>
   | _ \<Rightarrow> demo_state1)"
definition demo_state3 :: send_state where
  "demo_state3 = demo_state2\<lparr>sd_workers := [Delivering 0 (sendOne_end (Inr demo_ack) 0)]\<rparr>"
definition demo_state4 :: send_state where
  "demo_state4 = demo_state3\<lparr>sd_workers := [], sd_results := [(0, sendOne_end (Inr demo_ack) 0)]\<rparr>"
definition demo_state5 :: send_state where "demo_state5 = loop_head demo_cfg demo_state4"
definition demo_state6 :: send_state where "demo_state6 = receive demo_state5"
definition demo_state7 :: send_state where "demo_state7 = loop_head demo_cfg demo_state6"

lemma demo_total: "totalMessages (\<lambda>_. 0) \<lparr>rt_PerSecond = 1\<rparr> 1000000000 = 1"
proof -
  have "\<lfloor>3 / 2 :: rat\<rfloor> = 1" by (simp add: floor_eq_iff)
  then show ?thesis
  by (simp add: totalMessages_def Seconds_def one_float64_def math_Round_def int64_of_float_def Let_def)
qed

lemma send_demo_eq: "send_demo = Inr
   (\<lparr>cf_oor = (\<lambda>_. 0), cf_spec = \<lparr>sp_Rate = \<lparr>rt_PerSecond = 1\<rparr>, sp_PayloadSize = 4, sp_SenderPick = [], sp_MaxInFlight = 0, sp_AckTimeout = 0\<rparr>,
      cf_ackTimeout = 5000000000, cf_targets = \<lparr>ss_Items = [personTarget ''user-0'' ''user-1'']\<rparr>,
      cf_client = (\<lambda>uid. uid \<noteq> []), cf_messageCount = 1, cf_maxInFlight = 1, cf_start = 100\<rparr>,
    \<lparr>sd_pc = AtLoop, sd_launched = 0, sd_completed = 0, sd_inFlight = 0, sd_workers = [], sd_results = [],
     sd_summary = zero_Summary, sd_env = demo_send_env, sd_now = 100, sd_ctxErr = None\<rparr>)"
proof -
  have d: "traffic_decodeSpec demo_send_spec = Inr \<lparr>sp_Rate = \<lparr>rt_PerSecond = 1\<rparr>, sp_PayloadSize = 4, sp_SenderPick = [], sp_MaxInFlight = 0, sp_AckTimeout = 0\<rparr>"
    by (simp add: traffic_decodeSpec_def demo_send_spec_def)
  have i: "fmlookup (te_inputs demo_send_env) ''targets'' = Some (TargetsV \<lparr>ss_Items = [personTarget ''user-0'' ''user-1'']\<rparr>)"
    "fmlookup (te_inputs demo_send_env) ''sender'' = Some (MessageSenderV (\<lambda>uid. uid \<noteq> []))"
    "te_runDuration demo_send_env = 1000000000"
    by (simp_all add: demo_send_env_def NewTestRunEnv_def)
  show ?thesis
    by (simp add: send_demo_def send_Run_def d Input_typed_value [OF i(1)] Input_typed_value [OF i(2)] i(3) demo_total
        targets_Count_def effectiveAckTimeout_def defaultAckTimeout_def)
qed

lemmas demo_state_defs = demo_state7_def demo_state6_def demo_state5_def demo_state4_def demo_state3_def
  demo_state2_def demo_state1_def demo_state0_def demo_cfg_def send_demo_eq

lemma demo_due: "scheduledStart (\<lambda>_. 0) 100 \<lparr>rt_PerSecond = 1\<rparr> 0 = 100"
  by (simp add: scheduledStart_def one_float64_def zero_float64_def int64_of_float_def)

lemma demo_state1_eq: "loop_head demo_cfg demo_state0 = launch demo_state0" "sd_pc demo_state0 = AtLoop"
  by (simp_all add: demo_state_defs loop_head_def due_next_def demo_due)

lemma demo_begin: "sendOne_begin demo_cfg 0 env = Inr (Inr
  \<lparr>sr_ChannelID = ''user-1'', sr_ChannelType = 1, sr_SenderUID = ''user-0'', sr_ClientMsgNo = fst (te_NextID ''msg'' env),
   sr_Payload = gen_payload 4, sr_Timeout = 5000000000\<rparr>, snd (te_NextID ''msg'' env))"
  by (cases "te_NextID ''msg'' env") (simp add: sendOne_begin_def demo_cfg_def send_demo_eq targets_At_def targets_Count_def slice_At_def
      pickSender_def personTarget_def senderPickRoundRobin_def Let_def personChannelType_def)

lemma demo_reach: "send_reach demo_cfg demo_state0 demo_state7 \<and> sd_pc demo_state7 = Returned None"
proof -
  have c: "cf_maxInFlight demo_cfg = 1" "cf_messageCount demo_cfg = 1" by (simp_all add: demo_cfg_def send_demo_eq)
  have w1: "sd_workers demo_state1 = [] @ Spawned 0 # []" "sd_pc demo_state1 = AtLoop"
    "sd_completed demo_state1 = 0" "sd_launched demo_state1 = 1" "sd_results demo_state1 = []"
    by (simp_all only: demo_state1_def demo_state1_eq) (simp_all add: launch_def demo_state0_def send_demo_eq)
  have s2: "demo_state2 = demo_state1\<lparr>sd_workers := [] @ Sending 0
      \<lparr>sr_ChannelID = ''user-1'', sr_ChannelType = 1, sr_SenderUID = ''user-0'',
       sr_ClientMsgNo = fst (te_NextID ''msg'' (sd_env demo_state1)), sr_Payload = gen_payload 4, sr_Timeout = 5000000000\<rparr>
      (sd_now demo_state1) # [], sd_env := snd (te_NextID ''msg'' (sd_env demo_state1))\<rparr>"
    by (simp add: demo_state2_def demo_begin)
  have s3: "demo_state3 = demo_state2\<lparr>sd_workers := [] @ Delivering 0 (sendOne_end (Inr demo_ack) (sd_now demo_state2 - sd_now demo_state1)) # []\<rparr>"
    by (simp add: demo_state3_def s2)
  have s4: "demo_state4 = demo_state3\<lparr>sd_workers := [] @ [], sd_results := sd_results demo_state3 @ [(0, sendOne_end (Inr demo_ack) 0)]\<rparr>"
    by (simp add: demo_state4_def demo_state3_def s2 w1)
  have p4: "sd_pc demo_state4 = AtLoop" "sd_completed demo_state4 = 0" "sd_launched demo_state4 = 1"
    "sd_results demo_state4 \<noteq> []" using w1 by (simp_all add: s4 s3 s2)
  have p5: "demo_state5 = demo_state4\<lparr>sd_pc := SelectResult\<rparr>" using p4 c by (simp add: demo_state5_def loop_head_def)
  have p6: "sd_pc demo_state6 = AtLoop" "sd_completed demo_state6 = 1"
    using p4 by (simp_all add: demo_state6_def p5 receive_def s4 s3 s2 w1 take_result_def terminalContextError_def sendOne_end_def
        split: prod.splits)
  have p7: "demo_state7 = finish demo_cfg demo_state6" using p6 c by (simp add: demo_state7_def loop_head_def)
  note w = send_step.work [rotated]
  have "send_reach demo_cfg demo_state0 demo_state1"
    unfolding demo_state1_def
    by (rule send_reach.step [OF send_reach.start], rule w, rule send_work.head) (simp_all add: demo_state1_eq)
  then have "send_reach demo_cfg demo_state0 demo_state2"
    unfolding s2 by (rule send_reach.step) (rule w, rule send_work.worker_request [OF w1(1) demo_begin], simp add: w1)
  then have "send_reach demo_cfg demo_state0 demo_state3"
    unfolding s3 by (rule send_reach.step) (rule w, rule send_work.worker_answer, simp_all add: s2 w1)
  then have "send_reach demo_cfg demo_state0 demo_state4"
    unfolding s4 by (rule send_reach.step) (rule w, rule send_work.worker_deliver, simp_all add: s3 s2 w1 c)
  then have "send_reach demo_cfg demo_state0 demo_state5"
    unfolding demo_state5_def by (rule send_reach.step) (rule w, rule send_work.head, simp_all add: p4)
  then have "send_reach demo_cfg demo_state0 demo_state6"
    unfolding demo_state6_def by (rule send_reach.step) (rule w, rule send_work.recv, simp_all add: p5 p4)
  then have "send_reach demo_cfg demo_state0 demo_state7"
    unfolding demo_state7_def by (rule send_reach.step) (rule w, rule send_work.head, simp_all add: p6)
  moreover have "sd_pc demo_state7 = Returned None" by (simp add: p7 finish_def Let_def)
  ultimately show ?thesis by simp
qed

lemma demo_run_start: "send_Run (\<lambda>_. 0) (\<lambda>_. no_json []) \<lparr>ty_assert = as_targets, ty_Unmarshal = no_json\<rparr>
     \<lparr>ty_assert = as_message_sender, ty_Unmarshal = no_json\<rparr> demo_send_spec 100 None demo_send_env = Inr (demo_cfg, demo_state0)"
  by (simp add: demo_cfg_def demo_state0_def send_demo_eq flip: send_demo_def)

theorem send_summary_exact_witness:
  "\<exists>summary. te_Output ''summary'' (sd_env demo_state7) = Some (SummaryV summary) \<and>
    int (unat (sm_SendackOK summary)) + int (unat (sm_SendackErrors summary)) = 1"
proof -
  have c: "cf_messageCount demo_cfg = 1" by (simp add: demo_cfg_def send_demo_eq)
  have "sd_pc demo_state7 = Returned None" and r: "send_reach demo_cfg demo_state0 demo_state7" using demo_reach by simp_all
  then show ?thesis using send_summary_exact [OF demo_run_start r] c by auto
qed

theorem send_bounded_and_paced_witness:
  "send_step demo_cfg demo_state0 (launch demo_state0) \<and> sd_launched (launch demo_state0) = 1 \<and>
   scheduledStart (\<lambda>_. 0) 100 \<lparr>rt_PerSecond = 1\<rparr> 0 \<le> sd_now demo_state0"
proof -
  have p: "sd_launched demo_state0 = 0" "sp_Rate (cf_spec demo_cfg) = \<lparr>rt_PerSecond = 1\<rparr>"
    by (simp_all add: demo_state0_def demo_cfg_def send_demo_eq)
  have l: "sd_launched (launch demo_state0) = 1" by (simp add: launch_def p)
  have "send_work demo_cfg demo_state0 (launch demo_state0)"
    using send_work.head [of demo_state0 demo_cfg] by (simp add: demo_state1_eq)
  then have st: "send_step demo_cfg demo_state0 (launch demo_state0)"
    by (intro send_step.work) (simp add: demo_state1_eq)
  from send_bounded_and_paced [OF demo_run_start send_reach.start st] st l p show ?thesis by simp
qed

theorem send_terminates_witness:
  "\<exists>s'. send_reach demo_cfg demo_state0 s' \<and> returned s'"
  using send_terminates [OF demo_run_start send_reach.start] by blast

end
