(* ===== verification/Float_Bounds.thy ===== *)
theory Float_Bounds
  imports Go_Float
begin

text \<open>
  How far rounding moves a positive number: the result of a rounded operation is within a factor of two of the exact
  one, unless it over- or underflows. In particular a quotient of counts is zero only if the dividend is.
\<close>

lemma pow2_diff: "pow2 (int a - int b) = 2 ^ a / 2 ^ b"
proof (cases "b \<le> a")
  case True
  then have "nat (int a - int b) = a - b" by simp
  with True show ?thesis by (simp add: pow2_def power_diff)
next
  case False
  then have "nat (- (int a - int b)) = b - a" by simp
  with False show ?thesis by (simp add: pow2_def power_diff)
qed

lemma pow2_mono: "d \<le> e \<Longrightarrow> pow2 d \<le> pow2 e"
proof -
  assume "d \<le> e"
  obtain a b a' where "d = int a - int b" "e = int a' - int b" "a \<le> a'"
  proof
    show "d = int (nat (d + \<bar>d\<bar> + \<bar>e\<bar>)) - int (nat (\<bar>d\<bar> + \<bar>e\<bar>))" by arith
    show "e = int (nat (e + \<bar>d\<bar> + \<bar>e\<bar>)) - int (nat (\<bar>d\<bar> + \<bar>e\<bar>))" by arith
    show "nat (d + \<bar>d\<bar> + \<bar>e\<bar>) \<le> nat (e + \<bar>d\<bar> + \<bar>e\<bar>)" using \<open>d \<le> e\<close> by simp
  qed
  then show ?thesis by (simp only: pow2_diff) (simp add: divide_right_mono)
qed

lemma pow2_ilog2_le:
  assumes "0 < x"
  shows "pow2 (ilog2 x) \<le> x"
proof -
  obtain p q where pq: "quotient_of x = (p, q)" by force
  have q: "0 < q" using quotient_of_denom_pos [OF pq] .
  have x: "x = of_int p / of_int q" by (rule quotient_of_div [OF pq])
  have p: "0 < p" using assms q by (simp add: x zero_less_divide_iff)
  let ?bp = "bitlen (nat p)" and ?bq = "bitlen (nat q)"
  have bp: "2 ^ (?bp - 1) \<le> nat p" "0 < ?bp" using bitlen_bounds [of "nat p"] p by (auto simp: bitlen.simps [of "nat p"])
  have bq: "nat q < 2 ^ ?bq" using bitlen_bounds [of "nat q"] q by auto
  have e: "ilog2 x = (if x < pow2 (int ?bp - int ?bq) then int (?bp - 1) - int ?bq else int ?bp - int ?bq)"
    using bp(2) by (simp add: ilog2_def pq Let_def of_nat_diff)
  show ?thesis
  proof (cases "x < pow2 (int ?bp - int ?bq)")
    case True
    have "(of_nat (2 ^ (?bp - 1)) :: rat) \<le> of_nat (nat p)" using bp(1) by (simp only: of_nat_le_iff)
    then have lo: "(2 :: rat) ^ (?bp - 1) \<le> of_int p" using p by simp
    have "(of_nat (nat q) :: rat) \<le> of_nat (2 ^ ?bq)" using bq by (simp only: of_nat_le_iff)
    then have hi: "of_int q \<le> (2 :: rat) ^ ?bq" using q by simp
    have "(2 :: rat) ^ (?bp - 1) / 2 ^ ?bq \<le> of_int p / of_int q"
      using lo hi p q by (intro frac_le) simp_all
    with True show ?thesis by (simp only: e pow2_diff if_True) (simp add: x)
  qed (simp add: e)
qed

lemma ulp_le:
  assumes "pow2 (- 1074) \<le> x"
  shows "pow2 (ulp_exp x) \<le> x"
proof -
  have pos: "0 < x" using assms pow2_pos less_le_trans by blast
  then have "pow2 (ilog2 \<bar>x\<bar> - 52) \<le> x"
    using pow2_ilog2_le [OF pos] pow2_mono [of "ilog2 x - 52" "ilog2 x"] by simp
  with assms show ?thesis by (simp add: ulp_exp_def max_def)
qed

lemma round_half_even_bounds:
  assumes "1 \<le> y"
  shows "y / 2 \<le> of_int (round_half_even y)" and "of_int (round_half_even y) \<le> 2 * y"
proof -
  have f: "1 \<le> \<lfloor>y\<rfloor>" "of_int \<lfloor>y\<rfloor> \<le> y" "y < of_int \<lfloor>y\<rfloor> + 1"
    using assms floor_correct [of y] by (simp_all add: le_floor_iff)
  have "\<lfloor>y\<rfloor> \<le> round_half_even y" "round_half_even y \<le> \<lfloor>y\<rfloor> + 1" by (auto simp: round_half_even_def Let_def)
  then have "rat_of_int \<lfloor>y\<rfloor> \<le> of_int (round_half_even y)" "rat_of_int (round_half_even y) \<le> of_int (\<lfloor>y\<rfloor> + 1)"
    by (simp_all only: of_int_le_iff)
  moreover have "(1::rat) \<le> of_int \<lfloor>y\<rfloor>" using f(1) by simp
  ultimately show "y / 2 \<le> of_int (round_half_even y)" and "of_int (round_half_even y) \<le> 2 * y"
    using f(2,3) unfolding of_int_add of_int_1 by linarith+
qed

lemma fround_bounds:
  assumes "pow2 (- 1074) \<le> x" and "x < 2 ^ 1023"
  obtains r where "fround x = Fin r" and "x / 2 \<le> r" and "r \<le> 2 * x"
proof -
  let ?u = "pow2 (ulp_exp x)"
  have pos: "0 < x" using assms(1) pow2_pos less_le_trans by blast
  have u: "0 < ?u" by simp
  have y: "1 \<le> x / ?u" using ulp_le [OF assms(1)] by simp
  define r where "r = of_int (round_half_even (x / ?u)) * ?u"
  have lo: "x / 2 \<le> r" using mult_right_mono [OF round_half_even_bounds(1) [OF y] less_imp_le [OF u]] u
    by (simp add: r_def)
  have hi: "r \<le> 2 * x" using mult_right_mono [OF round_half_even_bounds(2) [OF y] less_imp_le [OF u]] u
    by (simp add: r_def)
  have "\<bar>r\<bar> < 2 ^ 1024"
  proof -
    have "r < 2 * 2 ^ 1023" using hi assms(2) by (intro le_less_trans [OF hi]) simp
    moreover have "0 < r" using lo pos by simp
    moreover have "(2 :: rat) * 2 ^ 1023 = 2 ^ 1024" by (simp only: power_Suc [symmetric]) simp
    ultimately show ?thesis by simp
  qed
  then have "fround x = Fin r" using pos by (simp add: fround_def Let_def r_def)
  from that [OF this lo hi] show ?thesis .
qed

end
