(* ===== verification/Report_Assert.thy ===== *)
theory Report_Assert
  imports Group_Send Send_Facts Float_Bounds
begin

text \<open>
  \<open>report.assert/v1\<close> (\<open>units/report/assert/unit.go\<close>): rules over a traffic summary. \<open>fmt_g\<close> is how
  \<open>%g\<close> prints a float.
\<close>

record Rule =
  ru_Metric :: string
  ru_Op :: string
  ru_Value :: float64

definition assert_Definition :: UnitDef where
  "assert_Definition =
     \<lparr>ud_Kind = ''report.assert/v1'', ud_Title = ''Report assertions'',
      ud_Description = ''Evaluates simple assertions over traffic summaries.'',
      ud_Inputs = [data_port ''summary'' SummaryV1],
      ud_Outputs = [\<lparr>pd_Name = ''result'', pd_Type = ''port.report.assertion_result/v1'', pd_Optional = False,
        pd_Meta = inlineJSONDataMeta\<lparr>pm_Reportable := True\<rparr>\<rparr>],
      ud_Metrics = [], ud_Artifacts = []\<rparr>"

text \<open>\<open>Validate\<close> on the decoded rules: the first rule without metric or operator, by its index.\<close>

fun assert_check :: "nat \<Rightarrow> Rule list \<Rightarrow> goerr option" where
  "assert_check idx [] = None"
| "assert_check idx (rule # rules) =
     (if TrimSpace (ru_Metric rule) = [] then Some (Errorf ''rules[%d].metric is required'' [ArgI (int idx)])
      else if TrimSpace (ru_Op rule) = [] then Some (Errorf ''rules[%d].op is required'' [ArgI (int idx)])
      else assert_check (Suc idx) rules)"

definition assert_Validate :: "Rule list result \<Rightarrow> goerr option" where
  "assert_Validate decoded = (case decoded of Inl err \<Rightarrow> Some err | Inr rules \<Rightarrow> assert_check 0 rules)"

definition metricValue :: "Summary \<Rightarrow> string \<Rightarrow> float64 result" where
  "metricValue summary metric =
     (let m = TrimSpace metric in
      if m = ''sendack_error_rate'' then Inr (SendackErrorRate summary)
      else if m = ''sendack_ok'' then Inr (float_of_word (sm_SendackOK summary))
      else if m = ''sendack_errors'' then Inr (float_of_word (sm_SendackErrors summary))
      else Inl (Errorf ''unsupported assertion metric %q'' [ArgS metric]))"

definition compare :: "float64 \<Rightarrow> string \<Rightarrow> float64 \<Rightarrow> bool" where
  "compare got op want =
     (let p = TrimSpace op in
      if p = ''eq'' then feq got want
      else if p = ''lt'' then got < want
      else if p = ''lte'' then got \<le> want
      else if p = ''gt'' then want < got
      else if p = ''gte'' then want \<le> got
      else False)"

definition failure_text :: "(float64 \<Rightarrow> string) \<Rightarrow> Rule \<Rightarrow> float64 \<Rightarrow> string" where
  "failure_text fmt_g rule value =
     ru_Metric rule @ '' '' @ ru_Op rule @ '' '' @ fmt_g (ru_Value rule) @ '' failed: got '' @ fmt_g value"

fun assert_loop :: "(float64 \<Rightarrow> string) \<Rightarrow> Summary \<Rightarrow> Rule list \<Rightarrow> AssertResult \<Rightarrow> AssertResult result" where
  "assert_loop fmt_g summary [] res = Inr res"
| "assert_loop fmt_g summary (rule # rules) res =
     (case metricValue summary (ru_Metric rule) of
        Inl err \<Rightarrow> Inl err
      | Inr value \<Rightarrow>
          assert_loop fmt_g summary rules
            (if \<not> compare value (ru_Op rule) (ru_Value rule)
             then res\<lparr>rs_Passed := False, rs_Failures := rs_Failures res @ [failure_text fmt_g rule value]\<rparr>
             else res))"

definition assert_Run :: "(float64 \<Rightarrow> string) \<Rightarrow> (unit_value \<Rightarrow> string result) \<Rightarrow> (unit_value, Summary) typed \<Rightarrow>
    Rule list result \<Rightarrow> unit_value TestRunEnv \<Rightarrow> goerr option \<times> unit_value TestRunEnv" where
  "assert_Run fmt_g Marshal t decoded env =
     (case decoded of
        Inl err \<Rightarrow> (Some err, env)
      | Inr rules \<Rightarrow>
          (case Input_typed Marshal t ''summary'' env of
             Inl err \<Rightarrow> (Some err, env)
           | Inr summary \<Rightarrow>
               (case assert_loop fmt_g summary rules \<lparr>rs_Passed = True, rs_Failures = []\<rparr> of
                  Inl err \<Rightarrow> (Some err, env)
                | Inr res \<Rightarrow>
                    (let env = te_SetOutput ''result'' (ResultV res) env
                     in if \<not> rs_Passed res
                        then (Some (Errorf ''assertions failed: %s'' [ArgS (strings_Join (rs_Failures res) ''; '')]), env)
                        else (None, env)))))"

section \<open>Rules\<close>

text \<open>A rule by its meaning: which metrics exist, and when the rule holds of a summary.\<close>

definition rule_known :: "Rule \<Rightarrow> bool" where
  "rule_known r \<longleftrightarrow> TrimSpace (ru_Metric r) \<in> {''sendack_error_rate'', ''sendack_ok'', ''sendack_errors''}"

definition rule_holds :: "Summary \<Rightarrow> Rule \<Rightarrow> bool" where
  "rule_holds s r \<longleftrightarrow> (case metricValue s (ru_Metric r) of Inl _ \<Rightarrow> False | Inr v \<Rightarrow> compare v (ru_Op r) (ru_Value r))"

definition rule_failure :: "(float64 \<Rightarrow> string) \<Rightarrow> Summary \<Rightarrow> Rule \<Rightarrow> string" where
  "rule_failure fmt_g s r = (case metricValue s (ru_Metric r) of Inl _ \<Rightarrow> [] | Inr v \<Rightarrow> failure_text fmt_g r v)"

lemma metricValue_known: "rule_known r \<longleftrightarrow> (\<exists>v. metricValue s (ru_Metric r) = Inr v)"
  by (auto simp: rule_known_def metricValue_def Let_def)

lemma assert_loop_known:
  "list_all rule_known rules \<Longrightarrow> assert_loop fmt_g s rules res =
   Inr \<lparr>rs_Passed = (rs_Passed res \<and> list_all (rule_holds s) rules),
        rs_Failures = rs_Failures res @ map (rule_failure fmt_g s) (filter (\<lambda>r. \<not> rule_holds s r) rules)\<rparr>"
proof (induction rules arbitrary: res)
  case (Cons r rules)
  from Cons.prems obtain v where v: "metricValue s (ru_Metric r) = Inr v" using metricValue_known by auto
  have h: "rule_holds s r = compare v (ru_Op r) (ru_Value r)" "rule_failure fmt_g s r = failure_text fmt_g r v"
    by (simp_all add: rule_holds_def rule_failure_def v)
  from Cons show ?case by (auto simp: v h)
qed simp

lemma assert_loop_unknown:
  "\<not> list_all rule_known rules \<Longrightarrow> \<exists>e. assert_loop fmt_g s rules res = Inl e"
proof (induction rules arbitrary: res)
  case (Cons r rules)
  then show ?case using metricValue_known [of r s] by (cases "metricValue s (ru_Metric r)") auto
qed simp

section \<open>The error rate\<close>

lemma int_63_nat_64: "int n < 2 ^ 63 \<Longrightarrow> n < 2 ^ 64"
  by simp

lemma uint_0_iff: "uint w = 0 \<longleftrightarrow> w = 0"
  by (auto simp: word_uint_eq_iff)

lemma float_of_word_pos:
  assumes "w \<noteq> 0"
  obtains a where "float_of_word w = Fin a" and "1 / 2 \<le> a" and "a \<le> 2 ^ 65"
proof -
  define n where "n = uint w"
  have "n \<noteq> 0" using assms by (auto simp: n_def word_uint_eq_iff)
  moreover have "0 \<le> n" by (simp add: n_def)
  ultimately have lo: "1 \<le> n" by simp
  have hi: "n < 2 ^ 64" using uint_lt2p [of w] by (simp add: n_def)
  have n1: "(1::rat) \<le> of_int n" using lo by simp
  moreover have "pow2 (- 1074) \<le> 1" using pow2_mono [of "- 1074" 0] by (simp add: pow2_def)
  ultimately have l: "pow2 (- 1074) \<le> of_int n" by (rule order_trans [rotated])
  have "rat_of_int n < of_int (2 ^ 64)" using hi by (simp only: of_int_less_iff)
  then have h64: "rat_of_int n < 2 ^ 64" by simp
  also have "(2 :: rat) ^ 64 \<le> 2 ^ 1023" by (rule power_increasing) simp_all
  finally have h: "rat_of_int n < 2 ^ 1023" .
  obtain a where a: "fround (of_int n) = Fin a" "of_int n / 2 \<le> a" "a \<le> 2 * of_int n"
    by (rule fround_bounds [OF l h])
  have "1 / 2 \<le> a" using a(2) n1 by simp
  moreover have "a \<le> 2 ^ 65" using a(3) h64 by simp
  moreover have "float_of_word w = Fin a" using a(1) by (simp only: float_of_word_def float_of_int_def n_def)
  ultimately show ?thesis using that by blast
qed

text \<open>As long as the counters do not wrap, the error rate is zero exactly if no send failed.\<close>

lemma SendackErrorRate_0:
  assumes "unat (sm_SendackOK s) + unat (sm_SendackErrors s) < 2 ^ 64"
  shows "SendackErrorRate s = Fin 0 \<longleftrightarrow> sm_SendackErrors s = 0"
proof -
  let ?t = "sm_SendackOK s + sm_SendackErrors s"
  have t: "unat ?t = unat (sm_SendackOK s) + unat (sm_SendackErrors s)"
    using assms by (simp add: unat_word_ariths)
  show ?thesis
  proof (cases "sm_SendackErrors s = 0")
    case True
    show ?thesis
    proof (cases "?t = 0")
      case False
      then obtain b where "float_of_word ?t = Fin b" "1 / 2 \<le> b" by (rule float_of_word_pos)
      with True False show ?thesis by (simp add: SendackErrorRate_def Let_def float_of_word_def)
    qed (simp add: SendackErrorRate_def True zero_float64_def)
  next
    case False
    then have "?t \<noteq> 0" using t by (metis add_is_0 unat_0 unat_eq_zero)
    from False obtain a where a: "float_of_word (sm_SendackErrors s) = Fin a" "1 / 2 \<le> a" "a \<le> 2 ^ 65" by (rule float_of_word_pos)
    from \<open>?t \<noteq> 0\<close> obtain b where b: "float_of_word ?t = Fin b" "1 / 2 \<le> b" "b \<le> 2 ^ 65" by (rule float_of_word_pos)
    have "(1/2) / 2 ^ 65 \<le> a / b" using a b by (intro frac_le) simp_all
    moreover have "pow2 (- 1074) \<le> (1/2) / 2 ^ 65" using pow2_mono [of "- 1074" "- 66"] by (simp add: pow2_def)
    ultimately have lo: "pow2 (- 1074) \<le> a / b" by (rule order_trans [rotated])
    have "a / b \<le> 2 ^ 65 / (1/2)" using a b by (intro frac_le) simp_all
    also have "(2::rat) ^ 65 / (1/2) = 2 ^ 66" by simp
    also have "(2::rat) ^ 66 < 2 ^ 1023" by (rule power_strict_increasing) simp_all
    finally have hi: "a / b < 2 ^ 1023" .
    obtain r where r: "fround (a / b) = Fin r" "a / b / 2 \<le> r" by (rule fround_bounds [OF lo hi])
    have "0 < a / b" using a(2) b(2) by simp
    with r have "r \<noteq> 0" by auto
    with a b r \<open>?t \<noteq> 0\<close> False show ?thesis by (simp add: SendackErrorRate_def Let_def)
  qed
qed

section \<open>Verdicts\<close>

definition verdict :: "(float64 \<Rightarrow> string) \<Rightarrow> Summary \<Rightarrow> Rule list \<Rightarrow> AssertResult" where
  "verdict fmt_g s rules =
     \<lparr>rs_Passed = list_all (rule_holds s) rules,
      rs_Failures = map (rule_failure fmt_g s) (filter (\<lambda>r. \<not> rule_holds s r) rules)\<rparr>"

lemma assert_Run_known:
  assumes "Input_typed M t ''summary'' env = Inr s" and "list_all rule_known rules"
  shows "assert_Run fmt_g M t (Inr rules) env =
    (if list_all (rule_holds s) rules then None
     else Some (Errorf ''assertions failed: %s'' [ArgS (strings_Join (rs_Failures (verdict fmt_g s rules)) ''; '')]),
     te_SetOutput ''result'' (ResultV (verdict fmt_g s rules)) env)"
  using assms by (simp add: assert_Run_def assert_loop_known verdict_def Let_def)

text \<open>
  The verdict of a report. With the summary present and only known metrics, the assertion unit fails exactly if some rule does not hold of the
  summary, and publishes as result whether all hold and a text for each rule that does not, in the order of the rules. With an
  unknown metric it fails without publishing a result.
\<close>

theorem assert_verdict:
  assumes "Input_typed M t ''summary'' env = Inr s" and "assert_Run fmt_g M t (Inr rules) env = (err, env')"
  shows "(list_all rule_known rules \<and>
      (err = None \<longleftrightarrow> list_all (rule_holds s) rules) \<and>
      te_Output ''result'' env' = Some (ResultV (verdict fmt_g s rules))) \<or>
    (\<not> list_all rule_known rules \<and> err \<noteq> None \<and> env' = env)"
proof (cases "list_all rule_known rules")
  case True
  then show ?thesis using assms(2) assert_Run_known [OF assms(1) True, of fmt_g]
    by (cases "list_all (rule_holds s) rules") (auto simp: tenv_out.get_put)
next
  case False
  then obtain e where "assert_loop fmt_g s rules \<lparr>rs_Passed = True, rs_Failures = []\<rparr> = Inl e"
    using assert_loop_unknown by blast
  with False assms show ?thesis by (auto simp: assert_Run_def)
qed

definition error_free :: "Rule" where
  "error_free = \<lparr>ru_Metric = ''sendack_error_rate'', ru_Op = ''eq'', ru_Value = 0\<rparr>"

lemma error_free_rule:
  "rule_known error_free" "rule_holds s error_free \<longleftrightarrow> SendackErrorRate s = Fin 0"
proof -
  have m: "TrimSpace (ru_Metric error_free) = ''sendack_error_rate''" "TrimSpace (ru_Op error_free) = ''eq''"
    by (simp_all add: error_free_def) code_simp+
  show "rule_known error_free" by (simp add: rule_known_def m)
  show "rule_holds s error_free \<longleftrightarrow> SendackErrorRate s = Fin 0"
    by (simp add: rule_holds_def metricValue_def compare_def m Let_def feq_def)
      (auto simp: error_free_def zero_float64_def)
qed

lemma assert_error_free:
  assumes "Input_typed M t ''summary'' env = Inr s" and "unat (sm_SendackOK s) + unat (sm_SendackErrors s) < 2 ^ 64"
  shows "fst (assert_Run fmt_g M t (Inr [error_free]) env) = None \<longleftrightarrow> sm_SendackErrors s = 0"
  using assert_Run_known [OF assms(1), of "[error_free]" fmt_g] SendackErrorRate_0 [OF assms(2)]
  by (simp add: error_free_rule)

text \<open>
  Measured and asserted. When the summary of a finished send unit is wired into an assertion unit with the rule that the error rate is zero,
  the assertion passes exactly if no send of the run was counted as failed, however large the run.
\<close>

theorem send_then_assert:
  assumes "send_Run oor M tt ts decode now ctxErr env = Inr (cf, s0)" and "send_reach cf s0 s"
    and "sd_pc s = Returned None" and "cf_messageCount cf < 2 ^ 63"
    and "te_Output ''summary'' (sd_env s) = Some v" and "fmlookup (te_inputs env2) ''summary'' = Some v"
    and "ty_assert t = as_summary"
  shows "fst (assert_Run fmt_g M2 t (Inr [error_free]) env2) = None \<longleftrightarrow>
    series ''sendack_error_total'' (sd_env s) = series ''sendack_error_total'' env"
proof -
  obtain sm where sm: "v = SummaryV sm"
    "int (unat (sm_SendackOK sm)) + int (unat (sm_SendackErrors sm)) = cf_messageCount cf"
    "series ''sendack_error_total'' (sd_env s) = series ''sendack_error_total'' env + int (unat (sm_SendackErrors sm))"
    using send_summary_facts [OF assms(1-4)] assms(5) by auto
  have i: "Input_typed M2 t ''summary'' env2 = Inr sm"
    by (rule Input_typed_value [OF assms(6)]) (simp add: assms(7) sm(1))
  have "int (unat (sm_SendackOK sm) + unat (sm_SendackErrors sm)) < 2 ^ 63"
    using sm(2) assms(4) by (simp only: of_nat_add)
  from assert_error_free [OF i int_63_nat_64 [OF this]] sm(3) show ?thesis by (simp add: uint_0_iff)
qed

text \<open>
  C17: The smoke scenario passes. Static groups with at least one channel and one member, the fake group sender, group traffic of any
  rate and any sender choice, and the assertion that the error rate is zero: every unit of this chain succeeds, every message is
  acknowledged, and the last message id is the number of messages.
\<close>

theorem smoke_scenario_passes:
  assumes "groups_Run dg e1 = (None, e1')" and "groups_Validate dg = None" and "te_Output ''groups'' e1' = Some gv"
    and "fake_group_Run e2 = (None, e2')" and "te_Output ''sender'' e2' = Some sv"
    and "fmlookup (te_inputs e3) ''channels'' = Some gv" and "fmlookup (te_inputs e3) ''sender'' = Some sv"
    and "ty_assert tg = as_groups" and "ty_assert ts = as_group_sender" and "ty_assert ta = as_summary"
    and "traffic_decodeSpec decode = Inr spec"
    and "totalMessages oor (sp_Rate spec) (te_runDuration e3) < 2 ^ 63"
  shows "\<exists>e3' sm. group_send_Run oor M tg ts decode fake_SendGroupAndWaitAck elapsed (e3, 0) =
      (None, e3', totalMessages oor (sp_Rate spec) (te_runDuration e3)) \<and>
    te_Output ''summary'' e3' = Some (SummaryV sm) \<and>
    int (unat (sm_SendackOK sm)) = totalMessages oor (sp_Rate spec) (te_runDuration e3) \<and> sm_SendackErrors sm = 0 \<and>
    sm_LastMessageID sm = totalMessages oor (sp_Rate spec) (te_runDuration e3) \<and>
    (\<forall>e4. fmlookup (te_inputs e4) ''summary'' = Some (SummaryV sm) \<longrightarrow>
       fst (assert_Run fmt_g M ta (Inr [error_free]) e4) = None)"
proof -
  let ?N = "totalMessages oor (sp_Rate spec) (te_runDuration e3)"
  have N: "int (nat ?N) = ?N" using totalMessages_pos [of oor "sp_Rate spec" "te_runDuration e3"] by simp
  obtain channels where gv: "gv = GroupsV channels" and us: "usable_groups channels"
    using assms(1-3) static_groups_usable
    by (auto simp: groups_Run_def groups_Validate_def tenv_out.get_put split: sum.splits if_splits)
  have sv: "sv = GroupSenderV fake_Client" using assms(4,5) by (auto simp: fake_group_Run_def tenv_out.get_put)
  have ic: "Input_typed M tg ''channels'' e3 = Inr channels"
    by (rule Input_typed_value [OF assms(6)]) (simp add: assms(8) gv)
  have iss: "Input_typed M ts ''sender'' e3 = Inr fake_Client"
    by (rule Input_typed_value [OF assms(7)]) (simp add: assms(9) sv)
  have pos: "0 < groups_Count channels" using us by (simp add: usable_groups_def)
  have "0 + int (nat ?N) < 2 ^ 63" using assms(12) N by simp
  moreover have "sm_LastMessageID zero_Summary = 0" by (simp add: zero_Summary_def)
  ultimately obtain env' sm where
    l: "group_loop (group_sendOne spec (effectiveAckTimeout spec) channels fake_Client fake_SendGroupAndWaitAck)
      (nat ?N) 0 e3 zero_Summary 0 = Inr (env', sm, 0 + int (nat ?N))"
    and c: "counted e3 (0 + nat ?N) 0 (env', sm)" and m: "sm_LastMessageID sm = 0 + int (nat ?N)"
    using fake_group_loop [OF us order_refl order_refl _ counted_zero [of e3], of "nat ?N" spec "effectiveAckTimeout spec"]
    by (elim impE exE conjE meta_impE) assumption+
  let ?sm = "sm\<lparr>sm_ElapsedMS := elapsedMilliseconds elapsed\<rparr>"
  have u: "unat (of_nat (nat ?N) :: 64 word) = nat ?N"
    by (rule conjunct1 [OF unat_sum_small [of "nat ?N" 0]]) (use assms(12) N in simp)
  have ok: "int (unat (sm_SendackOK ?sm)) = ?N" "sm_SendackErrors ?sm = 0" "sm_LastMessageID ?sm = ?N"
    using c m u N by (simp_all add: counted_def)
  have "fst (assert_Run fmt_g M ta (Inr [error_free]) e4) = None"
    if "fmlookup (te_inputs e4) ''summary'' = Some (SummaryV ?sm)" for e4
  proof -
    have i: "Input_typed M ta ''summary'' e4 = Inr ?sm"
      by (rule Input_typed_value [OF that]) (simp add: assms(10))
    have "unat (sm_SendackOK ?sm) + unat (sm_SendackErrors ?sm) < 2 ^ 64"
      using int_63_nat_64 [of "unat (sm_SendackOK ?sm)"] ok(1,2) assms(12) by (simp only: unat_0 add_0_right)
    from assert_error_free [OF i this] ok(2) show ?thesis by simp
  qed
  moreover note group_send_Run_loop [OF assms(11) ic iss pos l, of elapsed]
  ultimately show ?thesis using ok N
    by (intro exI [of _ "te_SetOutput ''summary'' (SummaryV ?sm) env'"] exI [of _ ?sm]) (simp add: tenv_out.get_put)
qed

section \<open>Concrete runs\<close>

definition demo_g :: "float64 \<Rightarrow> string" where "demo_g x = (if x = Fin 0 then ''0'' else ''1'')"

definition demo_summary_t :: "(unit_value, Summary) typed" where
  "demo_summary_t = \<lparr>ty_assert = as_summary, ty_Unmarshal = no_json\<rparr>"

definition demo_assert_env :: "unit_value \<Rightarrow> unit_value TestRunEnv" where
  "demo_assert_env v = NewTestRunEnv ''r'' ''assert'' (fmupd ''summary'' v fmempty)"

lemma demo_assert_input: "fmlookup (te_inputs (demo_assert_env v)) ''summary'' = Some v"
  by (simp add: demo_assert_env_def NewTestRunEnv_def)

theorem assert_verdict_witness:
  "fst (assert_Run demo_g (\<lambda>_. no_json []) demo_summary_t (Inr [error_free]) (demo_assert_env (SummaryV zero_Summary))) = None"
proof -
  have i: "Input_typed (\<lambda>_. no_json []) demo_summary_t ''summary'' (demo_assert_env (SummaryV zero_Summary)) = Inr zero_Summary"
    by (rule Input_typed_value [OF demo_assert_input]) (simp add: demo_summary_t_def)
  obtain err env' where r: "assert_Run demo_g (\<lambda>_. no_json []) demo_summary_t (Inr [error_free])
      (demo_assert_env (SummaryV zero_Summary)) = (err, env')" by force
  have "list_all (rule_holds zero_Summary) [error_free]"
    by (simp add: error_free_rule SendackErrorRate_def zero_Summary_def zero_float64_def)
  with assert_verdict [OF i r] error_free_rule(1) show ?thesis by (simp add: r)
qed

theorem send_then_assert_witness:
  "\<exists>v. te_Output ''summary'' (sd_env demo_state7) = Some v \<and>
     (fst (assert_Run demo_g (\<lambda>_. no_json []) demo_summary_t (Inr [error_free]) (demo_assert_env v)) = None \<longleftrightarrow>
      series ''sendack_error_total'' (sd_env demo_state7) = series ''sendack_error_total'' demo_send_env)"
proof -
  have c: "cf_messageCount demo_cfg < 2 ^ 63" by (simp add: demo_cfg_def send_demo_eq)
  have p: "sd_pc demo_state7 = Returned None" and r: "send_reach demo_cfg demo_state0 demo_state7" using demo_reach by simp_all
  obtain v where v: "te_Output ''summary'' (sd_env demo_state7) = Some v"
    using send_summary_facts [OF demo_run_start r p c] by blast
  have ty: "ty_assert demo_summary_t = as_summary" by (simp add: demo_summary_t_def)
  show ?thesis
    by (intro exI [of _ v] conjI v send_then_assert [OF demo_run_start r p c v demo_assert_input ty])
qed

theorem smoke_scenario_passes_witness:
  "\<exists>e3' sm. group_send_Run (\<lambda>_. 0) (\<lambda>_. no_json []) \<lparr>ty_assert = as_groups, ty_Unmarshal = no_json\<rparr>
      \<lparr>ty_assert = as_group_sender, ty_Unmarshal = no_json\<rparr> demo_send_spec fake_SendGroupAndWaitAck 5
      (NewTestRunEnv ''r'' ''traffic'' (fmupd ''channels'' (GroupsV \<lparr>gs_Items = channel_loop
          \<lparr>sg_Count = 2, sg_MembersPerChannel = 3, sg_ChannelPrefix = ''group'', sg_UIDPrefix = ''user''\<rparr> 2 0 0 []\<rparr>)
        (fmupd ''sender'' (GroupSenderV fake_Client) fmempty)), 0) = (None, e3', 1) \<and>
    sm_SendackErrors sm = 0 \<and> te_Output ''summary'' e3' = Some (SummaryV sm)"
proof -
  let ?spec = "\<lparr>sg_Count = 2, sg_MembersPerChannel = 3, sg_ChannelPrefix = ''group'', sg_UIDPrefix = ''user''\<rparr>"
  let ?gv = "GroupsV \<lparr>gs_Items = channel_loop ?spec 2 0 0 []\<rparr>" and ?sv = "GroupSenderV fake_Client"
  let ?e1 = "NewTestRunEnv ''r'' ''g'' fmempty :: unit_value TestRunEnv"
  let ?e3 = "NewTestRunEnv ''r'' ''traffic'' (fmupd ''channels'' ?gv (fmupd ''sender'' ?sv fmempty))"
  have d: "groups_decodeSpec demo_groups_spec = Inr ?spec" by code_simp
  have g: "groups_Run demo_groups_spec ?e1 = (None, te_SetOutput ''groups'' ?gv ?e1)" by (simp add: groups_Run_def d)
  have v: "groups_Validate demo_groups_spec = None" by (simp add: groups_Validate_def d)
  have s: "traffic_decodeSpec demo_send_spec = Inr \<lparr>sp_Rate = \<lparr>rt_PerSecond = 1\<rparr>, sp_PayloadSize = 4, sp_SenderPick = [],
      sp_MaxInFlight = 0, sp_AckTimeout = 0\<rparr>"
    by (simp add: traffic_decodeSpec_def demo_send_spec_def)
  have c: "fmlookup (te_inputs ?e3) ''channels'' = Some ?gv" "fmlookup (te_inputs ?e3) ''sender'' = Some ?sv"
    "te_runDuration ?e3 = 1000000000"
    by (simp_all add: NewTestRunEnv_def)
  have "\<exists>e3' sm. group_send_Run (\<lambda>_. 0) (\<lambda>_. no_json []) \<lparr>ty_assert = as_groups, ty_Unmarshal = no_json\<rparr>
      \<lparr>ty_assert = as_group_sender, ty_Unmarshal = no_json\<rparr> demo_send_spec fake_SendGroupAndWaitAck 5 (?e3, 0) =
      (None, e3', totalMessages (\<lambda>_. 0) (sp_Rate \<lparr>sp_Rate = \<lparr>rt_PerSecond = 1\<rparr>, sp_PayloadSize = 4, sp_SenderPick = [],
      sp_MaxInFlight = 0, sp_AckTimeout = 0\<rparr>) (te_runDuration ?e3)) \<and>
      te_Output ''summary'' e3' = Some (SummaryV sm) \<and> sm_SendackErrors sm = 0"
    using smoke_scenario_passes [where oor = "\<lambda>_. 0" and M = "\<lambda>_. no_json []"
        and tg = "\<lparr>ty_assert = as_groups, ty_Unmarshal = no_json\<rparr>" and elapsed = 5 and fmt_g = demo_g
        and ts = "\<lparr>ty_assert = as_group_sender, ty_Unmarshal = no_json\<rparr>" and ta = demo_summary_t,
        OF g v tenv_out.get_put fake_group_Run_def tenv_out.get_put c(1,2) _ _ _ s]
    by (simp add: c(3) demo_total demo_summary_t_def) blast
  then show ?thesis by (simp add: c(3) demo_total) blast
qed

end
