(* ===== verification/Collector_Facts.thy ===== *)
theory Collector_Facts
  imports Metrics_Collector "HOL-Library.Multiset"
begin

text \<open>
  What the metrics collector guarantees: its summary accounts for every scrape, the kept series are the first
  ones seen with their last values (a refinement of the reference \<open>ref_latest\<close>), and the error threshold fires exactly at the
  first run of bad ticks that is long enough.
\<close>

section \<open>The latest samples\<close>

text \<open>The keys of a stream in the order of their first occurrence, and what the summary should keep of the stream.\<close>

definition firsts :: "'a list \<Rightarrow> 'a list" where
  "firsts ks = rev (remdups (rev ks))"

definition kept :: "(metricSample \<Rightarrow> string) \<Rightarrow> nat \<Rightarrow> metricSample list \<Rightarrow> string list" where
  "kept key m stream = take m (firsts (map key stream))"

definition ref_latest :: "(metricSample \<Rightarrow> string) \<Rightarrow> nat \<Rightarrow> metricSample list \<Rightarrow> metricSample gomap" where
  "ref_latest key m stream = map_collect key id (filter (\<lambda>s. key s \<in> set (kept key m stream)) stream) fmempty"

lemma firsts_snoc: "firsts (ks @ [k]) = (if k \<in> set ks then firsts ks else firsts ks @ [k])"
  by (simp add: firsts_def)

lemma firsts_facts [simp]: "set (firsts ks) = set ks" "distinct (firsts ks)"
  by (simp_all add: firsts_def)

lemma kept_snoc:
  "kept key m (ss @ [s]) =
   (if key s \<in> key ` set ss \<or> m \<le> length (firsts (map key ss)) then kept key m ss else kept key m ss @ [key s])"
  by (auto simp: kept_def firsts_snoc)

lemma map_collect_append: "map_collect k v (xs @ ys) m = map_collect k v ys (map_collect k v xs m)"
  by (induction xs arbitrary: m) auto

lemma kept_subset: "set (kept key m ss) \<subseteq> key ` set ss"
  using set_take_subset [of m "firsts (map key ss)"] by (simp add: kept_def)

lemma ref_latest_snoc:
  "ref_latest key m (ss @ [s]) =
   (if key s \<in> set (kept key m (ss @ [s])) then fmupd (key s) s (ref_latest key m ss) else ref_latest key m ss)"
proof -
  have "filter (\<lambda>x. key x \<in> set (kept key m (ss @ [s]))) ss = filter (\<lambda>x. key x \<in> set (kept key m ss)) ss"
    by (rule filter_cong) (auto simp: kept_snoc image_iff)
  then show ?thesis by (simp add: ref_latest_def map_collect_append)
qed

lemma fmdom_ref_latest: "fset (fmdom (ref_latest key m ss)) = set (kept key m ss)"
  using kept_subset [of key m ss] by (auto simp: ref_latest_def fmdom_map_collect)

lemma map_len_ref_latest: "map_len (ref_latest key m ss) = min m (length (firsts (map key ss)))"
proof -
  have "map_len (ref_latest key m ss) = length (kept key m ss)"
    unfolding map_len_card fmdom_ref_latest by (rule distinct_card) (simp add: kept_def)
  then show ?thesis by (simp add: kept_def min.commute)
qed

text \<open>The state of the collector after a stream of samples.\<close>

definition latest_of :: "JsonLib \<Rightarrow> int \<Rightarrow> metricSample list \<Rightarrow> 'v collector \<Rightarrow> bool" where
  "latest_of js m stream c \<longleftrightarrow>
     cl_latest c = ref_latest (sampleSeriesKey js) (nat m) stream \<and>
     fset (fmdom (cl_droppedSeries c)) = sampleSeriesKey js ` set stream - set (kept (sampleSeriesKey js) (nat m) stream) \<and>
     cl_droppedMetricNames c = int (length (firsts (map (sampleSeriesKey js) stream)) - nat m)"

lemma latest_of_sample:
  assumes "latest_of js m stream c"
  shows "latest_of js m (stream @ [s]) (record_sample js m s c)"
proof -
  let ?key = "sampleSeriesKey js" and ?n = "length (firsts (map (sampleSeriesKey js) stream))"
  note a = assms [unfolded latest_of_def]
  have lat: "(fmlookup (cl_latest c) (?key s) \<noteq> None) = (?key s \<in> set (kept ?key (nat m) stream))"
    using a fmdom_ref_latest [of ?key "nat m" stream] by (metis fmdom_notI fmdomI option.exhaust)
  have drp: "(fmlookup (cl_droppedSeries c) (?key s) \<noteq> None) =
      (?key s \<in> ?key ` set stream \<and> ?key s \<notin> set (kept ?key (nat m) stream))"
    using a by (metis DiffD1 DiffD2 DiffI fmdom_notI fmdomI option.exhaust)
  have len: "map_len (cl_latest c) = min (nat m) ?n" using a map_len_ref_latest by simp
  have inj: "?key s \<in> ?key ` set stream" if "?key s \<in> set (kept ?key (nat m) stream)"
    using that kept_subset by blast
  consider (old) "?key s \<in> set (kept ?key (nat m) stream)"
    | (dropped) "?key s \<notin> set (kept ?key (nat m) stream)" "?key s \<in> ?key ` set stream"
    | (room) "?key s \<notin> ?key ` set stream" "?n < nat m" | (full) "?key s \<notin> ?key ` set stream" "nat m \<le> ?n"
    by linarith
  then show ?thesis
  proof cases
    case old
    with inj have "?key s \<in> ?key ` set stream" by simp
    with old a lat show ?thesis
      by (auto simp: record_sample_def Let_def latest_of_def ref_latest_snoc kept_snoc firsts_snoc)
  next
    case dropped
    with a lat drp show ?thesis
      by (auto simp: record_sample_def Let_def latest_of_def ref_latest_snoc kept_snoc firsts_snoc)
  next
    case room
    with inj have nk: "?key s \<notin> set (kept ?key (nat m) stream)" by blast
    from room len have "int (map_len (cl_latest c)) < m" by simp
    with room nk a lat drp show ?thesis
      by (auto simp: record_sample_def Let_def latest_of_def ref_latest_snoc kept_snoc firsts_snoc)
  next
    case full
    with inj have nk: "?key s \<notin> set (kept ?key (nat m) stream)" by blast
    from full len have "\<not> int (map_len (cl_latest c)) < m" by simp
    with full nk a lat drp show ?thesis
      by (auto simp: record_sample_def Let_def latest_of_def ref_latest_snoc kept_snoc firsts_snoc)
  qed
qed

lemma latest_of_recordLatest:
  "latest_of js m stream c \<Longrightarrow> latest_of js m (stream @ ss) (recordLatest js m ss c)"
  unfolding recordLatest_def
proof (induction ss arbitrary: stream c)
  case (Cons s ss)
  from Cons.IH [OF latest_of_sample [OF Cons.prems, of s]] show ?case by simp
qed simp

section \<open>The accounts\<close>

text \<open>The scrapes of all nodes together.\<close>

definition node_total :: "(NodeScrapeSummary \<Rightarrow> int) \<Rightarrow> NodeScrapeSummary gomap \<Rightarrow> int" where
  "node_total f nodes = (\<Sum>a\<in>fset (fmdom nodes). f (the (fmlookup nodes a)))"

lemma node_total_upd:
  assumes "f \<lparr>ns_Address = addr, ns_Success = 0, ns_Errors = 0\<rparr> = 0"
  shows "node_total f (fmupd addr node nodes) = node_total f nodes - f (node_at addr nodes) + f node"
proof (cases "fmlookup nodes addr")
  case None
  then have "addr \<notin> fset (fmdom nodes)" by (simp add: fmlookup_dom_iff)
  then have "node_total f (fmupd addr node nodes) = f node + (\<Sum>a\<in>fset (fmdom nodes). f (the (fmlookup (fmupd addr node nodes) a)))"
    by (simp add: node_total_def)
  also have "(\<Sum>a\<in>fset (fmdom nodes). f (the (fmlookup (fmupd addr node nodes) a))) = node_total f nodes"
    unfolding node_total_def by (rule sum.cong) (use \<open>addr \<notin> _\<close> in auto)
  finally show ?thesis using None assms by (simp add: node_at_def)
next
  case (Some old)
  then have d: "addr \<in> fset (fmdom nodes)" by (simp add: fmdomI)
  then have dom: "fset (fmdom (fmupd addr node nodes)) = fset (fmdom nodes)" by auto
  have r: "(\<Sum>a\<in>fset (fmdom nodes) - {addr}. f (the (fmlookup (fmupd addr node nodes) a))) =
      (\<Sum>a\<in>fset (fmdom nodes) - {addr}. f (the (fmlookup nodes a)))"
    by (rule sum.cong) auto
  have "node_total f (fmupd addr node nodes) = f node + (\<Sum>a\<in>fset (fmdom nodes) - {addr}. f (the (fmlookup nodes a)))"
    unfolding node_total_def dom sum.remove [OF finite_fset d] r by simp
  moreover have "node_total f nodes = f old + (\<Sum>a\<in>fset (fmdom nodes) - {addr}. f (the (fmlookup nodes a)))"
    unfolding node_total_def sum.remove [OF finite_fset d] by (simp add: Some)
  ultimately show ?thesis using Some by (simp add: node_at_def)
qed

text \<open>
  Every scrape is in the artifact, in the latencies, and in the summary of its node; the selected samples
  are those of which the latest were taken.
\<close>

definition collector_inv :: "collector_cfg \<Rightarrow> 'v collector \<Rightarrow> bool" where
  "collector_inv cf c \<longleftrightarrow>
     int (length (cl_latencies c)) = node_total ns_Success (cl_nodes c) + node_total ns_Errors (cl_nodes c) \<and>
     length (cl_artifact c) = length (cl_latencies c) \<and>
     (\<exists>stream. int (length stream) = cl_selectedSamples c \<and>
        latest_of (cg_json cf) (cs_MaxSummaryMetrics (cg_spec cf)) stream c)"

lemma collector_inv_new: "collector_inv cf (newCollector env)"
proof -
  have "latest_of (cg_json cf) m [] (newCollector env)" for m
    by (simp add: latest_of_def newCollector_def ref_latest_def firsts_def)
  then show ?thesis
    by (auto simp: collector_inv_def newCollector_def node_total_def intro!: exI [of _ "[]"])
qed

lemma record_sample_frame:
  "cl_latencies (record_sample js m s c) = cl_latencies c" "cl_nodes (record_sample js m s c) = cl_nodes c"
  "cl_artifact (record_sample js m s c) = cl_artifact c" "cl_selectedSamples (record_sample js m s c) = cl_selectedSamples c"
  "cl_env (record_sample js m s c) = cl_env c"
  by (simp_all add: record_sample_def Let_def)

lemma recordLatest_frame [simp]:
  "cl_latencies (recordLatest js m ss c) = cl_latencies c" "cl_nodes (recordLatest js m ss c) = cl_nodes c"
  "cl_artifact (recordLatest js m ss c) = cl_artifact c" "cl_selectedSamples (recordLatest js m ss c) = cl_selectedSamples c"
  "cl_env (recordLatest js m ss c) = cl_env c"
  unfolding recordLatest_def by (induction ss arbitrary: c) (simp_all add: record_sample_frame)

lemma latest_of_frame:
  "cl_latest c' = cl_latest c \<Longrightarrow> cl_droppedSeries c' = cl_droppedSeries c \<Longrightarrow>
   cl_droppedMetricNames c' = cl_droppedMetricNames c \<Longrightarrow> latest_of js m stream c' = latest_of js m stream c"
  by (simp add: latest_of_def)

lemma collector_inv_result:
  assumes "collector_inv cf c"
  shows "collector_inv cf (recordResult cf addr result (c\<lparr>cl_artifact := cl_artifact c @ [line]\<rparr>))"
proof -
  let ?m = "cs_MaxSummaryMetrics (cg_spec cf)"
  obtain stream where st: "int (length stream) = cl_selectedSamples c" "latest_of (cg_json cf) ?m stream c"
    using assms by (auto simp: collector_inv_def)
  have tot: "int (length (cl_latencies c)) = node_total ns_Success (cl_nodes c) + node_total ns_Errors (cl_nodes c)"
    "length (cl_artifact c) = length (cl_latencies c)" using assms by (auto simp: collector_inv_def)
  show ?thesis
  proof (cases "nr_err result")
    case (Some e)
    let ?c = "recordResult cf addr result (c\<lparr>cl_artifact := cl_artifact c @ [line]\<rparr>)"
    have "latest_of (cg_json cf) ?m stream ?c"
      using st(2) by (subst latest_of_frame [of _ c]) (simp_all add: recordResult_def Let_def Some)
    moreover have "cl_selectedSamples ?c = cl_selectedSamples c" by (simp add: recordResult_def Let_def Some)
    moreover have "node_total ns_Success (cl_nodes ?c) + node_total ns_Errors (cl_nodes ?c) =
        node_total ns_Success (cl_nodes c) + node_total ns_Errors (cl_nodes c) + 1"
      by (simp add: recordResult_def Let_def Some node_total_upd)
    moreover have "length (cl_latencies ?c) = length (cl_latencies c) + 1" "length (cl_artifact ?c) = length (cl_artifact c) + 1"
      by (simp_all add: recordResult_def Let_def Some)
    ultimately show ?thesis using st(1) tot by (auto simp: collector_inv_def)
  next
    case None
    let ?c = "recordResult cf addr result (c\<lparr>cl_artifact := cl_artifact c @ [line]\<rparr>)"
    obtain c1 where c: "?c = recordLatest (cg_json cf) ?m (nr_samples result) c1" "cl_latest c1 = cl_latest c"
      "cl_droppedSeries c1 = cl_droppedSeries c" "cl_droppedMetricNames c1 = cl_droppedMetricNames c"
      "cl_nodes c1 = fmupd addr ((node_at addr (cl_nodes c))\<lparr>ns_Success := ns_Success (node_at addr (cl_nodes c)) + 1\<rparr>) (cl_nodes c)"
      "length (cl_latencies c1) = length (cl_latencies c) + 1" "length (cl_artifact c1) = length (cl_artifact c) + 1"
      "cl_selectedSamples c1 = cl_selectedSamples c + int (length (nr_samples result))"
      by (simp add: recordResult_def Let_def None)
    have "latest_of (cg_json cf) ?m stream c1" using st(2) latest_of_frame [OF c(2-4)] by simp
    from latest_of_recordLatest [OF this, of "nr_samples result"]
    have "latest_of (cg_json cf) ?m (stream @ nr_samples result) ?c" by (simp add: c(1))
    moreover have "node_total ns_Success (cl_nodes ?c) + node_total ns_Errors (cl_nodes ?c) =
        node_total ns_Success (cl_nodes c) + node_total ns_Errors (cl_nodes c) + 1"
      by (simp add: c(1,5) node_total_upd)
    ultimately show ?thesis using st(1) tot c(6-8)
      by (auto simp: collector_inv_def c(1) intro!: exI [of _ "stream @ nr_samples result"])
  qed
qed

lemma writeRecord_cases:
  obtains line where "writeRecord cf writeErr rec c = (None, c\<lparr>cl_artifact := cl_artifact c @ [line]\<rparr>)"
  | e where "writeRecord cf writeErr rec c = (Some e, c)"
  by (cases "cg_marshal cf rec"; cases writeErr) (auto simp: writeRecord_def)

lemma collector_inv_take_results:
  "collector_inv cf c \<Longrightarrow> take_results cf writes rs had c = (had', err, c') \<Longrightarrow> collector_inv cf c'"
proof (induction cf writes rs had c rule: take_results.induct)
  case (2 cf writes index addr result rest had c)
  consider line where "writeRecord cf (writes index) (nr_record result) c = (None, c\<lparr>cl_artifact := cl_artifact c @ [line]\<rparr>)"
    | e where "writeRecord cf (writes index) (nr_record result) c = (Some e, c)"
    by (rule writeRecord_cases)
  then show ?case
  proof cases
    case 1
    then show ?thesis
      using "2.IH" [OF 1 [symmetric] refl collector_inv_result [OF "2.prems"(1)]] "2.prems"(2) by simp
  next
    case 2
    with "2.prems" show ?thesis by simp
  qed
qed simp

lemma collector_inv_tick: "collector_inv cf c \<Longrightarrow> collector_inv cf (snd (snd (scrapeTick cf t c)))"
proof -
  assume i: "collector_inv cf c"
  then have j: "collector_inv cf (c\<lparr>cl_scrapeTicks := cl_scrapeTicks c + 1\<rparr>)"
    by (auto simp: collector_inv_def latest_of_def)
  show ?thesis using i collector_inv_take_results [OF j] by (simp add: scrapeTick_def) (metis prod.collapse)
qed

lemma collector_inv_loop: "collector_inv cf c \<Longrightarrow> collector_inv cf (snd (collector_loop cf ts n c))"
proof (induction ts arbitrary: n c)
  case (Cons t ts)
  obtain had err c' where t: "scrapeTick cf t c = (had, err, c')" by (metis prod_cases3)
  have i: "collector_inv cf c'" using collector_inv_tick [OF Cons.prems, of t] by (simp add: t)
  with Cons.IH show ?case by (simp add: t Let_def split: option.splits)
qed simp

lemma insert_sample_mset: "mset (insert_sample js x ys) = add_mset x (mset ys)"
  by (induction ys) auto

lemma sortMetricSamples_mset: "mset (sortMetricSamples js xs) = mset xs"
  unfolding sortMetricSamples_def by (induction xs) (simp_all add: insert_sample_mset)

lemma node_total_list:
  "sum_list (map f (map (\<lambda>addr. node_at addr nodes) (map_keys nodes))) = node_total f nodes"
proof -
  have "sum_list (map (f \<circ> (\<lambda>addr. node_at addr nodes)) (map_keys nodes)) = (\<Sum>a\<in>fset (fmdom nodes). f (node_at a nodes))"
    by (simp add: sum_list_distinct_conv_sum_set comp_def)
  also have "\<dots> = node_total f nodes"
    unfolding node_total_def by (rule sum.cong) (auto simp: node_at_def fmlookup_dom_iff)
  finally show ?thesis by simp
qed

section \<open>The threshold\<close>

definition bad_tick :: "collector_cfg \<Rightarrow> tick \<Rightarrow> bool" where
  "bad_tick cf t \<longleftrightarrow> list_ex (\<lambda>(index, addr, r). nr_err r \<noteq> None \<or> 0 < nr_parseErrors r) (scrape_all cf t)"

text \<open>A tick during which the context lives, and every record can be written.\<close>

definition quiet_tick :: "collector_cfg \<Rightarrow> tick \<Rightarrow> bool" where
  "quiet_tick cf t \<longleftrightarrow> \<not> tk_ctxBefore t \<and> \<not> tk_ctxAfter t \<and> \<not> tk_ctxWait t \<and>
     list_all (\<lambda>(index, addr, r). tk_write t index = None \<and> (\<exists>d. cg_marshal cf (nr_record r) = Inr d)) (scrape_all cf t)"

lemma take_results_quiet:
  "list_all (\<lambda>(index, addr, r). writes index = None \<and> (\<exists>d. cg_marshal cf (nr_record r) = Inr d)) rs \<Longrightarrow>
   \<exists>c'. take_results cf writes rs had c =
     (had \<or> list_ex (\<lambda>(index, addr, r). nr_err r \<noteq> None \<or> 0 < nr_parseErrors r) rs, None, c')"
proof (induction rs arbitrary: had c)
  case (Cons x rs)
  obtain index addr r where x: "x = (index, addr, r)" by (metis prod_cases3)
  from Cons.prems obtain d where "writes index = None" "cg_marshal cf (nr_record r) = Inr d" by (auto simp: x)
  then have w: "writeRecord cf (writes index) (nr_record r) c = (None, c\<lparr>cl_artifact := cl_artifact c @ [d @ [CHR 0x0A]]\<rparr>)"
    by (simp add: writeRecord_def)
  let ?c = "recordResult cf addr r (c\<lparr>cl_artifact := cl_artifact c @ [d @ [CHR 0x0A]]\<rparr>)"
  let ?had = "if nr_err r \<noteq> None \<or> 0 < nr_parseErrors r then True else had"
  have "list_all (\<lambda>(index, addr, r). writes index = None \<and> (\<exists>d. cg_marshal cf (nr_record r) = Inr d)) rs"
    using Cons.prems by simp
  from Cons.IH [OF this, of ?had ?c] obtain c' where "take_results cf writes rs ?had ?c =
     (?had \<or> list_ex (\<lambda>(index, addr, r). nr_err r \<noteq> None \<or> 0 < nr_parseErrors r) rs, None, c')" by blast
  then show ?case by (simp only: x take_results.simps w prod.case option.case) auto
qed simp

lemma scrapeTick_quiet: "quiet_tick cf t \<Longrightarrow> \<exists>c'. scrapeTick cf t c = (bad_tick cf t, None, c')"
  using take_results_quiet [of "tk_write t" cf "scrape_all cf t" False "c\<lparr>cl_scrapeTicks := cl_scrapeTicks c + 1\<rparr>"]
  by (simp add: quiet_tick_def scrapeTick_def bad_tick_def)

definition threshold :: "collectorSpec \<Rightarrow> nat" where
  "threshold spec = max 1 (nat (cs_MaxConsecutiveErrors spec))"

definition threshold_error :: "nat \<Rightarrow> goerr" where
  "threshold_error n = Errorf ''scrape error threshold reached after %d consecutive tick(s)'' [ArgI (int n)]"

lemma run_after_good: "n < m \<Longrightarrow> sublist (replicate m True) (replicate n True @ False # bs) = sublist (replicate m True) bs"
proof (induction n)
  case 0
  then show ?case by (cases m) (auto simp: sublist_Cons_right)
next
  case (Suc n)
  have "\<not> prefix (replicate m True) (replicate (Suc n) True @ False # bs)"
  proof
    assume p: "prefix (replicate m True) (replicate (Suc n) True @ False # bs)"
    have "replicate m True ! Suc n = (replicate (Suc n) True @ False # bs) ! Suc n"
      using p Suc.prems by (metis length_replicate nth_append prefix_def)
    then show False using Suc.prems by (simp add: nth_append)
  qed
  with Suc show ?case by (simp add: sublist_Cons_right)
qed

lemma run_complete: "sublist (replicate m True) (replicate m True @ bs)"
  by (simp add: sublist_def) (metis append_Nil)

lemma run_none: "n < m \<Longrightarrow> \<not> sublist (replicate m True) (replicate n True)"
  using sublist_length_le [of "replicate m True" "replicate n True"] by auto

lemma collector_loop_threshold:
  assumes "cs_FailOnScrapeError (cg_spec cf)" and "0 \<le> cs_MaxConsecutiveErrors (cg_spec cf)"
  shows "list_all (quiet_tick cf) ts \<Longrightarrow> n < threshold (cg_spec cf) \<Longrightarrow>
    (if sublist (replicate (threshold (cg_spec cf)) True) (replicate n True @ map (bad_tick cf) ts)
     then fst (collector_loop cf ts n c) = Fatal (threshold_error (threshold (cg_spec cf)))
     else \<exists>k. fst (collector_loop cf ts n c) = Running k)"
proof (induction ts arbitrary: n c)
  case Nil
  then show ?case using run_none by simp
next
  case (Cons t ts)
  let ?m = "threshold (cg_spec cf)" and ?limit = "cs_MaxConsecutiveErrors (cg_spec cf)"
  have q: "quiet_tick cf t" using Cons.prems by simp
  obtain c' where t: "scrapeTick cf t c = (bad_tick cf t, None, c')" using scrapeTick_quiet [OF q] by blast
  have w: "\<not> tk_ctxAfter t" "\<not> tk_ctxWait t" using q by (simp_all add: quiet_tick_def)
  have lim: "(?limit = 0 \<or> ?limit \<le> int (Suc n)) = (?m \<le> Suc n)"
    using assms(2) by (auto simp: threshold_def)
  show ?case
  proof (cases "bad_tick cf t")
    case False
    have "0 < ?m" by (simp add: threshold_def)
    with Cons.IH [of 0 c'] Cons.prems t w False run_after_good [of n ?m] show ?thesis by (simp add: Let_def)
  next
    case True
    have r: "replicate n True @ map (bad_tick cf) (t # ts) = replicate (Suc n) True @ map (bad_tick cf) ts"
      by (simp add: True replicate_app_Cons_same)
    show ?thesis
    proof (cases "?m \<le> Suc n")
      case hit: True
      then have m: "?m = Suc n" using Cons.prems(2) by simp
      have "fst (collector_loop cf (t # ts) n c) = Fatal (threshold_error ?m)"
        using t w True lim hit assms(1) by (simp add: Let_def threshold_error_def m)
      moreover have "sublist (replicate ?m True) (replicate n True @ map (bad_tick cf) (t # ts))"
        unfolding r m by (rule run_complete)
      ultimately show ?thesis by simp
    next
      case False
      then have "Suc n < ?m" by simp
      have "collector_loop cf (t # ts) n c = collector_loop cf ts (Suc n) c'"
        using t w True lim False by (simp add: Let_def)
      with Cons.IH [OF _ \<open>Suc n < ?m\<close>, of c'] Cons.prems(1) show ?thesis unfolding r by simp
    qed
  qed
qed

section \<open>What a collector reports\<close>

text \<open>A kept series holds the last sample of that series.\<close>

lemma ref_latest_last:
  "k \<in> set (kept key m ss) \<Longrightarrow> fmlookup (ref_latest key m ss) k = Some (last (filter (\<lambda>s. key s = k) ss))"
proof (induction ss rule: rev_induct)
  case (snoc s ss)
  show ?case
  proof (cases "key s = k")
    case True
    with snoc.prems show ?thesis by (simp add: ref_latest_snoc)
  next
    case False
    with snoc.prems have k: "k \<in> set (kept key m ss)" by (auto simp: kept_snoc split: if_splits)
    with snoc.IH False show ?thesis by (simp add: ref_latest_snoc)
  qed
qed (simp add: kept_def firsts_def)

lemma latest_values:
  assumes "latest_of js m stream c"
  shows "mset (map (\<lambda>key. the (fmlookup (cl_latest c) key)) (map_keys (cl_latest c))) =
    mset (map (\<lambda>k. last (filter (\<lambda>s. sampleSeriesKey js s = k) stream)) (kept (sampleSeriesKey js) (nat m) stream))"
proof -
  let ?key = "sampleSeriesKey js"
  have l: "cl_latest c = ref_latest ?key (nat m) stream" using assms by (simp add: latest_of_def)
  have "mset (map_keys (cl_latest c)) = mset (kept ?key (nat m) stream)"
    unfolding l by (rule set_eq_iff_mset_eq_distinct [THEN iffD1]) (simp_all add: kept_def firsts_def fmdom_ref_latest [unfolded kept_def])
  then have "mset (map (\<lambda>key. the (fmlookup (cl_latest c) key)) (map_keys (cl_latest c))) =
      mset (map (\<lambda>key. the (fmlookup (cl_latest c) key)) (kept ?key (nat m) stream))"
    by (simp only: mset_map)
  also have "map (\<lambda>key. the (fmlookup (cl_latest c) key)) (kept ?key (nat m) stream) =
      map (\<lambda>k. last (filter (\<lambda>s. ?key s = k) stream)) (kept ?key (nat m) stream)"
    by (rule map_cong [OF refl]) (simp add: l ref_latest_last)
  finally show ?thesis .
qed

lemma run_loop_fields:
  assumes "c1 = snd (collector_loop cf ts 0 c)" and "c2 = collector_run cf ts c"
  shows "cl_artifact c2 = cl_artifact c1" "collector_summary oor js c2 = collector_summary oor js c1" "cl_finalized c2 = cl_finalized c1"
  using assms by (simp_all add: collector_run_def collector_summary_def split: prod.splits loop_end.splits)

lemma recordResult_finalized [simp]: "cl_finalized (recordResult cf addr r c) = cl_finalized c"
proof -
  have "cl_finalized (recordLatest js m ss c) = cl_finalized c" for js m ss and c :: "'a collector"
    unfolding recordLatest_def by (induction ss arbitrary: c) (simp_all add: record_sample_def Let_def)
  then show ?thesis by (simp add: recordResult_def Let_def)
qed

lemma take_results_finalized: "cl_finalized (snd (snd (take_results cf w rs had c))) = cl_finalized c"
proof (induction cf w rs had c rule: take_results.induct)
  case (2 cf writes index addr result rest had c)
  consider line where "writeRecord cf (writes index) (nr_record result) c = (None, c\<lparr>cl_artifact := cl_artifact c @ [line]\<rparr>)"
    | e where "writeRecord cf (writes index) (nr_record result) c = (Some e, c)"
    by (rule writeRecord_cases)
  then show ?case using "2.IH" by cases simp_all
qed simp

lemma loop_finalized: "cl_finalized (snd (collector_loop cf ts n c)) = cl_finalized c"
proof (induction ts arbitrary: n c)
  case (Cons t ts)
  obtain had err c' where t: "scrapeTick cf t c = (had, err, c')" by (metis prod_cases3)
  have "cl_finalized (snd (snd (scrapeTick cf t c))) = cl_finalized c"
    by (simp add: scrapeTick_def take_results_finalized)
  then have "cl_finalized c' = cl_finalized c" by (simp add: t)
  with Cons show ?case by (simp add: t Let_def split: option.splits)
qed simp


text \<open>
  C19: When scraping fails the run. While the context lives and records can be written, a collector that is told to fail on scrape errors ends
  with the threshold error exactly if there are as many bad ticks in a row as configured (at least
  one), and otherwise it keeps running.
\<close>

theorem collector_threshold_exact:
  assumes "cs_FailOnScrapeError (cg_spec cf)" and "0 \<le> cs_MaxConsecutiveErrors (cg_spec cf)"
    and "list_all (quiet_tick cf) ts"
  shows "(fst (collector_loop cf ts 0 c) = Fatal (threshold_error (threshold (cg_spec cf))) \<longleftrightarrow>
      sublist (replicate (threshold (cg_spec cf)) True) (map (bad_tick cf) ts)) \<and>
    ((\<exists>k. fst (collector_loop cf ts 0 c) = Running k) \<longleftrightarrow>
      \<not> sublist (replicate (threshold (cg_spec cf)) True) (map (bad_tick cf) ts))"
proof -
  have "0 < threshold (cg_spec cf)" by (simp add: threshold_def)
  from collector_loop_threshold [OF assms(1,2,3) this, of c] show ?thesis by (auto split: if_splits)
qed

section \<open>Two ticks\<close>

definition demo_json :: JsonLib where
  "demo_json = \<lparr>jl_pairs = (\<lambda>_. Inr []), jl_series = (\<lambda>n _. Inr n)\<rparr>"

definition demo_ccfg :: collector_cfg where
  "demo_ccfg = \<lparr>cg_oor = (\<lambda>_. 0), cg_lib = \<lparr>pl_ParseFloat = (\<lambda>_. Inr (Fin 1)), pl_ParseInt = (\<lambda>_. Inl index_panic),
       pl_Unquote = Inr, pl_Compile = (\<lambda>_. Inl index_panic)\<rparr>, cg_json = demo_json,
     cg_marshal = (\<lambda>r. Inr (sx_Address r)),
     cg_spec = \<lparr>cs_Interval = 1, cs_Timeout = 1, cs_Path = ''/metrics'', cs_Include = [], cs_Exclude = [],
       cs_FailOnScrapeError = True, cs_MaxConsecutiveErrors = 2, cs_MaxSummaryMetrics = 1\<rparr>,
     cg_filter = \<lparr>mf_include = [], mf_exclude = []\<rparr>, cg_addrs = [''http://a'']\<rparr>"

definition demo_tick :: "int \<Rightarrow> tick" where
  "demo_tick code = \<lparr>tk_ctxBefore = False,
     tk_node = (\<lambda>_ url. \<lparr>ev_timestamp = [], ev_elapsed = 0,
        ev_answer = (if url = ''http://a/metrics'' then Response code ''up 1'' None else DoError index_panic)\<rparr>),
     tk_write = (\<lambda>_. None), tk_ctxAfter = False, tk_ctxWait = False\<rparr>"

lemma demo_ticks: "quiet_tick demo_ccfg (demo_tick 500)" "bad_tick demo_ccfg (demo_tick 500)"
  by (simp_all add: quiet_tick_def bad_tick_def demo_ccfg_def demo_tick_def scrape_all_def metricsURL_def TrimRightByte_def
      TrimLeftByte_def scrapeNode_def scrape_failed_def Let_def)

theorem collector_threshold_exact_witness:
  "fst (collector_loop demo_ccfg [demo_tick 500, demo_tick 500] 0 (newCollector (NewTestRunEnv ''r'' ''m'' fmempty :: nat TestRunEnv))) =
   Fatal (threshold_error 2)"
proof -
  have s: "cs_FailOnScrapeError (cg_spec demo_ccfg)" "0 \<le> cs_MaxConsecutiveErrors (cg_spec demo_ccfg)"
    "threshold (cg_spec demo_ccfg) = 2"
    by (simp_all add: demo_ccfg_def threshold_def)
  have "list_all (quiet_tick demo_ccfg) [demo_tick 500, demo_tick 500]" by (simp add: demo_ticks)
  note exact = collector_threshold_exact [OF s(1,2) this]
  have "sublist (replicate 2 True) (map (bad_tick demo_ccfg) [demo_tick 500, demo_tick 500])"
    by (simp add: demo_ticks numeral_2_eq_2)
  then show ?thesis using exact unfolding s(3) by blast
qed


end
