(* ===== verification/Prom_Facts.thy ===== *)
theory Prom_Facts
  imports Prom_Text
begin

text \<open>
  The parser reads back what the exposition format writes: a reference printer of sample lines
  (\<open>render_sample\<close>), whatever the label values contain, and the parser on its output. Scanning is
  compositional: \<open>passes\<close> and \<open>label_passes\<close> say that a piece of text leaves the scanner where it was.
\<close>

section \<open>The exposition format\<close>

definition quote_char :: "char \<Rightarrow> string" where
  "quote_char c =
     (if c = CHR 0x22 then [CHR 0x5C, CHR 0x22] else if c = CHR 0x5C then [CHR 0x5C, CHR 0x5C]
      else if c = CHR 0x0A then [CHR 0x5C, CHR ''n''] else [c])"

definition quote_body :: "string \<Rightarrow> string" where
  "quote_body v = concat (map quote_char v)"

definition quote :: "string \<Rightarrow> string" where
  "quote v = [CHR 0x22] @ quote_body v @ [CHR 0x22]"

definition render_label :: "string \<times> string \<Rightarrow> string" where
  "render_label kv = fst kv @ ''='' @ quote (snd kv)"

definition render_expr :: "string \<Rightarrow> (string \<times> string) list \<Rightarrow> string" where
  "render_expr name ls =
     (if ls = [] then name else name @ ''{'' @ strings_Join (map render_label ls) '','' @ ''}'')"

definition render_sample :: "string \<Rightarrow> (string \<times> string) list \<Rightarrow> string \<Rightarrow> string" where
  "render_sample name ls raw = render_expr name ls @ '' '' @ raw"

lemma quote_body_simps [simp]: "quote_body [] = []" "quote_body (c # v) = quote_char c @ quote_body v"
  by (simp_all add: quote_body_def)

section \<open>Characters of names\<close>

lemma name_char_printable: "is_letter c \<or> is_digit c \<or> c = CHR ''_'' \<or> c = CHR '':'' \<Longrightarrow> printable c"
  by (auto simp: is_letter_def is_digit_def in_range_def printable_def)

lemma name_char_plain:
  assumes "is_letter c \<or> is_digit c \<or> c = CHR ''_'' \<or> c = CHR '':''"
  shows "c \<noteq> CHR 0x22" "c \<noteq> CHR '',''" "c \<noteq> CHR ''=''" "c \<noteq> CHR ''{''" "c \<noteq> CHR ''}''" "c \<noteq> CHR ''#''"
    "\<not> isASCIIWhitespace c"
  using assms by (auto simp: is_letter_def is_digit_def in_range_def isASCIIWhitespace_def)

lemma metric_name_chars: "isPrometheusMetricName name \<Longrightarrow> c \<in> set name \<Longrightarrow>
    is_letter c \<or> is_digit c \<or> c = CHR ''_'' \<or> c = CHR '':''"
  by (auto simp: isPrometheusMetricName_def list_all_iff split: list.splits)

lemma label_key_chars: "isPrometheusLabelKey key \<Longrightarrow> c \<in> set key \<Longrightarrow>
    is_letter c \<or> is_digit c \<or> c = CHR ''_'' \<or> c = CHR '':''"
  by (auto simp: isPrometheusLabelKey_def list_all_iff split: list.splits)

lemma name_nonempty: "isPrometheusMetricName name \<Longrightarrow> name \<noteq> []" "isPrometheusLabelKey key \<Longrightarrow> key \<noteq> []"
  by (auto simp: isPrometheusMetricName_def isPrometheusLabelKey_def)

section \<open>The value of a line\<close>

definition passes :: "string \<Rightarrow> bool" where
  "passes t \<longleftrightarrow> (\<forall>rest. cut_sample False False (t @ rest) = map_option (apfst ((@) t)) (cut_sample False False rest))"

lemma map_option_apfst: "map_option (apfst ((@) s)) (map_option (apfst ((@) t)) x) = map_option (apfst ((@) (s @ t))) x"
  by (cases x) auto

lemma passes_append: "passes s \<Longrightarrow> passes t \<Longrightarrow> passes (s @ t)"
  by (simp add: passes_def map_option_apfst)

lemma passes_Nil: "passes []"
  by (simp add: passes_def) (metis apfst_id id_def option.map_ident append_Nil ext)

lemma map_option_Cons: "map_option (apfst (Cons c)) (map_option (apfst ((@) t)) x) = map_option (apfst ((@) (c # t))) x"
  by (cases x) auto

lemma passes_plain: "c \<noteq> CHR 0x22 \<Longrightarrow> \<not> isASCIIWhitespace c \<Longrightarrow> passes t \<Longrightarrow> passes (c # t)"
  by (simp add: passes_def map_option_Cons)

lemma passes_plains: "list_all (\<lambda>c. c \<noteq> CHR 0x22 \<and> \<not> isASCIIWhitespace c) t \<Longrightarrow> passes t"
  by (induction t) (auto intro: passes_plain passes_Nil)

lemma cut_sample_quote_body:
  "cut_sample True False (quote_body v @ CHR 0x22 # rest) =
   map_option (apfst ((@) (quote_body v @ [CHR 0x22]))) (cut_sample False False rest)"
proof (induction v)
  case Nil
  show ?case by (cases "cut_sample False False rest") auto
next
  case (Cons c v)
  show ?case by (cases "cut_sample False False rest") (auto simp: quote_char_def Cons)
qed

lemma passes_quote: "passes (quote v)"
  using cut_sample_quote_body [of v] by (simp add: passes_def quote_def map_option_Cons)

lemma passes_label:
  assumes "isPrometheusLabelKey k"
  shows "passes (render_label (k, v))"
proof -
  have "passes k" using label_key_chars [OF assms] name_char_plain by (intro passes_plains) (auto simp: list_all_iff)
  moreover have "passes ''=''" by (intro passes_plains) (simp add: isASCIIWhitespace_def)
  ultimately show ?thesis unfolding render_label_def fst_conv snd_conv by (intro passes_append passes_quote)
qed

lemma passes_join:
  "list_all (\<lambda>kv. isPrometheusLabelKey (fst kv)) ls \<Longrightarrow> passes (strings_Join (map render_label ls) '','')"
proof (induction ls rule: induct_list012)
  case (3 a b ls)
  have "passes '',''" by (intro passes_plains) (simp add: isASCIIWhitespace_def)
  moreover have "passes (render_label a)" using 3(3) passes_label [of "fst a" "snd a"] by simp
  moreover have "passes (strings_Join (map render_label (b # ls)) '','')" using 3 by simp
  ultimately show ?case unfolding list.map strings_Join.simps by (intro passes_append)
qed (use passes_Nil passes_label in \<open>auto simp: prod.collapse\<close>)

lemma passes_expr:
  assumes "isPrometheusMetricName name" and "list_all (\<lambda>kv. isPrometheusLabelKey (fst kv)) ls"
  shows "passes (render_expr name ls)"
proof -
  have n: "passes name" using metric_name_chars [OF assms(1)] name_char_plain by (intro passes_plains) (auto simp: list_all_iff)
  have b: "passes ''{''" "passes ''}''" by (intro passes_plains; simp add: isASCIIWhitespace_def)+
  show ?thesis unfolding render_expr_def
    using n by (auto intro!: passes_append b passes_join assms(2) simp del: append.simps)
qed

lemma last_printable:
  "isPrometheusMetricName name \<Longrightarrow> printable (hd name) \<and> printable (last name)"
  "isPrometheusLabelKey key \<Longrightarrow> printable (hd key)"
  using metric_name_chars name_char_printable name_nonempty label_key_chars by (metis hd_in_set last_in_set)+

lemma render_expr_ends:
  assumes "isPrometheusMetricName name"
  shows "render_expr name ls \<noteq> []" "printable (hd (render_expr name ls))" "printable (last (render_expr name ls))"
  using last_printable(1) [OF assms] name_nonempty(1) [OF assms]
  by (auto simp: render_expr_def printable_def)

lemma strip_blank: "raw \<noteq> [] \<Longrightarrow> printable (hd raw) \<Longrightarrow> strip space_runes (CHR '' '' # raw) = raw"
proof -
  assume r: "raw \<noteq> []" "printable (hd raw)"
  have f: "find (\<lambda>w. w \<noteq> [] \<and> prefix w (CHR '' '' # raw)) space_runes = Some [CHR '' '']"
    by (simp add: space_runes_def)
  have "strip space_runes raw = raw"
    using printable_not_space [OF r(2), of "tl raw"] r(1) by (intro strip_done) simp
  then show ?thesis by (subst strip.simps) (simp only: f option.case, simp)
qed

lemma TrimSpace_blank: "raw \<noteq> [] \<Longrightarrow> list_all printable raw \<Longrightarrow> TrimSpace (CHR '' '' # raw) = raw"
proof -
  assume r: "raw \<noteq> []" "list_all printable raw"
  then have "printable (hd raw)" by (simp add: list_all_iff)
  with r have "strip space_runes (CHR '' '' # raw) = strip space_runes raw"
    using strip_blank TrimSpace_printable by (metis TrimSpace_def strip_idem)
  then have "TrimSpace (CHR '' '' # raw) = TrimSpace raw" by (simp add: TrimSpace_def)
  with TrimSpace_printable [OF r(2)] show ?thesis by simp
qed

lemma splitSampleLine_render:
  assumes "isPrometheusMetricName name" and "list_all (\<lambda>kv. isPrometheusLabelKey (fst kv)) ls"
    and "raw \<noteq> []" and "list_all printable raw"
  shows "splitSampleLine lib (render_sample name ls raw) = Some (render_expr name ls, raw)"
proof -
  have "cut_sample False False (render_sample name ls raw) = Some (render_expr name ls, CHR '' '' # raw)"
    using passes_expr [OF assms(1,2)] by (simp add: passes_def render_sample_def isASCIIWhitespace_def)
  then show ?thesis
    using TrimSpace_printable_ends [OF render_expr_ends [OF assms(1)]] TrimSpace_blank [OF assms(3,4)]
      Fields_printable [OF assms(4,3)] render_expr_ends(1) [OF assms(1)] assms(3)
    by (simp add: splitSampleLine_def)
qed

section \<open>Labels\<close>

lemma onto_Cons: "fst r \<noteq> [] \<Longrightarrow> onto [c] (onto t r) = onto (c # t) r"
  by (auto simp: onto_def split: prod.splits list.splits)

lemma onto_append: "fst r \<noteq> [] \<Longrightarrow> onto s (onto t r) = onto (s @ t) r"
  by (auto simp: onto_def split: prod.splits list.splits)

lemma onto_nonempty: "fst (onto t r) \<noteq> []"
  by (simp add: onto_def split: list.splits)

lemma cut_labels_nonempty: "fst (cut_labels q e s) \<noteq> []"
  by (cases s) (simp_all add: onto_nonempty)

definition label_passes :: "string \<Rightarrow> bool" where
  "label_passes t \<longleftrightarrow> (\<forall>rest. cut_labels False False (t @ rest) = onto t (cut_labels False False rest))"

lemma label_passes_append: "label_passes s \<Longrightarrow> label_passes t \<Longrightarrow> label_passes (s @ t)"
  using cut_labels_nonempty by (simp add: label_passes_def onto_append)

lemma label_passes_plains: "list_all (\<lambda>c. c \<noteq> CHR 0x22 \<and> c \<noteq> CHR '','') t \<Longrightarrow> label_passes t"
proof (induction t)
  case Nil
  have "onto [] r = r" if "fst r \<noteq> []" for r using that by (cases r) (auto simp: onto_def split: list.splits)
  then show ?case using cut_labels_nonempty by (simp add: label_passes_def)
next
  case (Cons c t)
  then show ?case using cut_labels_nonempty
    by (simp add: label_passes_def onto_Cons)
qed

lemma cut_labels_quote_body:
  "cut_labels True False (quote_body v @ CHR 0x22 # rest) =
   onto (quote_body v @ [CHR 0x22]) (cut_labels False False rest)"
proof (induction v)
  case Nil
  show ?case by (simp)
next
  case (Cons c v)
  then show ?case using cut_labels_nonempty [of False False rest]
    by (simp add: quote_char_def onto_append)
qed

lemma label_passes_label:
  assumes "isPrometheusLabelKey k"
  shows "label_passes (render_label (k, v))"
proof -
  have "label_passes k" using label_key_chars [OF assms] name_char_plain
    by (intro label_passes_plains) (auto simp: list_all_iff)
  moreover have "label_passes ''=''" by (intro label_passes_plains) simp
  moreover have "label_passes (quote v)" using cut_labels_quote_body [of v] cut_labels_nonempty
    by (simp add: label_passes_def quote_def onto_append)
  ultimately show ?thesis unfolding render_label_def fst_conv snd_conv by (intro label_passes_append)
qed

lemma cut_labels_join:
  "list_all (\<lambda>kv. isPrometheusLabelKey (fst kv)) ls \<Longrightarrow> ls \<noteq> [] \<Longrightarrow>
   cut_labels False False (strings_Join (map render_label ls) '','') = (map render_label ls, True)"
proof (induction ls rule: induct_list012)
  case (2 a)
  then have "label_passes (render_label a)" using label_passes_label [of "fst a" "snd a"] by simp
  then have "cut_labels False False (render_label a @ []) = onto (render_label a) (cut_labels False False [])"
    unfolding label_passes_def by blast
  then show ?case by (simp add: onto_def)
next
  case (3 a b ls)
  then have "label_passes (render_label a)" using label_passes_label [of "fst a" "snd a"] by simp
  with 3 show ?case by (simp add: label_passes_def onto_def)
qed simp

lemma render_label_ends:
  assumes "isPrometheusLabelKey (fst kv)"
  shows "render_label kv \<noteq> []" "hd (render_label kv) = hd (fst kv)" "last (render_label kv) = CHR 0x22"
  using name_nonempty(2) [OF assms] by (simp_all add: render_label_def quote_def)

lemma printable_quote [simp]: "printable (CHR 0x22)"
  by (simp add: printable_def)

lemma TrimSpace_label:
  assumes "isPrometheusLabelKey (fst kv)"
  shows "TrimSpace (render_label kv) = render_label kv"
  using render_label_ends [OF assms] last_printable(2) [OF assms] by (intro TrimSpace_printable_ends) simp_all

lemma TrimSpace_quote: "TrimSpace (quote v) = quote v"
  by (rule TrimSpace_printable_ends) (simp_all add: quote_def)

lemma splitLabelPairs_render:
  assumes "list_all (\<lambda>kv. isPrometheusLabelKey (fst kv)) ls" and "ls \<noteq> []"
  shows "splitLabelPairs (strings_Join (map render_label ls) '','') = Some (map render_label ls)"
  using cut_labels_join [OF assms] TrimSpace_label render_label_ends(1) assms(1)
  by (auto simp: splitLabelPairs_def list_ex_iff list_all_iff)

lemma parse_pairs_render:
  "list_all (\<lambda>kv. isPrometheusLabelKey (fst kv) \<and> pl_Unquote lib (quote (snd kv)) = Inr (snd kv)) ls \<Longrightarrow>
   distinct (map fst ls) \<Longrightarrow> (\<And>k. k \<in> fst ` set ls \<Longrightarrow> fmlookup m k = None) \<Longrightarrow>
   parse_pairs lib (map render_label ls) m = Some (map_collect fst snd ls m)"
proof (induction ls arbitrary: m)
  case (Cons kv ls)
  obtain k v where kv: "kv = (k, v)" by force
  have k: "isPrometheusLabelKey k" "pl_Unquote lib (quote v) = Inr v" using Cons.prems(1) by (simp_all add: kv)
  have "CHR ''='' \<notin> set k" using label_key_chars [OF k(1)] name_char_plain(3) by blast
  then have cut: "Cut (TrimSpace (render_label kv)) (CHR ''='') = (k, quote v, True)"
    using TrimSpace_label [of kv] k(1) Cut_append [of "CHR ''=''" k "quote v"] by (simp add: kv render_label_def)
  have tk: "TrimSpace k = k"
    using label_key_chars [OF k(1)] name_char_printable by (intro TrimSpace_printable) (auto simp: list_all_iff)
  have q: "\<not> length (quote v) < 2" "quote v ! 0 = CHR 0x22" "last (quote v) = CHR 0x22" by (simp_all add: quote_def)
  have "parse_pairs lib (map render_label ls) (fmupd k v m) = Some (map_collect fst snd ls (fmupd k v m))"
    using Cons.prems by (intro Cons.IH) (auto simp: kv)
  moreover have "fmlookup m k = None" using Cons.prems(3) by (simp add: kv)
  ultimately show ?case
    by (simp only: list.map parse_pairs.simps cut prod.case Let_def tk TrimSpace_quote q k) (simp add: kv k)
qed simp

lemma render_join_ends:
  assumes "list_all (\<lambda>kv. isPrometheusLabelKey (fst kv)) ls" and "ls \<noteq> []"
  defines "j \<equiv> strings_Join (map render_label ls) '',''"
  shows "j \<noteq> []" and "printable (hd j)" and "last j = CHR 0x22"
proof -
  have "j \<noteq> [] \<and> printable (hd j) \<and> last j = CHR 0x22"
    unfolding j_def using assms(1,2)
  proof (induction ls rule: induct_list012)
    case (2 a)
    then show ?case using render_label_ends [of a] last_printable(2) [of "fst a"] by simp
  next
    case (3 a b ls)
    then show ?case using render_label_ends [of a] last_printable(2) [of "fst a"] by simp
  qed simp
  then show "j \<noteq> []" and "printable (hd j)" and "last j = CHR 0x22" by simp_all
qed

lemma parseLabels_render:
  assumes "list_all (\<lambda>kv. isPrometheusLabelKey (fst kv) \<and> pl_Unquote lib (quote (snd kv)) = Inr (snd kv)) ls"
    and "distinct (map fst ls)" and "ls \<noteq> []"
  shows "parseLabels lib (strings_Join (map render_label ls) '','') = Some (map_collect fst snd ls fmempty)"
proof -
  have k: "list_all (\<lambda>kv. isPrometheusLabelKey (fst kv)) ls" using assms(1) by (simp add: list_all_iff)
  have "TrimSpace (strings_Join (map render_label ls) '','') = strings_Join (map render_label ls) '',''"
    using render_join_ends [OF k assms(3)] by (intro TrimSpace_printable_ends) simp_all
  then show ?thesis
    using render_join_ends(1) [OF k assms(3)] splitLabelPairs_render [OF k assms(3)] parse_pairs_render [OF assms(1,2), of fmempty]
    by (simp add: parseLabels_def)
qed

lemma parseMetricExpr_render:
  assumes "isPrometheusMetricName name"
    and "list_all (\<lambda>kv. isPrometheusLabelKey (fst kv) \<and> pl_Unquote lib (quote (snd kv)) = Inr (snd kv)) ls"
    and "distinct (map fst ls)"
  shows "parseMetricExpr lib (render_expr name ls) = Some (name, map_collect fst snd ls fmempty)"
proof -
  have n: "CHR ''{'' \<notin> set name" "CHR ''}'' \<notin> set name"
    using metric_name_chars [OF assms(1)] name_char_plain(4,5) by blast+
  show ?thesis
  proof (cases "ls = []")
    case True
    have "\<not> Contains name ''}''" using n(2) by (auto simp: Contains_def sublist_def)
    with True n show ?thesis by (simp add: parseMetricExpr_def render_expr_def IndexByte_None assms(1))
  next
    case False
    let ?j = "strings_Join (map render_label ls) '',''"
    have e: "render_expr name ls = name @ CHR ''{'' # (?j @ ''}'')" using False by (simp add: render_expr_def)
    have "suffix ''}'' (render_expr name ls)" by (simp add: e suffix_def)
    moreover have "take (length (render_expr name ls) - 1 - Suc (length name)) (drop (Suc (length name)) (render_expr name ls)) = ?j"
      by (simp add: e)
    moreover have "IndexByte (render_expr name ls) (CHR ''{'') = Some (length name)"
      unfolding e by (rule IndexByte_append [OF n(1)])
    moreover have "take (length name) (render_expr name ls) = name" by (simp add: e)
    ultimately show ?thesis using parseLabels_render [OF assms(2,3) False] assms(1)
      by (simp only: parseMetricExpr_def option.case Let_def) simp
  qed
qed

lemma parsePrometheusLine_render:
  assumes "isPrometheusMetricName name"
    and "list_all (\<lambda>kv. isPrometheusLabelKey (fst kv) \<and> pl_Unquote lib (quote (snd kv)) = Inr (snd kv)) ls"
    and "distinct (map fst ls)" and "raw \<noteq> []" and "list_all printable raw"
    and "pl_ParseFloat lib raw = Inr v" and "is_finite v"
  shows "parsePrometheusLine lib (render_sample name ls raw) =
    Some \<lparr>sa_Name = name, sa_Labels = map_collect fst snd ls fmempty, sa_Value = v\<rparr>"
proof -
  have k: "list_all (\<lambda>kv. isPrometheusLabelKey (fst kv)) ls" using assms(2) by (simp add: list_all_iff)
  show ?thesis
    using splitSampleLine_render [OF assms(1) k assms(4,5)] parseMetricExpr_render [OF assms(1-3)] assms(6,7)
      name_nonempty(1) [OF assms(1)]
    by (simp add: parsePrometheusLine_def)
qed

section \<open>Whole pages\<close>

text \<open>A series to write, with the text of its value; what the parser shall read; and the page.\<close>

type_synonym expo = "string \<times> (string \<times> string) list \<times> string"

definition expo_ok :: "PromLib \<Rightarrow> expo \<Rightarrow> bool" where
  "expo_ok lib = (\<lambda>(name, ls, raw).
     isPrometheusMetricName name \<and>
     list_all (\<lambda>kv. isPrometheusLabelKey (fst kv) \<and> pl_Unquote lib (quote (snd kv)) = Inr (snd kv)) ls \<and>
     distinct (map fst ls) \<and> raw \<noteq> [] \<and> list_all printable raw \<and>
     (case pl_ParseFloat lib raw of Inl _ \<Rightarrow> False | Inr v \<Rightarrow> is_finite v) \<and>
     length (render_sample name ls raw) < maxTokenSize)"

definition expo_sample :: "PromLib \<Rightarrow> expo \<Rightarrow> metricSample" where
  "expo_sample lib = (\<lambda>(name, ls, raw).
     \<lparr>sa_Name = name, sa_Labels = map_collect fst snd ls fmempty,
      sa_Value = (case pl_ParseFloat lib raw of Inl _ \<Rightarrow> 0 | Inr v \<Rightarrow> v)\<rparr>)"

definition expo_line :: "expo \<Rightarrow> string" where
  "expo_line = (\<lambda>(name, ls, raw). render_sample name ls raw)"

definition expo_page :: "expo list \<Rightarrow> string" where
  "expo_page es = concat (map (\<lambda>e. expo_line e @ [CHR 0x0A]) es)"

lemma newline_not_printable: "\<not> printable (CHR 0x0A)"
  by (simp add: printable_def)

lemma quote_no_newline: "CHR 0x0A \<notin> set (quote v)"
proof -
  have "CHR 0x0A \<notin> set (quote_body v)" by (induction v) (auto simp: quote_char_def)
  then show ?thesis by (simp add: quote_def)
qed

lemma join_chars: "set (strings_Join ps sep) \<subseteq> \<Union> (set ` set ps) \<union> set sep"
  by (induction ps sep rule: strings_Join.induct) auto

lemma render_label_no_newline: "isPrometheusLabelKey (fst kv) \<Longrightarrow> CHR 0x0A \<notin> set (render_label kv)"
  using label_key_chars name_char_printable newline_not_printable quote_no_newline by (auto simp: render_label_def)

lemma expo_line_shape:
  assumes "expo_ok lib e"
  shows "CHR 0x0A \<notin> set (expo_line e)" and "expo_line e \<noteq> []" and "printable (hd (expo_line e))"
    and "printable (last (expo_line e))" and "\<not> prefix ''#'' (expo_line e)"
proof -
  obtain name ls raw where e: "e = (name, ls, raw)" by (cases e)
  have n: "isPrometheusMetricName name" and k: "list_all (\<lambda>kv. isPrometheusLabelKey (fst kv)) ls"
    and raw: "raw \<noteq> []" "list_all printable raw"
    using assms by (auto simp: e expo_ok_def list_all_iff)
  have "CHR 0x0A \<notin> set (strings_Join (map render_label ls) '','')"
    using join_chars [of "map render_label ls" "'',''"] render_label_no_newline k by (fastforce simp: list_all_iff)
  moreover have "CHR 0x0A \<notin> set name" "CHR 0x0A \<notin> set raw"
    using metric_name_chars [OF n] name_char_printable newline_not_printable raw(2) by (auto simp: list_all_iff)
  ultimately show "CHR 0x0A \<notin> set (expo_line e)"
    by (auto simp: e expo_line_def render_sample_def render_expr_def)
  have l: "expo_line e = render_expr name ls @ CHR '' '' # raw" by (simp add: e expo_line_def render_sample_def)
  show "expo_line e \<noteq> []" "printable (hd (expo_line e))" "printable (last (expo_line e))"
    using render_expr_ends [OF n] raw by (auto simp: l list_all_iff)
  have "hd (render_expr name ls) = hd name" using name_nonempty(1) [OF n] by (simp add: render_expr_def)
  moreover have "hd name \<noteq> CHR ''#''"
    using metric_name_chars [OF n] name_char_plain(6) name_nonempty(1) [OF n] hd_in_set by blast
  ultimately show "\<not> prefix ''#'' (expo_line e)"
    using render_expr_ends(1) [OF n] by (cases "render_expr name ls") (auto simp: l)
qed

lemma printable_no_CR: "printable c \<Longrightarrow> c \<noteq> CHR 0x0D"
  by (auto simp: printable_def)

lemma scan_expo_page:
  "list_all (expo_ok lib) es \<Longrightarrow> scan_lines (expo_page es) = (map expo_line es, None)"
  unfolding scan_lines_def
proof (induction es)
  case (Cons e es)
  have e: "expo_ok lib e" using Cons.prems by simp
  have "Split (expo_page (e # es)) (CHR 0x0A) = expo_line e # Split (expo_page es) (CHR 0x0A)"
    using Split_append [OF expo_line_shape(1) [OF e]] by (simp add: expo_page_def)
  moreover have "length (expo_line e) < maxTokenSize" using e by (auto simp: expo_ok_def expo_line_def)
  moreover have "dropCR (expo_line e) = expo_line e"
    using printable_no_CR [OF expo_line_shape(4) [OF e]] by (simp add: dropCR_def)
  ultimately show ?case using Cons by simp
qed (simp add: expo_page_def maxTokenSize_def)

lemma expo_line_samples:
  assumes "expo_ok lib e"
  shows "line_errors lib (expo_line e) = 0" and
    "line_samples lib filt (expo_line e) =
       (if filter_match filt (sa_Name (expo_sample lib e)) then [expo_sample lib e] else [])"
proof -
  obtain name ls raw where e: "e = (name, ls, raw)" by (cases e)
  obtain v where v: "pl_ParseFloat lib raw = Inr v" "is_finite v"
    using assms by (auto simp: e expo_ok_def split: sum.splits)
  have p: "parsePrometheusLine lib (expo_line e) = Some (expo_sample lib e)"
    using parsePrometheusLine_render [of name lib ls raw v] assms v by (simp add: e expo_ok_def expo_line_def expo_sample_def)
  have t: "TrimSpace (expo_line e) = expo_line e"
    using expo_line_shape [OF assms] by (intro TrimSpace_printable_ends) simp_all
  show "line_errors lib (expo_line e) = 0" and "line_samples lib filt (expo_line e) =
       (if filter_match filt (sa_Name (expo_sample lib e)) then [expo_sample lib e] else [])"
    using expo_line_shape(2,5) [OF assms] by (simp_all add: line_errors_def line_samples_def t p)
qed

text \<open>
  C34: Metric pages are read back. A page of sample lines in the exposition format, with valid metric names and label names and any
  label values (commas, quotes, braces, blanks and line breaks included, escaped as the format asks), is parsed without an error into exactly the
  series that were written and that the filter lets through, in their order, provided that the library reads the escaped values and
  the numbers back and no line exceeds the scanner's buffer.
\<close>

theorem prometheus_page_round_trip:
  assumes "list_all (expo_ok lib) es"
  shows "parsePrometheusText lib filt (expo_page es) =
    (filter (\<lambda>s. filter_match filt (sa_Name s)) (map (expo_sample lib) es), 0)"
proof -
  have "sum_list (map (line_errors lib) (map expo_line es)) = 0 \<and>
    concat (map (line_samples lib filt) (map expo_line es)) =
      filter (\<lambda>s. filter_match filt (sa_Name s)) (map (expo_sample lib) es)"
    using assms by (induction es) (auto simp: expo_line_samples)
  then show ?thesis
    using scan_expo_page [OF assms]
    by (simp add: parsePrometheusText_def parsePrometheusReader_def parse_lines_map)
qed

text \<open>
  Whatever a server sends. From any bytes the parser returns only samples with a valid metric name, valid label names and a
  finite value that the filter lets through; every line that is not empty and not a comment is a sample, filtered out, or counted
  as one error.
\<close>

theorem prometheus_samples_well_formed:
  assumes "parsePrometheusReader lib filt data readErr = (samples, parseErrors, err)"
  shows "(\<forall>s\<in>set samples. sample_ok s \<and> filter_match filt (sa_Name s)) \<and> 0 \<le> parseErrors \<and>
    int (length samples) + parseErrors \<le>
      int (length (filter (\<lambda>l. TrimSpace l \<noteq> [] \<and> \<not> prefix ''#'' (TrimSpace l)) (fst (scan_lines data)))) \<and>
    (err = None \<longrightarrow> snd (scan_lines data) = None \<and> readErr = None)"
proof -
  obtain ls serr where sc: "scan_lines data = (ls, serr)" by force
  from assms have p: "samples = concat (map (line_samples lib filt) ls)" "parseErrors = sum_list (map (line_errors lib) ls)"
    "err = (case serr of Some e \<Rightarrow> Some e | None \<Rightarrow> readErr)"
    by (simp_all add: parsePrometheusReader_def sc parse_lines_map)
  have "\<forall>s\<in>set samples. sample_ok s \<and> filter_match filt (sa_Name s)"
    by (auto simp: p line_samples_def parsePrometheusLine_ok split: if_splits option.splits)
  moreover have "0 \<le> parseErrors" by (auto simp: p line_errors_def intro!: sum_list_nonneg split: option.splits)
  moreover have "int (length samples) + parseErrors \<le>
      int (length (filter (\<lambda>l. TrimSpace l \<noteq> [] \<and> \<not> prefix ''#'' (TrimSpace l)) ls))"
    unfolding p by (induction ls) (auto simp: line_samples_def line_errors_def split: option.splits)
  ultimately show ?thesis by (auto simp: sc p(3) split: option.splits)
qed

section \<open>A page\<close>

fun demo_unescape :: "string \<Rightarrow> string" where
  "demo_unescape (a # b # s) =
     (if a = CHR 0x5C then (if b = CHR ''n'' then CHR 0x0A else b) # demo_unescape s else a # demo_unescape (b # s))"
| "demo_unescape s = s"

definition demo_lib :: PromLib where
  "demo_lib = \<lparr>pl_ParseFloat = (\<lambda>s. if s = ''1'' then Inr (Fin 1) else Inl index_panic), pl_ParseInt = (\<lambda>_. Inl index_panic),
     pl_Unquote = (\<lambda>s. Inr (demo_unescape (butlast (tl s)))), pl_Compile = (\<lambda>_. Inl index_panic)\<rparr>"

definition demo_page :: "expo list" where
  "demo_page = [(''up'', [], ''1''), (''lat'', [(''le'', ''0,5'' @ [CHR 0x22, CHR 0x0A, CHR 0x5C]), (''p'', ''a}= b'')], ''1'')]"

lemma demo_page_ok: "list_all (expo_ok demo_lib) demo_page"
  by (simp add: demo_page_def expo_ok_def demo_lib_def isPrometheusMetricName_def isPrometheusLabelKey_def is_letter_def
      is_digit_def in_range_def quote_def quote_char_def printable_def is_finite_def render_sample_def render_expr_def
      render_label_def maxTokenSize_def)

theorem prometheus_page_round_trip_witness:
  "parsePrometheusText demo_lib \<lparr>mf_include = [], mf_exclude = [\<lambda>n. n = ''up'']\<rparr> (expo_page demo_page) =
   ([expo_sample demo_lib (demo_page ! 1)], 0)"
  unfolding prometheus_page_round_trip [OF demo_page_ok]
  by (simp add: demo_page_def expo_sample_def filter_match_def)

theorem prometheus_samples_well_formed_witness:
  "list_all sample_ok (fst (parsePrometheusReader demo_lib
     \<lparr>mf_include = [], mf_exclude = []\<rparr> (expo_page demo_page) None))"
proof -
  obtain samples n err where r: "parsePrometheusReader demo_lib \<lparr>mf_include = [], mf_exclude = []\<rparr> (expo_page demo_page) None =
    (samples, n, err)" by (metis prod_cases3)
  from prometheus_samples_well_formed [OF r] show ?thesis by (simp add: r list_all_iff)
qed

end
