(* ===== verification/Bench_Api.thy ===== *)
theory Bench_Api
  imports Traffic_Common
begin

text \<open>
  The client of the \<open>/bench/v1\<close> API (\<open>units/wukongim/internal/benchapi/client.go\<close>) and the units that prepare
  a server through it: \<open>wukongim.target/v1\<close>, \<open>wukongim.prepare_tokens/v1\<close>,
  \<open>wukongim.prepare_group_channels/v1\<close>. The HTTP client is a parameter that acts on a world \<open>'w\<close>;
  \<open>encoding/json\<close> is one as well, and a decoder works on the value it decodes into, as \<open>Decode\<close> does: after
  an error the value may have changed. A URL is the text the request is made from.
\<close>

section \<open>Requests\<close>

record HttpRequest =
  hq_Method :: string
  hq_URL :: string
  hq_Body :: "string option"
  hq_ContentType :: "string option"
  hq_Authorization :: "string option"

datatype http_answer =
    HttpError goerr
  | HttpResponse int string

record 'w http =
  ht_NewRequest :: "string \<Rightarrow> string \<Rightarrow> goerr option"
  ht_Do :: "HttpRequest \<Rightarrow> 'w \<Rightarrow> http_answer \<times> 'w"

record ApiConfig =
  ac_APIAddrs :: "string list"
  ac_Token :: string

definition api_addrs :: "ApiConfig \<Rightarrow> string list" where
  "api_addrs cfg = trimStrings (ac_APIAddrs cfg)"

definition api_request :: "ApiConfig \<Rightarrow> string \<Rightarrow> string \<Rightarrow> string option \<Rightarrow> HttpRequest" where
  "api_request cfg mth url body =
     \<lparr>hq_Method = mth, hq_URL = url, hq_Body = body,
      hq_ContentType = (if body \<noteq> None then Some ''application/json'' else None),
      hq_Authorization = (if ac_Token cfg \<noteq> [] then Some (''Bearer '' @ ac_Token cfg) else None)\<rparr>"

text \<open>A body is \<open>None\<close>, or what \<open>json.Marshal\<close> makes of it; a decoder is missing if \<open>out\<close> is nil.\<close>

definition doJSON :: "'w http \<Rightarrow> ApiConfig \<Rightarrow> string \<Rightarrow> string \<Rightarrow> string result option \<Rightarrow>
    (string \<Rightarrow> 'o \<Rightarrow> goerr option \<times> 'o) option \<Rightarrow> string \<Rightarrow> 'o \<times> 'w \<Rightarrow> goerr option \<times> 'o \<times> 'w" where
  "doJSON ht cfg mth path body decode base = (\<lambda>(out, w).
     (case body of
        Some (Inl err) \<Rightarrow> (Some err, out, w)
      | _ \<Rightarrow>
          (let data = (case body of Some (Inr d) \<Rightarrow> Some d | _ \<Rightarrow> None);
               url = TrimRightByte base (CHR ''/'') @ path
           in case ht_NewRequest ht mth url of
                Some err \<Rightarrow> (Some err, out, w)
              | None \<Rightarrow>
                  (case ht_Do ht (api_request cfg mth url data) w of
                     (HttpError err, w) \<Rightarrow> (Some err, out, w)
                   | (HttpResponse code text, w) \<Rightarrow>
                       if code < 200 \<or> 300 \<le> code
                       then (Some (Errorf ''%s %s returned status %d'' [ArgS mth, ArgS url, ArgI code]), out, w)
                       else (case decode of
                               None \<Rightarrow> (None, out, w)
                             | Some d \<Rightarrow> (case d text out of (err, out) \<Rightarrow> (err, out, w)))))))"

text \<open>\<open>getAny\<close> and \<open>postAny\<close>: the addresses in order until one request succeeds.\<close>

fun try_addrs :: "(string \<Rightarrow> 's \<Rightarrow> goerr option \<times> 's) \<Rightarrow> goerr \<Rightarrow> string list \<Rightarrow> 's \<Rightarrow> goerr option \<times> 's" where
  "try_addrs request failure [] s = (Some failure, s)"
| "try_addrs request failure (addr # addrs) s =
     (case request addr s of
        (None, s) \<Rightarrow> (None, s)
      | (Some _, s) \<Rightarrow> try_addrs request failure addrs s)"

definition getAny :: "'w http \<Rightarrow> ApiConfig \<Rightarrow> string \<Rightarrow> (string \<Rightarrow> 'o \<Rightarrow> goerr option \<times> 'o) option \<Rightarrow>
    'o \<times> 'w \<Rightarrow> goerr option \<times> 'o \<times> 'w" where
  "getAny ht cfg path decode =
     try_addrs (doJSON ht cfg ''GET'' path None decode)
       (Errorf ''all target api addresses failed for GET %s'' [ArgS path]) (api_addrs cfg)"

definition postAny :: "'w http \<Rightarrow> ApiConfig \<Rightarrow> string \<Rightarrow> string result \<Rightarrow> 'w \<Rightarrow> goerr option \<times> 'w" where
  "postAny ht cfg path body w =
     (case try_addrs (doJSON ht cfg ''POST'' path (Some body) None)
        (Errorf ''all target api addresses failed for POST %s'' [ArgS path]) (api_addrs cfg) ((), w) of
        (err, _, w) \<Rightarrow> (err, w))"

record Capabilities =
  cp_Enabled :: bool
  cp_Version :: string

definition zero_Capabilities :: Capabilities where
  "zero_Capabilities = \<lparr>cp_Enabled = False, cp_Version = []\<rparr>"

definition api_get :: "'w http \<Rightarrow> ApiConfig \<Rightarrow> string \<Rightarrow> 'w \<Rightarrow> goerr option \<times> 'w" where
  "api_get ht cfg path w = (case getAny ht cfg path None ((), w) of (err, _, w) \<Rightarrow> (err, w))"

definition Healthz :: "'w http \<Rightarrow> ApiConfig \<Rightarrow> 'w \<Rightarrow> goerr option \<times> 'w" where
  "Healthz ht cfg = api_get ht cfg ''/healthz''"

definition Readyz :: "'w http \<Rightarrow> ApiConfig \<Rightarrow> 'w \<Rightarrow> goerr option \<times> 'w" where
  "Readyz ht cfg = api_get ht cfg ''/readyz''"

definition api_Capabilities :: "'w http \<Rightarrow> ApiConfig \<Rightarrow> (string \<Rightarrow> Capabilities \<Rightarrow> goerr option \<times> Capabilities) \<Rightarrow>
    'w \<Rightarrow> Capabilities result \<times> 'w" where
  "api_Capabilities ht cfg decode w =
     (case getAny ht cfg ''/bench/v1/capabilities'' (Some decode) (zero_Capabilities, w) of
        (Some err, out, w) \<Rightarrow> (Inl err, w)
      | (None, out, w) \<Rightarrow> (Inr out, w))"

record UserTokenItem =
  ut_UID :: string
  ut_Token :: string

record BatchTokensRequest =
  bt_RunID :: string
  bt_BatchID :: string
  bt_Upsert :: bool
  bt_Users :: "UserTokenItem list"

record ChannelItem =
  ci_ChannelID :: string
  ci_ChannelType :: "8 word"
  ci_Large :: bool

record BatchChannelsRequest =
  bc_RunID :: string
  bc_BatchID :: string
  bc_Upsert :: bool
  bc_Channels :: "ChannelItem list"

record SubscriberItem =
  si_ChannelID :: string
  si_ChannelType :: "8 word"
  si_Subscribers :: "string list"

record BatchSubscribersRequest =
  bs_RunID :: string
  bs_BatchID :: string
  bs_Items :: "SubscriberItem list"

datatype api_body =
    TokensBody BatchTokensRequest
  | ChannelsBody BatchChannelsRequest
  | SubscribersBody BatchSubscribersRequest

definition UpsertTokens :: "'w http \<Rightarrow> (api_body \<Rightarrow> string result) \<Rightarrow> ApiConfig \<Rightarrow> BatchTokensRequest \<Rightarrow> 'w \<Rightarrow>
    goerr option \<times> 'w" where
  "UpsertTokens ht Marshal cfg req = postAny ht cfg ''/bench/v1/users/tokens'' (Marshal (TokensBody req))"

definition UpsertChannels :: "'w http \<Rightarrow> (api_body \<Rightarrow> string result) \<Rightarrow> ApiConfig \<Rightarrow> BatchChannelsRequest \<Rightarrow> 'w \<Rightarrow>
    goerr option \<times> 'w" where
  "UpsertChannels ht Marshal cfg req = postAny ht cfg ''/bench/v1/channels'' (Marshal (ChannelsBody req))"

definition AddSubscribers :: "'w http \<Rightarrow> (api_body \<Rightarrow> string result) \<Rightarrow> ApiConfig \<Rightarrow> BatchSubscribersRequest \<Rightarrow> 'w \<Rightarrow>
    goerr option \<times> 'w" where
  "AddSubscribers ht Marshal cfg req =
     postAny ht cfg ''/bench/v1/channels/subscribers'' (Marshal (SubscribersBody req))"

section \<open>wukongim.target/v1\<close>

record TargetSpec =
  gt_APIAddrs :: "string list"
  gt_GatewayTCPAddrs :: "string list"
  gt_BenchAPIToken :: string
  gt_OperationTimeout :: int
  gt_SkipReadiness :: bool
  gt_SkipCapabilities :: bool

definition TargetV1 :: string where "TargetV1 = ''port.target.endpoint/v1''"

definition target_Definition :: UnitDef where
  "target_Definition =
     \<lparr>ud_Kind = ''wukongim.target/v1'', ud_Title = ''WuKongIM target'',
      ud_Description = ''Produces black-box WuKongIM HTTP and WKProto endpoints.'',
      ud_Inputs = [], ud_Outputs = [plain_port ''target'' TargetV1], ud_Metrics = [], ud_Artifacts = []\<rparr>"

definition nonEmptyStrings :: "string list \<Rightarrow> string list" where
  "nonEmptyStrings items = trimStrings items"

definition target_decodeSpec :: "(TargetSpec \<Rightarrow> TargetSpec result) \<Rightarrow> TargetSpec result" where
  "target_decodeSpec decode =
     (case decode \<lparr>gt_APIAddrs = [], gt_GatewayTCPAddrs = [], gt_BenchAPIToken = [], gt_OperationTimeout = 0,
        gt_SkipReadiness = False, gt_SkipCapabilities = False\<rparr> of
        Inl err \<Rightarrow> Inl err
      | Inr spec \<Rightarrow>
          Inr (spec\<lparr>gt_APIAddrs := nonEmptyStrings (gt_APIAddrs spec),
                    gt_GatewayTCPAddrs := nonEmptyStrings (gt_GatewayTCPAddrs spec),
                    gt_BenchAPIToken := TrimSpace (gt_BenchAPIToken spec)\<rparr>))"

definition target_Validate :: "(TargetSpec \<Rightarrow> TargetSpec result) \<Rightarrow> goerr option" where
  "target_Validate decode =
     (case target_decodeSpec decode of
        Inl err \<Rightarrow> Some err
      | Inr spec \<Rightarrow>
          if gt_APIAddrs spec = [] then Some (Errorf ''api_addrs is required'' [])
          else if gt_GatewayTCPAddrs spec = [] then Some (Errorf ''gateway_tcp_addrs is required'' [])
          else None)"

text \<open>The checks of \<open>Run\<close> on the server, as a chain of requests that ends at the first error.\<close>

definition target_ready :: "'w http \<Rightarrow> ApiConfig \<Rightarrow> TargetSpec \<Rightarrow> 'w \<Rightarrow> goerr option \<times> 'w" where
  "target_ready ht cfg spec w =
     (if gt_SkipReadiness spec then (None, w)
      else case Healthz ht cfg w of
             (Some err, w) \<Rightarrow> (Some err, w)
           | (None, w) \<Rightarrow> Readyz ht cfg w)"

definition target_capable :: "'w http \<Rightarrow> (string \<Rightarrow> Capabilities \<Rightarrow> goerr option \<times> Capabilities) \<Rightarrow> ApiConfig \<Rightarrow>
    TargetSpec \<Rightarrow> 'w \<Rightarrow> goerr option \<times> 'w" where
  "target_capable ht decode cfg spec w =
     (if gt_SkipCapabilities spec then (None, w)
      else case api_Capabilities ht cfg decode w of
             (Inl err, w) \<Rightarrow> (Some err, w)
           | (Inr caps, w) \<Rightarrow>
               if \<not> cp_Enabled caps then (Some (Errorf ''bench api capabilities disabled'' []), w) else (None, w))"

definition target_Run :: "'w http \<Rightarrow> (string \<Rightarrow> Capabilities \<Rightarrow> goerr option \<times> Capabilities) \<Rightarrow>
    (TargetSpec \<Rightarrow> TargetSpec result) \<Rightarrow> unit_value TestRunEnv \<times> 'w \<Rightarrow> goerr option \<times> unit_value TestRunEnv \<times> 'w" where
  "target_Run ht decodeCaps decode = (\<lambda>(env, w).
     (case target_decodeSpec decode of
        Inl err \<Rightarrow> (Some err, env, w)
      | Inr spec \<Rightarrow>
          (let cfg = \<lparr>ac_APIAddrs = gt_APIAddrs spec, ac_Token = gt_BenchAPIToken spec\<rparr>
           in case target_ready ht cfg spec w of
                (Some err, w) \<Rightarrow> (Some err, env, w)
              | (None, w) \<Rightarrow>
                  (case target_capable ht decodeCaps cfg spec w of
                     (Some err, w) \<Rightarrow> (Some err, env, w)
                   | (None, w) \<Rightarrow>
                       (None, te_SetOutput ''target''
                          (TargetV \<lparr>tg_APIAddrs = gt_APIAddrs spec, tg_GatewayTCPAddrs = gt_GatewayTCPAddrs spec,
                                    tg_BenchAPIToken = gt_BenchAPIToken spec,
                                    tg_OperationTimeout = gt_OperationTimeout spec\<rparr>) env, w)))))"

section \<open>wukongim.prepare\_tokens/v1\<close>

definition TokenSourceV1 :: string where "TokenSourceV1 = ''port.identity.token_source/v1''"

definition tokens_Definition :: UnitDef where
  "tokens_Definition =
     \<lparr>ud_Kind = ''wukongim.prepare_tokens/v1'', ud_Title = ''WuKongIM prepare tokens'',
      ud_Description = ''Prepares benchmark user tokens through the target bench API.'',
      ud_Inputs = [plain_port ''target'' TargetV1, plain_port ''identities'' PoolV1],
      ud_Outputs = [plain_port ''tokens'' TokenSourceV1], ud_Metrics = [], ud_Artifacts = []\<rparr>"

text \<open>\<open>Validate\<close>, on the decoded batch size.\<close>

definition tokens_Validate :: "int result \<Rightarrow> goerr option" where
  "tokens_Validate decoded =
     (case decoded of
        Inl err \<Rightarrow> Some err
      | Inr batchSize \<Rightarrow> if batchSize < 0 then Some (Errorf ''batch_size must not be negative'' []) else None)"

text \<open>The loop of \<open>Run\<close>: the request items, and the token of every user id (the last one, if an id occurs twice).\<close>

definition token_items :: "PoolData \<Rightarrow> UserTokenItem list" where
  "token_items pool = map (\<lambda>i. \<lparr>ut_UID = id_UID i, ut_Token = id_Token i\<rparr>) (po_Items pool)"

definition token_map :: "PoolData \<Rightarrow> string gomap" where
  "token_map pool = foldl (\<lambda>m i. fmupd (id_UID i) (id_Token i) m) fmempty (po_Items pool)"

definition tokens_Run :: "'w http \<Rightarrow> (api_body \<Rightarrow> string result) \<Rightarrow> (unit_value \<Rightarrow> string result) \<Rightarrow>
    (unit_value, Target) typed \<Rightarrow> (unit_value, PoolData) typed \<Rightarrow> unit_value TestRunEnv \<times> 'w \<Rightarrow>
    goerr option \<times> unit_value TestRunEnv \<times> 'w" where
  "tokens_Run ht mbody M tt tp = (\<lambda>(env, w).
     (case Input_typed M tt ''target'' env of
        Inl err \<Rightarrow> (Some err, env, w)
      | Inr tgt \<Rightarrow>
          (case Input_typed M tp ''identities'' env of
             Inl err \<Rightarrow> (Some err, env, w)
           | Inr pool \<Rightarrow>
               (case UpsertTokens ht mbody \<lparr>ac_APIAddrs = tg_APIAddrs tgt, ac_Token = tg_BenchAPIToken tgt\<rparr>
                       \<lparr>bt_RunID = te_runID env, bt_BatchID = te_unitName env @ ''-0'', bt_Upsert = True,
                        bt_Users = token_items pool\<rparr> w of
                  (Some err, w) \<Rightarrow> (Some err, env, w)
                | (None, w) \<Rightarrow> (None, te_SetOutput ''tokens'' (TokensV (token_map pool)) env, w)))))"

section \<open>Fallback to the next address\<close>

definition after_addrs :: "(string \<Rightarrow> 's \<Rightarrow> goerr option \<times> 's) \<Rightarrow> string list \<Rightarrow> 's \<Rightarrow> 's" where
  "after_addrs request addrs s = foldl (\<lambda>s addr. snd (request addr s)) s addrs"

definition all_fail :: "(string \<Rightarrow> 's \<Rightarrow> goerr option \<times> 's) \<Rightarrow> string list \<Rightarrow> 's \<Rightarrow> bool" where
  "all_fail request addrs s \<longleftrightarrow>
     (\<forall>pre addr post. addrs = pre @ addr # post \<longrightarrow> fst (request addr (after_addrs request pre s)) \<noteq> None)"

lemma after_addrs_simps [simp]:
  "after_addrs request [] s = s"
  "after_addrs request (addr # addrs) s = after_addrs request addrs (snd (request addr s))"
  by (simp_all add: after_addrs_def)

lemma all_fail_Cons:
  "all_fail request (addr # addrs) s \<longleftrightarrow>
   fst (request addr s) \<noteq> None \<and> all_fail request addrs (snd (request addr s))"
proof
  assume a: "all_fail request (addr # addrs) s"
  have "fst (request x (after_addrs request pre (snd (request addr s)))) \<noteq> None" if "addrs = pre @ x # post" for pre x post
    using a [unfolded all_fail_def, rule_format, of "addr # pre" x post] that by simp
  moreover have "fst (request addr s) \<noteq> None"
    using a [unfolded all_fail_def, rule_format, of "[]" addr addrs] by simp
  ultimately show "fst (request addr s) \<noteq> None \<and> all_fail request addrs (snd (request addr s))"
    by (auto simp: all_fail_def)
next
  assume "fst (request addr s) \<noteq> None \<and> all_fail request addrs (snd (request addr s))"
  then show "all_fail request (addr # addrs) s" by (auto simp: all_fail_def Cons_eq_append_conv)
qed

text \<open>The requests made are those up to the first that succeeds, and all of them if none does.\<close>

lemma try_addrs_first:
  "(\<exists>pre addr post. addrs = pre @ addr # post \<and> all_fail request pre s \<and>
      fst (request addr (after_addrs request pre s)) = None \<and>
      try_addrs request failure addrs s = (None, after_addrs request (pre @ [addr]) s)) \<or>
   (all_fail request addrs s \<and> try_addrs request failure addrs s = (Some failure, after_addrs request addrs s))"
proof (induction addrs arbitrary: s)
  case (Cons a addrs)
  obtain e s' where r: "request a s = (e, s')" by force
  show ?case
  proof (cases e)
    case None
    then show ?thesis
      by (intro disjI1 exI [of _ "[]"] exI [of _ a] exI [of _ addrs]) (simp add: r all_fail_def)
  next
    case (Some err)
    from Cons.IH [of s'] show ?thesis
    proof (elim disjE exE conjE)
      fix pre addr post
      assume "addrs = pre @ addr # post" "all_fail request pre s'" "fst (request addr (after_addrs request pre s')) = None"
        "try_addrs request failure addrs s' = (None, after_addrs request (pre @ [addr]) s')"
      then show ?thesis using Some
        by (intro disjI1 exI [of _ "a # pre"] exI [of _ addr] exI [of _ post]) (simp add: r all_fail_Cons)
    next
      assume "all_fail request addrs s'" "try_addrs request failure addrs s' = (Some failure, after_addrs request addrs s')"
      then show ?thesis using Some by (intro disjI2) (simp add: r all_fail_Cons)
    qed
  qed
qed (simp add: all_fail_def)

text \<open>
  What an answer that fails to decode has left in the value stays there for the next address: if the first server
  says that the API is enabled and its answer is broken after that, and the second server answers without that field, the
  capabilities are enabled.
\<close>

lemma stale_capabilities:
  assumes "api_addrs cfg = [a, b]" and "\<And>m u. ht_NewRequest ht m u = None"
    and "\<And>q w. ht_Do ht q w = (HttpResponse 200 (if hq_URL q = TrimRightByte a (CHR ''/'') @ ''/bench/v1/capabilities'' then x else y), w)"
    and "TrimRightByte a (CHR ''/'') \<noteq> TrimRightByte b (CHR ''/'')"
    and "decode x zero_Capabilities = (Some e, \<lparr>cp_Enabled = True, cp_Version = []\<rparr>)"
    and "\<And>c. decode y c = (None, c\<lparr>cp_Version := v\<rparr>)"
  shows "api_Capabilities ht cfg decode w = (Inr \<lparr>cp_Enabled = True, cp_Version = v\<rparr>, w)"
  using assms by (simp add: api_Capabilities_def getAny_def doJSON_def api_request_def)

end
