(* ===== verification/Prepare_Groups.thy ===== *)
theory Prepare_Groups
  imports Bench_Api
begin

text \<open>
  \<open>wukongim.prepare_group_channels/v1\<close> (\<open>units/wukongim/prepare_group_channels/unit.go\<close>): groups over an identity
  pool, their creation on the server, and the group set and send targets it publishes. The product of the counts
  is an \<open>int\<close> of 64 bits and wraps around.
\<close>

record GroupPrepSpec =
  gp_Profile :: string
  gp_Count :: int
  gp_MembersPerChannel :: int
  gp_Overlap :: string
  gp_BatchSize :: int

definition groupChannelType :: "8 word" where "groupChannelType = 2"
definition overlapAllowed :: string where "overlapAllowed = ''allowed''"
definition overlapDisallow :: string where "overlapDisallow = ''disallowed''"

definition prepare_Definition :: UnitDef where
  "prepare_Definition =
     \<lparr>ud_Kind = ''wukongim.prepare_group_channels/v1'', ud_Title = ''WuKongIM prepare group channels'',
      ud_Description = ''Creates benchmark group channels and subscribers through the target bench API.'',
      ud_Inputs = [plain_port ''target'' TargetV1, plain_port ''identities'' PoolV1],
      ud_Outputs = [plain_port ''channels'' GroupSetV1, plain_port ''targets'' SendTargetSetV1],
      ud_Metrics = [], ud_Artifacts = []\<rparr>"

definition prepare_decodeSpec :: "(GroupPrepSpec \<Rightarrow> GroupPrepSpec result) \<Rightarrow> GroupPrepSpec result" where
  "prepare_decodeSpec decode =
     (case decode \<lparr>gp_Profile = ''group'', gp_Count = 0, gp_MembersPerChannel = 0, gp_Overlap = overlapAllowed,
        gp_BatchSize = 0\<rparr> of
        Inl err \<Rightarrow> Inl err
      | Inr spec \<Rightarrow>
          Inr (spec\<lparr>gp_Profile := trim_default (gp_Profile spec) ''group'',
                    gp_Overlap := trim_default (gp_Overlap spec) overlapAllowed\<rparr>))"

definition prepare_Validate :: "(GroupPrepSpec \<Rightarrow> GroupPrepSpec result) \<Rightarrow> goerr option" where
  "prepare_Validate decode =
     (case prepare_decodeSpec decode of
        Inl err \<Rightarrow> Some err
      | Inr spec \<Rightarrow>
          if gp_Count spec \<le> 0 then Some (Errorf ''count must be greater than zero'' [])
          else if gp_MembersPerChannel spec \<le> 0 then Some (Errorf ''members_per_channel must be greater than zero'' [])
          else if gp_Overlap spec \<noteq> overlapAllowed \<and> gp_Overlap spec \<noteq> overlapDisallow
          then Some (Errorf ''overlap must be allowed or disallowed'' [])
          else None)"

text \<open>The inner loop of \<open>buildGroups\<close> for \<open>n\<close> more members, with the cursor it shares with the outer one.\<close>

fun pick_members :: "bool \<Rightarrow> PoolData \<Rightarrow> nat \<Rightarrow> int \<Rightarrow> string list \<times> int \<Rightarrow> (string list \<times> int) result" where
  "pick_members disallow pool 0 memberIndex (members, cursor) = Inr (members, cursor)"
| "pick_members disallow pool (Suc n) memberIndex (members, cursor) =
     (case pool_At pool (if disallow then cursor else memberIndex) of
        Inl p \<Rightarrow> Inl p
      | Inr identity \<Rightarrow>
          pick_members disallow pool n (memberIndex + 1)
            (members @ [id_UID identity], if disallow then cursor + 1 else cursor))"

fun build_channels :: "string \<Rightarrow> GroupPrepSpec \<Rightarrow> PoolData \<Rightarrow> nat \<Rightarrow> int \<Rightarrow> int \<Rightarrow> GroupChannel list \<Rightarrow>
    GroupChannel list result" where
  "build_channels runID spec pool 0 channelIndex cursor groups = Inr groups"
| "build_channels runID spec pool (Suc n) channelIndex cursor groups =
     (case pick_members (gp_Overlap spec = overlapDisallow) pool (nat (gp_MembersPerChannel spec)) 0 ([], cursor) of
        Inl p \<Rightarrow> Inl p
      | Inr (members, cursor) \<Rightarrow>
          build_channels runID spec pool n (channelIndex + 1) cursor
            (groups @ [\<lparr>gc_ChannelID = runID @ ''-'' @ gp_Profile spec @ ''-'' @ itoa channelIndex,
                        gc_Members = members\<rparr>]))"

definition buildGroups :: "string \<Rightarrow> GroupPrepSpec \<Rightarrow> PoolData \<Rightarrow> GroupSetData result" where
  "buildGroups runID spec pool =
     (let required = (if gp_Overlap spec = overlapDisallow then wrap64 (gp_Count spec * gp_MembersPerChannel spec)
                      else gp_MembersPerChannel spec)
      in if pool_Count pool < required
         then Inl (Errorf ''identity pool has %d users but %d are required'' [ArgI (pool_Count pool), ArgI required])
         else case build_channels runID spec pool (nat (gp_Count spec)) 0 0 [] of
                Inl p \<Rightarrow> Inl p
              | Inr groups \<Rightarrow> Inr \<lparr>gs_Items = groups\<rparr>)"

definition targetsFromGroups :: "GroupSetData \<Rightarrow> SendTargetSetData" where
  "targetsFromGroups groups =
     \<lparr>ss_Items = map (\<lambda>group. \<lparr>st_ChannelID = gc_ChannelID group, st_ChannelType = groupChannelType,
                                st_SenderUIDs = gc_Members group\<rparr>) (gs_Items groups)\<rparr>"

definition channel_items :: "GroupSetData \<Rightarrow> ChannelItem list" where
  "channel_items groups =
     map (\<lambda>group. \<lparr>ci_ChannelID = gc_ChannelID group, ci_ChannelType = groupChannelType, ci_Large = False\<rparr>)
       (gs_Items groups)"

definition subscriber_items :: "GroupSetData \<Rightarrow> SubscriberItem list" where
  "subscriber_items groups =
     map (\<lambda>group. \<lparr>si_ChannelID = gc_ChannelID group, si_ChannelType = groupChannelType,
                    si_Subscribers = gc_Members group\<rparr>) (gs_Items groups)"

definition prepare_Run :: "'w http \<Rightarrow> (api_body \<Rightarrow> string result) \<Rightarrow> (unit_value \<Rightarrow> string result) \<Rightarrow>
    (unit_value, Target) typed \<Rightarrow> (unit_value, PoolData) typed \<Rightarrow> (GroupPrepSpec \<Rightarrow> GroupPrepSpec result) \<Rightarrow>
    unit_value TestRunEnv \<times> 'w \<Rightarrow> goerr option \<times> unit_value TestRunEnv \<times> 'w" where
  "prepare_Run ht mbody M tt tp decode = (\<lambda>(env, w).
     (case prepare_decodeSpec decode of
        Inl err \<Rightarrow> (Some err, env, w)
      | Inr spec \<Rightarrow>
          (case Input_typed M tt ''target'' env of
             Inl err \<Rightarrow> (Some err, env, w)
           | Inr tgt \<Rightarrow>
               (case Input_typed M tp ''identities'' env of
                  Inl err \<Rightarrow> (Some err, env, w)
                | Inr pool \<Rightarrow>
                    (case buildGroups (te_runID env) spec pool of
                       Inl err \<Rightarrow> (Some err, env, w)
                     | Inr groups \<Rightarrow>
                         (let cfg = \<lparr>ac_APIAddrs = tg_APIAddrs tgt, ac_Token = tg_BenchAPIToken tgt\<rparr>
                          in case UpsertChannels ht mbody cfg
                                    \<lparr>bc_RunID = te_runID env, bc_BatchID = te_unitName env @ ''-channels-0'',
                                     bc_Upsert = True, bc_Channels = channel_items groups\<rparr> w of
                               (Some err, w) \<Rightarrow> (Some err, env, w)
                             | (None, w) \<Rightarrow>
                                 (case AddSubscribers ht mbody cfg
                                         \<lparr>bs_RunID = te_runID env, bs_BatchID = te_unitName env @ ''-subscribers-0'',
                                          bs_Items = subscriber_items groups\<rparr> w of
                                    (Some err, w) \<Rightarrow> (Some err, env, w)
                                  | (None, w) \<Rightarrow>
                                      (None, te_SetOutput ''targets'' (PreparedTargetsV (targetsFromGroups groups))
                                         (te_SetOutput ''channels'' (PreparedGroupsV groups) env), w))))))))"

section \<open>Which groups are built\<close>

lemma pool_At_nth: "k < length (po_Items pool) \<Longrightarrow> pool_At pool (int k) = Inr (po_Items pool ! k)"
  by (simp add: pool_At_def slice_At_def)

lemma pick_disallowed:
  "k + n \<le> length (po_Items pool) \<Longrightarrow> pick_members True pool n i (members, int k) =
   Inr (members @ map (\<lambda>j. id_UID (po_Items pool ! j)) [k..<k + n], int (k + n))"
proof (induction n arbitrary: k i members)
  case (Suc n)
  have at: "pool_At pool (int k) = Inr (po_Items pool ! k)" using Suc.prems by (intro pool_At_nth) simp
  have u: "[k..<k + Suc n] = k # [Suc k..<Suc k + n]" "int k + 1 = int (Suc k)" by (simp_all add: upt_conv_Cons)
  from Suc.prems have "Suc k + n \<le> length (po_Items pool)" by simp
  from Suc.IH [OF this] show ?case by (simp only: pick_members.simps if_True at sum.case u) simp
qed simp

lemma pick_allowed:
  "k + n \<le> length (po_Items pool) \<Longrightarrow> pick_members False pool n (int k) (members, cursor) =
   Inr (members @ map (\<lambda>j. id_UID (po_Items pool ! j)) [k..<k + n], cursor)"
proof (induction n arbitrary: k members)
  case (Suc n)
  have at: "pool_At pool (int k) = Inr (po_Items pool ! k)" using Suc.prems by (intro pool_At_nth) simp
  have u: "[k..<k + Suc n] = k # [Suc k..<Suc k + n]" "int k + 1 = int (Suc k)" by (simp_all add: upt_conv_Cons)
  from Suc.prems have "Suc k + n \<le> length (po_Items pool)" by simp
  from Suc.IH [OF this] show ?case by (simp only: pick_members.simps if_False at sum.case u) simp
qed simp

text \<open>Channel \<open>c\<close> by its meaning.\<close>

definition planned_group :: "string \<Rightarrow> GroupPrepSpec \<Rightarrow> PoolData \<Rightarrow> nat \<Rightarrow> GroupChannel" where
  "planned_group runID spec pool c =
     (let m = nat (gp_MembersPerChannel spec); base = (if gp_Overlap spec = overlapDisallow then c * m else 0)
      in \<lparr>gc_ChannelID = runID @ ''-'' @ gp_Profile spec @ ''-'' @ itoa (int c),
          gc_Members = map (\<lambda>k. id_UID (po_Items pool ! k)) [base..<base + m]\<rparr>)"

lemma build_channels_planned:
  assumes "\<And>i. i < n \<Longrightarrow> (if gp_Overlap spec = overlapDisallow then (c + i) * m else 0) + m \<le> length (po_Items pool)"
    and "m = nat (gp_MembersPerChannel spec)"
  shows "build_channels runID spec pool n (int c) (if gp_Overlap spec = overlapDisallow then int (c * m) else 0) groups =
    Inr (groups @ map (planned_group runID spec pool) [c..<c + n])"
  using assms(1)
proof (induction n arbitrary: c groups)
  case (Suc n)
  let ?d = "gp_Overlap spec = overlapDisallow"
  let ?cur = "if ?d then int (c * m) else 0"
  have le: "(if ?d then c * m else 0) + m \<le> length (po_Items pool)" using Suc.prems [of 0] by (cases ?d) simp_all
  define base where "base = (if ?d then c * m else 0)"
  have pick: "pick_members ?d pool m 0 ([], ?cur) =
      Inr (map (\<lambda>k. id_UID (po_Items pool ! k)) [base..<base + m], if ?d then int (Suc c * m) else 0)"
  proof (cases ?d)
    case True
    with le pick_disallowed [of "c * m" m pool 0 "[]"] show ?thesis by (simp add: base_def add.commute)
  next
    case False
    with le pick_allowed [of 0 m pool "[]" ?cur] show ?thesis by (simp add: base_def)
  qed
  have ih: "(if ?d then (Suc c + i) * m else 0) + m \<le> length (po_Items pool)" if "i < n" for i
    using Suc.prems [of "Suc i"] that by (cases ?d) simp_all
  have u: "[c..<c + Suc n] = c # [Suc c..<Suc c + n]" by (simp add: upt_conv_Cons)
  have c1: "int c + 1 = int (Suc c)" by simp
  have g: "\<lparr>gc_ChannelID = runID @ ''-'' @ gp_Profile spec @ ''-'' @ itoa (int c),
      gc_Members = map (\<lambda>k. id_UID (po_Items pool ! k)) [base..<base + m]\<rparr> = planned_group runID spec pool c"
    by (simp add: planned_group_def Let_def assms(2) [symmetric] base_def)
  show ?case
    by (simp only: build_channels.simps assms(2) [symmetric] pick sum.case prod.case c1 g Suc.IH [OF ih] u list.map)
      simp
qed simp

lemma wrap64_small: "0 \<le> i \<Longrightarrow> i < 2 ^ 63 \<Longrightarrow> wrap64 i = i"
  by (rule wrap64_id) simp_all

text \<open>The groups of a pool that is large enough, and the error for one that is not.\<close>

lemma buildGroups_exact:
  assumes "0 < gp_Count spec" and "0 < gp_MembersPerChannel spec" and "gp_Count spec * gp_MembersPerChannel spec < 2 ^ 63"
  defines "required \<equiv> if gp_Overlap spec = overlapDisallow then gp_Count spec * gp_MembersPerChannel spec
    else gp_MembersPerChannel spec"
  shows "buildGroups runID spec pool =
    (if pool_Count pool < required
     then Inl (Errorf ''identity pool has %d users but %d are required'' [ArgI (pool_Count pool), ArgI required])
     else Inr \<lparr>gs_Items = map (planned_group runID spec pool) [0..<nat (gp_Count spec)]\<rparr>)"
proof (cases "pool_Count pool < required")
  case False
  define n m where "n = nat (gp_Count spec)" and "m = nat (gp_MembersPerChannel spec)"
  have nm: "gp_Count spec = int n" "gp_MembersPerChannel spec = int m" using assms(1,2) by (simp_all add: n_def m_def)
  have "(if gp_Overlap spec = overlapDisallow then i * m else 0) + m \<le> length (po_Items pool)" if "i < n" for i
  proof -
    have "Suc i * m \<le> n * m" using that by (intro mult_le_mono1) simp
    then show ?thesis using False by (auto simp: required_def nm pool_Count_def split: if_splits simp flip: of_nat_mult)
  qed
  with build_channels_planned [of n spec 0 m pool runID "[]", OF _ m_def]
  have "build_channels runID spec pool n 0 0 [] = Inr (map (planned_group runID spec pool) [0..<n])"
    by (cases "gp_Overlap spec = overlapDisallow") simp_all
  moreover have "wrap64 (gp_Count spec * gp_MembersPerChannel spec) = gp_Count spec * gp_MembersPerChannel spec"
    using assms(1-3) by (intro wrap64_small) simp_all
  ultimately show ?thesis using False by (auto simp: buildGroups_def required_def n_def Let_def)
qed (use assms wrap64_small in \<open>auto simp: buildGroups_def required_def\<close>)

text \<open>
  Beyond that bound the check is void: a product that wraps around to zero asks for no users at all, and building
  the first group runs off the end of the pool.
\<close>

lemma buildGroups_overflow:
  assumes "gp_Overlap spec = overlapDisallow" and "gp_Count spec = 2 ^ 32" and "gp_MembersPerChannel spec = 2 ^ 32"
    and "po_Items pool = []"
  shows "buildGroups runID spec pool = Inl index_panic"
proof -
  obtain n m where n: "nat (gp_Count spec) = Suc n" and m: "nat (gp_MembersPerChannel spec) = Suc m"
    using assms(2,3) by (cases "nat (gp_Count spec)"; cases "nat (gp_MembersPerChannel spec)") simp_all
  have "gp_Count spec * gp_MembersPerChannel spec = 2 ^ 64" by (simp add: assms(2,3))
  then have "wrap64 (gp_Count spec * gp_MembersPerChannel spec) = 0" by (simp add: wrap64_def)
  then show ?thesis using assms(1,4)
    by (simp add: buildGroups_def n m pool_Count_def pool_At_def slice_At_def)
qed

section \<open>What the unit prepares\<close>

lemma prepare_Run_ok:
  assumes "prepare_Run ht mbody M tt tp decode (env, w) = (None, env', w')" and "prepare_decodeSpec decode = Inr spec"
    and "Input_typed M tp ''identities'' env = Inr pool"
  obtains groups where "buildGroups (te_runID env) spec pool = Inr groups"
    and "te_Output ''channels'' env' = Some (PreparedGroupsV groups)"
    and "te_Output ''targets'' env' = Some (PreparedTargetsV (targetsFromGroups groups))"
  using assms by (auto simp: prepare_Run_def Let_def tenv_out.get_put tenv_out.get_put_other split: sum.splits prod.splits option.splits)

lemma planned_members:
  assumes "distinct (map id_UID (po_Items pool))"
    and "(if gp_Overlap spec = overlapDisallow then c * m else 0) + m \<le> length (po_Items pool)"
    and "m = nat (gp_MembersPerChannel spec)"
  shows "length (gc_Members (planned_group runID spec pool c)) = m"
    and "distinct (gc_Members (planned_group runID spec pool c))"
    and "set (gc_Members (planned_group runID spec pool c)) \<subseteq> id_UID ` set (po_Items pool)"
proof -
  let ?base = "if gp_Overlap spec = overlapDisallow then c * m else 0"
  have mem: "gc_Members (planned_group runID spec pool c) = map (\<lambda>k. map id_UID (po_Items pool) ! k) [?base..<?base + m]"
    using assms(2) by (simp add: planned_group_def Let_def assms(3) [symmetric])
  have inj: "inj_on (\<lambda>k. map id_UID (po_Items pool) ! k) {?base..<?base + m}"
    using assms(1,2) by (intro inj_onI) (auto simp: nth_eq_iff_index_eq simp del: nth_map split: if_splits)
  show "length (gc_Members (planned_group runID spec pool c)) = m" by (simp add: mem)
  show "distinct (gc_Members (planned_group runID spec pool c))" by (simp add: mem distinct_map inj)
  show "set (gc_Members (planned_group runID spec pool c)) \<subseteq> id_UID ` set (po_Items pool)"
    using assms(2) by (auto simp: mem split: if_splits)
qed

lemma postAny_error: "postAny ht cfg path body w = (Some err, w') \<Longrightarrow> err = Errorf ''all target api addresses failed for POST %s'' [ArgS path]"
  using try_addrs_first [of "api_addrs cfg" "doJSON ht cfg ''POST'' path (Some body) None" "((), w)"
      "Errorf ''all target api addresses failed for POST %s'' [ArgS path]"]
  by (auto simp: postAny_def split: prod.splits)

lemma planned_ids_distinct: "distinct (map (gc_ChannelID \<circ> planned_group runID spec pool) cs) = distinct cs"
  by (auto simp: distinct_map inj_on_def planned_group_def Let_def)

lemma planned_disjoint:
  assumes "gp_Overlap spec = overlapDisallow" and "distinct (map id_UID (po_Items pool))" and "c \<noteq> d"
    and "c * m + m \<le> length (po_Items pool)" and "d * m + m \<le> length (po_Items pool)" and "m = nat (gp_MembersPerChannel spec)"
  shows "set (gc_Members (planned_group runID spec pool c)) \<inter> set (gc_Members (planned_group runID spec pool d)) = {}"
proof -
  have mem: "set (gc_Members (planned_group runID spec pool e)) = (!) (map id_UID (po_Items pool)) ` {e * m..<e * m + m}"
    if "e * m + m \<le> length (po_Items pool)" for e
    using that by (auto simp: planned_group_def Let_def assms(1) assms(6) [symmetric])
  have int: "{c * m..<c * m + m} \<inter> {d * m..<d * m + m} = {}"
  proof (rule ccontr)
    assume "{c * m..<c * m + m} \<inter> {d * m..<d * m + m} \<noteq> {}"
    then obtain k where "c * m \<le> k" "k < c * m + m" "d * m \<le> k" "k < d * m + m" by (auto simp del: One_nat_def simp: Int_def)
    then have "c * m < d * m + m" "d * m < c * m + m" by linarith+
    then have "c * m < Suc d * m" "d * m < Suc c * m" by simp_all
    then have "c < Suc d" "d < Suc c" by (simp_all only: mult_less_cancel2)
    with assms(3) show False by simp
  qed
  have inj: "inj_on ((!) (map id_UID (po_Items pool))) ({c * m..<c * m + m} \<union> {d * m..<d * m + m})"
    using assms(2,4,5) by (intro inj_onI) (auto simp: nth_eq_iff_index_eq simp del: nth_map)
  show ?thesis
    unfolding mem [OF assms(4)] mem [OF assms(5)] inj_on_image_Int [OF inj Un_upper1 Un_upper2, symmetric] int by simp
qed

text \<open>
  C23: Groups from a pool. Let the spec be valid and the number of all members fit an \<open>int\<close>. With too few identities for the overlap mode the
  unit fails before it makes a request. With enough of them it never panics; if it succeeds, it publishes as many groups
  as asked for, with different channel ids and each with the asked number of different users of the pool (in
  disallowed mode no user is in two groups), and send targets that are these groups; if a request fails, it publishes nothing.
\<close>

theorem prepared_groups:
  assumes "prepare_Run ht mbody M tt tp decode (env, w) = (err, env', w')" and "prepare_decodeSpec decode = Inr spec"
    and "prepare_Validate decode = None" and "gp_Count spec * gp_MembersPerChannel spec < 2 ^ 63"
    and "Input_typed M tt ''target'' env = Inr tgt" and "Input_typed M tp ''identities'' env = Inr pool"
    and "distinct (map id_UID (po_Items pool))"
  shows "(err \<noteq> None \<longrightarrow> env' = env \<and> err \<noteq> Some index_panic) \<and>
    (pool_Count pool < (if gp_Overlap spec = overlapDisallow then gp_Count spec * gp_MembersPerChannel spec else gp_MembersPerChannel spec)
      \<longrightarrow> err \<noteq> None \<and> w' = w) \<and>
    (err = None \<longrightarrow> (\<exists>gs. te_Output ''channels'' env' = Some (PreparedGroupsV \<lparr>gs_Items = gs\<rparr>) \<and>
       te_Output ''targets'' env' = Some (PreparedTargetsV (targetsFromGroups \<lparr>gs_Items = gs\<rparr>)) \<and>
       int (length gs) = gp_Count spec \<and> distinct (map gc_ChannelID gs) \<and>
       (\<forall>g\<in>set gs. int (length (gc_Members g)) = gp_MembersPerChannel spec \<and> distinct (gc_Members g) \<and>
          set (gc_Members g) \<subseteq> id_UID ` set (po_Items pool)) \<and>
       (gp_Overlap spec = overlapDisallow \<longrightarrow> (\<forall>a<length gs. \<forall>b<length gs. a \<noteq> b \<longrightarrow>
          set (gc_Members (gs ! a)) \<inter> set (gc_Members (gs ! b)) = {}))))"
proof -
  have pos: "0 < gp_Count spec" "0 < gp_MembersPerChannel spec"
    using assms(2,3) by (auto simp: prepare_Validate_def split: if_splits)
  note b = buildGroups_exact [OF pos assms(4), of "te_runID env" pool]
  let ?req = "if gp_Overlap spec = overlapDisallow then gp_Count spec * gp_MembersPerChannel spec else gp_MembersPerChannel spec"
  define n m where "n = nat (gp_Count spec)" and "m = nat (gp_MembersPerChannel spec)"
  have nm: "gp_Count spec = int n" "gp_MembersPerChannel spec = int m" using pos by (simp_all add: n_def m_def)
  let ?gs = "map (planned_group (te_runID env) spec pool) [0..<n]"
  show ?thesis
  proof (cases "pool_Count pool < ?req")
    case True
    then have "buildGroups (te_runID env) spec pool =
        Inl (Errorf ''identity pool has %d users but %d are required'' [ArgI (pool_Count pool), ArgI ?req])" using b by simp
    then show ?thesis using assms(1,2,5,6) True by (auto simp: prepare_Run_def index_panic_def)
  next
    case False
    then have g: "buildGroups (te_runID env) spec pool = Inr \<lparr>gs_Items = ?gs\<rparr>" using b by (simp add: n_def)
    have fits: "(if gp_Overlap spec = overlapDisallow then c * m else 0) + m \<le> length (po_Items pool)" if "c < n" for c
    proof -
      have "Suc c * m \<le> n * m" using that by (intro mult_le_mono1) simp
      then show ?thesis using False by (auto simp: nm pool_Count_def split: if_splits simp flip: of_nat_mult)
    qed
    have groups: "int (length ?gs) = gp_Count spec" "distinct (map gc_ChannelID ?gs)"
      using planned_ids_distinct [of "te_runID env" spec pool "[0..<n]"] by (simp_all add: nm)
    have mem: "int (length (gc_Members x)) = gp_MembersPerChannel spec \<and> distinct (gc_Members x) \<and>
        set (gc_Members x) \<subseteq> id_UID ` set (po_Items pool)" if "x \<in> set ?gs" for x
    proof -
      from that obtain c where "c < n" "x = planned_group (te_runID env) spec pool c" by auto
      with planned_members [OF assms(7) fits m_def, of c "te_runID env"] show ?thesis by (simp add: nm)
    qed
    have dis: "set (gc_Members (?gs ! a)) \<inter> set (gc_Members (?gs ! b)) = {}"
      if "gp_Overlap spec = overlapDisallow" "a < length ?gs" "b < length ?gs" "a \<noteq> b" for a b
      using planned_disjoint [OF that(1) assms(7) that(4) _ _ m_def] fits [of a] fits [of b] that by simp
    from assms(1,2,5,6) g have "(err = None \<and> env' = te_SetOutput ''targets'' (PreparedTargetsV (targetsFromGroups \<lparr>gs_Items = ?gs\<rparr>))
        (te_SetOutput ''channels'' (PreparedGroupsV \<lparr>gs_Items = ?gs\<rparr>) env)) \<or>
        (err \<noteq> None \<and> env' = env \<and> err \<noteq> Some index_panic)"
      by (auto simp: prepare_Run_def Let_def UpsertChannels_def AddSubscribers_def index_panic_def
          dest!: postAny_error split: prod.splits option.splits)
    then show ?thesis using False groups mem dis
      by (elim disjE) (auto simp: tenv_out.get_put tenv_out.get_put_other intro!: exI [of _ ?gs])
  qed
qed

section \<open>Two groups of two\<close>

definition demo_prepare_spec :: "GroupPrepSpec \<Rightarrow> GroupPrepSpec result" where
  "demo_prepare_spec s = Inr (s\<lparr>gp_Count := 2, gp_MembersPerChannel := 2, gp_Overlap := '' disallowed ''\<rparr>)"

text \<open>A server that refuses the first address and keeps the requests it accepts.\<close>

definition demo_http :: "HttpRequest list http" where
  "demo_http = \<lparr>ht_NewRequest = (\<lambda>_ _. None),
     ht_Do = (\<lambda>q w. if prefix ''http://a'' (hq_URL q) then (HttpError index_panic, w) else (HttpResponse 200 [], w @ [q]))\<rparr>"

definition demo_prepare_env :: "unit_value TestRunEnv" where
  "demo_prepare_env = NewTestRunEnv ''r'' ''prep'' (fmupd ''target'' (TargetV \<lparr>tg_APIAddrs = [''http://a'', ''http://b/''],
     tg_GatewayTCPAddrs = [], tg_BenchAPIToken = [], tg_OperationTimeout = 0\<rparr>)
     (fmupd ''identities'' (PoolV \<lparr>po_Items = map (\<lambda>u. \<lparr>id_UID = u, id_DeviceID = [], id_Token = []\<rparr>)
        [''u1'', ''u2'', ''u3'', ''u4'']\<rparr>) fmempty))"

definition demo_prepared :: "goerr option \<times> unit_value TestRunEnv \<times> HttpRequest list" where
  "demo_prepared = prepare_Run demo_http (\<lambda>_. Inr ''{}'') (\<lambda>_. Inr []) \<lparr>ty_assert = as_target, ty_Unmarshal = (\<lambda>_. Inl index_panic)\<rparr>
     \<lparr>ty_assert = as_pool, ty_Unmarshal = (\<lambda>_. Inl index_panic)\<rparr> demo_prepare_spec (demo_prepare_env, [])"

lemma demo_prepared_ok: "fst demo_prepared = None \<and> map hq_URL (snd (snd demo_prepared)) =
    [''http://b/bench/v1/channels'', ''http://b/bench/v1/channels/subscribers'']"
  by code_simp

theorem prepared_groups_witness:
  "\<exists>gs. te_Output ''channels'' (fst (snd demo_prepared)) = Some (PreparedGroupsV \<lparr>gs_Items = gs\<rparr>) \<and> length gs = 2 \<and>
     set (gc_Members (gs ! 0)) \<inter> set (gc_Members (gs ! 1)) = {}"
proof -
  let ?pool = "\<lparr>po_Items = map (\<lambda>u. \<lparr>id_UID = u, id_DeviceID = [], id_Token = []\<rparr>) [''u1'', ''u2'', ''u3'', ''u4'']\<rparr>"
  let ?tgt = "\<lparr>tg_APIAddrs = [''http://a'', ''http://b/''], tg_GatewayTCPAddrs = [], tg_BenchAPIToken = [], tg_OperationTimeout = 0\<rparr>"
  let ?spec = "\<lparr>gp_Profile = ''group'', gp_Count = 2, gp_MembersPerChannel = 2, gp_Overlap = overlapDisallow, gp_BatchSize = 0\<rparr>"
  let ?tt = "\<lparr>ty_assert = as_target, ty_Unmarshal = (\<lambda>_. Inl index_panic)\<rparr>" and ?tp = "\<lparr>ty_assert = as_pool, ty_Unmarshal = (\<lambda>_. Inl index_panic)\<rparr>"
  obtain err env' w' where r: "demo_prepared = (err, env', w')" by (metis prod_cases3)
  have e: "err = None" using demo_prepared_ok by (simp add: r)
  have d: "prepare_decodeSpec demo_prepare_spec = Inr ?spec" "prepare_Validate demo_prepare_spec = None" by code_simp+
  have i: "Input_typed (\<lambda>_. Inr []) ?tt ''target'' demo_prepare_env = Inr ?tgt"
    "Input_typed (\<lambda>_. Inr []) ?tp ''identities'' demo_prepare_env = Inr ?pool"
    by (simp_all add: Input_typed_def te_Input_def demo_prepare_env_def NewTestRunEnv_def)
  have small: "gp_Count ?spec * gp_MembersPerChannel ?spec < 2 ^ 63" "distinct (map id_UID (po_Items ?pool))" by simp_all
  from prepared_groups [OF r [unfolded demo_prepared_def] d small(1) i small(2)] e obtain gs where
    "te_Output ''channels'' env' = Some (PreparedGroupsV \<lparr>gs_Items = gs\<rparr>)" and l: "int (length gs) = gp_Count ?spec"
    and x: "gp_Overlap ?spec = overlapDisallow \<longrightarrow> (\<forall>a<length gs. \<forall>b<length gs. a \<noteq> b \<longrightarrow>
      set (gc_Members (gs ! a)) \<inter> set (gc_Members (gs ! b)) = {})" by blast
  moreover have "length gs = 2" using l by simp
  ultimately show ?thesis by (intro exI [of _ gs]) (simp add: r)
qed

end
