(* ===== verification/Session_Pool.thy ===== *)
theory Session_Pool
  imports Prepare_Groups "HOL-Library.Multiset"
begin

text \<open>
  \<open>wkproto.session_pool/v1\<close> (\<open>units/wkproto/session_pool/unit.go\<close>): one connected client per identity. The client
  factory is a parameter: \<open>dial\<close> says how its \<open>n\<close>-th call ends. The world records its calls in order and which
  clients were closed; a client is the number of the call that made it. Go ranges over a map in any order,
  which is the parameter \<open>order\<close>.
\<close>

section \<open>The unit\<close>

record session_world =
  sw_calls :: "(Identity \<times> string \<times> string) list"
  sw_closed :: "nat list"

type_synonym dialer = "nat \<Rightarrow> Target \<Rightarrow> Identity \<Rightarrow> string \<Rightarrow> string \<Rightarrow> goerr option"

definition call_factory :: "dialer \<Rightarrow> Target \<Rightarrow> Identity \<Rightarrow> string \<Rightarrow> string \<Rightarrow> session_world \<Rightarrow> nat result \<times> session_world" where
  "call_factory dial tgt identity token gateway w =
     (let n = length (sw_calls w); w' = w\<lparr>sw_calls := sw_calls w @ [(identity, token, gateway)]\<rparr>
      in case dial n tgt identity token gateway of
           Some err \<Rightarrow> (Inl err, w')
         | None \<Rightarrow> (Inr n, w'))"

definition session_Definition :: UnitDef where
  "session_Definition =
     \<lparr>ud_Kind = ''wkproto.session_pool/v1'', ud_Title = ''WKProto session pool'',
      ud_Description = ''Opens WKProto sessions and exposes group sending clients by uid.'',
      ud_Inputs = [plain_port ''target'' TargetV1, plain_port ''identities'' PoolV1,
        (plain_port ''tokens'' TokenSourceV1)\<lparr>pd_Optional := True\<rparr>],
      ud_Outputs = [plain_port ''group_sender'' GroupSenderV1, plain_port ''message_sender'' MessageSenderV1],
      ud_Metrics = [], ud_Artifacts = []\<rparr>"

text \<open>\<open>Validate\<close>, on the decoded rate.\<close>

definition session_Validate :: "Rate result \<Rightarrow> goerr option" where
  "session_Validate decoded =
     (case decoded of
        Inl err \<Rightarrow> Some err
      | Inr rate \<Rightarrow> if rt_PerSecond rate < 0 then Some (Errorf ''connect_rate must not be negative'' []) else None)"

definition sessions_Client :: "SessionPool \<Rightarrow> string \<Rightarrow> nat option" where
  "sessions_Client p uid = fmlookup (sn_clients p) uid"

text \<open>\<open>Pool.Close\<close>: every client is closed, and the first error is returned.\<close>

fun close_clients :: "(nat \<Rightarrow> goerr option) \<Rightarrow> SessionPool \<Rightarrow> string list \<Rightarrow> goerr option \<Rightarrow> session_world \<Rightarrow>
    goerr option \<times> session_world" where
  "close_clients closeErr p [] first w = (first, w)"
| "close_clients closeErr p (uid # uids) first w =
     (let client = the (sessions_Client p uid)
      in close_clients closeErr p uids (if closeErr client \<noteq> None \<and> first = None then closeErr client else first)
           (w\<lparr>sw_closed := sw_closed w @ [client]\<rparr>))"

definition sessions_Close :: "(SessionPool \<Rightarrow> string list) \<Rightarrow> (nat \<Rightarrow> goerr option) \<Rightarrow> SessionPool \<Rightarrow> session_world \<Rightarrow>
    goerr option \<times> session_world" where
  "sessions_Close order closeErr p w = close_clients closeErr p (order p) None w"

definition session_token :: "(string \<Rightarrow> string \<times> bool) option \<Rightarrow> Identity \<Rightarrow> string" where
  "session_token tokens identity =
     (case tokens of
        None \<Rightarrow> id_Token identity
      | Some tokenFor \<Rightarrow>
          (case tokenFor (id_UID identity) of (resolved, ok) \<Rightarrow> if ok then resolved else id_Token identity))"

definition gateway_for :: "Target \<Rightarrow> nat \<Rightarrow> string" where
  "gateway_for tgt i = TrimSpace (tg_GatewayTCPAddrs tgt ! (i mod length (tg_GatewayTCPAddrs tgt)))"

fun connect_loop :: "dialer \<Rightarrow> (SessionPool \<Rightarrow> string list) \<Rightarrow> (nat \<Rightarrow> goerr option) \<Rightarrow> Target \<Rightarrow>
    (string \<Rightarrow> string \<times> bool) option \<Rightarrow> Identity list \<Rightarrow> nat \<Rightarrow> SessionPool \<Rightarrow> session_world \<Rightarrow>
    SessionPool result \<times> session_world" where
  "connect_loop dial order closeErr tgt tokens [] i pool w = (Inr pool, w)"
| "connect_loop dial order closeErr tgt tokens (identity # rest) i pool w =
     (case call_factory dial tgt identity (session_token tokens identity) (gateway_for tgt i) w of
        (Inl err, w) \<Rightarrow> (Inl err, snd (sessions_Close order closeErr pool w))
      | (Inr client, w) \<Rightarrow>
          connect_loop dial order closeErr tgt tokens rest (Suc i)
            (pool\<lparr>sn_clients := fmupd (id_UID identity) client (sn_clients pool)\<rparr>) w)"

text \<open>The optional input \<open>tokens\<close>: missing, of the wrong type, or a token source.\<close>

definition session_tokens :: "unit_value TestRunEnv \<Rightarrow> (string \<Rightarrow> string \<times> bool) option result" where
  "session_tokens env =
     (case te_Input ''tokens'' env of
        Inl _ \<Rightarrow> Inr None
      | Inr v \<Rightarrow>
          (case as_token_source v of
             None \<Rightarrow> Inl (Errorf ''session_pool: tokens input has unexpected type %T'' [])
           | Some tokenFor \<Rightarrow> Inr (Some tokenFor)))"

definition session_Run :: "dialer \<Rightarrow> (SessionPool \<Rightarrow> string list) \<Rightarrow> (nat \<Rightarrow> goerr option) \<Rightarrow>
    (unit_value \<Rightarrow> string result) \<Rightarrow> (unit_value, Target) typed \<Rightarrow> (unit_value, PoolData) typed \<Rightarrow>
    unit_value TestRunEnv \<times> session_world \<Rightarrow> goerr option \<times> unit_value TestRunEnv \<times> session_world" where
  "session_Run dial order closeErr M tt tp = (\<lambda>(env, w).
     (case Input_typed M tt ''target'' env of
        Inl err \<Rightarrow> (Some err, env, w)
      | Inr tgt \<Rightarrow>
          if tg_GatewayTCPAddrs tgt = []
          then (Some (Errorf ''session_pool: target has no gateway_tcp_addrs'' []), env, w)
          else
          (case Input_typed M tp ''identities'' env of
             Inl err \<Rightarrow> (Some err, env, w)
           | Inr identities \<Rightarrow>
               (case session_tokens env of
                  Inl err \<Rightarrow> (Some err, env, w)
                | Inr tokens \<Rightarrow>
                    (case connect_loop dial order closeErr tgt tokens (po_Items identities) 0 \<lparr>sn_clients = fmempty\<rparr> w of
                       (Inl err, w) \<Rightarrow> (Some err, env, w)
                     | (Inr pool, w) \<Rightarrow>
                         (None, te_SetOutput ''message_sender'' (SessionsV pool)
                            (te_SetOutput ''group_sender'' (SessionsV pool) env), w))))))"

section \<open>Every client is opened once, and closed if the pool is not built\<close>

definition new_session_world :: session_world where
  "new_session_world = \<lparr>sw_calls = [], sw_closed = []\<rparr>"

text \<open>Go's order of a map: its keys, each once.\<close>

definition range_order :: "(SessionPool \<Rightarrow> string list) \<Rightarrow> bool" where
  "range_order order \<longleftrightarrow> (\<forall>p. distinct (order p) \<and> set (order p) = fset (fmdom (sn_clients p)))"

definition planned_call :: "Target \<Rightarrow> (string \<Rightarrow> string \<times> bool) option \<Rightarrow> Identity list \<Rightarrow> nat \<Rightarrow> Identity \<times> string \<times> string" where
  "planned_call tgt tokens items i = (items ! i, session_token tokens (items ! i), gateway_for tgt i)"

lemma close_clients_closed:
  "sw_closed (snd (close_clients closeErr p uids first w)) = sw_closed w @ map (\<lambda>uid. the (sessions_Client p uid)) uids"
  "sw_calls (snd (close_clients closeErr p uids first w)) = sw_calls w"
  by (induction uids arbitrary: first w) (simp_all add: Let_def)

text \<open>The clients of the first \<open>i\<close> identities.\<close>

definition serves :: "Identity list \<Rightarrow> nat \<Rightarrow> SessionPool \<Rightarrow> bool" where
  "serves items i p \<longleftrightarrow> fset (fmdom (sn_clients p)) = id_UID ` set (take i items) \<and>
     (\<forall>j<i. fmlookup (sn_clients p) (id_UID (items ! j)) = Some j)"

lemma serves_Suc:
  assumes "serves items i p" and "distinct (map id_UID items)" and "i < length items"
  shows "serves items (Suc i) (p\<lparr>sn_clients := fmupd (id_UID (items ! i)) i (sn_clients p)\<rparr>)"
proof -
  have "id_UID (items ! j) \<noteq> id_UID (items ! i)" if "j < i" for j
    using nth_eq_iff_index_eq [OF assms(2), of j i] assms(3) that by simp
  then show ?thesis using assms(1,3)
    by (fastforce simp: serves_def take_Suc_conv_app_nth less_Suc_eq)
qed

lemma serves_closed:
  assumes "serves items i p" and "distinct (map id_UID items)" and "i \<le> length items" and "range_order order"
  shows "mset (map (\<lambda>uid. the (sessions_Client p uid)) (order p)) = mset [0..<i]"
proof -
  have dom: "set (order p) = id_UID ` set (take i items)" and d: "distinct (order p)"
    using assms(1,4) by (simp_all add: serves_def range_order_def)
  have d2: "distinct (map id_UID (take i items))" using assms(2) by (metis distinct_take take_map)
  have "mset (order p) = mset (map id_UID (take i items))"
    using d d2 dom by (intro set_eq_iff_mset_eq_distinct [THEN iffD1]) simp_all
  then have "mset (map (\<lambda>uid. the (sessions_Client p uid)) (order p)) =
      mset (map (\<lambda>uid. the (sessions_Client p uid)) (map id_UID (take i items)))" by (simp only: mset_map)
  also have "map (\<lambda>uid. the (sessions_Client p uid)) (map id_UID (take i items)) = [0..<i]"
    using assms(1,3) by (intro nth_equalityI) (simp_all add: serves_def sessions_Client_def)
  finally show ?thesis .
qed

lemma connect_loop_outcome:
  assumes "distinct (map id_UID items)" and "range_order order" and "serves items i p" and "i \<le> length items"
    and "sw_calls w = map (planned_call tgt tokens items) [0..<i]" and "sw_closed w = []"
    and "connect_loop dial order closeErr tgt tokens (drop i items) i p w = (r, w')"
  shows "(\<exists>p'. r = Inr p' \<and> serves items (length items) p' \<and>
      sw_calls w' = map (planned_call tgt tokens items) [0..<length items] \<and> sw_closed w' = []) \<or>
    (\<exists>k err. r = Inl err \<and> k < length items \<and> sw_calls w' = map (planned_call tgt tokens items) [0..<Suc k] \<and>
      mset (sw_closed w') = mset [0..<k])"
  using assms(3-7)
proof (induction "length items - i" arbitrary: i p w)
  case 0
  then show ?case by (intro disjI1 exI [of _ p]) auto
next
  case (Suc n)
  then have i: "i < length items" by simp
  have dr: "drop i items = items ! i # drop (Suc i) items" by (simp add: Cons_nth_drop_Suc i)
  let ?id = "items ! i"
  let ?w = "w\<lparr>sw_calls := sw_calls w @ [planned_call tgt tokens items i]\<rparr>"
  have len: "length (sw_calls w) = i" using Suc.prems(3) by simp
  have calls: "sw_calls ?w = map (planned_call tgt tokens items) [0..<Suc i]" using Suc.prems(3) by simp
  show ?case
  proof (cases "dial i tgt ?id (session_token tokens ?id) (gateway_for tgt i)")
    case None
    then have "call_factory dial tgt ?id (session_token tokens ?id) (gateway_for tgt i) w = (Inr i, ?w)"
      by (simp add: call_factory_def len planned_call_def)
    with Suc.prems(5) have run: "connect_loop dial order closeErr tgt tokens (drop (Suc i) items) (Suc i)
        (p\<lparr>sn_clients := fmupd (id_UID ?id) i (sn_clients p)\<rparr>) ?w = (r, w')" by (simp add: dr)
    show ?thesis using Suc.hyps(2) Suc.prems(4)
      by (intro Suc.hyps(1) [OF _ serves_Suc [OF Suc.prems(1) assms(1) i] _ calls _ run]) (simp_all add: i Suc_leI)
  next
    case (Some err)
    then have "call_factory dial tgt ?id (session_token tokens ?id) (gateway_for tgt i) w = (Inl err, ?w)"
      by (simp add: call_factory_def len planned_call_def)
    with Suc.prems(5) have "r = Inl err" "w' = snd (sessions_Close order closeErr p ?w)" by (simp_all add: dr)
    moreover have "mset (sw_closed w') = mset [0..<i]" "sw_calls w' = map (planned_call tgt tokens items) [0..<Suc i]"
      using serves_closed [OF Suc.prems(1) assms(1) Suc.prems(2) assms(2)] Suc.prems(4) calls
      by (simp_all add: \<open>w' = _\<close> sessions_Close_def close_clients_closed)
    ultimately show ?thesis using i by blast
  qed
qed

lemma serves_none: "serves items 0 \<lparr>sn_clients = fmempty\<rparr>"
  by (simp add: serves_def)

lemma session_Run_loop:
  assumes "Input_typed M tt ''target'' env = Inr tgt" and "tg_GatewayTCPAddrs tgt \<noteq> []"
    and "Input_typed M tp ''identities'' env = Inr pool" and "session_tokens env = Inr tokens"
  shows "session_Run dial order closeErr M tt tp (env, w) =
    (case connect_loop dial order closeErr tgt tokens (po_Items pool) 0 \<lparr>sn_clients = fmempty\<rparr> w of
       (Inl err, w) \<Rightarrow> (Some err, env, w)
     | (Inr p, w) \<Rightarrow> (None, te_SetOutput ''message_sender'' (SessionsV p) (te_SetOutput ''group_sender'' (SessionsV p) env), w))"
  using assms by (simp add: session_Run_def)

text \<open>
  Prepared tokens are the identities' own: the token a client connects with does not depend on whether the
  tokens of the same pool are wired.
\<close>

lemma token_map_lookup:
  "distinct (map id_UID items) \<Longrightarrow> i \<in> set items \<Longrightarrow>
   fmlookup (foldl (\<lambda>m i. fmupd (id_UID i) (id_Token i) m) m0 items) (id_UID i) = Some (id_Token i)"
proof (induction items arbitrary: m0)
  case (Cons x items)
  have keep: "fmlookup (foldl (\<lambda>m i. fmupd (id_UID i) (id_Token i) m) m items) u = fmlookup m u"
    if "u \<notin> id_UID ` set items" for m u
    using that by (induction items arbitrary: m) auto
  show ?case
  proof (cases "i = x")
    case True
    then show ?thesis using Cons.prems(1) keep [of "id_UID x"] by simp
  next
    case False
    then show ?thesis using Cons by simp
  qed
qed simp

lemma prepared_token:
  assumes "distinct (map id_UID (po_Items pool))" and "i \<in> set (po_Items pool)"
    and "as_token_source (TokensV (token_map pool)) = Some src"
  shows "session_token (Some src) i = id_Token i"
  using token_map_lookup [OF assms(1,2), of fmempty] assms(3) by (auto simp: session_token_def token_map_def)

text \<open>
  C21: No session leaks. Over identities with different user ids, the session pool calls the client factory once per
  identity in order, with the token and the gateway of that identity, until a call fails. If none fails, the pool it publishes twice has exactly
  one client per user id, the one made for it, and nothing is closed. If one fails, nothing is published and every client
  made before is closed exactly once, in whatever order Go ranges over the map.
\<close>

theorem sessions_all_or_nothing:
  assumes "Input_typed M tt ''target'' env = Inr tgt" and "tg_GatewayTCPAddrs tgt \<noteq> []"
    and "Input_typed M tp ''identities'' env = Inr pool" and "session_tokens env = Inr tokens"
    and "distinct (map id_UID (po_Items pool))" and "range_order order"
    and "session_Run dial order closeErr M tt tp (env, new_session_world) = (err, env', w')"
  shows "(err = None \<and> sw_calls w' = map (planned_call tgt tokens (po_Items pool)) [0..<length (po_Items pool)] \<and> sw_closed w' = [] \<and>
      (\<exists>p. te_Output ''group_sender'' env' = Some (SessionsV p) \<and> te_Output ''message_sender'' env' = Some (SessionsV p) \<and>
        fset (fmdom (sn_clients p)) = id_UID ` set (po_Items pool) \<and>
        (\<forall>j<length (po_Items pool). sessions_Client p (id_UID (po_Items pool ! j)) = Some j))) \<or>
    (\<exists>k<length (po_Items pool). err \<noteq> None \<and> env' = env \<and>
      sw_calls w' = map (planned_call tgt tokens (po_Items pool)) [0..<Suc k] \<and> mset (sw_closed w') = mset [0..<k])"
proof -
  let ?items = "po_Items pool"
  obtain r w1 where l: "connect_loop dial order closeErr tgt tokens ?items 0 \<lparr>sn_clients = fmempty\<rparr> new_session_world = (r, w1)"
    by force
  have l0: "connect_loop dial order closeErr tgt tokens (drop 0 ?items) 0 \<lparr>sn_clients = fmempty\<rparr> new_session_world = (r, w1)"
    using l by simp
  have new: "sw_calls new_session_world = map (planned_call tgt tokens ?items) [0..<0]" "sw_closed new_session_world = []"
    by (simp_all add: new_session_world_def)
  note run = assms(7) [unfolded session_Run_loop [OF assms(1-4)] l]
  from connect_loop_outcome [OF assms(5,6) serves_none le0 new l0] show ?thesis
  proof (elim disjE exE conjE)
    fix p' assume "r = Inr p'" "serves ?items (length ?items) p'" "sw_closed w1 = []"
      "sw_calls w1 = map (planned_call tgt tokens ?items) [0..<length ?items]"
    then show ?thesis using run
      by (intro disjI1) (auto simp: serves_def sessions_Client_def tenv_out.get_put tenv_out.get_put_other)
  next
    fix k e assume "r = Inl e" "k < length ?items" "sw_calls w1 = map (planned_call tgt tokens ?items) [0..<Suc k]"
      "mset (sw_closed w1) = mset [0..<k]"
    then show ?thesis using run by (intro disjI2 exI [of _ k]) auto
  qed
qed

text \<open>With an identity that occurs twice, the client of the first occurrence is neither in the pool nor closed.\<close>

lemma duplicate_identity_leaks:
  assumes "Input_typed M tt ''target'' env = Inr tgt" and "tg_GatewayTCPAddrs tgt \<noteq> []"
    and "Input_typed M tp ''identities'' env = Inr \<lparr>po_Items = [i, i]\<rparr>" and "session_tokens env = Inr None"
  shows "session_Run (\<lambda>_ _ _ _ _. None) order closeErr M tt tp (env, new_session_world) =
    (None, te_SetOutput ''message_sender'' (SessionsV \<lparr>sn_clients = fmupd (id_UID i) 1 (fmupd (id_UID i) 0 fmempty)\<rparr>)
       (te_SetOutput ''group_sender'' (SessionsV \<lparr>sn_clients = fmupd (id_UID i) 1 (fmupd (id_UID i) 0 fmempty)\<rparr>) env),
     \<lparr>sw_calls = [(i, id_Token i, gateway_for tgt 0), (i, id_Token i, gateway_for tgt 1)], sw_closed = []\<rparr>)"
  unfolding session_Run_loop [OF assms]
  by (simp add: call_factory_def new_session_world_def session_token_def)

end
