(* ===== verification/Session_Facts.thy ===== *)
theory Session_Facts
  imports Session_Pool Send_Facts
begin

text \<open>
  Sessions and traffic together: the targets that the pairs unit and the preparation unit produce name only users
  for whom the session pool has a client, so every message that a send unit starts reaches its client.
\<close>

section \<open>Targets with clients\<close>

definition served_targets :: "(string \<Rightarrow> bool) \<Rightarrow> SendTarget list \<Rightarrow> bool" where
  "served_targets client ts \<longleftrightarrow> (\<forall>t\<in>set ts. st_SenderUIDs t \<noteq> [] \<and> (\<forall>u\<in>set (st_SenderUIDs t). client u))"

lemma pickSender_in:
  assumes "st_SenderUIDs t \<noteq> []" and "0 \<le> i"
  shows "\<exists>u\<in>set (st_SenderUIDs t). pickSender t mode i = Inr u"
  using slice_At_mod [OF assms(1), of i] slice_At_0 [OF assms(1)] assms
  by (auto simp: pickSender_def)

lemma sendOne_served:
  assumes "served_targets (cf_client cf) (ss_Items (cf_targets cf))" and "0 < targets_Count (cf_targets cf)" and "0 \<le> i"
  shows "\<exists>req env' t. sendOne_begin cf i env = Inr (Inr req, env') \<and> t \<in> set (ss_Items (cf_targets cf)) \<and>
    sr_ChannelID req = st_ChannelID t \<and> sr_ChannelType req = st_ChannelType t \<and> sr_SenderUID req \<in> set (st_SenderUIDs t)"
proof -
  let ?ts = "ss_Items (cf_targets cf)"
  have ne: "?ts \<noteq> []" using assms(2) by (auto simp: targets_Count_def)
  define t where "t = ?ts ! (nat i mod length ?ts)"
  have at: "targets_At (cf_targets cf) (i mod targets_Count (cf_targets cf)) = Inr t"
    using slice_At_mod [OF ne assms(3)] by (simp add: targets_At_def targets_Count_def t_def)
  have tin: "t \<in> set ?ts" using ne by (simp add: t_def)
  then have t: "st_SenderUIDs t \<noteq> []" "\<And>u. u \<in> set (st_SenderUIDs t) \<Longrightarrow> cf_client cf u"
    using assms(1) by (auto simp: served_targets_def)
  have "0 \<le> i div targets_Count (cf_targets cf)" using assms(2,3) by (simp add: pos_imp_zdiv_nonneg_iff)
  from pickSender_in [OF t(1) this] obtain u where
    u: "u \<in> set (st_SenderUIDs t)" "pickSender t (sp_SenderPick (cf_spec cf)) (i div targets_Count (cf_targets cf)) = Inr u"
    by blast
  obtain n env' where "te_NextID ''msg'' env = (n, env')" by force
  then show ?thesis using u t at
    by (simp add: sendOne_begin_def Let_def) (rule exI [of _ t], simp add: tin)
qed

lemma send_Run_inputs:
  assumes "send_Run oor M tt ts decode now ctxErr env = Inr (cf, s0)"
  shows "Input_typed M tt ''targets'' env = Inr (cf_targets cf)" and "Input_typed M ts ''sender'' env = Inr (cf_client cf)"
    and "0 < targets_Count (cf_targets cf)"
  using assms by (auto simp: send_Run_def split: sum.splits if_splits)

text \<open>The pool a session unit publishes has a client for every identity, whatever the identities are.\<close>

lemma connect_loop_serves:
  "connect_loop dial order closeErr tgt tokens items i p w = (Inr p', w') \<Longrightarrow>
   fset (fmdom (sn_clients p')) = fset (fmdom (sn_clients p)) \<union> id_UID ` set items"
proof (induction items arbitrary: i p w)
  case (Cons x items)
  obtain r w1 where f: "call_factory dial tgt x (session_token tokens x) (gateway_for tgt i) w = (r, w1)" by force
  with Cons.prems obtain c where r: "r = Inr c" by (cases r) auto
  from Cons.prems have "connect_loop dial order closeErr tgt tokens items (Suc i)
      (p\<lparr>sn_clients := fmupd (id_UID x) c (sn_clients p)\<rparr>) w1 = (Inr p', w')" by (simp add: f r)
  from Cons.IH [OF this] show ?case by auto
qed simp

lemma session_Run_serves:
  assumes "session_Run dial order closeErr M tt tp (env, w) = (None, env', w')"
    and "Input_typed M tp ''identities'' env = Inr pool" and "te_Output ''message_sender'' env' = Some v"
  shows "\<exists>p. v = SessionsV p \<and> (\<forall>u\<in>id_UID ` set (po_Items pool). fmlookup (sn_clients p) u \<noteq> None)"
proof -
  from assms(1,2) obtain tgt tokens p where l: "connect_loop dial order closeErr tgt tokens (po_Items pool) 0
      \<lparr>sn_clients = fmempty\<rparr> w = (Inr p, w')"
    and e: "env' = te_SetOutput ''message_sender'' (SessionsV p) (te_SetOutput ''group_sender'' (SessionsV p) env)"
    by (auto simp: session_Run_def split: sum.splits prod.splits if_splits)
  have "fset (fmdom (sn_clients p)) = id_UID ` set (po_Items pool)" using connect_loop_serves [OF l] by simp
  then show ?thesis using assms(3) e by (auto simp: tenv_out.get_put simp flip: fmlookup_dom_iff)
qed

lemma connect_loop_ok:
  "\<exists>p' w'. connect_loop (\<lambda>_ _ _ _ _. None) order closeErr tgt tokens items i p w = (Inr p', w')"
  by (induction items arbitrary: i p w) (simp_all add: call_factory_def Let_def)

text \<open>
  C20: Every message reaches a client. Wire one identity pool into the pairs unit and the session unit, and their
  outputs into a send unit: every message the send unit can start becomes a request to a client the session
  unit opened, from a user of the pool, on a person channel; no message fails for want of a sender or of a session.
\<close>

theorem pairs_have_sessions:
  assumes "fmlookup (te_inputs e1) ''identities'' = Some (PoolV pool)"
    and "fmlookup (te_inputs e2) ''identities'' = Some (PoolV pool)"
    and "session_Run dial order closeErr M tt tp (e1, w) = (None, e1', w')" and "pairs_Run M tp dq e2 = (None, e2')"
    and "ty_assert tp = as_pool" and "ty_assert ts = as_targets" and "ty_assert tm = as_message_sender"
    and "te_Output ''targets'' e2' = Some tv" and "te_Output ''message_sender'' e1' = Some mv"
    and "fmlookup (te_inputs e3) ''targets'' = Some tv" and "fmlookup (te_inputs e3) ''sender'' = Some mv"
    and "send_Run oor M ts tm decode now ctxErr e3 = Inr (cf, s0)" and "0 \<le> i"
  shows "\<exists>req env'. sendOne_begin cf i env = Inr (Inr req, env') \<and> cf_client cf (sr_SenderUID req) \<and>
    sr_SenderUID req \<in> id_UID ` set (po_Items pool) \<and> sr_ChannelID req \<in> id_UID ` set (po_Items pool) \<and>
    sr_ChannelType req = personChannelType"
proof -
  have i1: "Input_typed M tp ''identities'' e1 = Inr pool" and i2: "Input_typed M tp ''identities'' e2 = Inr pool"
    by (rule Input_typed_value [OF assms(1)] Input_typed_value [OF assms(2)], simp add: assms(5))+
  from assms(4) i2 obtain spec items where q: "pairs_decodeSpec dq = Inr spec" and n: "2 \<le> pool_Count pool"
    by (auto simp: pairs_Run_def split: sum.splits if_splits)
  define uids where "uids = map id_UID (po_Items pool)"
  let ?ts = "concat (map (ring_pair (pp_Bidirectional spec) uids) [0..<nat (pp_Count spec)])"
  have tv: "tv = TargetsV \<lparr>ss_Items = ?ts\<rparr>"
    using pairs_Run_ring [OF q i2 n] assms(4,8) by (simp add: uids_def tenv_out.get_put)
  from session_Run_serves [OF assms(3) i1 assms(9)] obtain p where
    mv: "mv = SessionsV p" and cl: "\<forall>u\<in>id_UID ` set (po_Items pool). fmlookup (sn_clients p) u \<noteq> None" by blast
  note r = send_Run_inputs [OF assms(12)]
  have t: "cf_targets cf = \<lparr>ss_Items = ?ts\<rparr>"
    using Input_typed_value [OF assms(10), of ts "\<lparr>ss_Items = ?ts\<rparr>" M] r(1) by (simp add: assms(6) tv)
  have c: "cf_client cf = (\<lambda>u. fmlookup (sn_clients p) u \<noteq> None)"
    using Input_typed_value [OF assms(11), of tm "\<lambda>u. fmlookup (sn_clients p) u \<noteq> None" M] r(2) by (simp add: assms(7) mv)
  have len: "1 < length uids" using n by (simp add: uids_def pool_Count_def)
  have mem: "\<exists>a\<in>set uids. \<exists>b\<in>set uids. x = personTarget a b" if "x \<in> set ?ts" for x
  proof -
    from that obtain k where "x \<in> set (ring_pair (pp_Bidirectional spec) uids k)" by auto
    from ring_pair_targets [OF len this] show ?thesis by auto (metis nth_mem)
  qed
  have us: "set uids = id_UID ` set (po_Items pool)" by (simp add: uids_def)
  have "served_targets (cf_client cf) (ss_Items (cf_targets cf))"
    using mem cl unfolding served_targets_def t c us by (fastforce simp: personTarget_def)
  from sendOne_served [OF this r(3) assms(13), of env] obtain req env' x where
    req: "sendOne_begin cf i env = Inr (Inr req, env')" "x \<in> set ?ts" "sr_ChannelID req = st_ChannelID x"
    "sr_ChannelType req = st_ChannelType x" "sr_SenderUID req \<in> set (st_SenderUIDs x)" by (auto simp: t)
  from mem [OF req(2)] obtain a b where "a \<in> set uids" "b \<in> set uids" "x = personTarget a b" by blast
  then show ?thesis using req cl by (auto simp: us c personTarget_def)
qed

section \<open>An example\<close>

definition demo_identities :: PoolData where
  "demo_identities = \<lparr>po_Items = map (pool_identity
     \<lparr>ps_Total = 3, ps_UIDPrefix = ''user'', ps_DevicePrefix = ''device'', ps_TokenPrefix = ''t''\<rparr>) [0..2]\<rparr>"

definition demo_session_env :: "unit_value TestRunEnv" where
  "demo_session_env = NewTestRunEnv ''r'' ''sessions''
     (fmupd ''target'' (TargetV \<lparr>tg_APIAddrs = [], tg_GatewayTCPAddrs = [''gw-a '', ''gw-b''], tg_BenchAPIToken = [],
        tg_OperationTimeout = 0\<rparr>) (fmupd ''identities'' (PoolV demo_identities) fmempty))"

definition demo_order :: "SessionPool \<Rightarrow> string list" where
  "demo_order p = map_keys (sn_clients p)"

definition demo_tt :: "(unit_value, Target) typed" where "demo_tt = \<lparr>ty_assert = as_target, ty_Unmarshal = no_json\<rparr>"
definition demo_tp :: "(unit_value, PoolData) typed" where "demo_tp = \<lparr>ty_assert = as_pool, ty_Unmarshal = no_json\<rparr>"

lemma demo_session_inputs:
  "Input_typed (\<lambda>_. no_json []) demo_tt ''target'' demo_session_env = Inr \<lparr>tg_APIAddrs = [],
     tg_GatewayTCPAddrs = [''gw-a '', ''gw-b''], tg_BenchAPIToken = [], tg_OperationTimeout = 0\<rparr>"
  "Input_typed (\<lambda>_. no_json []) demo_tp ''identities'' demo_session_env = Inr demo_identities"
  "session_tokens demo_session_env = Inr None"
  by (simp_all add: Input_typed_def te_Input_def demo_session_env_def NewTestRunEnv_def demo_tt_def demo_tp_def session_tokens_def)

lemma demo_order_ok: "range_order demo_order"
  by (simp add: range_order_def demo_order_def)

lemma demo_identities_distinct: "distinct (map id_UID (po_Items demo_identities))"
  using pool_uids_distinct(1) by (simp add: demo_identities_def comp_def)

definition demo_dial :: dialer where
  "demo_dial n tgt identity token gateway = (if n = 1 then Some index_panic else None)"

text \<open>The second dial fails: the first client is closed.\<close>

theorem sessions_all_or_nothing_witness:
  "\<exists>k<3. mset (sw_closed (snd (snd (session_Run demo_dial demo_order (\<lambda>_. None)
      (\<lambda>_. no_json []) demo_tt demo_tp (demo_session_env, new_session_world))))) = mset [0..<k]"
proof -
  obtain err env' w' where r: "session_Run demo_dial demo_order (\<lambda>_. None)
      (\<lambda>_. no_json []) demo_tt demo_tp (demo_session_env, new_session_world) = (err, env', w')" by (metis prod_cases3)
  have len: "length (po_Items demo_identities) = 3" by (simp add: demo_identities_def)
  have gw: "tg_GatewayTCPAddrs \<lparr>tg_APIAddrs = [], tg_GatewayTCPAddrs = [''gw-a '', ''gw-b''], tg_BenchAPIToken = [],
      tg_OperationTimeout = 0\<rparr> \<noteq> []" by simp
  from sessions_all_or_nothing [OF demo_session_inputs(1) gw demo_session_inputs(2,3) demo_identities_distinct demo_order_ok r]
  have "mset (sw_closed w') = mset [0..<0] \<or> (\<exists>k<3. mset (sw_closed w') = mset [0..<k])"
    unfolding len by (elim disjE exE conjE) auto
  then show ?thesis unfolding r by (elim disjE) (auto intro: exI [of _ "0::nat"])
qed

definition demo_pairs_env :: "unit_value TestRunEnv" where
  "demo_pairs_env = NewTestRunEnv ''r'' ''pairs'' (fmupd ''identities'' (PoolV demo_identities) fmempty)"

theorem pairs_have_sessions_witness:
  "\<exists>e1' w' e2' cf s0 req env'.
     session_Run (\<lambda>_ _ _ _ _. None) demo_order (\<lambda>_. None) (\<lambda>_. no_json []) demo_tt demo_tp (demo_session_env, new_session_world) =
       (None, e1', w') \<and> pairs_Run (\<lambda>_. no_json []) demo_tp demo_pair_spec demo_pairs_env = (None, e2') \<and>
     send_Run (\<lambda>_. 0) (\<lambda>_. no_json []) \<lparr>ty_assert = as_targets, ty_Unmarshal = no_json\<rparr>
       \<lparr>ty_assert = as_message_sender, ty_Unmarshal = no_json\<rparr> demo_send_spec 100 None
       (NewTestRunEnv ''r'' ''send'' (fmupd ''targets'' (the (te_Output ''targets'' e2'))
          (fmupd ''sender'' (the (te_Output ''message_sender'' e1')) fmempty))) = Inr (cf, s0) \<and>
     sendOne_begin cf 5 demo_pairs_env = Inr (Inr req, env') \<and> cf_client cf (sr_SenderUID req)"
proof -
  let ?tv = "TargetsV \<lparr>ss_Items = concat (map (ring_pair True (map id_UID (po_Items demo_identities))) [0..<2])\<rparr>"
  obtain p w' where l: "connect_loop (\<lambda>_ _ _ _ _. None) demo_order (\<lambda>_. None) \<lparr>tg_APIAddrs = [],
      tg_GatewayTCPAddrs = [''gw-a '', ''gw-b''], tg_BenchAPIToken = [], tg_OperationTimeout = 0\<rparr> None
      (po_Items demo_identities) 0 \<lparr>sn_clients = fmempty\<rparr> new_session_world = (Inr p, w')"
    using connect_loop_ok by blast
  let ?mv = "SessionsV p"
  let ?e1 = "te_SetOutput ''message_sender'' ?mv (te_SetOutput ''group_sender'' ?mv demo_session_env)"
  let ?e2 = "te_SetOutput ''targets'' ?tv demo_pairs_env"
  let ?e3 = "NewTestRunEnv ''r'' ''send'' (fmupd ''targets'' ?tv (fmupd ''sender'' ?mv fmempty))"
  let ?ts = "\<lparr>ty_assert = as_targets, ty_Unmarshal = no_json\<rparr>" and ?tm = "\<lparr>ty_assert = as_message_sender, ty_Unmarshal = no_json\<rparr>"
  have r1: "session_Run (\<lambda>_ _ _ _ _. None) demo_order (\<lambda>_. None) (\<lambda>_. no_json []) demo_tt demo_tp (demo_session_env, new_session_world) =
      (None, ?e1, w')"
    by (subst session_Run_loop [OF demo_session_inputs(1) _ demo_session_inputs(2,3)]) (simp_all add: l)
  have i1: "fmlookup (te_inputs demo_session_env) ''identities'' = Some (PoolV demo_identities)"
    and i2: "fmlookup (te_inputs demo_pairs_env) ''identities'' = Some (PoolV demo_identities)"
    by (simp_all add: demo_session_env_def demo_pairs_env_def NewTestRunEnv_def)
  have q: "pairs_decodeSpec demo_pair_spec = Inr \<lparr>pp_Count = 2, pp_Mode = ''ring'', pp_Bidirectional = True\<rparr>" by code_simp
  have p2: "Input_typed (\<lambda>_. no_json []) demo_tp ''identities'' demo_pairs_env = Inr demo_identities"
    by (rule Input_typed_value [OF i2]) (simp add: demo_tp_def)
  have r2: "pairs_Run (\<lambda>_. no_json []) demo_tp demo_pair_spec demo_pairs_env = (None, ?e2)"
    using pairs_Run_ring [OF q p2] by (simp add: demo_identities_def pool_Count_def)
  have o: "te_Output ''targets'' ?e2 = Some ?tv" "te_Output ''message_sender'' ?e1 = Some ?mv" by (simp_all add: tenv_out.get_put)
  have i3: "fmlookup (te_inputs ?e3) ''targets'' = Some ?tv" "fmlookup (te_inputs ?e3) ''sender'' = Some ?mv"
    by (simp_all add: NewTestRunEnv_def)
  have cnt: "0 < targets_Count \<lparr>ss_Items = concat (map (ring_pair True (map id_UID (po_Items demo_identities))) [0..<2])\<rparr>"
    by (simp add: targets_Count_def ring_pair_def Let_def upt_rec)
  obtain cf s0 where r3: "send_Run (\<lambda>_. 0) (\<lambda>_. no_json []) ?ts ?tm demo_send_spec 100 None ?e3 = Inr (cf, s0)"
    using cnt Input_typed_value [OF i3(1), of ?ts] Input_typed_value [OF i3(2), of ?tm]
    by (fastforce simp: send_Run_def traffic_decodeSpec_def demo_send_spec_def)
  have ty: "ty_assert demo_tp = as_pool" "ty_assert ?ts = as_targets" "ty_assert ?tm = as_message_sender" by (simp_all add: demo_tp_def)
  obtain req env' where "sendOne_begin cf 5 demo_pairs_env = Inr (Inr req, env')" "cf_client cf (sr_SenderUID req)"
    using pairs_have_sessions [OF i1 i2 r1 r2 ty o i3 r3, of 5 demo_pairs_env] by auto
  then show ?thesis using r1 r2 r3 o
    by (intro exI [of _ ?e1] exI [of _ w'] exI [of _ ?e2] exI [of _ cf] exI [of _ s0] exI [of _ req] exI [of _ env']) simp
qed

end
