(* ===== verification/Wk_Client.thy ===== *)
theory Wk_Client
  imports Session_Pool
begin

text \<open>
  The WKProto client of a session (\<open>units/wkproto/session_pool/client.go\<close>). The protocol library (codec,
  encryption) and the network are the parameters in \<open>WkLib\<close>: they act on a world \<open>'w\<close>, connections are of
  type \<open>'c\<close>, session keys of type \<open>'k\<close>. Packets have the fields the client reads or writes. A context is its deadline, if it has
  one; whether it has ended is read from the world. The mutexes make each operation one step: \<open>opMu\<close> keeps two sends
  of a client apart. A loop that may not end is a partial function, \<open>None\<close> meaning that it does not.
\<close>

section \<open>Packets and library\<close>

record SendPacket =
  pk_Setting :: "8 word"
  pk_ClientSeq :: "64 word"
  pk_ClientMsgNo :: string
  pk_ChannelID :: string
  pk_ChannelType :: "8 word"
  pk_Payload :: string
  pk_MsgKey :: string

record SendackPacket =
  ka_ClientSeq :: "64 word"
  ka_ClientMsgNo :: string
  ka_ReasonCode :: "8 word"
  ka_MessageID :: int
  ka_MessageSeq :: "64 word"

record ConnackPacket =
  kc_ReasonCode :: "8 word"
  kc_ServerKey :: string
  kc_Salt :: string

record ConnectPacket =
  kn_UID :: string
  kn_DeviceID :: string
  kn_ClientTimestamp :: int
  kn_ClientKey :: string
  kn_Token :: string

datatype wk_frame =
    Connect ConnectPacket
  | Connack ConnackPacket
  | SendF SendPacket
  | Sendack SendackPacket
  | Recv "8 word" string
  | OtherFrame

record ('w, 'c, 'k) WkLib =
  wl_Dial :: "int option \<Rightarrow> string \<Rightarrow> 'w \<Rightarrow> 'c result \<times> 'w"
  wl_CloseConn :: "'c \<Rightarrow> 'w \<Rightarrow> goerr option \<times> 'w"
  wl_SetWriteDeadline :: "'c \<Rightarrow> int option \<Rightarrow> 'w \<Rightarrow> goerr option \<times> 'w"
  wl_SetReadDeadline :: "'c \<Rightarrow> int option \<Rightarrow> 'w \<Rightarrow> goerr option \<times> 'w"
  wl_Write :: "'c \<Rightarrow> string \<Rightarrow> 'w \<Rightarrow> (nat \<times> goerr option) \<times> 'w"
  wl_Decode :: "'c \<Rightarrow> 'w \<Rightarrow> wk_frame result \<times> 'w"
  wl_Encode :: "wk_frame \<Rightarrow> string result"
  wl_ctxErr :: "int option \<Rightarrow> 'w \<Rightarrow> goerr option"
  wl_now :: "'w \<Rightarrow> int"
  wl_NoEncrypt :: "8 word \<Rightarrow> bool"
  wl_Success :: "8 word"
  wl_EncodePublicKey :: "string \<Rightarrow> string"
  wl_DeriveClientSession :: "string \<Rightarrow> string \<Rightarrow> string \<Rightarrow> 'k result"
  wl_EncryptPayload :: "string \<Rightarrow> 'k \<Rightarrow> string result"
  wl_SendMsgKey :: "SendPacket \<Rightarrow> 'k \<Rightarrow> string result"
  wl_DecryptPayload :: "string \<Rightarrow> 'k \<Rightarrow> string result"

record ('c, 'k) wkClient =
  wc_addr :: string
  wc_operationTimeout :: int
  wc_token :: string
  wc_privateKey :: string
  wc_publicKey :: string
  wc_conn :: "'c option"
  wc_sessionCrypto :: "'k option"
  wc_clientSeq :: "64 word"

definition defaultOperationTimeout :: int where "defaultOperationTimeout = 5 * 1000000000"

definition errClientNotConnected :: goerr where
  "errClientNotConnected = Errorf ''wkproto client: not connected'' []"

definition newWKClient :: "(string \<times> string) result \<Rightarrow> string \<Rightarrow> string \<Rightarrow> int \<Rightarrow> ('c, 'k) wkClient result" where
  "newWKClient keyPair addr token timeout =
     (if addr = [] then Inl (Errorf ''wkproto client: addr is required'' [])
      else case keyPair of
             Inl err \<Rightarrow> Inl err
           | Inr (priv, publ) \<Rightarrow>
               Inr \<lparr>wc_addr = addr,
                    wc_operationTimeout = (if timeout \<le> 0 then defaultOperationTimeout else timeout),
                    wc_token = token, wc_privateKey = priv, wc_publicKey = publ, wc_conn = None,
                    wc_sessionCrypto = None, wc_clientSeq = 0\<rparr>)"

section \<open>Contexts\<close>

definition withDefaultTimeout :: "('w, 'c, 'k) WkLib \<Rightarrow> ('c, 'k) wkClient \<Rightarrow> int option \<Rightarrow> 'w \<Rightarrow> int option" where
  "withDefaultTimeout lib c ctx w =
     (case ctx of Some d \<Rightarrow> Some d | None \<Rightarrow> Some (wl_now lib w + wc_operationTimeout c))"

definition withRequestTimeout :: "('w, 'c, 'k) WkLib \<Rightarrow> ('c, 'k) wkClient \<Rightarrow> int \<Rightarrow> int option \<Rightarrow> 'w \<Rightarrow> int option" where
  "withRequestTimeout lib c requested ctx w =
     (case ctx of
        Some d \<Rightarrow> Some d
      | None \<Rightarrow> if 0 < requested then Some (wl_now lib w + requested) else withDefaultTimeout lib c ctx w)"

text \<open>\<open>run\<close> with the deadline of the context set, and the deadline taken back afterwards.\<close>

definition withDeadline :: "int option \<Rightarrow> (int option \<Rightarrow> 'w \<Rightarrow> goerr option \<times> 'w) \<Rightarrow> ('w \<Rightarrow> 'r result \<times> 'w) \<Rightarrow> 'w \<Rightarrow>
    'r result \<times> 'w" where
  "withDeadline ctx setDeadline run w =
     (case ctx of
        None \<Rightarrow> run w
      | Some d \<Rightarrow>
          (case setDeadline (Some d) w of
             (Some err, w) \<Rightarrow> (Inl err, w)
           | (None, w) \<Rightarrow> (case run w of (r, w) \<Rightarrow> (r, snd (setDeadline None w)))))"

section \<open>Reading and writing\<close>

definition currentConn :: "('c, 'k) wkClient \<Rightarrow> 'c result" where
  "currentConn c = (case wc_conn c of None \<Rightarrow> Inl errClientNotConnected | Some conn \<Rightarrow> Inr conn)"

text \<open>The loop of \<open>writeFrame\<close>. It runs as long as writes take nothing and report no error.\<close>

partial_function (option) write_payload ::
  "('w, 'c, 'k) WkLib \<Rightarrow> 'c \<Rightarrow> string \<Rightarrow> 'w \<Rightarrow> (unit result \<times> 'w) option" where
  "write_payload lib conn payload w =
     (if payload = [] then Some (Inr (), w)
      else case wl_Write lib conn payload w of
             ((n, Some err), w) \<Rightarrow> Some (Inl err, w)
           | ((n, None), w) \<Rightarrow> write_payload lib conn (drop n payload) w)"

declare write_payload.simps [code]

definition writeFrame :: "('w, 'c, 'k) WkLib \<Rightarrow> ('c, 'k) wkClient \<Rightarrow> int option \<Rightarrow> wk_frame \<Rightarrow> 'w \<Rightarrow> (goerr option \<times> 'w) option" where
  "writeFrame lib c ctx f w =
     (let ctx = withDefaultTimeout lib c ctx w
      in case currentConn c of
           Inl err \<Rightarrow> Some (Some err, w)
         | Inr conn \<Rightarrow>
             (case wl_Encode lib f of
                Inl err \<Rightarrow> Some (Some err, w)
              | Inr payload \<Rightarrow>
                  (case ctx of
                     None \<Rightarrow> map_option (\<lambda>(r, w). (case r of Inl err \<Rightarrow> Some err | Inr _ \<Rightarrow> wl_ctxErr lib ctx w, w))
                               (write_payload lib conn payload w)
                   | Some d \<Rightarrow>
                       (case wl_SetWriteDeadline lib conn (Some d) w of
                          (Some err, w) \<Rightarrow> Some (Some err, w)
                        | (None, w) \<Rightarrow>
                            (case write_payload lib conn payload w of
                               None \<Rightarrow> None
                             | Some (r, w) \<Rightarrow>
                                 (let w = snd (wl_SetWriteDeadline lib conn None w)
                                  in Some (case r of Inl err \<Rightarrow> Some err | Inr _ \<Rightarrow> wl_ctxErr lib ctx w, w)))))))"

definition applyConnack :: "('w, 'c, 'k) WkLib \<Rightarrow> ConnackPacket \<Rightarrow> ('c, 'k) wkClient \<Rightarrow> goerr option \<times> ('c, 'k) wkClient" where
  "applyConnack lib connack c =
     (if kc_ServerKey connack = [] \<or> kc_Salt connack = [] then (None, c)
      else case wl_DeriveClientSession lib (wc_privateKey c) (kc_ServerKey connack) (kc_Salt connack) of
             Inl err \<Rightarrow> (Some err, c)
           | Inr crypto \<Rightarrow> (None, c\<lparr>wc_sessionCrypto := Some crypto\<rparr>))"

text \<open>\<open>return f, ctx.Err()\<close>: the callers look at the error first.\<close>

definition or_ctxErr :: "('w, 'c, 'k) WkLib \<Rightarrow> int option \<Rightarrow> 'w \<Rightarrow> wk_frame \<Rightarrow> wk_frame result" where
  "or_ctxErr lib ctx w f = (case wl_ctxErr lib ctx w of Some err \<Rightarrow> Inl err | None \<Rightarrow> Inr f)"

definition readFrame :: "('w, 'c, 'k) WkLib \<Rightarrow> int option \<Rightarrow> ('c, 'k) wkClient \<times> 'w \<Rightarrow> wk_frame result \<times> ('c, 'k) wkClient \<times> 'w" where
  "readFrame lib ctx = (\<lambda>(c, w).
     (case currentConn c of
        Inl err \<Rightarrow> (Inl err, c, w)
      | Inr conn \<Rightarrow>
          (case withDeadline ctx (wl_SetReadDeadline lib conn) (wl_Decode lib conn) w of
             (Inl err, w) \<Rightarrow> (Inl err, c, w)
           | (Inr (Connack pkt), w) \<Rightarrow>
               (case applyConnack lib pkt c of
                  (Some err, c) \<Rightarrow> (Inl err, c, w)
                | (None, c) \<Rightarrow> (or_ctxErr lib ctx w (Connack pkt), c, w))
           | (Inr (Recv setting payload), w) \<Rightarrow>
               (case wc_sessionCrypto c of
                  None \<Rightarrow> (or_ctxErr lib ctx w (Recv setting payload), c, w)
                | Some crypto \<Rightarrow>
                    if wl_NoEncrypt lib setting then (or_ctxErr lib ctx w (Recv setting payload), c, w)
                    else (case wl_DecryptPayload lib payload crypto of
                            Inl err \<Rightarrow> (Inl err, c, w)
                          | Inr plain \<Rightarrow> (or_ctxErr lib ctx w (Recv setting plain), c, w)))
           | (Inr f, w) \<Rightarrow> (or_ctxErr lib ctx w f, c, w))))"

section \<open>Operations\<close>

definition wk_Connect :: "('w, 'c, 'k) WkLib \<Rightarrow> int option \<Rightarrow> string \<Rightarrow> string \<Rightarrow> ('c, 'k) wkClient \<times> 'w \<Rightarrow>
    (goerr option \<times> ('c, 'k) wkClient \<times> 'w) option" where
  "wk_Connect lib ctx uid deviceID = (\<lambda>(c, w).
     (let ctx = withDefaultTimeout lib c ctx w
      in case wl_Dial lib ctx (wc_addr c) w of
           (Inl err, w) \<Rightarrow> Some (Some err, c, w)
         | (Inr conn, w) \<Rightarrow>
             (let c = c\<lparr>wc_conn := Some conn, wc_sessionCrypto := None\<rparr>
              in case writeFrame lib c ctx
                    (Connect \<lparr>kn_UID = uid, kn_DeviceID = deviceID, kn_ClientTimestamp = wl_now lib w sdiv 1000000,
                              kn_ClientKey = wl_EncodePublicKey lib (wc_publicKey c), kn_Token = wc_token c\<rparr>) w of
                   None \<Rightarrow> None
                 | Some (Some err, w) \<Rightarrow> Some (Some err, c, w)
                 | Some (None, w) \<Rightarrow>
                     (case readFrame lib ctx (c, w) of
                        (Inl err, c, w) \<Rightarrow> Some (Some err, c, w)
                      | (Inr (Connack connack), c, w) \<Rightarrow>
                          Some (if kc_ReasonCode connack \<noteq> wl_Success lib
                                then Some (Errorf ''wkproto connect: unexpected reason code %s'' [ArgI (uint (kc_ReasonCode connack))])
                                else None, c, w)
                      | (Inr _, c, w) \<Rightarrow> Some (Some (Errorf ''wkproto connect: expected connack, got %T'' []), c, w)))))"

definition wk_Close :: "('w, 'c, 'k) WkLib \<Rightarrow> ('c, 'k) wkClient \<times> 'w \<Rightarrow> goerr option \<times> ('c, 'k) wkClient \<times> 'w" where
  "wk_Close lib = (\<lambda>(c, w).
     (let c' = c\<lparr>wc_conn := None, wc_sessionCrypto := None\<rparr>
      in case wc_conn c of
           None \<Rightarrow> (None, c', w)
         | Some conn \<Rightarrow> (case wl_CloseConn lib conn w of (err, w) \<Rightarrow> (err, c', w))))"

definition sendackMatchesRequest :: "SendackPacket \<Rightarrow> string \<Rightarrow> 64 word \<Rightarrow> bool" where
  "sendackMatchesRequest ack clientMsgNo clientSeq =
     (if clientMsgNo \<noteq> [] then ka_ClientMsgNo ack = clientMsgNo else ka_ClientSeq ack = clientSeq)"

text \<open>\<open>send\<close>: the packet as it goes on the wire, encrypted when the session has keys.\<close>

definition wire_packet :: "('w, 'c, 'k) WkLib \<Rightarrow> ('c, 'k) wkClient \<Rightarrow> SendPacket \<Rightarrow> SendPacket result" where
  "wire_packet lib c pkt =
     (case wc_sessionCrypto c of
        None \<Rightarrow> Inr pkt
      | Some crypto \<Rightarrow>
          if wl_NoEncrypt lib (pk_Setting pkt) then Inr pkt
          else (case wl_EncryptPayload lib (pk_Payload pkt) crypto of
                  Inl err \<Rightarrow> Inl err
                | Inr encrypted \<Rightarrow>
                    (let cloned = pkt\<lparr>pk_Payload := encrypted\<rparr>
                     in case wl_SendMsgKey lib cloned crypto of
                          Inl err \<Rightarrow> Inl err
                        | Inr msgKey \<Rightarrow> Inr (cloned\<lparr>pk_MsgKey := msgKey\<rparr>))))"

definition wk_send :: "('w, 'c, 'k) WkLib \<Rightarrow> ('c, 'k) wkClient \<Rightarrow> int option \<Rightarrow> SendPacket \<Rightarrow> 'w \<Rightarrow> (goerr option \<times> 'w) option" where
  "wk_send lib c ctx pkt w =
     (case wire_packet lib c pkt of
        Inl err \<Rightarrow> Some (Some err, w)
      | Inr cloned \<Rightarrow> writeFrame lib c ctx (SendF cloned) w)"

text \<open>The loop of \<open>SendAndWaitAck\<close>: frames are read until one ends the wait.\<close>

definition ack_answer :: "('w, 'c, 'k) WkLib \<Rightarrow> SendackPacket \<Rightarrow> int \<Rightarrow> SendAck result" where
  "ack_answer lib ack latency =
     (if ka_ReasonCode ack \<noteq> wl_Success lib then Inl (Errorf ''sendack reason code %s'' [ArgI (uint (ka_ReasonCode ack))])
      else Inr \<lparr>sk_MessageID = ka_MessageID ack, sk_MessageSeq = ka_MessageSeq ack, sk_WireLatency = latency\<rparr>)"

partial_function (option) wait_ack :: "('w, 'c, 'k) WkLib \<Rightarrow> int option \<Rightarrow> string \<Rightarrow> 64 word \<Rightarrow> int \<Rightarrow>
    ('c, 'k) wkClient \<times> 'w \<Rightarrow> (SendAck result \<times> ('c, 'k) wkClient \<times> 'w) option" where
  "wait_ack lib ctx clientMsgNo clientSeq wireStart s =
     (case readFrame lib ctx s of
        (Inl err, s) \<Rightarrow> Some (Inl err, s)
      | (Inr (Sendack ack), s) \<Rightarrow>
          if \<not> sendackMatchesRequest ack clientMsgNo clientSeq then wait_ack lib ctx clientMsgNo clientSeq wireStart s
          else Some (ack_answer lib ack (wl_now lib (snd s) - wireStart), s)
      | (Inr _, s) \<Rightarrow> wait_ack lib ctx clientMsgNo clientSeq wireStart s)"

declare wait_ack.simps [code]

definition send_packet :: "SendRequest \<Rightarrow> 64 word \<Rightarrow> SendPacket" where
  "send_packet req clientSeq =
     \<lparr>pk_Setting = 0, pk_ClientSeq = clientSeq, pk_ClientMsgNo = sr_ClientMsgNo req, pk_ChannelID = sr_ChannelID req,
      pk_ChannelType = sr_ChannelType req, pk_Payload = sr_Payload req, pk_MsgKey = []\<rparr>"

definition wk_SendAndWaitAck :: "('w, 'c, 'k) WkLib \<Rightarrow> int option \<Rightarrow> SendRequest \<Rightarrow> ('c, 'k) wkClient \<times> 'w \<Rightarrow>
    (SendAck result \<times> ('c, 'k) wkClient \<times> 'w) option" where
  "wk_SendAndWaitAck lib ctx req = (\<lambda>(c, w).
     (let ctx = withRequestTimeout lib c (sr_Timeout req) ctx w;
          c = c\<lparr>wc_clientSeq := wc_clientSeq c + 1\<rparr>;
          wireStart = wl_now lib w
      in case wk_send lib c ctx (send_packet req (wc_clientSeq c)) w of
           None \<Rightarrow> None
         | Some (Some err, w) \<Rightarrow> Some (Inl err, c, w)
         | Some (None, w) \<Rightarrow> wait_ack lib ctx (sr_ClientMsgNo req) (wc_clientSeq c) wireStart (c, w)))"

definition wk_SendGroupAndWaitAck :: "('w, 'c, 'k) WkLib \<Rightarrow> int option \<Rightarrow> GroupSendRequest \<Rightarrow> ('c, 'k) wkClient \<times> 'w \<Rightarrow>
    (SendAck result \<times> ('c, 'k) wkClient \<times> 'w) option" where
  "wk_SendGroupAndWaitAck lib ctx req =
     wk_SendAndWaitAck lib ctx \<lparr>sr_ChannelID = gq_ChannelID req, sr_ChannelType = 2, sr_SenderUID = gq_SenderUID req,
       sr_ClientMsgNo = gq_ClientMsgNo req, sr_Payload = gq_Payload req, sr_Timeout = gq_Timeout req\<rparr>"

definition NewProductionClient :: "('w, 'c, 'k) WkLib \<Rightarrow> (string \<times> string) result \<Rightarrow> int option \<Rightarrow> Target \<Rightarrow> Identity \<Rightarrow>
    string \<Rightarrow> string \<Rightarrow> 'w \<Rightarrow> (('c, 'k) wkClient result \<times> 'w) option" where
  "NewProductionClient lib keyPair ctx tgt identity token gatewayAddr w =
     (let timeout = (if tg_OperationTimeout tgt \<le> 0 then defaultOperationTimeout else tg_OperationTimeout tgt)
      in case newWKClient keyPair gatewayAddr token timeout of
           Inl err \<Rightarrow> Some (Inl err, w)
         | Inr client \<Rightarrow>
             (case wk_Connect lib ctx (id_UID identity) (id_DeviceID identity) (client, w) of
                None \<Rightarrow> None
              | Some (Some err, c, w) \<Rightarrow> (case wk_Close lib (c, w) of (_, _, w) \<Rightarrow> Some (Inl err, w))
              | Some (None, c, w) \<Rightarrow> Some (Inr c, w)))"

end
