(* ===== verification/Wk_Facts.thy ===== *)
theory Wk_Facts
  imports Wk_Client
begin

text \<open>
  What a session guarantees: writing a frame writes all of it, waiting for an acknowledgement ends exactly with the first frame that
  decides it, and the acknowledgement returned is the one of the request.
\<close>

section \<open>Writing\<close>

text \<open>The contract of a connection: \<open>sent\<close> is what it has taken so far, and a write without an error takes something.\<close>

definition conn_ok :: "('w, 'c, 'k) WkLib \<Rightarrow> 'c \<Rightarrow> ('w \<Rightarrow> string) \<Rightarrow> bool" where
  "conn_ok lib conn sent \<longleftrightarrow>
     (\<forall>p w n e w'. wl_Write lib conn p w = ((n, e), w') \<longrightarrow> n \<le> length p \<and> sent w' = sent w @ take n p \<and>
        (e = None \<longrightarrow> p \<noteq> [] \<longrightarrow> 0 < n))"

lemma write_payload_total:
  assumes "conn_ok lib conn sent"
  shows "\<exists>r w' n. write_payload lib conn p w = Some (r, w') \<and> n \<le> length p \<and> sent w' = sent w @ take n p \<and>
    (r = Inr () \<longrightarrow> n = length p)"
proof (induction p arbitrary: w rule: length_induct)
  case (1 p)
  show ?case
  proof (cases "p = []")
    case True
    then show ?thesis by (intro exI [of _ "Inr ()"] exI [of _ w] exI [of _ 0]) (simp add: write_payload.simps)
  next
    case False
    obtain n e w1 where w: "wl_Write lib conn p w = ((n, e), w1)" by (metis surj_pair)
    then have n: "n \<le> length p" "sent w1 = sent w @ take n p" "e = None \<Longrightarrow> 0 < n"
      using assms False unfolding conn_ok_def by blast+
    show ?thesis
    proof (cases e)
      case (Some err)
      with w n False show ?thesis
        by (intro exI [of _ "Inl err"] exI [of _ w1] exI [of _ n]) (simp add: write_payload.simps)
    next
      case None
      with n(3) False have "length (drop n p) < length p" by simp
      with "1.IH" obtain r w' k where k: "write_payload lib conn (drop n p) w1 = Some (r, w')" "k \<le> length (drop n p)"
        "sent w' = sent w1 @ take k (drop n p)" "r = Inr () \<longrightarrow> k = length (drop n p)" by blast
      have "write_payload lib conn p w = Some (r, w')" using w None k(1) False by (subst write_payload.simps) simp
      moreover have "sent w' = sent w @ take (n + k) p" using k(3) n(2) by (simp add: take_add)
      ultimately show ?thesis using k n(1) by (intro exI [of _ r] exI [of _ w'] exI [of _ "n + k"]) auto
    qed
  qed
qed

section \<open>Waiting\<close>

fun nth_read :: "('w, 'c, 'k) WkLib \<Rightarrow> int option \<Rightarrow> nat \<Rightarrow> ('c, 'k) wkClient \<times> 'w \<Rightarrow>
    wk_frame result \<times> ('c, 'k) wkClient \<times> 'w" where
  "nth_read lib ctx 0 s = readFrame lib ctx s"
| "nth_read lib ctx (Suc n) s = nth_read lib ctx n (snd (readFrame lib ctx s))"

text \<open>
  Which acknowledgements are for a request: those with its message number, or, if it has none, with its sequence
  number. What ends the wait: an error, or an acknowledgement of the request.
\<close>

definition acks :: "SendackPacket \<Rightarrow> string \<Rightarrow> 64 word \<Rightarrow> bool" where
  "acks ack msgNo sq \<longleftrightarrow> (msgNo \<noteq> [] \<and> ka_ClientMsgNo ack = msgNo) \<or> (msgNo = [] \<and> ka_ClientSeq ack = sq)"

lemma sendackMatchesRequest_acks: "sendackMatchesRequest ack msgNo sq = acks ack msgNo sq"
  by (simp add: sendackMatchesRequest_def acks_def)

definition decides :: "string \<Rightarrow> 64 word \<Rightarrow> wk_frame result \<Rightarrow> bool" where
  "decides msgNo sq r =
     (case r of Inl _ \<Rightarrow> True | Inr (Sendack ack) \<Rightarrow> acks ack msgNo sq | Inr _ \<Rightarrow> False)"

definition decision :: "('w, 'c, 'k) WkLib \<Rightarrow> int \<Rightarrow> wk_frame result \<times> ('c, 'k) wkClient \<times> 'w \<Rightarrow>
    SendAck result \<times> ('c, 'k) wkClient \<times> 'w" where
  "decision lib wireStart r =
     (case r of
        (Inl err, s) \<Rightarrow> (Inl err, s)
      | (Inr (Sendack ack), s) \<Rightarrow> (ack_answer lib ack (wl_now lib (snd s) - wireStart), s)
      | (Inr _, s) \<Rightarrow> (Inl errClientNotConnected, s))"

lemma wait_ack_decides:
  "decides msgNo sq (fst (readFrame lib ctx s)) \<Longrightarrow>
   wait_ack lib ctx msgNo sq wireStart s = Some (decision lib wireStart (readFrame lib ctx s))"
  by (subst wait_ack.simps) (auto simp: sendackMatchesRequest_acks decides_def decision_def split: prod.splits sum.splits wk_frame.splits)

lemma wait_ack_skips:
  "\<not> decides msgNo sq (fst (readFrame lib ctx s)) \<Longrightarrow>
   wait_ack lib ctx msgNo sq wireStart s = wait_ack lib ctx msgNo sq wireStart (snd (readFrame lib ctx s))"
  by (subst wait_ack.simps) (auto simp: sendackMatchesRequest_acks decides_def split: prod.splits sum.splits wk_frame.splits)

lemma wait_ack_first:
  assumes "decides msgNo sq (fst (nth_read lib ctx n s))" and "\<forall>m<n. \<not> decides msgNo sq (fst (nth_read lib ctx m s))"
  shows "wait_ack lib ctx msgNo sq wireStart s = Some (decision lib wireStart (nth_read lib ctx n s))"
  using assms
proof (induction n arbitrary: s)
  case 0
  then show ?case by (simp add: wait_ack_decides)
next
  case (Suc n)
  have "\<not> decides msgNo sq (fst (readFrame lib ctx s))" using Suc.prems(2) by (metis nth_read.simps(1) zero_less_Suc)
  moreover have "\<forall>m<n. \<not> decides msgNo sq (fst (nth_read lib ctx m (snd (readFrame lib ctx s))))"
    using Suc.prems(2) by (metis Suc_less_eq nth_read.simps(2))
  ultimately show ?case using Suc.IH [of "snd (readFrame lib ctx s)"] Suc.prems(1) by (simp add: wait_ack_skips)
qed

lemma wait_ack_returns:
  fixes lib :: "('w, 'c, 'k) WkLib"
  assumes "wait_ack lib ctx msgNo sq wireStart s = Some r"
  shows "\<exists>n. decides msgNo sq (fst (nth_read lib ctx n s))"
proof (rule wait_ack.raw_induct [where P = "\<lambda>lib ctx msgNo sq wireStart s r. \<exists>n. decides msgNo sq (fst (nth_read lib ctx n s))", OF _ assms])
  fix f :: "('w, 'c, 'k) WkLib \<Rightarrow> int option \<Rightarrow> string \<Rightarrow> 64 word \<Rightarrow> int \<Rightarrow> ('c, 'k) wkClient \<times> 'w \<Rightarrow>
      (SendAck result \<times> ('c, 'k) wkClient \<times> 'w) option"
    and lib :: "('w, 'c, 'k) WkLib" and ctx msgNo sq wireStart s r
  assume IH: "\<And>lib ctx msgNo sq wireStart s r. f lib ctx msgNo sq wireStart s = Some r \<Longrightarrow>
      \<exists>n. decides msgNo sq (fst (nth_read lib ctx n s))"
    and eq: "(case readFrame lib ctx s of
        (Inl err, s) \<Rightarrow> Some (Inl err, s)
      | (Inr (Sendack ack), s) \<Rightarrow>
          if \<not> sendackMatchesRequest ack msgNo sq then f lib ctx msgNo sq wireStart s
          else Some (ack_answer lib ack (wl_now lib (snd s) - wireStart), s)
      | (Inr _, s) \<Rightarrow> f lib ctx msgNo sq wireStart s) = Some r"
  show "\<exists>n. decides msgNo sq (fst (nth_read lib ctx n s))"
  proof (cases "decides msgNo sq (fst (readFrame lib ctx s))")
    case True
    then show ?thesis by (intro exI [of _ 0]) simp
  next
    case False
    then have "f lib ctx msgNo sq wireStart (snd (readFrame lib ctx s)) = Some r"
      using eq by (auto simp: sendackMatchesRequest_acks decides_def split: prod.splits sum.splits wk_frame.splits if_splits)
    from IH [OF this] obtain n where "decides msgNo sq (fst (nth_read lib ctx n (snd (readFrame lib ctx s))))" ..
    then show ?thesis by (intro exI [of _ "Suc n"]) simp
  qed
qed

text \<open>Waiting returns exactly when some frame decides it, and then with the first such frame.\<close>

lemma wait_ack_exact:
  "wait_ack lib ctx msgNo sq wireStart s =
   (if \<exists>n. decides msgNo sq (fst (nth_read lib ctx n s))
    then Some (decision lib wireStart (nth_read lib ctx (LEAST n. decides msgNo sq (fst (nth_read lib ctx n s))) s))
    else None)"
proof (cases "\<exists>n. decides msgNo sq (fst (nth_read lib ctx n s))")
  case True
  let ?n = "LEAST n. decides msgNo sq (fst (nth_read lib ctx n s))"
  have "decides msgNo sq (fst (nth_read lib ctx ?n s))" using True by (rule LeastI_ex)
  moreover have "\<forall>m<?n. \<not> decides msgNo sq (fst (nth_read lib ctx m s))" using not_less_Least by blast
  ultimately show ?thesis using True wait_ack_first by fastforce
next
  case False
  then show ?thesis using wait_ack_returns by (metis not_None_eq)
qed

lemma readFrame_seq: "wc_clientSeq (fst (snd (readFrame lib ctx s))) = wc_clientSeq (fst s)"
  by (cases s) (auto simp: readFrame_def applyConnack_def split: sum.splits prod.splits wk_frame.splits option.splits if_splits)

lemma nth_read_seq: "wc_clientSeq (fst (snd (nth_read lib ctx n s))) = wc_clientSeq (fst s)"
  by (induction n arbitrary: s) (simp_all add: readFrame_seq)

text \<open>What the packet on the wire has in common with the one asked for.\<close>

lemma wire_packet_fields:
  "wire_packet lib c pkt = Inr p \<Longrightarrow> pk_ClientSeq p = pk_ClientSeq pkt \<and> pk_ClientMsgNo p = pk_ClientMsgNo pkt \<and>
   pk_ChannelID p = pk_ChannelID pkt \<and> pk_ChannelType p = pk_ChannelType pkt"
  by (auto simp: wire_packet_def Let_def split: option.splits sum.splits if_splits)

text \<open>
  C22: An acknowledgement is for its request. If a send returns an acknowledgement, a packet with the channel and the
  message number of the request and the next sequence number of the client was written, the acknowledgement carries the message
  number of the request (its sequence number, if it has none) and says success, and every frame read before it was no error and no acknowledgement of this
  request. A send whose packet was written returns exactly if some read fails or brings an acknowledgement of the request.
\<close>

theorem ack_is_for_request:
  assumes "ctx1 = withRequestTimeout lib c (sr_Timeout req) ctx w" and "c1 = c\<lparr>wc_clientSeq := wc_clientSeq c + 1\<rparr>"
    and "wire_packet lib c1 (send_packet req (wc_clientSeq c + 1)) = Inr pkt"
    and "writeFrame lib c1 ctx1 (SendF pkt) w = Some (None, w1)"
  shows "pk_ClientSeq pkt = wc_clientSeq c + 1 \<and> pk_ClientMsgNo pkt = sr_ClientMsgNo req \<and>
    pk_ChannelID pkt = sr_ChannelID req \<and> pk_ChannelType pkt = sr_ChannelType req \<and>
    (wk_SendAndWaitAck lib ctx req (c, w) \<noteq> None \<longleftrightarrow>
       (\<exists>n. decides (sr_ClientMsgNo req) (wc_clientSeq c + 1) (fst (nth_read lib ctx1 n (c1, w1))))) \<and>
    (\<forall>ack c' w'. wk_SendAndWaitAck lib ctx req (c, w) = Some (Inr ack, c', w') \<longrightarrow>
       wc_clientSeq c' = wc_clientSeq c + 1 \<and>
       (\<exists>n k. nth_read lib ctx1 n (c1, w1) = (Inr (Sendack k), c', w') \<and>
          acks k (sr_ClientMsgNo req) (wc_clientSeq c + 1) \<and> ka_ReasonCode k = wl_Success lib \<and>
          sk_MessageID ack = ka_MessageID k \<and> sk_MessageSeq ack = ka_MessageSeq k \<and>
          (\<forall>m<n. \<exists>f. fst (nth_read lib ctx1 m (c1, w1)) = Inr f \<and>
             (\<forall>k'. f = Sendack k' \<longrightarrow> \<not> acks k' (sr_ClientMsgNo req) (wc_clientSeq c + 1)))))"
proof -
  let ?sq = "wc_clientSeq c + 1" and ?s = "(c1, w1)" and ?msg = "sr_ClientMsgNo req"
  let ?D = "\<lambda>n. decides ?msg ?sq (fst (nth_read lib ctx1 n ?s))"
  have run: "wk_SendAndWaitAck lib ctx req (c, w) = wait_ack lib ctx1 ?msg ?sq (wl_now lib w) ?s"
    using assms(3,4) by (simp add: wk_SendAndWaitAck_def wk_send_def assms(1,2) Let_def)
  have "wc_clientSeq c' = ?sq \<and> (\<exists>n k. nth_read lib ctx1 n ?s = (Inr (Sendack k), c', w') \<and>
          acks k ?msg ?sq \<and> ka_ReasonCode k = wl_Success lib \<and>
          sk_MessageID ack = ka_MessageID k \<and> sk_MessageSeq ack = ka_MessageSeq k \<and>
          (\<forall>m<n. \<exists>f. fst (nth_read lib ctx1 m ?s) = Inr f \<and>
             (\<forall>k'. f = Sendack k' \<longrightarrow> \<not> acks k' ?msg ?sq)))"
    if w: "wait_ack lib ctx1 ?msg ?sq (wl_now lib w) ?s = Some (Inr ack, c', w')" for ack c' w'
  proof -
    define n where "n = (LEAST n. ?D n)"
    have ex: "\<exists>n. ?D n" and dec: "decision lib (wl_now lib w) (nth_read lib ctx1 n ?s) = (Inr ack, c', w')"
      using w unfolding wait_ack_exact n_def by (auto split: if_splits)
    have D: "?D n" unfolding n_def using ex by (rule LeastI_ex)
    have before: "\<not> ?D m" if "m < n" for m using that not_less_Least unfolding n_def by blast
    obtain r s' where rd: "nth_read lib ctx1 n ?s = (r, s')" by (metis surj_pair)
    from D dec obtain k where k: "r = Inr (Sendack k)" "acks k ?msg ?sq" "s' = (c', w')"
      "ack_answer lib k (wl_now lib w' - wl_now lib w) = Inr ack"
      by (auto simp: rd decides_def decision_def split: sum.splits wk_frame.splits)
    have "wc_clientSeq c' = wc_clientSeq c1" using nth_read_seq [of lib ctx1 n ?s] by (simp add: rd k)
    then have "wc_clientSeq c' = ?sq" by (simp add: assms(2))
    moreover have "\<exists>f. fst (nth_read lib ctx1 m ?s) = Inr f \<and>
        (\<forall>k'. f = Sendack k' \<longrightarrow> \<not> acks k' ?msg ?sq)" if "m < n" for m
      using before [OF that] by (auto simp: decides_def split: sum.splits wk_frame.splits)
    ultimately show ?thesis using k rd
      by (intro conjI exI [of _ n] exI [of _ k]) (auto simp: ack_answer_def split: if_splits)
  qed
  moreover have "wk_SendAndWaitAck lib ctx req (c, w) \<noteq> None \<longleftrightarrow> (\<exists>n. ?D n)"
    unfolding run wait_ack_exact by (cases "\<exists>n. ?D n") (simp_all del: not_None_eq)
  moreover note wire_packet_fields [OF assms(3)]
  ultimately show ?thesis unfolding run by (simp add: send_packet_def)
qed

section \<open>A connection\<close>

text \<open>A world of frames to read and bytes written; the first frame is the acknowledgement of an earlier message.\<close>

definition demo_wk :: "(wk_frame list \<times> string, unit, unit) WkLib" where
  "demo_wk = \<lparr>wl_Dial = (\<lambda>_ _ w. (Inr (), w)), wl_CloseConn = (\<lambda>_ w. (None, w)), wl_SetWriteDeadline = (\<lambda>_ _ w. (None, w)),
     wl_SetReadDeadline = (\<lambda>_ _ w. (None, w)), wl_Write = (\<lambda>_ p (fs, out). ((min 2 (length p), None), fs, out @ take 2 p)),
     wl_Decode = (\<lambda>_ (fs, out). case fs of [] \<Rightarrow> (Inl index_panic, fs, out) | f # fs \<Rightarrow> (Inr f, fs, out)),
     wl_Encode = (\<lambda>_. Inr ''abc''), wl_ctxErr = (\<lambda>_ _. None), wl_now = (\<lambda>_. 0), wl_NoEncrypt = (\<lambda>_. False), wl_Success = 1,
     wl_EncodePublicKey = id, wl_DeriveClientSession = (\<lambda>_ _ _. Inr ()), wl_EncryptPayload = (\<lambda>p _. Inr p),
     wl_SendMsgKey = (\<lambda>_ _. Inr []), wl_DecryptPayload = (\<lambda>p _. Inr p)\<rparr>"

definition demo_wc :: "(unit, unit) wkClient" where
  "demo_wc = \<lparr>wc_addr = ''gw'', wc_operationTimeout = 1, wc_token = [], wc_privateKey = [], wc_publicKey = [],
     wc_conn = Some (), wc_sessionCrypto = None, wc_clientSeq = 0\<rparr>"

definition wk_demo_ack :: "string \<Rightarrow> int \<Rightarrow> wk_frame" where
  "wk_demo_ack n i = Sendack \<lparr>ka_ClientSeq = 1, ka_ClientMsgNo = n, ka_ReasonCode = 1, ka_MessageID = i, ka_MessageSeq = 0\<rparr>"

definition wk_demo_frames :: "wk_frame list \<times> string" where
  "wk_demo_frames = ([wk_demo_ack ''m-0'' 41, Recv 0 [], wk_demo_ack ''m-1'' 42], [])"

definition wk_demo_request :: SendRequest where
  "wk_demo_request = \<lparr>sr_ChannelID = ''u2'', sr_ChannelType = 1, sr_SenderUID = ''u1'', sr_ClientMsgNo = ''m-1'',
     sr_Payload = [], sr_Timeout = 1\<rparr>"

lemma demo_conn_ok: "conn_ok demo_wk () snd"
  by (auto simp: conn_ok_def demo_wk_def min_def)

lemma wk_demo_run: "wk_SendAndWaitAck demo_wk None wk_demo_request (demo_wc, wk_demo_frames) =
   Some (Inr \<lparr>sk_MessageID = 42, sk_MessageSeq = 0, sk_WireLatency = 0\<rparr>, demo_wc\<lparr>wc_clientSeq := 1\<rparr>, [], ''abc'')"
  by code_simp

lemma demo_written: "wire_packet demo_wk (demo_wc\<lparr>wc_clientSeq := 1\<rparr>) (send_packet wk_demo_request 1) = Inr (send_packet wk_demo_request 1)"
   "writeFrame demo_wk (demo_wc\<lparr>wc_clientSeq := 1\<rparr>) (Some 1) (SendF (send_packet wk_demo_request 1)) wk_demo_frames =
     Some (None, fst wk_demo_frames, ''abc'')"
  by code_simp+

theorem ack_is_for_request_witness:
  "\<exists>n k c' w'. nth_read demo_wk (Some 1) n (demo_wc\<lparr>wc_clientSeq := 1\<rparr>, fst wk_demo_frames, ''abc'') = (Inr (Sendack k), c', w') \<and>
     ka_MessageID k = 42 \<and> acks k ''m-1'' 1"
proof -
  have ctx: "Some 1 = withRequestTimeout demo_wk demo_wc (sr_Timeout wk_demo_request) None wk_demo_frames"
    and sq: "wc_clientSeq demo_wc + 1 = 1" and msg: "sr_ClientMsgNo wk_demo_request = ''m-1''" by code_simp+
  from ack_is_for_request [OF ctx refl, unfolded sq, OF demo_written] wk_demo_run show ?thesis
    unfolding msg by fastforce
qed

end
