(* ===== verification/Spec2Isabelle.thy ===== *)
theory Spec2Isabelle
  imports Example_Run Engine_Plan Frame Host_Close Plugin_Check Report Scaffold Server_Tasks Report_Assert Collector_Facts Prom_Facts Session_Facts Wk_Facts
begin

text \<open>
  A model of wkbench (\<open>github.com/WuKongIM/wkbench\<close>), a scenario driven benchmark kernel for WuKongIM written in Go: a scenario
  names units, the kernel wires their typed ports, orders them, runs them and reports what they
  measured; units can live in plugin processes that speak a framed protocol over standard input and output.

  \<^bold>\<open>The parts, in the order of the imports.\<close>

  \<^item> \<open>Go_Prelude\<close>, \<open>Go_Strings\<close>, \<open>Go_Float\<close>, \<open>Go_Paths\<close>: what the sources use of the language and its library
    (errors as values of \<open>goerr\<close>, maps as finite maps, strings as byte lists, \<open>float64\<close> with rounding, URL escaping and path joining).
  \<^item> \<open>Interfaces\<close>: the contracts several components share, as locales: \<open>keyed_store\<close>, \<open>sample_recorder\<close>,
    \<open>scheduler\<close>, \<open>once_closer\<close>. Each is interpreted where a component provides it (\<open>tenv_out\<close>, \<open>ostore\<close>, \<open>tenv_metrics\<close>,
    \<open>mstore\<close>, \<open>topo\<close>, \<open>tenv_close\<close>, \<open>run_close\<close>, \<open>task_done\<close>), and the properties rest on those facts.
  \<^item> \<open>Contract\<close>, \<open>Test_Env\<close> (\<open>benchkit/contract/types.go\<close>): ports, definitions, metric snapshots, and \<open>TestRunEnv\<close>, the
    environment in which a plugin process runs its units.
  \<^item> \<open>Registry\<close> (\<open>benchkit/registry\<close>), \<open>Scenario\<close> (\<open>benchkit/dsl\<close>): unit kinds, scenarios and variable expansion.
  \<^item> \<open>Topo_Sort\<close>, \<open>Graph\<close>, \<open>Graph_Facts\<close>, \<open>Metric_Store\<close>, \<open>Metric_Facts\<close>, \<open>Output_Store\<close>, \<open>Run_Env\<close>, \<open>Engine\<close>,
    \<open>Engine_Facts\<close>, \<open>Engine_Plan\<close>, \<open>Run_Log\<close> (\<open>benchkit/kernel/kernel.go\<close>): wiring and ordering of the units, metrics, outputs and
    their cleanup, the environment of a running unit, and the engine's Validate, Explain, Plan and Run. A unit is a program of
    \<open>RunEnv\<close> calls; what the Go scheduler, clock and contexts decide is read from the world, so the theorems hold for every such behaviour.
    \<open>Example_Run\<close> is a run on a small scenario.
  \<^item> \<open>Frame\<close> (\<open>benchkit/protocol/frame.go\<close>), \<open>Plugin_Manifest\<close> (\<open>pluginhost/manifest.go\<close>, \<open>catalog.go\<close> and the protocol conversions),
    \<open>Port_Gate\<close> (what may cross the process boundary), \<open>Remote_Run\<close> and \<open>Host_Client\<close> (\<open>pluginhost/stdio_client.go\<close>,
    \<open>remote_unit.go\<close>), \<open>Plugin_Server\<close> and \<open>Server_Tasks\<close> (\<open>sdk/go/wkbench/plugin/server.go\<close>): both ends of the plugin protocol.
    \<open>Remote_Facts\<close> composes the two ends; \<open>Host_Facts\<close> and \<open>Server_Tasks\<close> treat the
    concurrent registries as state machines whose steps interleave freely.
  \<^item> The units that ship with the program, each a function of \<open>TestRunEnv\<close> and of the Go behaviour it depends on:
    \<open>Unit_Ports\<close> (the values of \<open>pkg/wkbench/ports\<close>), \<open>Identity_Units\<close> (identity range and group plan), \<open>Traffic_Common\<close>,
    \<open>Traffic_Send\<close>, \<open>Send_Facts\<close>, \<open>Group_Send\<close> (the traffic units), \<open>Float_Bounds\<close> and \<open>Report_Assert\<close> (the assertions),
    \<open>Prom_Text\<close>, \<open>Prom_Facts\<close>, \<open>Metrics_Collector\<close>, \<open>Collector_Facts\<close> (scraping a target's metrics),
    \<open>Bench_Api\<close>, \<open>Prepare_Groups\<close> (the bench API client and the preparation units), \<open>Session_Pool\<close>, \<open>Session_Facts\<close>,
    \<open>Wk_Client\<close>, \<open>Wk_Facts\<close> (the pool of connected sessions and the client of one session).

  \<^bold>\<open>What the lemmas show.\<close> The properties stand at the end of the theory of their component, those that span components below.
  \<open>Topo_Sort\<close> shows that an order is found exactly for acyclic graphs without missing dependencies, \<open>Graph_Facts\<close> that bindings are
  typed, \<open>Engine_Facts\<close> and \<open>Run_Log\<close> relate the log of calls of a run to the graph, \<open>Host_Facts\<close> and \<open>Server_Tasks\<close> are invariants by rule
  induction, \<open>Frame\<close>, \<open>Plugin_Manifest\<close>, \<open>Plugin_Server\<close> and \<open>Prom_Facts\<close> hold round trips. \<open>Send_Facts\<close> accounts for every
  message of a send run, \<open>Collector_Facts\<close> treats the collector as a state machine that finishes once, \<open>Session_Facts\<close> shows that
  preparing a pool leaves all sessions or none, \<open>Wk_Facts\<close> that an acknowledgement answers the request waiting for it.

  \<^bold>\<open>Bounds.\<close> Most loops are recursions over data. \<open>Frame.read_frames\<close> reads at most the given number of frames. The loops of the session client that may
  not end, \<open>write_payload\<close> and \<open>wait_ack\<close>, are partial functions whose result \<open>None\<close> means that they do not return; \<open>write_payload_total\<close> and
  \<open>wait_ack_exact\<close> say when they do. Frame lengths are 32-bit words;
  \<open>int64\<close> sums are written with \<open>wrap64\<close> where the code could overflow; counters that grow by one per call are unbounded.

  \<^bold>\<open>Not modelled.\<close> Code generated from \<open>wkbench_plugin.proto\<close> (the wire encoding of a frame is a parameter), process creation and
  signals, the JSON, regular expression and HTTP libraries and the codec and cryptography of WuKongIM (parameters where they are used),
  the command line, the rendering of reports, scaffolding templates and the test kit.
\<close>

section \<open>The engine\<close>

text \<open>
  C1: Order and teardown of a run. If the graph of the scenario cannot be built, \<open>Engine.Run\<close> makes no call and returns
  that error. Otherwise the units are taken in the order of the graph: all calls of a prefix of them
  are made in the order Validate, Plan, Run (or Start for a background unit), the next unit may have
  made a part of its calls when the run fails, then exactly the background units started so far
  are stopped in reverse order, and last the closable outputs are closed. A run without error
  reaches every unit.
\<close>

theorem run_order_and_teardown:
  "case buildGraph ut_Definition reg scenario of
     Inl err \<Rightarrow> Engine_Run reg host ops scenario w = (Some err, (new_es w)\<lparr>es_status := StatusConfigFailed\<rparr>)
   | Inr g \<Rightarrow> \<exists>ran_units later partial.
       gr_order g = ran_units @ later \<and>
       run_log (mk_cfg host ops scenario g) ran_units later partial (snd (Engine_Run reg host ops scenario w)) \<and>
       (fst (Engine_Run reg host ops scenario w) = None \<longrightarrow> later = [])"
proof (cases "buildGraph ut_Definition reg scenario")
  case (Inr g)
  with Engine_Run_log [OF Inr refl] show ?thesis by simp
qed (simp add: Engine_Run_def)

theorem run_order_and_teardown_witness:
  "\<exists>partial. run_log (mk_cfg demo_host demo_ops demo_scenario demo_graph) [''b'', ''a''] [] partial (snd demo_run)"
  using run_order_and_teardown [where reg = demo_engine and scenario = demo_scenario and host = demo_host and ops = demo_ops and w = 0]
  by (auto simp: demo_built demo_outcome demo_order)

text \<open>
  C2: The verdict of a run. \<open>Engine.Run\<close> returns no error exactly if the status of the result is
  completed, and then every unit of the scenario has a result with status completed and no error.
\<close>

theorem run_verdict:
  "(fst (Engine_Run reg host ops scenario w) = None \<longleftrightarrow>
     es_status (snd (Engine_Run reg host ops scenario w)) = StatusCompleted) \<and>
   (fst (Engine_Run reg host ops scenario w) = None \<longrightarrow>
     (\<forall>n\<in>fset (fmdom (sc_Units scenario)). completed (es_results (snd (Engine_Run reg host ops scenario w))) n))"
proof (cases "buildGraph ut_Definition reg scenario")
  case (Inr g)
  note run = run_units_ok [OF loop_inv_new [of "mk_cfg host ops scenario g" w] refl]
  have units: "fset (fmdom (sc_Units scenario)) = set ([] @ gr_order g)" using buildGraph_order(2) [OF Inr] by simp
  show ?thesis unfolding Engine_Run_graph [OF Inr] units using run(2,3) by blast
qed (simp add: Engine_Run_def new_es_def)

theorem run_verdict_witness: "completed (es_results (snd demo_run)) ''a'' \<and> completed (es_results (snd demo_run)) ''b''"
proof -
  have "fset (fmdom (sc_Units demo_scenario)) = {''b'', ''a''}"
    using buildGraph_order(2) [OF demo_built] demo_order by simp
  with run_verdict [where reg = demo_engine and host = demo_host and ops = demo_ops and scenario = demo_scenario and w = 0]
  show ?thesis by (simp add: demo_outcome)
qed

text \<open>
  C3: Dependencies first, nothing twice. No call of a run is made twice. Whenever a unit is validated, planned, run or started, every unit
  it depends on, directly or not, has run before or has been started.
\<close>

theorem run_dependencies:
  assumes "buildGraph ut_Definition reg scenario = Inr g"
  shows "distinct (es_log (snd (Engine_Run reg host ops scenario w))) \<and>
    (\<forall>xs ev ys d. es_log (snd (Engine_Run reg host ops scenario w)) = xs @ ev # ys \<longrightarrow> ev_forward ev \<longrightarrow>
       (ev_unit ev, d) \<in> (dep_rel (gr_nodes g))\<^sup>+ \<longrightarrow> ran_before d xs)"
proof -
  from Engine_Run_log [OF assms refl, of host ops w] obtain ran_units later partial where
    order: "gr_order g = ran_units @ later" and
    log: "run_log (mk_cfg host ops scenario g) ran_units later partial (snd (Engine_Run reg host ops scenario w))"
    by blast
  have cf: "cf_graph (mk_cfg host ops scenario g) = g" by (simp add: mk_cfg_def)
  have "distinct (es_log (snd (Engine_Run reg host ops scenario w)))"
    using run_log_distinct [OF log] buildGraph_order(1) [OF assms] order by (simp add: cf)
  with run_log_deps [OF assms cf log order] show ?thesis by blast
qed

theorem run_dependencies_witness: "ran_before ''b'' [EvValidate ''b'', EvPlan ''b'', EvStart ''b'', EvStarted ''b'']"
proof -
  have "es_log (snd demo_run) = [EvValidate ''b'', EvPlan ''b'', EvStart ''b'', EvStarted ''b''] @ EvValidate ''a'' #
      [EvPlan ''a'', EvRun ''a'', EvStop ''b'', EvClose (''b'', ''c'')]" by (simp add: demo_outcome)
  with run_dependencies [OF demo_built] demo_dep show ?thesis by fastforce
qed



text \<open>
  C5: Wiring. In a graph that is built, every binding of a unit belongs to one of its declared inputs and reads a declared output of an existing
  unit with the type of the input; and if no unit has an empty name, every required input is bound.
\<close>

theorem wiring_typed:
  assumes "buildGraph defn reg scenario = Inr g" and "fmlookup (gr_nodes g) n = Some node"
  shows "(\<forall>k ref. fmlookup (gn_bindings node) k = Some ref \<longrightarrow>
       (\<exists>input\<in>set (ud_Inputs (gn_def node)). pd_Name input = k \<and> reads_from g input ref)) \<and>
    (fmlookup (sc_Units scenario) [] = None \<longrightarrow>
       (\<forall>input\<in>set (ud_Inputs (gn_def node)). \<not> pd_Optional input \<longrightarrow> fmlookup (gn_bindings node) (pd_Name input) \<noteq> None))"
  using binding_typed [OF assms] required_bound [OF assms] by blast

theorem wiring_typed_witness:
  "\<exists>input\<in>set (ud_Inputs (gn_def (the (fmlookup (gr_nodes demo_graph) ''a'')))).
     pd_Name input = ''c'' \<and> reads_from demo_graph input \<lparr>rr_unit = ''b'', rr_port = ''c''\<rparr>"
proof -
  obtain node where node: "fmlookup (gr_nodes demo_graph) ''a'' = Some node" using demo_node_a by blast
  have "fmlookup (gn_bindings (the (fmlookup (gr_nodes demo_graph) ''a''))) ''c'' = Some \<lparr>rr_unit = ''b'', rr_port = ''c''\<rparr>"
    by code_simp
  with wiring_typed [OF demo_built node] show ?thesis by (simp add: node)
qed

section \<open>Units in plugins\<close>

text \<open>
  A remote run is a local run. When a unit served by a plugin runs without error, the host, reading the frames the
  plugin writes for the request, returns no error, stores for every declared output that was set
  the decoded value under the unit's name, applies exactly the unit's metric snapshots to its
  metrics, and changes nothing else beyond what the frames did that the unit sent while it ran (its artifacts).
\<close>

theorem remote_run_as_local:
  assumes "server_unit units (sq_Kind req) = Inr u"
    and "sv_Run u (run_env_of req ins (ud_Artifacts (sv_Definition u))) \<lparr>pp_sent = [], pp_inbox = answers\<rparr> =
      (None, env, \<lparr>pp_sent = sent, pp_inbox = []\<rparr>)"
    and "codec_ok mj (io_unmarshal io) J (coded_values mj env (ud_Outputs (sv_Definition u)))"
    and "ri_request ids = sq_RequestId req"
    and "\<And>rest. exec ops fs g (host_Run io ids (map Inr (sent @ rest))) s = exec ops fs g (run_frames io ids (map Inr rest) art) s'"
    and "ra_writers art = fmempty"
    and "r = exec ops fs g (host_Run io ids (map Inr (pp_sent
      (snd (handleRun pipe_write mj units req None (Inr ins) \<lparr>pp_sent = [], pp_inbox = answers\<rparr>))))) s"
  shows "fst r = None \<and>
    snd r = with_env (\<lambda>e. e\<lparr>re_metrics := foldl (\<lambda>m x. recordSnapshot x m) (re_metrics e) (te_MetricSnapshots env)\<rparr>)
       (s'\<lparr>ue_outputs := ostore.put_all
            (stored_pairs mj J (re_unitName (ue_env s')) env (ud_Outputs (sv_Definition u))) (ue_outputs s')\<rparr>) \<and>
    (distinct (map pd_Name (ud_Outputs (sv_Definition u))) \<longrightarrow>
      (\<forall>def\<in>set (ud_Outputs (sv_Definition u)). \<forall>v. te_Output (pd_Name def) env = Some v \<longrightarrow>
         os_lookup (re_unitName (ue_env s'), pd_Name def) (ue_outputs (snd r)) = Some (stored_value mj J def v)))"
  using remote_run [OF assms(1-6)] stored_pairs_lookup
  by (auto simp: assms(7) with_env_def)

definition served_def :: UnitDef where
  "served_def = \<lparr>ud_Kind = ''k'', ud_Title = [], ud_Description = [], ud_Inputs = [],
     ud_Outputs = [\<lparr>pd_Name = ''o'', pd_Type = ''t'', pd_Optional = False, pd_Meta = empty_PortMeta\<rparr>],
     ud_Metrics = [], ud_Artifacts = [\<lparr>ad_Name = ''f'', ad_ContentType = []\<rparr>]\<rparr>"

text \<open>A unit that writes an artifact and publishes a number.\<close>

definition served_unit :: "(int, pipe) ServedUnit" where
  "served_unit = \<lparr>sv_Definition = served_def, sv_Validate = (\<lambda>_. None), sv_Plan = (\<lambda>_. Inr []),
     sv_Run = (\<lambda>e io. case artifact_session pipe_read pipe_write e ''f'' [''ab'', ''c''] io of
       (err, io) \<Rightarrow> (err, te_SetOutput ''o'' 3 (xe_TestRunEnv e), io))\<rparr>"

definition served_request :: ServeRequest where
  "served_request = \<lparr>sq_RequestId = ''run-1'', sq_UnitName = ''a'', sq_Kind = ''k'', sq_RunId = ''r'',
     sq_RunDurationMillis = 0, sq_WorkerCount = 1\<rparr>"

definition served_env :: "int remoteRunEnv" where
  "served_env = run_env_of served_request fmempty (ud_Artifacts served_def)"

definition served_marshal :: "int Marshal" where
  "served_marshal = \<lparr>mj_marshal = (\<lambda>v. Inr (itoa v)), mj_ReportOutput = (\<lambda>_. None)\<rparr>"

abbreviation served_state :: "(rvalue, link) uenv" where
  "served_state \<equiv> \<lparr>ue_outputs = newOutputStore, ue_env = sample_run_env, ue_world = \<lparr>lk_sent = [], lk_file = []\<rparr>\<rparr>"

theorem remote_run_as_local_witness:
  "\<exists>answers. fst (exec remote_ops sample_fs empty_graph
     (host_Run (link_io (\<lambda>_. Inr (JInt 3))) (xe_ids served_env)
       (map Inr (pp_sent (snd (handleRun pipe_write served_marshal (newServer [served_unit]) served_request None (Inr fmempty)
         \<lparr>pp_sent = [], pp_inbox = answers\<rparr>)))))
     served_state) = None"
proof -
  have u: "server_unit (newServer [served_unit]) (sq_Kind served_request) = Inr served_unit"
    by (simp add: server_unit_def newServer_def served_unit_def served_def_def served_request_def)
  have itoa_ne: "itoa v \<noteq> []" for v by (simp add: itoa_def)
  have "te_Output ''o'' (te_SetOutput ''o'' 3 (xe_TestRunEnv served_env)) = Some 3" by (rule tenv_out.get_put)
  then have codec: "codec_ok served_marshal (io_unmarshal (link_io (\<lambda>_. Inr (JInt 3)))) JInt
      (coded_values served_marshal (te_SetOutput ''o'' 3 (xe_TestRunEnv served_env)) (ud_Outputs (sv_Definition served_unit)))"
    using itoa_ne by (simp add: codec_ok_def coded_values_def served_unit_def served_def_def served_marshal_def link_io_def reported_def)
  have "map_sum (\<lambda>_. ()) (\<lambda>_. ()) (run_OpenArtifact sample_fs ''f'' sample_run_env) = Inr ()" by code_simp
  then obtain w where "run_OpenArtifact sample_fs ''f'' (ue_env served_state) = Inr w"
    by (cases "run_OpenArtifact sample_fs ''f'' sample_run_env") auto
  moreover have "fmlookup (xe_artifactDefs served_env) ''f'' \<noteq> None" "xe_reader served_env"
    by (simp_all add: served_env_def run_env_of_def newRemoteRunEnv_def served_unit_def served_def_def)
  ultimately obtain answers sent s' where session:
      "artifact_session pipe_read pipe_write served_env ''f'' [''ab'', ''c''] \<lparr>pp_sent = [], pp_inbox = answers\<rparr> =
        (None, \<lparr>pp_sent = sent, pp_inbox = []\<rparr>)"
    and host: "\<forall>rest. exec remote_ops sample_fs empty_graph (host_Run (link_io (\<lambda>_. Inr (JInt 3))) (xe_ids served_env) (map Inr (sent @ rest))) served_state =
       exec remote_ops sample_fs empty_graph (run_frames (link_io (\<lambda>_. Inr (JInt 3))) (xe_ids served_env) (map Inr rest) \<lparr>ra_next = 1, ra_writers = fmempty\<rparr>) s'"
    using artifact_lands [where e = served_env and fsys = sample_fs and g = empty_graph and s = served_state
        and ops = remote_ops and name = "''f''" and ps = "[''ab'', ''c'']" and um = "\<lambda>_. Inr (JInt 3)", OF _ _ _ refl]
    by (metis (no_types) uenv.select_convs(3))
  have run: "sv_Run served_unit (run_env_of served_request fmempty (ud_Artifacts (sv_Definition served_unit)))
      \<lparr>pp_sent = [], pp_inbox = answers\<rparr> = (None, te_SetOutput ''o'' 3 (xe_TestRunEnv served_env), \<lparr>pp_sent = sent, pp_inbox = []\<rparr>)"
    using session by (simp add: served_unit_def flip: served_env_def)
  have ids: "ri_request (xe_ids served_env) = sq_RequestId served_request"
    by (simp add: served_env_def run_env_of_def newRemoteRunEnv_def)
  have closed: "ra_writers \<lparr>ra_next = 1, ra_writers = fmempty\<rparr> = fmempty" by simp
  show ?thesis
    by (rule exI [of _ answers]) (rule remote_run_as_local [OF u run codec ids host [rule_format] closed refl, THEN conjunct1])
qed

text \<open>
  C13: The end of a task reaches the host. The event a plugin writes for a background task whose done channel ended
  with \<open>err\<close> makes the host's task of that id report its end, with an error exactly if \<open>err\<close> is one,
  unless it has reported its end before; other tasks, and the waiting requests, are not affected.
\<close>

theorem background_end_reaches_host:
  assumes "hc_reach c" and "fmlookup (hc_bgTasks c) tid = Some i" and "bt_id rec = tid"
    and "\<not> rt_completeOnce (hc_tasks c ! i)" and "c' = read_frame killed outcome (event_frame rec) c"
  shows "(\<exists>e. rt_done (hc_tasks c' ! i) = [e] \<and> (e = None \<longleftrightarrow> bt_doneErr rec = None)) \<and>
    (\<forall>j<length (hc_tasks c). j \<noteq> i \<longrightarrow> hc_tasks c' ! j = hc_tasks c ! j) \<and> hc_pool c' = hc_pool c"
proof -
  have t: "tinv (hc_nextSeq c) (hc_tasks c) (hc_bgTasks c) (hc_bgStarts c)"
    using hc_reach_inv [OF assms(1)] by (simp add: hc_inv_def)
  note bg = tinvD(4) [OF t assms(2)]
  then have "task_ok (hc_tasks c ! i)" using tinvD(1) [OF t] by simp
  with assms(4) have none: "rt_done (hc_tasks c ! i) = []" by (simp add: task_ok_def)
  let ?event = "if bt_doneErr rec = None then ''completed'' else ''fatal_error''"
  let ?err = "map_option (\<lambda>e. (''BACKGROUND_ERROR'', e)) (bt_doneErr rec)"
  have "c' = map_task i (completeDone (event_error ?event ?err)) c"
    using bg assms(2,3)
    by (simp add: assms(5) read_frame_def event_frame_def dispatchBackgroundEvent_def backgroundTaskForEvent_def)
  moreover have "event_error ?event ?err = None \<longleftrightarrow> bt_doneErr rec = None" by (simp add: event_error_def)
  ultimately show ?thesis using bg assms(4) none by (auto simp: completeDone_def)
qed

definition started_client :: hostClient where
  "started_client = snd (start_reply (None, newRunArtifactState) ''start-2'' 0
     (Inr \<lparr>fr_RequestId = ''start-2'', fr_RunId = ''run'', fr_UnitInstanceId = ''u'', fr_Body = FStartResponse ''bg-1''\<rparr>) demo_client)"

lemma started_client_reach: "hc_reach started_client"
proof -
  have "0 < length (hc_tasks demo_client)" "rt_taskID (hc_tasks demo_client ! 0) = []" by code_simp+
  then show ?thesis unfolding started_client_def by (intro hc_reach.Next [OF demo_client_reach] hc_step.StartReply)
qed

theorem background_end_reaches_host_witness:
  "\<exists>e. rt_done (hc_tasks (read_frame False (None, newRunArtifactState)
     (event_frame (the (fmlookup (sv_tasks (ms_server demo_machine)) ''bg-1''))) started_client) ! 0) = [e]"
proof -
  have "fmlookup (hc_bgTasks started_client) ''bg-1'' = Some 0" "\<not> rt_completeOnce (hc_tasks started_client ! 0)"
    "bt_id (the (fmlookup (sv_tasks (ms_server demo_machine)) ''bg-1'')) = ''bg-1''" by code_simp+
  from background_end_reaches_host [OF started_client_reach this(1,3,2) refl] show ?thesis by blast
qed

section \<open>Planning the example\<close>

lemma demo_plan_ok: "fst (Engine_Plan demo_engine demo_scenario 0) = None"
  by code_simp

theorem plan_outcome_witness:
  "planned (fst (snd (Engine_Plan demo_engine demo_scenario 0))) ''a'' \<and>
   planned (fst (snd (Engine_Plan demo_engine demo_scenario 0))) ''b''"
proof -
  obtain r w' where run: "Engine_Plan demo_engine demo_scenario 0 = (None, r, w')"
    using demo_plan_ok by (metis fst_conv prod_cases3)
  with plan_outcome [of demo_engine demo_scenario 0] demo_order show ?thesis by (simp add: demo_built)
qed

end
